(* ===== verification/Prelude.thy ===== *)
theory Prelude
  imports Main "HOL-Library.Word"
begin

text \<open>
  Shared vocabulary of the development: the machine types of the C code, byte
  buffers as lists of 8-bit words with the memory operations the code applies
  to them (memcpy, memcmp, array slices), and the generic lemmas about them.
  Buffers are lists; an out-of-range access of the C code is either excluded
  by a length hypothesis or reported by the model of the function.
\<close>

unbundle bit_operations_syntax

type_synonym u8 = "8 word"
type_synonym u16 = "16 word"
type_synonym u32 = "32 word"
type_synonym u64 = "64 word"
type_synonym buf = "u8 list"

named_theorems len_simps "lengths of buffers produced by the operations"
named_theorems roundtrip "an operation undone by its inverse"

section \<open>Bytes and slices\<close>

definition xor_bytes :: "buf \<Rightarrow> buf \<Rightarrow> buf" where
  "xor_bytes a b = map2 (XOR) a b"

definition slice :: "nat \<Rightarrow> nat \<Rightarrow> 'a list \<Rightarrow> 'a list" where
  "slice off n xs = take n (drop off xs)"

definition memcpy_at :: "'a list \<Rightarrow> nat \<Rightarrow> 'a list \<Rightarrow> nat \<Rightarrow> 'a list" where
  "memcpy_at dst off src n = take off dst @ take n src @ drop (off + n) dst"

lemma length_xor_bytes [simp, len_simps]:
  "length (xor_bytes a b) = min (length a) (length b)"
  by (simp add: xor_bytes_def)

lemma nth_xor_bytes [simp]:
  "i < length a \<Longrightarrow> i < length b \<Longrightarrow> xor_bytes a b ! i = a ! i XOR b ! i"
  by (simp add: xor_bytes_def)

lemma xor_bytes_Nil [simp]: "xor_bytes [] b = []" "xor_bytes a [] = []"
  by (simp_all add: xor_bytes_def)

lemma xor_bytes_Cons [simp]:
  "xor_bytes (x # a) (y # b) = (x XOR y) # xor_bytes a b"
  by (simp add: xor_bytes_def)

lemma xor_bytes_commute: "xor_bytes a b = xor_bytes b a"
  by (rule nth_equalityI) (auto simp: xor.commute)

lemma xor_bytes_cancel [simp, roundtrip]:
  assumes "length a \<le> length k"
  shows "xor_bytes (xor_bytes a k) k = a"
  using assms by (intro nth_equalityI) (auto simp: xor.assoc)

lemma xor_bytes_cancel_left [simp, roundtrip]:
  assumes "length a \<le> length k"
  shows "xor_bytes k (xor_bytes k a) = a"
  using assms by (intro nth_equalityI) (auto simp flip: xor.assoc)

lemma xor_bytes_append:
  "length a = length c \<Longrightarrow> xor_bytes (a @ b) (c @ d) = xor_bytes a c @ xor_bytes b d"
  by (simp add: xor_bytes_def)

lemma xor_bytes_take [simp]:
  "xor_bytes (take n a) (take n b) = take n (xor_bytes a b)"
  by (simp add: xor_bytes_def take_map take_zip)

lemma length_slice [simp, len_simps]:
  "length (slice off n xs) = min n (length xs - off)"
  by (simp add: slice_def)

lemma nth_slice [simp]:
  "i < n \<Longrightarrow> off + i < length xs \<Longrightarrow> slice off n xs ! i = xs ! (off + i)"
  by (simp add: slice_def)

lemma slice_0 [simp]: "slice 0 n xs = take n xs"
  by (simp add: slice_def)

lemma slice_append [simp]:
  "slice (length xs) n (xs @ ys) = take n ys"
  by (simp add: slice_def)

lemma length_memcpy_at [simp, len_simps]:
  "off + n \<le> length dst \<Longrightarrow> n \<le> length src \<Longrightarrow> length (memcpy_at dst off src n) = length dst"
  by (simp add: memcpy_at_def)

lemma memcpy_at_whole [simp]:
  "length src = n \<Longrightarrow> length dst = n \<Longrightarrow> memcpy_at dst 0 src n = src"
  by (simp add: memcpy_at_def)

lemma slice_memcpy_at [simp, roundtrip]:
  "off \<le> length dst \<Longrightarrow> length src = n \<Longrightarrow> slice off n (memcpy_at dst off src n) = src"
  by (simp add: slice_def memcpy_at_def)

section \<open>Case checks over all bytes\<close>

definition all_bytes :: "u8 list" where
  "all_bytes = map word_of_nat [0..<256]"

lemma all_bytes_complete: "x \<in> set all_bytes"
proof -
  have "x = word_of_nat (unat x)" by simp
  moreover have "unat x < 256" using unsigned_less [of x] by simp
  ultimately show ?thesis unfolding all_bytes_def by (metis atLeastLessThan_upt imageI list.set_map atLeastLessThan_iff le0)
qed

lemma byte_cases_check:
  assumes "list_all P all_bytes"
  shows "P x"
  using assms all_bytes_complete [of x] by (auto simp: list_all_iff)

lemma unat_byte_lt [simp]: "unat (x :: u8) < 256"
  using unsigned_less [of x] by simp

section \<open>Word conversions\<close>

lemma unat_ucast_up:
  assumes "LENGTH('a) \<le> LENGTH('b)"
  shows "unat (ucast (x :: 'a :: len word) :: 'b :: len word) = unat x"
proof -
  have "unat x < 2 ^ LENGTH('a)" by simp
  also have "\<dots> \<le> 2 ^ LENGTH('b)" using assms by simp
  finally show ?thesis by (simp add: unsigned_ucast_eq take_bit_nat_eq_self_iff)
qed

lemma unat_of_nat_small: "n < 2 ^ LENGTH('a) \<Longrightarrow> unat (word_of_nat n :: 'a :: len word) = n"
  by (simp add: unat_of_nat)

section \<open>Folds undone step by step\<close>

lemma fold_preserves:
  assumes "\<And>r s. P s \<Longrightarrow> P (f r s)" "P s"
  shows "P (fold f rs s)"
  using assms(2) by (induction rs arbitrary: s) (auto intro: assms(1))

lemma fold_inverse:
  assumes "\<And>r s. r \<in> set rs \<Longrightarrow> P s \<Longrightarrow> g r (f r s) = s"
    and "\<And>r s. r \<in> set rs \<Longrightarrow> P s \<Longrightarrow> P (f r s)" and "P s"
  shows "fold g (rev rs) (fold f rs s) = s"
  using assms by (induction rs arbitrary: s) auto

end
