(* ===== verification/CText.thy ===== *)
theory CText
  imports Prelude "HOL-Library.Char_ord"
begin

text \<open>
  The C standard library as the sources use it on text: the integer
  conversions of sprintf and sscanf, strlen and strcmp on NUL-free strings
  (plain character lists), and the database client. The MySQL server is not
  part of the sources: a query is its text, and what the server answers is a
  function from query texts to results, an argument of every definition that
  queries.
\<close>

section \<open>Printing integers\<close>

definition digit_char :: "nat \<Rightarrow> char" where
  "digit_char d = char_of (if d < 10 then 48 + d else 87 + d)"

fun digits_of :: "nat \<Rightarrow> nat \<Rightarrow> nat \<Rightarrow> string" where
  "digits_of 0 base n = []"
| "digits_of (Suc fuel) base n =
    (if n < base then [digit_char n] else digits_of fuel base (n div base) @ [digit_char (n mod base)])"

text \<open>%u and %x: at most 20 digits for a 64-bit value; the fuel is the value itself plus one.\<close>

definition dec_of :: "nat \<Rightarrow> string" where "dec_of n = digits_of (Suc n) 10 n"
definition hex_of :: "nat \<Rightarrow> string" where "hex_of n = digits_of (Suc n) 16 n"

definition zero_pad :: "nat \<Rightarrow> string \<Rightarrow> string" where
  "zero_pad w s = replicate (w - length s) (CHR ''0'') @ s"

definition hex2 :: "u8 \<Rightarrow> string" where
  "hex2 b = [digit_char (unat b div 16), digit_char (unat b mod 16)]"

definition hex_of_buf :: "buf \<Rightarrow> string" where
  "hex_of_buf b = concat (map hex2 b)"

definition print_unsigned :: "'a :: len word \<Rightarrow> string" where
  "print_unsigned x = dec_of (unat x)"

definition print_int :: "int \<Rightarrow> string" where
  "print_int i = (if i < 0 then CHR ''-'' # dec_of (nat (- i)) else dec_of (nat i))"

section \<open>Scanning integers\<close>

definition is_space :: "char \<Rightarrow> bool" where
  "is_space c \<longleftrightarrow> c = CHR '' '' \<or> (9 \<le> (of_char c :: nat) \<and> (of_char c :: nat) \<le> 13)"

definition digit_val :: "nat \<Rightarrow> char \<Rightarrow> nat option" where
  "digit_val base c =
    (let n = of_char c :: nat;
         v = (if 48 \<le> n \<and> n \<le> 57 then Some (n - 48)
              else if 65 \<le> n \<and> n \<le> 70 then Some (n - 55)
              else if 97 \<le> n \<and> n \<le> 102 then Some (n - 87) else None)
     in case v of Some d \<Rightarrow> if d < base then Some d else None | None \<Rightarrow> None)"

fun scan_digits :: "nat \<Rightarrow> nat \<Rightarrow> string \<Rightarrow> nat \<times> string" where
  "scan_digits base acc [] = (acc, [])"
| "scan_digits base acc (c # cs) =
    (case digit_val base c of Some d \<Rightarrow> scan_digits base (acc * base + d) cs | None \<Rightarrow> (acc, c # cs))"

definition scan_unsigned_digits :: "nat \<Rightarrow> string \<Rightarrow> nat option" where
  "scan_unsigned_digits base s =
    (case s of [] \<Rightarrow> None
     | c # cs \<Rightarrow> if digit_val base c = None then None else Some (fst (scan_digits base 0 s)))"

definition skip_0x :: "string \<Rightarrow> string" where
  "skip_0x s = (case s of a # x # d # cs \<Rightarrow>
      if a = CHR ''0'' \<and> x \<in> {CHR ''x'', CHR ''X''} \<and> digit_val 16 d \<noteq> None then d # cs else s
    | _ \<Rightarrow> s)"

text \<open>
  sscanf with one %u or %x conversion: leading white space, an optional sign,
  the digits; the value saturates at 64 bits and is then stored at the width of
  the variable. None is a matching failure, which leaves the variable alone.
\<close>

definition scan_value :: "nat \<Rightarrow> string \<Rightarrow> int option" where
  "scan_value base s =
    (let s1 = dropWhile is_space s;
         (neg, s2) = (case s1 of c # cs \<Rightarrow>
             if c = CHR ''-'' then (True, cs) else if c = CHR ''+'' then (False, cs) else (False, s1)
           | [] \<Rightarrow> (False, s1));
         s3 = (if base = 16 then skip_0x s2 else s2)
     in map_option (\<lambda>n. let m = min n (2 ^ 64 - 1) in if neg then - int m else int m)
          (scan_unsigned_digits base s3))"

definition sscanf_hex :: "string \<Rightarrow> 'a :: len word option" where
  "sscanf_hex s = map_option word_of_int (scan_value 16 s)"

definition sscanf_dec :: "string \<Rightarrow> 'a :: len word option" where
  "sscanf_dec s = map_option word_of_int (scan_value 10 s)"

definition store :: "'a option \<Rightarrow> 'a \<Rightarrow> 'a" where
  "store v old = (case v of Some x \<Rightarrow> x | None \<Rightarrow> old)"

lemma store_simps [simp]: "store (Some x) old = x" "store None old = old"
  by (simp_all add: store_def)

section \<open>Digits printed are the digits read\<close>

lemma digit_val_digit_char [simp]:
  "d < base \<Longrightarrow> base \<le> 16 \<Longrightarrow> digit_val base (digit_char d) = Some d"
  by (simp add: digit_val_def digit_char_def Let_def)

lemma scan_digits_app:
  "scan_digits base acc (digits_of fuel base n @ rest) = scan_digits base (acc * base ^ length (digits_of fuel base n) + n) rest"
  if "n < fuel" "1 < base" "base \<le> 16"
  using that
proof (induction fuel arbitrary: n rest)
  case (Suc fuel)
  show ?case
  proof (cases "n < base")
    case False
    then have "n div base < fuel" using Suc.prems by (meson div_less_dividend less_Suc_eq_le
          less_le_trans not_less order_le_less_trans gr_implies_not0 bot_nat_0.not_eq_extremum le_zero_eq)
    moreover have "base * (n div base) + n mod base = n" by simp
    moreover have "n mod base < base" using Suc.prems by simp
    ultimately show ?thesis using False Suc.prems
      by (simp add: Suc.IH algebra_simps)
  qed (use Suc.prems in simp)
qed simp

lemma digits_of_head:
  "0 < fuel \<Longrightarrow> n < fuel \<Longrightarrow> 1 < base \<Longrightarrow> base \<le> 16 \<Longrightarrow>
    \<exists>d cs. digits_of fuel base n = digit_char d # cs \<and> d < base"
proof (induction fuel arbitrary: n)
  case (Suc fuel)
  show ?case
  proof (cases "n < base")
    case False
    then have "n div base < fuel" "0 < fuel" using Suc.prems
      by (metis Suc_less_eq bot_nat_0.not_eq_extremum div_less_dividend less_trans_Suc not_less_zero
          linorder_not_less order_less_le_trans zero_less_iff_neq_zero, simp)
    then show ?thesis using Suc.IH [of "n div base"] False Suc.prems by auto
  qed auto
qed simp

lemma scan_digits_digits_of:
  assumes "1 < base" "base \<le> 16"
  shows "scan_unsigned_digits base (digits_of (Suc n) base n) = Some n"
proof -
  obtain d cs where d: "digits_of (Suc n) base n = digit_char d # cs" "d < base"
    using digits_of_head [of "Suc n" n base] assms by auto
  then show ?thesis
    using scan_digits_app [of n "Suc n" base 0 "[]"] assms
    by (simp add: scan_unsigned_digits_def del: digits_of.simps)
qed

section \<open>The database client\<close>

type_synonym row = "string option list"

datatype sqlres = SqlError | SqlNoResult | SqlRows "row list"

type_synonym mysql = "string \<Rightarrow> sqlres"

end
