(* ===== verification/AES.thy ===== *)
theory AES
  imports Prelude
begin

text \<open>
  The byte-oriented AES of libbackend/aes.c in the configuration the repository
  builds: USE_TABLES, VERSION_1, AES_ENC_PREKEYED and AES_DEC_PREKEYED. The
  cipher state is a list of 16 bytes; the C macros that build the tables work
  on int, so they are 32-bit words here, truncated to a byte on assignment.
  The lemmas show that decryption undoes encryption for every key schedule and
  the reverse, and that a key schedule exists for exactly the three key lengths.
\<close>

section \<open>Field macros and tables\<close>

definition WPOLY :: u32 where "WPOLY = 0x011b"

definition f2 :: "u32 \<Rightarrow> u32" where
  "f2 x = push_bit 1 x XOR ((drop_bit 7 x AND 1) * WPOLY)"

definition f4 :: "u32 \<Rightarrow> u32" where
  "f4 x = push_bit 2 x XOR ((drop_bit 6 x AND 1) * WPOLY) XOR ((drop_bit 6 x AND 2) * WPOLY)"

definition f8 :: "u32 \<Rightarrow> u32" where
  "f8 x = push_bit 3 x XOR ((drop_bit 5 x AND 1) * WPOLY) XOR ((drop_bit 5 x AND 2) * WPOLY)
     XOR ((drop_bit 5 x AND 4) * WPOLY)"

definition f3 :: "u32 \<Rightarrow> u32" where "f3 x = f2 x XOR x"
definition f9 :: "u32 \<Rightarrow> u32" where "f9 x = f8 x XOR x"
definition fb :: "u32 \<Rightarrow> u32" where "fb x = f8 x XOR f2 x XOR x"
definition fd :: "u32 \<Rightarrow> u32" where "fd x = f8 x XOR f4 x XOR x"
definition fe :: "u32 \<Rightarrow> u32" where "fe x = f8 x XOR f4 x XOR f2 x"

definition sb_data :: "u32 list" where
  "sb_data = [
    0x63, 0x7c, 0x77, 0x7b, 0xf2, 0x6b, 0x6f, 0xc5, 0x30, 0x01, 0x67, 0x2b,
    0xfe, 0xd7, 0xab, 0x76, 0xca, 0x82, 0xc9, 0x7d, 0xfa, 0x59, 0x47, 0xf0,
    0xad, 0xd4, 0xa2, 0xaf, 0x9c, 0xa4, 0x72, 0xc0, 0xb7, 0xfd, 0x93, 0x26,
    0x36, 0x3f, 0xf7, 0xcc, 0x34, 0xa5, 0xe5, 0xf1, 0x71, 0xd8, 0x31, 0x15,
    0x04, 0xc7, 0x23, 0xc3, 0x18, 0x96, 0x05, 0x9a, 0x07, 0x12, 0x80, 0xe2,
    0xeb, 0x27, 0xb2, 0x75, 0x09, 0x83, 0x2c, 0x1a, 0x1b, 0x6e, 0x5a, 0xa0,
    0x52, 0x3b, 0xd6, 0xb3, 0x29, 0xe3, 0x2f, 0x84, 0x53, 0xd1, 0x00, 0xed,
    0x20, 0xfc, 0xb1, 0x5b, 0x6a, 0xcb, 0xbe, 0x39, 0x4a, 0x4c, 0x58, 0xcf,
    0xd0, 0xef, 0xaa, 0xfb, 0x43, 0x4d, 0x33, 0x85, 0x45, 0xf9, 0x02, 0x7f,
    0x50, 0x3c, 0x9f, 0xa8, 0x51, 0xa3, 0x40, 0x8f, 0x92, 0x9d, 0x38, 0xf5,
    0xbc, 0xb6, 0xda, 0x21, 0x10, 0xff, 0xf3, 0xd2, 0xcd, 0x0c, 0x13, 0xec,
    0x5f, 0x97, 0x44, 0x17, 0xc4, 0xa7, 0x7e, 0x3d, 0x64, 0x5d, 0x19, 0x73,
    0x60, 0x81, 0x4f, 0xdc, 0x22, 0x2a, 0x90, 0x88, 0x46, 0xee, 0xb8, 0x14,
    0xde, 0x5e, 0x0b, 0xdb, 0xe0, 0x32, 0x3a, 0x0a, 0x49, 0x06, 0x24, 0x5c,
    0xc2, 0xd3, 0xac, 0x62, 0x91, 0x95, 0xe4, 0x79, 0xe7, 0xc8, 0x37, 0x6d,
    0x8d, 0xd5, 0x4e, 0xa9, 0x6c, 0x56, 0xf4, 0xea, 0x65, 0x7a, 0xae, 0x08,
    0xba, 0x78, 0x25, 0x2e, 0x1c, 0xa6, 0xb4, 0xc6, 0xe8, 0xdd, 0x74, 0x1f,
    0x4b, 0xbd, 0x8b, 0x8a, 0x70, 0x3e, 0xb5, 0x66, 0x48, 0x03, 0xf6, 0x0e,
    0x61, 0x35, 0x57, 0xb9, 0x86, 0xc1, 0x1d, 0x9e, 0xe1, 0xf8, 0x98, 0x11,
    0x69, 0xd9, 0x8e, 0x94, 0x9b, 0x1e, 0x87, 0xe9, 0xce, 0x55, 0x28, 0xdf,
    0x8c, 0xa1, 0x89, 0x0d, 0xbf, 0xe6, 0x42, 0x68, 0x41, 0x99, 0x2d, 0x0f,
    0xb0, 0x54, 0xbb, 0x16]"

definition isb_data :: "u32 list" where
  "isb_data = [
    0x52, 0x09, 0x6a, 0xd5, 0x30, 0x36, 0xa5, 0x38, 0xbf, 0x40, 0xa3, 0x9e,
    0x81, 0xf3, 0xd7, 0xfb, 0x7c, 0xe3, 0x39, 0x82, 0x9b, 0x2f, 0xff, 0x87,
    0x34, 0x8e, 0x43, 0x44, 0xc4, 0xde, 0xe9, 0xcb, 0x54, 0x7b, 0x94, 0x32,
    0xa6, 0xc2, 0x23, 0x3d, 0xee, 0x4c, 0x95, 0x0b, 0x42, 0xfa, 0xc3, 0x4e,
    0x08, 0x2e, 0xa1, 0x66, 0x28, 0xd9, 0x24, 0xb2, 0x76, 0x5b, 0xa2, 0x49,
    0x6d, 0x8b, 0xd1, 0x25, 0x72, 0xf8, 0xf6, 0x64, 0x86, 0x68, 0x98, 0x16,
    0xd4, 0xa4, 0x5c, 0xcc, 0x5d, 0x65, 0xb6, 0x92, 0x6c, 0x70, 0x48, 0x50,
    0xfd, 0xed, 0xb9, 0xda, 0x5e, 0x15, 0x46, 0x57, 0xa7, 0x8d, 0x9d, 0x84,
    0x90, 0xd8, 0xab, 0x00, 0x8c, 0xbc, 0xd3, 0x0a, 0xf7, 0xe4, 0x58, 0x05,
    0xb8, 0xb3, 0x45, 0x06, 0xd0, 0x2c, 0x1e, 0x8f, 0xca, 0x3f, 0x0f, 0x02,
    0xc1, 0xaf, 0xbd, 0x03, 0x01, 0x13, 0x8a, 0x6b, 0x3a, 0x91, 0x11, 0x41,
    0x4f, 0x67, 0xdc, 0xea, 0x97, 0xf2, 0xcf, 0xce, 0xf0, 0xb4, 0xe6, 0x73,
    0x96, 0xac, 0x74, 0x22, 0xe7, 0xad, 0x35, 0x85, 0xe2, 0xf9, 0x37, 0xe8,
    0x1c, 0x75, 0xdf, 0x6e, 0x47, 0xf1, 0x1a, 0x71, 0x1d, 0x29, 0xc5, 0x89,
    0x6f, 0xb7, 0x62, 0x0e, 0xaa, 0x18, 0xbe, 0x1b, 0xfc, 0x56, 0x3e, 0x4b,
    0xc6, 0xd2, 0x79, 0x20, 0x9a, 0xdb, 0xc0, 0xfe, 0x78, 0xcd, 0x5a, 0xf4,
    0x1f, 0xdd, 0xa8, 0x33, 0x88, 0x07, 0xc7, 0x31, 0xb1, 0x12, 0x10, 0x59,
    0x27, 0x80, 0xec, 0x5f, 0x60, 0x51, 0x7f, 0xa9, 0x19, 0xb5, 0x4a, 0x0d,
    0x2d, 0xe5, 0x7a, 0x9f, 0x93, 0xc9, 0x9c, 0xef, 0xa0, 0xe0, 0x3b, 0x4d,
    0xae, 0x2a, 0xf5, 0xb0, 0xc8, 0xeb, 0xbb, 0x3c, 0x83, 0x53, 0x99, 0x61,
    0x17, 0x2b, 0x04, 0x7e, 0xba, 0x77, 0xd6, 0x26, 0xe1, 0x69, 0x14, 0x63,
    0x55, 0x21, 0x0c, 0x7d]"

definition mm_data :: "u32 list" where
  "mm_data = map word_of_nat [0..<256]"

definition sbox :: "u8 list" where "sbox = map ucast sb_data"
definition isbox :: "u8 list" where "isbox = map ucast isb_data"
definition gfm2_sbox :: "u8 list" where "gfm2_sbox = map (\<lambda>x. ucast (f2 x)) sb_data"
definition gfm3_sbox :: "u8 list" where "gfm3_sbox = map (\<lambda>x. ucast (f3 x)) sb_data"
definition gfmul_9 :: "u8 list" where "gfmul_9 = map (\<lambda>x. ucast (f9 x)) mm_data"
definition gfmul_b :: "u8 list" where "gfmul_b = map (\<lambda>x. ucast (fb x)) mm_data"
definition gfmul_d :: "u8 list" where "gfmul_d = map (\<lambda>x. ucast (fd x)) mm_data"
definition gfmul_e :: "u8 list" where "gfmul_e = map (\<lambda>x. ucast (fe x)) mm_data"

definition s_box :: "u8 \<Rightarrow> u8" where "s_box x = sbox ! unat x"
definition is_box :: "u8 \<Rightarrow> u8" where "is_box x = isbox ! unat x"
definition gfm2_sb :: "u8 \<Rightarrow> u8" where "gfm2_sb x = gfm2_sbox ! unat x"
definition gfm3_sb :: "u8 \<Rightarrow> u8" where "gfm3_sb x = gfm3_sbox ! unat x"
definition gfm_9 :: "u8 \<Rightarrow> u8" where "gfm_9 x = gfmul_9 ! unat x"
definition gfm_b :: "u8 \<Rightarrow> u8" where "gfm_b x = gfmul_b ! unat x"
definition gfm_d :: "u8 \<Rightarrow> u8" where "gfm_d x = gfmul_d ! unat x"
definition gfm_e :: "u8 \<Rightarrow> u8" where "gfm_e x = gfmul_e ! unat x"

section \<open>Round functions\<close>

definition add_round_key :: "buf \<Rightarrow> buf \<Rightarrow> buf" where
  "add_round_key d k = xor_bytes d k"

definition copy_and_key :: "buf \<Rightarrow> buf \<Rightarrow> buf" where
  "copy_and_key s k = xor_bytes s k"

definition shift_sub_rows :: "buf \<Rightarrow> buf" where
  "shift_sub_rows st =
    [s_box (st ! 0), s_box (st ! 5), s_box (st ! 10), s_box (st ! 15),
     s_box (st ! 4), s_box (st ! 9), s_box (st ! 14), s_box (st ! 3),
     s_box (st ! 8), s_box (st ! 13), s_box (st ! 2), s_box (st ! 7),
     s_box (st ! 12), s_box (st ! 1), s_box (st ! 6), s_box (st ! 11)]"

definition inv_shift_sub_rows :: "buf \<Rightarrow> buf" where
  "inv_shift_sub_rows st =
    [is_box (st ! 0), is_box (st ! 13), is_box (st ! 10), is_box (st ! 7),
     is_box (st ! 4), is_box (st ! 1), is_box (st ! 14), is_box (st ! 11),
     is_box (st ! 8), is_box (st ! 5), is_box (st ! 2), is_box (st ! 15),
     is_box (st ! 12), is_box (st ! 9), is_box (st ! 6), is_box (st ! 3)]"

definition mix_sub_columns :: "buf \<Rightarrow> buf" where
  "mix_sub_columns st =
    [gfm2_sb (st ! 0) XOR gfm3_sb (st ! 5) XOR s_box (st ! 10) XOR s_box (st ! 15),
     s_box (st ! 0) XOR gfm2_sb (st ! 5) XOR gfm3_sb (st ! 10) XOR s_box (st ! 15),
     s_box (st ! 0) XOR s_box (st ! 5) XOR gfm2_sb (st ! 10) XOR gfm3_sb (st ! 15),
     gfm3_sb (st ! 0) XOR s_box (st ! 5) XOR s_box (st ! 10) XOR gfm2_sb (st ! 15),
     gfm2_sb (st ! 4) XOR gfm3_sb (st ! 9) XOR s_box (st ! 14) XOR s_box (st ! 3),
     s_box (st ! 4) XOR gfm2_sb (st ! 9) XOR gfm3_sb (st ! 14) XOR s_box (st ! 3),
     s_box (st ! 4) XOR s_box (st ! 9) XOR gfm2_sb (st ! 14) XOR gfm3_sb (st ! 3),
     gfm3_sb (st ! 4) XOR s_box (st ! 9) XOR s_box (st ! 14) XOR gfm2_sb (st ! 3),
     gfm2_sb (st ! 8) XOR gfm3_sb (st ! 13) XOR s_box (st ! 2) XOR s_box (st ! 7),
     s_box (st ! 8) XOR gfm2_sb (st ! 13) XOR gfm3_sb (st ! 2) XOR s_box (st ! 7),
     s_box (st ! 8) XOR s_box (st ! 13) XOR gfm2_sb (st ! 2) XOR gfm3_sb (st ! 7),
     gfm3_sb (st ! 8) XOR s_box (st ! 13) XOR s_box (st ! 2) XOR gfm2_sb (st ! 7),
     gfm2_sb (st ! 12) XOR gfm3_sb (st ! 1) XOR s_box (st ! 6) XOR s_box (st ! 11),
     s_box (st ! 12) XOR gfm2_sb (st ! 1) XOR gfm3_sb (st ! 6) XOR s_box (st ! 11),
     s_box (st ! 12) XOR s_box (st ! 1) XOR gfm2_sb (st ! 6) XOR gfm3_sb (st ! 11),
     gfm3_sb (st ! 12) XOR s_box (st ! 1) XOR s_box (st ! 6) XOR gfm2_sb (st ! 11)]"

definition inv_mix_sub_columns :: "buf \<Rightarrow> buf" where
  "inv_mix_sub_columns st =
    [is_box (gfm_e (st ! 0) XOR gfm_b (st ! 1) XOR gfm_d (st ! 2) XOR gfm_9 (st ! 3)),
     is_box (gfm_9 (st ! 12) XOR gfm_e (st ! 13) XOR gfm_b (st ! 14) XOR gfm_d (st ! 15)),
     is_box (gfm_d (st ! 8) XOR gfm_9 (st ! 9) XOR gfm_e (st ! 10) XOR gfm_b (st ! 11)),
     is_box (gfm_b (st ! 4) XOR gfm_d (st ! 5) XOR gfm_9 (st ! 6) XOR gfm_e (st ! 7)),
     is_box (gfm_e (st ! 4) XOR gfm_b (st ! 5) XOR gfm_d (st ! 6) XOR gfm_9 (st ! 7)),
     is_box (gfm_9 (st ! 0) XOR gfm_e (st ! 1) XOR gfm_b (st ! 2) XOR gfm_d (st ! 3)),
     is_box (gfm_d (st ! 12) XOR gfm_9 (st ! 13) XOR gfm_e (st ! 14) XOR gfm_b (st ! 15)),
     is_box (gfm_b (st ! 8) XOR gfm_d (st ! 9) XOR gfm_9 (st ! 10) XOR gfm_e (st ! 11)),
     is_box (gfm_e (st ! 8) XOR gfm_b (st ! 9) XOR gfm_d (st ! 10) XOR gfm_9 (st ! 11)),
     is_box (gfm_9 (st ! 4) XOR gfm_e (st ! 5) XOR gfm_b (st ! 6) XOR gfm_d (st ! 7)),
     is_box (gfm_d (st ! 0) XOR gfm_9 (st ! 1) XOR gfm_e (st ! 2) XOR gfm_b (st ! 3)),
     is_box (gfm_b (st ! 12) XOR gfm_d (st ! 13) XOR gfm_9 (st ! 14) XOR gfm_e (st ! 15)),
     is_box (gfm_e (st ! 12) XOR gfm_b (st ! 13) XOR gfm_d (st ! 14) XOR gfm_9 (st ! 15)),
     is_box (gfm_9 (st ! 8) XOR gfm_e (st ! 9) XOR gfm_b (st ! 10) XOR gfm_d (st ! 11)),
     is_box (gfm_d (st ! 4) XOR gfm_9 (st ! 5) XOR gfm_e (st ! 6) XOR gfm_b (st ! 7)),
     is_box (gfm_b (st ! 0) XOR gfm_d (st ! 1) XOR gfm_9 (st ! 2) XOR gfm_e (st ! 3))]"

section \<open>Key schedule and block operations\<close>

record aes_context =
  ksch :: buf
  rnd :: u8

definition key_step :: "nat \<Rightarrow> nat \<Rightarrow> buf \<times> u8 \<Rightarrow> buf \<times> u8" where
  "key_step keylen cc = (\<lambda>(ks, rc).
     let t0 = ks ! (cc - 4); t1 = ks ! (cc - 3); t2 = ks ! (cc - 2); t3 = ks ! (cc - 1);
         (t0', t1', t2', t3', rc') =
           (if cc mod keylen = 0 then
              (s_box t1 XOR rc, s_box t2, s_box t3, s_box t0, ucast (f2 (ucast rc)))
            else if keylen > 24 \<and> cc mod keylen = 16 then
              (s_box t0, s_box t1, s_box t2, s_box t3, rc)
            else (t0, t1, t2, t3, rc));
         tt = cc - keylen
     in (ks[cc := ks ! tt XOR t0', cc + 1 := ks ! (tt + 1) XOR t1',
            cc + 2 := ks ! (tt + 2) XOR t2', cc + 3 := ks ! (tt + 3) XOR t3'], rc'))"

text \<open>The return type is an unsigned byte: the code's -1 is 255.\<close>

definition aes_set_key :: "buf \<Rightarrow> u8 \<Rightarrow> aes_context \<Rightarrow> u8 \<times> aes_context" where
  "aes_set_key key keylen ctx =
    (if keylen \<in> {16, 24, 32} then
       let n = unat keylen;
           ks = memcpy_at (ksch ctx) 0 key n;
           hi = push_bit 2 (keylen + 28);
           ccs = map (\<lambda>i. n + 4 * i) [0..<(unat hi - n) div 4]
       in (0, ctx\<lparr>ksch := fst (fold (key_step n) ccs (ks, 1)), rnd := drop_bit 4 hi - 1\<rparr>)
     else (- 1, ctx\<lparr>rnd := 0\<rparr>))"

definition round_key :: "aes_context \<Rightarrow> nat \<Rightarrow> buf" where
  "round_key ctx r = slice (r * 16) 16 (ksch ctx)"

definition aes_encrypt :: "buf \<Rightarrow> buf \<Rightarrow> aes_context \<Rightarrow> u8 \<times> buf" where
  "aes_encrypt inp out ctx =
    (if rnd ctx \<noteq> 0 then
       let s1 = copy_and_key inp (round_key ctx 0);
           s2 = fold (\<lambda>r s. add_round_key (mix_sub_columns s) (round_key ctx r)) [1..<unat (rnd ctx)] s1
       in (0, copy_and_key (shift_sub_rows s2) (round_key ctx (unat (rnd ctx))))
     else (- 1, out))"

definition aes_decrypt :: "buf \<Rightarrow> buf \<Rightarrow> aes_context \<Rightarrow> u8 \<times> buf" where
  "aes_decrypt inp out ctx =
    (if rnd ctx \<noteq> 0 then
       let s1 = inv_shift_sub_rows (copy_and_key inp (round_key ctx (unat (rnd ctx))));
           s2 = fold (\<lambda>r s. inv_mix_sub_columns (add_round_key s (round_key ctx r)))
                  (rev [1..<unat (rnd ctx)]) s1
       in (0, copy_and_key s2 (round_key ctx 0))
     else (- 1, out))"

text \<open>CBC over n blocks: the result is the return code, the bytes written and the final IV.\<close>

fun aes_cbc_encrypt :: "buf \<Rightarrow> nat \<Rightarrow> buf \<Rightarrow> aes_context \<Rightarrow> u8 \<times> buf \<times> buf" where
  "aes_cbc_encrypt inp 0 iv ctx = (0, [], iv)"
| "aes_cbc_encrypt inp (Suc n) iv ctx =
    (let iv1 = xor_bytes iv (take 16 inp);
         (r, iv2) = aes_encrypt iv1 iv1 ctx
     in if r \<noteq> 0 then (1, [], iv2)
        else let (r', out, iv3) = aes_cbc_encrypt (drop 16 inp) n iv2 ctx
             in (r', iv2 @ out, iv3))"

fun aes_cbc_decrypt :: "buf \<Rightarrow> nat \<Rightarrow> buf \<Rightarrow> aes_context \<Rightarrow> u8 \<times> buf \<times> buf" where
  "aes_cbc_decrypt inp 0 iv ctx = (0, [], iv)"
| "aes_cbc_decrypt inp (Suc n) iv ctx =
    (let (r, out) = aes_decrypt (take 16 inp) [] ctx
     in if r \<noteq> 0 then (1, [], iv)
        else let (r', rest, iv') = aes_cbc_decrypt (drop 16 inp) n (take 16 inp) ctx
             in (r', xor_bytes out iv @ rest, iv'))"

section \<open>The tables as field arithmetic\<close>

text \<open>Multiplication by x in GF(2^8), the reference the macro tables are checked against.\<close>

definition xt :: "u8 \<Rightarrow> u8" where
  "xt x = push_bit 1 x XOR (if bit x 7 then 0x1b else 0)"

lemma xt_xor: "xt (a XOR b) = xt a XOR xt b"
  by (auto simp: xt_def bit_xor_iff push_bit_xor ac_simps)

lemma xor_self_left: "(x :: u8) XOR (x XOR y) = y"
  by (simp flip: xor.assoc)

lemma length_tables [simp]: "length sb_data = 256" "length isb_data = 256" "length mm_data = 256"
  by (simp_all add: sb_data_def isb_data_def mm_data_def)

lemma mm_nth: "mm_data ! unat (x :: u8) = ucast x"
  by (simp add: mm_data_def)

lemma f8_check: "list_all (\<lambda>x. ucast (f8 (ucast x)) = xt (xt (xt x))) all_bytes"
  by code_simp

lemma f4_check: "list_all (\<lambda>x. ucast (f4 (ucast x)) = xt (xt x)) all_bytes"
  by code_simp

lemma f2_check: "list_all (\<lambda>x. ucast (f2 (ucast x)) = xt x) all_bytes"
  by code_simp

lemma sb_data_bytes_check: "list_all (\<lambda>y. ucast (ucast y :: u8) = y) sb_data"
  by code_simp

lemmas f_bytes =
  byte_cases_check [OF f8_check] byte_cases_check [OF f4_check] byte_cases_check [OF f2_check]

lemma ucast_byte_up_down [simp]: "(ucast (ucast (x :: u8) :: u32) :: u8) = x"
  by (rule bit_word_eqI) (auto simp: bit_ucast_iff dest: bit_imp_le_length)

lemma ucast_xor_down: "(ucast (a XOR b :: u32) :: u8) = ucast a XOR ucast b"
  by (rule bit_word_eqI) (simp add: bit_xor_iff bit_ucast_iff)

lemma gfm_9_eq: "gfm_9 x = xt (xt (xt x)) XOR x"
  by (simp add: gfm_9_def gfmul_9_def mm_nth f9_def ucast_xor_down f_bytes)

lemma gfm_b_eq: "gfm_b x = xt (xt (xt x)) XOR xt x XOR x"
  by (simp add: gfm_b_def gfmul_b_def mm_nth fb_def ucast_xor_down f_bytes)

lemma gfm_d_eq: "gfm_d x = xt (xt (xt x)) XOR xt (xt x) XOR x"
  by (simp add: gfm_d_def gfmul_d_def mm_nth fd_def ucast_xor_down f_bytes)

lemma gfm_e_eq: "gfm_e x = xt (xt (xt x)) XOR xt (xt x) XOR xt x"
  by (simp add: gfm_e_def gfmul_e_def mm_nth fe_def ucast_xor_down f_bytes)

lemma sb_data_nth: "sb_data ! unat (x :: u8) = ucast (s_box x)"
  using sb_data_bytes_check by (simp add: s_box_def sbox_def list_all_length)

lemma gfm2_sb_eq: "gfm2_sb x = xt (s_box x)"
  by (simp add: gfm2_sb_def gfm2_sbox_def sb_data_nth f_bytes)

lemma gfm3_sb_eq: "gfm3_sb x = xt (s_box x) XOR s_box x"
  by (simp add: gfm3_sb_def gfm3_sbox_def sb_data_nth f3_def ucast_xor_down f_bytes)

lemma s_box_nth: "s_box x = ucast (sb_data ! unat x)"
  by (simp add: s_box_def sbox_def)

lemma is_box_nth: "is_box x = ucast (isb_data ! unat x)"
  by (simp add: is_box_def isbox_def)

lemma boxes_check:
  "list_all (\<lambda>x. (ucast (isb_data ! unat (ucast (sb_data ! unat x) :: u8)) :: u8) = x) all_bytes"
  "list_all (\<lambda>x. (ucast (sb_data ! unat (ucast (isb_data ! unat x) :: u8)) :: u8) = x) all_bytes"
  by code_simp+

lemma is_box_s_box [simp, roundtrip]: "is_box (s_box x) = x"
  using byte_cases_check [OF boxes_check(1), of x] by (simp add: is_box_nth s_box_nth)

lemma s_box_is_box [simp, roundtrip]: "s_box (is_box x) = x"
  using byte_cases_check [OF boxes_check(2), of x] by (simp add: is_box_nth s_box_nth)

lemmas field_eqs = gfm_9_eq gfm_b_eq gfm_d_eq gfm_e_eq gfm2_sb_eq gfm3_sb_eq xt_xor
lemmas xor_cancel = xor_self_left xor.commute xor.left_commute xor.assoc

section \<open>The round functions undo each other\<close>

lemma list16_cases:
  assumes "length (st :: 'a list) = 16"
  obtains a0 a1 a2 a3 a4 a5 a6 a7 a8 a9 a10 a11 a12 a13 a14 a15
  where "st = [a0, a1, a2, a3, a4, a5, a6, a7, a8, a9, a10, a11, a12, a13, a14, a15]"
proof -
  have "st = map (\<lambda>i. st ! i) [0..<16]"
    using assms map_nth [of st] by simp
  also have "[0..<16] = [0, 1, 2, 3, 4, 5, 6, 7, 8, 9, 10, 11, 12, 13, 14, 15]"
    by (simp add: upt_rec)
  finally show ?thesis using that by simp
qed

lemma length_rounds [simp, len_simps]:
  "length (shift_sub_rows st) = 16" "length (inv_shift_sub_rows st) = 16"
  "length (mix_sub_columns st) = 16" "length (inv_mix_sub_columns st) = 16"
  by (simp_all add: shift_sub_rows_def inv_shift_sub_rows_def
      mix_sub_columns_def inv_mix_sub_columns_def)

lemma inv_shift_shift [simp, roundtrip]:
  "length st = 16 \<Longrightarrow> inv_shift_sub_rows (shift_sub_rows st) = st"
  by (erule list16_cases) (simp add: inv_shift_sub_rows_def shift_sub_rows_def)

lemma shift_inv_shift [simp, roundtrip]:
  "length st = 16 \<Longrightarrow> shift_sub_rows (inv_shift_sub_rows st) = st"
  by (erule list16_cases) (simp add: inv_shift_sub_rows_def shift_sub_rows_def)

lemma mix_column_undone:
  defines "m0 a b c d \<equiv> gfm2_sb a XOR gfm3_sb b XOR s_box c XOR s_box d"
    and "m1 a b c d \<equiv> s_box a XOR gfm2_sb b XOR gfm3_sb c XOR s_box d"
    and "m2 a b c d \<equiv> s_box a XOR s_box b XOR gfm2_sb c XOR gfm3_sb d"
    and "m3 a b c d \<equiv> gfm3_sb a XOR s_box b XOR s_box c XOR gfm2_sb d"
  shows "gfm_e (m0 a b c d) XOR gfm_b (m1 a b c d) XOR gfm_d (m2 a b c d) XOR gfm_9 (m3 a b c d) = s_box a"
    "gfm_9 (m0 a b c d) XOR gfm_e (m1 a b c d) XOR gfm_b (m2 a b c d) XOR gfm_d (m3 a b c d) = s_box b"
    "gfm_d (m0 a b c d) XOR gfm_9 (m1 a b c d) XOR gfm_e (m2 a b c d) XOR gfm_b (m3 a b c d) = s_box c"
    "gfm_b (m0 a b c d) XOR gfm_d (m1 a b c d) XOR gfm_9 (m2 a b c d) XOR gfm_e (m3 a b c d) = s_box d"
  unfolding m0_def m1_def m2_def m3_def field_eqs
  by (simp_all add: xor_cancel)

lemma inv_mix_mix [simp, roundtrip]:
  "length st = 16 \<Longrightarrow> inv_mix_sub_columns (mix_sub_columns st) = st"
  by (erule list16_cases) (simp add: inv_mix_sub_columns_def mix_sub_columns_def mix_column_undone)

lemma unmix_column_undone:
  defines "u0 a b c d \<equiv> is_box (gfm_e a XOR gfm_b b XOR gfm_d c XOR gfm_9 d)"
    and "u1 a b c d \<equiv> is_box (gfm_9 a XOR gfm_e b XOR gfm_b c XOR gfm_d d)"
    and "u2 a b c d \<equiv> is_box (gfm_d a XOR gfm_9 b XOR gfm_e c XOR gfm_b d)"
    and "u3 a b c d \<equiv> is_box (gfm_b a XOR gfm_d b XOR gfm_9 c XOR gfm_e d)"
  shows "gfm2_sb (u0 a b c d) XOR gfm3_sb (u1 a b c d) XOR s_box (u2 a b c d) XOR s_box (u3 a b c d) = a"
    "s_box (u0 a b c d) XOR gfm2_sb (u1 a b c d) XOR gfm3_sb (u2 a b c d) XOR s_box (u3 a b c d) = b"
    "s_box (u0 a b c d) XOR s_box (u1 a b c d) XOR gfm2_sb (u2 a b c d) XOR gfm3_sb (u3 a b c d) = c"
    "gfm3_sb (u0 a b c d) XOR s_box (u1 a b c d) XOR s_box (u2 a b c d) XOR gfm2_sb (u3 a b c d) = d"
  unfolding u0_def u1_def u2_def u3_def gfm2_sb_eq gfm3_sb_eq s_box_is_box
  unfolding field_eqs
  by (simp_all add: xor_cancel)

lemma mix_inv_mix [simp, roundtrip]:
  "length st = 16 \<Longrightarrow> mix_sub_columns (inv_mix_sub_columns st) = st"
  by (erule list16_cases) (simp add: inv_mix_sub_columns_def mix_sub_columns_def unmix_column_undone del: s_box_is_box)

section \<open>Encryption and decryption\<close>

definition good_ctx :: "aes_context \<Rightarrow> bool" where
  "good_ctx ctx \<longleftrightarrow> rnd ctx \<noteq> 0 \<and> (unat (rnd ctx) + 1) * 16 \<le> length (ksch ctx)"

lemma length_round_key:
  "good_ctx ctx \<Longrightarrow> r \<le> unat (rnd ctx) \<Longrightarrow> length (round_key ctx r) = 16"
proof -
  assume "good_ctx ctx" "r \<le> unat (rnd ctx)"
  then have "r * 16 + 16 \<le> length (ksch ctx)"
    by (auto simp: good_ctx_def algebra_simps)
  then show ?thesis by (simp add: round_key_def)
qed

lemma decrypt_encrypt_rounds:
  assumes "good_ctx ctx" "length s = 16"
  shows "fold (\<lambda>r s. inv_mix_sub_columns (add_round_key s (round_key ctx r))) (rev [1..<unat (rnd ctx)])
     (fold (\<lambda>r s. add_round_key (mix_sub_columns s) (round_key ctx r)) [1..<unat (rnd ctx)] s) = s"
  using assms
  by (intro fold_inverse [where P = "\<lambda>s. length s = 16"])
     (auto simp: add_round_key_def length_round_key)

lemma length_encrypt_rounds:
  assumes "good_ctx ctx" "length s = 16" "set rs \<subseteq> {..unat (rnd ctx)}"
  shows "length (fold (\<lambda>r s. add_round_key (mix_sub_columns s) (round_key ctx r)) rs s) = 16"
  using assms(2,3) by (induction rs arbitrary: s) (auto simp: add_round_key_def length_round_key assms(1))

lemma length_decrypt_rounds:
  assumes "length s = 16"
  shows "length (fold (\<lambda>r s. inv_mix_sub_columns (add_round_key s (round_key ctx r))) rs s) = 16"
  using assms by (induction rs arbitrary: s) auto

lemma encrypt_decrypt_rounds:
  assumes "good_ctx ctx" "length s = 16"
  shows "fold (\<lambda>r s. add_round_key (mix_sub_columns s) (round_key ctx r)) [1..<unat (rnd ctx)]
     (fold (\<lambda>r s. inv_mix_sub_columns (add_round_key s (round_key ctx r))) (rev [1..<unat (rnd ctx)]) s) = s"
proof -
  have "fold (\<lambda>r s. add_round_key (mix_sub_columns s) (round_key ctx r)) (rev (rev [1..<unat (rnd ctx)]))
     (fold (\<lambda>r s. inv_mix_sub_columns (add_round_key s (round_key ctx r))) (rev [1..<unat (rnd ctx)]) s) = s"
    using assms
    by (intro fold_inverse [where P = "\<lambda>s. length s = 16"])
       (auto simp: add_round_key_def length_round_key)
  then show ?thesis by simp
qed

lemma aes_decrypt_encrypt:
  assumes "good_ctx ctx" "length inp = 16"
  shows "snd (aes_decrypt (snd (aes_encrypt inp o1 ctx)) o2 ctx) = inp"
proof -
  let ?s = "copy_and_key inp (round_key ctx 0)"
  let ?m = "fold (\<lambda>r s. add_round_key (mix_sub_columns s) (round_key ctx r)) [1..<unat (rnd ctx)] ?s"
  have "length ?s = 16" using assms by (simp add: copy_and_key_def length_round_key)
  moreover have "length ?m = 16" using assms calculation by (intro length_encrypt_rounds) auto
  ultimately show ?thesis
    using assms decrypt_encrypt_rounds [of ctx ?s]
    by (simp add: aes_decrypt_def aes_encrypt_def good_ctx_def [of ctx] Let_def copy_and_key_def
        length_round_key)
qed

lemma aes_encrypt_decrypt:
  assumes "good_ctx ctx" "length inp = 16"
  shows "snd (aes_encrypt (snd (aes_decrypt inp o1 ctx)) o2 ctx) = inp"
proof -
  let ?s = "inv_shift_sub_rows (copy_and_key inp (round_key ctx (unat (rnd ctx))))"
  let ?m = "fold (\<lambda>r s. inv_mix_sub_columns (add_round_key s (round_key ctx r))) (rev [1..<unat (rnd ctx)]) ?s"
  have "length ?m = 16" by (intro length_decrypt_rounds) simp
  then show ?thesis
    using assms encrypt_decrypt_rounds [of ctx ?s]
    by (simp add: aes_decrypt_def aes_encrypt_def good_ctx_def [of ctx] Let_def copy_and_key_def
        length_round_key)
qed

lemma length_aes_encrypt [simp, len_simps]:
  "good_ctx ctx \<Longrightarrow> length (snd (aes_encrypt inp out ctx)) = 16"
  by (simp add: aes_encrypt_def good_ctx_def [of ctx] copy_and_key_def length_round_key)

lemma length_aes_decrypt [simp, len_simps]:
  "good_ctx ctx \<Longrightarrow> length (snd (aes_decrypt inp out ctx)) = 16"
  by (simp add: aes_decrypt_def good_ctx_def [of ctx] copy_and_key_def length_round_key
      length_decrypt_rounds)

lemma aes_encrypt_ok: "good_ctx ctx \<Longrightarrow> fst (aes_encrypt inp out ctx) = 0"
  by (simp add: aes_encrypt_def good_ctx_def)

lemma aes_decrypt_ok: "good_ctx ctx \<Longrightarrow> fst (aes_decrypt inp out ctx) = 0"
  by (simp add: aes_decrypt_def good_ctx_def)

lemma length_key_step [simp, len_simps]:
  "length (fst (key_step n cc s)) = length (fst s)"
  by (simp add: key_step_def Let_def split: prod.splits)

lemma length_key_steps [simp, len_simps]:
  "length (fst (fold (key_step n) ccs s)) = length (fst s)"
  by (induction ccs arbitrary: s) simp_all

lemma aes_set_key_rejects:
  "keylen \<notin> {16, 24, 32} \<Longrightarrow> aes_set_key key keylen ctx = (255, ctx\<lparr>rnd := 0\<rparr>)"
  by (simp add: aes_set_key_def)

lemma aes_set_key_good:
  assumes "keylen \<in> {16, 24, 32}" "length key = unat keylen" "length (ksch ctx) = 240"
  shows "fst (aes_set_key key keylen ctx) = 0" "good_ctx (snd (aes_set_key key keylen ctx))"
  using assms by (auto simp: aes_set_key_def good_ctx_def Let_def)

section \<open>The interface the modes rely on\<close>

text \<open>
  What the users of the cipher (CMAC, the frame payload encryption, the join
  server) need: a keyed block function with 16-byte output, and for the join
  server a second function that undoes it in both directions.
\<close>

locale keyed_block =
  fixes good :: "'k \<Rightarrow> bool" and E :: "'k \<Rightarrow> buf \<Rightarrow> buf"
  assumes E_length: "good k \<Longrightarrow> length (E k b) = 16"
begin

lemma E_not_Nil: "good k \<Longrightarrow> E k b \<noteq> []"
  using E_length [of k b] by auto

lemma xor_E_length: "good k \<Longrightarrow> length b = 16 \<Longrightarrow> length (xor_bytes (E k c) b) = 16"
  by (simp add: E_length)

end

locale keyed_cipher = keyed_block good E
  for good :: "'k \<Rightarrow> bool" and E :: "'k \<Rightarrow> buf \<Rightarrow> buf" +
  fixes D :: "'k \<Rightarrow> buf \<Rightarrow> buf"
  assumes D_length: "good k \<Longrightarrow> length (D k b) = 16"
    and D_E: "good k \<Longrightarrow> length b = 16 \<Longrightarrow> D k (E k b) = b"
    and E_D: "good k \<Longrightarrow> length b = 16 \<Longrightarrow> E k (D k b) = b"
begin

lemma E_inj: "good k \<Longrightarrow> inj_on (E k) {b. length b = 16}"
  by (rule inj_on_inverseI [where g = "D k"]) (simp add: D_E)

lemma E_bij: "good k \<Longrightarrow> bij_betw (E k) {b. length b = 16} {b. length b = 16}"
  using D_E E_D E_length D_length by (intro bij_betw_byWitness [where f' = "D k"]) auto

end

definition aes_block :: "aes_context \<Rightarrow> buf \<Rightarrow> buf" where
  "aes_block ctx b = snd (aes_encrypt b b ctx)"

definition aes_unblock :: "aes_context \<Rightarrow> buf \<Rightarrow> buf" where
  "aes_unblock ctx b = snd (aes_decrypt b b ctx)"

interpretation aes: keyed_cipher good_ctx aes_block aes_unblock
  by unfold_locales
    (simp_all add: aes_block_def aes_unblock_def aes_decrypt_encrypt aes_encrypt_decrypt)

text \<open>A context in storage before any key is set, and one keyed with 16 bytes.\<close>

definition aes_ctx0 :: aes_context where
  "aes_ctx0 = \<lparr>ksch = replicate 240 0, rnd = 0\<rparr>"

definition aes_key128 :: "buf \<Rightarrow> aes_context" where
  "aes_key128 key = snd (aes_set_key key 16 aes_ctx0)"

lemma good_aes_key128 [simp]: "length key = 16 \<Longrightarrow> good_ctx (aes_key128 key)"
  using aes_set_key_good(2) [of 16 key aes_ctx0] by (simp add: aes_key128_def aes_ctx0_def)

end
