(* ===== verification/CMAC.thy ===== *)
theory CMAC
  imports AES
begin

text \<open>
  The incremental CMAC of libbackend/cmac.c. The context keeps the chaining
  block X, the block M_last that may turn out to be the last one, and the
  number M_n of its bytes in use. The abstract view of a context is the pair of
  chaining block and pending bytes; feeding data refines absorbing it into that
  pair, so a digest depends only on the concatenation of the data fed.
\<close>

section \<open>The operations\<close>

record AES_CMAC_CTX =
  rijndael :: aes_context
  X :: buf
  M_last :: buf
  M_n :: nat

definition LSHIFT :: "buf \<Rightarrow> buf" where
  "LSHIFT v = map (\<lambda>i. push_bit 1 (v ! i) OR drop_bit 7 (v ! (i + 1))) [0..<15] @ [push_bit 1 (v ! 15)]"

definition AES_CMAC_Init :: "AES_CMAC_CTX \<Rightarrow> AES_CMAC_CTX" where
  "AES_CMAC_Init ctx = ctx\<lparr>X := replicate 16 0, M_n := 0,
     rijndael := (rijndael ctx)\<lparr>ksch := replicate 240 0\<rparr>\<rparr>"

definition AES_CMAC_SetKey :: "AES_CMAC_CTX \<Rightarrow> buf \<Rightarrow> AES_CMAC_CTX" where
  "AES_CMAC_SetKey ctx key = ctx\<lparr>rijndael := snd (aes_set_key key 16 (rijndael ctx))\<rparr>"

function cmac_blocks :: "aes_context \<Rightarrow> buf \<Rightarrow> buf \<Rightarrow> buf \<times> buf" where
  "cmac_blocks k x data =
    (if length data > 16 then
       cmac_blocks k (aes_block k (xor_bytes x (take 16 data))) (drop 16 data)
     else (x, data))"
  by pat_completeness auto
termination by (relation "measure (\<lambda>(_, _, d). length d)") auto

declare cmac_blocks.simps [simp del]

definition AES_CMAC_Update :: "AES_CMAC_CTX \<Rightarrow> buf \<Rightarrow> AES_CMAC_CTX" where
  "AES_CMAC_Update ctx data =
    (let whole = (\<lambda>c d. let (x, rest) = cmac_blocks (rijndael c) (X c) d
                        in c\<lparr>X := x, M_last := memcpy_at (M_last c) 0 rest (length rest), M_n := length rest\<rparr>)
     in if M_n ctx > 0 then
          let mlen = min (16 - M_n ctx) (length data);
              c = ctx\<lparr>M_last := memcpy_at (M_last ctx) (M_n ctx) data mlen, M_n := M_n ctx + mlen\<rparr>
          in if M_n c < 16 \<or> length data = mlen then c
             else whole (c\<lparr>X := aes_block (rijndael c) (xor_bytes (X c) (M_last c))\<rparr>) (drop mlen data)
        else whole ctx data)"

definition cmac_double :: "buf \<Rightarrow> buf" where
  "cmac_double K = (if K ! 0 AND 0x80 \<noteq> 0 then let K' = LSHIFT K in K'[15 := K' ! 15 XOR 0x87] else LSHIFT K)"

definition AES_CMAC_Final :: "AES_CMAC_CTX \<Rightarrow> buf" where
  "AES_CMAC_Final ctx =
    (let k = rijndael ctx;
         K1 = cmac_double (aes_block k (replicate 16 0));
         last = (if M_n ctx = 16 then xor_bytes (M_last ctx) K1
                 else xor_bytes (take (M_n ctx) (M_last ctx) @ 0x80 # replicate (15 - M_n ctx) 0)
                        (cmac_double K1))
     in aes_block k (xor_bytes (X ctx) last))"

section \<open>Reference: the one-shot CMAC over a block function\<close>

function cmac_absorb :: "(buf \<Rightarrow> buf) \<Rightarrow> buf \<Rightarrow> buf \<Rightarrow> buf \<times> buf" where
  "cmac_absorb E x data =
    (if length data > 16 then cmac_absorb E (E (xor_bytes x (take 16 data))) (drop 16 data)
     else (x, data))"
  by pat_completeness auto
termination by (relation "measure (\<lambda>(_, _, d). length d)") auto

declare cmac_absorb.simps [simp del]

definition pad_block :: "buf \<Rightarrow> buf" where
  "pad_block b = b @ 0x80 # replicate (15 - length b) 0"

definition cmac_finish :: "(buf \<Rightarrow> buf) \<Rightarrow> buf \<times> buf \<Rightarrow> buf" where
  "cmac_finish E = (\<lambda>(x, last).
     let K1 = cmac_double (E (replicate 16 0)); K2 = cmac_double K1
     in E (xor_bytes x (if length last = 16 then xor_bytes last K1 else xor_bytes (pad_block last) K2)))"

definition cmac_ref :: "(buf \<Rightarrow> buf) \<Rightarrow> buf \<Rightarrow> buf" where
  "cmac_ref E msg = cmac_finish E (cmac_absorb E (replicate 16 0) msg)"

lemma cmac_absorb_append:
  "cmac_absorb E x (a @ b) = (let (x', r) = cmac_absorb E x a in cmac_absorb E x' (r @ b))"
proof (induction E x a rule: cmac_absorb.induct)
  case (1 E x data)
  show ?case
  proof (cases "length data > 16")
    case True
    then have "cmac_absorb E x (data @ b) =
        cmac_absorb E (E (xor_bytes x (take 16 data))) (drop 16 data @ b)"
      by (subst cmac_absorb.simps) simp
    then show ?thesis using 1 [OF True] True
      by (simp add: cmac_absorb.simps [of E x data])
  next
    case False
    then show ?thesis by (simp add: cmac_absorb.simps [of E x data])
  qed
qed

lemma cmac_absorb_rest: "length (snd (cmac_absorb E x d)) \<le> 16"
  by (induction E x d rule: cmac_absorb.induct) (subst cmac_absorb.simps, auto)

lemma cmac_absorb_short: "length d \<le> 16 \<Longrightarrow> cmac_absorb E x d = (x, d)"
  by (subst cmac_absorb.simps) simp

lemma cmac_blocks_absorb: "cmac_blocks k x d = cmac_absorb (aes_block k) x d"
  by (induction k x d rule: cmac_blocks.induct)
     (subst cmac_blocks.simps, subst cmac_absorb.simps, simp)

section \<open>Refinement\<close>

definition cmac_abs :: "AES_CMAC_CTX \<Rightarrow> buf \<times> buf" where
  "cmac_abs ctx = (X ctx, take (M_n ctx) (M_last ctx))"

definition cmac_inv :: "AES_CMAC_CTX \<Rightarrow> bool" where
  "cmac_inv ctx \<longleftrightarrow> M_n ctx \<le> 16 \<and> length (M_last ctx) = 16"

lemma Update_rijndael [simp]: "rijndael (AES_CMAC_Update ctx d) = rijndael ctx"
  by (simp add: AES_CMAC_Update_def Let_def split: prod.splits)

lemma Update_refines:
  assumes "cmac_inv ctx"
  shows "cmac_inv (AES_CMAC_Update ctx d) \<and>
    cmac_abs (AES_CMAC_Update ctx d) =
      cmac_absorb (aes_block (rijndael ctx)) (X ctx) (take (M_n ctx) (M_last ctx) @ d)"
proof -
  define E where "E = aes_block (rijndael ctx)"
  have whole: "cmac_inv (c\<lparr>X := x, M_last := memcpy_at (M_last c) 0 r (length r), M_n := length r\<rparr>)
      \<and> cmac_abs (c\<lparr>X := x, M_last := memcpy_at (M_last c) 0 r (length r), M_n := length r\<rparr>) = (x, r)"
    if "length (M_last c) = 16" "cmac_absorb E y dd = (x, r)" for c x r y dd
    using that cmac_absorb_rest [of E y dd] by (simp add: cmac_inv_def cmac_abs_def memcpy_at_def)
  show ?thesis
  proof (cases "M_n ctx > 0")
    case False
    then show ?thesis
      using assms whole [of ctx "X ctx" d]
      by (auto simp: AES_CMAC_Update_def Let_def cmac_blocks_absorb E_def cmac_inv_def split: prod.splits)
  next
    case True
    define n where "n = M_n ctx"
    define mlen where "mlen = min (16 - n) (length d)"
    have n: "0 < n" "n \<le> 16" and len: "length (M_last ctx) = 16"
      using True assms by (simp_all add: n_def cmac_inv_def)
    show ?thesis
    proof (cases "n + mlen < 16 \<or> length d = mlen")
      case stop: True
      then have "length d = mlen" "n + length d \<le> 16" using n by (auto simp: mlen_def)
      then show ?thesis using True stop n len
        by (simp add: AES_CMAC_Update_def Let_def flip: n_def mlen_def)
           (simp add: cmac_inv_def cmac_abs_def cmac_absorb_short memcpy_at_def flip: n_def)
    next
      case go: False
      then have m: "mlen = 16 - n" "length d > 16 - n" using n by (auto simp: mlen_def)
      let ?blk = "take n (M_last ctx) @ take (16 - n) d"
      let ?y = "E (xor_bytes (X ctx) ?blk)"
      have "memcpy_at (M_last ctx) n d mlen = ?blk"
        using n len by (simp add: memcpy_at_def m)
      moreover have "cmac_absorb E (X ctx) (take n (M_last ctx) @ d) =
          cmac_absorb E (E (xor_bytes (X ctx) (take n (M_last ctx) @ take (16 - n) d))) (drop (16 - n) d)"
      proof -
        have "length (take n (M_last ctx) @ d) > 16" using n len m(2) by simp
        then show ?thesis using n len m by (subst cmac_absorb.simps) simp
      qed
      moreover obtain x r where xr: "cmac_absorb E ?y (drop (16 - n) d) = (x, r)" by fastforce
      ultimately show ?thesis
        using True go n len m whole [OF _ xr, of "ctx\<lparr>M_last := ?blk, M_n := 16, X := ?y\<rparr>"]
        by (simp add: AES_CMAC_Update_def Let_def cmac_blocks_absorb flip: n_def mlen_def E_def)
    qed
  qed
qed

lemma Final_refines:
  assumes "cmac_inv ctx"
  shows "AES_CMAC_Final ctx = cmac_finish (aes_block (rijndael ctx)) (cmac_abs ctx)"
  using assms by (auto simp: AES_CMAC_Final_def cmac_finish_def cmac_abs_def cmac_inv_def pad_block_def
      Let_def min_def)

text \<open>The contract of an incremental digest: feeding is absorbing, whatever the chunks.\<close>

locale incremental =
  fixes inv :: "'c \<Rightarrow> bool" and abs :: "'c \<Rightarrow> 's" and feed :: "'c \<Rightarrow> buf \<Rightarrow> 'c"
    and absorb :: "'c \<Rightarrow> 's \<Rightarrow> buf \<Rightarrow> 's"
  assumes feed_inv: "inv c \<Longrightarrow> inv (feed c d)"
    and feed_abs: "inv c \<Longrightarrow> abs (feed c d) = absorb c (abs c) d"
    and absorb_feed: "absorb (feed c d) s e = absorb c s e"
    and absorb_split: "inv c \<Longrightarrow> absorb c (absorb c (abs c) d) e = absorb c (abs c) (d @ e)"
    and absorb_none: "inv c \<Longrightarrow> absorb c (abs c) [] = abs c"
begin

lemma feed_chunks:
  assumes "inv c"
  shows "inv (fold (\<lambda>d c. feed c d) ds c) \<and>
    abs (fold (\<lambda>d c. feed c d) ds c) = absorb c (abs c) (concat ds)"
  using assms
proof (induction ds arbitrary: c)
  case Nil
  then show ?case by (simp add: absorb_none)
next
  case (Cons d ds)
  then show ?case
    using Cons.IH [of "feed c d"] by (simp add: feed_inv feed_abs absorb_feed absorb_split)
qed

end

definition cmac_step :: "AES_CMAC_CTX \<Rightarrow> buf \<times> buf \<Rightarrow> buf \<Rightarrow> buf \<times> buf" where
  "cmac_step c = (\<lambda>(x, pend) d. cmac_absorb (aes_block (rijndael c)) x (pend @ d))"

interpretation cmac: incremental cmac_inv cmac_abs AES_CMAC_Update cmac_step
proof unfold_locales
  fix c d e
  assume inv: "cmac_inv c"
  show "cmac_inv (AES_CMAC_Update c d)" using Update_refines [OF inv] by blast
  show "cmac_abs (AES_CMAC_Update c d) = cmac_step c (cmac_abs c) d"
    using Update_refines [OF inv] by (simp add: cmac_step_def cmac_abs_def)
  show "cmac_step c (cmac_step c (cmac_abs c) d) e = cmac_step c (cmac_abs c) (d @ e)"
    using cmac_absorb_append [of "aes_block (rijndael c)" "fst (cmac_abs c)" "snd (cmac_abs c) @ d" e]
    by (simp add: cmac_step_def case_prod_beta)
  show "cmac_step c (cmac_abs c) [] = cmac_abs c"
    using inv by (simp add: cmac_step_def cmac_abs_def cmac_inv_def cmac_absorb_short)
qed (simp add: cmac_step_def)

section \<open>Digests of the callers\<close>

text \<open>
  Every caller keys a context on its stack, feeds it one or two pieces and
  reads the digest; the storage of the context is arbitrary.
\<close>

definition cmac_of :: "AES_CMAC_CTX \<Rightarrow> buf \<Rightarrow> buf list \<Rightarrow> buf" where
  "cmac_of mem key chunks =
    AES_CMAC_Final (fold (\<lambda>d c. AES_CMAC_Update c d) chunks (AES_CMAC_SetKey (AES_CMAC_Init mem) key))"

definition cmac_mem :: AES_CMAC_CTX where
  "cmac_mem = \<lparr>rijndael = aes_ctx0, X = replicate 16 0, M_last = replicate 16 0, M_n = 0\<rparr>"

lemma SetKey_Init:
  "length key = 16 \<Longrightarrow> rijndael (AES_CMAC_SetKey (AES_CMAC_Init mem) key) = aes_key128 key"
  by (simp add: AES_CMAC_SetKey_def AES_CMAC_Init_def aes_key128_def aes_ctx0_def aes_set_key_def Let_def)

lemma cmac_of_ref:
  assumes "length key = 16" "length (M_last mem) = 16"
  shows "cmac_of mem key chunks = cmac_ref (aes_block (aes_key128 key)) (concat chunks)"
proof -
  let ?c = "AES_CMAC_SetKey (AES_CMAC_Init mem) key"
  have inv: "cmac_inv ?c" and abs: "cmac_abs ?c = (replicate 16 0, [])"
    using assms(2) by (simp_all add: AES_CMAC_SetKey_def AES_CMAC_Init_def cmac_inv_def cmac_abs_def)
  have key: "rijndael (fold (\<lambda>d c. AES_CMAC_Update c d) chunks ?c) = aes_key128 key"
    by (rule fold_preserves [where P = "\<lambda>c. rijndael c = aes_key128 key"])
       (simp_all add: SetKey_Init assms(1))
  show ?thesis
    using cmac.feed_chunks [OF inv, of chunks]
    by (simp add: cmac_of_def cmac_ref_def Final_refines key abs cmac_step_def SetKey_Init assms(1))
qed

lemma length_cmac_of [simp, len_simps]:
  assumes "length key = 16" "length (M_last mem) = 16"
  shows "length (cmac_of mem key chunks) = 16"
  using assms aes.E_length [of "aes_key128 key"]
  by (simp add: cmac_of_ref cmac_ref_def cmac_finish_def Let_def split: prod.splits)

lemma cmac_mem_M_last [simp]: "length (M_last cmac_mem) = 16"
  by (simp add: cmac_mem_def)

end
