(* ===== verification/Codec.thy ===== *)
theory Codec
  imports CText CMAC
begin

text \<open>
  The byte-level services of libbackend/libserver.c: little-endian writers,
  EUI and hexadecimal conversions, the frame payload cipher, the join MIC, and
  the frame MIC of network_server/common.c. Buffers written through a pointer
  are returned.
\<close>

section \<open>Little-endian writers\<close>

definition Write4ByteValue :: "u32 \<Rightarrow> buf" where
  "Write4ByteValue i = [ucast i, ucast (drop_bit 8 i), ucast (drop_bit 16 i), ucast (drop_bit 24 i)]"

definition Write3ByteValue :: "u32 \<Rightarrow> buf" where
  "Write3ByteValue i = [ucast i, ucast (drop_bit 8 i), ucast (drop_bit 16 i)]"

definition Write2ByteValue :: "u32 \<Rightarrow> buf" where
  "Write2ByteValue i = [ucast i, ucast (drop_bit 8 i)]"

definition Write1ByteValue :: "u32 \<Rightarrow> buf" where
  "Write1ByteValue i = [ucast i]"

text \<open>Reading a packed little-endian field back, as the packed structs and memcpy do.\<close>

fun le_word :: "buf \<Rightarrow> 'a :: len word" where
  "le_word [] = 0"
| "le_word (b # bs) = ucast b OR push_bit 8 (le_word bs)"

lemma length_writers [simp, len_simps]:
  "length (Write4ByteValue i) = 4" "length (Write3ByteValue i) = 3"
  "length (Write2ByteValue i) = 2" "length (Write1ByteValue i) = 1"
  by (simp_all add: Write4ByteValue_def Write3ByteValue_def Write2ByteValue_def Write1ByteValue_def)

definition le_bytes :: "nat \<Rightarrow> 'a :: len word \<Rightarrow> buf" where
  "le_bytes k v = map (\<lambda>i. ucast (drop_bit (8 * i) v)) [0..<k]"

lemma length_le_bytes [simp, len_simps]: "length (le_bytes k v) = k"
  by (simp add: le_bytes_def)

lemma bit_le_word:
  "bit (le_word bs :: 'a :: len word) n \<longleftrightarrow>
    n < LENGTH('a) \<and> n div 8 < length bs \<and> bit (bs ! (n div 8)) (n mod 8)"
proof (induction bs arbitrary: n)
  case (Cons b bs)
  show ?case
  proof (cases "n < 8")
    case True
    then show ?thesis by (auto simp: bit_or_iff bit_push_bit_iff bit_ucast_iff)
  next
    case False
    then have "n div 8 = Suc ((n - 8) div 8)" "n mod 8 = (n - 8) mod 8"
      by (simp_all add: le_div_geq le_mod_geq)
    moreover have "\<not> bit b n" using False by (auto dest: bit_imp_le_length)
    ultimately show ?thesis using False
      by (auto simp: bit_or_iff bit_push_bit_iff bit_ucast_iff Cons.IH)
  qed
qed simp

lemma le_word_le_bytes [roundtrip]:
  assumes "LENGTH('a) \<le> 8 * k"
  shows "(le_word (le_bytes k v) :: 'a :: len word) = v"
proof (rule bit_word_eqI)
  fix n assume "n < LENGTH('a)"
  then have "n div 8 < k" using assms by (auto simp: less_mult_imp_div_less mult.commute)
  then show "bit (le_word (le_bytes k v) :: 'a word) n = bit v n"
    using \<open>n < LENGTH('a)\<close> by (simp add: bit_le_word le_bytes_def bit_ucast_iff bit_drop_bit_eq)
qed

lemma le_bytes_le_word [roundtrip]:
  assumes "8 * length bs \<le> LENGTH('a)"
  shows "le_bytes (length bs) (le_word bs :: 'a :: len word) = bs"
proof (rule nth_equalityI)
  fix i assume "i < length (le_bytes (length bs) (le_word bs :: 'a word))"
  then have i: "i < length bs" by simp
  show "le_bytes (length bs) (le_word bs :: 'a word) ! i = bs ! i"
  proof (rule bit_word_eqI)
    fix n assume "n < LENGTH(8)"
    then show "bit (le_bytes (length bs) (le_word bs :: 'a word) ! i) n = bit (bs ! i) n"
      using i assms by (simp add: le_bytes_def bit_ucast_iff bit_drop_bit_eq bit_le_word)
  qed
qed simp

lemma writers_le_bytes:
  "Write4ByteValue i = le_bytes 4 i" "Write3ByteValue i = le_bytes 3 i"
  "Write2ByteValue i = le_bytes 2 i" "Write1ByteValue i = le_bytes 1 i"
  by (simp_all add: le_bytes_def upt_rec Write4ByteValue_def Write3ByteValue_def
      Write2ByteValue_def Write1ByteValue_def)

lemma le_word_Write4 [simp, roundtrip]: "(le_word (Write4ByteValue i) :: u32) = i"
  by (simp add: writers_le_bytes le_word_le_bytes del: le_word.simps)

section \<open>EUIs and hexadecimal\<close>

definition LORA_EUI_LENGTH :: nat where "LORA_EUI_LENGTH = 8"

definition eui_buf_to_uint64 :: "buf \<Rightarrow> u64" where
  "eui_buf_to_uint64 eui =
    fold (\<lambda>i ret. push_bit 8 ret OR ucast (eui ! i)) (rev [0..<LORA_EUI_LENGTH]) 0"

definition uint64_to_eui_buf :: "u64 \<Rightarrow> buf" where
  "uint64_to_eui_buf inp =
    snd (fold (\<lambda>_ (i, out). (drop_bit 8 i, out @ [ucast (i AND 0xff)])) [0..<LORA_EUI_LENGTH] (inp, []))"

definition get_int :: "char \<Rightarrow> int" where
  "get_int c = (let n = of_char c :: nat in
    if 48 \<le> n \<and> n \<le> 57 then int n - 48
    else if 65 \<le> n \<and> n \<le> 70 then 10 + int n - 65
    else if 97 \<le> n \<and> n \<le> 102 then 10 + int n - 97 else - 1)"

fun ascii_hex_loop :: "string \<Rightarrow> int \<times> buf" where
  "ascii_hex_loop (h # l # rest) =
    (if get_int h < 0 \<or> get_int l < 0 then (- 1, [])
     else let (r, bs) = ascii_hex_loop rest in (r, word_of_int (get_int h * 16 + get_int l) # bs))"
| "ascii_hex_loop _ = (0, [])"

text \<open>The bytes before the first bad pair are written even when the call fails.\<close>

definition ascii_hex_to_buf :: "string \<Rightarrow> buf \<Rightarrow> int \<times> buf" where
  "ascii_hex_to_buf s out = (let (r, bs) = ascii_hex_loop s in (r, memcpy_at out 0 bs (length bs)))"

definition numHexDigits :: "string \<Rightarrow> nat" where
  "numHexDigits s = length (takeWhile (\<lambda>c. get_int c \<ge> 0) s)"

lemma get_int_digit_char [simp]: "d < 16 \<Longrightarrow> get_int (digit_char d) = int d"
  by (simp add: get_int_def digit_char_def Let_def)

lemma hex2_byte: "word_of_int (int (unat b div 16) * 16 + int (unat b mod 16)) = (b :: u8)"
proof -
  have "int (unat b div 16) * 16 + int (unat b mod 16) = int (unat b)"
    by (metis div_mult_mod_eq of_nat_add of_nat_mult of_nat_numeral)
  then show ?thesis by simp
qed

lemma ascii_hex_loop_hex: "ascii_hex_loop (hex_of_buf b) = (0, b)"
proof (induction b)
  case (Cons x b)
  have "unat x div 16 < 16" using unat_byte_lt [of x] by (simp add: less_mult_imp_div_less)
  then show ?case using Cons hex2_byte [of x] by (simp add: hex_of_buf_def hex2_def)
qed (simp add: hex_of_buf_def)

lemma ascii_hex_to_buf_hex [simp, roundtrip]:
  "length out = length b \<Longrightarrow> ascii_hex_to_buf (hex_of_buf b) out = (0, b)"
  by (simp add: ascii_hex_to_buf_def ascii_hex_loop_hex)

lemma ascii_hex_loop_range: "fst (ascii_hex_loop s) \<in> {0, - 1}"
  by (induction s rule: ascii_hex_loop.induct) (auto split: prod.splits)

lemma ascii_hex_loop_ok:
  "fst (ascii_hex_loop s) = 0 \<longleftrightarrow> (\<forall>i < 2 * (length s div 2). get_int (s ! i) \<ge> 0)"
proof (induction s rule: ascii_hex_loop.induct)
  case (1 h l rest)
  have "(\<forall>i < 2 * (length (h # l # rest) div 2). get_int ((h # l # rest) ! i) \<ge> 0) \<longleftrightarrow>
      get_int h \<ge> 0 \<and> get_int l \<ge> 0 \<and> (\<forall>i < 2 * (length rest div 2). get_int (rest ! i) \<ge> 0)"
    by (auto simp: less_Suc_eq_0_disj nth_Cons split: nat.splits)
  then show ?case using 1 ascii_hex_loop_range [of rest] by (auto split: prod.splits)
qed auto

lemma numHexDigits_le: "numHexDigits s \<le> length s"
  by (simp add: numHexDigits_def length_takeWhile_le)

lemma numHexDigits_all: "i < numHexDigits s \<Longrightarrow> get_int (s ! i) \<ge> 0"
  by (metis (mono_tags, lifting) nth_mem numHexDigits_def set_takeWhileD takeWhile_nth)

lemma le_word_foldr: "le_word bs = foldr (\<lambda>b r. push_bit 8 r OR ucast b) bs 0"
  by (induction bs) (simp_all add: or.commute)

lemma eui_le_word: "length eui = 8 \<Longrightarrow> eui_buf_to_uint64 eui = le_word eui"
proof -
  assume "length eui = 8"
  then have "map (\<lambda>i. eui ! i) [0..<8] = eui" using map_nth [of eui] by simp
  then show ?thesis
    unfolding eui_buf_to_uint64_def LORA_EUI_LENGTH_def le_word_foldr foldr_conv_fold [symmetric]
    using foldr_map [of "\<lambda>b r. push_bit 8 r OR ucast b" "\<lambda>i. eui ! i" "[0..<8]" "0 :: u64"]
    by (simp only: o_def)
qed

lemma uint64_le_bytes: "uint64_to_eui_buf v = le_bytes 8 v"
proof -
  have mask: "(ucast (w AND 0xff) :: u8) = ucast w" for w :: u64
    by (rule bit_word_eqI) (auto simp: bit_ucast_iff bit_and_iff numeral_eq_Suc bit_1_iff elim!: less_SucE)
  show ?thesis
    by (simp add: uint64_to_eui_buf_def LORA_EUI_LENGTH_def le_bytes_def upt_rec mask)
qed

lemma eui_roundtrip [roundtrip]: "eui_buf_to_uint64 (uint64_to_eui_buf v) = v"
  by (simp add: uint64_le_bytes eui_le_word le_word_le_bytes)

lemma eui_buf_roundtrip [roundtrip]: "length e = 8 \<Longrightarrow> uint64_to_eui_buf (eui_buf_to_uint64 e) = e"
  using le_bytes_le_word [of e, where 'a = 64] by (simp add: uint64_le_bytes eui_le_word)

end
