(* ===== verification/NsTypes.thy ===== *)
theory NsTypes
  imports Complex_Main Codec
begin

text \<open>
  The data of the protocol and of the network server: the LoRaWAN headers and
  command codes of libbackend/lorawan.h, the result and roaming-state names of
  libbackend/libserver.c and network_server/common.c, the metadata records of
  libbackend/libserver.h and network_server/ns.h, and the state a serving
  network server keeps per device (network_server/sNS.h). Pointers that may be
  NULL are options, linked lists are lists, floats are rationals. Field names
  carry a short prefix where C records share a name.
\<close>

section \<open>Frames\<close>

datatype mtype_e = MTYPE_JOIN_REQ | MTYPE_JOIN_ACC | MTYPE_UNCONF_UP | MTYPE_UNCONF_DN
  | MTYPE_CONF_UP | MTYPE_CONF_DN | MTYPE_REJOIN_REQ | MTYPE_P

definition mtype_of :: "u8 \<Rightarrow> mtype_e" where
  "mtype_of mhdr = [MTYPE_JOIN_REQ, MTYPE_JOIN_ACC, MTYPE_UNCONF_UP, MTYPE_UNCONF_DN,
     MTYPE_CONF_UP, MTYPE_CONF_DN, MTYPE_REJOIN_REQ, MTYPE_P] ! unat (drop_bit 5 mhdr)"

text \<open>The 7-byte frame header after the MAC header: address, control byte, 16-bit counter.\<close>

record fhdr_t =
  fh_DevAddr :: u32
  fh_FCtrl :: u8
  fh_FCnt :: u16

definition parse_fhdr :: "buf \<Rightarrow> fhdr_t" where
  "parse_fhdr phy = \<lparr>fh_DevAddr = le_word (slice 1 4 phy), fh_FCtrl = phy ! 5, fh_FCnt = le_word (slice 6 2 phy)\<rparr>"

definition fhdr_octets :: "fhdr_t \<Rightarrow> buf" where
  "fhdr_octets h = le_bytes 4 (fh_DevAddr h) @ [fh_FCtrl h] @ le_bytes 2 (fh_FCnt h)"

definition FOptsLen :: "u8 \<Rightarrow> nat" where "FOptsLen fctrl = unat (fctrl AND 0x0f)"
definition FCtrl_classB :: "u8 \<Rightarrow> bool" where "FCtrl_classB fctrl = bit fctrl 4"
definition FCtrl_ACK :: "u8 \<Rightarrow> bool" where "FCtrl_ACK fctrl = bit fctrl 5"
definition FCtrl_ADRACKReq :: "u8 \<Rightarrow> bool" where "FCtrl_ADRACKReq fctrl = bit fctrl 6"
definition FCtrl_ADR :: "u8 \<Rightarrow> bool" where "FCtrl_ADR fctrl = bit fctrl 7"

section \<open>MAC command codes\<close>

datatype LoRaMacMoteCmd = MOTE_MAC_RESET_IND | MOTE_MAC_LINK_CHECK_REQ | MOTE_MAC_LINK_ADR_ANS
  | MOTE_MAC_DUTY_CYCLE_ANS | MOTE_MAC_RX_PARAM_SETUP_ANS | MOTE_MAC_DEV_STATUS_ANS
  | MOTE_MAC_NEW_CHANNEL_ANS | MOTE_MAC_RX_TIMING_SETUP_ANS | MOTE_MAC_TX_PARAM_SETUP_ANS
  | MOTE_MAC_REKEY_IND | MOTE_MAC_DEVICE_TIME_REQ | MOTE_MAC_REJOIN_PARAM_ANS
  | MOTE_MAC_PING_SLOT_INFO_REQ | MOTE_MAC_PING_SLOT_FREQ_ANS | MOTE_MAC_BEACON_TIMING_REQ
  | MOTE_MAC_BEACON_FREQ_ANS | MOTE_MAC_DEVICE_MODE_IND

definition mote_cmds :: "(u8 \<times> LoRaMacMoteCmd) list" where
  "mote_cmds = [(0x01, MOTE_MAC_RESET_IND), (0x02, MOTE_MAC_LINK_CHECK_REQ), (0x03, MOTE_MAC_LINK_ADR_ANS),
    (0x04, MOTE_MAC_DUTY_CYCLE_ANS), (0x05, MOTE_MAC_RX_PARAM_SETUP_ANS), (0x06, MOTE_MAC_DEV_STATUS_ANS),
    (0x07, MOTE_MAC_NEW_CHANNEL_ANS), (0x08, MOTE_MAC_RX_TIMING_SETUP_ANS), (0x09, MOTE_MAC_TX_PARAM_SETUP_ANS),
    (0x0b, MOTE_MAC_REKEY_IND), (0x0d, MOTE_MAC_DEVICE_TIME_REQ), (0x0f, MOTE_MAC_REJOIN_PARAM_ANS),
    (0x10, MOTE_MAC_PING_SLOT_INFO_REQ), (0x11, MOTE_MAC_PING_SLOT_FREQ_ANS), (0x12, MOTE_MAC_BEACON_TIMING_REQ),
    (0x13, MOTE_MAC_BEACON_FREQ_ANS), (0x20, MOTE_MAC_DEVICE_MODE_IND)]"

datatype LoRaMacSrvCmd = SRV_MAC_RESET_CONF | SRV_MAC_LINK_CHECK_ANS | SRV_MAC_LINK_ADR_REQ
  | SRV_MAC_DUTY_CYCLE_REQ | SRV_MAC_RX_PARAM_SETUP_REQ | SRV_MAC_DEV_STATUS_REQ
  | SRV_MAC_NEW_CHANNEL_REQ | SRV_MAC_RX_TIMING_SETUP_REQ | SRV_MAC_TX_PARAM_SETUP_REQ
  | SRV_MAC_REKEY_CONF | SRV_MAC_DEVICE_TIME_ANS | SRV_MAC_FORCE_REJOIN_REQ | SRV_MAC_REJOIN_PARAM_REQ
  | SRV_MAC_PING_SLOT_INFO_ANS | SRV_MAC_PING_SLOT_CHANNEL_REQ | SRV_MAC_BEACON_TIMING_ANS
  | SRV_MAC_BEACON_FREQ_REQ | SRV_MAC_DEVICE_MODE_CONF

fun srv_code :: "LoRaMacSrvCmd \<Rightarrow> u8" where
  "srv_code SRV_MAC_RESET_CONF = 0x01"
| "srv_code SRV_MAC_LINK_CHECK_ANS = 0x02"
| "srv_code SRV_MAC_LINK_ADR_REQ = 0x03"
| "srv_code SRV_MAC_DUTY_CYCLE_REQ = 0x04"
| "srv_code SRV_MAC_RX_PARAM_SETUP_REQ = 0x05"
| "srv_code SRV_MAC_DEV_STATUS_REQ = 0x06"
| "srv_code SRV_MAC_NEW_CHANNEL_REQ = 0x07"
| "srv_code SRV_MAC_RX_TIMING_SETUP_REQ = 0x08"
| "srv_code SRV_MAC_TX_PARAM_SETUP_REQ = 0x09"
| "srv_code SRV_MAC_REKEY_CONF = 0x0b"
| "srv_code SRV_MAC_DEVICE_TIME_ANS = 0x0d"
| "srv_code SRV_MAC_FORCE_REJOIN_REQ = 0x0e"
| "srv_code SRV_MAC_REJOIN_PARAM_REQ = 0x0f"
| "srv_code SRV_MAC_PING_SLOT_INFO_ANS = 0x10"
| "srv_code SRV_MAC_PING_SLOT_CHANNEL_REQ = 0x11"
| "srv_code SRV_MAC_BEACON_TIMING_ANS = 0x12"
| "srv_code SRV_MAC_BEACON_FREQ_REQ = 0x13"
| "srv_code SRV_MAC_DEVICE_MODE_CONF = 0x20"

lemma srv_code_nonzero [simp]: "srv_code c \<noteq> 0"
  by (cases c) simp_all

section \<open>Result names and roaming\<close>

text \<open>A result string is a value here; a string received from a peer is looked up first.\<close>

datatype result = Success | MalformedRequest | InvalidProtocolVersion | FrameSizeError
  | UnknownReceiverID | UnknownDevEUI | UnknownDevAddr | MICFailed | ActivationDisallowed
  | JoinReqFailed | NoRoamingAgreement | RoamingActDisallowed | Deferred | StaleDeviceProfile
  | XmitFailed | InvalidFPort | Other

fun result_text :: "result \<Rightarrow> string" where
  "result_text Success = ''Success''"
| "result_text MalformedRequest = ''MalformedRequest''"
| "result_text InvalidProtocolVersion = ''InvalidProtocolVersion''"
| "result_text FrameSizeError = ''FrameSizeError''"
| "result_text UnknownReceiverID = ''UnknownReceiverID''"
| "result_text UnknownDevEUI = ''UnknownDevEUI''"
| "result_text UnknownDevAddr = ''UnknownDevAddr''"
| "result_text MICFailed = ''MICFailed''"
| "result_text ActivationDisallowed = ''ActivationDisallowed''"
| "result_text JoinReqFailed = ''JoinReqFailed''"
| "result_text NoRoamingAgreement = ''NoRoamingAgreement''"
| "result_text RoamingActDisallowed = ''RoamingActDisallowed''"
| "result_text Deferred = ''Deferred''"
| "result_text StaleDeviceProfile = ''StaleDeviceProfile''"
| "result_text XmitFailed = ''XmitFailed''"
| "result_text InvalidFPort = ''InvalidFPort''"
| "result_text Other = ''Other''"

datatype role_e = noneNS | fNS | sNS | hNS

datatype roam_state = roamNONE | roamfPASSIVE | roamDEFERRED | roamsPASSIVE | roamsHANDOVER | roamhHANDOVER

fun roam_text :: "roam_state \<Rightarrow> string" where
  "roam_text roamNONE = ''NONE''"
| "roam_text roamfPASSIVE = ''fPASSIVE''"
| "roam_text roamDEFERRED = ''DEFERRED''"
| "roam_text roamsPASSIVE = ''sPASSIVE''"
| "roam_text roamsHANDOVER = ''sHANDOVER''"
| "roam_text roamhHANDOVER = ''hHANDOVER''"

record session_t =
  NFCntDown :: u32
  nullNFCntDown :: bool
  FCntUp :: u32
  SNwkSIntKeyBin :: buf
  FNwkSIntKeyBin :: buf
  NwkSEncKeyBin :: buf
  expired :: bool
  until :: int
  next_session :: bool
  OptNeg :: bool

section \<open>Metadata\<close>

record GWInfo_t =
  gw_id :: u64
  gw_RFRegion :: "string option"
  RSSI :: int
  SNR :: int
  Lat :: rat
  Lon :: rat
  gw_ULToken :: "string option"
  DLAllowed :: bool

record ULMetaData_t =
  ul_DevEUI :: u64
  ul_DevAddr :: u32
  ul_FPort :: int
  ul_FCntDown :: u32
  ul_FCntUp :: u32
  ul_Confirmed :: bool
  ul_DataRate :: u8
  ul_FNSULToken :: "string option"
  ULFreq :: rat
  Margin :: int
  Battery :: int
  RecvTime :: string
  ul_RFRegion :: "string option"
  GWCnt :: u8
  gwList :: "GWInfo_t option list"

record DLMetaData_t =
  dl_DevEUI :: u64
  dl_DevAddr :: u32
  dl_FPort :: u8
  dl_FCntDown :: u32
  dl_Confirmed :: bool
  dl_DLFreq1 :: rat
  dl_DLFreq2 :: rat
  RXDelay1 :: u8
  DataRate1 :: u8
  DataRate2 :: u8
  ClassMode :: char
  dl_FNSULToken :: "string option"
  ultList :: "string option list"
  HiPriorityFlag :: bool
  PingPeriod :: u32

text \<open>The uplink token of the gateway process: 21 packed octets, little-endian.\<close>

record ULToken_t =
  tok_fd :: u32
  count_us :: u32
  seconds_at_beacon :: u32
  tstamp_at_beacon :: u32
  lgw_trigcnt_at_next_beacon :: u32
  beacon_ch :: u8

definition parse_ULToken :: "buf \<Rightarrow> ULToken_t" where
  "parse_ULToken b = \<lparr>tok_fd = le_word (slice 0 4 b), count_us = le_word (slice 4 4 b),
     seconds_at_beacon = le_word (slice 8 4 b), tstamp_at_beacon = le_word (slice 12 4 b),
     lgw_trigcnt_at_next_beacon = le_word (slice 16 4 b), beacon_ch = b ! 20\<rparr>"

definition ULToken_octets :: "ULToken_t \<Rightarrow> buf" where
  "ULToken_octets t = le_bytes 4 (tok_fd t) @ le_bytes 4 (count_us t) @ le_bytes 4 (seconds_at_beacon t)
     @ le_bytes 4 (tstamp_at_beacon t) @ le_bytes 4 (lgw_trigcnt_at_next_beacon t) @ [beacon_ch t]"

section \<open>State of a serving network server per device\<close>

record mac_slot =
  slot_len :: nat
  needs_answer :: bool
  slot_buf :: buf

record mac_queue =
  slots :: "mac_slot list"
  in_idx :: nat
  out_idx :: nat

record downlink_t =
  d_md :: DLMetaData_t
  d_reqTid :: u64
  ansDest :: "string option"
  isAnsDestAS :: bool
  d_PHYPayloadBin :: buf
  d_PHYPayloadLen :: u8
  d_FRMPayloadBin :: buf
  d_FRMPayloadLen :: u8
  FRMSent :: bool
  resendAt :: int

record s_flags =
  send_start_mac_cmds :: bool
  session_start_at_uplink :: bool
  force_adr :: bool
  incrNFCntDown :: bool
  newFCntUp :: bool
  upConfreSent :: bool
  checkOldSessions :: bool
  RStop_flag :: bool
  answer_app_downlink :: bool

record s_t =
  ChMask :: "u16 list"
  macq :: mac_queue
  snr_history :: "int list"
  snr_history_idx :: nat
  txpwr_idx :: u8
  ConfFCntDown :: u16
  AFCntDown :: u32
  confDLPHYPayloadBin :: buf
  confDLPHYPayloadLen :: u8
  ping_slot_info :: u8
  ping_period :: u16
  ping_offset :: u16
  downlink :: downlink_t
  s_DLFreq1 :: rat
  s_DLFreq2 :: rat
  classModeInd :: u8
  type2_rejoin_count :: u8
  flags :: s_flags

section \<open>Parsing what was laid out\<close>

lemma slice_app_left: "off + n \<le> length xs \<Longrightarrow> slice off n (xs @ ys) = slice off n xs"
  by (simp add: slice_def)

lemma slice_app_right: "length xs \<le> off \<Longrightarrow> slice off n (xs @ ys) = slice (off - length xs) n ys"
  by (simp add: slice_def)

lemma length_fhdr_octets [simp, len_simps]: "length (fhdr_octets h) = 7"
  by (simp add: fhdr_octets_def)

lemma parse_fhdr_octets [roundtrip]: "parse_fhdr (m # fhdr_octets h @ rest) = h"
proof -
  have "slice 1 4 (m # fhdr_octets h @ rest) = le_bytes 4 (fh_DevAddr h)"
    "slice 6 2 (m # fhdr_octets h @ rest) = le_bytes 2 (fh_FCnt h)"
    "(m # fhdr_octets h @ rest) ! 5 = fh_FCtrl h"
    by (simp_all add: fhdr_octets_def slice_def nth_append)
  then show ?thesis by (simp add: parse_fhdr_def le_word_le_bytes)
qed

lemma parse_ULToken_octets [roundtrip]: "parse_ULToken (ULToken_octets t) = t"
  by (simp add: parse_ULToken_def ULToken_octets_def slice_app_right slice_def le_word_le_bytes nth_append)

end
