(* ===== verification/LoRaCrypto.thy ===== *)
theory LoRaCrypto
  imports Codec
begin

text \<open>
  The LoRaWAN frame cryptography: the counter-mode payload cipher LoRa_Encrypt
  of libbackend/libserver.c with its block helpers, the join MIC of the same
  file, and the data frame MIC of network_server/common.c over the block_t
  header of network_server/ns.h.
\<close>

section \<open>Payload encryption\<close>

definition BlockExOr :: "buf \<Rightarrow> buf \<Rightarrow> nat \<Rightarrow> buf" where
  "BlockExOr l r bytes = xor_bytes (take bytes l) (take bytes r)"

definition FindBlockOverhang :: "u16 \<Rightarrow> u16" where
  "FindBlockOverhang n = n AND (16 - 1)"

definition CountBlocks :: "u16 \<Rightarrow> u16" where
  "CountBlocks n =
    (let blockSizeMinus1 = 15;
         inRoundDown = n AND NOT blockSizeMinus1;
         roundUp = (if FindBlockOverhang n > 0 then 1 else 0)
     in inRoundDown div 16 + roundUp)"

definition enc_block_A :: "u32 \<Rightarrow> bool \<Rightarrow> u32 \<Rightarrow> buf" where
  "enc_block_A address up sequenceNumber =
    [0x01, 0, 0, 0, 0, if up then 0 else 1] @ Write4ByteValue address @ Write4ByteValue sequenceNumber @ [0, 0]"

text \<open>
  The loop over the blocks, at byte position pos of both buffers. The buffers
  are the memory the pointers give access to; None is an access beyond it,
  which C leaves undefined. The counter i is a byte, as in the code.
\<close>

function enc_loop :: "buf \<Rightarrow> buf \<Rightarrow> u8 \<Rightarrow> u16 \<Rightarrow> u16 \<Rightarrow> buf \<Rightarrow> nat \<Rightarrow> buf \<Rightarrow> buf option" where
  "enc_loop A key i blocks overHangBytes inp pos out =
    (if ucast i \<le> blocks then
       let S = aes_block (aes_key128 key) (A[15 := i]);
           n = (if ucast i < blocks \<or> overHangBytes = 0 then 16 else unat overHangBytes)
       in if length inp < pos + n \<or> length out < pos + n then None
          else enc_loop A key (i + 1) blocks overHangBytes inp (pos + 16)
                 (memcpy_at out pos (BlockExOr S (drop pos inp) n) n)
     else Some out)"
  by pat_completeness auto
termination
  by (relation "measure (\<lambda>(A, key, i, blocks, ov, inp, pos, out). length inp + 16 - pos)")
     (auto simp: unat_gt_0 split: if_splits)

declare enc_loop.simps [simp del]

definition LoRa_Encrypt :: "u8 \<Rightarrow> buf \<Rightarrow> buf \<Rightarrow> u16 \<Rightarrow> u32 \<Rightarrow> bool \<Rightarrow> u32 \<Rightarrow> buf \<Rightarrow> buf option" where
  "LoRa_Encrypt i key inp inputDataLength address up sequenceNumber out =
    (if inputDataLength = 0 then Some out
     else enc_loop (enc_block_A address up sequenceNumber) key i (CountBlocks inputDataLength)
            (FindBlockOverhang inputDataLength) inp 0 out)"

section \<open>Integrity codes\<close>

definition LoRa_GenerateJoinFrameIntegrityCode :: "buf \<Rightarrow> buf \<Rightarrow> nat \<Rightarrow> buf" where
  "LoRa_GenerateJoinFrameIntegrityCode key inp dataLength =
    take 4 (cmac_of cmac_mem key [take dataLength inp])"

record block_t =
  header :: u8
  confFCnt :: u16
  dr :: u8
  ch :: u8
  dir :: u8
  DevAddr :: u32
  FCnt :: u32
  zero8 :: u8
  lenMsg :: u8

definition block_octets :: "block_t \<Rightarrow> buf" where
  "block_octets b = [header b] @ le_bytes 2 (confFCnt b) @ [dr b, ch b, dir b] @ le_bytes 4 (DevAddr b)
     @ le_bytes 4 (FCnt b) @ [zero8 b, lenMsg b]"

definition DIR_UP :: u8 where "DIR_UP = 0"
definition DIR_DOWN :: u8 where "DIR_DOWN = 1"

definition LoRa_GenerateDataFrameIntegrityCode :: "block_t \<Rightarrow> buf \<Rightarrow> buf \<Rightarrow> u32" where
  "LoRa_GenerateDataFrameIntegrityCode block sNwkSIntKey pktPayload =
    le_word (take 4 (cmac_of cmac_mem sNwkSIntKey
      [block_octets block, take (unat (lenMsg block)) pktPayload]))"

section \<open>The cipher is its own inverse\<close>

definition keystream :: "buf \<Rightarrow> u32 \<Rightarrow> bool \<Rightarrow> u32 \<Rightarrow> nat \<Rightarrow> buf" where
  "keystream key address up seq blocks =
    concat (map (\<lambda>j. aes_block (aes_key128 key) ((enc_block_A address up seq)[15 := word_of_nat (j + 1)])) [0..<blocks])"

lemma length_block_octets [simp, len_simps]: "length (block_octets b) = 16"
  by (simp add: block_octets_def)

lemma length_enc_block_A [simp, len_simps]: "length (enc_block_A a up s) = 16"
  by (simp add: enc_block_A_def)

lemma length_aes_block_key [simp, len_simps]:
  "length key = 16 \<Longrightarrow> length (aes_block (aes_key128 key) b) = 16"
  by (rule aes.E_length) simp

lemma unat_overhang: "unat (FindBlockOverhang n) = unat n mod 16"
proof -
  have "FindBlockOverhang n = take_bit 4 n"
    by (simp add: FindBlockOverhang_def take_bit_eq_mask mask_eq_exp_minus_1)
  then show ?thesis by (simp add: take_bit_eq_mod unat_mod_distrib)
qed

lemma ceil16: "(m + 15) div 16 = m div 16 + (if m mod 16 = 0 then 0 else 1)" for m :: nat
proof -
  define q r where qr: "q = m div 16" "r = m mod 16"
  have "m = 16 * q + r" "r < 16" by (simp_all add: qr)
  then show ?thesis unfolding qr(1) [symmetric] qr(2) [symmetric] by (intro div_nat_eqI) auto
qed

lemma unat_CountBlocks: "unat (CountBlocks n) = (unat n + 15) div 16"
proof -
  have "drop_bit 4 (n AND NOT (mask 4)) = drop_bit 4 n"
    by (rule bit_word_eqI) (auto simp: bit_drop_bit_eq bit_and_iff bit_not_iff bit_mask_iff dest: bit_imp_le_length)
  then have "(n AND NOT 15) div 16 = drop_bit 4 n"
    by (simp add: drop_bit_eq_div mask_eq_exp_minus_1)
  then have div: "unat ((n AND NOT 15) div 16) = unat n div 16"
    by (simp only: unat_drop_bit_eq) (simp add: drop_bit_eq_div)
  have "unat n < 2 ^ LENGTH(16)" by (rule unsigned_less)
  then have lt: "unat n div 16 < 4096" by (simp add: less_mult_imp_div_less)
  have over: "FindBlockOverhang n > 0 \<longleftrightarrow> unat n mod 16 \<noteq> 0"
    by (metis unat_overhang unat_gt_0 word_neq_0_conv bot_nat_0.not_eq_extremum unat_eq_0)
  have "unat ((n AND NOT 15) div 16 + 1) = unat n div 16 + 1"
    using lt div by (subst unat_add_lem [THEN iffD1]) (auto simp: div)
  then show ?thesis using div over ceil16 [of "unat n"] by (simp add: CountBlocks_def Let_def)
qed

lemma xor_bytes_split:
  assumes "length s = n"
  shows "xor_bytes d (s @ r) = xor_bytes (take n d) s @ xor_bytes (drop n d) r"
proof (cases "n \<le> length d")
  case True
  then show ?thesis
    using xor_bytes_append [of "take n d" s "drop n d" r] assms by simp
next
  case False
  then show ?thesis using assms by (intro nth_equalityI) (auto simp: nth_append)
qed

definition ks_block :: "buf \<Rightarrow> buf \<Rightarrow> nat \<Rightarrow> buf" where
  "ks_block key A j = aes_block (aes_key128 key) (A[15 := word_of_nat (j + 1)])"

lemma enc_loop_from:
  assumes "length key = 16" "length out = length inp"
    and "unat blocks = (length inp + 15) div 16" "unat ov = length inp mod 16"
    and "unat blocks < 255" "k \<le> unat blocks"
  shows "enc_loop A key (word_of_nat (k + 1)) blocks ov inp (16 * k) out =
    Some (take (16 * k) out @ xor_bytes (drop (16 * k) inp) (concat (map (ks_block key A) [k..<unat blocks])))"
  using assms
proof (induction "unat blocks - k" arbitrary: k out)
  case 0
  then have k: "k = unat blocks" "length inp \<le> 16 * k" by linarith+
  have "unat (word_of_nat (k + 1) :: u8) = k + 1"
    using 0 k by (intro unat_of_nat_small) simp
  then have "\<not> (ucast (word_of_nat (k + 1) :: u8) \<le> blocks)"
    using k by (simp add: word_le_nat_alt unat_ucast_up)
  then show ?case using 0 k by (subst enc_loop.simps) simp
next
  case (Suc m)
  have kb: "k < unat blocks" "k + 1 < 256" using Suc.hyps(2) Suc.prems by linarith+
  let ?i = "word_of_nat (k + 1) :: u8"
  define N where "N = (if ucast ?i < blocks \<or> ov = 0 then 16 else unat ov)"
  define S where "S = ks_block key A k"
  have ui: "unat (ucast ?i :: u16) = k + 1"
    using kb unat_of_nat_small [of "k + 1", where 'a = 8] by (simp add: unat_ucast_up)
  have le: "ucast ?i \<le> blocks" using ui kb by (simp add: word_le_nat_alt)
  have n: "N = min 16 (length inp - 16 * k)"
  proof -
    define q r where qr: "q = length inp div 16" "r = length inp mod 16"
    have l: "length inp = 16 * q + r" "r < 16" by (simp_all add: qr)
    have b: "unat blocks = q + (if r = 0 then 0 else 1)" "unat ov = r"
      using Suc.prems(3,4) ceil16 [of "length inp"] by (simp_all add: qr)
    show ?thesis
    proof (cases "k + 1 < unat blocks \<or> r = 0")
      case True
      then have "k < q" using b kb by (auto split: if_splits)
      then show ?thesis using True ui b l by (auto simp: N_def word_less_nat_alt unat_eq_0)
    next
      case False
      then have "k = q" using b kb by (auto split: if_splits)
      then show ?thesis using False ui b l by (auto simp: N_def word_less_nat_alt)
    qed
  qed
  have fits: "16 * k + N \<le> length inp" using n Suc.prems(3) kb by linarith
  define blk where "blk = BlockExOr S (drop (16 * k) inp) N"
  define out' where "out' = memcpy_at out (16 * k) blk N"
  have S: "length S = 16" using Suc.prems(1) by (simp add: S_def ks_block_def)
  have lblk: "length blk = N" unfolding blk_def n using S by (simp add: BlockExOr_def)
  have blk: "blk = xor_bytes (take 16 (drop (16 * k) inp)) S"
    by (rule nth_equalityI) (auto simp: lblk n S blk_def BlockExOr_def xor.commute)
  have out': "length out' = length inp" "take (16 * (k + 1)) out' = take (16 * k) out @ blk"
    using fits n lblk Suc.prems(2) by (auto simp: out'_def memcpy_at_def min_def)
  have "enc_loop A key ?i blocks ov inp (16 * k) out =
      enc_loop A key (?i + 1) blocks ov inp (16 * k + 16) out'"
    unfolding enc_loop.simps [of A key ?i blocks ov inp "16 * k" out] Let_def N_def [symmetric]
      ks_block_def [symmetric] S_def [symmetric] blk_def [symmetric] out'_def [symmetric]
    using le fits Suc.prems(2) by simp
  also have "\<dots> = enc_loop A key (word_of_nat (k + 1 + 1)) blocks ov inp (16 * (k + 1)) out'"
    by (simp add: algebra_simps)
  also have "\<dots> = Some (take (16 * (k + 1)) out' @
      xor_bytes (drop (16 * (k + 1)) inp) (concat (map (ks_block key A) [k + 1..<unat blocks])))"
    using Suc.hyps(2) Suc.prems kb out'(1) by (intro Suc.hyps(1)) auto
  also have "\<dots> = Some (take (16 * k) out @ xor_bytes (drop (16 * k) inp)
      (concat (map (ks_block key A) [k..<unat blocks])))"
    using out'(2) blk kb xor_bytes_split [OF S, of "drop (16 * k) inp"]
    by (simp add: upt_conv_Cons algebra_simps S_def)
  finally show ?case .
qed

lemma keystream_blocks:
  "keystream key a up s n = concat (map (ks_block key (enc_block_A a up s)) [0..<n])"
  by (simp add: keystream_def ks_block_def fun_eq_iff [symmetric] cong: map_cong)

lemma length_keystream [simp, len_simps]:
  "length key = 16 \<Longrightarrow> length (keystream key a up s n) = 16 * n"
  by (induction n) (simp_all add: keystream_def)

lemma LoRa_Encrypt_keystream:
  assumes "length key = 16" "length out = length inp" "length inp < 4065"
  shows "LoRa_Encrypt 1 key inp (word_of_nat (length inp)) a up s out =
    Some (xor_bytes inp (keystream key a up s ((length inp + 15) div 16)))"
proof -
  let ?n = "word_of_nat (length inp) :: u16"
  have n: "unat ?n = length inp" using assms(3) by (simp add: unat_of_nat)
  have few: "(length inp + 15) div 16 < 255" using assms(3) by linarith
  show ?thesis
  proof (cases "length inp = 0")
    case True
    then show ?thesis using assms by (simp add: LoRa_Encrypt_def)
  next
    case False
    then have "?n \<noteq> 0" using n by (metis unat_0)
    moreover have "enc_loop A key (word_of_nat (0 + 1)) (CountBlocks ?n) (FindBlockOverhang ?n) inp (16 * 0) out
        = Some (take (16 * 0) out @ xor_bytes (drop (16 * 0) inp)
            (concat (map (ks_block key A) [0..<unat (CountBlocks ?n)])))" for A
      using assms n few by (intro enc_loop_from) (auto simp: unat_CountBlocks unat_overhang)
    ultimately show ?thesis using n
      by (simp add: LoRa_Encrypt_def keystream_blocks unat_CountBlocks)
  qed
qed

lemma LoRa_Encrypt_involution:
  assumes "length key = 16" "length inp < 4065"
    and "LoRa_Encrypt 1 key inp (word_of_nat (length inp)) a up s (replicate (length inp) 0) = Some c"
  shows "LoRa_Encrypt 1 key c (word_of_nat (length c)) a up s (replicate (length c) 0) = Some inp"
proof -
  let ?ks = "keystream key a up s ((length inp + 15) div 16)"
  have ks: "length inp \<le> length ?ks" using assms(1) by simp
  have c: "c = xor_bytes inp ?ks"
    using assms LoRa_Encrypt_keystream [of key "replicate (length inp) 0" inp a up s] by simp
  then have "length c = length inp" using ks by simp
  then show ?thesis
    using assms(1,2) c ks LoRa_Encrypt_keystream [of key "replicate (length c) 0" c a up s] by simp
qed

text \<open>
  Called with i = 0, as the FOpts code does, the loop runs over one block more
  than the data has: 16 bytes are processed before the length is consulted.
\<close>

lemma LoRa_Encrypt_FOpts_overrun:
  assumes "length key = 16" "0 < n" "n < 16" "length inp < 16 + n"
  shows "LoRa_Encrypt 0 key inp (word_of_nat n) a up s out = None"
proof -
  let ?n = "word_of_nat n :: u16"
  have n: "unat ?n = n" using assms by (simp add: unat_of_nat)
  then have n0: "?n \<noteq> 0" using assms(2) by (metis unat_0 less_irrefl)
  have ov: "unat (FindBlockOverhang ?n) = n" using assms n by (simp add: unat_overhang)
  have "unat (CountBlocks ?n) = 1" using assms n by (simp add: unat_CountBlocks)
  then have b: "CountBlocks ?n = 1" by (metis unat_1 unsigned_word_eqI)
  show ?thesis
    using assms n0 ov b
    by (simp add: LoRa_Encrypt_def enc_loop.simps [of _ _ 0] enc_loop.simps [of _ _ 1] Let_def)
qed


lemma LoRa_Encrypt_length:
  assumes "length key = 16" "length inp < 4065"
    and "LoRa_Encrypt 1 key inp (word_of_nat (length inp)) a up s (replicate (length inp) 0) = Some c"
  shows "length c = length inp"
proof -
  have "c = xor_bytes inp (keystream key a up s ((length inp + 15) div 16))"
    using LoRa_Encrypt_keystream [OF assms(1), of "replicate (length inp) 0" inp] assms(2,3) by simp
  then show ?thesis using assms(1) by (simp add: xor_bytes_def)
qed

end
