(* ===== verification/MacQueue.thy ===== *)
theory MacQueue
  imports NsTypes LoRaCrypto
begin

text \<open>
  The per-device ring of MAC commands waiting for a downlink
  (network_server/sNS.c): six slots between an output and an input index. A
  command that is done is not removed but marked, by a zero length and a zero
  command byte, and the marks are swept at the next put. The abstract view is
  the list of waiting commands, oldest first; every operation refines an
  operation on that list.
\<close>

section \<open>The operations\<close>

definition MAC_CMD_SIZE :: nat where "MAC_CMD_SIZE = 8"
definition MAC_CMD_QUEUE_SIZE :: nat where "MAC_CMD_QUEUE_SIZE = 6"

definition next_idx :: "nat \<Rightarrow> nat" where
  "next_idx i = (if i + 1 = MAC_CMD_QUEUE_SIZE then 0 else i + 1)"

text \<open>The indices a loop from i up to the input index visits; six steps reach any index.\<close>

fun visit :: "nat \<Rightarrow> nat \<Rightarrow> nat \<Rightarrow> nat list" where
  "visit 0 i_end i = []"
| "visit (Suc n) i_end i = (if i = i_end then [] else i # visit n i_end (next_idx i))"

definition queue_indices :: "mac_queue \<Rightarrow> nat list" where
  "queue_indices q = visit MAC_CMD_QUEUE_SIZE (in_idx q) (out_idx q)"

definition buf0 :: "mac_slot \<Rightarrow> u8" where "buf0 s = slot_buf s ! 0"

definition clear_slot :: "mac_slot \<Rightarrow> mac_slot" where
  "clear_slot s = s\<lparr>slot_len := 0, slot_buf := (slot_buf s)[0 := 0]\<rparr>"

definition upd_slot :: "nat \<Rightarrow> (mac_slot \<Rightarrow> mac_slot) \<Rightarrow> mac_slot list \<Rightarrow> mac_slot list" where
  "upd_slot i f ss = ss[i := f (ss ! i)]"

definition wipe_queued_mac_cmds :: "mac_queue \<Rightarrow> mac_queue" where
  "wipe_queued_mac_cmds q = q\<lparr>slots := fold (\<lambda>i. upd_slot i clear_slot) (queue_indices q) (slots q)\<rparr>"

text \<open>The sweep of finished commands: each step makes a zero command byte 0xff, so six suffice.\<close>

fun sweep :: "nat \<Rightarrow> mac_queue \<Rightarrow> mac_queue" where
  "sweep 0 q = q"
| "sweep (Suc n) q =
    (if buf0 (slots q ! out_idx q) = 0 then
       sweep n (q\<lparr>slots := upd_slot (out_idx q) (\<lambda>s. s\<lparr>slot_buf := (slot_buf s)[0 := 0xff]\<rparr>) (slots q),
                  out_idx := next_idx (out_idx q)\<rparr>)
     else q)"

definition already_queued :: "mac_queue \<Rightarrow> u8 \<Rightarrow> bool" where
  "already_queued q cmd \<longleftrightarrow>
    list_ex (\<lambda>i. slot_len (slots q ! i) \<noteq> 0 \<and> buf0 (slots q ! i) = cmd) (queue_indices q)"

definition put_queue_mac_cmds :: "mac_queue \<Rightarrow> buf \<Rightarrow> bool \<Rightarrow> mac_queue" where
  "put_queue_mac_cmds q0 cmd needs =
    (let q = sweep MAC_CMD_QUEUE_SIZE q0 in
     if length cmd \<ge> MAC_CMD_SIZE then q
     else if next_idx (in_idx q) = out_idx q then q
     else if already_queued q (cmd ! 0) then q
     else q\<lparr>slots := upd_slot (in_idx q)
              (\<lambda>s. s\<lparr>slot_len := length cmd, needs_answer := needs,
                     slot_buf := memcpy_at (slot_buf s) 0 cmd (length cmd)\<rparr>) (slots q),
            in_idx := next_idx (in_idx q)\<rparr>)"

definition clear_queued_mac_cmd :: "mac_queue \<Rightarrow> u8 \<Rightarrow> mac_queue" where
  "clear_queued_mac_cmd q cmd =
    (case find (\<lambda>i. slot_len (slots q ! i) \<noteq> 0 \<and> buf0 (slots q ! i) = cmd) (queue_indices q) of
       Some i \<Rightarrow> q\<lparr>slots := upd_slot i clear_slot (slots q)\<rparr>
     | None \<Rightarrow> q)"

definition are_mac_cmds_queued :: "mac_queue \<Rightarrow> bool" where
  "are_mac_cmds_queued q \<longleftrightarrow> list_ex (\<lambda>i. slot_len (slots q ! i) > 0) (queue_indices q)"

text \<open>The collecting loop: slots, bytes gathered and the return value; it stops at 15 bytes.\<close>

fun gather :: "nat list \<Rightarrow> mac_slot list \<Rightarrow> buf \<Rightarrow> int \<Rightarrow> mac_slot list \<times> buf \<times> int" where
  "gather [] ss acc ret = (ss, acc, ret)"
| "gather (i # is) ss acc ret =
    (let s = ss ! i in
     if slot_len s \<noteq> 0 then
       if length acc + slot_len s > 15 then (ss, acc, ret)
       else
         let acc' = acc @ take (slot_len s) (slot_buf s)
         in if \<not> needs_answer s then gather is (upd_slot i clear_slot ss) acc' ret
            else gather is ss acc' 1
     else gather is ss acc ret)"

text \<open>
  The whole call on the queue and the frame under construction: FCtrl at octet
  5 and the options from octet 8 on. None is an access outside the 16-byte
  buffer by the cipher call.
\<close>

definition get_queued_mac_cmds ::
  "mac_queue \<Rightarrow> buf \<Rightarrow> u32 \<Rightarrow> buf \<Rightarrow> u32 \<Rightarrow> bool \<Rightarrow> (mac_queue \<times> buf \<times> int) option" where
  "get_queued_mac_cmds q phy devAddr encKey fcnt optneg =
    (let phy0 = phy[5 := 0];
         (ss, bytes, ret) = gather (queue_indices q) (slots q) [] 0;
         q' = q\<lparr>slots := ss\<rparr>;
         n = length bytes
     in if n = 0 then Some (q', phy0, 0)
        else
          let phy1 = phy0[5 := word_of_nat n];
              padded = bytes @ replicate (16 - n) 0
          in if optneg then
               (case LoRa_Encrypt 0 encKey padded (word_of_nat n) devAddr False fcnt (drop 8 phy1) of
                  None \<Rightarrow> None
                | Some out \<Rightarrow> Some (q', take 8 phy1 @ out, ret))
             else Some (q', memcpy_at phy1 8 bytes n, ret))"

section \<open>Invariant and abstract view\<close>

definition waiting :: "mac_slot list \<Rightarrow> nat list \<Rightarrow> (bool \<times> buf) list" where
  "waiting ss is = map (\<lambda>i. (needs_answer (ss ! i), take (slot_len (ss ! i)) (slot_buf (ss ! i))))
     (filter (\<lambda>i. slot_len (ss ! i) \<noteq> 0) is)"

definition queue_abs :: "mac_queue \<Rightarrow> (bool \<times> buf) list" where
  "queue_abs q = waiting (slots q) (queue_indices q)"

definition slot_ok :: "mac_slot \<Rightarrow> bool" where
  "slot_ok s \<longleftrightarrow> length (slot_buf s) = 8 \<and> slot_len s < 8 \<and> (buf0 s = 0 \<longrightarrow> slot_len s = 0)"

definition queue_inv :: "mac_queue \<Rightarrow> bool" where
  "queue_inv q \<longleftrightarrow> length (slots q) = 6 \<and> in_idx q < 6 \<and> out_idx q < 6 \<and> list_all slot_ok (slots q) \<and>
    ((\<forall>i < 6. i \<notin> set (queue_indices q) \<longrightarrow> buf0 (slots q ! i) \<noteq> 0) \<or>
     (in_idx q = out_idx q \<and> (\<forall>i < 6. buf0 (slots q ! i) = 0)))"

definition empty_queue :: mac_queue where
  "empty_queue = \<lparr>slots = replicate 6 \<lparr>slot_len = 0, needs_answer = False, slot_buf = replicate 8 0\<rparr>,
     in_idx = 0, out_idx = 0\<rparr>"

lemma less_6_cases:
  assumes "i < (6 :: nat)"
  obtains "i = 0" | "i = 1" | "i = 2" | "i = 3" | "i = 4" | "i = 5"
  using assms by (auto simp: numeral_eq_Suc less_Suc_eq)

lemma visit_check:
  "list_all (\<lambda>(a, b). let v = visit 6 a b in distinct v \<and> list_all (\<lambda>i. i < 6) v \<and> a \<notin> set v \<and>
     (a = b \<longrightarrow> v = []) \<and> (a \<noteq> b \<longrightarrow> v = b # visit 6 a (next_idx b)) \<and>
     (next_idx a \<noteq> b \<longrightarrow> visit 6 (next_idx a) b = v @ [a]) \<and> next_idx a < 6 \<and> length v < 6)
   (List.product [0..<6] [0..<6])"
  by code_simp

lemma visit_facts:
  assumes "a < 6" "b < 6"
  shows "distinct (visit 6 a b)" "\<And>i. i \<in> set (visit 6 a b) \<Longrightarrow> i < 6" "a \<notin> set (visit 6 a b)"
    "a = b \<Longrightarrow> visit 6 a b = []" "a \<noteq> b \<Longrightarrow> visit 6 a b = b # visit 6 a (next_idx b)"
    "next_idx a \<noteq> b \<Longrightarrow> visit 6 (next_idx a) b = visit 6 a b @ [a]" "next_idx a < 6"
    "length (visit 6 a b) < 6"
proof -
  have "(a, b) \<in> set (List.product [0..<6] [0..<6])" using assms by simp
  then have "let v = visit 6 a b in distinct v \<and> list_all (\<lambda>i. i < 6) v \<and> a \<notin> set v \<and>
     (a = b \<longrightarrow> v = []) \<and> (a \<noteq> b \<longrightarrow> v = b # visit 6 a (next_idx b)) \<and>
     (next_idx a \<noteq> b \<longrightarrow> visit 6 (next_idx a) b = v @ [a]) \<and> next_idx a < 6 \<and> length v < 6"
    using visit_check unfolding list_all_iff by blast
  then show "distinct (visit 6 a b)" "\<And>i. i \<in> set (visit 6 a b) \<Longrightarrow> i < 6" "a \<notin> set (visit 6 a b)"
    "a = b \<Longrightarrow> visit 6 a b = []" "a \<noteq> b \<Longrightarrow> visit 6 a b = b # visit 6 a (next_idx b)"
    "next_idx a \<noteq> b \<Longrightarrow> visit 6 (next_idx a) b = visit 6 a b @ [a]" "next_idx a < 6"
    "length (visit 6 a b) < 6"
    by (auto simp: Let_def list_all_iff simp del: visit.simps)
qed

declare visit.simps [simp del]

lemma indices_def: "queue_indices q = visit 6 (in_idx q) (out_idx q)"
  by (simp add: queue_indices_def MAC_CMD_QUEUE_SIZE_def)

lemma waiting_upd_other [simp]:
  "i \<notin> set is \<Longrightarrow> waiting (upd_slot i f ss) is = waiting ss is"
proof -
  assume "i \<notin> set is"
  then have "j \<in> set is \<Longrightarrow> upd_slot i f ss ! j = ss ! j" for j
    by (cases "j = i") (auto simp: upd_slot_def)
  then show ?thesis by (auto simp: waiting_def cong: filter_cong)
qed

lemma waiting_Nil [simp]: "waiting ss [] = []" by (simp add: waiting_def)

lemma waiting_Cons: "waiting ss (i # is) =
    (if slot_len (ss ! i) \<noteq> 0 then [(needs_answer (ss ! i), take (slot_len (ss ! i)) (slot_buf (ss ! i)))] else [])
      @ waiting ss is"
  by (simp add: waiting_def)

lemma waiting_append: "waiting ss (is @ js) = waiting ss is @ waiting ss js"
  by (simp add: waiting_def)

lemma length_upd_slot [simp]: "length (upd_slot i f ss) = length ss"
  by (simp add: upd_slot_def)

lemma upd_slot_same [simp]: "i < length ss \<Longrightarrow> upd_slot i f ss ! i = f (ss ! i)"
  by (simp add: upd_slot_def)

lemma upd_slot_other [simp]: "j \<noteq> i \<Longrightarrow> upd_slot i f ss ! j = ss ! j"
  by (simp add: upd_slot_def)

lemma slots_ok_upd: "list_all slot_ok ss \<Longrightarrow> (slot_ok (ss ! i) \<Longrightarrow> slot_ok (f (ss ! i))) \<Longrightarrow>
    list_all slot_ok (upd_slot i f ss)"
  by (cases "i < length ss") (auto simp: upd_slot_def list_all_length nth_list_update)

lemma slot_ok_clear: "slot_ok s \<Longrightarrow> slot_ok (clear_slot s)"
  by (simp add: slot_ok_def clear_slot_def)

lemma buf0_clear: "slot_ok s \<Longrightarrow> buf0 (clear_slot s) = 0"
  by (simp add: slot_ok_def clear_slot_def buf0_def)

lemma empty_queue_inv: "queue_inv empty_queue"
  by (simp add: queue_inv_def empty_queue_def slot_ok_def buf0_def list_all_length)

lemma empty_queue_abs: "queue_abs empty_queue = []"
  by (simp add: queue_abs_def empty_queue_def indices_def visit_facts)

section \<open>Every operation keeps the invariant and refines its list operation\<close>

text \<open>The invariant after the first put: a zero command byte only marks a finished command.\<close>

definition queue_inv1 :: "mac_queue \<Rightarrow> bool" where
  "queue_inv1 q \<longleftrightarrow> length (slots q) = 6 \<and> in_idx q < 6 \<and> out_idx q < 6 \<and> list_all slot_ok (slots q) \<and>
    (\<forall>i < 6. i \<notin> set (visit 6 (in_idx q) (out_idx q)) \<longrightarrow> buf0 (slots q ! i) \<noteq> 0)"

lemma queue_inv_cases:
  "queue_inv q \<longleftrightarrow> queue_inv1 q \<or>
    (length (slots q) = 6 \<and> in_idx q < 6 \<and> out_idx q = in_idx q \<and> list_all slot_ok (slots q) \<and>
     (\<forall>i < 6. buf0 (slots q ! i) = 0))"
  by (auto simp: queue_inv_def queue_inv1_def indices_def)

lemma slot_ok_nth: "list_all slot_ok ss \<Longrightarrow> i < length ss \<Longrightarrow> slot_ok (ss ! i)"
  by (simp add: list_all_length)

definition mark_swept :: "mac_slot \<Rightarrow> mac_slot" where
  "mark_swept s = s\<lparr>slot_buf := (slot_buf s)[0 := 0xff]\<rparr>"

lemma mark_swept_ok: "slot_ok s \<Longrightarrow> slot_ok (mark_swept s) \<and> buf0 (mark_swept s) \<noteq> 0"
  by (simp add: slot_ok_def mark_swept_def buf0_def)

lemma sweep_Suc: "sweep (Suc n) q =
    (if buf0 (slots q ! out_idx q) = 0 then
       sweep n (q\<lparr>slots := upd_slot (out_idx q) mark_swept (slots q), out_idx := next_idx (out_idx q)\<rparr>)
     else q)"
  by (simp add: mark_swept_def [abs_def])

lemma sweep_inv1:
  assumes "queue_inv1 q" "length (visit 6 (in_idx q) (out_idx q)) \<le> n"
  shows "queue_inv1 (sweep n q) \<and> queue_abs (sweep n q) = queue_abs q \<and>
    buf0 (slots (sweep n q) ! out_idx (sweep n q)) \<noteq> 0"
  using assms
proof (induction n arbitrary: q)
  case 0
  then have "out_idx q \<notin> set (visit 6 (in_idx q) (out_idx q))" by simp
  then show ?case using 0 by (auto simp: queue_inv1_def)
next
  case (Suc n)
  let ?a = "in_idx q" and ?b = "out_idx q"
  have ab: "?a < 6" "?b < 6" and ok: "list_all slot_ok (slots q)" and len: "length (slots q) = 6"
    using Suc.prems by (simp_all add: queue_inv1_def)
  show ?case
  proof (cases "buf0 (slots q ! ?b) = 0")
    case True
    then have ne: "?a \<noteq> ?b" using Suc.prems visit_facts(3) [OF ab] ab by (auto simp: queue_inv1_def)
    let ?q = "q\<lparr>slots := upd_slot ?b mark_swept (slots q), out_idx := next_idx ?b\<rparr>"
    have v: "visit 6 ?a ?b = ?b # visit 6 ?a (next_idx ?b)" using visit_facts(5) [OF ab ne] .
    have nb: "next_idx ?b < 6" using visit_facts(7) [OF ab(2) ab(1)] .
    have d: "?b \<notin> set (visit 6 ?a (next_idx ?b))" using visit_facts(1) [OF ab] v by simp
    have okb: "slot_ok (slots q ! ?b)" using slot_ok_nth ok len ab by simp
    have "queue_inv1 ?q"
      using Suc.prems(1) v nb okb mark_swept_ok [OF okb] slots_ok_upd [OF ok, of ?b mark_swept]
      by (auto simp: queue_inv1_def) (metis upd_slot_other upd_slot_same)
    moreover have "queue_abs ?q = queue_abs q"
      using v d okb True by (simp add: queue_abs_def indices_def waiting_Cons slot_ok_def)
    ultimately show ?thesis
      using Suc.IH [of ?q] Suc.prems(2) v True by (simp add: sweep_Suc del: sweep.simps)
  next
    case False
    then show ?thesis using Suc.prems by (simp add: sweep_Suc del: sweep.simps)
  qed
qed

lemma list6_cases:
  assumes "length (ss :: 'a list) = 6"
  obtains a b c d e f where "ss = [a, b, c, d, e, f]"
  using assms by (auto simp: numeral_eq_Suc length_Suc_conv)

lemma sweep_all:
  assumes "length (slots q) = 6" "in_idx q < 6" "out_idx q = in_idx q" "list_all slot_ok (slots q)"
    and "\<forall>i < 6. buf0 (slots q ! i) = 0"
  shows "sweep 6 q = q\<lparr>slots := map mark_swept (slots q)\<rparr>"
proof -
  obtain a b c d e f where ss: "slots q = [a, b, c, d, e, f]" using list6_cases assms(1) by blast
  have z: "buf0 a = 0" "buf0 b = 0" "buf0 c = 0" "buf0 d = 0" "buf0 e = 0" "buf0 f = 0"
    using assms(5) by (auto simp: ss numeral_eq_Suc less_Suc_eq all_conj_distrib)
  have n: "next_idx 0 = 1" "next_idx (Suc 0) = 2" "next_idx 2 = 3" "next_idx 3 = 4" "next_idx 4 = 5" "next_idx 5 = 0"
    by (simp_all add: next_idx_def MAC_CMD_QUEUE_SIZE_def)
  have six: "sweep 6 q = sweep (Suc (Suc (Suc (Suc (Suc (Suc 0)))))) q" by (simp add: numeral_eq_Suc)
  show ?thesis
    by (rule less_6_cases [OF assms(2)])
      (simp_all add: six sweep_Suc ss z n assms(3) upd_slot_def list_update_code(3) del: sweep.simps(2))
qed

lemma sweep_queue_inv:
  assumes "queue_inv q"
  shows "queue_inv1 (sweep 6 q) \<and> queue_abs (sweep 6 q) = queue_abs q \<and>
    buf0 (slots (sweep 6 q) ! out_idx (sweep 6 q)) \<noteq> 0"
proof (cases "queue_inv1 q")
  case True
  then show ?thesis
    using visit_facts(8) [of "in_idx q" "out_idx q"] by (intro sweep_inv1) (auto simp: queue_inv1_def)
next
  case False
  then have q: "length (slots q) = 6" "in_idx q < 6" "out_idx q = in_idx q" "list_all slot_ok (slots q)"
    "\<forall>i < 6. buf0 (slots q ! i) = 0"
    using assms by (simp_all add: queue_inv_cases)
  have "\<forall>i < 6. slot_ok (mark_swept (slots q ! i)) \<and> buf0 (mark_swept (slots q ! i)) \<noteq> 0"
    using q mark_swept_ok slot_ok_nth by (metis (no_types, lifting))
  then show ?thesis
    using q visit_facts(4) [of "in_idx q" "in_idx q"]
    by (simp add: sweep_all queue_inv1_def queue_abs_def indices_def list_all_length)
qed

text \<open>What a put does to the list of waiting commands.\<close>

definition queue_full :: "mac_queue \<Rightarrow> bool" where
  "queue_full q \<longleftrightarrow> next_idx (in_idx (sweep 6 q)) = out_idx (sweep 6 q)"

definition cmd_waiting :: "(bool \<times> buf) list \<Rightarrow> u8 \<Rightarrow> bool" where
  "cmd_waiting cs c \<longleftrightarrow> (\<exists>(n, b) \<in> set cs. hd b = c)"

lemma waiting_mem:
  assumes "list_all slot_ok ss" "\<forall>i \<in> set is. i < length ss"
  shows "cmd_waiting (waiting ss is) c \<longleftrightarrow> list_ex (\<lambda>i. slot_len (ss ! i) \<noteq> 0 \<and> buf0 (ss ! i) = c) is"
proof -
  have "hd (take (slot_len (ss ! i)) (slot_buf (ss ! i))) = buf0 (ss ! i)"
    if "slot_len (ss ! i) \<noteq> 0" "i \<in> set is" for i
  proof -
    have "slot_buf (ss ! i) \<noteq> []"
      using that slot_ok_nth [OF assms(1), of i] assms(2) by (auto simp: slot_ok_def)
    then show ?thesis using that by (simp add: buf0_def hd_conv_nth)
  qed
  then show ?thesis by (auto simp: cmd_waiting_def waiting_def list_ex_iff)
qed

lemma already_queued_abs:
  assumes "queue_inv1 q"
  shows "already_queued q c \<longleftrightarrow> cmd_waiting (queue_abs q) c"
  using assms visit_facts(2) [of "in_idx q" "out_idx q"]
  by (simp add: already_queued_def queue_abs_def indices_def queue_inv1_def waiting_mem)

lemma put_refines:
  assumes "queue_inv q" "0 < length cmd" "cmd ! 0 \<noteq> 0"
  shows "queue_inv1 (put_queue_mac_cmds q cmd needs) \<and>
    queue_abs (put_queue_mac_cmds q cmd needs) =
      (if length cmd < 8 \<and> \<not> queue_full q \<and> \<not> cmd_waiting (queue_abs q) (cmd ! 0)
       then queue_abs q @ [(needs, cmd)] else queue_abs q)"
proof -
  define q1 where "q1 = sweep 6 q"
  have inv: "queue_inv1 q1" and abs: "queue_abs q1 = queue_abs q"
    using sweep_queue_inv [OF assms(1)] by (simp_all add: q1_def)
  let ?a = "in_idx q1" and ?b = "out_idx q1"
  have ab: "?a < 6" "?b < 6" and ok: "list_all slot_ok (slots q1)" and len: "length (slots q1) = 6"
    using inv by (simp_all add: queue_inv1_def)
  show ?thesis
  proof (cases "length cmd < 8 \<and> next_idx ?a \<noteq> ?b \<and> \<not> already_queued q1 (cmd ! 0)")
    case False
    then have "put_queue_mac_cmds q cmd needs = q1"
      by (auto simp: put_queue_mac_cmds_def Let_def MAC_CMD_QUEUE_SIZE_def MAC_CMD_SIZE_def q1_def)
    then show ?thesis
      using False inv abs already_queued_abs [OF inv] by (auto simp: queue_full_def q1_def)
  next
    case True
    define f where "f s = s\<lparr>slot_len := length cmd, needs_answer := needs,
      slot_buf := memcpy_at (slot_buf s) 0 cmd (length cmd)\<rparr>" for s :: mac_slot
    let ?q = "q1\<lparr>slots := upd_slot ?a f (slots q1), in_idx := next_idx ?a\<rparr>"
    have put: "put_queue_mac_cmds q cmd needs = ?q"
      using True by (simp add: put_queue_mac_cmds_def Let_def MAC_CMD_QUEUE_SIZE_def MAC_CMD_SIZE_def
          q1_def f_def [abs_def])
    have v: "visit 6 (next_idx ?a) ?b = visit 6 ?a ?b @ [?a]" using visit_facts(6) [OF ab] True by blast
    have d: "?a \<notin> set (visit 6 ?a ?b)" using visit_facts(3) [OF ab] .
    have fa: "slot_ok (f s) \<and> buf0 (f s) \<noteq> 0 \<and> take (slot_len (f s)) (slot_buf (f s)) = cmd \<and>
        needs_answer (f s) = needs \<and> slot_len (f s) \<noteq> 0" if "slot_ok s" for s
      using that True assms(2,3) by (auto simp: f_def slot_ok_def buf0_def memcpy_at_def nth_append)
    have oka: "slot_ok (slots q1 ! ?a)" using slot_ok_nth ok len ab by simp
    have "queue_inv1 ?q"
      using inv v visit_facts(7) [OF ab] fa [OF oka] slots_ok_upd [OF ok, of ?a f] len ab
      by (auto simp: queue_inv1_def)
    moreover have "queue_abs ?q = queue_abs q1 @ [(needs, cmd)]"
      using v d fa [OF oka] len ab
      by (simp add: queue_abs_def indices_def waiting_append waiting_Cons)
    ultimately show ?thesis
      using put True abs already_queued_abs [OF inv] by (simp add: queue_full_def q1_def [symmetric])
  qed
qed

fun drop_cmd :: "u8 \<Rightarrow> (bool \<times> buf) list \<Rightarrow> (bool \<times> buf) list" where
  "drop_cmd c [] = []"
| "drop_cmd c ((n, b) # cs) = (if hd b = c then cs else (n, b) # drop_cmd c cs)"

lemma waiting_slot:
  assumes "slot_ok s" "slot_len s \<noteq> 0"
  shows "hd (take (slot_len s) (slot_buf s)) = buf0 s" "length (take (slot_len s) (slot_buf s)) = slot_len s"
proof -
  have "slot_buf s \<noteq> []" using assms by (auto simp: slot_ok_def)
  then show "hd (take (slot_len s) (slot_buf s)) = buf0 s" using assms by (simp add: buf0_def hd_conv_nth)
  show "length (take (slot_len s) (slot_buf s)) = slot_len s" using assms by (simp add: slot_ok_def)
qed

lemma clear_waiting:
  assumes "list_all slot_ok ss" "distinct is" "\<forall>i \<in> set is. i < length ss"
  shows "waiting (case find (\<lambda>i. slot_len (ss ! i) \<noteq> 0 \<and> buf0 (ss ! i) = c) is of
      Some i \<Rightarrow> upd_slot i clear_slot ss | None \<Rightarrow> ss) is = drop_cmd c (waiting ss is)"
  using assms(2,3)
proof (induction "is")
  case (Cons i "is")
  have "slot_ok (ss ! i)" using assms(1) Cons.prems slot_ok_nth by simp
  note hd = waiting_slot(1) [OF this]
  show ?case
  proof (cases "slot_len (ss ! i) \<noteq> 0 \<and> buf0 (ss ! i) = c")
    case True
    then show ?thesis using Cons.prems hd by (simp add: waiting_Cons clear_slot_def)
  next
    case False
    let ?r = "find (\<lambda>i. slot_len (ss ! i) \<noteq> 0 \<and> buf0 (ss ! i) = c) is"
    have "?r \<noteq> Some i" using Cons.prems by (auto simp: find_Some_iff)
    then have "(case ?r of Some j \<Rightarrow> upd_slot j clear_slot ss | None \<Rightarrow> ss) ! i = ss ! i"
      by (auto split: option.splits)
    then show ?thesis using False Cons hd by (auto simp: waiting_Cons)
  qed
qed simp

lemma queue_inv_upd_clear:
  assumes "queue_inv q" "i \<in> set (queue_indices q)"
  shows "queue_inv (q\<lparr>slots := upd_slot i clear_slot (slots q)\<rparr>)"
proof -
  have q: "queue_inv1 q" using assms visit_facts(4) by (auto simp: queue_inv_cases indices_def)
  have "i < 6" using assms(2) q visit_facts(2) [of "in_idx q" "out_idx q" i] by (simp add: queue_inv1_def indices_def)
  then have ok: "list_all slot_ok (upd_slot i clear_slot (slots q))"
    using q slots_ok_upd [of "slots q" i clear_slot] slot_ok_clear by (simp add: queue_inv1_def)
  have "buf0 (upd_slot i clear_slot (slots q) ! j) \<noteq> 0"
    if "j < 6" "j \<notin> set (visit 6 (in_idx q) (out_idx q))" for j
  proof -
    have "j \<noteq> i" using that assms(2) by (auto simp: indices_def)
    then show ?thesis using that q by (simp add: queue_inv1_def)
  qed
  then have "queue_inv1 (q\<lparr>slots := upd_slot i clear_slot (slots q)\<rparr>)"
    using q ok by (simp add: queue_inv1_def)
  then show ?thesis by (simp add: queue_inv_cases)
qed

lemma queue_inv_facts:
  assumes "queue_inv q"
  shows "length (slots q) = 6" "list_all slot_ok (slots q)" "distinct (queue_indices q)"
    "\<forall>i \<in> set (queue_indices q). i < 6" "in_idx q < 6" "out_idx q < 6"
  using assms visit_facts(1,2) [of "in_idx q" "out_idx q"] by (auto simp: queue_inv_def indices_def)

lemma clear_refines:
  assumes "queue_inv q"
  shows "queue_inv (clear_queued_mac_cmd q c) \<and>
    queue_abs (clear_queued_mac_cmd q c) = drop_cmd c (queue_abs q)"
proof -
  note F = queue_inv_facts [OF assms]
  let ?r = "find (\<lambda>i. slot_len (slots q ! i) \<noteq> 0 \<and> buf0 (slots q ! i) = c) (queue_indices q)"
  have "waiting (case ?r of Some i \<Rightarrow> upd_slot i clear_slot (slots q) | None \<Rightarrow> slots q) (queue_indices q)
      = drop_cmd c (waiting (slots q) (queue_indices q))"
    using F by (intro clear_waiting) auto
  moreover have "clear_queued_mac_cmd q c =
      q\<lparr>slots := case ?r of Some i \<Rightarrow> upd_slot i clear_slot (slots q) | None \<Rightarrow> slots q\<rparr>"
    by (simp add: clear_queued_mac_cmd_def split: option.splits)
  moreover have "queue_inv (clear_queued_mac_cmd q c)"
    using queue_inv_upd_clear assms
    by (auto simp: clear_queued_mac_cmd_def find_Some_iff split: option.splits)
  ultimately show ?thesis by (simp add: queue_abs_def indices_def)
qed

definition wipe_slots :: "nat list \<Rightarrow> mac_slot list \<Rightarrow> mac_slot list" where
  "wipe_slots is ss = fold (\<lambda>i. upd_slot i clear_slot) is ss"

lemma wipe_slots_facts:
  assumes "list_all slot_ok ss" "\<forall>i \<in> set is. i < length ss"
  shows "list_all slot_ok (wipe_slots is ss) \<and> length (wipe_slots is ss) = length ss \<and>
    (\<forall>j. j \<notin> set is \<longrightarrow> wipe_slots is ss ! j = ss ! j) \<and> (\<forall>i \<in> set is. slot_len (wipe_slots is ss ! i) = 0)"
  using assms
proof (induction "is" arbitrary: ss)
  case (Cons i "is")
  let ?ss = "upd_slot i clear_slot ss"
  have ok: "list_all slot_ok ?ss" using slots_ok_upd [OF Cons.prems(1)] slot_ok_clear by blast
  have step: "wipe_slots (i # is) ss = wipe_slots is ?ss" by (simp add: wipe_slots_def)
  have IH: "list_all slot_ok (wipe_slots is ?ss)" "length (wipe_slots is ?ss) = length ss"
    "\<And>j. j \<notin> set is \<Longrightarrow> wipe_slots is ?ss ! j = ?ss ! j" "\<And>j. j \<in> set is \<Longrightarrow> slot_len (wipe_slots is ?ss ! j) = 0"
    using Cons.IH [OF ok] Cons.prems(2) by auto
  have "slot_len (wipe_slots is ?ss ! i) = 0"
    using IH(3,4) Cons.prems(2) by (cases "i \<in> set is") (simp_all add: clear_slot_def)
  then show ?case using IH by (auto simp: step)
qed (simp add: wipe_slots_def)

lemma wipe_refines:
  assumes "queue_inv q"
  shows "queue_inv (wipe_queued_mac_cmds q) \<and> queue_abs (wipe_queued_mac_cmds q) = []"
proof -
  note F = queue_inv_facts [OF assms]
  let ?i = "queue_indices q" and ?ss = "wipe_slots (queue_indices q) (slots q)"
  have W: "list_all slot_ok ?ss" "length ?ss = 6" "\<And>j. j \<notin> set ?i \<Longrightarrow> ?ss ! j = slots q ! j"
    "\<And>j. j \<in> set ?i \<Longrightarrow> slot_len (?ss ! j) = 0"
    using wipe_slots_facts [of "slots q" ?i] F by auto
  have w: "wipe_queued_mac_cmds q = q\<lparr>slots := ?ss\<rparr>"
    by (simp add: wipe_queued_mac_cmds_def wipe_slots_def)
  have "queue_abs (q\<lparr>slots := ?ss\<rparr>) = []"
    using W(4) by (simp add: queue_abs_def waiting_def indices_def)
  moreover have "queue_inv (q\<lparr>slots := ?ss\<rparr>)"
  proof (cases "queue_inv1 q")
    case True
    then have "queue_inv1 (q\<lparr>slots := ?ss\<rparr>)" using W by (simp add: queue_inv1_def indices_def)
    then show ?thesis by (simp add: queue_inv_cases)
  next
    case False
    then have "?i = []" using assms F visit_facts(4) by (simp add: queue_inv_cases indices_def)
    then have "?ss = slots q" by (simp add: wipe_slots_def)
    then show ?thesis using assms by simp
  qed
  ultimately show ?thesis by (simp add: w)
qed

fun fit :: "nat \<Rightarrow> (bool \<times> buf) list \<Rightarrow> nat" where
  "fit room [] = 0"
| "fit room (c # cs) = (if length (snd c) > room then 0 else Suc (fit (room - length (snd c)) cs))"

lemma gather_spec:
  assumes "list_all slot_ok ss" "distinct is" "\<forall>i \<in> set is. i < length ss" "length acc \<le> 15"
    and "gather is ss acc ret = (ss', bytes, ret')"
  shows "(let cs = waiting ss is; k = fit (15 - length acc) cs in
     bytes = acc @ concat (map snd (take k cs)) \<and> length bytes \<le> 15 \<and>
     ret' = (if \<exists>c \<in> set (take k cs). fst c then 1 else ret) \<and>
     waiting ss' is = filter fst (take k cs) @ drop k cs) \<and>
     list_all slot_ok ss' \<and> length ss' = length ss \<and> (\<forall>j. j \<notin> set is \<longrightarrow> ss' ! j = ss ! j)"
  using assms
proof (induction "is" arbitrary: ss acc ret)
  case (Cons i "is")
  let ?s = "ss ! i"
  have oki: "slot_ok ?s" using Cons.prems slot_ok_nth by simp
  have d: "i \<notin> set is" using Cons.prems(2) by simp
  show ?case
  proof (cases "slot_len ?s \<noteq> 0")
    case False
    then have "gather is ss acc ret = (ss', bytes, ret')" using Cons.prems(5) by simp
    note IH = Cons.IH [OF Cons.prems(1) _ _ Cons.prems(4) this, unfolded Let_def]
    have "ss' ! i = ss ! i" using IH Cons.prems d by simp
    then have w: "waiting ss (i # is) = waiting ss is" "waiting ss' (i # is) = waiting ss' is"
      using False by (simp_all add: waiting_Cons)
    show ?thesis using IH Cons.prems(2,3) unfolding w Let_def by fastforce
  next
    case True
    define c where "c = (needs_answer ?s, take (slot_len ?s) (slot_buf ?s))"
    have lc: "length (snd c) = slot_len ?s" using waiting_slot(2) [OF oki True] by (simp add: c_def)
    have w: "waiting ss (i # is) = c # waiting ss is" using True by (simp add: waiting_Cons c_def)
    show ?thesis
    proof (cases "length acc + slot_len ?s > 15")
      case full: True
      then have f0: "fit (15 - length acc) (c # waiting ss is) = 0" using lc Cons.prems(4) by simp
      have "ss' = ss" "bytes = acc" "ret' = ret" using Cons.prems(5) True full by simp_all
      then show ?thesis using Cons.prems(1,4) unfolding w Let_def f0 by (simp add: w del: fit.simps)
    next
      case room: False
      define ss1 where "ss1 = (if needs_answer ?s then ss else upd_slot i clear_slot ss)"
      define ret1 where "ret1 = (if needs_answer ?s then 1 else ret)"
      have g: "gather is ss1 (acc @ snd c) ret1 = (ss', bytes, ret')"
        using Cons.prems(5) True room by (cases "needs_answer ?s") (simp_all add: ss1_def ret1_def c_def Let_def)
      have ok1: "list_all slot_ok ss1" "length ss1 = length ss" "\<And>j. j \<noteq> i \<Longrightarrow> ss1 ! j = ss ! j"
        using Cons.prems(1) slots_ok_upd [OF Cons.prems(1)] slot_ok_clear by (auto simp: ss1_def)
      have w1: "waiting ss1 is = waiting ss is" using d by (simp add: ss1_def)
      have room': "15 - length (acc @ snd c) = 15 - length acc - length (snd c)" by simp
      note IH = Cons.IH [OF ok1(1) _ _ _ g]
      have IH': "(let cs = waiting ss is; k = fit (15 - length acc - length (snd c)) cs in
         bytes = (acc @ snd c) @ concat (map snd (take k cs)) \<and> length bytes \<le> 15 \<and>
         ret' = (if \<exists>c \<in> set (take k cs). fst c then 1 else ret1) \<and>
         waiting ss' is = filter fst (take k cs) @ drop k cs) \<and>
         list_all slot_ok ss' \<and> length ss' = length ss \<and> (\<forall>j. j \<notin> set is \<longrightarrow> ss' ! j = ss1 ! j)"
        using IH Cons.prems(2,3) room lc unfolding w1 room' ok1(2) by simp
      have "ss' ! i = ss1 ! i" using IH' d by simp
      then have wi: "waiting ss' (i # is) = (if fst c then [c] else []) @ waiting ss' is"
        using True Cons.prems(3) by (auto simp: waiting_Cons ss1_def c_def clear_slot_def)
      show ?thesis
        using IH' lc room ok1(3) unfolding w wi by (auto simp: Let_def ret1_def c_def)
    qed
  qed
qed (simp add: Let_def)

lemma queue_inv_gather:
  assumes "queue_inv q" "list_all slot_ok ss'" "length ss' = 6"
    and "\<forall>j. j \<notin> set (queue_indices q) \<longrightarrow> ss' ! j = slots q ! j"
  shows "queue_inv (q\<lparr>slots := ss'\<rparr>)"
proof (cases "queue_inv1 q")
  case True
  then have "queue_inv1 (q\<lparr>slots := ss'\<rparr>)" using assms(2-4) by (simp add: queue_inv1_def indices_def)
  then show ?thesis by (simp add: queue_inv_cases)
next
  case False
  then have "queue_indices q = []" using assms(1) visit_facts(4) by (simp add: queue_inv_cases indices_def)
  then have "\<forall>j. ss' ! j = slots q ! j" using assms(4) by simp
  then show ?thesis using False assms(1-3) by (simp add: queue_inv_cases)
qed

text \<open>
  Collecting for a downlink without option negotiation: the frame gets the
  longest run of oldest commands that fits 15 bytes; of these, the commands
  that need no answer leave the queue.
\<close>

lemma get_refines:
  assumes "queue_inv q"
  defines "k \<equiv> fit 15 (queue_abs q)"
  defines "fopts \<equiv> concat (map snd (take k (queue_abs q)))"
  assumes "get_queued_mac_cmds q phy a key cnt False = Some (q', phy', ret)"
  shows "queue_inv q'" "queue_abs q' = filter fst (take k (queue_abs q)) @ drop k (queue_abs q)"
    "length fopts \<le> 15"
    "phy' = (if fopts = [] then phy[5 := 0]
             else memcpy_at (phy[5 := word_of_nat (length fopts)]) 8 fopts (length fopts))"
proof -
  note F = queue_inv_facts [OF assms(1)]
  obtain ss bytes r where g: "gather (queue_indices q) (slots q) [] 0 = (ss, bytes, r)"
    by (metis prod_cases3)
  have "\<forall>i \<in> set (queue_indices q). i < length (slots q)" using F by simp
  note G = gather_spec [OF F(2) F(3) this _ g, unfolded Let_def, simplified,
      folded queue_abs_def, folded k_def, folded fopts_def]
  have b: "bytes = fopts" and ss: "list_all slot_ok ss" "length ss = 6"
    "\<forall>j. j \<notin> set (queue_indices q) \<longrightarrow> ss ! j = slots q ! j"
    "waiting ss (queue_indices q) = filter fst (take k (queue_abs q)) @ drop k (queue_abs q)"
    using G F(1) by auto
  have q': "q' = q\<lparr>slots := ss\<rparr>"
    and phy': "phy' = (if fopts = [] then phy[5 := 0]
             else memcpy_at (phy[5 := word_of_nat (length fopts)]) 8 fopts (length fopts))"
    using assms(4) b by (auto simp: get_queued_mac_cmds_def g Let_def split: if_splits)
  show "queue_inv q'" using queue_inv_gather [OF assms(1) ss(1-3)] q' by simp
  show "queue_abs q' = filter fst (take k (queue_abs q)) @ drop k (queue_abs q)"
    using ss(4) q' by (simp add: queue_abs_def indices_def)
  show "length fopts \<le> 15" using G b by simp
  show "phy' = (if fopts = [] then phy[5 := 0]
             else memcpy_at (phy[5 := word_of_nat (length fopts)]) 8 fopts (length fopts))" by (fact phy')
qed

lemma get_none_without_OptNeg: "get_queued_mac_cmds q phy a key cnt False \<noteq> None"
  by (auto simp: get_queued_mac_cmds_def Let_def split: prod.splits)

text \<open>With option negotiation the cipher call always leaves the 16-byte buffer.\<close>

lemma get_OptNeg_overrun:
  assumes "queue_inv q" "length key = 16" "fit 15 (queue_abs q) > 0"
  shows "get_queued_mac_cmds q phy a key cnt True = None"
proof -
  note F = queue_inv_facts [OF assms(1)]
  obtain ss bytes r where g: "gather (queue_indices q) (slots q) [] 0 = (ss, bytes, r)"
    by (metis prod_cases3)
  have dom: "\<forall>i \<in> set (queue_indices q). i < length (slots q)" using F by simp
  note G = gather_spec [OF F(2) F(3) dom _ g, unfolded Let_def, simplified, folded queue_abs_def]
  have b: "bytes = concat (map snd (take (fit 15 (queue_abs q)) (queue_abs q)))" "length bytes \<le> 15"
    using G by blast+
  obtain c cs where cs: "queue_abs q = c # cs" using assms(3) by (cases "queue_abs q") auto
  have "snd c \<noteq> []"
  proof -
    have "c \<in> set (queue_abs q)" using cs by simp
    then obtain i where i: "i \<in> set (queue_indices q)" "slot_len (slots q ! i) \<noteq> 0"
      "c = (needs_answer (slots q ! i), take (slot_len (slots q ! i)) (slot_buf (slots q ! i)))"
      by (auto simp: queue_abs_def waiting_def)
    then show ?thesis using waiting_slot(2) slot_ok_nth [OF F(2), of i] F(1,4) by fastforce
  qed
  then have "bytes \<noteq> []" using b(1) cs assms(3) by (auto simp: take_Cons' split: if_splits)
  then have "0 < length bytes" by simp
  then show ?thesis
    using LoRa_Encrypt_FOpts_overrun [OF assms(2), of "length bytes"] b(2) g
    by (simp add: get_queued_mac_cmds_def)
qed

section \<open>The interface the command handlers rely on\<close>

text \<open>
  Device management only needs a queue in which a command waits until it is
  sent or cleared: a store of commands with put, clear and wipe.
\<close>

locale cmd_queue =
  fixes inv :: "'q \<Rightarrow> bool" and abs :: "'q \<Rightarrow> (bool \<times> buf) list"
    and put :: "'q \<Rightarrow> buf \<Rightarrow> bool \<Rightarrow> 'q" and clear :: "'q \<Rightarrow> u8 \<Rightarrow> 'q" and wipe :: "'q \<Rightarrow> 'q"
    and full :: "'q \<Rightarrow> bool"
  assumes put_law: "inv q \<Longrightarrow> 0 < length cmd \<Longrightarrow> cmd ! 0 \<noteq> 0 \<Longrightarrow> inv (put q cmd needs) \<and>
      abs (put q cmd needs) = (if length cmd < 8 \<and> \<not> full q \<and> \<not> cmd_waiting (abs q) (cmd ! 0)
        then abs q @ [(needs, cmd)] else abs q)"
    and clear_law: "inv q \<Longrightarrow> inv (clear q c) \<and> abs (clear q c) = drop_cmd c (abs q)"
    and wipe_law: "inv q \<Longrightarrow> inv (wipe q) \<and> abs (wipe q) = []"
begin

lemma put_inv: "inv q \<Longrightarrow> 0 < length cmd \<Longrightarrow> cmd ! 0 \<noteq> 0 \<Longrightarrow> inv (put q cmd needs)"
  using put_law by blast

lemma put_keeps_order:
  "inv q \<Longrightarrow> 0 < length cmd \<Longrightarrow> cmd ! 0 \<noteq> 0 \<Longrightarrow> \<exists>new. abs (put q cmd needs) = abs q @ new"
  using put_law [of q cmd needs] by auto

lemma put_present:
  assumes "inv q" "0 < length cmd" "cmd ! 0 \<noteq> 0" "length cmd < 8" "\<not> full q"
  shows "cmd_waiting (abs (put q cmd needs)) (cmd ! 0)"
  using put_law [OF assms(1-3), of needs] assms(2,4,5)
  by (auto simp: cmd_waiting_def hd_conv_nth)

lemma no_duplicates:
  assumes "inv q" "0 < length cmd" "cmd ! 0 \<noteq> 0" "distinct (map (hd \<circ> snd) (abs q))"
  shows "distinct (map (hd \<circ> snd) (abs (put q cmd needs)))"
  using put_law [OF assms(1-3), of needs] assms(2,4)
  by (auto simp: cmd_waiting_def hd_conv_nth image_iff)

lemma wipe_put:
  assumes "inv q" "0 < length cmd" "cmd ! 0 \<noteq> 0" "length cmd < 8" "\<not> full (wipe q)"
  shows "abs (put (wipe q) cmd needs) = [(needs, cmd)]"
  using put_law [of "wipe q" cmd needs] wipe_law [OF assms(1)] assms(2-5) by (simp add: cmd_waiting_def)

end

interpretation mq: cmd_queue queue_inv queue_abs put_queue_mac_cmds clear_queued_mac_cmd
  wipe_queued_mac_cmds queue_full
proof unfold_locales
  show "queue_inv q \<Longrightarrow> 0 < length cmd \<Longrightarrow> cmd ! 0 \<noteq> 0 \<Longrightarrow> queue_inv (put_queue_mac_cmds q cmd needs) \<and>
      queue_abs (put_queue_mac_cmds q cmd needs) =
        (if length cmd < 8 \<and> \<not> queue_full q \<and> \<not> cmd_waiting (queue_abs q) (cmd ! 0)
         then queue_abs q @ [(needs, cmd)] else queue_abs q)" for q cmd needs
    using put_refines [of q cmd needs] by (simp add: queue_inv_cases)
qed (use clear_refines wipe_refines in blast)+


section \<open>Histories of the queue\<close>

datatype queue_cmd = QPut buf bool | QClear u8 | QWipe

fun queue_op :: "queue_cmd \<Rightarrow> mac_queue \<Rightarrow> mac_queue" where
  "queue_op (QPut cmd needs) q = put_queue_mac_cmds q cmd needs"
| "queue_op (QClear c) q = clear_queued_mac_cmd q c"
| "queue_op QWipe q = wipe_queued_mac_cmds q"

definition proper_op :: "queue_cmd \<Rightarrow> bool" where
  "proper_op e = (case e of QPut cmd needs \<Rightarrow> 0 < length cmd \<and> cmd ! 0 \<noteq> 0 | _ \<Rightarrow> True)"

definition no_repeats :: "mac_queue \<Rightarrow> bool" where
  "no_repeats q \<longleftrightarrow> distinct (map (hd \<circ> snd) (queue_abs q))"

lemma drop_cmd_subset: "set (map (hd \<circ> snd) (drop_cmd c cs)) \<subseteq> set (map (hd \<circ> snd) cs)"
  by (induction c cs rule: drop_cmd.induct) auto

lemma drop_cmd_distinct:
  "distinct (map (hd \<circ> snd) cs) \<Longrightarrow> distinct (map (hd \<circ> snd) (drop_cmd c cs))"
proof (induction cs)
  case (Cons x cs)
  then show ?case using drop_cmd_subset [of c cs] by (cases x) auto
qed simp

lemma queue_op_keeps:
  assumes "proper_op e" "queue_inv q" "no_repeats q"
  shows "queue_inv (queue_op e q) \<and> no_repeats (queue_op e q)"
  using assms mq.put_inv mq.no_duplicates mq.clear_law mq.wipe_law drop_cmd_distinct
  by (cases e) (auto simp: proper_op_def no_repeats_def)

lemma queue_history:
  assumes "\<forall>e \<in> set ops. proper_op e" "queue_inv q" "no_repeats q"
  shows "queue_inv (fold queue_op ops q) \<and> no_repeats (fold queue_op ops q)"
  using assms queue_op_keeps by (induction ops arbitrary: q) simp_all

lemma empty_not_full: "\<not> queue_full empty_queue"
  by (simp add: queue_full_def empty_queue_def next_idx_def buf0_def upd_slot_def numeral_eq_Suc MAC_CMD_QUEUE_SIZE_def)

text \<open>A ring with one command, for the examples.\<close>

definition link_adr_queue :: mac_queue where
  "link_adr_queue = put_queue_mac_cmds empty_queue [3, 0x51, 7, 0, 0] True"

lemma link_adr_queue:
  "queue_inv link_adr_queue" "queue_abs link_adr_queue = [(True, [3, 0x51, 7, 0, 0])]"
  "fit 15 (queue_abs link_adr_queue) = 1"
  using mq.put_law [of empty_queue "[3, 0x51, 7, 0, 0]" True] empty_queue_inv empty_not_full
  by (simp_all add: link_adr_queue_def empty_queue_abs cmd_waiting_def)

end
