(* ===== verification/Adr.thy ===== *)
theory Adr
  imports MacQueue
begin

text \<open>
  Adaptive data rate (network_server/adr.c): the history of uplink qualities,
  its reset when a session starts, and the decision after an uplink, which
  raises the data rate and lowers the transmit power as far as the measured
  margin allows and queues a LinkADRReq. SNR values are whole dB; their mean is
  an exact rational here. The thresholds compared with are multiples of one
  half and the mean a multiple of one third, so the float comparisons of the
  code have the same outcome.
\<close>

section \<open>Regions\<close>

text \<open>The regional parameters of network_server/ns.h, callbacks included; NULL callbacks are None.\<close>

record dr_t =
  lgw_bw :: u8
  lgw_sf_bps :: u8
  fdev_khz :: u8

record regional_t =
  TxParamSetup :: u8
  enableTxParamSetup :: bool
  Rx2_FrequencyHz :: u32
  Rx2_Datarate :: u8
  ping_freq_hz :: u32
  ping_dr :: u8
  uplink_dr_max :: u8
  Rx1DrOffset :: u8
  dl_tx_dbm :: int
  datarates :: "dr_t list"
  num_datarates :: nat
  beacon_hz :: u32
  default_txpwr_idx :: u8
  max_txpwr_idx :: u8
  init_ChMask :: "u16 list"
  get_ch :: "(rat \<Rightarrow> u8 \<Rightarrow> int) option"
  get_cflist :: "buf option"
  cb_init_session :: "(mysql \<Rightarrow> u64 \<Rightarrow> u32 \<Rightarrow> u32 \<Rightarrow> s_t \<Rightarrow> s_t option) option"
  parse_start_mac_cmd :: "(buf \<Rightarrow> s_t \<Rightarrow> s_t option) option"
  rx1_band_conv :: "(rat \<Rightarrow> u8 \<Rightarrow> u8 \<Rightarrow> DLMetaData_t \<Rightarrow> DLMetaData_t option) option"

record region_t =
  conf_file_8ch :: "string option"
  conf_file_16ch :: "string option"
  rg_RFRegion :: "string option"
  regional :: regional_t

text \<open>The list search of the code takes the last region whose name matches.\<close>

definition find_region :: "region_t list \<Rightarrow> string option \<Rightarrow> region_t option" where
  "find_region rl name = find (\<lambda>r. rg_RFRegion r = name) (rev rl)"

section \<open>The controller\<close>

definition SNR_HISTORY_SIZE :: nat where "SNR_HISTORY_SIZE = 3"
definition MAX_CH_MASKS :: nat where "MAX_CH_MASKS = 6"
definition MAX_DATARATES :: u8 where "MAX_DATARATES = 24"
definition NULL_SNR :: int where "NULL_SNR = - 30"

definition network_controller_uplink :: "s_t \<Rightarrow> int \<Rightarrow> s_t" where
  "network_controller_uplink s snr =
    (let i = snr_history_idx s in
     s\<lparr>snr_history := (snr_history s)[i := snr],
       snr_history_idx := (if i + 1 = SNR_HISTORY_SIZE then 0 else i + 1)\<rparr>)"

definition network_controller_mote_init :: "region_t list \<Rightarrow> s_t \<Rightarrow> string option \<Rightarrow> s_t" where
  "network_controller_mote_init rl s name =
    (case find_region rl name of None \<Rightarrow> s
     | Some region \<Rightarrow>
         s\<lparr>snr_history := replicate SNR_HISTORY_SIZE NULL_SNR,
           ChMask := take MAX_CH_MASKS (init_ChMask (regional region)),
           txpwr_idx := default_txpwr_idx (regional region)\<rparr>)"

text \<open>The raise of the data rate and the cut of the power; the counters stay below their limits.\<close>

lemma unat_inc: "a < b \<Longrightarrow> unat (a + 1) = Suc (unat a)" for a b :: u8
proof -
  assume "a < b"
  then have "Suc (unat a) < 256"
    using unat_byte_lt [of b] unfolding word_less_nat_alt by linarith
  then show ?thesis by (simp add: unat_word_ariths)
qed

function raise_dr :: "u8 \<Rightarrow> u8 \<Rightarrow> rat \<Rightarrow> u8 \<times> rat" where
  "raise_dr dr_max DataRate snr =
    (if DataRate < dr_max \<and> snr > 0 then raise_dr dr_max (DataRate + 1) (snr - 5 / 2) else (DataRate, snr))"
  by pat_completeness auto
termination
  by (relation "measure (\<lambda>(m, d, s). unat m - unat d)") (auto simp: unat_inc word_less_nat_alt)

function cut_power :: "u8 \<Rightarrow> u8 \<Rightarrow> rat \<Rightarrow> u8 \<times> rat" where
  "cut_power max_idx idx snr =
    (if snr > 3 \<and> idx < max_idx then cut_power max_idx (idx + 1) (snr - 3) else (idx, snr))"
  by pat_completeness auto
termination
  by (relation "measure (\<lambda>(m, d, s). unat m - unat d)") (auto simp: unat_inc word_less_nat_alt)

declare raise_dr.simps [simp del] cut_power.simps [simp del]

definition snr_window :: "s_t \<Rightarrow> int list" where
  "snr_window s = map (\<lambda>i. snr_history s ! ((snr_history_idx s + SNR_HISTORY_SIZE - i) mod SNR_HISTORY_SIZE))
     [0..<SNR_HISTORY_SIZE]"

definition adr_choice :: "regional_t \<Rightarrow> s_t \<Rightarrow> u8 \<Rightarrow> u8 \<times> u8" where
  "adr_choice rp s DataRate =
    (let w = snr_window s;
         max_snr = fold max w (- 40);
         min_snr = fold min w 40;
         snr = rat_of_int (sum_list w) / 3
     in if max_snr - min_snr < 4 \<and> DataRate \<noteq> MAX_DATARATES then
          let (d, left) = raise_dr (uplink_dr_max rp) DataRate snr;
              (i, _) = cut_power (max_txpwr_idx rp) (txpwr_idx s) left
          in (d, i)
        else (DataRate, txpwr_idx s))"

definition link_adr_req :: "u8 \<Rightarrow> u8 \<Rightarrow> u16 \<Rightarrow> buf" where
  "link_adr_req d idx chm = [srv_code SRV_MAC_LINK_ADR_REQ, push_bit 4 d OR idx,
     ucast (chm AND 0xff), ucast (drop_bit 8 chm), 0x00]"

definition network_controller_adr :: "region_t list \<Rightarrow> s_t \<Rightarrow> u8 \<Rightarrow> string option \<Rightarrow> s_t" where
  "network_controller_adr rl s DataRate name =
    (case find_region rl name of None \<Rightarrow> s
     | Some region \<Rightarrow>
        let (dr', idx') = adr_choice (regional region) s DataRate;
            s' = s\<lparr>txpwr_idx := idx'\<rparr>
        in if force_adr (flags s) \<or> DataRate \<noteq> dr' \<or> txpwr_idx s \<noteq> idx' then
             s'\<lparr>macq := put_queue_mac_cmds (macq s') (link_adr_req dr' idx' (ChMask s ! 0)) True\<rparr>
           else s')"

section \<open>What a decision may do\<close>

lemma raise_dr_facts:
  assumes "raise_dr m d snr = (d', snr')"
  shows "d \<le> d'" "d < m \<Longrightarrow> d' \<le> m" "snr' = snr - 5 / 2 * (of_nat (unat d') - of_nat (unat d))"
    "d' < m \<Longrightarrow> snr' \<le> 0" "d' \<noteq> d \<Longrightarrow> snr' > - 5 / 2" "m \<le> d \<Longrightarrow> d' = d"
proof -
  have "d \<le> d' \<and> (d < m \<longrightarrow> d' \<le> m) \<and> snr' = snr - 5 / 2 * (of_nat (unat d') - of_nat (unat d)) \<and>
    (d' < m \<longrightarrow> snr' \<le> 0) \<and> (d' \<noteq> d \<longrightarrow> snr' > - 5 / 2) \<and> (m \<le> d \<longrightarrow> d' = d)"
    using assms
  proof (induction m d snr arbitrary: d' snr' rule: raise_dr.induct)
    case (1 m d snr)
    show ?case
    proof (cases "d < m \<and> snr > 0")
      case True
      then have r: "raise_dr m (d + 1) (snr - 5 / 2) = (d', snr')" and u: "unat (d + 1) = Suc (unat d)"
        using "1.prems" unat_inc [of d m] by (simp_all add: raise_dr.simps [of m d])
      have ur: "(unsigned (1 + d) :: rat) = 1 + unsigned d"
        by (metis u add.commute of_nat_Suc of_nat_unat)
      note IH = 1(1) [OF True r]
      have "d + 1 \<le> m" using True u by (simp add: word_le_nat_alt word_less_nat_alt)
      then have "d' \<le> m" using IH by (cases "d + 1 < m") (auto simp: not_less)
      moreover have "d \<le> d'" using IH u by (simp add: word_le_nat_alt)
      moreover have "snr' > - 5 / 2" using IH True by (cases "d' = d + 1") (auto simp: u)
      ultimately show ?thesis using IH True u by (auto simp: field_simps ur)
    next
      case False
      then show ?thesis using "1.prems" by (auto simp: raise_dr.simps [of m d])
    qed
  qed
  then show "d \<le> d'" "d < m \<Longrightarrow> d' \<le> m" "snr' = snr - 5 / 2 * (of_nat (unat d') - of_nat (unat d))"
    "d' < m \<Longrightarrow> snr' \<le> 0" "d' \<noteq> d \<Longrightarrow> snr' > - 5 / 2" "m \<le> d \<Longrightarrow> d' = d" by blast+
qed

lemma cut_power_facts:
  assumes "cut_power m i snr = (i', snr')"
  shows "i \<le> i'" "i < m \<Longrightarrow> i' \<le> m" "snr' = snr - 3 * (of_nat (unat i') - of_nat (unat i))"
    "i' \<noteq> i \<Longrightarrow> snr' > 0" "snr' \<le> 3 \<or> m \<le> i'" "snr \<le> 3 \<Longrightarrow> i' = i"
proof -
  have "i \<le> i' \<and> (i < m \<longrightarrow> i' \<le> m) \<and> snr' = snr - 3 * (of_nat (unat i') - of_nat (unat i)) \<and>
    (i' \<noteq> i \<longrightarrow> snr' > 0) \<and> (snr' \<le> 3 \<or> m \<le> i') \<and> (snr \<le> 3 \<longrightarrow> i' = i)"
    using assms
  proof (induction m i snr arbitrary: i' snr' rule: cut_power.induct)
    case (1 m i snr)
    show ?case
    proof (cases "snr > 3 \<and> i < m")
      case True
      then have r: "cut_power m (i + 1) (snr - 3) = (i', snr')" and u: "unat (i + 1) = Suc (unat i)"
        using "1.prems" unat_inc [of i m] by (simp_all add: cut_power.simps [of m i])
      have ur: "(unsigned (1 + i) :: rat) = 1 + unsigned i"
        by (metis u add.commute of_nat_Suc of_nat_unat)
      note IH = 1(1) [OF True r]
      have "i + 1 \<le> m" using True u by (simp add: word_le_nat_alt word_less_nat_alt)
      then have "i' \<le> m" using IH cut_power.simps [of m "i + 1"] r
        by (cases "i + 1 < m") (auto simp: not_less)
      moreover have "i \<le> i'" using IH u by (simp add: word_le_nat_alt)
      moreover have "snr' > 0" using IH True by (cases "i' = i + 1") (auto simp: u)
      ultimately show ?thesis using IH True u by (auto simp: algebra_simps ur)
    next
      case False
      then show ?thesis using "1.prems" by (auto simp: cut_power.simps [of m i])
    qed
  qed
  then show "i \<le> i'" "i < m \<Longrightarrow> i' \<le> m" "snr' = snr - 3 * (of_nat (unat i') - of_nat (unat i))"
    "i' \<noteq> i \<Longrightarrow> snr' > 0" "snr' \<le> 3 \<or> m \<le> i'" "snr \<le> 3 \<Longrightarrow> i' = i" by blast+
qed

text \<open>Neither passes its limit; what is at it or beyond stays.\<close>

lemma raise_dr_limit: "raise_dr m d snr = (d', r) \<Longrightarrow> d' \<le> max d m"
  using raise_dr_facts(2,6) [of m d snr d' r] by (cases "d < m") (auto simp: le_max_iff_disj not_less)

lemma cut_power_limit: "cut_power m i snr = (i', r) \<Longrightarrow> i' \<le> max i m"
proof (cases "i < m")
  case False
  moreover assume "cut_power m i snr = (i', r)"
  ultimately have "i' = i" by (simp add: cut_power.simps [of m i])
  then show ?thesis by simp
next
  case True
  moreover assume "cut_power m i snr = (i', r)"
  ultimately show ?thesis using cut_power_facts(2) by (simp add: le_max_iff_disj)
qed

definition snr_mean :: "s_t \<Rightarrow> rat" where
  "snr_mean s = rat_of_int (sum_list (snr_window s)) / 3"

definition snr_stable :: "s_t \<Rightarrow> bool" where
  "snr_stable s \<longleftrightarrow> fold max (snr_window s) (- 40) - fold min (snr_window s) 40 < 4"

text \<open>A decision spends at most the measured margin, and power is cut only at the top data rate.\<close>

lemma adr_choice_safe:
  assumes "adr_choice rp s d = (d', i')"
  shows "d \<le> d'" "txpwr_idx s \<le> i'" "d' \<le> max d (uplink_dr_max rp)"
    "i' \<le> max (txpwr_idx s) (max_txpwr_idx rp)"
    "(d', i') \<noteq> (d, txpwr_idx s) \<Longrightarrow> snr_stable s \<and> d \<noteq> MAX_DATARATES \<and>
      5 / 2 * (of_nat (unat d') - of_nat (unat d)) + 3 * (of_nat (unat i') - of_nat (unat (txpwr_idx s)))
        < snr_mean s + 5 / 2"
    "i' \<noteq> txpwr_idx s \<Longrightarrow> uplink_dr_max rp \<le> d'"
proof -
  have *: "(d \<le> d' \<and> txpwr_idx s \<le> i' \<and> d' \<le> max d (uplink_dr_max rp) \<and>
    i' \<le> max (txpwr_idx s) (max_txpwr_idx rp)) \<and>
    ((d', i') \<noteq> (d, txpwr_idx s) \<longrightarrow> snr_stable s \<and> d \<noteq> MAX_DATARATES \<and>
      5 / 2 * (of_nat (unat d') - of_nat (unat d)) + 3 * (of_nat (unat i') - of_nat (unat (txpwr_idx s)))
        < snr_mean s + 5 / 2) \<and>
    (i' \<noteq> txpwr_idx s \<longrightarrow> uplink_dr_max rp \<le> d')"
  proof (cases "snr_stable s \<and> d \<noteq> MAX_DATARATES")
    case False
    then have "d' = d" "i' = txpwr_idx s"
      using assms by (auto simp: adr_choice_def Let_def snr_stable_def)
    then show ?thesis by simp
  next
    case True
    obtain left where R: "raise_dr (uplink_dr_max rp) d (snr_mean s) = (d', left)"
      and C: "\<exists>r. cut_power (max_txpwr_idx rp) (txpwr_idx s) left = (i', r)"
      using assms True by (auto simp: adr_choice_def Let_def snr_stable_def snr_mean_def split: prod.splits)
    then obtain r where C: "cut_power (max_txpwr_idx rp) (txpwr_idx s) left = (i', r)" by blast
    note F = raise_dr_facts [OF R] cut_power_facts [OF C]
    have spent: "5 / 2 * (of_nat (unat d') - of_nat (unat d)) + 3 * (of_nat (unat i') - of_nat (unat (txpwr_idx s)))
        = snr_mean s - r"
      using F(3,9) by (simp add: algebra_simps)
    have "snr_mean s - r < snr_mean s + 5 / 2" if "(d', i') \<noteq> (d, txpwr_idx s)"
    proof (cases "i' = txpwr_idx s")
      case True
      then have "r > - 5 / 2" using that F(5,9) by simp
      then show ?thesis by simp
    next
      case False
      then show ?thesis using F(10) by simp
    qed
    moreover have "uplink_dr_max rp \<le> d'" if "i' \<noteq> txpwr_idx s"
    proof (rule ccontr)
      assume "\<not> uplink_dr_max rp \<le> d'"
      then have "left \<le> 0" using F(4) by (simp add: not_le)
      then show False using F(12) that by simp
    qed
    ultimately show ?thesis unfolding spent using True F(1,7) raise_dr_limit [OF R] cut_power_limit [OF C] by blast
  qed
  show "d \<le> d'" "txpwr_idx s \<le> i'" "d' \<le> max d (uplink_dr_max rp)"
    "i' \<le> max (txpwr_idx s) (max_txpwr_idx rp)"
    "(d', i') \<noteq> (d, txpwr_idx s) \<Longrightarrow> snr_stable s \<and> d \<noteq> MAX_DATARATES \<and>
      5 / 2 * (of_nat (unat d') - of_nat (unat d)) + 3 * (of_nat (unat i') - of_nat (unat (txpwr_idx s)))
        < snr_mean s + 5 / 2"
    "i' \<noteq> txpwr_idx s \<Longrightarrow> uplink_dr_max rp \<le> d'"
    using * by blast+
qed

lemma link_adr_req_cmd [simp]:
  "length (link_adr_req d i m) = 5" "link_adr_req d i m \<noteq> []" "link_adr_req d i m ! 0 \<noteq> 0"
  by (simp_all add: link_adr_req_def)

lemma adr_queue:
  assumes "queue_inv (macq s)"
  shows "queue_inv (macq (network_controller_adr rl s d name)) \<and>
    (\<exists>new. queue_abs (macq (network_controller_adr rl s d name)) = queue_abs (macq s) @ new)"
  using mq.put_inv [OF assms] mq.put_keeps_order [OF assms] assms
  by (auto simp: network_controller_adr_def Let_def split: option.splits prod.splits)

end
