(* ===== verification/Addressing.thy ===== *)
theory Addressing
  imports Codec
begin

text \<open>
  Device addresses: their split into NetID, NwkID and NwkAddr (parseDevAddr of
  libbackend/libserver.c), the address block a network server derives from its
  own NetID at start-up (fNS_init of network_server/fNS.c), the choice of a
  free address for a joining device (getDevAddr of network_server/sNS.c), and
  the roaming table lookup isNetID of network_server/common.c. The lemmas show
  that an address of the block parses back to the server's NetID, and that an
  assigned address is free.
\<close>

section \<open>The operations\<close>

text \<open>NetID, NwkID and NwkAddr; None is the UINT_MAX return, which sets nothing.\<close>

definition parseDevAddr :: "u32 \<Rightarrow> (u32 \<times> u32 \<times> u32) option" where
  "parseDevAddr devAddr =
    (if devAddr AND 0xff000000 = 0xfe000000 then
       let NwkID = drop_bit 7 devAddr AND 0x1ffff in Some (0xe00000 OR NwkID, NwkID, devAddr AND 0x7f)
     else if devAddr AND 0xfe000000 = 0xfc000000 then
       let NwkID = drop_bit 10 devAddr AND 0x7fff in Some (0xc00000 OR NwkID, NwkID, devAddr AND 0x3ff)
     else if devAddr AND 0xfc000000 = 0xf8000000 then
       let NwkID = drop_bit 13 devAddr AND 0x1fff in Some (0xa00000 OR NwkID, NwkID, devAddr AND 0x1fff)
     else if devAddr AND 0xf8000000 = 0xf0000000 then
       let NwkID = drop_bit 16 devAddr AND 0x7ff in Some (0x800000 OR NwkID, NwkID, devAddr AND 0xffff)
     else if devAddr AND 0xf0000000 = 0xe0000000 then
       let NwkID = drop_bit 18 devAddr AND 0x3ff in Some (0x600000 OR NwkID, NwkID, devAddr AND 0x3ffff)
     else if devAddr AND 0xe0000000 = 0xc0000000 then
       let NwkID = drop_bit 20 devAddr AND 0x1ff in Some (0x400000 OR NwkID, NwkID, devAddr AND 0xfffff)
     else if devAddr AND 0xc0000000 = 0x80000000 then
       let NwkID = drop_bit 24 devAddr AND 0x3f in Some (0x200000 OR NwkID, NwkID, devAddr AND 0xffffff)
     else if devAddr AND 0x80000000 = 0x00000000 then
       let NwkID = drop_bit 25 devAddr AND 0x3f in Some (0x000000 OR NwkID, NwkID, devAddr AND 0x1ffffff)
     else None)"

text \<open>The globals devAddrBase and nwkAddrBits after start-up, with the return code.\<close>

definition fNS_init :: "bool \<Rightarrow> u32 \<Rightarrow> u32 \<times> nat \<Rightarrow> int \<times> u32 \<times> nat" where
  "fNS_init database_opened myNetwork_id32 globals =
    (if \<not> database_opened then (- 1, globals)
     else
       let NetID_Type = drop_bit 21 myNetwork_id32;
           ID = (if NetID_Type < 2 then myNetwork_id32 AND 0x3f
                 else if NetID_Type = 2 then myNetwork_id32 AND 0x1ff
                 else myNetwork_id32 AND 0x1fffff);
           block = (if NetID_Type = 0 then Some (0x00000000, 25)
                    else if NetID_Type = 1 then Some (0x80000000, 24)
                    else if NetID_Type = 2 then Some (0xc0000000, 20)
                    else if NetID_Type = 3 then Some (0xe0000000, 18)
                    else if NetID_Type = 4 then Some (0xf0000000, 16)
                    else if NetID_Type = 5 then Some (0xf8000000, 13)
                    else if NetID_Type = 6 then Some (0xfc000000, 10)
                    else if NetID_Type = 7 then Some (0xfe000000, 7) else None)
       in case block of None \<Rightarrow> (- 1, globals)
          | Some (devAddrBase, nwkAddrBits) \<Rightarrow>
              (0, devAddrBase OR push_bit nwkAddrBits ID, nwkAddrBits))"

definition NONE_DEVADDR :: u32 where "NONE_DEVADDR = 0xffffffff"

definition getDevAddr_query :: "u32 \<Rightarrow> string" where
  "getDevAddr_query attempt = ''SELECT ID FROM sessions WHERE DevAddr = '' @ print_unsigned attempt @ '' LIMIT 1''"

text \<open>
  The loop from address n on. The mote list holds an optional mote per node, of
  which the loop reads the device address; old is the mote's address before.
\<close>

function getDevAddr_from :: "mysql \<Rightarrow> u32 \<Rightarrow> nat \<Rightarrow> u32 option list \<Rightarrow> u32 \<Rightarrow> nat \<Rightarrow> u32" where
  "getDevAddr_from db base bits motes old n =
    (if n < 2 ^ bits - 1 then
       let attempt = base OR word_of_nat n
       in if Some attempt \<in> set motes then getDevAddr_from db base bits motes old (n + 1)
          else (case db (getDevAddr_query attempt) of
            SqlError \<Rightarrow> NONE_DEVADDR
          | SqlNoResult \<Rightarrow> NONE_DEVADDR
          | SqlRows (_ # _) \<Rightarrow> getDevAddr_from db base bits motes old (n + 1)
          | SqlRows [] \<Rightarrow> attempt)
     else old)"
  by pat_completeness auto
termination by (relation "measure (\<lambda>(_, _, bits, _, _, n). 2 ^ bits - 1 - n)") auto

declare getDevAddr_from.simps [simp del]

definition getDevAddr :: "mysql \<Rightarrow> u32 \<Rightarrow> nat \<Rightarrow> u32 option list \<Rightarrow> u32 \<Rightarrow> u32" where
  "getDevAddr db devAddrBase nwkAddrBits motes old = getDevAddr_from db devAddrBase nwkAddrBits motes old 0"

text \<open>1 and 0 are the column's value, -1 stands for no answer or no row.\<close>

definition isNetID :: "mysql \<Rightarrow> u32 \<Rightarrow> string \<Rightarrow> int option" where
  "isNetID db NetID colName =
    (case db (''SELECT '' @ colName @ '' FROM roaming WHERE NetID = '' @ print_unsigned NetID) of
       SqlError \<Rightarrow> Some (- 1)
     | SqlNoResult \<Rightarrow> Some (- 1)
     | SqlRows [] \<Rightarrow> Some (- 1)
     | SqlRows ((Some (c # _) # _) # _) \<Rightarrow> Some (if c = CHR ''0'' then 0 else 1)
     | SqlRows ((Some [] # _) # _) \<Rightarrow> Some 1
     | SqlRows _ \<Rightarrow> None)"

section \<open>Parsing an address of the block\<close>

lemma prefix_test:
  fixes x :: u32
  assumes "s + k = 32" "take_bit k p = p"
  shows "x AND push_bit s (mask k) = push_bit s p \<longleftrightarrow> drop_bit s x = p"
proof
  have p: "bit p i \<Longrightarrow> i < k" for i
    using assms(2) by (metis bit_take_bit_iff)
  show "drop_bit s x = p" if "x AND push_bit s (mask k) = push_bit s p"
  proof (rule bit_word_eqI)
    fix i assume i: "i < LENGTH(32)"
    show "bit (drop_bit s x) i = bit p i"
    proof (cases "i < k")
      case True
      then have "bit (x AND push_bit s (mask k)) (s + i) = bit x (s + i)"
        using assms(1) by (simp add: bit_and_iff bit_push_bit_iff bit_mask_iff)
      moreover have "bit (push_bit s p) (s + i) = bit p i"
        using True assms(1) by (simp add: bit_push_bit_iff)
      ultimately show ?thesis using that by (simp add: bit_drop_bit_eq)
    next
      case False
      then show ?thesis using p assms(1) bit_imp_le_length [of x "s + i"]
        by (auto simp: bit_drop_bit_eq)
    qed
  qed
  show "x AND push_bit s (mask k) = push_bit s p" if "drop_bit s x = p"
    using that assms(1)
    by (intro bit_word_eqI) (auto simp: bit_and_iff bit_push_bit_iff bit_mask_iff bit_drop_bit_eq)
qed

lemma prefix_tests:
  fixes x :: u32
  shows "x AND 0xff000000 = 0xfe000000 \<longleftrightarrow> drop_bit 24 x = 0xfe"
    "x AND 0xfe000000 = 0xfc000000 \<longleftrightarrow> drop_bit 25 x = 0x7e"
    "x AND 0xfc000000 = 0xf8000000 \<longleftrightarrow> drop_bit 26 x = 0x3e"
    "x AND 0xf8000000 = 0xf0000000 \<longleftrightarrow> drop_bit 27 x = 0x1e"
    "x AND 0xf0000000 = 0xe0000000 \<longleftrightarrow> drop_bit 28 x = 0xe"
    "x AND 0xe0000000 = 0xc0000000 \<longleftrightarrow> drop_bit 29 x = 0x6"
    "x AND 0xc0000000 = 0x80000000 \<longleftrightarrow> drop_bit 30 x = 0x2"
    "x AND 0x80000000 = 0 \<longleftrightarrow> drop_bit 31 x = 0"
  using prefix_test [of 24 8 "0xfe" x] prefix_test [of 25 7 "0x7e" x] prefix_test [of 26 6 "0x3e" x]
    prefix_test [of 27 5 "0x1e" x] prefix_test [of 28 4 "0xe" x] prefix_test [of 29 3 6 x]
    prefix_test [of 30 2 2 x] prefix_test [of 31 1 0 x]
  by (simp_all add: mask_eq_exp_minus_1 push_bit_eq_mult)

lemma prefix_differs:
  fixes x :: u32
  assumes "drop_bit s x = p" "s = s' + k" "drop_bit k q \<noteq> p"
  shows "drop_bit s' x \<noteq> q"
  using assms by (auto simp: add.commute)

text \<open>The NwkID width and the NwkAddr width of each NetID type.\<close>

definition id_bits :: "nat \<Rightarrow> nat" where
  "id_bits t = [6, 6, 9, 10, 11, 13, 15, 17] ! t"

definition addr_bits :: "nat \<Rightarrow> nat" where
  "addr_bits t = [25, 24, 20, 18, 16, 13, 10, 7] ! t"

definition type_base :: "nat \<Rightarrow> u32" where
  "type_base t = push_bit (31 - t) (2 ^ (t + 1) - 2)"

definition net_id :: "nat \<Rightarrow> u32 \<Rightarrow> u32" where
  "net_id t ID = push_bit 21 (word_of_nat t) OR ID"

lemma fields:
  fixes ID n P :: u32
  assumes "take_bit w ID = ID" "take_bit b n = n" "b + w \<le> s" "s < 32" "take_bit (32 - s) P = P"
  defines "x \<equiv> push_bit s P OR (push_bit b ID OR n)"
  shows "drop_bit s x = P" "drop_bit b x AND mask w = ID" "x AND mask b = n"
proof -
  have I: "bit ID i \<Longrightarrow> i < w" for i using assms(1) by (metis bit_take_bit_iff)
  have N: "bit n i \<Longrightarrow> i < b" for i using assms(2) by (metis bit_take_bit_iff)
  have P: "bit P i \<Longrightarrow> i < 32 - s" for i using assms(5) by (metis bit_take_bit_iff)
  show "drop_bit s x = P"
    using assms(3,4) by (intro bit_word_eqI)
      (auto simp: x_def bit_drop_bit_eq bit_or_iff bit_push_bit_iff dest: I N P)
  show "drop_bit b x AND mask w = ID"
    using assms(3,4) by (intro bit_word_eqI)
      (auto simp: x_def bit_drop_bit_eq bit_or_iff bit_and_iff bit_mask_iff bit_push_bit_iff dest: I N P)
  show "x AND mask b = n"
    using assms(3,4) by (intro bit_word_eqI)
      (auto simp: x_def bit_drop_bit_eq bit_or_iff bit_and_iff bit_mask_iff bit_push_bit_iff dest: I N P)
qed

lemma masks32:
  "(mask 6 :: u32) = 0x3f"
  "(mask 7 :: u32) = 0x7f"
  "(mask 9 :: u32) = 0x1ff"
  "(mask 10 :: u32) = 0x3ff"
  "(mask 11 :: u32) = 0x7ff"
  "(mask 13 :: u32) = 0x1fff"
  "(mask 15 :: u32) = 0x7fff"
  "(mask 16 :: u32) = 0xffff"
  "(mask 17 :: u32) = 0x1ffff"
  "(mask 18 :: u32) = 0x3ffff"
  "(mask 20 :: u32) = 0xfffff"
  "(mask 24 :: u32) = 0xffffff"
  "(mask 25 :: u32) = 0x1ffffff"
  by (simp_all add: mask_eq_exp_minus_1)

text \<open>One lemma per NetID type: the fields of an address decide what is parsed.\<close>

lemma parse_type0:
  assumes "drop_bit 31 x = 0"
  shows "parseDevAddr x = Some (0x0 OR (drop_bit 25 x AND mask 6), drop_bit 25 x AND mask 6, x AND mask 25)"
  using assms(1)
    prefix_differs [OF assms(1), of 24 7 "0xfe"]
    prefix_differs [OF assms(1), of 25 6 "0x7e"]
    prefix_differs [OF assms(1), of 26 5 "0x3e"]
    prefix_differs [OF assms(1), of 27 4 "0x1e"]
    prefix_differs [OF assms(1), of 28 3 "0xe"]
    prefix_differs [OF assms(1), of 29 2 "6"]
    prefix_differs [OF assms(1), of 30 1 "2"]
  by (simp add: parseDevAddr_def prefix_tests Let_def masks32)

lemma parse_type1:
  assumes "drop_bit 30 x = 2"
  shows "parseDevAddr x = Some (0x200000 OR (drop_bit 24 x AND mask 6), drop_bit 24 x AND mask 6, x AND mask 24)"
  using assms(1)
    prefix_differs [OF assms(1), of 24 6 "0xfe"]
    prefix_differs [OF assms(1), of 25 5 "0x7e"]
    prefix_differs [OF assms(1), of 26 4 "0x3e"]
    prefix_differs [OF assms(1), of 27 3 "0x1e"]
    prefix_differs [OF assms(1), of 28 2 "0xe"]
    prefix_differs [OF assms(1), of 29 1 "6"]
  by (simp add: parseDevAddr_def prefix_tests Let_def masks32)

lemma parse_type2:
  assumes "drop_bit 29 x = 6"
  shows "parseDevAddr x = Some (0x400000 OR (drop_bit 20 x AND mask 9), drop_bit 20 x AND mask 9, x AND mask 20)"
  using assms(1)
    prefix_differs [OF assms(1), of 24 5 "0xfe"]
    prefix_differs [OF assms(1), of 25 4 "0x7e"]
    prefix_differs [OF assms(1), of 26 3 "0x3e"]
    prefix_differs [OF assms(1), of 27 2 "0x1e"]
    prefix_differs [OF assms(1), of 28 1 "0xe"]
  by (simp add: parseDevAddr_def prefix_tests Let_def masks32)

lemma parse_type3:
  assumes "drop_bit 28 x = 14"
  shows "parseDevAddr x = Some (0x600000 OR (drop_bit 18 x AND mask 10), drop_bit 18 x AND mask 10, x AND mask 18)"
  using assms(1)
    prefix_differs [OF assms(1), of 24 4 "0xfe"]
    prefix_differs [OF assms(1), of 25 3 "0x7e"]
    prefix_differs [OF assms(1), of 26 2 "0x3e"]
    prefix_differs [OF assms(1), of 27 1 "0x1e"]
  by (simp add: parseDevAddr_def prefix_tests Let_def masks32)

lemma parse_type4:
  assumes "drop_bit 27 x = 30"
  shows "parseDevAddr x = Some (0x800000 OR (drop_bit 16 x AND mask 11), drop_bit 16 x AND mask 11, x AND mask 16)"
  using assms(1)
    prefix_differs [OF assms(1), of 24 3 "0xfe"]
    prefix_differs [OF assms(1), of 25 2 "0x7e"]
    prefix_differs [OF assms(1), of 26 1 "0x3e"]
  by (simp add: parseDevAddr_def prefix_tests Let_def masks32)

lemma parse_type5:
  assumes "drop_bit 26 x = 62"
  shows "parseDevAddr x = Some (0xa00000 OR (drop_bit 13 x AND mask 13), drop_bit 13 x AND mask 13, x AND mask 13)"
  using assms(1)
    prefix_differs [OF assms(1), of 24 2 "0xfe"]
    prefix_differs [OF assms(1), of 25 1 "0x7e"]
  by (simp add: parseDevAddr_def prefix_tests Let_def masks32)

lemma parse_type6:
  assumes "drop_bit 25 x = 126"
  shows "parseDevAddr x = Some (0xc00000 OR (drop_bit 10 x AND mask 15), drop_bit 10 x AND mask 15, x AND mask 10)"
  using assms(1)
    prefix_differs [OF assms(1), of 24 1 "0xfe"]
  by (simp add: parseDevAddr_def prefix_tests Let_def masks32)

lemma parse_type7:
  assumes "drop_bit 24 x = 254"
  shows "parseDevAddr x = Some (0xe00000 OR (drop_bit 7 x AND mask 17), drop_bit 7 x AND mask 17, x AND mask 7)"
  using assms(1)
  by (simp add: parseDevAddr_def prefix_tests Let_def masks32)

lemmas parse_types = parse_type0 parse_type1 parse_type2 parse_type3 parse_type4 parse_type5
  parse_type6 parse_type7

lemma less_8_cases:
  assumes "t < (8 :: nat)"
  obtains "t = 0" | "t = 1" | "t = 2" | "t = 3" | "t = 4" | "t = 5" | "t = 6" | "t = 7"
  using assms by (auto simp: numeral_eq_Suc less_Suc_eq)

definition block_addr :: "nat \<Rightarrow> u32 \<Rightarrow> u32 \<Rightarrow> u32" where
  "block_addr t ID n = push_bit (31 - t) (2 ^ (t + 1) - 2) OR (push_bit (addr_bits t) ID OR n)"

lemma block_addr_fields:
  assumes "t < 8" "take_bit (id_bits t) ID = ID" "take_bit (addr_bits t) n = n"
  shows "drop_bit (31 - t) (block_addr t ID n) = 2 ^ (t + 1) - 2"
    "drop_bit (addr_bits t) (block_addr t ID n) AND mask (id_bits t) = ID"
    "block_addr t ID n AND mask (addr_bits t) = n"
proof -
  have "addr_bits t + id_bits t \<le> 31 - t" "31 - t < 32" "take_bit (32 - (31 - t)) (2 ^ (t + 1) - 2 :: u32) = 2 ^ (t + 1) - 2"
    using assms(1) by (auto elim!: less_8_cases simp: addr_bits_def id_bits_def)
  then show "drop_bit (31 - t) (block_addr t ID n) = 2 ^ (t + 1) - 2"
    "drop_bit (addr_bits t) (block_addr t ID n) AND mask (id_bits t) = ID"
    "block_addr t ID n AND mask (addr_bits t) = n"
    unfolding block_addr_def using fields assms(2,3) by blast+
qed

lemma parse_block_addr:
  assumes "t < 8" "take_bit (id_bits t) ID = ID" "take_bit (addr_bits t) n = n"
  shows "parseDevAddr (block_addr t ID n) = Some (net_id t ID, ID, n)"
proof -
  note F = block_addr_fields [OF assms]
  show ?thesis
    by (rule less_8_cases [OF assms(1)]; use F in \<open>simp add: parse_types net_id_def addr_bits_def id_bits_def\<close>)
qed

lemma drop_net_id:
  assumes "t < 8" "take_bit 21 ID = ID"
  shows "drop_bit 21 (net_id t ID) = word_of_nat t"
proof -
  have "drop_bit 21 ID = 0" using assms(2) by (metis drop_bit_take_bit diff_self_eq_0 take_bit_0)
  then show ?thesis
    using assms(1) by (auto elim!: less_8_cases simp: net_id_def)
qed

lemma net_id_low:
  assumes "m \<le> 21" "take_bit m ID = ID"
  shows "net_id t ID AND mask m = ID"
proof (rule bit_word_eqI)
  fix i
  have "bit ID i \<Longrightarrow> i < m" using assms(2) by (metis bit_take_bit_iff)
  then show "bit (net_id t ID AND mask m) i = bit ID i" if "i < LENGTH(32)"
    using assms(1) that by (auto simp: net_id_def bit_and_iff bit_or_iff bit_push_bit_iff bit_mask_iff)
qed

lemma take_bit_mono:
  "take_bit m (ID :: u32) = ID \<Longrightarrow> m \<le> n \<Longrightarrow> take_bit n ID = ID"
  by (metis min.absorb2 take_bit_take_bit)

lemma fNS_init_block:
  assumes "t < 8" "take_bit (id_bits t) ID = ID"
  shows "fNS_init True (net_id t ID) g = (0, block_addr t ID 0, addr_bits t)"
proof -
  have w: "id_bits t \<le> 21" using assms(1) by (auto elim!: less_8_cases simp: id_bits_def)
  have T: "drop_bit 21 (net_id t ID) = word_of_nat t"
    using drop_net_id assms w take_bit_mono by blast
  have L: "net_id t ID AND mask (id_bits t) = ID" "net_id t ID AND mask 21 = ID"
    using net_id_low w assms(2) take_bit_mono by blast+
  have m21: "(mask 21 :: u32) = 0x1fffff" by (simp add: mask_eq_exp_minus_1)
  show ?thesis
    by (rule less_8_cases [OF assms(1)];
        use T L in \<open>simp add: fNS_init_def Let_def block_addr_def addr_bits_def id_bits_def masks32 m21\<close>)
qed

lemma block_addr_or: "block_addr t ID 0 OR n = block_addr t ID n"
  by (simp add: block_addr_def or.assoc)

section \<open>Assigned addresses are free\<close>

definition addr_free :: "mysql \<Rightarrow> u32 option list \<Rightarrow> u32 \<Rightarrow> bool" where
  "addr_free db motes a \<longleftrightarrow> Some a \<notin> set motes \<and> db (getDevAddr_query a) = SqlRows []"

definition addr_taken :: "mysql \<Rightarrow> u32 option list \<Rightarrow> u32 \<Rightarrow> bool" where
  "addr_taken db motes a \<longleftrightarrow> Some a \<in> set motes \<or> (\<exists>r rs. db (getDevAddr_query a) = SqlRows (r # rs))"

text \<open>No device has it, and the query for the sessions fails.\<close>

definition addr_unknown :: "mysql \<Rightarrow> u32 option list \<Rightarrow> u32 \<Rightarrow> bool" where
  "addr_unknown db motes a \<longleftrightarrow> Some a \<notin> set motes \<and> (db (getDevAddr_query a) = SqlError \<or> db (getDevAddr_query a) = SqlNoResult)"

text \<open>The outcome of the search from address n on: a free address, a failed query, or exhaustion.\<close>

definition search_outcome :: "mysql \<Rightarrow> u32 \<Rightarrow> nat \<Rightarrow> u32 option list \<Rightarrow> u32 \<Rightarrow> nat \<Rightarrow> u32 \<Rightarrow> bool" where
  "search_outcome db base bits motes old n r \<longleftrightarrow>
    (\<exists>m. n \<le> m \<and> m < 2 ^ bits - 1 \<and> (\<forall>k. n \<le> k \<longrightarrow> k < m \<longrightarrow> addr_taken db motes (base OR word_of_nat k)) \<and>
      (addr_free db motes (base OR word_of_nat m) \<and> r = base OR word_of_nat m \<or>
       addr_unknown db motes (base OR word_of_nat m) \<and> r = NONE_DEVADDR))
    \<or> (\<forall>k. n \<le> k \<longrightarrow> k < 2 ^ bits - 1 \<longrightarrow> addr_taken db motes (base OR word_of_nat k)) \<and> r = old"

lemma search_outcome_step:
  assumes "search_outcome db base bits motes old (n + 1) r" "addr_taken db motes (base OR word_of_nat n)"
  shows "search_outcome db base bits motes old n r"
proof -
  have next_addr: "n \<le> k \<longleftrightarrow> k = n \<or> n + 1 \<le> k" for k by auto
  show ?thesis using assms unfolding search_outcome_def next_addr by (metis le_SucI Suc_eq_plus1 less_irrefl)
qed

lemma getDevAddr_from_outcome:
  "search_outcome db base bits motes old n (getDevAddr_from db base bits motes old n)"
proof (induction db base bits motes old n rule: getDevAddr_from.induct)
  case (1 db base bits motes old n)
  let ?a = "base OR word_of_nat n"
  let ?r = "getDevAddr_from db base bits motes old"
  consider (exhausted) "\<not> n < 2 ^ bits - 1"
    | (mote) "n < 2 ^ bits - 1" "Some ?a \<in> set motes"
    | (row) r rs where "n < 2 ^ bits - 1" "Some ?a \<notin> set motes" "db (getDevAddr_query ?a) = SqlRows (r # rs)"
    | (stop) "n < 2 ^ bits - 1" "Some ?a \<notin> set motes" "\<nexists>r rs. db (getDevAddr_query ?a) = SqlRows (r # rs)"
    by blast
  then show ?case
  proof cases
    case exhausted
    then show ?thesis by (subst getDevAddr_from.simps) (simp add: search_outcome_def)
  next
    case mote
    then have "?r n = ?r (n + 1)" by (subst getDevAddr_from.simps) simp
    then show ?thesis
      using mote 1(1) search_outcome_step by (simp add: addr_taken_def)
  next
    case row
    then have "?r n = ?r (n + 1)" by (subst getDevAddr_from.simps) simp
    then show ?thesis
      using row 1(2) search_outcome_step by (simp add: addr_taken_def)
  next
    case stop
    then have "addr_free db motes ?a \<and> ?r n = ?a \<or> addr_unknown db motes ?a \<and> ?r n = NONE_DEVADDR"
      by (cases "db (getDevAddr_query ?a)" rule: sqlres.exhaust)
        (auto simp: getDevAddr_from.simps [of db base bits motes old n] addr_free_def addr_unknown_def neq_Nil_conv
          Let_def split: list.splits)
    then show ?thesis using stop unfolding search_outcome_def by (intro disjI1 exI [of _ n]) auto
  qed
qed

lemma getDevAddr_outcome: "search_outcome db base bits motes old 0 (getDevAddr db base bits motes old)"
  by (simp add: getDevAddr_def getDevAddr_from_outcome)

end
