(* ===== verification/Database.thy ===== *)
theory Database
  imports NsTypes Addressing
begin

text \<open>
  The database layer of the network server (network_server/common.c, and the
  service profile reader of network_server/sNS.c): which mote a pair of DevEUI
  and DevAddr stands for, the roaming row of a mote, its sessions, and the
  statements that change them. Queries go to the server, a function from query
  texts to answers; statements are sent to a message queue, whose return value
  is an argument, and the texts sent are returned. Columns that structure.sql
  declares NOT NULL are read with text_cell.
\<close>

section \<open>Cells\<close>

definition cell :: "row \<Rightarrow> nat \<Rightarrow> string option" where
  "cell r i = (if i < length r then r ! i else None)"

definition text_cell :: "row \<Rightarrow> nat \<Rightarrow> string" where
  "text_cell r i = (case cell r i of Some t \<Rightarrow> t | None \<Rightarrow> [])"

definition bool_cell :: "row \<Rightarrow> nat \<Rightarrow> bool" where
  "bool_cell r i = (take 1 (text_cell r i) = ''1'')"

definition not0_cell :: "row \<Rightarrow> nat \<Rightarrow> bool" where
  "not0_cell r i = (take 1 (text_cell r i) \<noteq> ''0'')"

definition bytes_of :: "string \<Rightarrow> buf" where
  "bytes_of t = map (\<lambda>c. word_of_nat (of_char c)) t"

definition NONE_DEVEUI :: u64 where "NONE_DEVEUI = - 1"

type_synonym mqueue = "string \<Rightarrow> int"

section \<open>Which mote\<close>

definition getMoteIDfromDevEUI :: "mysql \<Rightarrow> u64 \<Rightarrow> u64" where
  "getMoteIDfromDevEUI db devEui =
    (case db (''SELECT ID FROM motes WHERE DevEUI = '' @ print_unsigned devEui) of
       SqlRows (row # _) \<Rightarrow> store (sscanf_dec (text_cell row 0)) 0
     | _ \<Rightarrow> 0)"

definition getMoteID :: "mysql \<Rightarrow> u64 \<Rightarrow> u32 \<Rightarrow> u64 \<times> result" where
  "getMoteID db devEui devAddr =
    (let (tail, miss) =
       (if devEui \<noteq> NONE_DEVEUI then (''motes WHERE DevEUI = '' @ print_unsigned devEui, UnknownDevEUI)
        else (''sessions WHERE DevAddr = '' @ print_unsigned devAddr @ '' ORDER BY createdAt DESC'', UnknownDevAddr))
     in case db (''SELECT ID FROM '' @ tail) of
          SqlRows (row # _) \<Rightarrow> (store (sscanf_dec (text_cell row 0)) 0, Success)
        | _ \<Rightarrow> (0, miss))"

text \<open>The WHERE clause that selects a mote; it is empty when the call fails.\<close>

definition getMotesWhere :: "mysql \<Rightarrow> u64 \<Rightarrow> u32 \<Rightarrow> result \<times> string" where
  "getMotesWhere db devEui devAddr =
    (if devEui \<noteq> NONE_DEVEUI then (Success, ''DevEUI = '' @ print_unsigned devEui)
     else case db (''SELECT ID FROM sessions WHERE DevAddr = '' @ print_unsigned devAddr) of
            SqlError \<Rightarrow> (Other, [])
          | SqlNoResult \<Rightarrow> (Other, [])
          | SqlRows [] \<Rightarrow> (UnknownDevAddr, [])
          | SqlRows (row # _) \<Rightarrow>
              (Success, ''ID = '' @ print_unsigned (store (sscanf_dec (text_cell row 0)) 0 :: u32)))"

section \<open>The roaming row\<close>

definition roam_of_text :: "string \<Rightarrow> roam_state option" where
  "roam_of_text t =
    (if t = ''NONE'' then Some roamNONE
     else if t = ''fPASSIVE'' then Some roamfPASSIVE
     else if t = ''DEFERRED'' then Some roamDEFERRED
     else if t = ''sPASSIVE'' then Some roamsPASSIVE
     else if t = ''sHANDOVER'' then Some roamsHANDOVER
     else if t = ''hHANDOVER'' then Some roamhHANDOVER
     else None)"

text \<open>
  The structure filled in: OptNeg, roamState (None is the NULL of memset),
  roamUntil, roamingWithNetID, enable_fNS_MIC, is_sNS, roamExpired.
\<close>

record sql_row =
  r_OptNeg :: bool
  r_roamState :: "roam_state option"
  r_roamUntil :: int
  r_roamingWithNetID :: u32
  r_enable_fNS_MIC :: bool
  r_is_sNS :: bool
  r_roamExpired :: bool

definition sql_zero :: sql_row where
  "sql_zero = \<lparr>r_OptNeg = False, r_roamState = None, r_roamUntil = 0, r_roamingWithNetID = 0,
     r_enable_fNS_MIC = False, r_is_sNS = False, r_roamExpired = False\<rparr>"

definition sql_of_row :: "int \<Rightarrow> row \<Rightarrow> sql_row" where
  "sql_of_row now row =
    (let rs = roam_of_text (text_cell row 4);
         til = (case cell row 12 of Some t \<Rightarrow> store (map_option (sint :: u64 \<Rightarrow> int) (sscanf_dec t)) 0 | None \<Rightarrow> 0)
     in \<lparr>r_OptNeg = (case cell row 2 of Some t \<Rightarrow> store (sscanf_dec t) (0 :: u32) \<noteq> 0 | None \<Rightarrow> False),
         r_roamState = rs,
         r_roamUntil = til,
         r_roamingWithNetID = (case cell row 6 of Some t \<Rightarrow> store (sscanf_dec t) 0 | None \<Rightarrow> 0),
         r_enable_fNS_MIC = bool_cell row 7,
         r_is_sNS = (rs \<in> {Some roamNONE, Some roamsPASSIVE, Some roamsHANDOVER}),
         r_roamExpired = (cell row 12 \<noteq> None \<and> til < now)\<rparr>)"

definition sql_motes_query :: "mysql \<Rightarrow> int \<Rightarrow> u64 \<Rightarrow> u32 \<Rightarrow> result \<times> sql_row" where
  "sql_motes_query db now devEui devAddr =
    (let (ret, wh) = getMotesWhere db devEui devAddr in
     if ret \<noteq> Success then (ret, sql_zero\<lparr>r_roamState := Some roamNONE\<rparr>)
     else case db (''SELECT *, UNIX_TIMESTAMP(roamUntil) FROM motes WHERE '' @ wh) of
            SqlError \<Rightarrow> (Other, sql_zero)
          | SqlNoResult \<Rightarrow> (Other, sql_zero)
          | SqlRows [] \<Rightarrow> (if devEui = NONE_DEVEUI then UnknownDevAddr else UnknownDevEUI, sql_zero)
          | SqlRows (row # _) \<Rightarrow> (Success, sql_of_row now row))"

text \<open>
  The statement that changes the row. NULL arguments are None; the outer None
  is the dereference of a NULL roamingWithNetID when enable_fNS_MIC is given.
\<close>

definition roam_update_text ::
  "roam_state \<Rightarrow> u64 option \<Rightarrow> u32 option \<Rightarrow> bool option \<Rightarrow> string \<Rightarrow> string" where
  "roam_update_text state til netid mic wh =
    (let q = ''UPDATE motes SET roamState = '' @ [CHR 0x27] @ roam_text state @ [CHR 0x27] @ '', '' @
       (case til of Some t \<Rightarrow> ''roamUntil = FROM_UNIXTIME('' @ print_unsigned t @ ''), '' | None \<Rightarrow> []) @
       (case netid of Some n \<Rightarrow> ''roamingWithNetID = '' @ [CHR 0x27] @ print_unsigned n @ [CHR 0x27] @ '', '' | None \<Rightarrow> []) @
       (case mic of Some b \<Rightarrow> ''enable_fNS_MIC = '' @ (if b then ''1'' else ''0'') @ '', '' | None \<Rightarrow> [])
     in take (length q - 2) q @ '' WHERE '' @ wh)"

definition mote_update_database_roam ::
  "mysql \<Rightarrow> mqueue \<Rightarrow> u64 \<Rightarrow> u32 \<Rightarrow> roam_state \<Rightarrow> u64 option \<Rightarrow> u32 option \<Rightarrow> bool option \<Rightarrow> (int \<times> string list) option" where
  "mote_update_database_roam db mq devEui devAddr state til netid mic =
    (let (ret, wh) = getMotesWhere db devEui devAddr in
     if ret \<noteq> Success then Some (- 1, [])
     else if mic \<noteq> None \<and> netid = None then None
     else let q = roam_update_text state til netid mic wh in Some (mq q, [q]))"

section \<open>Sessions\<close>

definition ses_key :: "row \<Rightarrow> nat \<Rightarrow> buf \<Rightarrow> buf" where
  "ses_key row i old = (case cell row i of Some t \<Rightarrow> take 16 (bytes_of t) | None \<Rightarrow> old)"

text \<open>A stored session: the row read into the caller's structure, which keeps what the row leaves out.\<close>

definition session_of_row :: "int \<Rightarrow> row \<Rightarrow> bool \<Rightarrow> session_t \<Rightarrow> session_t" where
  "session_of_row now row another out =
    (let s1 = (case cell row 3 of
                 None \<Rightarrow> out\<lparr>NFCntDown := 0, nullNFCntDown := True\<rparr>
               | Some t \<Rightarrow> out\<lparr>NFCntDown := store (sscanf_dec t) (NFCntDown out), nullNFCntDown := False\<rparr>);
         s2 = s1\<lparr>FCntUp := (case cell row 4 of None \<Rightarrow> 0 | Some t \<Rightarrow> store (sscanf_dec t) (FCntUp out)),
                 SNwkSIntKeyBin := ses_key row 6 (SNwkSIntKeyBin out),
                 FNwkSIntKeyBin := ses_key row 5 (FNwkSIntKeyBin out),
                 NwkSEncKeyBin := ses_key row 7 (NwkSEncKeyBin out)\<rparr>;
         s3 = s2\<lparr>OptNeg := (FNwkSIntKeyBin s2 \<noteq> SNwkSIntKeyBin s2 \<and> FNwkSIntKeyBin s2 \<noteq> NwkSEncKeyBin s2)\<rparr>;
         s4 = (case cell row 1 of
                 Some _ \<Rightarrow>
                   let til = store (map_option (sint :: u64 \<Rightarrow> int) (sscanf_dec (text_cell row 11))) (until s3)
                   in s3\<lparr>until := til, expired := (til < now)\<rparr>
               | None \<Rightarrow> s3\<lparr>until := - 1, expired := False\<rparr>)
     in s4\<lparr>next_session := another\<rparr>)"

definition session_query :: "mysql \<Rightarrow> u64 \<Rightarrow> u32 \<Rightarrow> u8 \<Rightarrow> string option" where
  "session_query db devEui devAddr nth_s =
    (let tail = '' ORDER BY createdAt DESC LIMIT '' @ print_unsigned nth_s @ '',1'';
         head = ''SELECT *, UNIX_TIMESTAMP(Until) FROM sessions WHERE ''
     in if devEui \<noteq> NONE_DEVEUI then
          (case db (''SELECT ID FROM motes WHERE DevEui = '' @ print_unsigned devEui) of
             SqlRows (row # _) \<Rightarrow>
               Some (head @ ''ID = '' @ print_unsigned (store (sscanf_dec (text_cell row 0)) 0 :: u64) @ tail)
           | _ \<Rightarrow> None)
        else Some (head @ ''DevAddr = '' @ print_unsigned devAddr @ tail))"

definition getSession :: "mysql \<Rightarrow> int \<Rightarrow> u64 \<Rightarrow> u32 \<Rightarrow> u8 \<Rightarrow> session_t \<Rightarrow> int \<times> session_t" where
  "getSession db now devEui devAddr nth_s out0 =
    (let out = out0\<lparr>until := 0\<rparr> in
     case session_query db devEui devAddr nth_s of
       None \<Rightarrow> (- 1, out)
     | Some q \<Rightarrow>
         (case db q of
            SqlError \<Rightarrow> (- 1, out)
          | SqlNoResult \<Rightarrow> (- 1, out)
          | SqlRows [] \<Rightarrow> (0, out\<lparr>expired := True\<rparr>)
          | SqlRows (row # rows) \<Rightarrow> (0, session_of_row now row (rows \<noteq> []) out)))"

section \<open>Changing sessions\<close>

text \<open>The INSERT of a new session; an absent (NULL) argument leaves its column out.\<close>

definition opt_part :: "'a option \<Rightarrow> ('a \<Rightarrow> string) \<Rightarrow> string" where
  "opt_part v f = (case v of Some x \<Rightarrow> f x @ '', '' | None \<Rightarrow> [])"

definition session_insert_text ::
  "u32 \<Rightarrow> u64 option \<Rightarrow> u32 option \<Rightarrow> u32 option \<Rightarrow> u32 option \<Rightarrow> buf option \<Rightarrow> buf option \<Rightarrow> buf option \<Rightarrow> string" where
  "session_insert_text moteID til newDevAddr nfcntdown fcntup fnk snk nek =
    (let cols = ''INSERT INTO sessions (ID, '' @ opt_part til (\<lambda>_. ''Until'') @ opt_part newDevAddr (\<lambda>_. ''DevAddr'')
           @ opt_part nfcntdown (\<lambda>_. ''NFCntDown'') @ opt_part fcntup (\<lambda>_. ''FCntUp'')
           @ opt_part fnk (\<lambda>_. ''FNwkSIntKey'') @ opt_part snk (\<lambda>_. ''SNwkSIntKey'')
           @ opt_part nek (\<lambda>_. ''NwkSEncKey'');
         vals = print_unsigned moteID @ '', ''
           @ opt_part til (\<lambda>t. ''FROM_UNIXTIME('' @ print_unsigned t @ '')'')
           @ opt_part newDevAddr print_unsigned @ opt_part nfcntdown print_unsigned @ opt_part fcntup print_unsigned
           @ opt_part fnk (\<lambda>k. ''0x'' @ hex_of_buf k) @ opt_part snk (\<lambda>k. ''0x'' @ hex_of_buf k)
           @ opt_part nek (\<lambda>k. ''0x'' @ hex_of_buf k)
     in take (length cols - 2) cols @ '') VALUES ('' @ take (length vals - 2) vals @ '')'')"

definition add_database_session ::
  "mysql \<Rightarrow> mqueue \<Rightarrow> u64 \<Rightarrow> u64 option \<Rightarrow> buf option \<Rightarrow> buf option \<Rightarrow> buf option \<Rightarrow>
   u32 option \<Rightarrow> u32 option \<Rightarrow> u32 option \<Rightarrow> bool \<Rightarrow> int \<times> string list" where
  "add_database_session db mq devEui til snk fnk nek fcntup nfcntdown newDevAddr optneg =
    (if devEui = NONE_DEVEUI then (- 1, [])
     else
       let q1 = session_insert_text (ucast (getMoteIDfromDevEUI db devEui)) til newDevAddr nfcntdown fcntup fnk snk nek;
           q2 = ''UPDATE motes SET OptNeg = '' @ (if optneg then ''1'' else ''0'') @ '' WHERE DevEUI = ''
                  @ print_unsigned devEui
       in if mq q1 < 0 then (mq q1, [q1])
          else if mq q2 < 0 then (mq q2, [q1, q2]) else (0, [q1, q2]))"

text \<open>
  Dropping sessions that never saw an uplink: their addresses leave the mote
  list (a freed node keeps its place, empty), then the rows are deleted.
\<close>

definition deleteNeverUsedSessions :: "mysql \<Rightarrow> mqueue \<Rightarrow> u64 \<Rightarrow> u32 option list \<Rightarrow> int \<times> string list \<times> u32 option list" where
  "deleteNeverUsedSessions db mq devEui motes =
    (let moteID = print_unsigned (getMoteIDfromDevEUI db devEui) in
     case db (''SELECT DevAddr FROM sessions WHERE ID = '' @ moteID @ '' AND FCntUp IS NULL'') of
       SqlRows rows \<Rightarrow>
         let addrs = map (\<lambda>r. store (sscanf_dec (text_cell r 0)) 0) rows;
             q = ''DELETE FROM sessions WHERE ID = '' @ moteID @ '' AND FCntUp IS NULL''
         in (mq q, [q], map (\<lambda>m. case m of Some a \<Rightarrow> if a \<in> set addrs then None else m | None \<Rightarrow> None) motes)
     | _ \<Rightarrow> (- 1, [], motes))"

definition deleteOldSessions :: "mysql \<Rightarrow> mqueue \<Rightarrow> u64 \<Rightarrow> bool \<Rightarrow> int \<times> string list" where
  "deleteOldSessions db mq devEui all =
    (let moteID = print_unsigned (getMoteIDfromDevEUI db devEui);
         newest = (if all then Some [] else
           case db (''SELECT createdAt FROM sessions WHERE ID = '' @ moteID @
                    '' AND createdAt IN (SELECT max(createdAt) FROM sessions)'') of
             SqlRows (row # _) \<Rightarrow> map_option (take 32) (cell row 0)
           | _ \<Rightarrow> None)
     in case newest of None \<Rightarrow> (- 1, [])
        | Some dt \<Rightarrow>
            let q = ''DELETE FROM sessions WHERE ID = '' @ moteID @
                    (if all then [] else '' AND createdAt < '' @ [CHR 0x27] @ dt @ [CHR 0x27])
            in (mq q, [q]))"

section \<open>Profiles and lifetimes\<close>

definition getLifetime :: "mysql \<Rightarrow> u64 \<Rightarrow> u32 \<Rightarrow> int" where
  "getLifetime db devEui devAddr =
    (let (ret, wh) = getMotesWhere db devEui devAddr in
     if ret \<noteq> Success then - 1
     else case db (''SELECT sNSLifetime FROM motes WHERE '' @ wh) of
            SqlError \<Rightarrow> 0
          | SqlNoResult \<Rightarrow> - 1
          | SqlRows [] \<Rightarrow> 0
          | SqlRows (row # _) \<Rightarrow>
              (case cell row 0 of None \<Rightarrow> - 1 | Some t \<Rightarrow> sint (store (sscanf_dec t) (- 1 :: u32))))"

text \<open>The NetID a mote is forwarded to, in out; other columns are not returned by the code.\<close>

definition sql_motes_query_item :: "mysql \<Rightarrow> u32 \<Rightarrow> u64 \<Rightarrow> u32 \<Rightarrow> string \<Rightarrow> u32 \<Rightarrow> result \<times> u32" where
  "sql_motes_query_item db myNetwork_id32 devEui devAddr colName out =
    (let (r, wh) = getMotesWhere db devEui devAddr;
         ret = (if r \<noteq> Success then (if devEui = NONE_DEVEUI then UnknownDevAddr else UnknownDevEUI) else Other)
     in case db (''SELECT '' @ colName @ '' FROM motes WHERE '' @ wh) of
          SqlError \<Rightarrow> (Other, out)
        | SqlNoResult \<Rightarrow> (ret, out)
        | SqlRows [] \<Rightarrow> (ret, out)
        | SqlRows (row # _) \<Rightarrow>
            if colName = ''fwdToNetID'' then
              (Success, case cell row 0 of Some t \<Rightarrow> store (sscanf_dec t) out | None \<Rightarrow> myNetwork_id32)
            else (ret, out))"

text \<open>The three roaming permissions of a mote; the outputs keep their value when nothing is read.\<close>

definition isMotesAllowed :: "mysql \<Rightarrow> u64 \<Rightarrow> u32 \<Rightarrow> bool \<times> bool \<times> bool \<Rightarrow> result \<times> bool \<times> bool \<times> bool" where
  "isMotesAllowed db devEui devAddr out =
    (let (m_id, res) = getMoteID db devEui devAddr in
     if m_id = 0 then (res, out)
     else case db (''SELECT PRAllowed, HRAllowed, RAAllowed FROM ServiceProfiles WHERE ServiceProfileID = ''
                   @ print_unsigned m_id) of
            SqlError \<Rightarrow> (Other, out)
          | SqlNoResult \<Rightarrow> (Other, out)
          | SqlRows [] \<Rightarrow> (Success, out)
          | SqlRows (row # _) \<Rightarrow> (Success, not0_cell row 0, not0_cell row 1, not0_cell row 2))"

definition deviceProfileReq :: "mysql \<Rightarrow> u64 \<Rightarrow> u32 \<Rightarrow> string \<Rightarrow> nat \<Rightarrow> string option" where
  "deviceProfileReq db devEui devAddr elementName outSize =
    (let (m_id, _) = getMoteID db devEui devAddr in
     if m_id = 0 then None
     else case db (''SELECT '' @ elementName @ '' FROM DeviceProfiles WHERE DeviceProfileID = '' @ print_unsigned m_id) of
            SqlRows (row # _) \<Rightarrow> map_option (take outSize) (cell row 0)
          | _ \<Rightarrow> None)"

record ServiceProfile_t =
  ULRate :: u32
  ULBucketSize :: u32
  ULRatePolicy :: string
  DLRate :: u32
  DLBucketSize :: u32
  DLRatePolicy :: string
  AddGWMetadata :: bool
  DevStatusReqFreq :: u32
  ReportDevStatusBattery :: bool
  ReportDevStatusMargin :: bool
  DRMin :: u32
  DRMax :: u32
  ChannelMask :: string
  PRAllowed :: bool
  HRAllowed :: bool
  RAAllowed :: bool
  NwkGeoLoc :: bool
  TargetPER :: rat
  MinGWDiversity :: u32

record DeviceProfile_t =
  SupportsClassB :: bool
  ClassBTimeout :: u32
  PingSlotPeriod :: u32
  PingSlotDR :: u32
  PingSlotFreq :: rat
  SupportsClassC :: bool
  ClassCTimeout :: u32
  RegParamsRevision :: string
  SupportsJoin :: bool
  MACVersion :: string
  dp_RXDelay1 :: u32
  RXDROffset1 :: u32
  RXDataRate2 :: u32
  RXFreq2 :: rat
  FactoryPresetFreqs :: string
  MaxEIRP :: int
  MaxDutyCycle :: rat
  dp_RFRegion :: string
  Supports32bitFCnt :: bool

definition blank_profile :: ServiceProfile_t where
  "blank_profile = \<lparr>ULRate = 0, ULBucketSize = 0, ULRatePolicy = [], DLRate = 0, DLBucketSize = 0,
     DLRatePolicy = [], AddGWMetadata = False, DevStatusReqFreq = 0, ReportDevStatusBattery = False,
     ReportDevStatusMargin = False, DRMin = 0, DRMax = 0, ChannelMask = [], PRAllowed = False,
     HRAllowed = False, RAAllowed = False, NwkGeoLoc = False, TargetPER = 0, MinGWDiversity = 0\<rparr>"

definition num_cell :: "row \<Rightarrow> nat \<Rightarrow> u32" where
  "num_cell r i = store (sscanf_dec (text_cell r i)) 0"

text \<open>The float column is read by scanf's %f, an argument.\<close>

definition readServiceProfileFromSql ::
  "mysql \<Rightarrow> (string \<Rightarrow> rat) \<Rightarrow> u64 \<Rightarrow> u32 \<Rightarrow> int \<times> ServiceProfile_t" where
  "readServiceProfileFromSql db scan_float devEui devAddr =
    (let (r, wh) = getMotesWhere db devEui devAddr in
     if r \<noteq> Success then (- 1, blank_profile)
     else case db (''SELECT ServiceProfiles.* FROM ServiceProfiles INNER JOIN motes ON ServiceProfiles.ServiceProfileID = motes.ID WHERE '' @ wh) of
            SqlRows (row # _) \<Rightarrow>
              (0, \<lparr>ULRate = num_cell row 1, ULBucketSize = num_cell row 2, ULRatePolicy = take 16 (text_cell row 3),
                   DLRate = num_cell row 4, DLBucketSize = num_cell row 5, DLRatePolicy = take 16 (text_cell row 6),
                   AddGWMetadata = bool_cell row 7, DevStatusReqFreq = num_cell row 8,
                   ReportDevStatusBattery = bool_cell row 9, ReportDevStatusMargin = bool_cell row 10,
                   DRMin = num_cell row 11, DRMax = num_cell row 12, ChannelMask = take 32 (text_cell row 13),
                   PRAllowed = bool_cell row 14, HRAllowed = bool_cell row 15, RAAllowed = bool_cell row 16,
                   NwkGeoLoc = bool_cell row 17, TargetPER = scan_float (text_cell row 18),
                   MinGWDiversity = num_cell row 19\<rparr>)
          | _ \<Rightarrow> (- 1, blank_profile))"

section \<open>Reading the roaming row\<close>

lemma roam_of_text_text [simp, roundtrip]: "roam_of_text (roam_text st) = Some st"
  by (cases st) (simp_all add: roam_of_text_def)

lemma roam_of_text_iff: "roam_of_text t = Some st \<longleftrightarrow> t = roam_text st"
proof
  assume "roam_of_text t = Some st"
  then show "t = roam_text st" by (auto simp: roam_of_text_def split: if_splits)
next
  assume "t = roam_text st"
  then show "roam_of_text t = Some st" by (simp only: roam_of_text_text)
qed

lemma roam_of_text_Some: "roam_of_text t = Some st \<Longrightarrow> t = roam_text st"
  by (auto simp: roam_of_text_def split: if_splits)

definition serving_states :: "roam_state set" where
  "serving_states = {roamNONE, roamsPASSIVE, roamsHANDOVER}"

lemma sql_row_serving:
  "r_is_sNS (sql_of_row now row) \<longleftrightarrow> (\<exists>st \<in> serving_states. text_cell row 4 = roam_text st)"
  by (simp add: sql_of_row_def Let_def serving_states_def roam_of_text_iff del: roam_text.simps)

lemma sql_motes_query_serving:
  assumes "sql_motes_query db now e a = (ret, out)" "r_is_sNS out"
  shows "ret = Success" "r_roamState out \<in> Some ` serving_states"
  using assms by (auto simp: sql_motes_query_def sql_zero_def sql_of_row_def Let_def serving_states_def
      split: prod.splits if_splits sqlres.splits list.splits)

lemma getMotesWhere_text: "fst (getMotesWhere db e a) = Success \<longleftrightarrow> snd (getMotesWhere db e a) \<noteq> []"
  by (auto simp: getMotesWhere_def split: sqlres.splits list.splits)

lemma getMoteID_Success: "fst (getMoteID db e a) \<noteq> 0 \<Longrightarrow> snd (getMoteID db e a) = Success"
  by (auto simp: getMoteID_def Let_def split: sqlres.splits list.splits if_splits)

section \<open>Reading a session\<close>

text \<open>A server that honours the LIMIT clause of the query answers with at most one row.\<close>

definition honours_limit :: "mysql \<Rightarrow> bool" where
  "honours_limit db \<longleftrightarrow> (\<forall>e a n q rows. session_query db e a n = Some q \<longrightarrow> db q = SqlRows rows \<longrightarrow> length rows \<le> 1)"

lemma getSession_no_next:
  assumes "honours_limit db" "getSession db now e a n out = (0, s)" "until s \<noteq> 0"
  shows "\<not> next_session s"
proof -
  obtain q where q: "session_query db e a n = Some q"
    using assms(2) by (auto simp: getSession_def Let_def split: option.splits)
  then obtain rows where rows: "db q = SqlRows rows" "rows \<noteq> []"
    using assms(2,3) by (auto simp: getSession_def Let_def split: sqlres.splits list.splits)
  then obtain row where "rows = [row]"
    using assms(1) q by (metis honours_limit_def le_SucE le_zero_eq length_0_conv length_Suc_conv One_nat_def)
  then show ?thesis
    using assms(2) q rows by (auto simp: getSession_def session_of_row_def Let_def)
qed

lemma getSession_keys:
  assumes "db q = SqlRows (row # rows)" "session_query db e a n = Some q"
    and "cell row 5 = Some f" "cell row 6 = Some s" "cell row 7 = Some k"
  shows "fst (getSession db now e a n out) = 0"
    "FNwkSIntKeyBin (snd (getSession db now e a n out)) = take 16 (bytes_of f)"
    "SNwkSIntKeyBin (snd (getSession db now e a n out)) = take 16 (bytes_of s)"
    "NwkSEncKeyBin (snd (getSession db now e a n out)) = take 16 (bytes_of k)"
    "OptNeg (snd (getSession db now e a n out)) \<longleftrightarrow>
      take 16 (bytes_of f) \<noteq> take 16 (bytes_of s) \<and> take 16 (bytes_of f) \<noteq> take 16 (bytes_of k)"
  using assms by (simp_all add: getSession_def session_of_row_def ses_key_def Let_def split: option.splits)

section \<open>The statements fit their buffers\<close>

lemma length_digits_of:
  "1 < base \<Longrightarrow> 0 < k \<Longrightarrow> n < base ^ k \<Longrightarrow> length (digits_of fuel base n) \<le> k"
proof (induction fuel arbitrary: n k)
  case (Suc fuel)
  show ?case
  proof (cases "n < base")
    case False
    then obtain k' where k: "k = Suc k'" "0 < k'"
      using Suc.prems by (cases k) (auto, metis gr0I mult_1 power_0 semiring_normalization_rules(7))
    then have "n div base < base ^ k'"
      using Suc.prems by (simp add: less_mult_imp_div_less mult.commute)
    then show ?thesis using Suc.IH [OF Suc.prems(1) k(2)] False k by simp
  qed (use Suc.prems in simp)
qed simp

lemma length_dec_of: "n < 10 ^ k \<Longrightarrow> 0 < k \<Longrightarrow> length (dec_of n) \<le> k"
  unfolding dec_of_def by (rule length_digits_of) simp_all

lemma length_print_u64: "length (print_unsigned (x :: u64)) \<le> 20"
proof -
  have "unat x < 2 ^ LENGTH(64)" by (rule unsigned_less)
  then have "unat x < 10 ^ 20" by simp
  then show ?thesis unfolding print_unsigned_def by (rule length_dec_of) simp
qed

lemma length_print_u32: "length (print_unsigned (x :: u32)) \<le> 10"
proof -
  have "unat x < 2 ^ LENGTH(32)" by (rule unsigned_less)
  then have "unat x < 10 ^ 10" by simp
  then show ?thesis unfolding print_unsigned_def by (rule length_dec_of) simp
qed

lemma length_hex_of_buf [simp, len_simps]: "length (hex_of_buf b) = 2 * length b"
  by (induction b) (simp_all add: hex_of_buf_def hex2_def)

lemma length_opt_part:
  "(\<And>x. v = Some x \<Longrightarrow> length (f x) \<le> n) \<Longrightarrow> length (opt_part v f) \<le> n + 2"
  by (auto simp: opt_part_def split: option.splits)

lemma getMotesWhere_fits: "length (snd (getMotesWhere db e a)) \<le> 29"
proof -
  have "length (print_unsigned (x :: u32)) \<le> 24" for x
    using length_print_u32 [of x] by simp
  then show ?thesis
    using length_print_u64 [of e] by (auto simp: getMotesWhere_def split: sqlres.splits list.splits)
qed

lemma session_insert_fits:
  assumes "\<And>k. k \<in> {fnk, snk, nek} \<Longrightarrow> (case k of Some b \<Rightarrow> length b = 16 | None \<Rightarrow> True)"
  shows "length (session_insert_text moteID til a d u fnk snk nek) < 768"
proof -
  have key: "length (opt_part k (\<lambda>k. ''0x'' @ hex_of_buf k)) \<le> 34 + 2" if "k \<in> {fnk, snk, nek}" for k
    using assms [OF that] by (intro length_opt_part) (auto split: option.splits)
  have til: "length (opt_part til (\<lambda>t. ''FROM_UNIXTIME('' @ print_unsigned t @ '')'')) \<le> 35 + 2"
    using length_print_u64 by (intro length_opt_part) auto
  have num: "length (opt_part v (print_unsigned :: u32 \<Rightarrow> string)) \<le> 10 + 2" for v
    using length_print_u32 by (intro length_opt_part) auto
  have col: "length (opt_part v (\<lambda>_. c)) \<le> length c + 2" for v :: "'x option" and c
    by (intro length_opt_part) auto
  show ?thesis
    using key [of fnk] key [of snk] key [of nek] til num [of a] num [of d] num [of u] length_print_u32 [of moteID]
      col [of til "''Until''"] col [of a "''DevAddr''"] col [of d "''NFCntDown''"] col [of u "''FCntUp''"]
      col [of fnk "''FNwkSIntKey''"] col [of snk "''SNwkSIntKey''"] col [of nek "''NwkSEncKey''"]
    unfolding session_insert_text_def Let_def
    by simp
qed

lemma roam_update_fits: "length (roam_update_text st til netid mic wh) \<le> 160 + length wh"
proof -
  have "length (roam_text st) \<le> 9" by (cases st) simp_all
  moreover have "length (case til of Some t \<Rightarrow> ''roamUntil = FROM_UNIXTIME('' @ print_unsigned t @ ''), '' | None \<Rightarrow> []) \<le> 49"
    using length_print_u64 by (auto split: option.splits)
  moreover have "length (case netid of Some n \<Rightarrow> ''roamingWithNetID = '' @ [CHR 0x27] @ print_unsigned n @ [CHR 0x27] @ '', '' | None \<Rightarrow> []) \<le> 33"
    using length_print_u32 by (auto split: option.splits)
  ultimately show ?thesis
    unfolding roam_update_text_def Let_def by (auto split: option.splits)
qed

lemma add_session_blank: "add_database_session db mq NONE_DEVEUI til s f n u d a b = (- 1, [])"
  by (simp add: add_database_session_def)

lemma add_session_order:
  assumes "add_database_session db mq e til s f n u d a b = (ret, qs)"
  shows "(ret < 0 \<longrightarrow> length qs \<le> 1 \<or> (\<exists>q1 q2. qs = [q1, q2] \<and> 0 \<le> mq q1 \<and> mq q2 < 0)) \<and>
    (0 \<le> ret \<longrightarrow> (\<exists>q1 q2. qs = [q1, q2] \<and> 0 \<le> mq q1 \<and> 0 \<le> mq q2))"
  using assms by (auto simp: add_database_session_def Let_def split: if_splits)

end
