(* ===== verification/Bands.thy ===== *)
theory Bands
  imports NsTypes
begin

text \<open>
  The regional conversions from an uplink to its first receive window:
  network_server/band_us902.c, band_au915.c, band_eu868.c, band_cn779.c and
  band_eu433.c. Frequencies are rationals in MHz. The C code multiplies a float
  by ten and truncates; below 1024 MHz the rounding of that product hits the
  exact multiple of 100 kHz, which is what the rational product gives. A table
  access outside its bounds is None.
\<close>

section \<open>The operations\<close>

definition trunc_rat :: "rat \<Rightarrow> int" where
  "trunc_rat q = (if q < 0 then - \<lfloor>- q\<rfloor> else \<lfloor>q\<rfloor>)"

definition table_at :: "u8 list list \<Rightarrow> u8 \<Rightarrow> u8 \<Rightarrow> u8 option" where
  "table_at t i j =
    (if unat i < length t \<and> unat j < length (t ! unat i) then Some (t ! unat i ! unat j) else None)"

definition us902_get_ch :: "rat \<Rightarrow> u8 \<Rightarrow> int" where
  "us902_get_ch MHz DataRate =
    (let i = rat_of_int (trunc_rat (MHz * 10)) in
     if DataRate = 4 then trunc_rat ((i - 9030) / 16 + 64)
     else if DataRate < 4 then trunc_rat ((i - 9023) / 2)
     else - 1)"

definition us_915datarateOffsets :: "u8 list list" where
  "us_915datarateOffsets =
    [[10, 9, 8, 8],
     [11, 10, 9, 8],
     [12, 11, 10, 9],
     [13, 12, 11, 10],
     [13, 13, 12, 11]]"

definition rx1_band_conv_us902 :: "rat \<Rightarrow> u8 \<Rightarrow> u8 \<Rightarrow> DLMetaData_t \<Rightarrow> DLMetaData_t option" where
  "rx1_band_conv_us902 f ULDataRate rxdrOffset1 out =
    (let down_channel =
       (if ULDataRate = 4 then word_of_int (us902_get_ch f ULDataRate - 64)
        else if ULDataRate < 4 then (word_of_int (us902_get_ch f ULDataRate) :: u8) AND 7
        else 0xff)
     in map_option (\<lambda>d. out\<lparr>dl_DLFreq2 := 0,
          dl_DLFreq1 := 9233 / 10 + 6 / 10 * of_nat (unat (down_channel :: u8)), DataRate1 := d\<rparr>)
          (table_at us_915datarateOffsets ULDataRate rxdrOffset1))"

definition au915_get_ch :: "rat \<Rightarrow> u8 \<Rightarrow> int" where
  "au915_get_ch MHz DataRate =
    (let i = rat_of_int (trunc_rat (MHz * 10)) in
     if DataRate = 4 then trunc_rat ((i - 9159) / 16 + 64)
     else if DataRate < 4 then trunc_rat ((i - 9152) / 2)
     else - 1)"

definition au915_drOffsets :: "u8 list list" where
  "au915_drOffsets =
    [[8, 8, 8, 8, 8, 8],
     [9, 8, 8, 8, 8, 8],
     [10, 9, 8, 9, 8, 8],
     [11, 10, 9, 8, 8, 8],
     [12, 11, 10, 9, 8, 8],
     [13, 12, 11, 10, 9, 8],
     [13, 13, 12, 11, 10, 9]]"

definition rx1_band_conv_au915 :: "rat \<Rightarrow> u8 \<Rightarrow> u8 \<Rightarrow> DLMetaData_t \<Rightarrow> DLMetaData_t option" where
  "rx1_band_conv_au915 f ULDataRate rxdrOffset1 out =
    (let down_channel =
       (if ULDataRate = 6 then word_of_int (au915_get_ch f ULDataRate - 64)
        else if ULDataRate < 6 then (word_of_int (au915_get_ch f ULDataRate) :: u8) AND 7
        else 0xff)
     in map_option (\<lambda>d. out\<lparr>dl_DLFreq2 := 0,
          dl_DLFreq1 := 9233 / 10 + 6 / 10 * of_nat (unat (down_channel :: u8)), DataRate1 := d\<rparr>)
          (table_at au915_drOffsets ULDataRate rxdrOffset1))"

definition eu868_drOffsets :: "u8 list list" where
  "eu868_drOffsets =
    [[0, 0, 0, 0, 0, 0],
     [1, 0, 0, 0, 0, 0],
     [2, 1, 0, 0, 0, 0],
     [3, 2, 1, 0, 0, 0],
     [4, 3, 2, 1, 0, 0],
     [5, 4, 3, 2, 1, 0],
     [6, 5, 4, 3, 2, 1],
     [7, 6, 5, 4, 3, 2]]"

definition rx1_band_conv_eu868 :: "rat \<Rightarrow> u8 \<Rightarrow> u8 \<Rightarrow> DLMetaData_t \<Rightarrow> DLMetaData_t option" where
  "rx1_band_conv_eu868 f ULDataRate rxdrOffset1 out =
    map_option (\<lambda>d. out\<lparr>dl_DLFreq2 := 0, dl_DLFreq1 := f, DataRate1 := d\<rparr>)
      (table_at eu868_drOffsets ULDataRate rxdrOffset1)"

text \<open>The 779 MHz and 433 MHz files repeat the table and the body of the 868 MHz file.\<close>

definition rx1_band_conv_cn779 :: "rat \<Rightarrow> u8 \<Rightarrow> u8 \<Rightarrow> DLMetaData_t \<Rightarrow> DLMetaData_t option" where
  "rx1_band_conv_cn779 f ULDataRate rxdrOffset1 out =
    map_option (\<lambda>d. out\<lparr>dl_DLFreq2 := 0, dl_DLFreq1 := f, DataRate1 := d\<rparr>)
      (table_at eu868_drOffsets ULDataRate rxdrOffset1)"

definition rx1_band_conv_eu433 :: "rat \<Rightarrow> u8 \<Rightarrow> u8 \<Rightarrow> DLMetaData_t \<Rightarrow> DLMetaData_t option" where
  "rx1_band_conv_eu433 f ULDataRate rxdrOffset1 out =
    map_option (\<lambda>d. out\<lparr>dl_DLFreq2 := 0, dl_DLFreq1 := f, DataRate1 := d\<rparr>)
      (table_at eu868_drOffsets ULDataRate rxdrOffset1)"

section \<open>Channels and data rates of the first window\<close>

lemma trunc_rat_of_int [simp]: "trunc_rat (rat_of_int n) = n"
  by (simp add: trunc_rat_def flip: of_int_minus)

definition clamp :: "int \<Rightarrow> int \<Rightarrow> int \<Rightarrow> int" where
  "clamp lo hi x = max lo (min hi x)"

lemma us902_table_check:
  "list_all (\<lambda>(i, j). us_915datarateOffsets ! i ! j = word_of_int (clamp 8 13 (10 + int i - int j)))
    (List.product [0..<5] [0..<4])"
  by code_simp

lemma eu868_table_check:
  "list_all (\<lambda>(i, j). eu868_drOffsets ! i ! j = word_of_int (max 0 (int i - int j)))
    (List.product [0..<8] [0..<6])"
  by code_simp

lemma au915_table_check:
  "list_all (\<lambda>(i, j). (i, j) = (2, 3) \<or> au915_drOffsets ! i ! j = word_of_int (clamp 8 13 (8 + int i - int j)))
    (List.product [0..<7] [0..<6])"
  by code_simp

lemma us902_ch_125:
  assumes "c < 64" "d < 4"
  shows "us902_get_ch (9023 / 10 + 2 / 10 * of_nat c) d = int c"
proof -
  have "(9023 / 10 + 2 / 10 * of_nat c) * 10 = rat_of_int (9023 + 2 * int c)" by simp
  then have "trunc_rat ((9023 / 10 + 2 / 10 * of_nat c) * 10) = 9023 + 2 * int c"
    by (simp only: trunc_rat_of_int)
  moreover have "(rat_of_int (9023 + 2 * int c) - 9023) / 2 = rat_of_int (int c)" by simp
  ultimately show ?thesis using assms(2) by (auto simp: us902_get_ch_def Let_def simp del: of_int_of_nat_eq)
qed

lemma us902_ch_500:
  "us902_get_ch (9030 / 10 + 16 / 10 * of_nat k) 4 = 64 + int k"
proof -
  have "(9030 / 10 + 16 / 10 * of_nat k) * 10 = rat_of_int (9030 + 16 * int k)" by simp
  then have "trunc_rat ((9030 / 10 + 16 / 10 * of_nat k) * 10) = 9030 + 16 * int k"
    by (simp only: trunc_rat_of_int)
  moreover have "(rat_of_int (9030 + 16 * int k) - 9030) / 16 + 64 = rat_of_int (64 + int k)" by simp
  ultimately show ?thesis unfolding us902_get_ch_def Let_def by (simp only: trunc_rat_of_int if_True simp_thms)
qed

lemma byte_and_7: "unat ((word_of_nat c :: u8) AND 7) = c mod 8" if "c < 256"
proof -
  have "(word_of_nat c :: u8) AND 7 = take_bit 3 (word_of_nat c)"
    by (simp add: take_bit_eq_mask mask_eq_exp_minus_1)
  then show ?thesis using that by (simp add: take_bit_eq_mod unat_mod_distrib unat_of_nat)
qed


lemma us902_rx1:
  assumes "c < 64" "d < 4" "unat off < 4"
  shows "rx1_band_conv_us902 (9023 / 10 + 2 / 10 * of_nat c) d off out =
    Some (out\<lparr>dl_DLFreq2 := 0, dl_DLFreq1 := 9233 / 10 + 6 / 10 * of_nat (c mod 8),
      DataRate1 := word_of_int (clamp 8 13 (10 + int (unat d) - int (unat off)))\<rparr>)"
proof -
  have d: "unat d < 4" using assms(2) by (simp add: word_less_nat_alt)
  then have "d \<noteq> 4" by auto
  have "(unat d, unat off) \<in> set (List.product [0..<5] [0..<4])" using d assms(3) by simp
  then have "us_915datarateOffsets ! unat d ! unat off = word_of_int (clamp 8 13 (10 + int (unat d) - int (unat off)))"
    using us902_table_check unfolding list_all_iff by blast
  moreover have "unat d < length us_915datarateOffsets" "length (us_915datarateOffsets ! unat d) = 4"
    using d by (auto simp: us_915datarateOffsets_def nth_Cons split: nat.splits)
  moreover have "(unsigned ((word_of_nat c :: u8) AND 7) :: rat) = of_nat (c mod 8)"
  proof -
    have "unat ((word_of_nat c :: u8) AND 7) = c mod 8" using byte_and_7 assms(1) by simp
    then show ?thesis by (metis of_nat_unat)
  qed
  ultimately show ?thesis
    using us902_ch_125 [OF assms(1,2)] assms(2,3) \<open>d \<noteq> 4\<close>
    by (simp add: rx1_band_conv_us902_def table_at_def Let_def)
qed

lemma us902_rx1_500:
  assumes "k < 8" "unat off < 4"
  shows "rx1_band_conv_us902 (9030 / 10 + 16 / 10 * of_nat k) 4 off out =
    Some (out\<lparr>dl_DLFreq2 := 0, dl_DLFreq1 := 9233 / 10 + 6 / 10 * of_nat k,
      DataRate1 := word_of_int (clamp 8 13 (14 - int (unat off)))\<rparr>)"
proof -
  have "(4, unat off) \<in> set (List.product [0..<5] [0..<4])" using assms(2) by simp
  then have "us_915datarateOffsets ! 4 ! unat off = word_of_int (clamp 8 13 (10 + int 4 - int (unat off)))"
    using us902_table_check unfolding list_all_iff by blast
  moreover have "length us_915datarateOffsets = 5" "length (us_915datarateOffsets ! 4) = 4"
    by (simp_all add: us_915datarateOffsets_def)
  moreover have "(unsigned (word_of_nat k :: u8) :: rat) = of_nat k"
  proof -
    have "unat (word_of_nat k :: u8) = k" using assms(1) by (intro unat_of_nat_small) simp
    then show ?thesis by (metis of_nat_unat)
  qed
  ultimately show ?thesis
    using us902_ch_500 [of k] assms(2)
    by (simp add: rx1_band_conv_us902_def table_at_def Let_def)
qed

lemma eu868_rx1:
  assumes "unat d < 8" "unat off < 6"
  shows "rx1_band_conv_eu868 f d off out =
    Some (out\<lparr>dl_DLFreq2 := 0, dl_DLFreq1 := f,
      DataRate1 := word_of_int (max 0 (int (unat d) - int (unat off)))\<rparr>)"
proof -
  have "(unat d, unat off) \<in> set (List.product [0..<8] [0..<6])" using assms by simp
  then have "eu868_drOffsets ! unat d ! unat off = word_of_int (max 0 (int (unat d) - int (unat off)))"
    using eu868_table_check unfolding list_all_iff by blast
  moreover have "length eu868_drOffsets = 8" by (simp add: eu868_drOffsets_def)
  moreover have "list_all (\<lambda>r. length r = 6) eu868_drOffsets" by (simp add: eu868_drOffsets_def)
  ultimately show ?thesis using assms
    by (simp add: rx1_band_conv_eu868_def table_at_def list_all_length)
qed

text \<open>
  The 915 MHz Australian file keeps the 500 kHz data rate 4 of the older plan
  in its channel function while the conversion works with data rate 6, so the
  channel of every uplink at data rates 4 to 6 is the failure value.
\<close>

lemma au915_no_channel: "4 < d \<Longrightarrow> au915_get_ch f d = - 1"
  by (auto simp: au915_get_ch_def Let_def)

lemma au915_rx1_500:
  assumes "unat off < 6"
  shows "map_option dl_DLFreq1 (rx1_band_conv_au915 f 6 off out) = Some (9233 / 10 + 6 / 10 * 191)"
proof -
  have "length au915_drOffsets = 7" "length (au915_drOffsets ! 6) = 6" by (simp_all add: au915_drOffsets_def)
  then show ?thesis using assms au915_no_channel [of 6 f]
    by (simp add: rx1_band_conv_au915_def table_at_def Let_def)
qed

end
