(* ===== verification/MacCommands.thy ===== *)
theory MacCommands
  imports Adr Database Bands
begin

text \<open>
  MAC commands a device sends (network_server/sNS.c): the loop that consumes a
  command buffer, answers requests through the command queue and clears the
  requests that are answered; the ping slot offset; the start of a session and
  the forced rejoin. A read outside the given memory is None.
\<close>

section \<open>Single-precision conversion\<close>

text \<open>
  Rounding to a 24-bit significand, ties to even, as the C conversion to float
  does in the normal range. The scaling takes at most as many steps as the
  binary exponent has magnitude; 200 covers the range of a float.
\<close>

fun scale24 :: "nat \<Rightarrow> rat \<Rightarrow> rat \<Rightarrow> rat \<times> rat" where
  "scale24 0 x u = (x, u)"
| "scale24 (Suc n) x u =
    (if x \<ge> 2 ^ 24 then scale24 n (x / 2) (u * 2) else if x < 2 ^ 23 then scale24 n (x * 2) (u / 2) else (x, u))"

definition round_even :: "rat \<Rightarrow> int" where
  "round_even x = (let f = \<lfloor>x\<rfloor>; r = x - of_int f in
     if r < 1 / 2 then f else if r > 1 / 2 then f + 1 else if even f then f else f + 1)"

definition to_float :: "rat \<Rightarrow> rat" where
  "to_float x = (if x = 0 then 0 else
     let s = (if x < 0 then - 1 else 1); (y, u) = scale24 200 (s * x) 1 in s * of_int (round_even y) * u)"

section \<open>Ping slots\<close>

definition LoRaMacBeaconComputePingOffset :: "u64 \<Rightarrow> u32 \<Rightarrow> u16 \<Rightarrow> u16 option" where
  "LoRaMacBeaconComputePingOffset beaconTime address pingPeriod =
    (let time = (ucast beaconTime :: u32);
         buffer = le_bytes 4 time @ le_bytes 4 address @ replicate 8 0;
         cipher = aes_block (aes_key128 (replicate 16 0)) buffer;
         r = (ucast (cipher ! 0) + ucast (cipher ! 1) * 256 :: u32)
     in if pingPeriod = 0 then None else Some (ucast (r mod ucast pingPeriod)))"

definition BEACON_WINDOW_SLOTS :: u32 where "BEACON_WINDOW_SLOTS = 4096"

section \<open>The command loop\<close>

definition DEMOD_FLOOR :: int where "DEMOD_FLOOR = - 15"

text \<open>What the handler reads beside the device state: mote, uplink metadata, token, database.\<close>

record mac_env =
  e_rx_snr :: int
  e_devAddr :: u32
  e_devEui :: u64
  e_GWCnt :: u8
  e_RFRegion :: "string option"
  e_ult :: ULToken_t
  e_db :: mysql
  e_mq :: mqueue
  e_now :: int
  e_regions :: "region_t list"

definition put_cmd :: "s_t \<Rightarrow> LoRaMacSrvCmd \<Rightarrow> buf \<Rightarrow> bool \<Rightarrow> s_t" where
  "put_cmd s c args needs = s\<lparr>macq := put_queue_mac_cmds (macq s) (srv_code c # args) needs\<rparr>"

definition clear_cmd :: "s_t \<Rightarrow> LoRaMacSrvCmd \<Rightarrow> s_t" where
  "clear_cmd s c = s\<lparr>macq := clear_queued_mac_cmd (macq s) (srv_code c)\<rparr>"

definition arg :: "buf \<Rightarrow> nat \<Rightarrow> u8 option" where
  "arg rx i = (if i < length rx then Some (rx ! i) else None)"

definition us902_name :: string where "us902_name = ''US902''"

definition beacon_timing :: "mac_env \<Rightarrow> s_t \<Rightarrow> s_t option" where
  "beacon_timing e s =
    (let t = e_ult e;
         diff = to_float (to_float (of_nat (unat (lgw_trigcnt_at_next_beacon t - count_us t))) / 30000);
         i_diff = (word_of_int \<lfloor>diff\<rfloor> :: u16)
     in case e_RFRegion e of None \<Rightarrow> None
        | Some name \<Rightarrow>
            Some (put_cmd s SRV_MAC_BEACON_TIMING_ANS
              [ucast (i_diff AND 0xff), ucast (drop_bit 8 i_diff AND 0xff),
               if take 5 name = us902_name then (beacon_ch t + 1) AND 7 else 0] False))"

definition device_time :: "mac_env \<Rightarrow> s_t \<Rightarrow> s_t" where
  "device_time e s =
    (let t = e_ult e;
         us_since_beacon = count_us t - tstamp_at_beacon t;
         secs = us_since_beacon div 1000000 + seconds_at_beacon t;
         subusecs = us_since_beacon mod 1000000
     in put_cmd s SRV_MAC_DEVICE_TIME_ANS
          (le_bytes 4 secs @ [word_of_int \<lfloor>of_nat (unat subusecs) / (39065 / 10 :: rat)\<rfloor>]) False)"

definition ping_slot_info_req :: "mac_env \<Rightarrow> s_t \<Rightarrow> u8 \<Rightarrow> s_t option" where
  "ping_slot_info_req e s octet =
    (let ping_nb = 128 div (push_bit (unat (octet AND 7)) 1) :: u32;
         period = ucast (BEACON_WINDOW_SLOTS div ping_nb) :: u16
     in case LoRaMacBeaconComputePingOffset (ucast (seconds_at_beacon (e_ult e))) (e_devAddr e) period of
          None \<Rightarrow> None
        | Some ofs \<Rightarrow>
            Some (put_cmd (s\<lparr>ping_slot_info := octet, ping_period := period, ping_offset := ofs\<rparr>)
                    SRV_MAC_PING_SLOT_INFO_ANS [] False))"

definition rekey_ind :: "mac_env \<Rightarrow> s_t \<Rightarrow> u8 \<Rightarrow> s_t \<times> string list" where
  "rekey_ind e s v =
    (let (s', sent) =
       (if v = 1 \<and> e_devEui e \<noteq> NONE_DEVEUI \<and> checkOldSessions (flags s) then
          (s\<lparr>flags := (flags s)\<lparr>checkOldSessions := False\<rparr>\<rparr>,
           snd (deleteOldSessions (e_db e) (e_mq e) (e_devEui e) False))
        else (s, []))
     in (put_cmd s' SRV_MAC_REKEY_CONF [v] False, sent))"

definition reset_ind :: "mac_env \<Rightarrow> s_t \<Rightarrow> s_t" where
  "reset_ind e s =
    (let sql = snd (sql_motes_query (e_db e) (e_now e) (e_devEui e) (e_devAddr e));
         s1 = put_cmd s SRV_MAC_RESET_CONF [if r_OptNeg sql then 1 else 0] False;
         s2 = s1\<lparr>flags := (flags s1)\<lparr>session_start_at_uplink := True\<rparr>\<rparr>
     in network_controller_mote_init (e_regions e) s2 (e_RFRegion e))"

text \<open>
  One round of the switch: the new state, the next index and the statements
  sent. The index has 8 bits: behind 255 it starts again at 0.
\<close>

definition mac_cmd_step :: "mac_env \<Rightarrow> buf \<Rightarrow> s_t \<Rightarrow> u8 \<Rightarrow> (s_t \<times> u8 \<times> string list) option" where
  "mac_cmd_step e rx s i =
    (case arg rx (unat i) of None \<Rightarrow> None | Some c \<Rightarrow>
      (let a = arg rx (unat (i + 1));
           answered = (\<lambda>cmd. case a of None \<Rightarrow> None | Some _ \<Rightarrow> Some (clear_cmd s cmd, i + 2, []))
       in case map_of mote_cmds c of
         Some MOTE_MAC_LINK_CHECK_REQ \<Rightarrow>
           Some (put_cmd s SRV_MAC_LINK_CHECK_ANS
             [if e_rx_snr e < DEMOD_FLOOR then 0 else word_of_int (e_rx_snr e - DEMOD_FLOOR), e_GWCnt e] False, i + 1, [])
       | Some MOTE_MAC_PING_SLOT_INFO_REQ \<Rightarrow>
           (case a of None \<Rightarrow> None | Some octet \<Rightarrow>
              map_option (\<lambda>s'. (s', i + 2, [])) (ping_slot_info_req e s octet))
       | Some MOTE_MAC_BEACON_TIMING_REQ \<Rightarrow> map_option (\<lambda>s'. (s', i + 1, [])) (beacon_timing e s)
       | Some MOTE_MAC_DEVICE_TIME_REQ \<Rightarrow> Some (device_time e s, i + 1, [])
       | Some MOTE_MAC_LINK_ADR_ANS \<Rightarrow> answered SRV_MAC_LINK_ADR_REQ
       | Some MOTE_MAC_PING_SLOT_FREQ_ANS \<Rightarrow> answered SRV_MAC_PING_SLOT_CHANNEL_REQ
       | Some MOTE_MAC_BEACON_FREQ_ANS \<Rightarrow> answered SRV_MAC_BEACON_FREQ_REQ
       | Some MOTE_MAC_RX_PARAM_SETUP_ANS \<Rightarrow> answered SRV_MAC_RX_PARAM_SETUP_REQ
       | Some MOTE_MAC_NEW_CHANNEL_ANS \<Rightarrow> answered SRV_MAC_NEW_CHANNEL_REQ
       | Some MOTE_MAC_DEV_STATUS_ANS \<Rightarrow>
           (if a = None \<or> arg rx (unat (i + 2)) = None then None else Some (s, i + 3, []))
       | Some MOTE_MAC_REKEY_IND \<Rightarrow>
           (case a of None \<Rightarrow> None | Some v \<Rightarrow> (case rekey_ind e s v of (s', sent) \<Rightarrow> Some (s', i + 2, sent)))
       | Some MOTE_MAC_RESET_IND \<Rightarrow> (if a = None then None else Some (reset_ind e s, i + 2, []))
       | Some MOTE_MAC_DEVICE_MODE_IND \<Rightarrow>
           (case a of None \<Rightarrow> None | Some m \<Rightarrow>
              Some (put_cmd (s\<lparr>classModeInd := m\<rparr>) SRV_MAC_DEVICE_MODE_CONF [m] False, i + 2, []))
       | Some MOTE_MAC_REJOIN_PARAM_ANS \<Rightarrow> answered SRV_MAC_REJOIN_PARAM_REQ
       | Some MOTE_MAC_TX_PARAM_SETUP_ANS \<Rightarrow> Some (clear_cmd s SRV_MAC_TX_PARAM_SETUP_REQ, i + 1, [])
       | _ \<Rightarrow> Some (s, i + 1, [])))"

lemma mac_cmd_step_progress: "mac_cmd_step e rx s i = Some (s', j, sent) \<Longrightarrow> j \<in> {i + 1, i + 2, i + 3}"
  by (auto simp: mac_cmd_step_def Let_def split: option.splits LoRaMacMoteCmd.splits if_splits prod.splits)

text \<open>The loop; with a length of 254 or 255 the index may pass it by and the loop need not end.\<close>

partial_function (option) mac_cmd_loop :: "mac_env \<Rightarrow> buf \<Rightarrow> u8 \<Rightarrow> s_t \<Rightarrow> u8 \<Rightarrow> string list \<Rightarrow> (s_t \<times> string list) option" where
  "mac_cmd_loop e rx len s i sent =
    (if i < len then
       (case mac_cmd_step e rx s i of None \<Rightarrow> None
        | Some r \<Rightarrow> mac_cmd_loop e rx len (fst r) (fst (snd r)) (sent @ snd (snd r)))
     else Some (s, sent))"

text \<open>
  The uplink token: 21 octets scanned from hexadecimal text. An octet that
  does not scan repeats the one before; stack is the uninitialised variable
  before the first. None is a scan that starts behind the terminating NUL.
\<close>

definition token_octets :: "u8 \<Rightarrow> string \<Rightarrow> buf option" where
  "token_octets stack t =
    (if length t < 40 then None
     else Some (tl (foldl (\<lambda>os i. os @ [store (sscanf_hex (take 2 (drop (2 * i) t))) (last os)]) [stack] [0..<21])))"

definition start_callback :: "region_t list \<Rightarrow> string option \<Rightarrow> (buf \<Rightarrow> s_t \<Rightarrow> s_t option) option" where
  "start_callback rl name =
    (case find (\<lambda>r. rg_RFRegion r = name \<and> parse_start_mac_cmd (regional r) \<noteq> None) rl of
       Some r \<Rightarrow> parse_start_mac_cmd (regional r)
     | None \<Rightarrow> None)"

definition parse_mac_command ::
  "mac_env \<Rightarrow> u8 \<Rightarrow> string option \<Rightarrow> buf \<Rightarrow> u8 \<Rightarrow> s_t \<Rightarrow> (s_t \<times> string list \<times> bool) option" where
  "parse_mac_command e stack token rx len s =
    (let e' = (case token of None \<Rightarrow> Some e
               | Some t \<Rightarrow> map_option (\<lambda>os. e\<lparr>e_ult := parse_ULToken os\<rparr>) (token_octets stack t))
     in case e' of None \<Rightarrow> None
        | Some en \<Rightarrow>
           (case mac_cmd_loop en rx len s 0 [] of None \<Rightarrow> None
            | Some (s', sent) \<Rightarrow>
                if send_start_mac_cmds (flags s') then
                  (case start_callback (e_regions e) (e_RFRegion e) of
                     Some f \<Rightarrow> map_option (\<lambda>s2. (s2, sent, False)) (f (take (unat len) rx) s')
                   | None \<Rightarrow> Some (s', sent, False))
                else Some (s', sent, False)))"

section \<open>Session start and forced rejoin\<close>

definition init_session :: "region_t list \<Rightarrow> mysql \<Rightarrow> u64 \<Rightarrow> u32 \<Rightarrow> s_t \<Rightarrow> string option \<Rightarrow> (int \<times> s_t) option" where
  "init_session rl db devEui devAddr s name =
    (case find (\<lambda>r. rg_RFRegion r = name) rl of
       None \<Rightarrow> Some (- 1, s)
     | Some r \<Rightarrow>
         map_option (\<lambda>s1. (0, if enableTxParamSetup (regional r)
                   then put_cmd s1 SRV_MAC_TX_PARAM_SETUP_REQ [TxParamSetup (regional r)] True else s1))
           (case cb_init_session (regional r) of
              Some f \<Rightarrow> map_option (\<lambda>s'. s'\<lparr>flags := (flags s')\<lparr>send_start_mac_cmds := True\<rparr>\<rparr>)
                          (f db devEui devAddr (beacon_hz (regional r)) s)
            | None \<Rightarrow> Some s))"

definition force_rejoin_payload :: "u32 \<Rightarrow> u8 \<Rightarrow> u16" where
  "force_rejoin_payload drmin typ =
    (let max_retries = 3; period = 1 in
     (ucast drmin AND 0x0f) OR push_bit 8 (max_retries AND 7) OR push_bit 4 (ucast typ AND 7) OR push_bit 11 (period AND 7))"

definition sNS_force_rejoin :: "mysql \<Rightarrow> (string \<Rightarrow> rat) \<Rightarrow> u64 \<Rightarrow> u32 \<Rightarrow> s_t option \<Rightarrow> u8 \<Rightarrow> int \<times> s_t option" where
  "sNS_force_rejoin db scan_float devEui devAddr s typ =
    (let (ret, sp) = readServiceProfileFromSql db scan_float devEui devAddr in
     case s of None \<Rightarrow> (ret, None)
     | Some st \<Rightarrow>
         if ret < 0 then (ret, s)
         else
           let cmd_payload = force_rejoin_payload (DRMin sp) typ;
               st1 = st\<lparr>macq := wipe_queued_mac_cmds (macq st)\<rparr>;
               b2 = (ucast ((push_bit 8 (ucast cmd_payload) :: u32) AND 0xff) :: u8);
               st2 = put_cmd st1 SRV_MAC_FORCE_REJOIN_REQ [ucast (cmd_payload AND 0xff), b2] False
           in (0, Some (if typ = 2 then st2\<lparr>type2_rejoin_count := 3\<rparr> else st2)))"

section \<open>The queue survives every command\<close>

lemma put_cmd_inv [simp, intro]: "queue_inv (macq s) \<Longrightarrow> queue_inv (macq (put_cmd s c args needs))"
  by (simp add: put_cmd_def mq.put_inv)

lemma clear_cmd_inv [simp, intro]: "queue_inv (macq s) \<Longrightarrow> queue_inv (macq (clear_cmd s c))"
  using mq.clear_law by (simp add: clear_cmd_def)

lemma mote_init_macq [simp]: "macq (network_controller_mote_init rl s n) = macq s"
  by (simp add: network_controller_mote_init_def split: option.splits)

lemma mac_cmd_step_inv:
  assumes "queue_inv (macq s)" "mac_cmd_step e rx s i = Some (s', j, sent)"
  shows "queue_inv (macq s')"
  using assms
  by (auto simp: mac_cmd_step_def Let_def ping_slot_info_req_def beacon_timing_def device_time_def
      rekey_ind_def reset_ind_def split: option.splits LoRaMacMoteCmd.splits if_splits prod.splits)

lemma mac_cmd_loop_inv:
  assumes "mac_cmd_loop e rx len s i sent = Some r" "queue_inv (macq s)"
  shows "queue_inv (macq (fst r))"
  using assms
proof (induction e rx len s i sent r rule: mac_cmd_loop.raw_induct [rotated, consumes 1])
  case (1 loop e rx len s i sent r)
  show ?case
  proof (cases "i < len")
    case True
    then obtain t where step: "mac_cmd_step e rx s i = Some t" "loop e rx len (fst t) (fst (snd t)) (sent @ snd (snd t)) = Some r"
      using 1(2) by (auto split: option.splits)
    have "queue_inv (macq (fst t))" using mac_cmd_step_inv [OF 1(3)] step(1) by (cases t) auto
    then show ?thesis by (rule 1(1) [OF step(2)])
  qed (use 1(2,3) in auto)
qed

definition callbacks_ok :: "region_t list \<Rightarrow> bool" where
  "callbacks_ok rl \<longleftrightarrow> (\<forall>r \<in> set rl. \<forall>f b s s'. parse_start_mac_cmd (regional r) = Some f \<longrightarrow>
     queue_inv (macq s) \<longrightarrow> f b s = Some s' \<longrightarrow> queue_inv (macq s'))"

lemma start_callback_in:
  assumes "start_callback rl name = Some f"
  shows "\<exists>r \<in> set rl. parse_start_mac_cmd (regional r) = Some f"
proof -
  obtain r where r: "find (\<lambda>r. rg_RFRegion r = name \<and> parse_start_mac_cmd (regional r) \<noteq> None) rl = Some r"
    "parse_start_mac_cmd (regional r) = Some f"
    using assms by (auto simp: start_callback_def split: option.splits)
  then have "r \<in> set rl" by (metis (no_types, lifting) find_Some_iff nth_mem)
  then show ?thesis using r(2) by blast
qed

text \<open>The result of a run: the loop, and perhaps the callback of the region.\<close>

lemma parse_mac_command_parts:
  assumes "parse_mac_command e stack tok rx len s = Some (s', sent, r)"
  obtains en s1 where "mac_cmd_loop en rx len s 0 [] = Some (s1, sent)" "\<not> r"
    "s' = s1 \<or> (\<exists>f. start_callback (e_regions e) (e_RFRegion e) = Some f \<and> f (take (unat len) rx) s1 = Some s')"
  using assms by (auto simp: parse_mac_command_def Let_def split: option.splits if_splits)

lemma parse_mac_command_inv:
  assumes "queue_inv (macq s)" "callbacks_ok (e_regions e)"
    and "parse_mac_command e stack tok rx len s = Some (s', sent, r)"
  shows "queue_inv (macq s')" "r = False"
proof -
  obtain en s1 where p: "mac_cmd_loop en rx len s 0 [] = Some (s1, sent)" "\<not> r"
    "s' = s1 \<or> (\<exists>f. start_callback (e_regions e) (e_RFRegion e) = Some f \<and> f (take (unat len) rx) s1 = Some s')"
    by (rule parse_mac_command_parts [OF assms(3)])
  show "r = False" using p(2) by simp
  have "queue_inv (macq s1)" using mac_cmd_loop_inv [OF p(1) assms(1)] by simp
  then show "queue_inv (macq s')"
    using p(3) start_callback_in [of "e_regions e"] assms(2) unfolding callbacks_ok_def by blast
qed

text \<open>Enough memory behind the buffer lets the loop run to its end.\<close>

lemma index_steps:
  fixes i :: u8
  assumes "unat i < 253"
  shows "unat (i + 1) = unat i + 1" "unat (i + 2) = unat i + 2" "unat (i + 3) = unat i + 3"
  using assms by (simp_all add: unat_word_ariths)

lemma mac_cmd_step_runs:
  assumes "unat i < 253" "unat i + 2 < length rx" "e_RFRegion e \<noteq> None"
  shows "mac_cmd_step e rx s i \<noteq> None"
proof -
  have per: "LoRaMacBeaconComputePingOffset b a (ucast (BEACON_WINDOW_SLOTS div (128 div (push_bit (unat (octet AND 7)) 1))) :: u16) \<noteq> None"
    for b a and octet :: u8
  proof -
    have "octet AND 7 = take_bit 3 octet" by (simp add: take_bit_eq_mask mask_eq_exp_minus_1)
    then have "unat (octet AND 7) < 8"
      by (metis take_bit_nat_less_exp unsigned_take_bit_eq power3_eq_cube numeral_times_numeral semiring_norm(11) semiring_norm(13))
    then show ?thesis
      by (elim less_8_cases) (simp_all add: LoRaMacBeaconComputePingOffset_def BEACON_WINDOW_SLOTS_def Let_def)
  qed
  have ping: "ping_slot_info_req e s octet \<noteq> None" for octet
    using per [of "ucast (seconds_at_beacon (e_ult e))" "e_devAddr e" octet]
    unfolding ping_slot_info_req_def Let_def by (auto split: option.splits)
  have beacon: "beacon_timing e s \<noteq> None"
    using assms(3) by (auto simp: beacon_timing_def Let_def)
  show ?thesis
    using assms(2) index_steps [OF assms(1)] ping beacon
    by (auto simp: mac_cmd_step_def Let_def arg_def split: option.splits LoRaMacMoteCmd.splits prod.splits)
qed

text \<open>Up to a length of 253 the index does not wrap.\<close>

lemma mac_cmd_loop_runs:
  assumes "unat len \<le> 253" "unat len + 1 < length rx" "e_RFRegion e \<noteq> None"
  shows "\<exists>r. mac_cmd_loop e rx len s i sent = Some r"
proof (induction "unat len - unat i" arbitrary: s i sent rule: less_induct)
  case less
  show ?case
  proof (cases "i < len")
    case True
    then have i: "unat i < unat len" "unat i < 253" "unat i + 2 < length rx"
      using assms(1,2) by (simp_all add: word_less_nat_alt)
    obtain t where t: "mac_cmd_step e rx s i = Some t" using mac_cmd_step_runs [OF i(2,3) assms(3)] by blast
    have "unat i < unat (fst (snd t))"
      using mac_cmd_step_progress [of e rx s i "fst t" "fst (snd t)" "snd (snd t)"] t index_steps [OF i(2)] by auto
    then have "unat len - unat (fst (snd t)) < unat len - unat i" using i(1) by simp
    from less [OF this] show ?thesis using True t by (subst mac_cmd_loop.simps) simp
  qed (simp add: mac_cmd_loop.simps)
qed

lemma parse_mac_command_runs:
  assumes "unat len \<le> 253" "unat len + 1 < length rx" "e_RFRegion e \<noteq> None" "\<And>t. token = Some t \<Longrightarrow> 40 \<le> length t"
    and "\<And>f b s. start_callback (e_regions e) (e_RFRegion e) = Some f \<Longrightarrow> length b \<le> 253 \<Longrightarrow> f b s \<noteq> None"
  shows "\<exists>r. parse_mac_command e stack token rx len s = Some r"
proof -
  have "\<exists>e'. (case token of None \<Rightarrow> Some e | Some t \<Rightarrow> map_option (\<lambda>os. e\<lparr>e_ult := parse_ULToken os\<rparr>) (token_octets stack t)) = Some e'
    \<and> e_RFRegion e' = e_RFRegion e"
    using assms(4) by (cases token) (auto simp: token_octets_def)
  then obtain e' where e': "(case token of None \<Rightarrow> Some e | Some t \<Rightarrow> map_option (\<lambda>os. e\<lparr>e_ult := parse_ULToken os\<rparr>) (token_octets stack t)) = Some e'"
    "e_RFRegion e' = e_RFRegion e" by blast
  then obtain s' sent where l: "mac_cmd_loop e' rx len s 0 [] = Some (s', sent)"
    using mac_cmd_loop_runs [of len rx e' s 0 "[]"] assms(1-3) by auto
  have "start_callback (e_regions e) (e_RFRegion e) = Some f \<Longrightarrow> f (take (unat len) rx) s' \<noteq> None" for f
    using assms(1,5) by simp
  then show ?thesis
    unfolding parse_mac_command_def Let_def e'(1) using l by (auto split: option.split)
qed

section \<open>Ping slots, answers, forced rejoin\<close>

lemma ping_offset_runs: "p \<noteq> 0 \<Longrightarrow> \<exists>ofs. LoRaMacBeaconComputePingOffset t a p = Some ofs"
  by (simp add: LoRaMacBeaconComputePingOffset_def Let_def)

lemma ping_offset_bound:
  assumes "LoRaMacBeaconComputePingOffset t a p = Some ofs"
  shows "ofs < p"
proof -
  from assms have p: "p \<noteq> 0" and o: "\<exists>r :: u32. ofs = ucast (r mod ucast p)"
    by (auto simp: LoRaMacBeaconComputePingOffset_def Let_def split: if_splits)
  then obtain r :: u32 where r: "ofs = ucast (r mod ucast p)" by blast
  have up: "unat (ucast p :: u32) = unat p" by (simp add: unat_ucast_up)
  have "unat (r mod ucast p) < unat p"
    using p up by (simp add: unat_mod_distrib unat_gt_0)
  moreover have "unat p < 2 ^ LENGTH(16)" by (rule unsigned_less)
  ultimately have "unat ofs = unat (r mod ucast p)"
    unfolding r by (simp add: unsigned_ucast_eq take_bit_nat_eq_self_iff)
  then show ?thesis using \<open>unat (r mod ucast p) < unat p\<close> by (simp add: word_less_nat_alt)
qed

lemma link_adr_answered:
  assumes "queue_inv (macq s)" "map_of mote_cmds (rx ! unat i) = Some MOTE_MAC_LINK_ADR_ANS" "unat i < 253" "unat i + 1 < length rx"
  shows "\<exists>s'. mac_cmd_step e rx s i = Some (s', i + 2, []) \<and>
    queue_abs (macq s') = drop_cmd (srv_code SRV_MAC_LINK_ADR_REQ) (queue_abs (macq s))"
  using assms clear_refines [OF assms(1)]
  by (simp add: mac_cmd_step_def arg_def clear_cmd_def Let_def index_steps)

lemma push8_low_byte: "((push_bit 8 w :: u32) AND 0xff) = 0"
proof -
  have m: "(0xff :: u32) = mask 8" by (simp add: mask_eq_exp_minus_1)
  show ?thesis unfolding m
    by (rule bit_word_eqI) (auto simp: bit_and_iff bit_push_bit_iff bit_mask_iff)
qed

lemma force_rejoin_queue:
  assumes "queue_inv (macq st)" "sNS_force_rejoin db f e a (Some st) typ = (0, Some st')"
    and "\<not> queue_full (wipe_queued_mac_cmds (macq st))"
  shows "queue_inv (macq st')"
    "\<exists>lo. queue_abs (macq st') = [(False, [srv_code SRV_MAC_FORCE_REJOIN_REQ, lo, 0])]"
proof -
  obtain ret sp where sp: "readServiceProfileFromSql db f e a = (ret, sp)" by fastforce
  let ?lo = "ucast (force_rejoin_payload (DRMin sp) typ AND 0xff) :: u8"
  let ?q = "put_queue_mac_cmds (wipe_queued_mac_cmds (macq st)) [srv_code SRV_MAC_FORCE_REJOIN_REQ, ?lo, 0] False"
  have m: "macq st' = ?q"
    using assms(2) sp push8_low_byte by (auto simp: sNS_force_rejoin_def Let_def put_cmd_def split: if_splits)
  show "queue_inv (macq st')"
    using m mq.put_inv mq.wipe_law [OF assms(1)] by simp
  show "\<exists>lo. queue_abs (macq st') = [(False, [srv_code SRV_MAC_FORCE_REJOIN_REQ, lo, 0])]"
    using m mq.wipe_put [OF assms(1), of "[srv_code SRV_MAC_FORCE_REJOIN_REQ, ?lo, 0]" False] assms(3) by simp
qed

end
