(* ===== verification/GwTypes.thy ===== *)
theory GwTypes
  imports MacCommands
begin

text \<open>
  The data shared by the gateway process and the forwarding server: packets to
  and from the concentrator (network_server/loragw_hal.h), a connected gateway
  and a downlink deferred to the next beacon period
  (network_server/gw_server.h, fNS.h), and host times. Nodes of the gateway
  list are never freed, so that a pointer to one is its position.
\<close>

section \<open>Rounding\<close>

text \<open>
  The value of an expression of type double: rounded to a 53-bit significand,
  ties to even, in the normal range. to_float does the same for float.
\<close>

fun scale53 :: "nat \<Rightarrow> rat \<Rightarrow> rat \<Rightarrow> rat \<times> rat" where
  "scale53 0 x u = (x, u)"
| "scale53 (Suc n) x u =
    (if x \<ge> 2 ^ 53 then scale53 n (x / 2) (u * 2) else if x < 2 ^ 52 then scale53 n (x * 2) (u / 2) else (x, u))"

definition to_double :: "rat \<Rightarrow> rat" where
  "to_double x = (if x = 0 then 0 else
     let s = (if x < 0 then - 1 else 1); (y, u) = scale53 1100 (s * x) 1 in s * of_int (round_even y) * u)"

section \<open>Times\<close>

record timespec =
  tv_sec :: int
  tv_nsec :: int

definition timespec_diff :: "timespec \<Rightarrow> timespec \<Rightarrow> timespec" where
  "timespec_diff start stop =
    (if tv_nsec stop - tv_nsec start < 0
     then \<lparr>tv_sec = tv_sec stop - tv_sec start - 1, tv_nsec = tv_nsec stop - tv_nsec start + 1000000000\<rparr>
     else \<lparr>tv_sec = tv_sec stop - tv_sec start, tv_nsec = tv_nsec stop - tv_nsec start\<rparr>)"

definition difftimespec :: "timespec \<Rightarrow> timespec \<Rightarrow> rat" where
  "difftimespec fin beginning =
    to_double (to_double (to_double (1 / 1000000000) * of_int (tv_nsec fin - tv_nsec beginning)) + of_int (tv_sec fin - tv_sec beginning))"

section \<open>Packets\<close>

definition TIMESTAMPED :: u8 where "TIMESTAMPED = 1"
definition IMMEDIATE :: u8 where "IMMEDIATE = 0"
definition STD_LORA_PREAMB :: u16 where "STD_LORA_PREAMB = 8"
definition MOD_LORA :: u8 where "MOD_LORA = 0x10"
definition MOD_FSK :: u8 where "MOD_FSK = 0x20"
definition CR_LORA_4_5 :: u8 where "CR_LORA_4_5 = 0x01"

record lgw_pkt_tx_s =
  tx_freq_hz :: u32
  tx_mode :: u8
  tx_count_us :: u32
  tx_rf_power :: u8
  tx_modulation :: u8
  tx_bandwidth :: u8
  tx_datarate :: u32
  tx_coderate :: u8
  invert_pol :: bool
  f_dev :: u8
  tx_preamble :: u16
  no_crc :: bool
  no_header :: bool
  tx_payload :: buf
  tx_modem_idx :: u8

record lgw_pkt_rx_s =
  rx_freq_hz :: u32
  if_chain :: u8
  rx_status :: u8
  rx_count_us :: u32
  rx_rf_chain :: u8
  rx_modulation :: u8
  rx_bandwidth :: u8
  rx_datarate :: u32
  rx_coderate :: u8
  pk_rssi :: rat
  pk_snr :: rat
  rx_payload :: buf
  rx_modem_idx :: u8

section \<open>Gateways\<close>

record coord_s =
  c_lat :: rat
  c_lon :: rat
  c_alt :: int

record gateway_t =
  g_fd :: u32
  num_modems :: u8
  g_eui :: u64
  g_coord :: coord_s
  g_tstamp_at_beacon :: u32
  g_seconds_at_beacon :: u32
  sx1301_ppm_err :: rat
  trigcnt_pingslot_zero :: u32
  host_time_beacon_indication :: timespec
  g_lgw_trigcnt_at_next_beacon :: u32
  new_indication :: bool
  g_updated :: bool
  have_gps_fix :: bool
  g_beacon_ch :: u8
  beacon_modem_idx :: u8
  count_us_tx_start :: u32
  count_us_tx_end :: u32
  g_RFRegion :: "string option"
  downpacketsreceived :: u32
  gooduppacketsreceived :: u32
  packetstransmitted :: u32
  uppacketsforwarded :: u32
  uppacketsreceived :: u32
  g_rp :: "regional_t option"
  g_read_host_time :: timespec

text \<open>A class B downlink that waits for the next beacon period.\<close>

record f_t =
  beaconDeferred :: bool
  f_PingPeriod :: u32
  f_gw :: nat
  f_tx_pkt :: lgw_pkt_tx_s
  f_clientID :: "string option"
  f_reqTid :: u64

end
