(* ===== verification/Motes.thy ===== *)
theory Motes
  imports GwTypes
begin

text \<open>
  The devices a network server knows (network_server/common.c): the record of
  one device, the list of devices with its empty nodes, the lookup that may
  create a device, the start of an uplink, and the transactions that wait for
  an answer. JSON texts are values; posting one is an effect, and what the
  HTTP client returns is an argument.
\<close>

section \<open>JSON and effects\<close>

datatype json = JBool bool | JInt int | JReal rat | JStr string | JArr "json list" | JObj "(string \<times> json) list"

type_synonym fields = "(string \<times> json) list"

text \<open>Adding a member replaces one of the same name.\<close>

definition add_field :: "string \<Rightarrow> json \<Rightarrow> fields \<Rightarrow> fields" where
  "add_field k v fs =
    (if k \<in> fst ` set fs then map (\<lambda>(k', v'). if k' = k then (k, v) else (k', v')) fs else fs @ [(k, v)])"

datatype effect = Statement string | Query string | Post string json | Write u32 buf | Shutdown u32 | Close u32

text \<open>A C int made from an unsigned value.\<close>

definition c_int :: "'a :: len word \<Rightarrow> int" where
  "c_int x = sint (ucast x :: u32)"

definition lib_generate_json ::
  "fields \<Rightarrow> string \<Rightarrow> string \<Rightarrow> u64 \<Rightarrow> string option \<Rightarrow> string option \<Rightarrow> fields" where
  "lib_generate_json jobj destID srcID tid mt res =
    (case mt of None \<Rightarrow> jobj
     | Some t \<Rightarrow>
         let j = add_field ''MessageType'' (JStr t)
               (add_field ''TransactionID'' (JInt (c_int tid))
               (add_field ''SenderID'' (JStr srcID)
               (add_field ''ReceiverID'' (JStr destID)
               (add_field ''ProtocolVersion'' (JStr ''1.0'') jobj))))
         in case res of Some r \<Rightarrow> add_field ''Result'' (JStr r) j | None \<Rightarrow> j)"

text \<open>The answers already sent, a ring of 16 transaction numbers; None is the exit on a repeat.\<close>

definition N_TIDS :: nat where "N_TIDS = 16"

definition check_post :: "fields \<Rightarrow> u32 list \<times> nat \<Rightarrow> (u32 list \<times> nat) option" where
  "check_post postJson st =
    (case st of (tids, tids_in) \<Rightarrow>
     if map_of postJson ''Result'' = None then Some st
     else case map_of postJson ''TransactionID'' of
            Some (JInt t) \<Rightarrow>
              let tid = word_of_int t :: u32 in
              if tid \<in> set (take N_TIDS tids) then None
              else Some (tids[tids_in := tid], if tids_in + 1 = N_TIDS then 0 else tids_in + 1)
          | _ \<Rightarrow> None)"

text \<open>
  What a handler of the network server reads from its surroundings: database,
  queue, clocks, regions, configuration, the HTTP client and the sockets, the
  key wrap of libgcrypt, and the value of a float from its octets. Those
  whose names begin with stack are what uninitialised local variables hold.
\<close>

record ns_env =
  n_db :: mysql
  n_mq :: mqueue
  n_now :: int
  n_regions :: "region_t list"
  n_float :: "string \<Rightarrow> rat"
  myNetwork_id32 :: u32
  myNetwork_idStr :: string
  netIdDomain :: string
  n_easy :: bool
  n_post :: "string \<Rightarrow> json \<Rightarrow> int"
  stack32 :: u32
  stack_octet :: u8
  stack_ult :: ULToken_t
  stack_buf :: buf
  stack_tx :: lgw_pkt_tx_s
  n_clock :: timespec
  n_read_file :: "string \<Rightarrow> buf option"
  regionPath :: string
  n_write :: "u32 \<Rightarrow> buf \<Rightarrow> int"
  n_ieee32 :: "u32 \<Rightarrow> rat"
  n_ieee64 :: "u64 \<Rightarrow> rat"
  n_strftime :: "int \<Rightarrow> string"
  n_leap_seconds :: int
  dl_rxwin :: u8
  joinDomain :: string
  devAddrBase :: u32
  nwkAddrBits :: nat
  n_wrap :: "buf \<Rightarrow> buf \<Rightarrow> buf option"
  n_unwrap :: "buf \<Rightarrow> buf \<Rightarrow> buf option"
  n_perform :: bool
  n_affected :: "string \<Rightarrow> int"
  n_mktime :: "string \<Rightarrow> int"
  n_error :: "string \<Rightarrow> string"
  n_errno :: "string \<Rightarrow> u32"
  n_insert_id :: "string \<Rightarrow> u64"
  n_pointer :: string
  stack_text :: string
  stack_profile :: ServiceProfile_t
  stack_device :: DeviceProfile_t
  stack_ulmd :: ULMetaData_t

definition print_hex :: "'a :: len word \<Rightarrow> string" where "print_hex x = hex_of (unat x)"

definition ns_hostname :: "ns_env \<Rightarrow> u32 \<Rightarrow> string" where
  "ns_hostname n nid = zero_pad 6 (print_hex nid) @ ''.'' @ netIdDomain n"

section \<open>One device\<close>

datatype AnsCallback_t = fNS_XmitDataAnsCallback | PRStartAnsCallback | ProfileAnsCallback | HomeNSAnsCallback
  | hNS_JoinAnsCallback | hNS_XmitDataAnsCallback_downlink | hNS_XmitDataAnsCallback_uplink
  | sNS_HRStartAnsCallback | sNS_downlink_phy_answer | sNS_uplink_frm_answer | sNS_xRStopAnsCallback

record tid_slot =
  sentTID :: u32
  AnsCallback :: "AnsCallback_t option"

datatype progress_e = PROGRESS_OFF | PROGRESS_LOCAL | PROGRESS_JSON

text \<open>The state of the home role for one device: an answer on its way to the application server.\<close>

record h_t =
  sendAppSKey :: bool
  h_reqTid :: u64
  h_ansDest :: "string option"
  h_ansJobj :: "fields option"
  h_rxResult :: "result option"

record requester_t =
  needsAnswer :: bool
  rq_MessageType :: "string option"
  ClientID :: string
  inTid :: u64
  rq_ulmd :: ULMetaData_t
  ans_ans :: bool

record mote_t =
  m_read_host_time :: timespec
  t_slots :: "tid_slot list"
  m_devAddr :: u32
  m_devEui :: u64
  session :: session_t
  nth_session :: u8
  progress :: progress_e
  first_uplink_host_time :: timespec
  release_uplink_host_time :: timespec
  best_sq :: int
  rx_snr :: int
  bestULTokenStr :: "string option"
  ulmd_local :: ULMetaData_t
  ULFRMPayloadLen :: u8
  ULPayloadBin :: buf
  ULPHYPayloadLen :: u8
  m_f :: "f_t option"
  m_s :: "s_t option"
  m_h :: "h_t option"
  rxdrOffset1 :: u8
  bestR :: "nat option"
  requesterList :: "requester_t option list"
  is_new :: bool
  writtenDeviceProfileTimestamp :: string

definition INT_MIN :: int where "INT_MIN = - (2 ^ 31)"

definition zero_session :: session_t where
  "zero_session = \<lparr>NFCntDown = 0, nullNFCntDown = False, FCntUp = 0, SNwkSIntKeyBin = replicate 16 0,
     FNwkSIntKeyBin = replicate 16 0, NwkSEncKeyBin = replicate 16 0, expired = False, until = 0,
     next_session = False, OptNeg = False\<rparr>"

definition zero_ulmd :: ULMetaData_t where
  "zero_ulmd = \<lparr>ul_DevEUI = 0, ul_DevAddr = 0, ul_FPort = 0, ul_FCntDown = 0, ul_FCntUp = 0, ul_Confirmed = False,
     ul_DataRate = 0, ul_FNSULToken = None, ULFreq = 0, Margin = 0, Battery = 0, RecvTime = [], ul_RFRegion = None,
     GWCnt = 0, gwList = []\<rparr>"

definition zero_mote :: mote_t where
  "zero_mote = \<lparr>m_read_host_time = \<lparr>tv_sec = 0, tv_nsec = 0\<rparr>, t_slots = replicate 2 \<lparr>sentTID = 0, AnsCallback = None\<rparr>, m_devAddr = 0, m_devEui = 0,
     session = zero_session, nth_session = 0, progress = PROGRESS_OFF,
     first_uplink_host_time = \<lparr>tv_sec = 0, tv_nsec = 0\<rparr>, release_uplink_host_time = \<lparr>tv_sec = 0, tv_nsec = 0\<rparr>,
     best_sq = 0, rx_snr = 0, bestULTokenStr = None, ulmd_local = zero_ulmd, ULFRMPayloadLen = 0,
     ULPayloadBin = replicate 256 0, ULPHYPayloadLen = 0, m_f = None, m_s = None, m_h = None, rxdrOffset1 = 0, bestR = None,
     requesterList = [], is_new = False, writtenDeviceProfileTimestamp = []\<rparr>"

text \<open>The DevEUI the database has for an identifier, when it has one.\<close>

definition db_DevEUI :: "mysql \<Rightarrow> u64 \<Rightarrow> u64 option" where
  "db_DevEUI db mid =
    (case db (''SELECT DevEUI FROM motes WHERE ID = '' @ print_unsigned mid) of
       SqlRows (row # _) \<Rightarrow> (case cell row 0 of Some t \<Rightarrow> sscanf_dec t | None \<Rightarrow> None)
     | _ \<Rightarrow> None)"

definition create_mote :: "mysql \<Rightarrow> u64 \<Rightarrow> u32 \<Rightarrow> mote_t" where
  "create_mote db devEui devAddr =
    (let eui = (if devEui = NONE_DEVEUI then store (db_DevEUI db (fst (getMoteID db NONE_DEVEUI devAddr))) devEui
                else devEui)
     in zero_mote\<lparr>is_new := True, best_sq := INT_MIN, m_devEui := eui, m_devAddr := devAddr\<rparr>)"

section \<open>The list of devices\<close>

text \<open>The comparison of one node: by DevEUI when one is known, else by address.\<close>

definition mote_match :: "u64 \<Rightarrow> u32 \<Rightarrow> mote_t option \<Rightarrow> bool" where
  "mote_match devEui devAddr node =
    (case node of None \<Rightarrow> False
     | Some m \<Rightarrow> if devEui \<noteq> NONE_DEVEUI then devEui = m_devEui m
                 else devAddr \<noteq> NONE_DEVADDR \<and> devAddr = m_devAddr m)"

fun index_where :: "('a \<Rightarrow> bool) \<Rightarrow> 'a list \<Rightarrow> nat option" where
  "index_where P [] = None"
| "index_where P (x # xs) = (if P x then Some 0 else map_option Suc (index_where P xs))"

definition resolve_eui :: "mysql \<Rightarrow> u64 \<Rightarrow> u32 \<Rightarrow> u64" where
  "resolve_eui db devEui devAddr =
    (if devEui = NONE_DEVEUI then
       let mid = fst (getMoteID db NONE_DEVEUI devAddr)
       in if mid > 0 then store (db_DevEUI db mid) devEui else devEui
     else devEui)"

text \<open>The list after the call and the position of the mote returned.\<close>

definition getMote :: "mysql \<Rightarrow> mote_t option list \<Rightarrow> u64 \<Rightarrow> u32 \<Rightarrow> mote_t option list \<times> nat" where
  "getMote db motes devEui0 devAddr =
    (let devEui = resolve_eui db devEui0 devAddr
     in case index_where (mote_match devEui devAddr) motes of
          Some i \<Rightarrow>
            (if devEui \<noteq> NONE_DEVEUI \<and> devAddr \<noteq> NONE_DEVADDR
             then motes[i := map_option (\<lambda>m. m\<lparr>m_devAddr := devAddr\<rparr>) (motes ! i)] else motes, i)
        | None \<Rightarrow>
            let new = create_mote db devEui devAddr
            in case index_where (\<lambda>n. n = None) motes of
                 Some i \<Rightarrow> (motes[i := Some new], i)
               | None \<Rightarrow> (motes @ [Some new], length motes))"

text \<open>An uplink begins: the times, the answer list and the session copy are reset.\<close>

definition save_uplink_start :: "timespec \<Rightarrow> mote_t \<Rightarrow> u8 \<Rightarrow> progress_e \<Rightarrow> mote_t" where
  "save_uplink_start clock m rx2_seconds toState =
    (let read = (if toState = PROGRESS_JSON
                 then timespec_diff \<lparr>tv_sec = 0, tv_nsec = 200000000\<rparr> clock else clock);
         ul = ulmd_local m
     in m\<lparr>ulmd_local := ul\<lparr>ul_FNSULToken := if gwList ul = [] then ul_FNSULToken ul else None, gwList := [], GWCnt := 0\<rparr>,
          requesterList := [], bestR := None, best_sq := INT_MIN,
          first_uplink_host_time := read,
          release_uplink_host_time := \<lparr>tv_sec = tv_sec read + int (unat rx2_seconds), tv_nsec = tv_nsec read\<rparr>,
          progress := toState, ULPHYPayloadLen := 0, session := (session m)\<lparr>until := 0\<rparr>\<rparr>)"

text \<open>The device a frame is from; join requests and rejoins carry its DevEUI.\<close>

definition GetMoteMtype :: "mysql \<Rightarrow> mote_t option list \<Rightarrow> buf \<Rightarrow> mote_t option list \<times> nat option \<times> bool" where
  "GetMoteMtype db motes phy =
    (let by_eui = (\<lambda>off j. case getMote db motes (eui_buf_to_uint64 (slice off 8 phy)) NONE_DEVADDR of
                     (ms, i) \<Rightarrow> (ms, Some i, j));
         none = (motes, None, False)
     in case mtype_of (phy ! 0) of
          MTYPE_REJOIN_REQ \<Rightarrow>
            if phy ! 1 = 1 then by_eui 10 False
            else if phy ! 1 = 2 \<or> phy ! 1 = 0 then by_eui 5 False else none
        | MTYPE_JOIN_REQ \<Rightarrow> by_eui 9 True
        | MTYPE_UNCONF_UP \<Rightarrow>
            (case getMote db motes NONE_DEVEUI (fh_DevAddr (parse_fhdr phy)) of (ms, i) \<Rightarrow> (ms, Some i, False))
        | MTYPE_CONF_UP \<Rightarrow>
            (case getMote db motes NONE_DEVEUI (fh_DevAddr (parse_fhdr phy)) of (ms, i) \<Rightarrow> (ms, Some i, False))
        | _ \<Rightarrow> none)"

section \<open>Transactions\<close>

definition NT :: nat where "NT = 2"

text \<open>
  A transaction number for a request. The counter is started with a random
  number on the first call. The oldest transaction is given up when no slot is
  free.
\<close>

definition oldest_slot :: "tid_slot list \<Rightarrow> nat" where
  "oldest_slot ts = foldl (\<lambda>on i. if sentTID (ts ! i) < sentTID (ts ! on) then i else on) 0 [1..<NT]"

definition next_tid :: "u32 \<Rightarrow> u32 option \<Rightarrow> mote_t \<Rightarrow> AnsCallback_t \<Rightarrow> u32 option \<times> mote_t \<times> u32" where
  "next_tid rand counter m cb =
    (let tid = (case counter of Some c \<Rightarrow> c | None \<Rightarrow> rand) + 1;
         ts = t_slots m;
         i = (case index_where (\<lambda>t. AnsCallback t = None) (take NT ts) of Some j \<Rightarrow> j | None \<Rightarrow> oldest_slot ts)
     in (Some tid, m\<lparr>t_slots := ts[i := \<lparr>sentTID = tid, AnsCallback = Some cb\<rparr>]\<rparr>, tid))"

text \<open>The dispatch of an answer: the first slot of the first device that sent the number.\<close>

definition take_answer :: "mote_t option list \<Rightarrow> u64 \<Rightarrow> (nat \<times> AnsCallback_t option \<times> mote_t option list) option" where
  "take_answer motes trans_id =
    (case index_where (\<lambda>n. case n of None \<Rightarrow> False | Some m \<Rightarrow> list_ex (\<lambda>t. ucast (sentTID t) = trans_id) (take NT (t_slots m))) motes of
       None \<Rightarrow> None
     | Some i \<Rightarrow>
         (case motes ! i of None \<Rightarrow> None
          | Some m \<Rightarrow>
              (case index_where (\<lambda>t. ucast (sentTID t) = trans_id) (take NT (t_slots m)) of None \<Rightarrow> None
               | Some k \<Rightarrow>
                   Some (i, AnsCallback (t_slots m ! k),
                     motes[i := Some (m\<lparr>t_slots := (t_slots m)[k := (t_slots m ! k)\<lparr>AnsCallback := None\<rparr>]\<rparr>)]))))"

section \<open>The list stays well-formed\<close>

lemma index_where_Some:
  "index_where P xs = Some i \<Longrightarrow> i < length xs \<and> P (xs ! i) \<and> (\<forall>j < i. \<not> P (xs ! j))"
proof (induction xs arbitrary: i)
  case (Cons x xs)
  show ?case
  proof (cases "P x")
    case False
    then obtain k where "index_where P xs = Some k" "i = Suc k" using Cons.prems by auto
    then show ?thesis using Cons.IH [of k] False by (auto simp: less_Suc_eq_0_disj)
  qed (use Cons.prems in auto)
qed simp

lemma index_where_None: "index_where P xs = None \<longleftrightarrow> (\<forall>x \<in> set xs. \<not> P x)"
  by (induction xs) auto

definition known :: "mote_t option list \<Rightarrow> nat \<Rightarrow> mote_t \<Rightarrow> bool" where
  "known motes i m \<longleftrightarrow> i < length motes \<and> motes ! i = Some m"

text \<open>No two nodes hold the same DevEUI.\<close>

definition euis_distinct :: "mote_t option list \<Rightarrow> bool" where
  "euis_distinct motes \<longleftrightarrow>
    (\<forall>i j a b. known motes i a \<longrightarrow> known motes j b \<longrightarrow> m_devEui a = m_devEui b \<longrightarrow> m_devEui a \<noteq> NONE_DEVEUI \<longrightarrow> i = j)"

definition no_mote_zero :: "mysql \<Rightarrow> bool" where
  "no_mote_zero db \<longleftrightarrow> db_DevEUI db 0 = None"

lemma store_eq: "store v old = (case v of Some x \<Rightarrow> x | None \<Rightarrow> old)"
  by (cases v) simp_all

lemma create_mote_eui:
  assumes "no_mote_zero db"
  shows "m_devEui (create_mote db (resolve_eui db e a) a) = resolve_eui db e a"
    "m_devAddr (create_mote db e a) = a"
proof -
  have "fst (getMoteID db NONE_DEVEUI a) > 0 \<or> fst (getMoteID db NONE_DEVEUI a) = 0"
    by (simp add: word_gt_0)
  then show "m_devEui (create_mote db (resolve_eui db e a) a) = resolve_eui db e a"
    using assms by (auto simp: create_mote_def resolve_eui_def no_mote_zero_def Let_def store_eq split: option.splits)
  show "m_devAddr (create_mote db e a) = a" by (simp add: create_mote_def Let_def)
qed

lemma getMote_cases:
  assumes "getMote db motes e a = (motes', i)"
  obtains (found) m where "known motes i m" "mote_match (resolve_eui db e a) a (Some m)"
      "motes' = motes[i := Some (if resolve_eui db e a \<noteq> NONE_DEVEUI \<and> a \<noteq> NONE_DEVADDR then m\<lparr>m_devAddr := a\<rparr> else m)]"
  | (reused) "\<forall>n \<in> set motes. \<not> mote_match (resolve_eui db e a) a n" "i < length motes" "motes ! i = None"
      "motes' = motes[i := Some (create_mote db (resolve_eui db e a) a)]"
  | (added) "\<forall>n \<in> set motes. \<not> mote_match (resolve_eui db e a) a n" "i = length motes"
      "motes' = motes @ [Some (create_mote db (resolve_eui db e a) a)]"
proof (cases "index_where (mote_match (resolve_eui db e a) a) motes")
  case (Some k)
  then have k: "k < length motes" "mote_match (resolve_eui db e a) a (motes ! k)"
    using index_where_Some by blast+
  then obtain m where m: "motes ! k = Some m" by (cases "motes ! k") (auto simp: mote_match_def)
  have eq: "(motes', i) = (if resolve_eui db e a \<noteq> NONE_DEVEUI \<and> a \<noteq> NONE_DEVADDR
      then motes[k := map_option (\<lambda>m. m\<lparr>m_devAddr := a\<rparr>) (motes ! k)] else motes, k)"
    unfolding assms [symmetric] getMote_def Let_def Some by simp
  then have "i = k" by simp
  have same: "motes[k := Some m] = motes" using m by (metis list_update_id)
  have upd: "motes' = motes[k := Some (if resolve_eui db e a \<noteq> NONE_DEVEUI \<and> a \<noteq> NONE_DEVADDR
      then m\<lparr>m_devAddr := a\<rparr> else m)]"
    using eq same by (simp add: m split: if_splits)
  show ?thesis
  proof (rule found [of m])
    show "known motes i m" using k m \<open>i = k\<close> by (simp add: known_def)
    show "mote_match (resolve_eui db e a) a (Some m)" using k(2) m by simp
  qed (use upd \<open>i = k\<close> in blast)
next
  case None
  then have no: "\<forall>n \<in> set motes. \<not> mote_match (resolve_eui db e a) a n"
    by (simp only: index_where_None)
  show ?thesis
  proof (cases "index_where (\<lambda>n. n = None) motes")
    case (Some k)
    then have "k < length motes" "motes ! k = None" using index_where_Some [OF Some] by auto
    moreover have "(motes', i) = (motes[k := Some (create_mote db (resolve_eui db e a) a)], k)"
      unfolding assms [symmetric] getMote_def Let_def None Some by simp
    ultimately show ?thesis using reused no by simp
  next
    case none: None
    have "(motes', i) = (motes @ [Some (create_mote db (resolve_eui db e a) a)], length motes)"
      unfolding assms [symmetric] getMote_def Let_def None none by simp
    then show ?thesis using added no by simp
  qed
qed

lemma known_update:
  "known (motes[i := Some m]) j b \<longleftrightarrow> (if i = j then j < length motes \<and> b = m else known motes j b)"
  by (auto simp: known_def nth_list_update)

lemma known_append:
  "known (motes @ [Some m]) j b \<longleftrightarrow> known motes j b \<or> (j = length motes \<and> b = m)"
  by (auto simp: known_def nth_append)

lemma not_matched:
  assumes "\<forall>n \<in> set motes. \<not> mote_match e a n" "known motes j b" "e \<noteq> NONE_DEVEUI"
  shows "m_devEui b \<noteq> e"
proof -
  have "Some b \<in> set motes" using assms(2) by (metis known_def nth_mem)
  then have "\<not> mote_match e a (Some b)" using assms(1) by blast
  then show ?thesis using assms(3) by (auto simp: mote_match_def)
qed

lemma distinct_update:
  assumes "euis_distinct motes"
    and "\<And>j b. known motes j b \<Longrightarrow> j \<noteq> i \<Longrightarrow> m_devEui m \<noteq> NONE_DEVEUI \<Longrightarrow> m_devEui b \<noteq> m_devEui m"
  shows "euis_distinct (motes[i := Some m])"
  unfolding euis_distinct_def known_update
proof (intro allI impI)
  fix j k b c
  assume jb: "if i = j then j < length motes \<and> b = m else known motes j b"
    and kc: "if i = k then k < length motes \<and> c = m else known motes k c"
    and eq: "m_devEui b = m_devEui c" "m_devEui b \<noteq> NONE_DEVEUI"
  show "j = k"
  proof (cases "i = j \<or> i = k")
    case True
    then show ?thesis using jb kc eq assms(2) by (metis)
  next
    case False
    then show ?thesis using jb kc eq assms(1) unfolding euis_distinct_def by metis
  qed
qed

lemma distinct_append:
  assumes "euis_distinct motes"
    and "\<And>j b. known motes j b \<Longrightarrow> m_devEui m \<noteq> NONE_DEVEUI \<Longrightarrow> m_devEui b \<noteq> m_devEui m"
  shows "euis_distinct (motes @ [Some m])"
  unfolding euis_distinct_def known_append
proof (intro allI impI)
  fix j k b c
  assume jb: "known motes j b \<or> j = length motes \<and> b = m"
    and kc: "known motes k c \<or> k = length motes \<and> c = m"
    and eq: "m_devEui b = m_devEui c" "m_devEui b \<noteq> NONE_DEVEUI"
  show "j = k"
    using jb kc eq assms(2) [of j b] assms(2) [of k c] assms(1) [unfolded euis_distinct_def, rule_format, of j b k c]
    by auto
qed

lemma getMote_distinct:
  assumes "getMote db motes e a = (motes', i)" "euis_distinct motes" "no_mote_zero db"
  shows "euis_distinct motes'"
  using assms(1)
proof (cases rule: getMote_cases)
  case (found m)
  have "m_devEui b \<noteq> m_devEui m" if "known motes j b" "j \<noteq> i" "m_devEui m \<noteq> NONE_DEVEUI" for j b
    using assms(2) found(1) that unfolding euis_distinct_def by metis
  then show ?thesis unfolding found(3) using assms(2) by (intro distinct_update) auto
next
  case reused
  then show ?thesis unfolding reused(4) using assms(2) not_matched [OF reused(1)]
    by (intro distinct_update) (auto simp: create_mote_eui(1) [OF assms(3)])
next
  case added
  then show ?thesis unfolding added(3) using assms(2) not_matched [OF added(1)]
    by (intro distinct_append) (auto simp: create_mote_eui(1) [OF assms(3)])
qed

lemma getMote_others:
  assumes "getMote db motes e a = (motes', i)" "j \<noteq> i" "j < length motes"
  shows "motes' ! j = motes ! j"
  using assms(1) by (cases rule: getMote_cases) (use assms(2,3) in \<open>auto simp: nth_append\<close>)

lemma getMote_result:
  assumes "getMote db motes e a = (motes', i)" "no_mote_zero db"
  shows "\<exists>m. known motes' i m \<and> (resolve_eui db e a \<noteq> NONE_DEVEUI \<longrightarrow> m_devEui m = resolve_eui db e a) \<and>
    (a \<noteq> NONE_DEVADDR \<longrightarrow> m_devAddr m = a)"
  using assms(1)
proof (cases rule: getMote_cases)
  case (found m)
  then show ?thesis by (auto simp: known_def mote_match_def split: if_splits)
qed (use create_mote_eui [OF assms(2)] in \<open>auto simp: known_def nth_append\<close>)

section \<open>Answers reach their request\<close>

lemma index_where_2: "index_where P [x, y] = (if P x then Some 0 else if P y then Some 1 else None)"
  by simp

lemma oldest_slot_2: "oldest_slot [x, y] = (if sentTID y < sentTID x then 1 else 0)"
  by (simp add: oldest_slot_def NT_def numeral_2_eq_2)

lemma two_slots:
  assumes "length (ts :: tid_slot list) = NT"
  obtains x y where "ts = [x, y]"
proof -
  have "length ts = Suc (Suc 0)" using assms by (simp add: NT_def)
  then show ?thesis using that by (metis length_0_conv length_Suc_conv)
qed

lemma next_tid_slot:
  assumes "next_tid rand c m cb = (c', m', tid)" "t_slots m = [x, y]"
  shows "c' = Some tid \<and>
    (t_slots m' = [\<lparr>sentTID = tid, AnsCallback = Some cb\<rparr>, y] \<and>
       (AnsCallback x = None \<or> AnsCallback y \<noteq> None \<and> sentTID x \<le> sentTID y) \<or>
     t_slots m' = [x, \<lparr>sentTID = tid, AnsCallback = Some cb\<rparr>] \<and>
       AnsCallback x \<noteq> None \<and> (AnsCallback y = None \<or> sentTID y < sentTID x))"
proof -
  let ?i = "case index_where (\<lambda>t. AnsCallback t = None) [x, y] of Some j \<Rightarrow> j | None \<Rightarrow> oldest_slot [x, y]"
  have tk: "take NT [x, y] = [x, y]" by (simp add: NT_def)
  have eqs: "c' = fst (next_tid rand c m cb)" "m' = fst (snd (next_tid rand c m cb))" "tid = snd (snd (next_tid rand c m cb))"
    using assms(1) by simp_all
  have c: "c' = Some tid" and slots: "t_slots m' = [x, y][?i := \<lparr>sentTID = tid, AnsCallback = Some cb\<rparr>]"
    unfolding eqs next_tid_def Let_def assms(2) tk fst_conv snd_conv by (rule refl, simp del: index_where.simps)
  have i: "?i = (if AnsCallback x = None then 0 else if AnsCallback y = None then 1
      else if sentTID y < sentTID x then 1 else 0)"
    by (simp add: oldest_slot_2)
  show ?thesis unfolding c slots i by (simp add: not_less)
qed

lemma ucast_up_eq: "(ucast a :: u64) = ucast b \<longleftrightarrow> a = b" for a b :: u32
proof
  assume "(ucast a :: u64) = ucast b"
  then have "unat (ucast a :: u64) = unat (ucast b :: u64)" by simp
  then show "a = b" by (simp add: unat_ucast_up word_unat_eq_iff)
qed simp

lemma answer_reaches_request:
  assumes "next_tid rand c m cb = (c', m', tid)" "length (t_slots m) = NT" "\<forall>t \<in> set (t_slots m). sentTID t \<noteq> tid"
    and "\<forall>j < i. \<forall>b. motes ! j = Some b \<longrightarrow> (\<forall>t \<in> set (t_slots b). sentTID t \<noteq> tid)" "i < length motes" "motes ! i = Some m'"
  shows "\<exists>motes'. take_answer motes (ucast tid) = Some (i, Some cb, motes')"
proof -
  obtain x y where ts: "t_slots m = [x, y]" using two_slots [OF assms(2)] .
  let ?P = "\<lambda>n. case n of None \<Rightarrow> False | Some m \<Rightarrow> list_ex (\<lambda>t. ucast (sentTID t) = (ucast tid :: u64)) (take NT (t_slots m))"
  have xy: "sentTID x \<noteq> tid" "sentTID y \<noteq> tid" using assms(3) ts by auto
  have tk: "take NT [a, b] = [a, b]" for a b :: tid_slot by (simp add: NT_def)
  have here: "?P (motes ! i)"
    using next_tid_slot [OF assms(1) ts] assms(6) by (auto simp: tk)
  have before: "\<not> ?P (motes ! j)" if "j < i" for j
    using assms(4) that by (auto simp: ucast_up_eq list_ex_iff split: option.splits dest: in_set_takeD)
  have idx: "index_where ?P motes = Some i"
  proof (cases "index_where ?P motes")
    case None
    then show ?thesis using index_where_None [of ?P motes] here assms(5) by (meson nth_mem)
  next
    case (Some j)
    then show ?thesis using index_where_Some [OF Some] here before by (metis linorder_neqE_nat)
  qed
  show ?thesis
    using next_tid_slot [OF assms(1) ts] xy unfolding take_answer_def idx
    by (auto simp: assms(6) tk ucast_up_eq)
qed

end
