(* ===== verification/Envelope.thy ===== *)
theory Envelope
  imports Motes
begin

text \<open>
  Reading and writing of hexadecimal pairs and of key envelopes
  (libbackend/libserver.c). The key wrapping cipher of libgcrypt and the text
  json-c gives for a value are arguments. None is a value that was never
  written, or an access outside a buffer.
\<close>

section \<open>Hexadecimal pairs\<close>

text \<open>One conversion of two characters; None is a matching failure.\<close>

definition sscanf_02x :: "string \<Rightarrow> u32 option" where
  "sscanf_02x s =
    (let t = take 2 (dropWhile is_space s)
     in if t = ''0x'' \<or> t = ''0X'' then None else sscanf_hex t)"

fun hex_pairs :: "nat \<Rightarrow> string \<Rightarrow> buf option" where
  "hex_pairs 0 s = Some []"
| "hex_pairs (Suc n) s =
    (case sscanf_02x s of None \<Rightarrow> None | Some v \<Rightarrow> map_option (Cons (ucast v)) (hex_pairs n (drop 2 s)))"

section \<open>Key envelopes\<close>

record key_envelope_t =
  kek_label :: "string option"
  key_bin :: buf

definition LORA_KEYENVELOPE_LEN :: nat where "LORA_KEYENVELOPE_LEN = 16 + 8"

type_synonym json_text = "json \<Rightarrow> string"
type_synonym key_wrap = "buf \<Rightarrow> buf \<Rightarrow> buf option"

definition parse_key_envelope ::
  "json_text \<Rightarrow> key_wrap \<Rightarrow> fields \<Rightarrow> key_envelope_t \<Rightarrow> (result + buf) option" where
  "parse_key_envelope txt unwrap obj ke =
    (case map_of obj ''AESKey'' of None \<Rightarrow> Some (Inl MalformedRequest)
     | Some v \<Rightarrow>
         let n = unat (word_of_nat (length (txt v) div 2) :: u8)
         in if n > LORA_KEYENVELOPE_LEN then Some (Inl Other)
            else case hex_pairs n (txt v) of None \<Rightarrow> None
            | Some enc \<Rightarrow>
                (case map_of obj ''KEKLabel'' of
                   Some l \<Rightarrow>
                     (case kek_label ke of None \<Rightarrow> Some (Inl Other)
                      | Some own \<Rightarrow>
                          if txt l \<noteq> own then Some (Inl Other)
                          else case unwrap (key_bin ke) enc of None \<Rightarrow> Some (Inl Other) | Some k \<Rightarrow> Some (Inr k))
                 | None \<Rightarrow> if n < 16 then None else Some (Inr (take 16 enc))))"

definition create_KeyEnvelope :: "key_wrap \<Rightarrow> buf \<Rightarrow> key_envelope_t \<Rightarrow> fields option" where
  "create_KeyEnvelope wrap key ke =
    (case kek_label ke of
       Some l \<Rightarrow>
         (case wrap (key_bin ke) key of None \<Rightarrow> None
          | Some enc \<Rightarrow> Some [(''KEKLabel'', JStr l), (''AESKey'', JStr (hex_of_buf (take LORA_KEYENVELOPE_LEN enc)))])
     | None \<Rightarrow> Some [(''AESKey'', JStr (hex_of_buf (take 16 key)))])"

definition members :: "json \<Rightarrow> fields" where
  "members j = (case j of JObj fs \<Rightarrow> fs | _ \<Rightarrow> [])"

text \<open>The envelope key of a configuration; a missing entry leaves the envelope as it is.\<close>

definition parse_json_KeyEnvelope ::
  "json_text \<Rightarrow> string \<Rightarrow> fields \<Rightarrow> key_envelope_t \<Rightarrow> (int \<times> key_envelope_t) option" where
  "parse_json_KeyEnvelope txt name conf ke =
    (case map_of conf name of None \<Rightarrow> Some (0, ke)
     | Some j \<Rightarrow>
         (case map_of (members j) ''KEKLabel'' of None \<Rightarrow> Some (- 1, ke)
          | Some l \<Rightarrow>
              let ke1 = ke\<lparr>kek_label := Some (txt l)\<rparr>
              in case map_of (members j) ''AESKey'' of None \<Rightarrow> Some (- 1, ke1)
                 | Some k \<Rightarrow>
                     let n = unat (word_of_nat (length (txt k) div 2) :: u8)
                     in if n \<noteq> 16 then Some (- 1, ke1)
                        else map_option (\<lambda>bs. (0, ke1\<lparr>key_bin := bs\<rparr>)) (hex_pairs n (txt k))))"

section \<open>What is written is read back\<close>

lemma of_char_digit: "d < 16 \<Longrightarrow> of_char (digit_char d) = (if d < 10 then 48 + d else 87 + d)"
  by (simp add: digit_char_def)

lemma digit_char_plain:
  assumes "d < 16"
  shows "\<not> is_space (digit_char d)" "digit_char d \<noteq> CHR ''-''" "digit_char d \<noteq> CHR ''+''"
    "digit_char d \<noteq> CHR ''x''" "digit_char d \<noteq> CHR ''X''"
proof -
  have n: "c \<noteq> digit_char d" if "(of_char c :: nat) \<notin> {48..57} \<union> {97..102}" for c
    using that assms of_char_digit [OF assms] by (auto split: if_splits)
  show "\<not> is_space (digit_char d)"
    using of_char_digit [OF assms] n [of "CHR '' ''"] by (auto simp: is_space_def)
  show "digit_char d \<noteq> CHR ''-''" "digit_char d \<noteq> CHR ''+''" "digit_char d \<noteq> CHR ''x''" "digit_char d \<noteq> CHR ''X''"
    using n [of "CHR ''-''"] n [of "CHR ''+''"] n [of "CHR ''x''"] n [of "CHR ''X''"] by auto
qed

lemma scan_two_digits:
  assumes "a < 16" "b < 16"
  shows "scan_value 16 [digit_char a, digit_char b] = Some (int (a * 16 + b))"
proof -
  have "a * 16 + b < 2 ^ 64 - 1" using assms by simp
  then show ?thesis
    using assms digit_char_plain [OF assms(1)]
    by (simp add: scan_value_def skip_0x_def scan_unsigned_digits_def Let_def del: power_numeral)
qed

lemma sscanf_hex2: "sscanf_02x (hex2 b @ rest) = Some (ucast b)"
proof -
  have d: "unat b div 16 < 16" "unat b mod 16 < 16" using unat_byte_lt [of b] by (simp_all add: less_mult_imp_div_less)
  have "unat b div 16 * 16 + unat b mod 16 = unat b" by simp
  then have v: "scan_value 16 (hex2 b) = Some (int (unat b))"
    using scan_two_digits [OF d] unfolding hex2_def by metis
  have u: "word_of_int (int (unat b)) = (ucast b :: u32)" by (simp add: unsigned_ucast_eq)
  show ?thesis
    using digit_char_plain [OF d(1)] digit_char_plain [OF d(2)] v u
    by (simp add: sscanf_02x_def hex2_def sscanf_hex_def)
qed

lemma hex_pairs_hex [roundtrip]: "hex_pairs (length b) (hex_of_buf b @ rest) = Some b"
proof (induction b)
  case (Cons x b)
  have "hex_of_buf (x # b) @ rest = hex2 x @ hex_of_buf b @ rest" "length (hex2 x) = 2"
    by (simp_all add: hex_of_buf_def hex2_def)
  then show ?case using sscanf_hex2 [of x "hex_of_buf b @ rest"] Cons by simp
qed simp

lemma hex_pairs_hex_all: "n = length b \<Longrightarrow> hex_pairs n (hex_of_buf b) = Some b"
  using hex_pairs_hex [of b "[]"] by simp

lemma hex_pairs_length: "hex_pairs n s = Some b \<Longrightarrow> length b = n"
  by (induction n s arbitrary: b rule: hex_pairs.induct) (auto split: option.splits)

text \<open>An envelope opens to the key that was put in, when unwrapping undoes wrapping.\<close>

lemma envelope_roundtrip:
  assumes "\<And>s. txt (JStr s) = s" "length key = 16"
    and "\<And>kek enc. wrap kek key = Some enc \<Longrightarrow> length enc = 24 \<and> unwrap kek enc = Some key"
    and "create_KeyEnvelope wrap key ke = Some fs"
  shows "parse_key_envelope txt unwrap fs ke = Some (Inr key)"
proof (cases "kek_label ke")
  case None
  then have "fs = [(''AESKey'', JStr (hex_of_buf key))]" using assms(2,4) by (simp add: create_KeyEnvelope_def)
  then show ?thesis
    using assms(2) by (simp add: parse_key_envelope_def assms(1) hex_pairs_hex_all LORA_KEYENVELOPE_LEN_def Let_def len_simps)
next
  case (Some l)
  then obtain enc where enc: "wrap (key_bin ke) key = Some enc"
    using assms(4) by (auto simp: create_KeyEnvelope_def split: option.splits)
  then have e: "length enc = 24" "unwrap (key_bin ke) enc = Some key" using assms(3) by blast+
  have "fs = [(''KEKLabel'', JStr l), (''AESKey'', JStr (hex_of_buf enc))]"
    using assms(4) Some enc e(1) by (simp add: create_KeyEnvelope_def LORA_KEYENVELOPE_LEN_def)
  then show ?thesis
    using e Some by (simp add: parse_key_envelope_def assms(1) hex_pairs_hex_all LORA_KEYENVELOPE_LEN_def Let_def len_simps)
qed

end
