(* ===== verification/Uplink.thy ===== *)
theory Uplink
  imports Motes
begin

text \<open>
  The serving network server's handling of a data frame (sNS_uplink and
  sNS_schedule_downlink of network_server/sNS.c): the session check, the
  reconstruction of the 32-bit frame counter and the replay check, the
  integrity codes of both protocol versions, acknowledgements, MAC commands,
  adaptive data rate, and the frame that goes down in the receive window. An
  access outside a buffer is None. Statements and posts are listed in the
  order they are sent.
\<close>

section \<open>Integrity of an uplink\<close>

definition MAX_FCNT_GAP :: int where "MAX_FCNT_GAP = 0x4000"

text \<open>The counter of the frame, with the upper half of the session's counter.\<close>

definition fcnt32 :: "u32 \<Rightarrow> u16 \<Rightarrow> u32" where
  "fcnt32 stored rx = (stored AND 0xffff0000) OR ucast rx"

definition replayed :: "u32 \<Rightarrow> u32 \<Rightarrow> bool" where
  "replayed stored rx32 =
    (let A = sint (rx32 - stored); B = sint ((rx32 + 0x10000) - stored)
     in (A < 0 \<and> B > MAX_FCNT_GAP) \<or> (A > MAX_FCNT_GAP \<and> B > MAX_FCNT_GAP))"

definition uplink_block :: "u16 \<Rightarrow> u8 \<Rightarrow> u8 \<Rightarrow> u32 \<Rightarrow> u32 \<Rightarrow> u8 \<Rightarrow> block_t" where
  "uplink_block conf rate chan addr cnt len =
    \<lparr>header = 0x49, confFCnt = conf, dr = rate, ch = chan, dir = DIR_UP, DevAddr = addr, FCnt = cnt, zero8 = 0, lenMsg = len\<rparr>"

text \<open>The first two octets of the code over block and frame, against the octets at lenMsg.\<close>

definition check_cmacS :: "block_t \<Rightarrow> buf \<Rightarrow> buf \<Rightarrow> bool option" where
  "check_cmacS block key phy =
    (case (arg phy (unat (lenMsg block)), arg phy (unat (lenMsg block) + 1)) of
       (Some lo, Some hi) \<Rightarrow>
         let rx_mic = push_bit 8 (ucast hi) + ucast lo :: u16;
             temp = cmac_of cmac_mem key [block_octets block, take (unat (lenMsg block)) phy]
         in Some (le_word (take 2 temp) = rx_mic)
     | _ \<Rightarrow> None)"

text \<open>The four octets at the end of the frame.\<close>

definition rx_mic32 :: "buf \<Rightarrow> u8 \<Rightarrow> u32 option" where
  "rx_mic32 phy len =
    (if unat len < 4 \<or> length phy < unat len then None
     else let o_at = (\<lambda>k. ucast (phy ! (unat len - k)) :: u32)
          in Some (push_bit 24 (o_at 1) + push_bit 16 (o_at 2) + push_bit 8 (o_at 3) + o_at 4))"

definition check_mic10 :: "block_t \<Rightarrow> buf \<Rightarrow> buf \<Rightarrow> u8 \<Rightarrow> bool option" where
  "check_mic10 block key phy len =
    map_option (\<lambda>rx. LoRa_GenerateDataFrameIntegrityCode block key phy = rx) (rx_mic32 phy len)"

definition find_ch :: "region_t list \<Rightarrow> rat \<Rightarrow> u8 \<Rightarrow> string option \<Rightarrow> int" where
  "find_ch rl MHz rate name =
    (case find (\<lambda>r. rg_RFRegion r = name \<and> get_ch (regional r) \<noteq> None) rl of
       Some r \<Rightarrow> (case get_ch (regional r) of Some f \<Rightarrow> f MHz rate | None \<Rightarrow> - 1)
     | None \<Rightarrow> - 1)"

text \<open>The stored confirmed downlink is copied for a resend; the outcome is that of the two retries.\<close>

definition resend_conf :: "s_t \<Rightarrow> s_t" where
  "resend_conf s =
    (let d = downlink s; n = unat (confDLPHYPayloadLen s)
     in s\<lparr>downlink := d\<lparr>d_PHYPayloadBin := memcpy_at (d_PHYPayloadBin d) 0 (confDLPHYPayloadBin s) n,
                        d_PHYPayloadLen := confDLPHYPayloadLen s\<rparr>\<rparr>)"

datatype mic_result = MicOk s_t | MicBad s_t | NoChannel

definition mic_check11 :: "ns_env \<Rightarrow> mote_t \<Rightarrow> s_t \<Rightarrow> ULMetaData_t \<Rightarrow> mic_result option" where
  "mic_check11 n m s ul =
    (let chan = find_ch (n_regions n) (ULFreq ul) (ul_DataRate ul) (ul_RFRegion ul);
         phy = ULPayloadBin m;
         key = SNwkSIntKeyBin (session m);
         try = (\<lambda>conf. check_cmacS (uplink_block conf (ul_DataRate ul) (word_of_int chan) (fh_DevAddr (parse_fhdr phy))
                   (ul_FCntUp ul) (ULPHYPayloadLen m - 4)) key phy)
     in if chan < 0 then Some NoChannel
        else case try (ConfFCntDown s) of
            None \<Rightarrow> None
          | Some True \<Rightarrow> Some (MicOk (s\<lparr>ConfFCntDown := 0\<rparr>))
          | Some False \<Rightarrow>
              if confDLPHYPayloadLen s = 0 then Some (MicBad s)
              else let s' = resend_conf s
                   in case try (ConfFCntDown s - 1) of
                        None \<Rightarrow> None
                      | Some True \<Rightarrow> Some (MicOk s')
                      | Some False \<Rightarrow> map_option (\<lambda>ok. if ok then MicOk s' else MicBad s') (try 0))"

definition mic_check10 :: "mote_t \<Rightarrow> s_t \<Rightarrow> ULMetaData_t \<Rightarrow> mic_result option" where
  "mic_check10 m s ul =
    (let phy = ULPayloadBin m
     in map_option (\<lambda>ok. if ok then MicOk s else MicBad s)
          (check_mic10 (uplink_block 0 0 0 (fh_DevAddr (parse_fhdr phy)) (ul_FCntUp ul) (ULPHYPayloadLen m - 4))
             (SNwkSIntKeyBin (session m)) phy (ULPHYPayloadLen m)))"

section \<open>The downlink frame\<close>

definition set_mtype :: "mtype_e \<Rightarrow> u8 \<Rightarrow> u8" where
  "set_mtype t octet = (octet AND 0x1f) OR
     push_bit 5 (case t of MTYPE_JOIN_REQ \<Rightarrow> 0 | MTYPE_JOIN_ACC \<Rightarrow> 1 | MTYPE_UNCONF_UP \<Rightarrow> 2 | MTYPE_UNCONF_DN \<Rightarrow> 3
       | MTYPE_CONF_UP \<Rightarrow> 4 | MTYPE_CONF_DN \<Rightarrow> 5 | MTYPE_REJOIN_REQ \<Rightarrow> 6 | MTYPE_P \<Rightarrow> 7)"

text \<open>A write of len octets at an offset of a buffer; None is beyond its end.\<close>

definition write_at :: "buf \<Rightarrow> nat \<Rightarrow> buf \<Rightarrow> buf option" where
  "write_at b off d = (if off + length d \<le> length b then Some (memcpy_at b off d (length d)) else None)"

text \<open>Whether the last uplink asks for a frame at all.\<close>

definition forces_downlink :: "buf \<Rightarrow> s_t \<Rightarrow> bool" where
  "forces_downlink rx s =
    (if mtype_of (rx ! 0) \<in> {MTYPE_CONF_UP, MTYPE_UNCONF_UP}
     then FCtrl_ADRACKReq (fh_FCtrl (parse_fhdr rx)) \<or> (\<not> FCtrl_ACK (fh_FCtrl (parse_fhdr rx)) \<and> confDLPHYPayloadLen s > 0)
     else confDLPHYPayloadLen s > 0)"

definition downlink_wanted :: "mote_t \<Rightarrow> s_t \<Rightarrow> bool" where
  "downlink_wanted m s =
    (let rx = ULPayloadBin m; conf = (mtype_of (rx ! 0) = MTYPE_CONF_UP)
     in \<not> (d_PHYPayloadLen (downlink s) > 0 \<and> \<not> (OptNeg (session m) \<and> conf)) \<and>
        (conf \<or> forces_downlink rx s \<or> are_mac_cmds_queued (macq s) \<or> d_FRMPayloadLen (downlink s) \<noteq> 0))"

text \<open>
  The user payload behind the options: the frame, its length so far, whether
  the payload is in it, and whether the application's counter is used.
\<close>

definition add_frm :: "mote_t \<Rightarrow> s_t \<Rightarrow> buf \<Rightarrow> (s_t \<times> buf \<times> bool) option" where
  "add_frm m s phy =
    (let d = downlink s; optneg = OptNeg (session m);
         s1 = (if optneg then s\<lparr>AFCntDown := dl_FCntDown (d_md d)\<rparr> else s);
         txo = 8 + FOptsLen (phy ! 5)
     in if \<not> optneg \<and> dl_FCntDown (d_md d) \<noteq> NFCntDown (session m) then Some (s1, phy, False)
        else if length (d_FRMPayloadBin d) < unat (d_FRMPayloadLen d) then None
        else case write_at phy txo (dl_FPort (d_md d) # take (unat (d_FRMPayloadLen d)) (d_FRMPayloadBin d)) of
               None \<Rightarrow> None
             | Some phy' \<Rightarrow>
                 Some (s1\<lparr>downlink := d\<lparr>d_PHYPayloadLen := d_FRMPayloadLen d + 1, FRMSent := True\<rparr>\<rparr>,
                       phy'[0 := set_mtype (if dl_Confirmed (d_md d) then MTYPE_CONF_DN else MTYPE_UNCONF_DN) (phy' ! 0)],
                       optneg))"

definition downlink_block :: "u16 \<Rightarrow> u32 \<Rightarrow> u32 \<Rightarrow> u8 \<Rightarrow> block_t" where
  "downlink_block conf addr cnt len =
    \<lparr>header = 0x49, confFCnt = conf, dr = 0, ch = 0, dir = DIR_DOWN, DevAddr = addr, FCnt = cnt, zero8 = 0, lenMsg = len\<rparr>"

text \<open>Header, acknowledgement and integrity code; then the record of a confirmed frame.\<close>

definition finish_frame :: "mote_t \<Rightarrow> s_t \<Rightarrow> buf \<Rightarrow> bool \<Rightarrow> s_t option" where
  "finish_frame m s phy0 using_AFCntDwn =
    (let rx = ULPayloadBin m;
         conf_up = (mtype_of (rx ! 0) = MTYPE_CONF_UP);
         has_rx_fhdr = (mtype_of (rx ! 0) \<in> {MTYPE_CONF_UP, MTYPE_UNCONF_UP});
         cnt = (if using_AFCntDwn then AFCntDown s else NFCntDown (session m));
         ctrl = (if conf_up then phy0 ! 5 OR 0x20 else phy0 ! 5 AND NOT 0x20);
         phy1 = memcpy_at phy0 1 (fhdr_octets \<lparr>fh_DevAddr = m_devAddr m, fh_FCtrl = ctrl, fh_FCnt = ucast cnt\<rparr>) 7;
         len = d_PHYPayloadLen (downlink s) + 8 + word_of_nat (FOptsLen (phy0 ! 5));
         acks = (has_rx_fhdr \<and> newFCntUp (flags s) \<and> OptNeg (session m) \<and> conf_up);
         mic = LoRa_GenerateDataFrameIntegrityCode
                 (downlink_block (if acks then fh_FCnt (parse_fhdr rx) else 0) (m_devAddr m) cnt len)
                 (SNwkSIntKeyBin (session m)) phy1;
         fl = (flags s)\<lparr>incrNFCntDown := \<not> using_AFCntDwn, newFCntUp := newFCntUp (flags s) \<and> \<not> acks\<rparr>
     in case write_at phy1 (unat len) (le_bytes 4 mic) of
          None \<Rightarrow> None
        | Some phy2 \<Rightarrow>
            let s1 = s\<lparr>flags := fl, downlink := (downlink s)\<lparr>d_PHYPayloadBin := phy2, d_PHYPayloadLen := len + 4\<rparr>\<rparr>
            in Some (case mtype_of (phy2 ! 0) of
                 MTYPE_UNCONF_DN \<Rightarrow> s1\<lparr>ConfFCntDown := 0, confDLPHYPayloadLen := 0\<rparr>
               | MTYPE_CONF_DN \<Rightarrow>
                   s1\<lparr>ConfFCntDown := ucast cnt,
                      confDLPHYPayloadBin := memcpy_at (confDLPHYPayloadBin s) 0 phy2 (unat (len + 4)),
                      confDLPHYPayloadLen := len + 4\<rparr>
               | _ \<Rightarrow> s1))"

definition sNS_schedule_downlink :: "mote_t \<Rightarrow> s_t \<Rightarrow> s_t option" where
  "sNS_schedule_downlink m s =
    (if \<not> downlink_wanted m s then Some s
     else case get_queued_mac_cmds (macq s) (d_PHYPayloadBin (downlink s)) (m_devAddr m) (NwkSEncKeyBin (session m))
                 (NFCntDown (session m)) (OptNeg (session m)) of
            None \<Rightarrow> None
          | Some (q, phy, need) \<Rightarrow>
              let s1 = s\<lparr>macq := q, downlink := (downlink s)\<lparr>d_PHYPayloadBin := phy, FRMSent := False\<rparr>\<rparr>
              in if \<not> upConfreSent (flags s1) \<and> d_FRMPayloadLen (downlink s1) > 0
                 then (case add_frm m s1 phy of None \<Rightarrow> None | Some (s2, phy2, af) \<Rightarrow> finish_frame m s2 phy2 af)
                 else finish_frame m s1 (phy[0 := set_mtype MTYPE_UNCONF_DN (phy ! 0)]) False)"

section \<open>Answering the application\<close>

definition sendXmitDataAns ::
  "ns_env \<Rightarrow> bool \<Rightarrow> fields \<Rightarrow> string option \<Rightarrow> u64 \<Rightarrow> result \<Rightarrow> (int \<times> effect list) option" where
  "sendXmitDataAns n toAS ansJobj dest reqTid res =
    (case dest of None \<Rightarrow> None
     | Some d \<Rightarrow>
         let j = lib_generate_json ansJobj d (myNetwork_idStr n) reqTid (Some ''XmitDataAns'') (Some (result_text res))
         in if \<not> n_easy n then Some (2, [])
            else if toAS then Some (0, [Post (''http://'' @ d) (JObj j)])
            else let host = ns_hostname n (store (sscanf_hex d) (stack32 n))
                 in Some (n_post n host (JObj j), [Post host (JObj j)]))"

definition dl_freqs :: "s_t \<Rightarrow> fields" where
  "dl_freqs s = (if s_DLFreq1 s > 0 then [(''DLFreq1'', JReal (s_DLFreq1 s))] else []) @
     (if s_DLFreq2 s > 0 then [(''DLFreq2'', JReal (s_DLFreq2 s))] else [])"

definition sNS_XmitDataAns_tohNS :: "ns_env \<Rightarrow> s_t \<Rightarrow> result \<Rightarrow> u32 \<Rightarrow> int \<times> effect list" where
  "sNS_XmitDataAns_tohNS n s res netid =
    (let j = lib_generate_json (dl_freqs s) (print_hex netid) (myNetwork_idStr n) (d_reqTid (downlink s))
               (Some ''XmitDataAns'') (Some (result_text res));
         host = ns_hostname n netid
     in if n_easy n then (n_post n host (JObj j), [Post host (JObj j)]) else (- 1, []))"

definition clear_frm :: "s_t \<Rightarrow> s_t" where
  "clear_frm s = s\<lparr>downlink := (downlink s)\<lparr>d_FRMPayloadLen := 0\<rparr>\<rparr>"

text \<open>httpd tells whether the answer is to be returned instead of posted.\<close>

definition answer_app :: "ns_env \<Rightarrow> mote_t \<Rightarrow> s_t \<Rightarrow> result \<Rightarrow> bool \<Rightarrow> (s_t \<times> fields option \<times> effect list) option" where
  "answer_app n m s res httpd =
    (let sql = snd (sql_motes_query (n_db n) (n_now n) (m_devEui m) (m_devAddr m))
     in if r_roamState sql = Some roamsHANDOVER then
          (case sNS_XmitDataAns_tohNS n s res (r_roamingWithNetID sql) of
             (ret, eff) \<Rightarrow> Some (if ret < 0 then s else clear_frm s, None, eff))
        else if httpd then Some (s, Some (dl_freqs s), [])
        else map_option (\<lambda>(ret, eff). (if ret < 0 then s else clear_frm s, None, eff))
               (sendXmitDataAns n (isAnsDestAS (downlink s)) (dl_freqs s) (ansDest (downlink s)) (d_reqTid (downlink s)) res))"

section \<open>The uplink handler\<close>

text \<open>The session check: the state, the effects, and the reason when the uplink is dropped.\<close>

definition session_gate ::
  "ns_env \<Rightarrow> mote_t \<Rightarrow> bool \<Rightarrow> s_t \<Rightarrow> (s_t \<times> effect list \<times> string option) option" where
  "session_gate n m optneg s =
    (let ses = session m in
     if until ses = - 1 then Some (s, [], None)
     else if until ses = 0 then Some (s, [], Some ''no-session'')
     else if \<not> expired ses then Some (s, [], None)
     else if optneg then
       (case sNS_force_rejoin (n_db n) (n_float n) (m_devEui m) (m_devAddr m) (Some s) 2 of
          (_, Some s') \<Rightarrow> Some (s', [], None)
        | (_, None) \<Rightarrow> Some (s, [], None))
     else
       (case deleteOldSessions (n_db n) (n_mq n) (m_devEui m) True of (k, qs) \<Rightarrow>
          let stop = (if k > 0 then Some ''deleteFail'' else None)
          in if d_FRMPayloadLen (downlink s) > 0
             then map_option (\<lambda>(s', _, eff). (s', map Statement qs @ eff, stop)) (answer_app n m s XmitFailed False)
             else Some (s, map Statement qs, stop)))"

definition init_NFCntDown_text :: "u32 \<Rightarrow> string" where
  "init_NFCntDown_text a =
    ''UPDATE sessions SET NFCntDown = 0 WHERE DevAddr = '' @ print_unsigned a @ '' ORDER BY createdAt DESC LIMIT 1''"

definition incr_sql_NFCntDown :: "u32 \<Rightarrow> int \<times> string" where
  "incr_sql_NFCntDown a =
    (0, ''UPDATE sessions SET NFCntDown = NFCntDown + 1 WHERE DevAddr = '' @ print_unsigned a @
        '' ORDER BY createdAt DESC LIMIT 1'')"

definition FCntUp_text :: "u32 \<Rightarrow> u32 \<Rightarrow> string" where
  "FCntUp_text cnt a = ''UPDATE sessions SET FCntUp = '' @ print_unsigned cnt @ '' WHERE DevAddr = '' @ print_unsigned a @
     '' ORDER BY createdAt DESC LIMIT 1''"

text \<open>The counters of an authentic uplink, and what an acknowledgement settles.\<close>

definition take_ack :: "mote_t \<Rightarrow> s_t \<Rightarrow> mote_t \<times> s_t \<times> effect list" where
  "take_ack m s =
    (if \<not> FCtrl_ACK (fh_FCtrl (parse_fhdr (ULPayloadBin m))) then (m, s, [])
     else
       let (m1, s1, eff) =
             (if incrNFCntDown (flags s)
              then (m\<lparr>session := (session m)\<lparr>NFCntDown := NFCntDown (session m) + 1\<rparr>\<rparr>,
                    s\<lparr>flags := (flags s)\<lparr>incrNFCntDown := False\<rparr>\<rparr>, [Statement (snd (incr_sql_NFCntDown (m_devAddr m)))])
              else (m, s, []));
           d = downlink s1
       in if dl_Confirmed (d_md d) \<and> d_FRMPayloadLen d > 0
          then (m1, s1\<lparr>flags := (flags s1)\<lparr>answer_app_downlink := True\<rparr>,
                       downlink := if resendAt d \<noteq> 0 then d\<lparr>d_FRMPayloadLen := 0, resendAt := 0\<rparr> else d\<rparr>, eff)
          else (m1, s1, eff))"

definition mac_env_of :: "ns_env \<Rightarrow> mote_t \<Rightarrow> ULMetaData_t \<Rightarrow> mac_env" where
  "mac_env_of n m ul = \<lparr>e_rx_snr = rx_snr m, e_devAddr = m_devAddr m, e_devEui = m_devEui m, e_GWCnt = GWCnt ul,
     e_RFRegion = ul_RFRegion ul, e_ult = stack_ult n, e_db = n_db n, e_mq = n_mq n, e_now = n_now n, e_regions = n_regions n\<rparr>"

text \<open>
  The MAC commands of the frame: enciphered on port 0, or in the options, which
  are enciphered with a 1.1 session only. None is an access outside a buffer.
\<close>

definition uplink_commands :: "ns_env \<Rightarrow> mote_t \<Rightarrow> bool \<Rightarrow> ULMetaData_t \<Rightarrow> bool \<Rightarrow> s_t \<Rightarrow> (s_t \<times> string list \<times> bool) option" where
  "uplink_commands n m optneg ul discard0 s =
    (let phy = ULPayloadBin m; h = parse_fhdr phy; fopts = FOptsLen (fh_FCtrl h);
         rxofs = 8 + fopts;
         has_port = (int (unat (ULPHYPayloadLen m)) - 4 > int rxofs);
         frmlen = ULPHYPayloadLen m - 4 - word_of_nat (rxofs + 1);
         parse = (\<lambda>buf k. parse_mac_command (mac_env_of n m ul) (stack_octet n) (bestULTokenStr m) buf k s);
         key = NwkSEncKeyBin (session m)
     in if has_port \<and> length phy \<le> rxofs then None
        else if has_port \<and> phy ! rxofs = 0 then
          (case LoRa_Encrypt 1 key (drop (rxofs + 1) phy) (ucast frmlen) (fh_DevAddr h) True (ul_FCntUp ul) (stack_buf n) of
             None \<Rightarrow> None | Some dec \<Rightarrow> parse dec frmlen)
        else if fopts > 0 then
          (if optneg then
             (case LoRa_Encrypt 0 key (drop 8 phy) (word_of_nat fopts) (fh_DevAddr h) True (ul_FCntUp ul) (stack_buf n) of
                None \<Rightarrow> None | Some dec \<Rightarrow> parse dec (word_of_nat fopts))
           else parse (drop 8 phy) (word_of_nat fopts))
        else Some (s, [], discard0))"

definition run_adr :: "ns_env \<Rightarrow> mote_t \<Rightarrow> ULMetaData_t \<Rightarrow> s_t \<Rightarrow> s_t" where
  "run_adr n m ul s =
    (let s1 = network_controller_uplink s (rx_snr m)
     in if FCtrl_ADR (fh_FCtrl (parse_fhdr (ULPayloadBin m))) \<or> force_adr (flags s1)
        then let s2 = network_controller_adr (n_regions n) s1 (ul_DataRate ul) (ul_RFRegion ul)
             in s2\<lparr>flags := (flags s2)\<lparr>force_adr := False\<rparr>\<rparr>
        else s1)"

definition start_session :: "ns_env \<Rightarrow> mote_t \<Rightarrow> ULMetaData_t \<Rightarrow> s_t \<Rightarrow> s_t option" where
  "start_session n m ul s =
    (if session_start_at_uplink (flags s)
     then map_option snd (init_session (n_regions n) (n_db n) (m_devEui m) (m_devAddr m)
            (s\<lparr>flags := (flags s)\<lparr>session_start_at_uplink := False\<rparr>\<rparr>) (ul_RFRegion ul))
     else Some s)"

record uplink_out =
  uo_mote :: mote_t
  uo_ulmd :: ULMetaData_t
  uo_discard :: bool
  uo_result :: result
  uo_reason :: string
  uo_effects :: "effect list"

definition with_s :: "mote_t \<Rightarrow> s_t \<Rightarrow> mote_t" where "with_s m s = m\<lparr>m_s := Some s\<rparr>"

text \<open>What follows a good integrity code, up to the scheduling of the answer.\<close>

definition accept_uplink :: "ns_env \<Rightarrow> mote_t \<Rightarrow> bool \<Rightarrow> ULMetaData_t \<Rightarrow> bool \<Rightarrow> s_t \<Rightarrow> uplink_out option" where
  "accept_uplink n m0 optneg ul0 discard0 s0 =
    (let ses0 = session m0;
         (m1, eff1) = (if nullNFCntDown ses0
                       then (m0\<lparr>session := ses0\<lparr>nullNFCntDown := False\<rparr>\<rparr>, [Statement (init_NFCntDown_text (m_devAddr m0))])
                       else (m0, []));
         (s1, eff2) = (if \<not> optneg \<and> checkOldSessions (flags s0)
                       then (s0\<lparr>flags := (flags s0)\<lparr>checkOldSessions := False\<rparr>\<rparr>,
                             map Statement (snd (deleteOldSessions (n_db n) (n_mq n) (m_devEui m0) False)))
                       else (s0, []));
         conf = (mtype_of (ULPayloadBin m0 ! 0) = MTYPE_CONF_UP);
         (m2, s2, eff3) = take_ack m1 s1;
         ul = ul0\<lparr>ul_Confirmed := conf, ul_FCntDown := if optneg then AFCntDown s2 else NFCntDown (session m2)\<rparr>;
         commands = Option.bind (start_session n m2 ul s2) (uplink_commands n m2 optneg ul discard0)
     in case commands of None \<Rightarrow> None
        | Some (s4, sent, discard) \<Rightarrow>
            let s5 = run_adr n m2 ul s4;
                same = (ul_FCntUp ul = FCntUp (session m2));
                s6 = s5\<lparr>flags := (flags s5)\<lparr>upConfreSent := same \<and> conf\<rparr>\<rparr>;
                eff4 = (if same then [] else [Statement (FCntUp_text (ul_FCntUp ul) (m_devAddr m2))])
            in map_option (\<lambda>s7. \<lparr>uo_mote = with_s m2 s7, uo_ulmd = ul, uo_discard = discard, uo_result = Success,
                   uo_reason = ''none'', uo_effects = eff1 @ eff2 @ eff3 @ map Statement sent @ eff4\<rparr>)
                 (sNS_schedule_downlink m2 s6))"

definition zero_s :: s_t where
  "zero_s =
    (let md = \<lparr>dl_DevEUI = 0, dl_DevAddr = 0, dl_FPort = 0, dl_FCntDown = 0, dl_Confirmed = False, dl_DLFreq1 = 0,
           dl_DLFreq2 = 0, RXDelay1 = 0, DataRate1 = 0, DataRate2 = 0, ClassMode = CHR 0x00, dl_FNSULToken = None,
           ultList = [], HiPriorityFlag = False, PingPeriod = 0\<rparr>;
         dl = \<lparr>d_md = md, d_reqTid = 0, ansDest = None, isAnsDestAS = False, d_PHYPayloadBin = replicate 256 0,
           d_PHYPayloadLen = 0, d_FRMPayloadBin = replicate 244 0, d_FRMPayloadLen = 0, FRMSent = False, resendAt = 0\<rparr>;
         fl = \<lparr>send_start_mac_cmds = False, session_start_at_uplink = False, force_adr = False, incrNFCntDown = False,
           newFCntUp = False, upConfreSent = False, checkOldSessions = False, RStop_flag = False, answer_app_downlink = False\<rparr>
     in \<lparr>ChMask = replicate 6 0, macq = empty_queue, snr_history = replicate 3 0, snr_history_idx = 0, txpwr_idx = 0,
         ConfFCntDown = 0, AFCntDown = 0, confDLPHYPayloadBin = replicate 256 0, confDLPHYPayloadLen = 0, ping_slot_info = 0,
         ping_period = 0, ping_offset = 0, downlink = dl, s_DLFreq1 = 0, s_DLFreq2 = 0, classModeInd = 0,
         type2_rejoin_count = 0, flags = fl\<rparr>)"

definition state_for :: "ns_env \<Rightarrow> mote_t \<Rightarrow> string option \<Rightarrow> s_t" where
  "state_for n m region =
    (case m_s m of Some s \<Rightarrow> s | None \<Rightarrow> network_controller_mote_init (n_regions n) zero_s region)"

definition sNS_uplink :: "ns_env \<Rightarrow> mote_t \<Rightarrow> bool \<Rightarrow> ULMetaData_t \<Rightarrow> bool \<Rightarrow> uplink_out option" where
  "sNS_uplink n m optneg ul discard0 =
    (let stop = (\<lambda>m u res why eff. Some \<lparr>uo_mote = m, uo_ulmd = u, uo_discard = discard0, uo_result = res,
                   uo_reason = why, uo_effects = eff\<rparr>)
     in case session_gate n m optneg (state_for n m (ul_RFRegion ul)) of
          None \<Rightarrow> None
        | Some (s, eff, Some why) \<Rightarrow> stop (with_s m s) ul Other why eff
        | Some (s, eff, None) \<Rightarrow>
            let rx32 = fcnt32 (FCntUp (session m)) (fh_FCnt (parse_fhdr (ULPayloadBin m)));
                ul1 = ul\<lparr>ul_FCntUp := rx32\<rparr>
            in if replayed (FCntUp (session m)) rx32 then stop (with_s m s) ul1 Other ''replay'' eff
               else
                 let s1 = s\<lparr>flags := (flags s)\<lparr>newFCntUp := True\<rparr>\<rparr>
                 in case (if optneg then mic_check11 n m s1 ul1 else mic_check10 m s1 ul1) of
                      None \<Rightarrow> None
                    | Some NoChannel \<Rightarrow> stop (with_s m s1) ul1 MICFailed ''none'' eff
                    | Some (MicBad s2) \<Rightarrow> stop (with_s (m\<lparr>ULPHYPayloadLen := 0\<rparr>) s2) ul1 MICFailed ''none'' eff
                    | Some (MicOk s2) \<Rightarrow>
                        map_option (\<lambda>r. r\<lparr>uo_effects := eff @ uo_effects r\<rparr>) (accept_uplink n m optneg ul1 discard0 s2))"

end
