(* ===== verification/JoinServer.thy ===== *)
theory JoinServer
  imports Envelope Uplink
begin

text \<open>
  The join server (join_server/main.c and the dispatch of join_server/web.c):
  the derivation of session keys, the checks of a join or rejoin request, the
  join-accept frame with its code and encryption, and the JSON answer with the
  wrapped session keys. None is an access outside a buffer or the use of a
  variable that was never written.
\<close>

section \<open>Keys\<close>

datatype keyType_e = keyType_FNwkSIntKey | keyType_SNwkSIntKey | keyType_NwkSEncKey | keyType_AppSKey

fun key_octet :: "keyType_e \<Rightarrow> u8" where
  "key_octet keyType_FNwkSIntKey = 0x01"
| "key_octet keyType_SNwkSIntKey = 0x03"
| "key_octet keyType_NwkSEncKey = 0x04"
| "key_octet keyType_AppSKey = 0x02"

definition GenerateJoinKey :: "u8 \<Rightarrow> buf \<Rightarrow> buf \<Rightarrow> buf" where
  "GenerateJoinKey token root_key dev_eui =
    (let inp = Write1ByteValue (ucast token) @ take 8 dev_eui @ replicate 7 0
     in snd (aes_encrypt inp inp (aes_key128 root_key)))"

text \<open>The block a session key is the encryption of.\<close>

definition session_key_input :: "bool \<Rightarrow> keyType_e \<Rightarrow> u32 \<Rightarrow> buf \<Rightarrow> u16 \<Rightarrow> u32 \<Rightarrow> buf" where
  "session_key_input optneg typ joinNonce joinEUI devNonce netid =
    (let front = key_octet typ # Write3ByteValue joinNonce @ (if optneg then take 8 joinEUI else Write3ByteValue netid) @
           Write2ByteValue (ucast devNonce)
     in front @ replicate (16 - length front) 0)"

definition GenerateSessionKey :: "bool \<Rightarrow> keyType_e \<Rightarrow> buf \<Rightarrow> u32 \<Rightarrow> buf \<Rightarrow> u16 \<Rightarrow> u32 \<Rightarrow> buf" where
  "GenerateSessionKey optneg typ root_key joinNonce joinEUI devNonce netid =
    (let inp = session_key_input optneg typ joinNonce joinEUI devNonce netid
     in snd (aes_encrypt inp inp (aes_key128 root_key)))"

text \<open>The output buffer after the call; the second block is deciphered from 16 octets on.\<close>

definition CryptJoinServer :: "buf \<Rightarrow> buf \<Rightarrow> u16 \<Rightarrow> buf \<Rightarrow> buf" where
  "CryptJoinServer key inp len out =
    (let ctx = aes_key128 key;
         out1 = memcpy_at out 0 (snd (aes_decrypt (take 16 inp) (take 16 out) ctx)) 16
     in if len \<ge> 16 then memcpy_at out1 16 (snd (aes_decrypt (slice 16 16 inp) (slice 16 16 out) ctx)) 16 else out1)"

section \<open>The environment of a request\<close>

text \<open>What the handler reads, what its frame buffers happen to hold, and what the database client says of a statement.\<close>

record js_env =
  js_db :: mysql
  js_text :: json_text
  js_wrap :: key_wrap
  js_rand :: u32
  myJoinEui64 :: u64
  envelope_app :: key_envelope_t
  envelope_nwk :: key_envelope_t
  js_uncyphered :: buf
  js_txBuf :: buf
  js_error :: "string \<Rightarrow> string"
  js_affected :: "string \<Rightarrow> int"

text \<open>The return code, and the key when it is 1.\<close>

definition get_sql_joinmote_key :: "mysql \<Rightarrow> string \<Rightarrow> u64 \<Rightarrow> (int \<times> buf option) option" where
  "get_sql_joinmote_key db name eui =
    (case db (''SELECT '' @ name @ '' FROM joinmotes WHERE eui = '' @ print_unsigned eui) of
       SqlRows (row # _) \<Rightarrow>
         (case cell row 0 of
            Some t \<Rightarrow> if length t < 16 then None else Some (1, Some (take 16 (bytes_of t)))
          | None \<Rightarrow> Some (0, None))
     | _ \<Rightarrow> Some (- 1, None))"

definition quoted :: "string \<Rightarrow> string" where
  "quoted s = CHR 0x27 # s @ [CHR 0x27]"

definition check_nonce :: "mysql \<Rightarrow> u64 \<Rightarrow> u16 \<Rightarrow> int" where
  "check_nonce db eui nonce =
    (case db (''SELECT mote FROM nonces WHERE HEX(mote) = '' @ quoted (print_hex eui) @ '' AND HEX(nonce) = '' @ quoted (print_hex nonce)) of
       SqlRows rows \<Rightarrow> int (length rows)
     | _ \<Rightarrow> - 1)"

section \<open>The checks of a request\<close>

definition js_frame :: "js_env \<Rightarrow> fields \<Rightarrow> (result + (buf \<times> u8 \<times> u64)) option" where
  "js_frame e inp =
    (case map_of inp ''PHYPayload'' of None \<Rightarrow> Some (Inl MalformedRequest)
     | Some p \<Rightarrow>
         let s = js_text e p
         in if length s > 256 then Some (Inl FrameSizeError)
            else case hex_pairs ((length s + 1) div 2) s of None \<Rightarrow> None
            | Some rx \<Rightarrow>
                (case map_of inp ''DevEUI'' of None \<Rightarrow> Some (Inl MalformedRequest)
                 | Some d \<Rightarrow> map_option (\<lambda>eui. Inr (rx, word_of_nat (length s div 2), eui)) (sscanf_hex (js_text e d))))"

record join_rq =
  rq_MicKey :: "buf option"
  rq_JoinEUI :: buf
  rq_nonce :: u16
  rq_type :: u8

text \<open>Octets of the frame at an offset; None when the frame ends before.\<close>

definition field_at :: "nat \<Rightarrow> nat \<Rightarrow> buf \<Rightarrow> buf option" where
  "field_at off n rx = (if off + n \<le> length rx then Some (slice off n rx) else None)"

definition js_rejoin :: "js_env \<Rightarrow> buf \<Rightarrow> u64 \<Rightarrow> (result + join_rq) option" where
  "js_rejoin e rx eui =
    (case field_at 1 1 rx of None \<Rightarrow> None
     | Some t \<Rightarrow>
         if hd t = 1 then
           (case field_at 10 8 rx of None \<Rightarrow> None
            | Some d \<Rightarrow>
                if eui \<noteq> eui_buf_to_uint64 d then Some (Inl Other)
                else map_option (\<lambda>(k, _). Inl (if k \<noteq> 1 then UnknownDevEUI else Other))
                       (get_sql_joinmote_key (js_db e) ''JSIntKey'' eui))
         else if hd t = 0 \<or> hd t = 2 then
           map_option (\<lambda>n. Inr \<lparr>rq_MicKey = None, rq_JoinEUI = uint64_to_eui_buf (myJoinEui64 e),
               rq_nonce = le_word n, rq_type = hd t\<rparr>) (field_at 13 2 rx)
         else Some (Inl Other))"

definition js_join :: "js_env \<Rightarrow> buf \<Rightarrow> u64 \<Rightarrow> (result + join_rq) option" where
  "js_join e rx eui =
    (case field_at 9 8 rx of None \<Rightarrow> None
     | Some d \<Rightarrow>
         if eui \<noteq> eui_buf_to_uint64 d then Some (Inl Other)
         else case (field_at 17 2 rx, get_sql_joinmote_key (js_db e) ''NwkKey'' eui) of
             (Some n, Some (k, key)) \<Rightarrow>
               Some (if k \<noteq> 1 then Inl UnknownDevEUI
                     else Inr \<lparr>rq_MicKey = key, rq_JoinEUI = slice 1 8 rx, rq_nonce = le_word n, rq_type = 0xff\<rparr>)
           | _ \<Rightarrow> None)"

text \<open>The request identified, its join EUI compared and its integrity code checked.\<close>

definition js_check :: "js_env \<Rightarrow> buf \<Rightarrow> u8 \<Rightarrow> join_rq \<Rightarrow> result option" where
  "js_check e rx len rq =
    (if eui_buf_to_uint64 (rq_JoinEUI rq) \<noteq> myJoinEui64 e then Some Other
     else case rq_MicKey rq of None \<Rightarrow> Some Success
       | Some key \<Rightarrow>
           map_option (\<lambda>mic. if mic \<noteq> le_word (LoRa_GenerateJoinFrameIntegrityCode key rx (unat len - 4)) then MICFailed else Success)
             (rx_mic32 rx len))"

definition js_request :: "js_env \<Rightarrow> buf \<Rightarrow> u8 \<Rightarrow> u64 \<Rightarrow> (result + join_rq) option" where
  "js_request e rx len eui =
    (case rx of [] \<Rightarrow> None
     | m # _ \<Rightarrow>
         (case (case mtype_of m of MTYPE_REJOIN_REQ \<Rightarrow> js_rejoin e rx eui | MTYPE_JOIN_REQ \<Rightarrow> js_join e rx eui
                | _ \<Rightarrow> Some (Inl Other)) of
            Some (Inr rq) \<Rightarrow> map_option (\<lambda>r. if r = Success then Inr rq else Inl r) (js_check e rx len rq)
          | r \<Rightarrow> r))"

section \<open>Nonces\<close>

text \<open>
  The join nonce of the answer and whether the 1.1 scheme is used, with the
  statements sent. A device with an AppKey of its own is a 1.1 device: its
  nonce must exceed the last one, whose column is then incremented.
\<close>

definition nonce_column :: "u8 \<Rightarrow> string" where
  "nonce_column typ = (if typ = 0xff then ''DevNonce_last'' else ''RJcount1_last'')"

definition nonce_query :: "join_rq \<Rightarrow> u64 \<Rightarrow> string" where
  "nonce_query rq eui =
    ''SELECT '' @ nonce_column (rq_type rq) @ '', joinNonce FROM joinmotes WHERE eui = '' @ print_unsigned eui"

definition nonce_update :: "join_rq \<Rightarrow> u64 \<Rightarrow> string" where
  "nonce_update rq eui =
    (let col = nonce_column (rq_type rq)
     in ''UPDATE joinmotes SET '' @ col @ '' = '' @ col @ '' + 1, joinNonce = joinNonce + 1 WHERE eui = '' @ print_unsigned eui)"

text \<open>The nonce of the last accepted request, NULL being 0, and the join nonce to use.\<close>

definition nonce_row :: "row \<Rightarrow> (u32 \<times> u32) option" where
  "nonce_row row =
    (case (case cell row 0 of Some t \<Rightarrow> sscanf_dec t | None \<Rightarrow> Some 0,
           case cell row 1 of Some t \<Rightarrow> sscanf_dec t | None \<Rightarrow> None) of
       (Some nonce_last, Some n) \<Rightarrow> Some (nonce_last, n)
     | _ \<Rightarrow> None)"

definition js_nonce11 :: "js_env \<Rightarrow> u64 \<Rightarrow> join_rq \<Rightarrow> ((result + u32) \<times> string list) option" where
  "js_nonce11 e eui rq =
    (case js_db e (nonce_query rq eui) of
       SqlError \<Rightarrow> Some (Inl JoinReqFailed, [])
     | SqlNoResult \<Rightarrow> None
     | SqlRows [] \<Rightarrow> Some (Inl JoinReqFailed, [])
     | SqlRows (row # _) \<Rightarrow>
         (case nonce_row row of None \<Rightarrow> None
          | Some (nonce_last, n) \<Rightarrow>
              if ucast (rq_nonce rq) \<le> nonce_last then Some (Inl ActivationDisallowed, [])
              else if js_db e (nonce_update rq eui) = SqlError then Some (Inl JoinReqFailed, [])
              else Some (Inr (n AND 0xffffff), [nonce_update rq eui])))"

definition js_nonce10 :: "js_env \<Rightarrow> u64 \<Rightarrow> join_rq \<Rightarrow> (result + u32) \<times> string list" where
  "js_nonce10 e eui rq =
    (if check_nonce (js_db e) eui (rq_nonce rq) \<noteq> 0 then (Inl ActivationDisallowed, [])
     else (Inr (js_rand e AND 0xffffff),
           [''INSERT INTO nonces (mote, nonce) VALUE ('' @ print_unsigned eui @ '', '' @ print_unsigned (rq_nonce rq) @ '')'']))"

section \<open>The join-accept frame\<close>

definition joinAccept_octets :: "u32 \<Rightarrow> u32 \<Rightarrow> u32 \<Rightarrow> u8 \<Rightarrow> u8 \<Rightarrow> buf" where
  "joinAccept_octets joinNonce netid devAddr dls delay =
    0x20 # le_bytes 3 joinNonce @ le_bytes 3 netid @ le_bytes 4 devAddr @ [dls, delay]"

text \<open>Address, settings, delay and channel list of the request.\<close>

definition js_fields :: "js_env \<Rightarrow> fields \<Rightarrow> bool \<Rightarrow> (result + (u32 \<times> u8 \<times> u8 \<times> buf)) option" where
  "js_fields e inp optneg =
    (case map_of inp ''DevAddr'' of None \<Rightarrow> Some (Inl MalformedRequest)
     | Some a \<Rightarrow> (case sscanf_hex (js_text e a) of None \<Rightarrow> None
     | Some addr \<Rightarrow> (case map_of inp ''DLSettings'' of None \<Rightarrow> Some (Inl MalformedRequest)
     | Some d \<Rightarrow> (case sscanf_hex (js_text e d) of None \<Rightarrow> None
     | Some dls \<Rightarrow> (case map_of inp ''RxDelay'' of None \<Rightarrow> Some (Inl MalformedRequest)
     | Some y \<Rightarrow> (case sscanf_hex (js_text e y) of None \<Rightarrow> None
     | Some delay \<Rightarrow>
         let dl = ucast ((if optneg then dls OR 0x80 else dls AND NOT 0x80) :: u32)
         in (case map_of inp ''CFList'' of None \<Rightarrow> Some (Inr (addr, dl, ucast (delay :: u32), []))
             | Some c \<Rightarrow>
                 let s = js_text e c
                 in if length s > 32 then Some (Inl FrameSizeError)
                    else map_option (\<lambda>l. Inr (addr, dl, ucast delay, l)) (hex_pairs ((length s + 1) div 2) s))))))))"

text \<open>The octets the code of a 1.1 join-accept is computed over, before the frame itself.\<close>

definition js_mic_front :: "join_rq \<Rightarrow> buf" where
  "js_mic_front rq = rq_type rq # rq_JoinEUI rq @ Write2ByteValue (ucast (rq_nonce rq))"

definition js_mic :: "bool \<Rightarrow> buf \<Rightarrow> join_rq \<Rightarrow> buf \<Rightarrow> buf" where
  "js_mic optneg key rq clear =
    (let inp = (if optneg then js_mic_front rq @ clear else clear)
     in LoRa_GenerateJoinFrameIntegrityCode key inp (length inp))"

definition js_encrypt :: "js_env \<Rightarrow> buf \<Rightarrow> buf \<Rightarrow> buf" where
  "js_encrypt e key frame =
    (let un = memcpy_at (js_uncyphered e) 0 frame (length frame);
         len = word_of_nat (length frame - 1)
     in take (length frame) (0x20 # CryptJoinServer key (drop 1 un) len (drop 1 (js_txBuf e))))"

section \<open>The answer\<close>

text \<open>The envelopes are added one by one; the answer keeps those before a failure.\<close>

fun add_envelopes :: "key_wrap \<Rightarrow> (string \<times> buf \<times> key_envelope_t) list \<Rightarrow> fields \<Rightarrow> bool \<times> fields" where
  "add_envelopes wrap [] ans = (True, ans)"
| "add_envelopes wrap ((name, key, ke) # ks) ans =
    (case create_KeyEnvelope wrap key ke of None \<Rightarrow> (False, ans)
     | Some env \<Rightarrow> add_envelopes wrap ks (add_field name (JObj env) ans))"

definition session_keys :: "js_env \<Rightarrow> bool \<Rightarrow> buf \<Rightarrow> buf \<Rightarrow> u32 \<Rightarrow> join_rq \<Rightarrow> u32 \<Rightarrow> (string \<times> buf \<times> key_envelope_t) list" where
  "session_keys e optneg nwkKey appKey joinNonce rq netid =
    (let gen = (\<lambda>typ root. GenerateSessionKey optneg typ root joinNonce (rq_JoinEUI rq) (rq_nonce rq) netid)
     in if optneg then
          [(''SNwkSIntKey'', gen keyType_SNwkSIntKey nwkKey, envelope_nwk e),
           (''FNwkSIntKey'', gen keyType_FNwkSIntKey nwkKey, envelope_nwk e),
           (''NwkSEncKey'', gen keyType_NwkSEncKey nwkKey, envelope_nwk e),
           (''AppSKey'', gen keyType_AppSKey appKey, envelope_app e)]
        else
          [(''NwkSKey'', gen keyType_FNwkSIntKey nwkKey, envelope_nwk e),
           (''AppSKey'', gen keyType_AppSKey nwkKey, envelope_app e)])"

definition js_answer ::
  "js_env \<Rightarrow> u64 \<Rightarrow> (string \<times> buf \<times> key_envelope_t) list \<Rightarrow> buf \<Rightarrow> (result \<times> fields) option" where
  "js_answer e eui keys tx =
    (let finish = (\<lambda>lifetime.
           case add_envelopes (js_wrap e) keys [] of
             (False, ans) \<Rightarrow> Some (JoinReqFailed, ans)
           | (True, ans) \<Rightarrow>
               map_option (\<lambda>l :: u32. (Success, add_field ''Lifetime'' (JInt (c_int l))
                   (add_field ''PHYPayload'' (JStr (hex_of_buf tx)) ans))) lifetime)
     in case js_db e (''SELECT Lifetime FROM joinmotes WHERE eui = '' @ quoted (print_unsigned eui)) of
          SqlError \<Rightarrow> Some (JoinReqFailed, [])
        | SqlNoResult \<Rightarrow> finish None
        | SqlRows [] \<Rightarrow> finish None
        | SqlRows (row # _) \<Rightarrow> (case cell row 0 of None \<Rightarrow> None | Some t \<Rightarrow> finish (sscanf_dec t)))"

text \<open>From the nonce to the answer. A key whose column is NULL is never written.\<close>

definition js_complete ::
  "js_env \<Rightarrow> fields \<Rightarrow> u32 \<Rightarrow> u64 \<Rightarrow> join_rq \<Rightarrow> bool \<Rightarrow> buf \<Rightarrow> u32 \<Rightarrow> (result \<times> fields) option" where
  "js_complete e inp netid eui rq optneg appKey joinNonce =
    (case get_sql_joinmote_key (js_db e) ''NwkKey'' eui of None \<Rightarrow> None
     | Some (k, nwk) \<Rightarrow>
         if k < 0 then Some (JoinReqFailed, [])
         else case js_fields e inp optneg of None \<Rightarrow> None
           | Some (Inl r) \<Rightarrow> Some (r, [])
           | Some (Inr (addr, dls, delay, cfl)) \<Rightarrow>
               let clear = joinAccept_octets joinNonce netid addr dls delay @ cfl
               in (case (if optneg then get_sql_joinmote_key (js_db e) ''JSIntKey'' eui else Some (k, nwk)) of None \<Rightarrow> None
                   | Some (ki, int_key) \<Rightarrow>
                       if ki < 0 then Some (JoinReqFailed, [])
                       else (case int_key of None \<Rightarrow> None
                             | Some ik \<Rightarrow>
                                 (case (if optneg \<and> rq_type rq \<noteq> 0xff then get_sql_joinmote_key (js_db e) ''JSEncKey'' eui
                                        else Some (k, nwk)) of None \<Rightarrow> None
                                  | Some (kx, enc_key) \<Rightarrow>
                                      if kx < 0 then Some (JoinReqFailed, [])
                                      else (case (enc_key, nwk) of
                                          (Some ek, Some nk) \<Rightarrow>
                                            js_answer e eui (session_keys e optneg nk appKey joinNonce rq netid)
                                              (js_encrypt e ek (clear @ js_mic optneg ik rq clear))
                                        | _ \<Rightarrow> None)))))"

record js_out =
  jo_result :: result
  jo_answer :: fields
  jo_statements :: "string list"

definition parse_rf_join_req :: "js_env \<Rightarrow> fields \<Rightarrow> u32 \<Rightarrow> js_out option" where
  "parse_rf_join_req e inp netid =
    (let out = (\<lambda>r ans qs. \<lparr>jo_result = r, jo_answer = ans, jo_statements = qs\<rparr>)
     in case js_frame e inp of None \<Rightarrow> None
        | Some (Inl r) \<Rightarrow> Some (out r [] [])
        | Some (Inr (rx, len, eui)) \<Rightarrow>
            (case js_request e rx len eui of None \<Rightarrow> None
             | Some (Inl r) \<Rightarrow> Some (out r [] [])
             | Some (Inr rq) \<Rightarrow>
                 (case get_sql_joinmote_key (js_db e) ''AppKey'' eui of None \<Rightarrow> None
                  | Some (k, app) \<Rightarrow>
                      if k < 0 then Some (out JoinReqFailed [] [])
                      else
                        (case (if k = 1 then js_nonce11 e eui rq else Some (js_nonce10 e eui rq)) of None \<Rightarrow> None
                         | Some (Inl r, qs) \<Rightarrow> Some (out r [] qs)
                         | Some (Inr joinNonce, qs) \<Rightarrow>
                             map_option (\<lambda>(r, ans). out r ans qs)
                               (js_complete e inp netid eui rq (k = 1) (case app of Some a \<Rightarrow> a | None \<Rightarrow> []) joinNonce)))))"

end
