(* ===== verification/Backend.thy ===== *)
theory Backend
  imports Envelope
begin

text \<open>
  What every server shares of libbackend/libserver.c: the message types, the
  mandatory members of a JSON message and their check, the names of regions,
  join servers and devices. How json-c converts a value is an argument; its
  documented behaviour on the values the servers themselves write is
  json_laws. None is an access outside a buffer or the use of a variable that
  was never written.
\<close>

section \<open>Conversions of json-c\<close>

record json_api =
  ja_text :: json_text
  ja_int :: "json \<Rightarrow> int"
  ja_real :: "json \<Rightarrow> rat"
  ja_bool :: "json \<Rightarrow> bool"

definition json_laws :: "json_api \<Rightarrow> bool" where
  "json_laws a \<longleftrightarrow> (\<forall>s. ja_text a (JStr s) = s) \<and> (\<forall>i. - (2 ^ 31) \<le> i \<longrightarrow> i < 2 ^ 31 \<longrightarrow> ja_int a (JInt i) = i) \<and>
    (\<forall>r. ja_real a (JReal r) = r) \<and> (\<forall>b. ja_bool a (JBool b) = b)"

section \<open>Messages\<close>

datatype message_type = JoinReq | JoinAns | RejoinReq | RejoinAns | XmitDataReq | XmitDataAns | PRStartReq | PRStartAns
  | PRStopReq | PRStopAns | HRStartReq | HRStartAns | HRStopReq | HRStopAns | HomeNSReq | HomeNSAns | ProfileReq | ProfileAns
  | AppSKeyReq | AppSKeyAns | OtherMessage

fun message_text :: "message_type \<Rightarrow> string" where
  "message_text JoinReq = ''JoinReq''"
| "message_text JoinAns = ''JoinAns''"
| "message_text RejoinReq = ''RejoinReq''"
| "message_text RejoinAns = ''RejoinAns''"
| "message_text XmitDataReq = ''XmitDataReq''"
| "message_text XmitDataAns = ''XmitDataAns''"
| "message_text PRStartReq = ''PRStartReq''"
| "message_text PRStartAns = ''PRStartAns''"
| "message_text PRStopReq = ''PRStopReq''"
| "message_text PRStopAns = ''PRStopAns''"
| "message_text HRStartReq = ''HRStartReq''"
| "message_text HRStartAns = ''HRStartAns''"
| "message_text HRStopReq = ''HRStopReq''"
| "message_text HRStopAns = ''HRStopAns''"
| "message_text HomeNSReq = ''HomeNSReq''"
| "message_text HomeNSAns = ''HomeNSAns''"
| "message_text ProfileReq = ''ProfileReq''"
| "message_text ProfileAns = ''ProfileAns''"
| "message_text AppSKeyReq = ''AppSKeyReq''"
| "message_text AppSKeyAns = ''AppSKeyAns''"
| "message_text OtherMessage = ''Other''"

text \<open>The types a message may name, and the answer each request gets.\<close>

definition message_types :: "message_type list" where
  "message_types = [JoinReq, XmitDataReq, PRStartReq, JoinAns, RejoinReq, RejoinAns, HRStartReq, HRStartAns, XmitDataAns,
     PRStartAns, HomeNSReq, HomeNSAns, ProfileReq, ProfileAns, AppSKeyReq, AppSKeyAns, PRStopReq, PRStopAns, HRStopReq, HRStopAns]"

fun answer_of :: "message_type \<Rightarrow> message_type option" where
  "answer_of JoinReq = Some JoinAns"
| "answer_of RejoinReq = Some RejoinAns"
| "answer_of XmitDataReq = Some XmitDataAns"
| "answer_of PRStartReq = Some PRStartAns"
| "answer_of PRStopReq = Some PRStopAns"
| "answer_of HRStartReq = Some HRStartAns"
| "answer_of HRStopReq = Some HRStopAns"
| "answer_of HomeNSReq = Some HomeNSAns"
| "answer_of ProfileReq = Some ProfileAns"
| "answer_of AppSKeyReq = Some AppSKeyAns"
| "answer_of _ = None"

text \<open>The results an answer may carry; any other text is no result.\<close>

definition received_results :: "result list" where
  "received_results = [FrameSizeError, StaleDeviceProfile, MalformedRequest, UnknownDevEUI, UnknownDevAddr, MICFailed, Success,
     ActivationDisallowed, JoinReqFailed, NoRoamingAgreement, RoamingActDisallowed, Deferred, InvalidFPort, XmitFailed, Other]"

definition received_result :: "string \<Rightarrow> result option" where
  "received_result str = find (\<lambda>r. result_text r = str) received_results"

definition lower :: "char \<Rightarrow> char" where
  "lower c = (let n = of_char c :: nat in if 65 \<le> n \<and> n \<le> 90 then char_of (n + 32) else c)"

text \<open>The receiver: a number when the server's own name is hexadecimal, else a text.\<close>

definition same_id :: "string \<Rightarrow> string \<Rightarrow> bool option" where
  "same_id myID rxID =
    (if fst (ascii_hex_loop myID) = 0 then
       (if length myID > 8
        then (case (sscanf_hex myID, sscanf_hex rxID) of (Some my64, Some rx64) \<Rightarrow> Some (my64 = (rx64 :: u64)) | _ \<Rightarrow> None)
        else (case (sscanf_hex myID, sscanf_hex rxID) of (Some my32, Some rx32) \<Rightarrow> Some (my32 = (rx32 :: u32)) | _ \<Rightarrow> None))
     else Some (map lower rxID = map lower myID))"

record parsed_json =
  pj_result :: result
  pj_ans :: "message_type option"
  pj_pmt :: "message_type option"
  pj_sender :: "string option"
  pj_tid :: "u64 option"
  pj_received :: "result option"

definition parse_message_type :: "json_api \<Rightarrow> fields \<Rightarrow> result \<times> message_type option \<times> message_type option" where
  "parse_message_type a jobj =
    (case map_of jobj ''MessageType'' of None \<Rightarrow> (MalformedRequest, None, None)
     | Some j \<Rightarrow>
         (case find (\<lambda>m. message_text m = ja_text a j) message_types of
            Some m \<Rightarrow> (Success, Some m, answer_of m)
          | None \<Rightarrow> (MalformedRequest, Some OtherMessage, None)))"

text \<open>Each check overwrites the result of the ones before it.\<close>

definition lib_parse_json :: "json_api \<Rightarrow> fields \<Rightarrow> string \<Rightarrow> parsed_json option" where
  "lib_parse_json a jobj myID =
    (let (r1, pmt, ans) = parse_message_type a jobj;
         r2 = (case map_of jobj ''ProtocolVersion'' of None \<Rightarrow> MalformedRequest
               | Some j \<Rightarrow> if ja_text a j \<noteq> ''1.0'' then InvalidProtocolVersion else r1);
         sender = map_option (ja_text a) (map_of jobj ''SenderID'');
         r3 = (if sender = None then MalformedRequest else r2);
         finish = (\<lambda>r4.
           let tid = map_option (\<lambda>j. word_of_int (ja_int a j)) (map_of jobj ''TransactionID'')
           in Some \<lparr>pj_result = (if tid = None then MalformedRequest else r4), pj_ans = ans, pj_pmt = pmt, pj_sender = sender,
                pj_tid = tid, pj_received = (case map_of jobj ''Result'' of None \<Rightarrow> None | Some j \<Rightarrow> received_result (ja_text a j))\<rparr>)
     in if (case sender of Some s \<Rightarrow> length s \<ge> 64 | None \<Rightarrow> False) then None
        else case map_of jobj ''ReceiverID'' of None \<Rightarrow> finish MalformedRequest
        | Some j \<Rightarrow>
            (case same_id myID (ja_text a j) of None \<Rightarrow> None
             | Some same \<Rightarrow> finish (if same then r3 else UnknownReceiverID)))"

section \<open>Names\<close>

definition getJsHostName :: "u64 \<Rightarrow> string \<Rightarrow> string" where
  "getJsHostName eui domain = concat (map (\<lambda>c. [c, CHR ''.'']) (rev (zero_pad 16 (print_hex eui)))) @ domain"

text \<open>DevEUI and DevAddr of a name; without a separator the code reads behind a null pointer.\<close>

definition getTarget :: "string \<Rightarrow> (int \<times> string \<times> string) option" where
  "getTarget target =
    (if target = [] then Some (- 1, [], [])
     else case dropWhile (\<lambda>c. c \<noteq> CHR ''_'') target of
            [] \<Rightarrow> None
          | _ # addr \<Rightarrow> Some (0, takeWhile (\<lambda>c. c \<noteq> CHR ''_'') target, addr))"

text \<open>None outside is undefined; None inside is a missing key.\<close>

definition getKey :: "json_text \<Rightarrow> key_wrap \<Rightarrow> fields \<Rightarrow> string \<Rightarrow> key_envelope_t \<Rightarrow> (result + buf) option option" where
  "getKey jt unwr jobj name ke =
    (case map_of jobj name of
       Some j \<Rightarrow> map_option Some (parse_key_envelope jt unwr (members j) ke)
     | None \<Rightarrow> Some None)"

definition region_names :: "string list" where
  "region_names = [''EU868'', ''US902'', ''US902A'', ''US902B'', ''US902C'', ''US902D'', ''US902E'', ''US902F'', ''US902G'',
     ''US902H'', ''China779'', ''China470'', ''EU433'', ''Australia915'', ''AS923'']"

definition getRFRegion :: "string \<Rightarrow> string option" where
  "getRFRegion str = find (\<lambda>r. r = str) region_names"

section \<open>A message that is written is read back\<close>

lemma find_message: "m \<noteq> OtherMessage \<Longrightarrow> find (\<lambda>m'. message_text m' = message_text m) message_types = Some m"
  by (cases m) (simp_all add: message_types_def)

lemma received_result_text:
  "received_result (result_text r) = (if r = InvalidProtocolVersion \<or> r = UnknownReceiverID then None else Some r)"
  by (cases r) (simp_all add: received_result_def received_results_def)

lemma find_eq: "find (\<lambda>r. r = s) xs = (if s \<in> set xs then Some s else None)"
  by (induction xs) auto

lemma getRFRegion_iff: "getRFRegion str = (if str \<in> set region_names then Some str else None)"
  by (simp only: getRFRegion_def find_eq)

lemma add_field_get: "map_of (add_field k v fs) k' = (if k' = k then Some v else map_of fs k')"
proof (cases "k \<in> fst ` set fs")
  case True
  have "map_of (map (\<lambda>(a, b). if a = k then (k, v) else (a, b)) fs) k' =
      (if k' = k then (if k \<in> fst ` set fs then Some v else None) else map_of fs k')"
    by (induction fs) (force split: prod.splits)+
  then show ?thesis using True by (simp add: add_field_def)
next
  case False
  have "map_of (fs @ [(k, v)]) k' = (if k' = k then Some v else map_of fs k')"
    using False by (induction fs) auto
  then show ?thesis using False unfolding add_field_def by (simp only: if_False)
qed

lemma generated_members:
  "map_of (lib_generate_json jobj dest src tid (Some t) res) ''MessageType'' = Some (JStr t)"
  "map_of (lib_generate_json jobj dest src tid (Some t) res) ''ProtocolVersion'' = Some (JStr ''1.0'')"
  "map_of (lib_generate_json jobj dest src tid (Some t) res) ''SenderID'' = Some (JStr src)"
  "map_of (lib_generate_json jobj dest src tid (Some t) res) ''ReceiverID'' = Some (JStr dest)"
  "map_of (lib_generate_json jobj dest src tid (Some t) res) ''TransactionID'' = Some (JInt (c_int tid))"
  "map_of (lib_generate_json jobj dest src tid (Some t) res) ''Result'' =
    (case res of Some r \<Rightarrow> Some (JStr r) | None \<Rightarrow> map_of jobj ''Result'')"
  by (simp_all add: lib_generate_json_def Let_def add_field_get split: option.split)

lemma c_int_range: "- (2 ^ 31) \<le> c_int x" "c_int x < 2 ^ 31"
proof -
  have "- (2 ^ (LENGTH(32) - 1)) \<le> sint (ucast x :: u32)" "sint (ucast x :: u32) < 2 ^ (LENGTH(32) - 1)"
    by (rule sint_ge, rule sint_lt)
  then show "- (2 ^ 31) \<le> c_int x" "c_int x < 2 ^ 31" by (simp_all add: c_int_def)
qed

lemma header_roundtrip:
  assumes "json_laws a" "same_id myID dest = Some True" "length src < 64" "m \<noteq> OtherMessage"
  shows "lib_parse_json a (lib_generate_json jobj dest src tid (Some (message_text m)) res) myID =
    Some \<lparr>pj_result = Success, pj_ans = answer_of m, pj_pmt = Some m, pj_sender = Some src,
      pj_tid = Some (word_of_int (c_int tid)),
      pj_received = (case res of Some r \<Rightarrow> received_result r
        | None \<Rightarrow> (case map_of jobj ''Result'' of None \<Rightarrow> None | Some j \<Rightarrow> received_result (ja_text a j)))\<rparr>"
proof -
  have t: "ja_text a (JStr s) = s" for s using assms(1) by (simp add: json_laws_def)
  have i: "ja_int a (JInt (c_int tid)) = c_int tid" using assms(1) c_int_range [of tid] by (simp add: json_laws_def)
  have m: "parse_message_type a (lib_generate_json jobj dest src tid (Some (message_text m)) res) = (Success, Some m, answer_of m)"
    using assms(4) by (simp add: parse_message_type_def generated_members t find_message)
  show ?thesis
    unfolding lib_parse_json_def m prod.case generated_members
    using assms(2,3) by (simp add: t i Let_def split: option.split)
qed

lemma uint_negative: "- (2 ^ 31) \<le> k \<Longrightarrow> k < 0 \<Longrightarrow> uint (word_of_int k :: u64) = k + 2 ^ 64"
proof -
  assume k: "- (2 ^ 31) \<le> k" "k < 0"
  have "uint (word_of_int k :: u64) = k mod 2 ^ 64" by (simp add: unsigned_of_int take_bit_eq_mod)
  also have "\<dots> = (k + 2 ^ 64) mod 2 ^ 64" by simp
  also have "\<dots> = k + 2 ^ 64" by (rule mod_pos_pos_trivial) (use k in simp_all)
  finally show ?thesis .
qed

lemma large_tid:
  assumes "\<not> tid < (0x80000000 :: u32)"
  shows "2 ^ 32 \<le> uint (word_of_int (c_int tid) :: u64)"
proof -
  have ge: "2 ^ 31 \<le> uint tid" using assms by (simp add: word_less_def)
  have "sint tid < 0"
  proof (rule ccontr)
    assume nn: "\<not> sint tid < 0"
    have lt: "sint tid < 2 ^ 31" using sint_lt [of tid] by simp
    have "take_bit 32 (sint tid) = sint tid" by (rule take_bit_int_eq_self) (use nn lt in simp_all)
    then have "uint tid = sint tid" by (simp add: uint_sint)
    then show False using ge lt by simp
  qed
  moreover have "- (2 ^ 31) \<le> sint tid" using sint_ge [of tid] by simp
  ultimately have "uint (word_of_int (sint tid) :: u64) = sint tid + 2 ^ 64" "2 ^ 32 \<le> sint tid + 2 ^ 64"
    by (rule uint_negative [rotated], simp)
  then show ?thesis by (simp add: c_int_def)
qed

lemma uint_ucast_u32: "uint (ucast (tid :: u32) :: u64) < 2 ^ 32"
proof -
  have u: "uint tid < 2 ^ 32" using unsigned_less [of tid] by simp
  have "take_bit 64 (uint tid) = uint tid" by (rule take_bit_int_eq_self) (use u in simp_all)
  then show ?thesis using u by (simp add: unsigned_ucast_eq)
qed

text \<open>A transaction number comes back as it was sent only below 2^31.\<close>

lemma tid_comes_back: "(word_of_int (c_int (tid :: u32)) :: u64) = ucast tid \<longleftrightarrow> tid < 0x80000000"
proof (cases "tid < 0x80000000")
  case True
  then have "uint tid < 2 ^ 31" by (simp add: word_less_def)
  moreover have "- (2 ^ 31) \<le> uint tid" using uint_ge_0 [of tid] by (rule order_trans [rotated]) simp
  ultimately have "signed_take_bit 31 (uint tid) = uint tid" by (rule signed_take_bit_int_eq_self [rotated])
  then have st: "sint tid = uint tid" by (simp add: sint_uint)
  have "(word_of_int (c_int tid) :: u64) = ucast tid" by (simp add: c_int_def st)
  then show ?thesis using True by (metis (full_types))
next
  case False
  then have "(word_of_int (c_int tid) :: u64) \<noteq> ucast tid" using large_tid uint_ucast_u32 [of tid] by fastforce
  then show ?thesis using False by blast
qed

text \<open>The parser reads the number as a signed int: what comes back of a larger one, extended to 64 bits.\<close>

lemma parsed_tid:
  "(word_of_int (c_int (tid :: u64)) :: u64) =
    (if take_bit 32 tid < 0x80000000 then take_bit 32 tid else take_bit 32 tid - 0x100000000)"
proof -
  let ?t = "ucast tid :: u32"
  have u: "(ucast ?t :: u64) = take_bit 32 tid" by (rule bit_word_eqI) (auto simp: bit_take_bit_iff bit_ucast_iff)
  have c: "c_int tid = c_int ?t" by (simp add: c_int_def)
  have small: "?t < 0x80000000 \<longleftrightarrow> take_bit 32 tid < 0x80000000"
    unfolding u [symmetric] by (simp add: word_less_def uint_up_ucast is_up)
  show ?thesis
  proof (cases "?t < 0x80000000")
    case True
    then show ?thesis using tid_comes_back [of ?t] small u c by simp
  next
    case False
    then have "2 ^ 31 \<le> uint ?t" by (simp add: word_less_def)
    moreover have less: "uint ?t < 2 ^ 32" using unsigned_less [of ?t] by simp
    ultimately have "uint ?t div 2 ^ 31 = 1" by (simp add: div_pos_geq)
    then have "bit (uint ?t) 31" by (simp add: bit_iff_odd)
    moreover have "take_bit 32 (uint ?t) = uint ?t" using less by (simp add: take_bit_int_eq_self)
    ultimately have "sint ?t = uint ?t - 2 ^ 32" unfolding sint_uint by (simp add: signed_take_bit_eq_take_bit_minus)
    then show ?thesis using False small u c by (simp add: c_int_def)
  qed
qed

text \<open>A larger number matches no transaction.\<close>

lemma large_tid_unmatched:
  assumes "tid \<ge> (0x80000000 :: u32)"
  shows "take_answer motes (word_of_int (c_int tid)) = None"
proof -
  have "\<not> tid < 0x80000000" using assms by (simp add: not_less)
  then have "(ucast (sentTID t) :: u64) \<noteq> word_of_int (c_int tid)" for t
    using large_tid [of tid] uint_ucast_u32 [of "sentTID t"] by (metis not_less)
  then have "index_where (\<lambda>n. case n of None \<Rightarrow> False | Some m \<Rightarrow>
      list_ex (\<lambda>t. (ucast (sentTID t) :: u64) = word_of_int (c_int tid)) (take NT (t_slots m))) motes = None"
    by (auto simp: index_where_None list_ex_iff split: option.splits)
  then show ?thesis by (simp add: take_answer_def)
qed

end
