(* ===== verification/JoinDispatch.thy ===== *)
theory JoinDispatch
  imports JoinServer Backend
begin

text \<open>
  The join server's dispatch of a message (ParseJson of join_server/web.c) and
  the lookup of a device's home network (getHomeNS).
\<close>

section \<open>The home network of a device\<close>

text \<open>
  The networks a device may roam in, read up to the asking one. None is a NULL
  or unreadable column.
\<close>

fun roamable :: "u32 option \<Rightarrow> row list \<Rightarrow> bool option" where
  "roamable asking [] = Some False"
| "roamable asking (row # rows) =
    (case (asking, cell row 0) of
       (Some a, Some t) \<Rightarrow>
         (case sscanf_dec t of None \<Rightarrow> None | Some n \<Rightarrow> if a = n then Some True else roamable asking rows)
     | _ \<Rightarrow> None)"

text \<open>
  The result and the home network of the answer. A failing first query writes
  into a string constant: undefined.
\<close>

definition home_row :: "row \<Rightarrow> (result + (u32 \<times> u64)) option" where
  "home_row row =
    (case cell row 0 of None \<Rightarrow> Some (Inl Other)
     | Some t \<Rightarrow>
         (case (sscanf_dec t, cell row 1) of
            (Some netid, Some i) \<Rightarrow> Some (Inr (netid, store (sscanf_dec i) (- 1)))
          | _ \<Rightarrow> None))"

definition getHomeNS :: "js_env \<Rightarrow> fields \<Rightarrow> string \<Rightarrow> (result \<times> fields) option" where
  "getHomeNS e inp sender_id =
    (case map_of inp ''DevEUI'' of None \<Rightarrow> Some (MalformedRequest, [])
     | Some j \<Rightarrow> (case sscanf_hex (js_text e j) of None \<Rightarrow> None
     | Some eui \<Rightarrow>
         (case js_db e (''SELECT homeNetID, ID FROM joinmotes WHERE eui = '' @ print_unsigned (eui :: u64)) of
            SqlError \<Rightarrow> None
          | SqlNoResult \<Rightarrow> Some (Other, [])
          | SqlRows [] \<Rightarrow> Some (UnknownDevEUI, [])
          | SqlRows (row # _) \<Rightarrow>
              (case home_row row of None \<Rightarrow> None
               | Some (Inl r) \<Rightarrow> Some (r, [])
               | Some (Inr (netid, mid)) \<Rightarrow>
                   (case js_db e (''SELECT NetID FROM roamingNetIDs WHERE moteID = '' @ print_unsigned mid) of
                      SqlRows rows \<Rightarrow>
                        map_option (\<lambda>ok. if ok then (Success, [(''HNetID'', JStr (zero_pad 6 (print_hex netid)))])
                            else (NoRoamingAgreement, [])) (roamable (sscanf_hex sender_id) rows)
                    | _ \<Rightarrow> Some (NoRoamingAgreement, []))))))"

section \<open>The dispatch\<close>

text \<open>
  The answer, when there is one. A message whose mandatory members are bad is
  not answered: the answer object does not exist yet.
\<close>

definition js_ParseJson :: "js_env \<Rightarrow> json_api \<Rightarrow> string \<Rightarrow> fields \<Rightarrow> (fields option \<times> string list) option" where
  "js_ParseJson e a myJoinEuiStr inp =
    (case lib_parse_json a inp myJoinEuiStr of None \<Rightarrow> None
     | Some p \<Rightarrow>
         if pj_result p \<noteq> Success then Some (None, [])
         else (case (pj_sender p, pj_tid p) of
             (Some sender, Some tid) \<Rightarrow>
               let answer = (\<lambda>r ans. lib_generate_json ans sender myJoinEuiStr tid (map_option message_text (pj_ans p)) (Some (result_text r)))
               in if pj_pmt p = Some JoinReq \<or> pj_pmt p = Some RejoinReq then
                    (case sscanf_hex sender of None \<Rightarrow> None
                     | Some netid \<Rightarrow> map_option (\<lambda>out. (Some (answer (jo_result out) (jo_answer out)), jo_statements out))
                         (parse_rf_join_req e inp netid))
                  else if pj_pmt p = Some HomeNSReq then
                    map_option (\<lambda>(r, ans). (Some (answer r ans), [])) (getHomeNS e inp sender)
                  else Some (None, [])
           | _ \<Rightarrow> None))"

section \<open>Who learns the home network\<close>

lemma roamable_True:
  "roamable asking rows = Some True \<Longrightarrow> \<exists>a row t. asking = Some a \<and> row \<in> set rows \<and> cell row 0 = Some t \<and> sscanf_dec t = Some a"
  by (induction rows) (fastforce split: option.splits if_splits)+

text \<open>The row of the device that is asked for, with its home network and its identifier.\<close>

definition home_of :: "js_env \<Rightarrow> fields \<Rightarrow> u32 \<Rightarrow> u64 \<Rightarrow> bool" where
  "home_of e inp netid mid \<longleftrightarrow>
    (\<exists>j eui row rest h i. map_of inp ''DevEUI'' = Some j \<and> sscanf_hex (js_text e j) = Some (eui :: u64) \<and>
      js_db e (''SELECT homeNetID, ID FROM joinmotes WHERE eui = '' @ print_unsigned eui) = SqlRows (row # rest) \<and>
      cell row 0 = Some h \<and> sscanf_dec h = Some netid \<and> cell row 1 = Some i \<and> mid = store (sscanf_dec i) (- 1))"

lemma home_row_Inr: "home_row row = Some (Inr (netid, mid)) \<Longrightarrow>
    \<exists>h i. cell row 0 = Some h \<and> sscanf_dec h = Some netid \<and> cell row 1 = Some i \<and> mid = store (sscanf_dec i) (- 1)"
  by (auto simp: home_row_def split: option.splits)

lemma getHomeNS_Success:
  assumes "getHomeNS e inp sender = Some (Success, ans)"
  obtains asking rows netid mid row t where "home_of e inp netid mid" "sscanf_hex sender = Some (asking :: u32)"
    "js_db e (''SELECT NetID FROM roamingNetIDs WHERE moteID = '' @ print_unsigned (mid :: u64)) = SqlRows rows"
    "row \<in> set rows" "cell row 0 = Some t" "sscanf_dec t = Some asking" "ans = [(''HNetID'', JStr (zero_pad 6 (print_hex (netid :: u32))))]"
proof -
  have h: "home_row row \<noteq> Some (Inl Success)" for row
    by (auto simp: home_row_def split: option.splits)
  obtain j eui row rest netid mid rows where d: "map_of inp ''DevEUI'' = Some j" "sscanf_hex (js_text e j) = Some (eui :: u64)"
    "js_db e (''SELECT homeNetID, ID FROM joinmotes WHERE eui = '' @ print_unsigned eui) = SqlRows (row # rest)"
    "home_row row = Some (Inr (netid, mid))"
    and r: "roamable (sscanf_hex sender) rows = Some True"
    "js_db e (''SELECT NetID FROM roamingNetIDs WHERE moteID = '' @ print_unsigned (mid :: u64)) = SqlRows rows"
    "ans = [(''HNetID'', JStr (zero_pad 6 (print_hex (netid :: u32))))]"
    using assms h unfolding getHomeNS_def
    by (fastforce split: option.splits sqlres.splits list.splits sum.splits prod.splits if_splits)
  have "home_of e inp netid mid" unfolding home_of_def using d(1-3) home_row_Inr [OF d(4)] by blast
  with r show ?thesis using roamable_True that by metis
qed

end
