(* ===== verification/UplinkFacts.thy ===== *)
theory UplinkFacts
  imports Uplink
begin

text \<open>
  Facts about the uplink handler: the window of accepted counters, what an
  accepted frame must carry, what a refused one leaves alone, the command ring,
  and the frame that answers.
\<close>

section \<open>The window of counters\<close>

lemma sint_small:
  assumes "- (2 ^ 31) \<le> k" "k < 2 ^ 31"
  shows "sint (word_of_int k :: u32) = k"
proof -
  have "signed_take_bit 31 k = k" using assms by (simp add: signed_take_bit_int_eq_self)
  then show ?thesis by (simp add: sint_sbintrunc')
qed

lemma uint_u16: "0 \<le> uint (x :: u16)" "uint x < 65536"
proof -
  have "uint x < 2 ^ LENGTH(16)" by (rule unsigned_less)
  then show "uint x < 65536" by simp
qed simp

lemma uint_fcnt32: "uint (fcnt32 stored rx) = 65536 * (uint stored div 65536) + uint rx"
proof -
  have m: "(0xffff0000 :: u32) = push_bit 16 (mask 16)"
    by (simp add: mask_eq_exp_minus_1 push_bit_eq_mult)
  have hi: "uint (stored AND 0xffff0000) = push_bit 16 (drop_bit 16 (uint stored))"
    unfolding m by (rule bit_eqI) (auto simp: bit_simps bit_uint_iff dest: bit_imp_le_length)
  have self: "take_bit 16 (uint rx) = uint rx" "take_bit 32 (uint rx) = uint rx"
    using uint_u16 [of rx] by (simp_all add: take_bit_int_eq_self)
  have lo: "uint (ucast rx :: u32) = take_bit 16 (uint rx)"
    by (simp add: unsigned_ucast_eq self)
  have "uint (fcnt32 stored rx) = push_bit 16 (drop_bit 16 (uint stored)) OR take_bit 16 (uint rx)"
    by (simp only: fcnt32_def unsigned_or_eq hi lo)
  also have "\<dots> = push_bit 16 (drop_bit 16 (uint stored)) + take_bit 16 (uint rx)"
    by (rule disjunctive_add_eq_or [symmetric]) (auto intro!: bit_eqI simp: bit_simps)
  also have "\<dots> = 65536 * (uint stored div 65536) + uint rx"
    by (simp add: push_bit_eq_mult drop_bit_eq_div self)
  finally show ?thesis .
qed

lemma uint_split: "uint (x :: u32) = 65536 * (uint x div 65536) + uint (ucast x :: u16)"
proof -
  have "uint (ucast x :: u16) = uint x mod 65536" by (simp add: unsigned_ucast_eq take_bit_eq_mod)
  then show ?thesis by simp
qed

lemma fcnt_differences:
  defines "d stored rx \<equiv> uint (rx :: u16) - uint (ucast (stored :: u32) :: u16)"
  shows "sint (fcnt32 stored rx - stored) = d stored rx"
    "sint ((fcnt32 stored rx + 0x10000) - stored) = d stored rx + 65536"
proof -
  have diff: "uint (fcnt32 stored rx) - uint stored = d stored rx"
    using uint_fcnt32 [of stored rx] uint_split [of stored] by (simp add: d_def)
  have b: "- 65536 < d stored rx \<and> d stored rx < 65536"
    using uint_u16(1) [of rx] uint_u16(1) [of "ucast stored"] uint_u16(2) [of rx] uint_u16(2) [of "ucast stored"]
    unfolding d_def by linarith
  have "fcnt32 stored rx - stored = word_of_int (d stored rx)"
    by (simp add: diff [symmetric])
  then show "sint (fcnt32 stored rx - stored) = d stored rx"
    using sint_small [of "d stored rx"] b by simp
  have "(fcnt32 stored rx + 0x10000) - stored = word_of_int (d stored rx + 65536)"
    by (simp add: diff [symmetric])
  moreover have "sint (word_of_int (d stored rx + 65536) :: u32) = d stored rx + 65536"
    by (rule sint_small) (use b in auto)
  ultimately show "sint ((fcnt32 stored rx + 0x10000) - stored) = d stored rx + 65536"
    by metis
qed

lemma uint_minus16: "uint (a - b :: u16) = (if uint b \<le> uint a then uint a - uint b else uint a - uint b + 65536)"
proof -
  have m: "uint (a - b) = (uint a - uint b) mod 65536" by (simp add: uint_word_ariths)
  note r = uint_u16(1) [of a] uint_u16(1) [of b] uint_u16(2) [of a] uint_u16(2) [of b]
  show ?thesis
  proof (cases "uint b \<le> uint a")
    case True
    have "(uint a - uint b) mod 65536 = uint a - uint b"
      by (rule mod_pos_pos_trivial) (use r True in linarith)+
    then show ?thesis using m True by simp
  next
    case False
    have "(uint a - uint b + 65536) mod 65536 = uint a - uint b + 65536"
      by (rule mod_pos_pos_trivial) (use r False in linarith)+
    then show ?thesis using m False by simp
  qed
qed

lemma replayed_window:
  "\<not> replayed stored (fcnt32 stored rx) \<longleftrightarrow> rx - ucast stored \<le> (0x4000 :: u16)"
proof -
  define a b where ab: "a = uint rx" "b = uint (ucast stored :: u16)"
  have r: "0 \<le> a" "0 \<le> b" "a < 65536" "b < 65536" unfolding ab by (rule uint_u16)+
  have "rx - ucast stored \<le> (0x4000 :: u16) \<longleftrightarrow> (if b \<le> a then a - b else a - b + 65536) \<le> 0x4000"
    unfolding word_le_def uint_minus16 ab by simp
  moreover have "replayed stored (fcnt32 stored rx) \<longleftrightarrow>
      (a - b < 0 \<and> a - b + 65536 > 0x4000) \<or> (a - b > 0x4000 \<and> a - b + 65536 > 0x4000)"
    unfolding replayed_def Let_def fcnt_differences MAX_FCNT_GAP_def ab ..
  ultimately show ?thesis using r by (cases "b \<le> a") (simp_all, linarith+)
qed

text \<open>Behind a wrap of the 16-bit counter the reconstructed value falls below the stored one.\<close>

lemma fcnt32_wrap: "fcnt32 stored rx < stored \<longleftrightarrow> rx < ucast stored"
proof -
  have "uint (fcnt32 stored rx) < uint stored \<longleftrightarrow> uint rx < uint (ucast stored :: u16)"
    using uint_fcnt32 [of stored rx] uint_split [of stored] by linarith
  then show ?thesis by (simp add: word_less_def)
qed

lemma fcnt32_next_period:
  assumes "rx < ucast stored"
  shows "fcnt32 stored rx + 0x10000 - stored = (ucast (rx - ucast stored :: u16) :: u32)"
proof -
  let ?d = "uint rx - uint (ucast stored :: u16)"
  have lt: "uint rx < uint (ucast stored :: u16)" using assms by (simp add: word_less_def)
  have diff: "?d = uint (fcnt32 stored rx) - uint stored"
    using uint_fcnt32 [of stored rx] uint_split [of stored] by linarith
  have eq: "fcnt32 stored rx + 0x10000 - stored = word_of_int (?d + 65536)"
    unfolding diff by simp
  have u: "uint (rx - ucast stored :: u16) = ?d + 65536" using lt uint_minus16 [of rx "ucast stored"] by simp
  show ?thesis unfolding eq ucast_eq [of "rx - ucast stored"] u ..
qed

section \<open>What an accepted frame carries\<close>

text \<open>The octets of the code over a block and a frame, by the one-shot definition.\<close>

definition mic_octets :: "buf \<Rightarrow> block_t \<Rightarrow> buf \<Rightarrow> buf" where
  "mic_octets key block frame = cmac_ref (aes_block (aes_key128 key)) (block_octets block @ frame)"

lemma length_mic_octets [simp]: "length key = 16 \<Longrightarrow> length (mic_octets key b f) = 16"
  using length_cmac_of [of key cmac_mem "[block_octets b, f]"] cmac_of_ref [of key cmac_mem "[block_octets b, f]"]
  by (simp add: mic_octets_def)

lemma cmac_mic:
  "length key = 16 \<Longrightarrow> cmac_of cmac_mem key [block_octets b, f] = mic_octets key b f"
  by (simp add: cmac_of_ref mic_octets_def)

lemma le_word_inj:
  assumes "length a = k" "length b = k" "8 * k \<le> LENGTH('a)"
  shows "(le_word a :: 'a :: len word) = le_word b \<longleftrightarrow> a = b"
  using le_bytes_le_word [of a, where 'a = 'a] le_bytes_le_word [of b, where 'a = 'a] assms by metis

lemma slice2: "off + 1 < length xs \<Longrightarrow> slice off 2 xs = [xs ! off, xs ! (off + 1)]"
  by (simp add: slice_def Cons_nth_drop_Suc [symmetric] numeral_2_eq_2)

lemma bit_u8: "bit (x :: u8) n \<Longrightarrow> n < 8"
  using bit_imp_le_length by fastforce

lemma le_word_2: "(le_word [lo, hi] :: u16) = push_bit 8 (ucast hi) + ucast lo"
proof -
  have "push_bit 8 (ucast hi) + (ucast lo :: u16) = push_bit 8 (ucast hi) OR ucast lo"
    by (rule disjunctive_add_eq_or) (auto intro!: bit_word_eqI simp: bit_simps dest!: bit_u8)
  then show ?thesis by (simp add: le_word_foldr)
qed

lemma check_cmacS_iff:
  assumes "length key = 16" "check_cmacS b key phy = Some ok"
  shows "ok \<longleftrightarrow> take 2 (mic_octets key b (take (unat (lenMsg b)) phy)) = slice (unat (lenMsg b)) 2 phy"
proof -
  have len: "unat (lenMsg b) + 1 < length phy"
    and ok: "ok \<longleftrightarrow> (le_word (take 2 (mic_octets key b (take (unat (lenMsg b)) phy))) :: u16)
      = le_word (slice (unat (lenMsg b)) 2 phy)"
    using assms by (auto simp: check_cmacS_def Let_def arg_def cmac_mic slice2 le_word_2 simp del: le_word.simps
      split: option.splits if_splits)
  show ?thesis unfolding ok by (rule le_word_inj [of _ 2]) (use assms(1) len in \<open>auto simp: slice_def\<close>)
qed

lemma slice4: "off + 3 < length xs \<Longrightarrow> slice off 4 xs = [xs ! off, xs ! (off + 1), xs ! (off + 2), xs ! (off + 3)]"
  by (simp add: slice_def Cons_nth_drop_Suc [symmetric] numeral_eq_Suc)

lemma le_word_4:
  "(le_word [a, b, c, d] :: u32) = push_bit 24 (ucast d) + push_bit 16 (ucast c) + push_bit 8 (ucast b) + ucast a"
proof -
  have 1: "push_bit 24 (ucast d) + push_bit 16 (ucast c) = (push_bit 24 (ucast d) OR push_bit 16 (ucast c) :: u32)"
    by (rule disjunctive_add_eq_or) (auto intro!: bit_word_eqI simp: bit_simps dest!: bit_u8)
  have 2: "(push_bit 24 (ucast d) OR push_bit 16 (ucast c)) + push_bit 8 (ucast b) =
      ((push_bit 24 (ucast d) OR push_bit 16 (ucast c)) OR push_bit 8 (ucast b) :: u32)"
    by (rule disjunctive_add_eq_or) (auto intro!: bit_word_eqI simp: bit_simps dest!: bit_u8)
  have 3: "((push_bit 24 (ucast d) OR push_bit 16 (ucast c)) OR push_bit 8 (ucast b)) + ucast a =
      (((push_bit 24 (ucast d) OR push_bit 16 (ucast c)) OR push_bit 8 (ucast b)) OR ucast a :: u32)"
    by (rule disjunctive_add_eq_or) (auto intro!: bit_word_eqI simp: bit_simps dest!: bit_u8)
  show ?thesis unfolding 1 2 3 by (simp add: le_word_foldr push_bit_or)
qed

lemma check_mic10_iff:
  assumes "length key = 16" "check_mic10 b key phy len = Some ok" "lenMsg b = len - 4"
  shows "ok \<longleftrightarrow> take 4 (mic_octets key b (take (unat len - 4) phy)) = slice (unat len - 4) 4 phy"
proof -
  obtain rx where rx: "rx_mic32 phy len = Some rx" and ok0: "ok \<longleftrightarrow> LoRa_GenerateDataFrameIntegrityCode b key phy = rx"
    using assms(2) by (auto simp: check_mic10_def)
  have len: "4 \<le> unat len" "unat len \<le> length phy" using rx by (auto simp: rx_mic32_def split: if_splits)
  then have l4: "unat (len - 4) = unat len - 4" by (simp add: unat_sub word_le_nat_alt)
  have idx: "unat len - 4 + 1 = unat len - 3" "unat len - 4 + 2 = unat len - 2" "unat len - 4 + 3 = unat len - 1"
    "unat len - 4 + 3 < length phy"
    using len by simp_all
  have "rx = le_word (slice (unat len - 4) 4 phy)"
    using rx len unfolding slice4 [OF idx(4)] le_word_4 idx(1-3) by (simp add: rx_mic32_def Let_def)
  then have ok: "ok \<longleftrightarrow> (le_word (take 4 (mic_octets key b (take (unat len - 4) phy))) :: u32)
      = le_word (slice (unat len - 4) 4 phy)"
    unfolding ok0 LoRa_GenerateDataFrameIntegrityCode_def by (simp add: assms(1,3) cmac_mic l4)
  show ?thesis unfolding ok by (rule le_word_inj [of _ 4]) (use assms(1) len in \<open>auto simp: slice_def\<close>)
qed

lemma accept_uplink_Success: "accept_uplink n m optneg ul d s = Some r \<Longrightarrow> uo_result r = Success"
  by (auto simp: accept_uplink_def Let_def split: prod.splits option.splits)

text \<open>The stages of the handler, one case per way out.\<close>

lemma sNS_uplink_cases:
  assumes "sNS_uplink n m optneg ul d = Some r"
  obtains
    (gate) s eff why where "session_gate n m optneg (state_for n m (ul_RFRegion ul)) = Some (s, eff, Some why)"
      "r = \<lparr>uo_mote = with_s m s, uo_ulmd = ul, uo_discard = d, uo_result = Other, uo_reason = why, uo_effects = eff\<rparr>"
  | (replay) s eff where "session_gate n m optneg (state_for n m (ul_RFRegion ul)) = Some (s, eff, None)"
      "replayed (FCntUp (session m)) (fcnt32 (FCntUp (session m)) (fh_FCnt (parse_fhdr (ULPayloadBin m))))"
      "r = \<lparr>uo_mote = with_s m s, uo_ulmd = ul\<lparr>ul_FCntUp := fcnt32 (FCntUp (session m)) (fh_FCnt (parse_fhdr (ULPayloadBin m)))\<rparr>,
         uo_discard = d, uo_result = Other, uo_reason = ''replay'', uo_effects = eff\<rparr>"
  | (mic) s eff ul1 res where "session_gate n m optneg (state_for n m (ul_RFRegion ul)) = Some (s, eff, None)"
      "ul1 = ul\<lparr>ul_FCntUp := fcnt32 (FCntUp (session m)) (fh_FCnt (parse_fhdr (ULPayloadBin m)))\<rparr>"
      "\<not> replayed (FCntUp (session m)) (ul_FCntUp ul1)"
      "(if optneg then mic_check11 n m (s\<lparr>flags := (flags s)\<lparr>newFCntUp := True\<rparr>\<rparr>) ul1
        else mic_check10 m (s\<lparr>flags := (flags s)\<lparr>newFCntUp := True\<rparr>\<rparr>) ul1) = Some res"
      "case res of
         NoChannel \<Rightarrow> r = \<lparr>uo_mote = with_s m (s\<lparr>flags := (flags s)\<lparr>newFCntUp := True\<rparr>\<rparr>), uo_ulmd = ul1, uo_discard = d,
           uo_result = MICFailed, uo_reason = ''none'', uo_effects = eff\<rparr>
       | MicBad s2 \<Rightarrow> r = \<lparr>uo_mote = with_s (m\<lparr>ULPHYPayloadLen := 0\<rparr>) s2, uo_ulmd = ul1, uo_discard = d,
           uo_result = MICFailed, uo_reason = ''none'', uo_effects = eff\<rparr>
       | MicOk s2 \<Rightarrow> \<exists>r'. accept_uplink n m optneg ul1 d s2 = Some r' \<and> r = r'\<lparr>uo_effects := eff @ uo_effects r'\<rparr>"
proof -
  obtain s eff why where g: "session_gate n m optneg (state_for n m (ul_RFRegion ul)) = Some (s, eff, why)"
    using assms by (auto simp: sNS_uplink_def Let_def split: option.splits prod.splits)
  let ?rx = "fcnt32 (FCntUp (session m)) (fh_FCnt (parse_fhdr (ULPayloadBin m)))"
  let ?ul = "ul\<lparr>ul_FCntUp := ?rx\<rparr>"
  let ?s = "s\<lparr>flags := (flags s)\<lparr>newFCntUp := True\<rparr>\<rparr>"
  show ?thesis
  proof (cases why)
    case (Some w)
    show ?thesis by (rule gate [of s eff w]) (use g Some assms in \<open>auto simp: sNS_uplink_def Let_def\<close>)
  next
    case None
    note g = g [unfolded None]
    show ?thesis
    proof (cases "replayed (FCntUp (session m)) ?rx")
      case True
      show ?thesis by (rule replay [of s eff]) (use g True assms in \<open>auto simp: sNS_uplink_def Let_def\<close>)
    next
      case False
      obtain res where res: "(if optneg then mic_check11 n m ?s ?ul else mic_check10 m ?s ?ul) = Some res"
        using assms False by (auto simp: sNS_uplink_def Let_def g split: option.splits)
      show ?thesis
        by (rule mic [of s eff ?ul res], rule g, rule refl)
          (use False res assms in \<open>auto simp: sNS_uplink_def Let_def g split: mic_result.splits if_splits\<close>)
    qed
  qed
qed

lemma gate_live:
  assumes "session_gate n m optneg s = Some (s', eff, None)"
  shows "until (session m) \<noteq> 0"
  using assms by (auto simp: session_gate_def Let_def split: if_splits)

lemma unat_minus_4: "unat (len - 4 :: u8) = unat len - 4" if "4 \<le> unat len"
  using that by (simp add: unat_sub word_le_nat_alt)

lemma mic_check10_ok:
  assumes "mic_check10 m s ul = Some res" "length (SNwkSIntKeyBin (session m)) = 16"
  defines "phy \<equiv> ULPayloadBin m" and "len \<equiv> ULPHYPayloadLen m"
  defines "good \<equiv> take 4 (mic_octets (SNwkSIntKeyBin (session m))
      (uplink_block 0 0 0 (fh_DevAddr (parse_fhdr phy)) (ul_FCntUp ul) (len - 4)) (take (unat len - 4) phy))
      = slice (unat len - 4) 4 phy"
  shows "res = (if good then MicOk s else MicBad s)"
proof -
  let ?b = "uplink_block 0 0 0 (fh_DevAddr (parse_fhdr phy)) (ul_FCntUp ul) (len - 4)"
  obtain ok where ok: "check_mic10 ?b (SNwkSIntKeyBin (session m)) phy len = Some ok" "res = (if ok then MicOk s else MicBad s)"
    using assms(1) by (auto simp: mic_check10_def Let_def phy_def len_def)
  have "ok \<longleftrightarrow> good"
    unfolding good_def by (rule check_mic10_iff [OF assms(2) ok(1)]) (simp add: uplink_block_def)
  then show ?thesis using ok(2) by simp
qed

lemma mic_check11_ok:
  assumes "mic_check11 n m s ul = Some (MicOk s')" "length (SNwkSIntKeyBin (session m)) = 16"
  defines "phy \<equiv> ULPayloadBin m" and "k \<equiv> ULPHYPayloadLen m - 4"
  shows "\<exists>conf \<in> {ConfFCntDown s, ConfFCntDown s - 1, 0}. \<exists>chan.
    take 2 (mic_octets (SNwkSIntKeyBin (session m))
      (uplink_block conf (ul_DataRate ul) chan (fh_DevAddr (parse_fhdr phy)) (ul_FCntUp ul) k) (take (unat k) phy))
      = slice (unat k) 2 phy"
proof -
  let ?ch = "word_of_int (find_ch (n_regions n) (ULFreq ul) (ul_DataRate ul) (ul_RFRegion ul)) :: u8"
  let ?b = "\<lambda>conf. uplink_block conf (ul_DataRate ul) ?ch (fh_DevAddr (parse_fhdr phy)) (ul_FCntUp ul) k"
  obtain conf where c: "conf \<in> {ConfFCntDown s, ConfFCntDown s - 1, 0}"
    "check_cmacS (?b conf) (SNwkSIntKeyBin (session m)) phy = Some True"
    using assms(1) by (auto simp: mic_check11_def Let_def phy_def k_def split: if_splits option.splits bool.splits)
  have "lenMsg (?b conf) = k" by (simp add: uplink_block_def)
  then show ?thesis using check_cmacS_iff [OF assms(2) c(2)] c(1) by auto
qed

section \<open>The command ring\<close>

text \<open>The regional callbacks leave the ring in its invariant.\<close>

definition regions_ok :: "region_t list \<Rightarrow> bool" where
  "regions_ok rl \<longleftrightarrow> callbacks_ok rl \<and>
    (\<forall>r \<in> set rl. \<forall>f db e d b s s'. cb_init_session (regional r) = Some f \<longrightarrow> f db e d b s = Some s' \<longrightarrow>
      queue_inv (macq s) \<longrightarrow> queue_inv (macq s'))"

lemma init_session_inv:
  assumes "regions_ok rl" "queue_inv (macq s)" "init_session rl db e d s name = Some (k, s')"
  shows "queue_inv (macq s')"
proof (cases "find (\<lambda>r. rg_RFRegion r = name) rl")
  case None
  then show ?thesis using assms(2,3) by (simp add: init_session_def)
next
  case (Some r)
  then have "r \<in> set rl" by (metis (no_types, lifting) find_Some_iff nth_mem)
  then have cb: "queue_inv (macq t)" if "cb_init_session (regional r) = Some f" "f db e d b s = Some t" for f b t
    using assms(1,2) that unfolding regions_ok_def by blast
  show ?thesis using Some assms(2,3) cb by (auto simp: init_session_def split: option.splits)
qed

lemma force_rejoin_inv:
  assumes "queue_inv (macq st)" "sNS_force_rejoin db f e a (Some st) typ = (k, Some st')"
  shows "queue_inv (macq st')"
  using assms mq.wipe_law [OF assms(1)]
  by (auto simp: sNS_force_rejoin_def Let_def split: prod.splits if_splits)

lemma get_queued_inv:
  assumes "queue_inv q" "get_queued_mac_cmds q phy a key cnt optneg = Some (q', phy', need)"
  shows "queue_inv q'"
proof -
  obtain phy2 need2 where "get_queued_mac_cmds q phy a key cnt False = Some (q', phy2, need2)"
    using assms(2) by (auto simp: get_queued_mac_cmds_def Let_def split: prod.splits if_splits option.splits)
  then show ?thesis using get_refines(1) [OF assms(1)] by blast
qed

lemma finish_frame_macq: "finish_frame m s phy af = Some s' \<Longrightarrow> macq s' = macq s"
  by (auto simp: finish_frame_def Let_def split: option.splits mtype_e.splits)

lemma add_frm_macq: "add_frm m s phy = Some (s', phy', af) \<Longrightarrow> macq s' = macq s"
  by (auto simp: add_frm_def Let_def split: if_splits option.splits)

lemma schedule_inv:
  assumes "queue_inv (macq s)" "sNS_schedule_downlink m s = Some s'"
  shows "queue_inv (macq s')"
proof (cases "downlink_wanted m s")
  case True
  then obtain q phy need where get: "get_queued_mac_cmds (macq s) (d_PHYPayloadBin (downlink s)) (m_devAddr m)
      (NwkSEncKeyBin (session m)) (NFCntDown (session m)) (OptNeg (session m)) = Some (q, phy, need)"
    using assms(2) by (auto simp: sNS_schedule_downlink_def split: option.splits)
  have "macq s' = q"
    using assms(2) True
    by (auto simp: sNS_schedule_downlink_def get Let_def finish_frame_macq split: if_splits option.splits
        dest!: finish_frame_macq add_frm_macq)
  then show ?thesis using get_queued_inv [OF assms(1) get] by simp
next
  case False
  then show ?thesis using assms by (simp add: sNS_schedule_downlink_def)
qed

lemma take_ack_macq: "take_ack m s = (m', s', eff) \<Longrightarrow> macq s' = macq s"
  by (auto simp: take_ack_def Let_def split: if_splits)

lemma network_uplink_macq [simp]: "macq (network_controller_uplink s x) = macq s"
  by (simp add: network_controller_uplink_def Let_def)

lemma run_adr_inv: "queue_inv (macq s) \<Longrightarrow> queue_inv (macq (run_adr n m ul s))"
  using adr_queue [of "network_controller_uplink s (rx_snr m)"] by (simp add: run_adr_def Let_def)

lemma start_session_inv:
  "regions_ok (n_regions n) \<Longrightarrow> queue_inv (macq s) \<Longrightarrow> start_session n m ul s = Some s' \<Longrightarrow> queue_inv (macq s')"
  using init_session_inv [of "n_regions n" "s\<lparr>flags := (flags s)\<lparr>session_start_at_uplink := False\<rparr>\<rparr>"]
  by (auto simp: start_session_def split: if_splits)

lemma uplink_commands_inv:
  assumes "queue_inv (macq s)" "callbacks_ok (n_regions n)" "uplink_commands n m optneg ul d s = Some (s', sent, d')"
  shows "queue_inv (macq s')"
proof -
  have e: "callbacks_ok (e_regions (mac_env_of n m ul))" using assms(2) by (simp add: mac_env_of_def)
  show ?thesis
    using assms(1,3) parse_mac_command_inv(1) [OF assms(1) e]
    by (auto simp: uplink_commands_def Let_def split: if_splits option.splits)
qed

lemma accept_uplink_inv:
  assumes "queue_inv (macq s)" "regions_ok (n_regions n)" "accept_uplink n m optneg ul d s = Some r"
  shows "\<exists>s'. m_s (uo_mote r) = Some s' \<and> queue_inv (macq s')"
proof -
  have cb: "callbacks_ok (n_regions n)" using assms(2) by (simp add: regions_ok_def)
  define s1 where "s1 = (if \<not> optneg \<and> checkOldSessions (flags s) then s\<lparr>flags := (flags s)\<lparr>checkOldSessions := False\<rparr>\<rparr> else s)"
  define m1 where "m1 = (if nullNFCntDown (session m) then m\<lparr>session := (session m)\<lparr>nullNFCntDown := False\<rparr>\<rparr> else m)"
  obtain m2 s2 eff3 where ack: "take_ack m1 s1 = (m2, s2, eff3)" by (metis prod_cases3)
  define ul' where "ul' = ul\<lparr>ul_Confirmed := mtype_of (ULPayloadBin m ! 0) = MTYPE_CONF_UP,
     ul_FCntDown := if optneg then AFCntDown s2 else NFCntDown (session m2)\<rparr>"
  have r: "(case Option.bind (start_session n m2 ul' s2) (uplink_commands n m2 optneg ul' d) of None \<Rightarrow> None
    | Some (s4, sent, d') \<Rightarrow> map_option m_s (map_option (with_s m2) (sNS_schedule_downlink m2 ((run_adr n m2 ul' s4)\<lparr>flags :=
        (flags (run_adr n m2 ul' s4))\<lparr>upConfreSent := ul_FCntUp ul' = FCntUp (session m2) \<and> mtype_of (ULPayloadBin m ! 0) = MTYPE_CONF_UP\<rparr>\<rparr>))))
    = Some (m_s (uo_mote r))"
    using assms(3) ack unfolding accept_uplink_def s1_def m1_def ul'_def
    by (simp add: Let_def split: if_splits option.splits prod.splits) auto
  obtain s4 sent d' where cmds0: "Option.bind (start_session n m2 ul' s2) (uplink_commands n m2 optneg ul' d) = Some (s4, sent, d')"
    using r by (auto split: option.splits)
  obtain s3 where s3: "start_session n m2 ul' s2 = Some s3" and cmds: "uplink_commands n m2 optneg ul' d s3 = Some (s4, sent, d')"
    using cmds0 by (auto simp: bind_eq_Some_conv)
  obtain fl s7 where sch: "sNS_schedule_downlink m2 ((run_adr n m2 ul' s4)\<lparr>flags := fl\<rparr>) = Some s7" "m_s (uo_mote r) = Some s7"
    using r unfolding cmds0 by (auto simp: with_s_def) metis
  have "queue_inv (macq s2)"
    using assms(1) take_ack_macq [OF ack] by (simp add: s1_def)
  then have "queue_inv (macq s4)"
    using start_session_inv [OF assms(2) _ s3] uplink_commands_inv [OF _ cb cmds] by blast
  then have "queue_inv (macq ((run_adr n m2 ul' s4)\<lparr>flags := fl\<rparr>))" for fl
    using run_adr_inv by simp
  then show ?thesis using sch schedule_inv by blast
qed

lemma clear_frm_macq [simp]: "macq (clear_frm s) = macq s"
  by (simp add: clear_frm_def)

lemma answer_app_state: "answer_app n m s res httpd = Some (s', j, eff) \<Longrightarrow> s' = s \<or> s' = clear_frm s"
  unfolding answer_app_def Let_def
  by (simp split: if_splits prod.splits) auto

lemma answer_app_macq: "answer_app n m s res httpd = Some (s', j, eff) \<Longrightarrow> macq s' = macq s"
  using answer_app_state by fastforce

lemma session_gate_inv:
  assumes "queue_inv (macq s)" "session_gate n m optneg s = Some (s', eff, why)"
  shows "queue_inv (macq s')"
  using assms force_rejoin_inv [OF assms(1)]
  by (auto simp: session_gate_def Let_def dest!: answer_app_macq split: if_splits prod.splits option.splits)

lemma mic_check_macq:
  "mic_check10 m s ul = Some res \<Longrightarrow> case res of MicOk s' \<Rightarrow> macq s' = macq s | MicBad s' \<Rightarrow> macq s' = macq s | NoChannel \<Rightarrow> True"
  "mic_check11 n m s ul = Some res \<Longrightarrow> case res of MicOk s' \<Rightarrow> macq s' = macq s | MicBad s' \<Rightarrow> macq s' = macq s | NoChannel \<Rightarrow> True"
  by (auto simp: mic_check10_def mic_check11_def resend_conf_def Let_def split: if_splits option.splits bool.splits)

lemma sNS_uplink_inv:
  assumes "queue_inv (macq (state_for n m (ul_RFRegion ul)))" "regions_ok (n_regions n)"
    and "sNS_uplink n m optneg ul d = Some r"
  shows "\<exists>s'. m_s (uo_mote r) = Some s' \<and> queue_inv (macq s')"
  using assms(3)
proof (cases rule: sNS_uplink_cases)
  case (gate s eff why)
  then show ?thesis using session_gate_inv [OF assms(1)] by (auto simp: with_s_def)
next
  case (replay s eff)
  then show ?thesis using session_gate_inv [OF assms(1)] by (auto simp: with_s_def)
next
  case (mic s eff ul1 res)
  have q: "queue_inv (macq s)" using session_gate_inv [OF assms(1) mic(1)] .
  have "case res of MicOk s' \<Rightarrow> queue_inv (macq s') | MicBad s' \<Rightarrow> queue_inv (macq s') | NoChannel \<Rightarrow> True"
    using mic(4) mic_check_macq q by (auto split: if_splits mic_result.splits) fastforce+
  then show ?thesis
    using mic(5) q accept_uplink_inv [OF _ assms(2)]
    by (cases res) (auto simp: with_s_def)
qed

lemma zero_s_inv: "queue_inv (macq zero_s)"
  by (simp add: zero_s_def Let_def empty_queue_inv)

section \<open>The frame that answers\<close>

lemma take_memcpy_at: "off \<le> length dst \<Longrightarrow> take off (memcpy_at dst off src n) = take off dst"
  by (simp add: memcpy_at_def)

lemma finish_frame_ok:
  assumes "finish_frame m s phy af = Some s'" "length phy = 256" "length (SNwkSIntKeyBin (session m)) = 16"
  defines "len \<equiv> d_PHYPayloadLen (downlink s) + 8 + word_of_nat (FOptsLen (phy ! 5))"
    and "cnt \<equiv> if af then AFCntDown s else NFCntDown (session m)"
    and "conf_up \<equiv> mtype_of (ULPayloadBin m ! 0) = MTYPE_CONF_UP"
    and "bin \<equiv> d_PHYPayloadBin (downlink s')"
  assumes "8 \<le> unat len"
  shows "d_PHYPayloadLen (downlink s') = len + 4" "unat len + 4 \<le> 256"
    "parse_fhdr bin = \<lparr>fh_DevAddr = m_devAddr m,
      fh_FCtrl = if conf_up then phy ! 5 OR 0x20 else phy ! 5 AND NOT 0x20, fh_FCnt = ucast cnt\<rparr>"
    "bin ! 0 = phy ! 0" "take (unat len - 8) (drop 8 bin) = take (unat len - 8) (drop 8 phy)"
    "take 4 (mic_octets (SNwkSIntKeyBin (session m))
        (downlink_block (if conf_up \<and> newFCntUp (flags s) \<and> OptNeg (session m) then fh_FCnt (parse_fhdr (ULPayloadBin m)) else 0) (m_devAddr m) cnt len)
        (take (unat len) bin)) = slice (unat len) 4 bin"
proof -
  let ?h = "\<lparr>fh_DevAddr = m_devAddr m, fh_FCtrl = if conf_up then phy ! 5 OR 0x20 else phy ! 5 AND NOT 0x20, fh_FCnt = ucast cnt\<rparr>"
  let ?phy1 = "memcpy_at phy 1 (fhdr_octets ?h) 7"
  define conf where "conf = (if mtype_of (ULPayloadBin m ! 0) \<in> {MTYPE_CONF_UP, MTYPE_UNCONF_UP} \<and> newFCntUp (flags s) \<and>
      OptNeg (session m) \<and> conf_up then fh_FCnt (parse_fhdr (ULPayloadBin m)) else 0)"
  let ?mic = "LoRa_GenerateDataFrameIntegrityCode (downlink_block conf (m_devAddr m) cnt len) (SNwkSIntKeyBin (session m)) ?phy1"
  obtain phy2 where w: "write_at ?phy1 (unat len) (le_bytes 4 ?mic) = Some phy2"
    and out: "d_PHYPayloadLen (downlink s') = len + 4" "bin = phy2"
    using assms(1) unfolding finish_frame_def conf_def conf_up_def cnt_def len_def bin_def
    by (auto simp: Let_def split: option.splits mtype_e.splits)
  have l1: "length ?phy1 = 256" using assms(2) by (simp add: len_simps)
  have fit: "unat len + 4 \<le> 256" and phy2: "phy2 = memcpy_at ?phy1 (unat len) (le_bytes 4 ?mic) 4"
    using w l1 by (auto simp: write_at_def split: if_splits)
  show "d_PHYPayloadLen (downlink s') = len + 4" by (fact out)
  show "unat len + 4 \<le> 256" by (fact fit)
  have front: "take (unat len) phy2 = take (unat len) ?phy1"
    unfolding phy2 by (rule take_memcpy_at) (use fit l1 in simp)
  have phy1: "?phy1 = phy ! 0 # fhdr_octets ?h @ drop 8 phy"
    using assms(2) by (simp add: memcpy_at_def take_Suc_conv_app_nth)
  then obtain rest where rest: "phy2 = phy ! 0 # fhdr_octets ?h @ rest" "take (unat len - 8) rest = take (unat len - 8) (drop 8 phy)"
  proof -
    have "phy2 = take (unat len) ?phy1 @ drop (unat len) phy2" using front by (metis append_take_drop_id)
    also have "take (unat len) ?phy1 = phy ! 0 # fhdr_octets ?h @ take (unat len - 8) (drop 8 phy)"
    proof -
      obtain k where k: "unat len = 8 + k" using assms(8) le_Suc_ex by blast
      show ?thesis unfolding phy1 k by (simp add: take_Cons' len_simps)
    qed
    also have "(phy ! 0 # fhdr_octets ?h @ take (unat len - 8) (drop 8 phy)) @ drop (unat len) phy2 =
        phy ! 0 # fhdr_octets ?h @ (take (unat len - 8) (drop 8 phy) @ drop (unat len) phy2)" by simp
    finally show ?thesis by (rule that) (use fit assms(2,8) in simp)
  qed
  show "parse_fhdr bin = ?h" "bin ! 0 = phy ! 0" "take (unat len - 8) (drop 8 bin) = take (unat len - 8) (drop 8 phy)"
    unfolding out rest(1) using rest(2) by (simp_all add: parse_fhdr_octets)
  have "slice (unat len) 4 phy2 = le_bytes 4 ?mic"
    using fit l1 by (simp add: phy2)
  also have "\<dots> = take 4 (mic_octets (SNwkSIntKeyBin (session m)) (downlink_block conf (m_devAddr m) cnt len) (take (unat len) ?phy1))"
    using assms(3) le_bytes_le_word [of "take 4 (mic_octets (SNwkSIntKeyBin (session m))
        (downlink_block conf (m_devAddr m) cnt len) (take (unat len) ?phy1))", where 'a = 32]
    by (simp add: LoRa_GenerateDataFrameIntegrityCode_def cmac_mic downlink_block_def)
  moreover have "conf = (if conf_up \<and> newFCntUp (flags s) \<and> OptNeg (session m) then fh_FCnt (parse_fhdr (ULPayloadBin m)) else 0)"
    by (auto simp: conf_def conf_up_def)
  ultimately show "take 4 (mic_octets (SNwkSIntKeyBin (session m))
        (downlink_block (if conf_up \<and> newFCntUp (flags s) \<and> OptNeg (session m) then fh_FCnt (parse_fhdr (ULPayloadBin m)) else 0) (m_devAddr m) cnt len)
        (take (unat len) bin)) = slice (unat len) 4 bin"
    unfolding out by (simp only: front)
qed

end
