(* ===== verification/JoinFacts.thy ===== *)
theory JoinFacts
  imports JoinServer Backend UplinkFacts
begin

text \<open>
  Facts about the join server: session keys of different kinds differ, what an
  accepted request must carry, what the device makes of the join-accept, the
  nonce checks, and the keys a network server unwraps from the answer.
\<close>

section \<open>Session keys\<close>

lemma length_session_key_input:
  "length joinEUI = 8 \<Longrightarrow> length (session_key_input optneg t jn joinEUI dn nid) = 16"
  by (simp add: session_key_input_def Let_def)

lemma key_octet_inj: "key_octet t = key_octet t' \<longleftrightarrow> t = t'"
  by (cases t; cases t') simp_all

lemma le_bytes_inj: "8 * k \<ge> LENGTH('a) \<Longrightarrow> le_bytes k (v :: 'a :: len word) = le_bytes k w \<longleftrightarrow> v = w"
  by (metis le_word_le_bytes)

lemma le_bytes_3: "le_bytes 3 (v :: u32) = le_bytes 3 w \<Longrightarrow> v AND 0xffffff = w AND 0xffffff"
proof -
  assume eq: "le_bytes 3 v = le_bytes 3 w"
  have m: "(0xffffff :: u32) = mask 24" by (simp add: mask_eq_exp_minus_1)
  have "bit v n = bit w n" if "n < 24" for n
  proof -
    have k: "n div 8 < 3" using that by simp
    then have "le_bytes 3 v ! (n div 8) = le_bytes 3 w ! (n div 8)" using eq by simp
    then have "ucast (drop_bit (8 * (n div 8)) v) = (ucast (drop_bit (8 * (n div 8)) w) :: u8)"
      using k by (simp add: le_bytes_def)
    then have "bit (ucast (drop_bit (8 * (n div 8)) v) :: u8) (n mod 8) = bit (ucast (drop_bit (8 * (n div 8)) w) :: u8) (n mod 8)"
      by simp
    then show ?thesis by (simp add: bit_simps)
  qed
  then show ?thesis unfolding m by (intro bit_word_eqI) (auto simp: bit_simps)
qed

lemma session_key_inj:
  assumes "GenerateSessionKey optneg t rk jn eui dn nid = GenerateSessionKey optneg t' rk jn' eui dn' nid"
    and "length rk = 16" "length eui = 8"
  shows "t = t' \<and> jn AND 0xffffff = jn' AND 0xffffff \<and> dn = dn'"
proof -
  let ?i = "session_key_input optneg t jn eui dn nid" and ?j = "session_key_input optneg t' jn' eui dn' nid"
  have g: "good_ctx (aes_key128 rk)" using assms(2) by simp
  have "?i = ?j"
    using assms(1) aes_decrypt_encrypt [OF g length_session_key_input [OF assms(3)]]
    unfolding GenerateSessionKey_def Let_def by metis
  then have "key_octet t # le_bytes 3 jn @ (if optneg then take 8 eui else le_bytes 3 nid) @ le_bytes 2 (ucast dn :: u32) =
      key_octet t' # le_bytes 3 jn' @ (if optneg then take 8 eui else le_bytes 3 nid) @ le_bytes 2 (ucast dn' :: u32)"
    by (simp add: session_key_input_def Let_def writers_le_bytes)
  then have parts: "t = t'" "le_bytes 3 jn = le_bytes 3 jn'" "le_bytes 2 (ucast dn :: u32) = le_bytes 2 (ucast dn' :: u32)"
    by (simp_all add: key_octet_inj)
  have "le_bytes 2 (ucast d :: u32) = le_bytes 2 d" for d :: u16
    unfolding le_bytes_def by (intro map_cong refl bit_word_eqI) (auto simp: bit_simps dest: bit_imp_le_length)
  then have "dn = dn'" using parts(3) le_bytes_inj [of 2 dn dn'] by simp
  then show ?thesis using parts le_bytes_3 by blast
qed

section \<open>Accepted requests\<close>

lemma rx_mic32_slice:
  assumes "rx_mic32 phy len = Some mic"
  shows "4 \<le> unat len" "unat len \<le> length phy" "mic = le_word (slice (unat len - 4) 4 phy)"
proof -
  show len: "4 \<le> unat len" "unat len \<le> length phy" using assms by (auto simp: rx_mic32_def split: if_splits)
  have idx: "unat len - 4 + 1 = unat len - 3" "unat len - 4 + 2 = unat len - 2" "unat len - 4 + 3 = unat len - 1"
    "unat len - 4 + 3 < length phy"
    using len by simp_all
  show "mic = le_word (slice (unat len - 4) 4 phy)"
    using assms len unfolding slice4 [OF idx(4)] le_word_4 idx(1-3) by (simp add: rx_mic32_def Let_def)
qed

text \<open>The code of a join frame, by the one-shot definition.\<close>

definition join_mic :: "buf \<Rightarrow> buf \<Rightarrow> buf" where
  "join_mic key msg = take 4 (cmac_ref (aes_block (aes_key128 key)) msg)"

lemma join_mic_code:
  "length key = 16 \<Longrightarrow> LoRa_GenerateJoinFrameIntegrityCode key inp n = join_mic key (take n inp)"
  by (simp add: LoRa_GenerateJoinFrameIntegrityCode_def join_mic_def cmac_of_ref)

lemma length_join_mic [simp, len_simps]: "length key = 16 \<Longrightarrow> length (join_mic key m) = 4"
  using length_cmac_of [of key cmac_mem "[m]"] cmac_of_ref [of key cmac_mem "[m]"] by (simp add: join_mic_def)

lemma get_key_length: "get_sql_joinmote_key db name eui = Some (k, Some key) \<Longrightarrow> k = 1 \<and> length key = 16"
  by (auto simp: get_sql_joinmote_key_def bytes_of_def split: sqlres.splits list.splits option.splits if_splits)

lemma get_key_one: "get_sql_joinmote_key db name eui = Some (1, key) \<Longrightarrow> \<exists>k. key = Some k"
  by (auto simp: get_sql_joinmote_key_def split: sqlres.splits list.splits option.splits if_splits)

lemma js_check_ok:
  assumes "js_check e rx len rq = Some Success"
  shows "eui_buf_to_uint64 (rq_JoinEUI rq) = myJoinEui64 e"
    "rq_MicKey rq = Some key \<Longrightarrow> length key = 16 \<Longrightarrow>
      4 \<le> unat len \<and> unat len \<le> length rx \<and> join_mic key (take (unat len - 4) rx) = slice (unat len - 4) 4 rx"
proof -
  show "eui_buf_to_uint64 (rq_JoinEUI rq) = myJoinEui64 e"
    using assms by (auto simp: js_check_def split: if_splits)
  assume k: "rq_MicKey rq = Some key" "length key = 16"
  obtain mic where mic: "rx_mic32 rx len = Some mic" "mic = le_word (LoRa_GenerateJoinFrameIntegrityCode key rx (unat len - 4))"
    using assms k(1) by (auto simp: js_check_def split: if_splits)
  note m = rx_mic32_slice [OF mic(1)]
  have "(le_word (join_mic key (take (unat len - 4) rx)) :: u32) = le_word (slice (unat len - 4) 4 rx)"
    using mic(2) m(3) k(2) by (simp add: join_mic_code)
  then have "join_mic key (take (unat len - 4) rx) = slice (unat len - 4) 4 rx"
    by (subst (asm) le_word_inj [of _ 4]) (use k(2) m(1,2) in \<open>simp_all add: len_simps\<close>)
  then show "4 \<le> unat len \<and> unat len \<le> length rx \<and> join_mic key (take (unat len - 4) rx) = slice (unat len - 4) 4 rx"
    using m(1,2) by blast
qed

text \<open>The two kinds of request that get through, with what they must carry.\<close>

lemma js_request_cases:
  assumes "js_request e rx len eui = Some (Inr rq)"
  obtains
    (join) key where "mtype_of (hd rx) = MTYPE_JOIN_REQ" "rq_type rq = 0xff"
      "get_sql_joinmote_key (js_db e) ''NwkKey'' eui = Some (1, Some key)" "rq_MicKey rq = Some key"
      "eui = eui_buf_to_uint64 (slice 9 8 rx)" "rq_JoinEUI rq = slice 1 8 rx" "rq_nonce rq = le_word (slice 17 2 rx)"
      "js_check e rx len rq = Some Success" "19 \<le> length rx"
  | (rejoin) "mtype_of (hd rx) = MTYPE_REJOIN_REQ" "rq_type rq \<in> {0, 2}" "rq_type rq = rx ! 1" "rq_MicKey rq = None"
      "rq_JoinEUI rq = uint64_to_eui_buf (myJoinEui64 e)" "rq_nonce rq = le_word (slice 13 2 rx)" "js_check e rx len rq = Some Success"
proof -
  obtain m ms where rx: "rx = m # ms" using assms by (auto simp: js_request_def split: list.splits)
  have chk: "js_check e rx len rq = Some Success"
    using assms unfolding js_request_def rx by (auto split: option.splits sum.splits if_splits)
  have src: "(case mtype_of m of MTYPE_REJOIN_REQ \<Rightarrow> js_rejoin e rx eui | MTYPE_JOIN_REQ \<Rightarrow> js_join e rx eui
      | _ \<Rightarrow> Some (Inl Other)) = Some (Inr rq)"
    using assms unfolding js_request_def rx by (auto split: option.splits sum.splits if_splits)
  consider "mtype_of m = MTYPE_JOIN_REQ" "js_join e rx eui = Some (Inr rq)"
    | "mtype_of m = MTYPE_REJOIN_REQ" "js_rejoin e rx eui = Some (Inr rq)"
    using src by (cases "mtype_of m") auto
  then show ?thesis
  proof cases
    case 1
    obtain k key where r: "get_sql_joinmote_key (js_db e) ''NwkKey'' eui = Some (k, key)" "k = 1"
      "eui = eui_buf_to_uint64 (slice 9 8 rx)" "19 \<le> length rx"
      "rq = \<lparr>rq_MicKey = key, rq_JoinEUI = slice 1 8 rx, rq_nonce = le_word (slice 17 2 rx), rq_type = 0xff\<rparr>"
      using 1(2) by (auto simp: js_join_def field_at_def split: if_splits option.splits)
    obtain k' where "key = Some k'" using get_key_one r(1,2) by metis
    then show ?thesis using join [of k'] r chk 1(1) rx by simp
  next
    case 2
    show ?thesis
      using rejoin 2 chk rx
      by (cases ms) (auto simp: js_rejoin_def field_at_def slice_def split: if_splits option.splits)
  qed
qed

section \<open>The join-accept as the device reads it\<close>

text \<open>The device enciphers each block of what it received behind the header.\<close>

definition device_reads :: "buf \<Rightarrow> buf \<Rightarrow> buf" where
  "device_reads key tx =
    take 1 tx @ aes_block (aes_key128 key) (slice 1 16 tx) @
      (if length tx > 17 then aes_block (aes_key128 key) (slice 17 16 tx) else [])"

lemma aes_decrypt_unblock: "length key = 16 \<Longrightarrow> snd (aes_decrypt b o1 (aes_key128 key)) = aes_unblock (aes_key128 key) b"
  using good_aes_key128 [of key] by (simp add: aes_decrypt_def aes_unblock_def good_ctx_def)

lemma CryptJoinServer_blocks:
  assumes "length key = 16" "32 \<le> length out" "16 \<le> len"
  shows "CryptJoinServer key inp len out =
    aes_unblock (aes_key128 key) (take 16 inp) @ aes_unblock (aes_key128 key) (slice 16 16 inp) @ drop 32 out"
proof -
  have "length (aes_unblock (aes_key128 key) b) = 16" for b
    using aes.D_length assms(1) by simp
  then show ?thesis
    using assms by (simp add: CryptJoinServer_def Let_def aes_decrypt_unblock memcpy_at_def)
qed

lemma device_reads_encrypted:
  assumes "length key = 16" "length (js_uncyphered e) = 222" "length (js_txBuf e) = 256"
    and "hd frame = 0x20" "length frame = 17 \<or> length frame = 33"
  shows "length (js_encrypt e key frame) = length frame" "hd (js_encrypt e key frame) = 0x20"
    "device_reads key (js_encrypt e key frame) = frame"
proof -
  let ?k = "aes_key128 key" and ?un = "memcpy_at (js_uncyphered e) 0 frame (length frame)"
  let ?b = "take 16 (drop 1 ?un)" and ?c = "slice 16 16 (drop 1 ?un)"
  have ul: "length (aes_unblock ?k b) = 16" for b using aes.D_length assms(1) by simp
  have w: "16 \<le> (word_of_nat (length frame - 1) :: u16)" using assms(5) by auto
  have lun: "length ?un = 222" using assms(2,5) by auto
  have tx: "js_encrypt e key frame = take (length frame) (0x20 # aes_unblock ?k ?b @ aes_unblock ?k ?c @ drop 32 (drop 1 (js_txBuf e)))"
    using CryptJoinServer_blocks [OF assms(1) _ w] assms(3) by (simp add: js_encrypt_def Let_def)
  show "hd (js_encrypt e key frame) = 0x20" "length (js_encrypt e key frame) = length frame"
    unfolding tx using assms(3,5) ul by auto
  have bl: "length ?b = 16" "length ?c = 16" using lun by simp_all
  have un: "drop 1 ?un = drop 1 frame @ drop (length frame) (js_uncyphered e)"
    using assms(5) by (auto simp: memcpy_at_def)
  have s1: "slice 1 16 (js_encrypt e key frame) = aes_unblock ?k ?b"
    unfolding tx using assms(5) ul by (auto simp: slice_def)
  have s2: "slice 17 16 (js_encrypt e key frame) = aes_unblock ?k ?c" if "length frame = 33"
    unfolding tx that using ul by (simp add: slice_def)
  have front: "take 1 (js_encrypt e key frame) = [0x20]"
    unfolding tx using assms(5) by auto
  have f0: "frame = 0x20 # drop 1 frame" using assms(4,5) by (cases frame) auto
  have ED: "aes_block ?k (aes_unblock ?k b) = b" if "length b = 16" for b using aes.E_D assms(1) that by simp
  have len: "length (js_encrypt e key frame) = length frame" unfolding tx using assms(3,5) ul by auto
  show "device_reads key (js_encrypt e key frame) = frame"
  proof (cases "length frame = 17")
    case True
    then have "?b = drop 1 frame" unfolding un by simp
    moreover have "\<not> 17 < length (js_encrypt e key frame)" using len True by simp
    ultimately show ?thesis using f0 unfolding device_reads_def front s1 ED [OF bl(1)] by simp
  next
    case False
    then have l: "length frame = 33" using assms(5) by simp
    have "?b @ ?c = drop 1 frame" unfolding un slice_def using l
      using append_take_drop_id [of 16 "drop 1 frame"] by simp
    moreover have "17 < length (js_encrypt e key frame)" using len l by simp
    ultimately show ?thesis using f0 unfolding device_reads_def front s1 s2 [OF l] ED [OF bl(1)] ED [OF bl(2)] by simp
  qed
qed

section \<open>The answer\<close>

lemma add_envelopes_names:
  "add_envelopes wrap ks ans = (True, out) \<Longrightarrow> n \<notin> fst ` set ks \<Longrightarrow> map_of out n = map_of ans n"
  by (induction wrap ks ans rule: add_envelopes.induct) (auto simp: add_field_get split: option.splits)

lemma add_envelopes_all:
  assumes "add_envelopes wrap ks ans = (True, out)" "distinct (map fst ks)" "(n, key, ke) \<in> set ks"
  shows "\<exists>env. map_of out n = Some (JObj env) \<and> create_KeyEnvelope wrap key ke = Some env"
  using assms
proof (induction wrap ks ans rule: add_envelopes.induct)
  case (2 wrap name key' ke' ks ans)
  then obtain env where env: "create_KeyEnvelope wrap key' ke' = Some env"
    and out: "add_envelopes wrap ks (add_field name (JObj env) ans) = (True, out)"
    by (auto split: option.splits)
  show ?case
  proof (cases "n = name")
    case True
    then have "key' = key" "ke' = ke" using 2(3,4) by (auto simp: rev_image_eqI)
    moreover have "map_of out name = Some (JObj env)"
      using add_envelopes_names [OF out] 2(3) by (simp add: add_field_get)
    ultimately show ?thesis using env True by simp
  next
    case False
    then show ?thesis using 2(1) [OF env out] 2(3,4) by simp
  qed
qed simp

lemma session_keys_names:
  "distinct (map fst (session_keys e optneg nk ak jn rq netid))"
  "n \<in> fst ` set (session_keys e optneg nk ak jn rq netid) \<Longrightarrow> n \<noteq> ''Lifetime'' \<and> n \<noteq> ''PHYPayload''"
  by (auto simp: session_keys_def Let_def split: if_splits)

lemma js_answer_ok:
  assumes "js_answer e eui (session_keys e optneg nk ak jn rq netid) tx = Some (Success, ans)"
  shows "map_of ans ''PHYPayload'' = Some (JStr (hex_of_buf tx))"
    "(n, key, ke) \<in> set (session_keys e optneg nk ak jn rq netid) \<Longrightarrow>
      \<exists>env. map_of ans n = Some (JObj env) \<and> create_KeyEnvelope (js_wrap e) key ke = Some env"
proof -
  obtain ok envs where env: "add_envelopes (js_wrap e) (session_keys e optneg nk ak jn rq netid) [] = (ok, envs)"
    by fastforce
  obtain l :: u32 where ok: ok and ans: "ans = add_field ''Lifetime'' (JInt (c_int l)) (add_field ''PHYPayload'' (JStr (hex_of_buf tx)) envs)"
    using assms by (cases ok) (auto simp: js_answer_def Let_def env split: sqlres.splits list.splits option.splits)
  show "map_of ans ''PHYPayload'' = Some (JStr (hex_of_buf tx))" by (simp add: ans add_field_get)
  assume k: "(n, key, ke) \<in> set (session_keys e optneg nk ak jn rq netid)"
  have "n \<noteq> ''Lifetime'' \<and> n \<noteq> ''PHYPayload''"
    using k by (intro session_keys_names(2) [of n e optneg nk ak jn rq netid]) (metis fst_conv image_eqI)
  then show "\<exists>env. map_of ans n = Some (JObj env) \<and> create_KeyEnvelope (js_wrap e) key ke = Some env"
    using add_envelopes_all [OF _ session_keys_names(1) k] env ok by (simp add: ans add_field_get)
qed

text \<open>A request answered with Success went through every stage.\<close>

lemma parse_join_Success:
  assumes "parse_rf_join_req e inp netid = Some out" "jo_result out = Success"
  obtains rx len eui rq k app jn where "js_frame e inp = Some (Inr (rx, len, eui))" "js_request e rx len eui = Some (Inr rq)"
    "get_sql_joinmote_key (js_db e) ''AppKey'' eui = Some (k, app)" "0 \<le> k"
    "(if k = 1 then js_nonce11 e eui rq else Some (js_nonce10 e eui rq)) = Some (Inr jn, jo_statements out)"
    "js_complete e inp netid eui rq (k = 1) (case app of Some a \<Rightarrow> a | None \<Rightarrow> []) jn = Some (Success, jo_answer out)"
proof -
  have js_frame_err: "js_frame e inp \<noteq> Some (Inl Success)"
    by (auto simp: js_frame_def Let_def split: option.splits)
  have nonce_err: "js_nonce11 e eui rq \<noteq> Some (Inl Success, qs)" "js_nonce10 e eui rq \<noteq> (Inl Success, qs)" for eui rq qs
    by (auto simp: js_nonce11_def js_nonce10_def Let_def split: sqlres.splits list.splits option.splits if_splits)
  have rej: "js_rejoin e rx eui \<noteq> Some (Inl Success)" "js_join e rx eui \<noteq> Some (Inl Success)" for rx eui
    by (auto simp: js_rejoin_def js_join_def split: option.splits if_splits)
  have req_err: "js_request e rx len eui \<noteq> Some (Inl Success)" for rx len eui
    using rej by (auto simp: js_request_def split: list.splits option.splits sum.splits mtype_e.splits if_splits)
  show ?thesis
    using assms that js_frame_err nonce_err req_err unfolding parse_rf_join_req_def Let_def
    by (auto split: option.splits sum.splits if_splits prod.splits) 
qed

text \<open>The keys of the join-accept: its integrity key and the key the device deciphers it with.\<close>

definition has_key :: "js_env \<Rightarrow> u64 \<Rightarrow> string \<Rightarrow> buf \<Rightarrow> bool" where
  "has_key e eui name key \<longleftrightarrow> get_sql_joinmote_key (js_db e) name eui = Some (1, Some key)"

definition accept_keys :: "js_env \<Rightarrow> u64 \<Rightarrow> join_rq \<Rightarrow> bool \<Rightarrow> buf \<Rightarrow> buf \<Rightarrow> bool" where
  "accept_keys e eui rq optneg ik ek \<longleftrightarrow>
    has_key e eui (if optneg then ''JSIntKey'' else ''NwkKey'') ik \<and>
    has_key e eui (if optneg \<and> rq_type rq \<noteq> 0xff then ''JSEncKey'' else ''NwkKey'') ek"

lemma get_key_has: "get_sql_joinmote_key (js_db e) name eui = Some (k, Some key) \<Longrightarrow> has_key e eui name key"
  using get_key_length by (auto simp: has_key_def)

lemma js_complete_Success:
  assumes "js_complete e inp netid eui rq optneg appKey jn = Some (Success, ans)"
  obtains nk addr dls delay cfl ik ek where "has_key e eui ''NwkKey'' nk"
    "js_fields e inp optneg = Some (Inr (addr, dls, delay, cfl))" "accept_keys e eui rq optneg ik ek"
    "js_answer e eui (session_keys e optneg nk appKey jn rq netid)
       (js_encrypt e ek (let clear = joinAccept_octets jn netid addr dls delay @ cfl in clear @ js_mic optneg ik rq clear))
       = Some (Success, ans)"
proof -
  have f: "js_fields e inp optneg \<noteq> Some (Inl Success)"
    by (auto simp: js_fields_def Let_def split: option.splits)
  obtain k nwk where nwk: "get_sql_joinmote_key (js_db e) ''NwkKey'' eui = Some (k, nwk)" "0 \<le> k"
    using assms by (auto simp: js_complete_def split: option.splits if_splits)
  obtain addr dls delay cfl where fields: "js_fields e inp optneg = Some (Inr (addr, dls, delay, cfl))"
    using assms f nwk by (auto simp: js_complete_def split: option.splits if_splits sum.splits)
  let ?clear = "joinAccept_octets jn netid addr dls delay @ cfl"
  obtain ki ik where ik: "(if optneg then get_sql_joinmote_key (js_db e) ''JSIntKey'' eui else Some (k, nwk)) = Some (ki, Some ik)"
    using assms nwk by (auto simp: js_complete_def fields Let_def split: option.splits if_splits)
  obtain kx ek where ek: "(if optneg \<and> rq_type rq \<noteq> 0xff then get_sql_joinmote_key (js_db e) ''JSEncKey'' eui else Some (k, nwk))
      = Some (kx, Some ek)"
    using assms nwk ik by (auto simp: js_complete_def fields Let_def split: option.splits if_splits)
  obtain nk where nk: "nwk = Some nk"
    using assms nwk ik ek by (auto simp: js_complete_def fields Let_def split: option.splits if_splits)
  have ans: "js_answer e eui (session_keys e optneg nk appKey jn rq netid) (js_encrypt e ek (?clear @ js_mic optneg ik rq ?clear))
      = Some (Success, ans)"
    using assms nwk ik ek nk by (auto simp: js_complete_def fields Let_def split: if_splits)
  show ?thesis
  proof (rule that [of nk addr dls delay cfl ik ek])
    show "has_key e eui ''NwkKey'' nk" using nwk(1) nk get_key_has by blast
    show "accept_keys e eui rq optneg ik ek"
      using ik ek nwk(1) nk unfolding accept_keys_def by (auto intro!: get_key_has split: if_splits)
    show "js_fields e inp optneg = Some (Inr (addr, dls, delay, cfl))" by (fact fields)
  qed (use ans in \<open>simp add: Let_def\<close>)
qed

lemma has_key_length: "has_key e eui name key \<Longrightarrow> length key = 16"
  using get_key_length by (auto simp: has_key_def)

lemma length_joinAccept [simp, len_simps]: "length (joinAccept_octets jn nid a d y) = 13"
  by (simp add: joinAccept_octets_def)

lemma js_fields_cfl:
  assumes "js_fields e inp optneg = Some (Inr (addr, dls, delay, cfl))"
    and "\<forall>c. map_of inp ''CFList'' = Some c \<longrightarrow> length (js_text e c) \<in> {0, 32}"
  shows "length cfl = 0 \<or> length cfl = 16"
proof (cases "map_of inp ''CFList''")
  case None
  then show ?thesis using assms(1) by (auto simp: js_fields_def Let_def split: option.splits)
next
  case (Some c)
  then obtain n where "hex_pairs n (js_text e c) = Some cfl" "n = (length (js_text e c) + 1) div 2"
    using assms(1) by (auto simp: js_fields_def Let_def split: option.splits if_splits)
  then show ?thesis using assms(2) Some hex_pairs_length by fastforce
qed

lemma js_mic_code: "length ik = 16 \<Longrightarrow> js_mic optneg ik rq clear = join_mic ik (if optneg then js_mic_front rq @ clear else clear)"
  by (simp add: js_mic_def Let_def join_mic_code)

lemma join_accept_read:
  assumes "js_complete e inp netid eui rq optneg appKey jn = Some (Success, ans)"
    and "length (js_uncyphered e) = 222" "length (js_txBuf e) = 256"
    and "\<forall>c. map_of inp ''CFList'' = Some c \<longrightarrow> length (js_text e c) \<in> {0, 32}"
  obtains addr dls delay cfl ik ek tx clear where "js_fields e inp optneg = Some (Inr (addr, dls, delay, cfl))"
    "clear = joinAccept_octets jn netid addr dls delay @ cfl" "accept_keys e eui rq optneg ik ek"
    "map_of ans ''PHYPayload'' = Some (JStr (hex_of_buf tx))"
    "device_reads ek tx = clear @ join_mic ik (if optneg then js_mic_front rq @ clear else clear)"
  using assms(1)
proof (cases rule: js_complete_Success)
  case (1 nk addr dls delay cfl ik ek)
  let ?clear = "joinAccept_octets jn netid addr dls delay @ cfl"
  let ?frame = "?clear @ js_mic optneg ik rq ?clear"
  have l: "length ik = 16" "length ek = 16" using 1(3) has_key_length by (auto simp: accept_keys_def)
  have "hd ?frame = 0x20" "length ?frame = 17 \<or> length ?frame = 33"
    using js_fields_cfl [OF 1(2) assms(4)] l by (auto simp: joinAccept_octets_def js_mic_code len_simps)
  from device_reads_encrypted(3) [OF l(2) assms(2,3) this]
  show ?thesis
    using that [OF 1(2) refl 1(3) js_answer_ok(1) [OF 1(4)]] by (simp add: js_mic_code [OF l(1)] Let_def)
qed

section \<open>The keys a network server unwraps\<close>

lemma answer_keys_unwrapped:
  assumes "js_complete e inp netid eui rq optneg appKey jn = Some (Success, ans)"
    and "\<And>s. txt (JStr s) = s"
    and "\<And>kek key enc. js_wrap e kek key = Some enc \<Longrightarrow> length enc = 24 \<and> unwr kek enc = Some key"
    and "length appKey = 16 \<or> \<not> optneg"
  obtains nk where "has_key e eui ''NwkKey'' nk"
    "\<forall>(n, key, ke) \<in> set (session_keys e optneg nk appKey jn rq netid).
       \<exists>env. map_of ans n = Some (JObj env) \<and> parse_key_envelope txt unwr env ke = Some (Inr key)"
  using assms(1)
proof (cases rule: js_complete_Success)
  case (1 nk addr dls delay cfl ik ek)
  have len: "length (GenerateSessionKey on t rk jn eui dn nid) = 16" if "length rk = 16" for on t rk jn eui dn nid
    using aes.E_length [of "aes_key128 rk"] that by (simp add: GenerateSessionKey_def aes_block_def Let_def)
  have k: "length key = 16" if "(n, key, ke) \<in> set (session_keys e optneg nk appKey jn rq netid)" for n key ke
    using that has_key_length [OF 1(1)] assms(4) by (auto simp: session_keys_def Let_def len split: if_splits)
  show ?thesis
    using that [OF 1(1)] js_answer_ok(2) [OF 1(4)] envelope_roundtrip [OF assms(2) k assms(3)]
    by fastforce
qed

section \<open>Nonces\<close>

text \<open>The last nonce the database has for a 1.1 device; NULL counts as 0.\<close>

definition last_nonce :: "js_env \<Rightarrow> u64 \<Rightarrow> join_rq \<Rightarrow> u32 option" where
  "last_nonce e eui rq =
    (case js_db e (nonce_query rq eui) of SqlRows (row # _) \<Rightarrow> map_option fst (nonce_row row) | _ \<Rightarrow> None)"

lemma js_nonce11_fresh:
  assumes "js_nonce11 e eui rq = Some (Inr jn, qs)"
  shows "\<exists>l. last_nonce e eui rq = Some l \<and> l < ucast (rq_nonce rq)" "qs = [nonce_update rq eui]"
  using assms by (auto simp: js_nonce11_def last_nonce_def not_le split: sqlres.splits list.splits option.splits if_splits)

lemma js_nonce11_accepts:
  assumes "js_nonce11 e eui rq = Some (r, qs)" "last_nonce e eui rq = Some l" "l < ucast (rq_nonce rq)"
  shows "r = Inl JoinReqFailed \<or> (\<exists>jn. r = Inr jn)"
  using assms by (auto simp: js_nonce11_def last_nonce_def split: sqlres.splits list.splits option.splits if_splits)

lemma js_nonce10_fresh:
  assumes "js_nonce10 e eui rq = (Inr jn, qs)"
  shows "check_nonce (js_db e) eui (rq_nonce rq) = 0"
    "qs = [''INSERT INTO nonces (mote, nonce) VALUE ('' @ print_unsigned eui @ '', '' @ print_unsigned (rq_nonce rq) @ '')'']"
  using assms by (auto simp: js_nonce10_def split: if_splits)

end
