(* ===== verification/Metadata.thy ===== *)
theory Metadata
  imports Backend Database
begin

text \<open>
  The metadata that travels with a frame between the servers: its JSON form and
  back (generateULMetaData, generateDLMetaData and parseDLMetaData of
  network_server/common.c, ParseULMetaData of libbackend/libserver.c), and the
  receive window parameters sNS_band_conv puts into a downlink's metadata.
  None is an access through a null pointer or an uninitialised variable.
\<close>

section \<open>Uplink metadata\<close>

definition generateGWInfoElement :: "GWInfo_t \<Rightarrow> role_e \<Rightarrow> bool \<Rightarrow> json option" where
  "generateGWInfoElement g from_role up =
    (case gw_RFRegion g of None \<Rightarrow> None
     | Some region \<Rightarrow>
         Some (JObj ([(''ID'', JStr (print_hex (gw_id g))), (''RFRegion'', JStr region), (''RSSI'', JInt (RSSI g)), (''SNR'', JInt (SNR g)),
                (''Lat'', JReal (Lat g)), (''Lon'', JReal (Lon g))] @
           (if up \<and> from_role = fNS \<or> \<not> up \<and> from_role = sNS
            then (case gw_ULToken g of Some t \<Rightarrow> [(''ULToken'', JStr t)] | None \<Rightarrow> []) @ [(''DLAllowed'', JBool (DLAllowed g))]
            else []))))"

text \<open>The array of gateways: undefined when the list is shorter than its count.\<close>

definition gw_array :: "ULMetaData_t \<Rightarrow> role_e \<Rightarrow> json list option" where
  "gw_array md from_role =
    (if length (gwList md) < unat (GWCnt md) then None
     else those (map (\<lambda>g. case g of None \<Rightarrow> None | Some i \<Rightarrow> generateGWInfoElement i from_role True) (take (unat (GWCnt md)) (gwList md))))"

text \<open>Some None is the NULL returned for a count without a list.\<close>

definition ul_gateways :: "ULMetaData_t \<Rightarrow> role_e \<Rightarrow> bool \<Rightarrow> fields option option" where
  "ul_gateways md from_role addGWMetadata =
    (if addGWMetadata \<and> GWCnt md > 0 then
       (if gwList md = [] then Some None
        else map_option (\<lambda>a. Some [(''GWInfo'', JArr a), (''GWCnt'', JInt (uint (GWCnt md)))]) (gw_array md from_role))
     else Some (Some []))"

definition ul_addresses :: "u64 \<Rightarrow> u32 \<Rightarrow> fields" where
  "ul_addresses eui addr =
    (if eui \<noteq> NONE_DEVEUI then [(''DevEUI'', JStr (print_hex eui))] else []) @
    (if addr \<noteq> NONE_DEVADDR then [(''DevAddr'', JStr (print_hex addr))] else [])"

definition generateULMetaData :: "ULMetaData_t \<Rightarrow> role_e \<Rightarrow> bool \<Rightarrow> fields option option" where
  "generateULMetaData md from_role addGWMetadata =
    (case ul_gateways md from_role addGWMetadata of None \<Rightarrow> None
     | Some None \<Rightarrow> Some None
     | Some (Some front) \<Rightarrow>
         (case (if from_role = fNS then ul_RFRegion md else Some []) of None \<Rightarrow> None
          | Some region \<Rightarrow>
              Some (Some (front @ ul_addresses (ul_DevEUI md) (ul_DevAddr md) @
                (if from_role = sNS then [(''FPort'', JInt (ul_FPort md)), (''FCntDown'', JInt (c_int (ul_FCntDown md))),
                    (''FCntUp'', JInt (c_int (ul_FCntUp md))), (''Confirmed'', JBool (ul_Confirmed md))] else []) @
                [(''DataRate'', JInt (uint (ul_DataRate md))), (''ULFreq'', JReal (ULFreq md))] @
                (if from_role = fNS then (''RFRegion'', JStr region) #
                    (case ul_FNSULToken md of Some t \<Rightarrow> [(''FNSULToken'', JStr t)] | None \<Rightarrow> []) else []) @
                [(''RecvTime'', JStr (RecvTime md))]))))"

text \<open>A member, when it is there, replaces a value.\<close>

definition member :: "fields \<Rightarrow> string \<Rightarrow> (json \<Rightarrow> 'a) \<Rightarrow> 'a \<Rightarrow> 'a" where
  "member j name f old = (case map_of j name of Some v \<Rightarrow> f v | None \<Rightarrow> old)"

definition int8 :: "int \<Rightarrow> int" where "int8 i = sint (word_of_int i :: u8)"

definition zero_gw :: GWInfo_t where
  "zero_gw = \<lparr>gw_id = 0, gw_RFRegion = None, RSSI = 0, SNR = 0, Lat = 0, Lon = 0, gw_ULToken = None, DLAllowed = False\<rparr>"

definition parseGWInfoElement :: "json_api \<Rightarrow> json \<Rightarrow> GWInfo_t" where
  "parseGWInfoElement a j =
    (let ob = members j
     in \<lparr>gw_id = member ob ''ID'' (\<lambda>v. store (sscanf_hex (ja_text a v)) 0) 0,
         gw_RFRegion = member ob ''RFRegion'' (\<lambda>v. getRFRegion (ja_text a v)) None,
         RSSI = member ob ''RSSI'' (\<lambda>v. int8 (ja_int a v)) (- 128),
         SNR = member ob ''SNR'' (\<lambda>v. int8 (ja_int a v)) (- 128),
         Lat = member ob ''Lat'' (ja_real a) 0, Lon = member ob ''Lon'' (ja_real a) 0,
         gw_ULToken = member ob ''ULToken'' (\<lambda>v. Some (ja_text a v)) None,
         DLAllowed = member ob ''DLAllowed'' (ja_bool a) False\<rparr>)"

text \<open>The members before the gateways; the times and counts of the record are reset first.\<close>

definition ul_scalars :: "json_api \<Rightarrow> fields \<Rightarrow> ULMetaData_t \<Rightarrow> ULMetaData_t" where
  "ul_scalars a j md =
    md\<lparr>ul_DevEUI := member j ''DevEUI'' (\<lambda>v. store (sscanf_hex (ja_text a v)) NONE_DEVEUI) NONE_DEVEUI,
       ul_DevAddr := member j ''DevAddr'' (\<lambda>v. store (sscanf_hex (ja_text a v)) NONE_DEVADDR) NONE_DEVADDR,
       ul_FPort := member j ''FPort'' (ja_int a) (- 1),
       ul_FCntDown := member j ''FCntDown'' (\<lambda>v. word_of_int (ja_int a v)) 0,
       ul_FCntUp := member j ''FCntUp'' (\<lambda>v. word_of_int (ja_int a v)) 0,
       ul_Confirmed := member j ''Confirmed'' (ja_bool a) (ul_Confirmed md),
       ul_DataRate := member j ''DataRate'' (\<lambda>v. word_of_int (ja_int a v)) 0xff,
       ULFreq := member j ''ULFreq'' (ja_real a) 0,
       Margin := member j ''Margin'' (ja_int a) (Margin md),
       Battery := member j ''Battery'' (ja_int a) (Battery md),
       ul_FNSULToken := member j ''FNSULToken'' (\<lambda>v. Some (ja_text a v)) None,
       RecvTime := [], ul_RFRegion := None, GWCnt := 0, gwList := []\<rparr>"

definition ParseULMetaData :: "json_api \<Rightarrow> fields \<Rightarrow> ULMetaData_t \<Rightarrow> (int \<times> ULMetaData_t) option" where
  "ParseULMetaData a j md0 =
    (let md1 = ul_scalars a j md0
     in case map_of j ''RecvTime'' of None \<Rightarrow> Some (- 1, md1)
        | Some t \<Rightarrow>
            let md2 = md1\<lparr>RecvTime := take 32 (ja_text a t), ul_RFRegion := member j ''RFRegion'' (\<lambda>v. getRFRegion (ja_text a v)) None,
                  GWCnt := member j ''GWCnt'' (\<lambda>v. word_of_int (ja_int a v)) 0\<rparr>
            in (case map_of j ''GWInfo'' of
                  None \<Rightarrow> Some (if GWCnt md2 > 0 then - 1 else 0, md2)
                | Some (JArr gs) \<Rightarrow>
                    (if length gs \<noteq> unat (GWCnt md2) then Some (- 1, md2)
                     else Some (0, md2\<lparr>gwList := (if gs = [] then [None] else map (\<lambda>g. Some (parseGWInfoElement a g)) gs)\<rparr>))
                | Some _ \<Rightarrow> None))"

section \<open>Downlink metadata\<close>

definition sNS_band_conv ::
  "ns_env \<Rightarrow> u8 \<Rightarrow> u64 \<Rightarrow> u32 \<Rightarrow> rat \<Rightarrow> u8 \<Rightarrow> u8 \<Rightarrow> string option \<Rightarrow> DLMetaData_t \<Rightarrow> (int \<times> DLMetaData_t) option" where
  "sNS_band_conv n rw devEui devAddr freq rate droff region md =
    (case find (\<lambda>r. rg_RFRegion r = region) (n_regions n) of None \<Rightarrow> Some (- 1, md)
     | Some r \<Rightarrow>
         if rw = 1 then
           (case rx1_band_conv (regional r) of Some f \<Rightarrow> map_option (Pair 0) (f freq rate droff md) | None \<Rightarrow> Some (- 1, md))
         else if rw = 2 then
           let md1 = md\<lparr>dl_DLFreq1 := 0\<rparr>
           in (case deviceProfileReq (n_db n) devEui devAddr ''RXFreq2'' 32 of None \<Rightarrow> Some (- 1, md1)
               | Some t \<Rightarrow>
                   let md2 = md1\<lparr>dl_DLFreq2 := n_float n t\<rparr>
                   in (case deviceProfileReq (n_db n) devEui devAddr ''RXDataRate2'' 32 of None \<Rightarrow> Some (- 1, md2)
                       | Some u \<Rightarrow> map_option (\<lambda>k. (0, md2\<lparr>DataRate2 := ucast (k :: u32)\<rparr>)) (sscanf_dec u)))
         else Some (- 1, md))"

text \<open>
  The metadata of a downlink, and the record after the receive window was put
  into it. The array of tokens is built but never added. The uplink's metadata
  is given by the serving server only.
\<close>

definition generateDLMetaData ::
  "ns_env \<Rightarrow> ULMetaData_t option \<Rightarrow> u8 \<Rightarrow> DLMetaData_t \<Rightarrow> role_e \<Rightarrow> (fields \<times> DLMetaData_t) option" where
  "generateDLMetaData n ul droff md from_role =
    (case (case ul of None \<Rightarrow> Some ([], md)
           | Some u \<Rightarrow>
               (case (ul_RFRegion u, if ClassMode md = CHR ''A''
                        then map_option snd (sNS_band_conv n (dl_rxwin n) (dl_DevEUI md) (dl_DevAddr md) (ULFreq u) (ul_DataRate u) droff (ul_RFRegion u) md)
                        else Some md) of
                  (Some region, Some md') \<Rightarrow>
                    if list_all (\<lambda>g. case g of Some i \<Rightarrow> gw_ULToken i \<noteq> None | None \<Rightarrow> False) (gwList u)
                    then Some ((case ul_FNSULToken u of Some t \<Rightarrow> [(''FNSULToken'', JStr t)] | None \<Rightarrow> []) @
                      [(''DataRate'', JInt (uint (ul_DataRate u))), (''RFRegion'', JStr region), (''GWCnt'', JInt (uint (GWCnt u)))], md')
                    else None
                | _ \<Rightarrow> None)) of None \<Rightarrow> None
     | Some (front, m) \<Rightarrow>
         Some (front @ ul_addresses (dl_DevEUI m) (dl_DevAddr m) @
           (if from_role = sNS then
              (if dl_DLFreq1 m > 0 then [(''DLFreq1'', JReal (dl_DLFreq1 m)), (''DataRate1'', JInt (uint (DataRate1 m)))] else []) @
              (if dl_DLFreq2 m > 0 then [(''DLFreq2'', JReal (dl_DLFreq2 m)), (''DataRate2'', JInt (uint (DataRate2 m)))] else []) @
              [(''RXDelay1'', JInt (uint (RXDelay1 m))), (''ClassMode'', JStr [ClassMode m])] @
              (if ClassMode m = CHR ''B'' then [(''PingPeriod'', JInt (c_int (PingPeriod m)))] else []) @
              [(''HiPriorityFlag'', JBool (HiPriorityFlag m))]
            else [(''FPort'', JInt (uint (dl_FPort m))), (''FCntDown'', JInt (c_int (dl_FCntDown m))), (''Confirmed'', JBool (dl_Confirmed m))]), m))"

text \<open>The role that is to take the downlink: noneNS when a mandatory member is missing.\<close>

definition dl_reset :: "json_api \<Rightarrow> fields \<Rightarrow> DLMetaData_t \<Rightarrow> DLMetaData_t" where
  "dl_reset a j md =
    md\<lparr>dl_FNSULToken := None, ultList := [], dl_Confirmed := False, HiPriorityFlag := False, dl_DevEUI := NONE_DEVEUI,
       dl_DevAddr := NONE_DEVADDR,
       dl_DLFreq1 := member j ''DLFreq1'' (ja_real a) 0,
       DataRate1 := (if map_of j ''DLFreq1'' = None then DataRate1 md else member j ''DataRate1'' (\<lambda>v. word_of_int (ja_int a v)) (DataRate1 md)),
       dl_DLFreq2 := member j ''DLFreq2'' (ja_real a) 0,
       DataRate2 := (if map_of j ''DLFreq2'' = None then DataRate2 md else member j ''DataRate2'' (\<lambda>v. word_of_int (ja_int a v)) (DataRate2 md))\<rparr>"

definition dl_for_fNS :: "json_api \<Rightarrow> fields \<Rightarrow> DLMetaData_t \<Rightarrow> role_e \<times> DLMetaData_t" where
  "dl_for_fNS a j m1 =
    (case map_of j ''RXDelay1'' of None \<Rightarrow> (noneNS, m1)
     | Some d \<Rightarrow>
         let m2 = m1\<lparr>RXDelay1 := word_of_int (ja_int a d)\<rparr>
         in (case map_of j ''ClassMode'' of None \<Rightarrow> (noneNS, m2)
             | Some c \<Rightarrow>
                 let cm = (case ja_text a c of c1 # _ \<Rightarrow> c1 | [] \<Rightarrow> CHR 0x00);
                     m3 = m2\<lparr>ClassMode := cm\<rparr>
                 in if cm = CHR ''B'' \<and> map_of j ''PingPeriod'' = None then (noneNS, m3)
                    else (fNS, m3\<lparr>PingPeriod := (if cm = CHR ''B'' then member j ''PingPeriod'' (\<lambda>v. word_of_int (ja_int a v)) (PingPeriod m3) else PingPeriod m3),
                        dl_DevEUI := member j ''DevEUI'' (\<lambda>v. store (sscanf_hex (ja_text a v)) NONE_DEVEUI) NONE_DEVEUI,
                        dl_DevAddr := member j ''DevAddr'' (\<lambda>v. store (sscanf_hex (ja_text a v)) NONE_DEVADDR) NONE_DEVADDR,
                        dl_FNSULToken := member j ''FNSULToken'' (\<lambda>v. Some (ja_text a v)) None,
                        HiPriorityFlag := member j ''HiPriorityFlag'' (ja_bool a) False\<rparr>)))"

definition dl_for_sNS :: "json_api \<Rightarrow> fields \<Rightarrow> DLMetaData_t \<Rightarrow> role_e \<times> DLMetaData_t" where
  "dl_for_sNS a j m1 =
    (case (map_of j ''DevEUI'', map_of j ''DevAddr'') of
       (None, None) \<Rightarrow> (noneNS, m1)
     | (eui, addr) \<Rightarrow>
         let m2 = (case eui of
               Some v \<Rightarrow> m1\<lparr>dl_DevEUI := store (sscanf_hex (ja_text a v)) NONE_DEVEUI, dl_DevAddr := NONE_DEVADDR\<rparr>
             | None \<Rightarrow> m1\<lparr>dl_DevAddr := member j ''DevAddr'' (\<lambda>v. store (sscanf_hex (ja_text a v)) NONE_DEVADDR) NONE_DEVADDR, dl_DevEUI := NONE_DEVEUI\<rparr>)
         in (case map_of j ''FPort'' of None \<Rightarrow> (noneNS, m2)
             | Some p \<Rightarrow>
                 let m3 = m2\<lparr>dl_FPort := word_of_int (ja_int a p)\<rparr>
                 in (case map_of j ''FCntDown'' of None \<Rightarrow> (noneNS, m3)
                     | Some c \<Rightarrow> (sNS, m3\<lparr>dl_FCntDown := word_of_int (ja_int a c), dl_Confirmed := member j ''Confirmed'' (ja_bool a) False\<rparr>))))"

text \<open>
  Every round of the token loop writes to the first node: the last token is
  left there, and its successor is empty. An empty array leaves a node without
  a token.
\<close>

definition dl_tokens :: "json_api \<Rightarrow> json \<Rightarrow> string option list option" where
  "dl_tokens a j = (case j of JArr ts \<Rightarrow> Some [if ts = [] then None else Some (ja_text a (last ts))] | _ \<Rightarrow> None)"

definition parseDLMetaData :: "json_api \<Rightarrow> fields \<Rightarrow> DLMetaData_t \<Rightarrow> (role_e \<times> DLMetaData_t) option" where
  "parseDLMetaData a j md =
    (let m1 = dl_reset a j md
     in if dl_DLFreq1 m1 \<noteq> 0 \<or> dl_DLFreq2 m1 \<noteq> 0 then
          (case dl_for_fNS a j m1 of
             (fNS, m) \<Rightarrow>
               (case map_of j ''GWInfo'' of None \<Rightarrow> Some (fNS, m)
                | Some g \<Rightarrow> map_option (\<lambda>ts. (fNS, m\<lparr>ultList := ts\<rparr>)) (dl_tokens a g))
           | r \<Rightarrow> Some r)
        else Some (dl_for_sNS a j m1))"

section \<open>What is sent is what is received\<close>

lemma digits_of_chars: "n < fuel \<Longrightarrow> 1 < base \<Longrightarrow> base \<le> 16 \<Longrightarrow> set (digits_of fuel base n) \<subseteq> digit_char ` {..<base}"
proof (induction fuel arbitrary: n)
  case (Suc fuel)
  have "n div base < fuel" if "\<not> n < base"
    using Suc.prems that by (metis Suc_less_eq div_less_dividend less_trans_Suc linorder_not_less order_less_le_trans zero_less_one not_gr_zero less_zeroE)
  then show ?case using Suc by auto
qed simp

lemma scan_hex_of:
  assumes "n < 2 ^ 64"
  shows "scan_value 16 (hex_of n) = Some (int n)"
proof -
  obtain d cs where h: "hex_of n = digit_char d # cs" "d < 16"
    using digits_of_head [of "Suc n" n 16] by (auto simp: hex_of_def simp del: digits_of.simps)
  have "set cs \<subseteq> digit_char ` {..<16}"
    using digits_of_chars [of n "Suc n" 16] h by (auto simp: hex_of_def simp del: digits_of.simps)
  then have "c \<noteq> CHR ''x'' \<and> c \<noteq> CHR ''X''" if "c \<in> set cs" for c
    using that digit_char_plain(4,5) by fastforce
  then have no_x: "skip_0x (digit_char d # cs) = digit_char d # cs"
    by (auto simp: skip_0x_def split: list.splits)
  have "scan_unsigned_digits 16 (hex_of n) = Some n"
    using scan_digits_digits_of [of 16 n] by (simp add: hex_of_def del: digits_of.simps)
  then have "scan_unsigned_digits 16 (digit_char d # cs) = Some n" by (simp add: h)
  moreover have "min n (2 ^ 64 - 1) = n" using assms by simp
  ultimately show ?thesis
    using digit_char_plain [OF h(2)] no_x by (simp add: scan_value_def h(1) Let_def del: power_numeral)
qed

lemma sscanf_print_hex [simp, roundtrip]:
  assumes "LENGTH('a) \<le> 64"
  shows "sscanf_hex (print_hex (x :: 'a :: len word)) = Some x"
proof -
  have "unat x < 2 ^ LENGTH('a)" by simp
  also have "(2 :: nat) ^ LENGTH('a) \<le> 2 ^ 64" using assms by (rule power_increasing) simp
  finally show ?thesis by (simp add: sscanf_hex_def print_hex_def scan_hex_of)
qed

section \<open>Uplink metadata comes back\<close>

definition int8_ok :: "int \<Rightarrow> bool" where "int8_ok i \<longleftrightarrow> - 128 \<le> i \<and> i < 128"

definition gw_ok :: "GWInfo_t \<Rightarrow> bool" where
  "gw_ok g \<longleftrightarrow> int8_ok (RSSI g) \<and> int8_ok (SNR g) \<and> (\<exists>r \<in> set region_names. gw_RFRegion g = Some r)"

text \<open>Metadata a server holds of a frame it received itself.\<close>

definition ul_ok :: "ULMetaData_t \<Rightarrow> bool" where
  "ul_ok md \<longleftrightarrow> length (RecvTime md) \<le> 32 \<and> - (2 ^ 31) \<le> ul_FPort md \<and> ul_FPort md < 2 ^ 31 \<and>
    (\<exists>r \<in> set region_names. ul_RFRegion md = Some r) \<and>
    (\<exists>gs. gwList md = map Some gs \<and> length gs = unat (GWCnt md) \<and> gs \<noteq> [] \<and> list_all gw_ok gs)"

text \<open>What the other side reads: tokens, region and counters travel on their own interface only.\<close>

definition gw_seen :: "role_e \<Rightarrow> GWInfo_t \<Rightarrow> GWInfo_t" where
  "gw_seen from_role g = (if from_role = fNS then g else g\<lparr>gw_ULToken := None, DLAllowed := False\<rparr>)"

definition ul_seen :: "role_e \<Rightarrow> bool \<Rightarrow> ULMetaData_t \<Rightarrow> ULMetaData_t \<Rightarrow> ULMetaData_t" where
  "ul_seen from_role gws old md =
    md\<lparr>ul_FPort := (if from_role = sNS then ul_FPort md else - 1),
       ul_FCntDown := (if from_role = sNS then ul_FCntDown md else 0),
       ul_FCntUp := (if from_role = sNS then ul_FCntUp md else 0),
       ul_Confirmed := (if from_role = sNS then ul_Confirmed md else ul_Confirmed old),
       ul_FNSULToken := (if from_role = fNS then ul_FNSULToken md else None),
       Margin := Margin old, Battery := Battery old,
       ul_RFRegion := (if from_role = fNS then ul_RFRegion md else None),
       GWCnt := (if gws then GWCnt md else 0),
       gwList := (if gws then map (map_option (gw_seen from_role)) (gwList md) else [])\<rparr>"

lemma int8_id: "int8_ok i \<Longrightarrow> int8 i = i"
proof -
  assume i: "int8_ok i"
  have "signed_take_bit 7 i = i" by (rule signed_take_bit_int_eq_self) (use i in \<open>simp_all add: int8_ok_def\<close>)
  then show ?thesis by (simp add: int8_def sint_sbintrunc')
qed

lemma member_append: "member (xs @ ys) name f old = (case map_of xs name of Some v \<Rightarrow> f v | None \<Rightarrow> member ys name f old)"
  by (simp add: member_def map_add_def split: option.split)

lemma member_Cons [simp]: "member ((k, v) # ys) name f old = (if k = name then f v else member ys name f old)"
  by (simp add: member_def)

lemma member_Nil [simp]: "member [] name f old = old"
  by (simp add: member_def)

lemma gw_roundtrip:
  assumes "json_laws a" "gw_ok g" "generateGWInfoElement g from_role True = Some j"
  shows "parseGWInfoElement a j = gw_seen from_role g"
proof -
  have laws: "ja_text a (JStr s) = s" "ja_real a (JReal r) = r" "ja_bool a (JBool b) = b" for s r b
    using assms(1) by (simp_all add: json_laws_def)
  have i: "ja_int a (JInt (RSSI g)) = RSSI g" "ja_int a (JInt (SNR g)) = SNR g"
    using assms(1,2) by (simp_all add: json_laws_def gw_ok_def int8_ok_def)
  obtain r where r: "gw_RFRegion g = Some r" "r \<in> set region_names" using assms(2) by (auto simp: gw_ok_def)
  have "int8 (RSSI g) = RSSI g" "int8 (SNR g) = SNR g" using assms(2) int8_id by (simp_all add: gw_ok_def)
  then show ?thesis
    using assms(3) r(1)
    by (cases "gw_ULToken g") (auto simp: generateGWInfoElement_def parseGWInfoElement_def members_def member_append Let_def laws i
        getRFRegion_iff r(2) gw_seen_def intro!: GWInfo_t.equality)
qed

lemma json_laws_simps:
  assumes "json_laws a"
  shows "ja_text a (JStr s) = s" "ja_real a (JReal r) = r" "ja_bool a (JBool b) = b"
    "- (2 ^ 31) \<le> i \<Longrightarrow> i < 2 ^ 31 \<Longrightarrow> ja_int a (JInt i) = i"
  using assms by (simp_all add: json_laws_def)

lemma c_int_back: "json_laws a \<Longrightarrow> word_of_int (ja_int a (JInt (c_int (w :: u32)))) = w"
proof -
  assume l: "json_laws a"
  show ?thesis using json_laws_simps(4) [OF l c_int_range [of w]] by (simp add: c_int_def)
qed

lemma octet_back: "json_laws a \<Longrightarrow> word_of_int (ja_int a (JInt (uint (w :: u8)))) = w"
proof -
  assume l: "json_laws a"
  have "- (2 ^ 31) \<le> uint w" by (rule order_trans [of _ 0]) simp_all
  moreover have "uint w < 2 ^ 31" using uint_lt2p [of w] by simp
  ultimately show ?thesis using json_laws_simps(4) [OF l] by simp
qed

lemma those_map: "those (map f xs) = Some ys \<Longrightarrow> (\<And>x y. x \<in> set xs \<Longrightarrow> f x = Some y \<Longrightarrow> g y = h x) \<Longrightarrow> map g ys = map h xs"
  by (induction xs arbitrary: ys) (auto split: option.splits)

lemma find_append: "map_of (xs @ ys) k = (case map_of xs k of Some v \<Rightarrow> Some v | None \<Rightarrow> map_of ys k)"
  by (simp add: map_add_def)

lemma find_if: "map_of (if b then xs else ys) k = (if b then map_of xs k else map_of ys k)"
  by simp

lemma find_token: "map_of (case t of Some t \<Rightarrow> [(n, JStr t)] | None \<Rightarrow> []) k = (if n = k then map_option JStr t else None)"
  by (cases t) auto

lemma ul_body:
  assumes l: "json_laws a" and ok: "ul_ok md"
    and j: "j = front @ rest"
    and gen: "generateULMetaData (md\<lparr>GWCnt := 0\<rparr>) from_role gws = Some (Some rest)"
    and front: "set (map fst front) \<subseteq> {''GWInfo'', ''GWCnt''}"
  shows "(ul_scalars a j old)\<lparr>RecvTime := RecvTime md, ul_RFRegion := member j ''RFRegion'' (\<lambda>v. getRFRegion (ja_text a v)) None\<rparr> =
      ul_seen from_role False old md"
    "map_of j ''RecvTime'' = Some (JStr (RecvTime md))"
    "map_of rest ''GWInfo'' = None" "map_of rest ''GWCnt'' = None"
proof -
  obtain r where r: "ul_RFRegion md = Some r" "r \<in> set region_names" using ok by (auto simp: ul_ok_def)
  have t: "ja_int a (JInt (ul_FPort md)) = ul_FPort md"
    using ok json_laws_simps(4) [OF l, of "ul_FPort md"] by (simp add: ul_ok_def)
  have none: "map_of front k = None" if "k \<noteq> ''GWInfo''" "k \<noteq> ''GWCnt''" for k
    using front that by (auto simp: map_of_eq_None_iff)
  have rest: "rest = ul_addresses (ul_DevEUI md) (ul_DevAddr md) @
      (if from_role = sNS then [(''FPort'', JInt (ul_FPort md)), (''FCntDown'', JInt (c_int (ul_FCntDown md))),
        (''FCntUp'', JInt (c_int (ul_FCntUp md))), (''Confirmed'', JBool (ul_Confirmed md))] else []) @
      [(''DataRate'', JInt (uint (ul_DataRate md))), (''ULFreq'', JReal (ULFreq md))] @
      (if from_role = fNS then (''RFRegion'', JStr r) #
         (case ul_FNSULToken md of Some t \<Rightarrow> [(''FNSULToken'', JStr t)] | None \<Rightarrow> []) else []) @
      [(''RecvTime'', JStr (RecvTime md))]"
    using gen r(1) by (auto simp: generateULMetaData_def ul_gateways_def split: if_splits)
  show "map_of j ''RecvTime'' = Some (JStr (RecvTime md))" "map_of rest ''GWInfo'' = None" "map_of rest ''GWCnt'' = None"
    by (simp_all add: j none rest ul_addresses_def find_append find_if find_token split: option.splits del: map_of_append)
  show "(ul_scalars a j old)\<lparr>RecvTime := RecvTime md, ul_RFRegion := member j ''RFRegion'' (\<lambda>v. getRFRegion (ja_text a v)) None\<rparr> =
      ul_seen from_role False old md"
    by (intro ULMetaData_t.equality)
      (simp_all add: member_def j none rest ul_addresses_def find_append find_if find_token ul_scalars_def ul_seen_def
        json_laws_simps(1-3) [OF l] c_int_back [OF l] octet_back [OF l] t r getRFRegion_iff del: map_of_append split: option.split)
qed

lemma ul_roundtrip:
  assumes l: "json_laws a" and ok: "ul_ok md" and gen: "generateULMetaData md from_role gws = Some (Some j)"
  shows "ParseULMetaData a j old = Some (0, ul_seen from_role gws old md)"
proof -
  obtain gs where gs: "gwList md = map Some gs" "length gs = unat (GWCnt md)" "gs \<noteq> []" "list_all gw_ok gs"
    using ok by (auto simp: ul_ok_def)
  have cnt: "GWCnt md > 0" using gs(2,3) by (simp add: word_greater_zero_iff) (metis length_0_conv unat_0)
  have t: "take 32 (RecvTime md) = RecvTime md" using ok by (simp add: ul_ok_def)
  obtain front where front: "ul_gateways md from_role gws = Some (Some front)"
    using gen by (auto simp: generateULMetaData_def split: option.splits)
  obtain rest where rest: "generateULMetaData (md\<lparr>GWCnt := 0\<rparr>) from_role gws = Some (Some rest)" and j: "j = front @ rest"
  proof -
    have "ul_gateways (md\<lparr>GWCnt := 0\<rparr>) from_role gws = Some (Some [])" by (simp add: ul_gateways_def)
    then have "\<exists>rest. generateULMetaData (md\<lparr>GWCnt := 0\<rparr>) from_role gws = Some (Some rest) \<and> j = front @ rest"
      using gen unfolding generateULMetaData_def front by (auto split: if_splits option.splits)
    then show thesis using that by blast
  qed
  have keys: "set (map fst front) \<subseteq> {''GWInfo'', ''GWCnt''}"
    using front by (auto simp: ul_gateways_def split: if_splits)
  note body = ul_body [OF l ok j rest keys]
  let ?r = "ul_seen from_role False old md"
  have gi: "map_of j ''GWInfo'' = map_of front ''GWInfo''"
    by (simp add: j find_append body(3) split: option.split del: map_of_append)
  have parse: "ParseULMetaData a j old = (let md2 = ?r\<lparr>GWCnt := member j ''GWCnt'' (\<lambda>v. word_of_int (ja_int a v)) 0\<rparr>
      in case map_of front ''GWInfo'' of None \<Rightarrow> Some (if GWCnt md2 > 0 then - 1 else 0, md2)
         | Some (JArr gs) \<Rightarrow>
             (if length gs \<noteq> unat (GWCnt md2) then Some (- 1, md2)
              else Some (0, md2\<lparr>gwList := (if gs = [] then [None] else map (\<lambda>g. Some (parseGWInfoElement a g)) gs)\<rparr>))
         | Some _ \<Rightarrow> None)"
    unfolding body(1) [symmetric] gi [symmetric] by (simp add: ParseULMetaData_def body(2) json_laws_simps(1) [OF l] t Let_def)
  show ?thesis
  proof (cases gws)
    case False
    then have "front = []" using front by (simp add: ul_gateways_def)
    then show ?thesis using False body(4) unfolding parse by (simp add: Let_def j member_def ul_seen_def)
  next
    case True
    then obtain arr where arr: "gw_array md from_role = Some arr" and
      f: "front = [(''GWInfo'', JArr arr), (''GWCnt'', JInt (uint (GWCnt md)))]"
      using front cnt gs by (auto simp: ul_gateways_def)
    then have those: "those (map (\<lambda>g. generateGWInfoElement g from_role True) gs) = Some arr"
      using gs(1,2) by (simp add: gw_array_def comp_def split: if_splits)
    have m: "map (parseGWInfoElement a) arr = map (gw_seen from_role) gs"
      by (rule those_map [OF those]) (use gw_roundtrip [OF l] gs(4) in \<open>auto simp: list_all_iff\<close>)
    then have "length arr = length gs" by (metis length_map)
    moreover from this have "arr \<noteq> []" using gs(3) by auto
    moreover have "map (\<lambda>g. Some (parseGWInfoElement a g)) arr = map (map_option (gw_seen from_role)) (gwList md)"
      using arg_cong [OF m, of "map Some"] by (simp add: gs(1) comp_def)
    ultimately show ?thesis
      using True gs(2) unfolding parse by (simp add: f Let_def j octet_back [OF l] ul_seen_def)
  qed
qed

end
