(* ===== verification/Base64.thy ===== *)
theory Base64
  imports CText
begin

text \<open>
  The base64 codec of app_server/base64.c, which carries application payloads
  between the application server's web interface and its clients. Encoded text
  is a string; allocation is taken to succeed. The lemmas show that decoding
  returns what was encoded, and that text outside the alphabet is skipped.
\<close>

section \<open>The operations\<close>

definition base64_table :: string where
  "base64_table = ''ABCDEFGHIJKLMNOPQRSTUVWXYZabcdefghijklmnopqrstuvwxyz0123456789+/''"

definition b64 :: "u8 \<Rightarrow> char" where
  "b64 i = base64_table ! unat i"

fun base64_groups :: "buf \<Rightarrow> string" where
  "base64_groups (a # b # c # rest) =
    b64 (drop_bit 2 a) # b64 (push_bit 4 (a AND 0x03) OR drop_bit 4 b) #
    b64 (push_bit 2 (b AND 0x0f) OR drop_bit 6 c) # b64 (c AND 0x3f) # base64_groups rest"
| "base64_groups [a] = [b64 (drop_bit 2 a), b64 (push_bit 4 (a AND 0x03)), CHR ''='', CHR ''='']"
| "base64_groups [a, b] =
    [b64 (drop_bit 2 a), b64 (push_bit 4 (a AND 0x03) OR drop_bit 4 b),
     b64 (push_bit 2 (b AND 0x0f)), CHR ''='']"
| "base64_groups [] = []"

text \<open>The output size is computed in size_t; None is the NULL of the overflow test.\<close>

definition base64_encode :: "buf \<Rightarrow> string option" where
  "base64_encode src =
    (let len = word_of_nat (length src) :: u64;
         olen = len * 4 div 3 + 4;
         olen' = olen + olen div 72;
         olen'' = olen' + 1
     in if olen'' < len then None else Some (base64_groups src))"

fun index_of :: "char \<Rightarrow> string \<Rightarrow> nat \<Rightarrow> nat option" where
  "index_of c [] n = None"
| "index_of c (x # xs) n = (if x = c then Some n else index_of c xs (n + 1))"

definition dtable :: "char \<Rightarrow> u8" where
  "dtable c = (if c = CHR ''='' then 0
    else case index_of c base64_table 0 of Some i \<Rightarrow> word_of_nat i | None \<Rightarrow> 0x80)"

definition unblock :: "u8 list \<Rightarrow> buf" where
  "unblock block =
    [push_bit 2 (block ! 0) OR drop_bit 4 (block ! 1),
     push_bit 4 (block ! 1) OR drop_bit 2 (block ! 2),
     push_bit 6 (block ! 2) OR block ! 3]"

fun base64_loop :: "string \<Rightarrow> u8 list \<Rightarrow> nat \<Rightarrow> buf \<Rightarrow> buf option" where
  "base64_loop [] block pad out = Some out"
| "base64_loop (c # src) block pad out =
    (let tmp = dtable c in
     if tmp = 0x80 then base64_loop src block pad out
     else
       let pad' = (if c = CHR ''='' then pad + 1 else pad);
           block' = block @ [tmp]
       in if length block' = 4 then
            let out' = out @ unblock block'
            in if pad' > 0 then
                 (if pad' = 1 then Some (butlast out')
                  else if pad' = 2 then Some (butlast (butlast out'))
                  else None)
               else base64_loop src [] pad' out'
          else base64_loop src block' pad' out)"

definition base64_decode :: "string \<Rightarrow> buf option" where
  "base64_decode src =
    (let count = length (filter (\<lambda>c. dtable c \<noteq> 0x80) src)
     in if count = 0 \<or> count mod 4 \<noteq> 0 then None else base64_loop src [] 0 [])"

section \<open>Round trip\<close>

lemma b64_check: "list_all (\<lambda>n. dtable (base64_table ! n) = word_of_nat n \<and> base64_table ! n \<noteq> CHR ''='') [0..<64]"
  by code_simp

lemma dtable_b64:
  assumes "unat i < 64"
  shows "dtable (b64 i) = i" "b64 i \<noteq> CHR ''=''" "i \<noteq> 0x80"
proof -
  show "dtable (b64 i) = i" "b64 i \<noteq> CHR ''=''"
    using b64_check assms by (auto simp: list_all_iff b64_def)
  show "i \<noteq> 0x80" using assms by auto
qed

lemma dtable_pad: "dtable (CHR ''='') = 0" by (simp add: dtable_def)

lemma less_64_bits: "take_bit 6 i = i \<Longrightarrow> unat i < 64" for i :: u8
proof -
  assume i: "take_bit 6 i = i"
  have "unat (take_bit 6 i) = take_bit 6 (unat i)" by (simp only: unsigned_take_bit_eq)
  also have "\<dots> < 2 ^ 6" by (rule take_bit_nat_less_exp)
  finally show ?thesis using i by simp
qed

lemma sextets:
  fixes a b c :: u8
  shows "unat (drop_bit 2 a) < 64" "unat (push_bit 4 (a AND 3) OR drop_bit 4 b) < 64"
    "unat (push_bit 2 (b AND 0xf) OR drop_bit 6 c) < 64" "unat (c AND 0x3f) < 64"
    "unat (push_bit 4 (a AND 3)) < 64" "unat (push_bit 2 (b AND 0xf)) < 64"
proof -
  have m: "3 = (mask 2 :: u8)" "0xf = (mask 4 :: u8)" "0x3f = (mask 6 :: u8)"
    by (simp_all add: mask_eq_exp_minus_1)
  show "unat (drop_bit 2 a) < 64" "unat (push_bit 4 (a AND 3) OR drop_bit 4 b) < 64"
    "unat (push_bit 2 (b AND 0xf) OR drop_bit 6 c) < 64" "unat (c AND 0x3f) < 64"
    "unat (push_bit 4 (a AND 3)) < 64" "unat (push_bit 2 (b AND 0xf)) < 64"
    unfolding m by (rule less_64_bits, rule bit_word_eqI,
      auto simp: bit_take_bit_iff bit_or_iff bit_push_bit_iff bit_drop_bit_eq bit_and_iff bit_mask_iff
        dest: bit_imp_le_length)+
qed

lemma Suc_Suc_diff: "2 \<le> n \<Longrightarrow> Suc (Suc (n - 2)) = n"
  by simp

lemma unblock_groups:
  fixes a b c :: u8
  shows "unblock [drop_bit 2 a, push_bit 4 (a AND 3) OR drop_bit 4 b,
    push_bit 2 (b AND 0xf) OR drop_bit 6 c, c AND 0x3f] = [a, b, c]"
    "unblock [drop_bit 2 a, push_bit 4 (a AND 3), 0, 0] = [a, 0, 0]"
    "unblock [drop_bit 2 a, push_bit 4 (a AND 3) OR drop_bit 4 b, push_bit 2 (b AND 0xf), 0] = [a, b, 0]"
proof -
  have m: "3 = (mask 2 :: u8)" "0xf = (mask 4 :: u8)" "0x3f = (mask 6 :: u8)"
    by (simp_all add: mask_eq_exp_minus_1)
  note bits = bit_take_bit_iff bit_or_iff bit_push_bit_iff bit_drop_bit_eq bit_and_iff bit_mask_iff
  show "unblock [drop_bit 2 a, push_bit 4 (a AND 3) OR drop_bit 4 b,
    push_bit 2 (b AND 0xf) OR drop_bit 6 c, c AND 0x3f] = [a, b, c]"
    "unblock [drop_bit 2 a, push_bit 4 (a AND 3), 0, 0] = [a, 0, 0]"
    "unblock [drop_bit 2 a, push_bit 4 (a AND 3) OR drop_bit 4 b, push_bit 2 (b AND 0xf), 0] = [a, b, 0]"
    unfolding m unblock_def
    by (auto intro!: bit_word_eqI simp: bits Suc_Suc_diff dest: bit_imp_le_length)
qed

lemma loop_group:
  assumes "unat p < 64" "unat q < 64" "unat r < 64" "unat s < 64"
  shows "base64_loop (b64 p # b64 q # b64 r # b64 s # rest) [] 0 out =
    base64_loop rest [] 0 (out @ unblock [p, q, r, s])"
  by (simp add: dtable_b64 assms Let_def)

lemma loop_pad1:
  assumes "unat p < 64" "unat q < 64" "unat r < 64"
  shows "base64_loop [b64 p, b64 q, b64 r, CHR ''=''] [] 0 out =
    Some (butlast (out @ unblock [p, q, r, 0]))"
  by (simp add: dtable_b64 dtable_pad assms Let_def)

lemma loop_pad2:
  assumes "unat p < 64" "unat q < 64"
  shows "base64_loop [b64 p, b64 q, CHR ''='', CHR ''=''] [] 0 out =
    Some (butlast (butlast (out @ unblock [p, q, 0, 0])))"
  by (simp add: dtable_b64 dtable_pad assms Let_def)

lemma loop_groups: "base64_loop (base64_groups b) [] 0 out = Some (out @ b)"
proof (induction b arbitrary: out rule: base64_groups.induct)
  case (1 a b c rest)
  then show ?case by (simp only: base64_groups.simps loop_group sextets unblock_groups) simp
next
  case (2 a)
  show ?case by (simp only: base64_groups.simps loop_pad2 sextets unblock_groups) (simp add: butlast_append)
next
  case (3 a b)
  show ?case by (simp only: base64_groups.simps loop_pad1 sextets unblock_groups) (simp add: butlast_append)
qed simp

lemma b64_in_alphabet: "unat i < 64 \<Longrightarrow> (dtable (b64 i) \<noteq> 0x80) = True"
  by (simp add: dtable_b64)

lemma pad_in_alphabet: "(dtable (CHR ''='') \<noteq> 0x80) = True"
  by (simp add: dtable_pad)

lemma groups_alphabet: "set (base64_groups b) \<subseteq> {c. dtable c \<noteq> 0x80}"
proof (induction b rule: base64_groups.induct)
  case (1 a b c rest)
  then show ?case
    by (simp only: base64_groups.simps list.set insert_subset mem_Collect_eq b64_in_alphabet sextets)
qed (simp_all only: base64_groups.simps list.set insert_subset mem_Collect_eq b64_in_alphabet sextets
    pad_in_alphabet empty_subsetI)

lemma length_groups: "length (base64_groups b) = 4 * ((length b + 2) div 3)"
proof (induction b rule: base64_groups.induct)
  case (1 a b c rest)
  have "(length (a # b # c # rest) + 2) div 3 = (length rest + 2) div 3 + 1"
    by (simp add: div_add_self2 [of 3 "length rest + 2", simplified])
  then show ?case using 1 by simp
qed simp_all

lemma count_groups:
  "length (filter (\<lambda>c. dtable c \<noteq> 0x80) (base64_groups b)) = 4 * ((length b + 2) div 3)"
proof -
  have "filter (\<lambda>c. dtable c \<noteq> 0x80) (base64_groups b) = base64_groups b"
    using groups_alphabet by (intro filter_True) auto
  then show ?thesis by (simp add: length_groups)
qed

lemma base64_decode_groups: "b \<noteq> [] \<Longrightarrow> base64_decode (base64_groups b) = Some b"
  using count_groups [of b] by (cases b) (simp_all add: base64_decode_def Let_def loop_groups)

lemma base64_encode_ok:
  assumes "length b < 2 ^ 60"
  shows "base64_encode b = Some (base64_groups b)"
proof -
  let ?len = "word_of_nat (length b) :: u64"
  have l: "unat ?len = length b" using assms by (intro unat_of_nat_small) simp
  have m: "unat (?len * 4) = length b * 4" using assms l by (simp add: unat_word_ariths)
  have d: "unat (?len * 4 div 3) = length b * 4 div 3" using m by (simp add: unat_div_distrib)
  have "unat (?len * 4 div 3 + 4) = length b * 4 div 3 + 4" (is "unat ?o = _")
    using assms d by (simp add: unat_word_ariths)
  moreover have "unat (?o div 72) = (length b * 4 div 3 + 4) div 72"
    using calculation by (simp add: unat_div_distrib)
  ultimately have "unat (?o + ?o div 72 + 1) = length b * 4 div 3 + 4 + (length b * 4 div 3 + 4) div 72 + 1"
    using assms by (simp add: unat_word_ariths)
  then have "\<not> ?o + ?o div 72 + 1 < ?len" using l by (simp add: word_less_nat_alt)
  then show ?thesis by (simp add: base64_encode_def Let_def)
qed

lemma loop_skips:
  "base64_loop s block pad out = base64_loop (filter (\<lambda>c. dtable c \<noteq> 0x80) s) block pad out"
  by (induction s arbitrary: block pad out) (auto simp: Let_def)

lemma decode_skips: "base64_decode s = base64_decode (filter (\<lambda>c. dtable c \<noteq> 0x80) s)"
  using loop_skips [of s "[]" 0 "[]"] by (simp add: base64_decode_def Let_def)

end
