(* ===== verification/World.thy ===== *)
theory World
  imports Metadata Uplink
begin

text \<open>
  The global variables of the network server (network_server/common.c, fNS.c,
  gateway.c): the list of devices, the list of gateways, the transaction
  counter and the time of the first beacon indication, with the effects so
  far. A handler that reads and writes them is a computation of type ns; None
  is undefined behaviour. A device is known to a handler by its position in
  the list.
\<close>

section \<open>The state and its handlers\<close>

record ns_world =
  w_motes :: "mote_t option list"
  w_gws :: "gateway_t list"
  w_tid :: "u32 option"
  w_beacon_start :: timespec
  w_eff :: "effect list"

type_synonym 'a ns = "ns_world \<Rightarrow> ('a \<times> ns_world) option"

definition return :: "'a \<Rightarrow> 'a ns" where "return x w = Some (x, w)"

definition bnd :: "'a ns \<Rightarrow> ('a \<Rightarrow> 'b ns) \<Rightarrow> 'b ns" where
  "bnd p f w = (case p w of None \<Rightarrow> None | Some (x, w') \<Rightarrow> f x w')"

definition andthen :: "'a ns \<Rightarrow> 'b ns \<Rightarrow> 'b ns" where "andthen p q = bnd p (\<lambda>_. q)"

definition undefined_behaviour :: "'a ns" where "undefined_behaviour w = None"

definition must :: "'a option \<Rightarrow> 'a ns" where
  "must v = (case v of None \<Rightarrow> undefined_behaviour | Some x \<Rightarrow> return x)"

definition emit :: "effect \<Rightarrow> unit ns" where "emit e w = Some ((), w\<lparr>w_eff := w_eff w @ [e]\<rparr>)"

definition emit_all :: "effect list \<Rightarrow> unit ns" where "emit_all es w = Some ((), w\<lparr>w_eff := w_eff w @ es\<rparr>)"

definition read_mote :: "nat \<Rightarrow> mote_t ns" where
  "read_mote i w = (if i < length (w_motes w) then map_option (\<lambda>m. (m, w)) (w_motes w ! i) else None)"

definition write_mote :: "nat \<Rightarrow> mote_t \<Rightarrow> unit ns" where
  "write_mote i m w = (if i < length (w_motes w) then Some ((), w\<lparr>w_motes := (w_motes w)[i := Some m]\<rparr>) else None)"

definition modify_mote :: "nat \<Rightarrow> (mote_t \<Rightarrow> mote_t) \<Rightarrow> unit ns" where
  "modify_mote i f = bnd (read_mote i) (\<lambda>m. write_mote i (f m))"

definition read_gw :: "nat \<Rightarrow> gateway_t ns" where
  "read_gw g w = (if g < length (w_gws w) then Some (w_gws w ! g, w) else None)"

definition modify_gw :: "nat \<Rightarrow> (gateway_t \<Rightarrow> gateway_t) \<Rightarrow> unit ns" where
  "modify_gw g f w = (if g < length (w_gws w) then Some ((), w\<lparr>w_gws := (w_gws w)[g := f (w_gws w ! g)]\<rparr>) else None)"

definition find_mote :: "ns_env \<Rightarrow> u64 \<Rightarrow> u32 \<Rightarrow> nat ns" where
  "find_mote n eui addr w = (case getMote (n_db n) (w_motes w) eui addr of (ms, i) \<Rightarrow> Some (i, w\<lparr>w_motes := ms\<rparr>))"

definition new_tid :: "ns_env \<Rightarrow> nat \<Rightarrow> AnsCallback_t \<Rightarrow> u32 ns" where
  "new_tid n i cb = bnd (read_mote i) (\<lambda>m w.
     case next_tid (stack32 n) (w_tid w) m cb of (c, m', tid) \<Rightarrow> bnd (write_mote i m') (\<lambda>_. return tid) (w\<lparr>w_tid := c\<rparr>))"

fun each :: "('a \<Rightarrow> unit ns) \<Rightarrow> 'a list \<Rightarrow> unit ns" where
  "each f [] = return ()"
| "each f (x # xs) = andthen (f x) (each f xs)"

text \<open>Statements run at once on the database connection, and their text.\<close>

text \<open>%f of a double: six decimals.\<close>

definition print_f :: "rat \<Rightarrow> string" where
  "print_f q =
    (let k = nat (round_even (\<bar>q\<bar> * 1000000))
     in (if q < 0 then ''-'' else []) @ dec_of (k div 1000000) @ ''.'' @ zero_pad 6 (dec_of (k mod 1000000)))"

definition run_query :: "ns_env \<Rightarrow> string \<Rightarrow> bool ns" where
  "run_query n q = andthen (emit (Query q)) (return (n_db n q \<noteq> SqlError))"

definition quote :: "string \<Rightarrow> string" where "quote s = [CHR 0x27] @ s @ [CHR 0x27]"

text \<open>The JSON of a request or answer is handed to the HTTP client; the number is what the client returns.\<close>

definition post :: "ns_env \<Rightarrow> string \<Rightarrow> fields \<Rightarrow> int ns" where
  "post n host j = andthen (emit (Post host (JObj j))) (return (n_post n host (JObj j)))"

text \<open>The per-device serving state: a null pointer when it was not created yet.\<close>

definition read_s :: "nat \<Rightarrow> s_t ns" where
  "read_s i = bnd (read_mote i) (\<lambda>m. must (m_s m))"

definition modify_s :: "nat \<Rightarrow> (s_t \<Rightarrow> s_t) \<Rightarrow> unit ns" where
  "modify_s i f = bnd (read_mote i) (\<lambda>m. bnd (must (m_s m)) (\<lambda>s. write_mote i (m\<lparr>m_s := Some (f s)\<rparr>)))"

section \<open>Answers to the application and the roaming row\<close>

text \<open>The answer is returned instead of posted when the caller is an HTTP request.\<close>

definition answer_app_downlink :: "ns_env \<Rightarrow> nat \<Rightarrow> result \<Rightarrow> bool \<Rightarrow> fields option ns" where
  "answer_app_downlink n i res httpd =
    bnd (read_mote i) (\<lambda>m. bnd (must (m_s m)) (\<lambda>s. bnd (must (answer_app n m s res httpd)) (\<lambda>(s', j, eff).
      andthen (write_mote i (with_s m s')) (andthen (emit_all eff) (return j)))))"

definition send_XmitDataAns :: "ns_env \<Rightarrow> bool \<Rightarrow> fields \<Rightarrow> string option \<Rightarrow> u64 \<Rightarrow> result \<Rightarrow> int ns" where
  "send_XmitDataAns n toAS ans dest reqTid res =
    bnd (must (sendXmitDataAns n toAS ans dest reqTid res)) (\<lambda>(r, eff). andthen (emit_all eff) (return r))"

text \<open>A NULL state name is appended to the statement: undefined.\<close>

definition update_roam :: "ns_env \<Rightarrow> u64 \<Rightarrow> u32 \<Rightarrow> roam_state option \<Rightarrow> u64 option \<Rightarrow> u32 option \<Rightarrow> bool option \<Rightarrow> int ns" where
  "update_roam n eui addr state til netid mic =
    bnd (must state) (\<lambda>st. bnd (must (mote_update_database_roam (n_db n) (n_mq n) eui addr st til netid mic)) (\<lambda>(r, qs).
      andthen (emit_all (map Statement qs)) (return r)))"

section \<open>Every handler keeps the list\<close>

text \<open>Computations that never lose a node of the list, and never a device in it.\<close>

definition keeps :: "(ns_world \<Rightarrow> ns_world \<Rightarrow> bool) \<Rightarrow> 'a ns \<Rightarrow> bool" where
  "keeps R p \<longleftrightarrow> (\<forall>w x w'. p w = Some (x, w') \<longrightarrow> R w w')"

named_theorems keeps_intros

lemma keeps_return [keeps_intros]: "(\<And>w. R w w) \<Longrightarrow> keeps R (return x)"
  by (auto simp: keeps_def return_def)

lemma keeps_undefined [keeps_intros]: "keeps R undefined_behaviour"
  by (simp add: keeps_def undefined_behaviour_def)

lemma keeps_must [keeps_intros]: "(\<And>w. R w w) \<Longrightarrow> keeps R (must v)"
  by (cases v) (auto simp: must_def intro: keeps_intros)

lemma keeps_bnd [keeps_intros]:
  "(\<And>a b c. R a b \<Longrightarrow> R b c \<Longrightarrow> R a c) \<Longrightarrow> keeps R p \<Longrightarrow> (\<And>x. keeps R (f x)) \<Longrightarrow> keeps R (bnd p f)"
  by (fastforce simp: keeps_def bnd_def split: option.splits)

lemma keeps_andthen [keeps_intros]:
  "(\<And>a b c. R a b \<Longrightarrow> R b c \<Longrightarrow> R a c) \<Longrightarrow> keeps R p \<Longrightarrow> keeps R q \<Longrightarrow> keeps R (andthen p q)"
  by (simp add: andthen_def keeps_bnd)

end
