(* ===== verification/Gateway.thy ===== *)
theory Gateway
  imports World
begin

text \<open>
  The gateway protocol of the network server (network_server/gateway.c) and the
  part of the forwarding server on its other side (network_server/fNS.c):
  packets to a gateway, the messages of a gateway and what they change, the
  choice of the best copy of an uplink, and the transmission of a downlink in
  the right window. Reading a message past the octets received is undefined,
  and so is the conversion of a float outside the range of an integer type.
\<close>

section \<open>Numbers\<close>

definition trunc :: "rat \<Rightarrow> int" where "trunc q = (if q < 0 then - \<lfloor>- q\<rfloor> else \<lfloor>q\<rfloor>)"

text \<open>C conversions of a float to an integer type.\<close>

definition to_range :: "int \<Rightarrow> int \<Rightarrow> rat \<Rightarrow> int option" where
  "to_range lo hi q = (if lo \<le> trunc q \<and> trunc q \<le> hi then Some (trunc q) else None)"

definition to_u32 :: "rat \<Rightarrow> u32 option" where
  "to_u32 q = map_option word_of_int (to_range 0 (2 ^ 32 - 1) q)"

definition to_int8 :: "rat \<Rightarrow> int option" where "to_int8 = to_range (- 128) 127"

definition rd :: "nat \<Rightarrow> nat \<Rightarrow> buf \<Rightarrow> buf option" where
  "rd off k b = (if off + k \<le> length b then Some (slice off k b) else None)"

section \<open>Time on air\<close>

definition lgw_bw_getval :: "u8 \<Rightarrow> int option" where
  "lgw_bw_getval x = map_of [(1, 500000), (2, 250000), (3, 125000), (4, 62500), (5, 31200), (6, 15600), (7, 7800)] x"

definition lgw_sf_getval :: "u32 \<Rightarrow> nat option" where
  "lgw_sf_getval x = map_of [(0x02, 7), (0x04, 8), (0x08, 9), (0x10, 10), (0x20, 11), (0x40, 12)] x"

text \<open>The microseconds a packet is on air; an unknown bandwidth or data rate counts as zero.\<close>

definition lgw_time_on_air_us :: "lgw_pkt_tx_s \<Rightarrow> u32 option" where
  "lgw_time_on_air_us p =
    (let size = int (length (tx_payload p)) in
     if tx_modulation p = MOD_LORA then
       (case lgw_bw_getval (tx_bandwidth p) of None \<Rightarrow> Some 0
        | Some hz \<Rightarrow>
            (case lgw_sf_getval (tx_datarate p) of None \<Rightarrow> Some 0
             | Some SF \<Rightarrow>
                 let BW = to_float (of_int hz / 1000000);
                     Tsym = to_double (2 ^ SF / BW);
                     Tpreamble = to_double ((rat_of_int (uint (tx_preamble p)) + 17 / 4) * Tsym);
                     H = (if no_header p then 1 else 0);
                     DE = (if SF \<ge> 11 then 1 else 0);
                     crcOn = (if no_crc p then 0 else 1);
                     symbols = to_u32 (of_int (8 +
                       \<lceil>rat_of_int (8 * size - 4 * int SF + 28 + 16 * crcOn - 20 * H) / rat_of_int (4 * (int SF - 2 * DE))\<rceil>
                         * (uint (tx_coderate p) + 4)))
                 in case symbols of None \<Rightarrow> None
                    | Some k \<Rightarrow> to_u32 (to_double (Tpreamble + to_double (of_int (uint k) * Tsym)))))
     else if tx_modulation p = MOD_FSK then
       (if tx_datarate p = 0 then None
        else let octets = rat_of_int (uint (tx_preamble p) + 3 + 1 + size + (if no_crc p then 0 else 2));
                 Tfsk = to_double (8 * octets / rat_of_int (uint (tx_datarate p)))
             in map_option (\<lambda>t. t + 1) (to_u32 Tfsk))
     else Some 0)"

section \<open>Packets to a gateway\<close>

definition DOWNLINK_TX :: u8 where "DOWNLINK_TX = 3"

definition bool_octet :: "bool \<Rightarrow> u8" where "bool_octet b = (if b then 1 else 0)"

definition tx_body :: "lgw_pkt_tx_s \<Rightarrow> buf" where
  "tx_body p =
    le_bytes 4 (tx_freq_hz p) @ [tx_mode p] @ le_bytes 4 (tx_count_us p) @
    [0xff, tx_rf_power p, tx_modulation p, tx_bandwidth p] @ le_bytes 4 (tx_datarate p) @
    [tx_coderate p, bool_octet (invert_pol p), f_dev p] @ le_bytes 2 (tx_preamble p) @ [bool_octet (no_crc p), bool_octet (no_header p)] @
    le_bytes 2 (word_of_nat (length (tx_payload p)) :: u16) @ tx_payload p @ [tx_modem_idx p]"

definition tx_octets :: "lgw_pkt_tx_s \<Rightarrow> buf" where
  "tx_octets p = DOWNLINK_TX # le_bytes 2 (word_of_nat (3 + length (tx_body p)) :: u16) @ tx_body p"

definition gateway_write_downlink :: "ns_env \<Rightarrow> nat \<Rightarrow> lgw_pkt_tx_s \<Rightarrow> int ns" where
  "gateway_write_downlink n g p =
    (if length (tx_payload p) > 256 then return 1
     else bnd (read_gw g) (\<lambda>gw.
       let b = tx_octets p; wlen = n_write n (g_fd gw) b
       in andthen (emit (Write (g_fd gw) b))
         (if wlen < 0 \<or> wlen \<noteq> int (length b) then return 1
          else bnd (must (lgw_time_on_air_us p)) (\<lambda>t.
            andthen (modify_gw g (\<lambda>gw. gw\<lparr>count_us_tx_start := tx_count_us p, count_us_tx_end := tx_count_us p + t\<rparr>)) (return 0)))))"

definition gateway_id_write_downlink :: "ns_env \<Rightarrow> u64 \<Rightarrow> lgw_pkt_tx_s \<Rightarrow> int ns" where
  "gateway_id_write_downlink n eui p w =
    (case index_where (\<lambda>gw. g_eui gw = eui) (w_gws w) of
       None \<Rightarrow> Some (- 1, w)
     | Some g \<Rightarrow> gateway_write_downlink n g p w)"

section \<open>The gateway table of the database\<close>

definition fNS_update_gateway :: "ns_env \<Rightarrow> nat \<Rightarrow> timespec \<Rightarrow> unit ns" where
  "fNS_update_gateway n g t =
    bnd (read_gw g) (\<lambda>gw.
      let eui = quote (print_hex (g_eui gw)) in
      bnd (run_query n (''UPDATE gateways SET time = FROM_UNIXTIME('' @ print_int (tv_sec t) @ '') WHERE hex(eui) = '' @ eui)) (\<lambda>ok1.
      if \<not> ok1 then return ()
      else bnd (run_query n (''UPDATE gateways SET downpacketsreceived = '' @ print_unsigned (downpacketsreceived gw) @
          '', gooduppacketsreceived = '' @ print_unsigned (gooduppacketsreceived gw) @ '', packetstransmitted = '' @ print_unsigned (packetstransmitted gw) @
          '', uppacketsforwarded = '' @ print_unsigned (uppacketsforwarded gw) @ '', uppacketsreceived = '' @ print_unsigned (uppacketsreceived gw) @
          '' WHERE HEX(eui) = '' @ eui)) (\<lambda>ok2.
      if \<not> ok2 then return ()
      else bnd (run_query n (''UPDATE gateways SET latitude = '' @ print_f (c_lat (g_coord gw)) @ '', longitude = '' @ print_f (c_lon (g_coord gw)) @
          '', altitude = '' @ print_int (c_alt (g_coord gw)) @ '' WHERE hex(eui) = '' @ eui)) (\<lambda>_. return ()))))"

text \<open>The columns of one row; a NULL column is read through a null pointer.\<close>

definition gw_row :: "row \<Rightarrow> gateway_t \<Rightarrow> gateway_t option" where
  "gw_row row gw =
    (if None \<in> set (map (cell row) [0..<6]) then None
     else let num = (\<lambda>i old. store (sscanf_dec (text_cell row i)) old)
          in Some (gw\<lparr>g_RFRegion := getRFRegion (text_cell row 0), downpacketsreceived := num 1 (downpacketsreceived gw),
               gooduppacketsreceived := num 2 (gooduppacketsreceived gw), packetstransmitted := num 3 (packetstransmitted gw),
               uppacketsforwarded := num 4 (uppacketsforwarded gw), uppacketsreceived := num 5 (uppacketsreceived gw)\<rparr>))"

fun gw_rows :: "row list \<Rightarrow> gateway_t \<Rightarrow> gateway_t option" where
  "gw_rows [] gw = Some gw"
| "gw_rows (row # rows) gw = (case gw_row row gw of None \<Rightarrow> None | Some gw' \<Rightarrow> gw_rows rows gw')"

definition fNS_find_gateway :: "ns_env \<Rightarrow> nat \<Rightarrow> int ns" where
  "fNS_find_gateway n g =
    bnd (read_gw g) (\<lambda>gw.
      case n_db n (''SELECT RFRegion, downpacketsreceived, gooduppacketsreceived, packetstransmitted, uppacketsforwarded, uppacketsreceived FROM gateways WHERE eui = ''
             @ print_unsigned (g_eui gw)) of
        SqlError \<Rightarrow> return (- 1)
      | SqlNoResult \<Rightarrow> return 0
      | SqlRows rows \<Rightarrow>
          bnd (must (gw_rows rows gw)) (\<lambda>gw'. andthen (modify_gw g (\<lambda>_. gw')) (return (int (length rows)))))"

definition fNS_add_gateway :: "ns_env \<Rightarrow> nat \<Rightarrow> int ns" where
  "fNS_add_gateway n g =
    andthen (modify_gw g (\<lambda>gw. gw\<lparr>g_RFRegion := Some ''AS923''\<rparr>))
      (bnd (read_gw g) (\<lambda>gw.
        let q = ''INSERT INTO gateways (eui, RFRegion, allowGpsToSetPosition) VALUES ('' @ print_unsigned (g_eui gw) @ '', '' @
               quote ''AS923'' @ '', TRUE)''
        in bnd (run_query n q) (\<lambda>ok. return (if ok then n_affected n q else - 1))))"

definition config_file :: "ns_env \<Rightarrow> gateway_t \<Rightarrow> (region_t \<times> string) option" where
  "config_file n gw =
    (case find (\<lambda>r. rg_RFRegion r = g_RFRegion gw) (n_regions n) of None \<Rightarrow> None
     | Some r \<Rightarrow>
         map_option (\<lambda>f. (r, f)) (if num_modems gw = 1 then conf_file_8ch r else if num_modems gw = 2 then conf_file_16ch r else None))"

definition send_gateway_config :: "ns_env \<Rightarrow> nat \<Rightarrow> int ns" where
  "send_gateway_config n g =
    bnd (read_gw g) (\<lambda>gw.
      case config_file n gw of None \<Rightarrow> return (- 1)
      | Some (r, f) \<Rightarrow>
          (case n_read_file n (regionPath n @ ''/'' @ f) of None \<Rightarrow> return (- 1)
           | Some b \<Rightarrow>
               if length b \<ge> 8192 then return (- 1)
               else andthen (emit (Write (g_fd gw) (le_bytes 4 (word_of_nat (length b) :: u32))))
                 (andthen (emit (Write (g_fd gw) b))
                 (andthen (modify_gw g (\<lambda>gw. gw\<lparr>g_rp := Some (regional r)\<rparr>)) (return 0)))))"

section \<open>Beacons\<close>

definition BEACON_PERIOD_US :: int where "BEACON_PERIOD_US = 128000000"

text \<open>The counter error of the concentrator over the beacon period, and what is left of it after missed beacons.\<close>

definition beacon_error :: "gateway_t \<Rightarrow> u32 \<Rightarrow> (int \<times> rat) option" where
  "beacon_error gw tstamp =
    (let measured = tstamp - g_tstamp_at_beacon gw;
         err = sint (word_of_int BEACON_PERIOD_US - measured)
     in if \<bar>err\<bar> > BEACON_PERIOD_US div 2 then
          let missed = to_float (to_float (of_int err) / of_int BEACON_PERIOD_US);
              modulus = sgn err * (\<bar>err\<bar> mod BEACON_PERIOD_US)
          in map_option (\<lambda>e. (e, 0)) (to_range (- (2 ^ 31)) (2 ^ 31 - 1) (to_float (to_float (of_int modulus) / missed)))
        else Some (err, to_float (to_float (of_int err) / 128)))"

definition beacon_indication :: "nat \<Rightarrow> u32 \<Rightarrow> u32 \<Rightarrow> timespec \<Rightarrow> unit ns" where
  "beacon_indication g tstamp secs host_time =
    bnd (read_gw g) (\<lambda>gw0.
      let gw = gw0\<lparr>new_indication := True\<rparr> in
      if secs = 0xffffffff then
        modify_gw g (\<lambda>_. gw\<lparr>have_gps_fix := False, g_tstamp_at_beacon := 0, g_seconds_at_beacon := 0\<rparr>)
      else
        bnd (must (if g_tstamp_at_beacon gw \<noteq> 0 \<and> g_seconds_at_beacon gw \<noteq> 0
                  then (case beacon_error gw tstamp of None \<Rightarrow> None
                        | Some (err, ppm) \<Rightarrow>
                            map_option (\<lambda>reserved. gw\<lparr>sx1301_ppm_err := ppm, trigcnt_pingslot_zero := tstamp + reserved,
                                g_lgw_trigcnt_at_next_beacon := tstamp + word_of_int (BEACON_PERIOD_US - err)\<rparr>)
                              (to_u32 (to_double (2120000 + to_double (ppm * to_double (212 / 100))))))
                  else Some (gw\<lparr>trigcnt_pingslot_zero := tstamp + 2120000,
                               g_lgw_trigcnt_at_next_beacon := tstamp + word_of_int BEACON_PERIOD_US\<rparr>))) (\<lambda>gw1.
        andthen (modify_gw g (\<lambda>_. gw1\<lparr>host_time_beacon_indication := host_time, have_gps_fix := True, g_tstamp_at_beacon := tstamp,
            g_seconds_at_beacon := secs, count_us_tx_start := tstamp, count_us_tx_end := tstamp + 1000000\<rparr>))
          (\<lambda>w. Some ((), if tv_sec (w_beacon_start w) = 0 then w\<lparr>w_beacon_start := host_time\<rparr> else w))))"

section \<open>Uplinks\<close>

text \<open>The data rate of a modulation; without a configuration a null pointer is read.\<close>

definition get_dr :: "regional_t \<Rightarrow> u32 \<Rightarrow> u8 \<Rightarrow> u8" where
  "get_dr rp datarate bw =
    (case index_where (\<lambda>d. datarate = ucast (lgw_sf_bps d) \<and> bw = lgw_bw d) (take (unat MAX_DATARATES) (datarates rp)) of
       Some i \<Rightarrow> word_of_nat i
     | None \<Rightarrow> MAX_DATARATES)"

definition token_of :: "gateway_t \<Rightarrow> lgw_pkt_rx_s \<Rightarrow> ULToken_t" where
  "token_of gw pk = \<lparr>tok_fd = g_fd gw, count_us = rx_count_us pk, seconds_at_beacon = g_seconds_at_beacon gw,
     tstamp_at_beacon = g_tstamp_at_beacon gw, lgw_trigcnt_at_next_beacon = g_lgw_trigcnt_at_next_beacon gw, beacon_ch = g_beacon_ch gw\<rparr>"

definition token_text :: "gateway_t \<Rightarrow> lgw_pkt_rx_s \<Rightarrow> string" where
  "token_text gw pk = hex_of_buf (ULToken_octets (token_of gw pk))"

definition SNR_WEIGHT :: rat where "SNR_WEIGHT = 12"

definition signal_quality :: "lgw_pkt_rx_s \<Rightarrow> int" where
  "signal_quality pk = trunc (to_float (to_float (pk_snr pk * SNR_WEIGHT) + pk_rssi pk))"

text \<open>The first copy of an uplink starts the collection.\<close>

definition start_local :: "ns_env \<Rightarrow> gateway_t \<Rightarrow> lgw_pkt_rx_s \<Rightarrow> bool \<Rightarrow> mote_t \<Rightarrow> mote_t" where
  "start_local n gw pk joinReq m =
    (if progress m \<noteq> PROGRESS_OFF then m
     else
       let rx2s = (if dl_rxwin n = 1 then (if joinReq then 5 else 1) else (if joinReq then 6 else 2));
           m1 = save_uplink_start (n_clock n) m rx2s PROGRESS_LOCAL;
           since = (rx_count_us pk - g_tstamp_at_beacon gw) div 1000000;
           secs = uint (g_seconds_at_beacon gw + since) + 315964800 - n_leap_seconds n
       in m1\<lparr>ulmd_local := (ulmd_local m1)\<lparr>RecvTime := n_strftime n secs, GWCnt := 0\<rparr>, m_read_host_time := g_read_host_time gw\<rparr>)"

text \<open>Each copy adds a gateway; a copy better than all before takes the frame's place.\<close>

definition add_copy :: "gateway_t \<Rightarrow> lgw_pkt_rx_s \<Rightarrow> u8 \<Rightarrow> mote_t \<Rightarrow> mote_t option" where
  "add_copy gw pk rate m =
    (case (to_int8 (pk_rssi pk), to_int8 (pk_snr pk)) of
       (Some r, Some s) \<Rightarrow>
         let tok = token_text gw pk;
             gi = \<lparr>gw_id = g_eui gw, gw_RFRegion = g_RFRegion gw, RSSI = r, SNR = s, Lat = c_lat (g_coord gw), Lon = c_lon (g_coord gw),
                   gw_ULToken = Some tok, DLAllowed = True\<rparr>;
             ul = ulmd_local m;
             m1 = m\<lparr>ulmd_local := ul\<lparr>gwList := gwList ul @ [Some gi], GWCnt := GWCnt ul + 1\<rparr>\<rparr>;
             sq = signal_quality pk
         in Some (if sq > best_sq m then
                m1\<lparr>best_sq := sq, rx_snr := s, bestULTokenStr := Some tok,
                   ULPayloadBin := memcpy_at (ULPayloadBin m) 0 (rx_payload pk) (length (rx_payload pk)),
                   ULPHYPayloadLen := word_of_nat (length (rx_payload pk)),
                   ulmd_local := (ulmd_local m1)\<lparr>ul_RFRegion := g_RFRegion gw, ul_DataRate := rate, ul_DevEUI := m_devEui m,
                     ul_DevAddr := m_devAddr m, ULFreq := of_int (uint (rx_freq_hz pk)) / 1000000\<rparr>\<rparr>
              else m1)
     | _ \<Rightarrow> None)"

definition fNS_uplink_direct :: "ns_env \<Rightarrow> nat \<Rightarrow> lgw_pkt_rx_s \<Rightarrow> unit ns" where
  "fNS_uplink_direct n g pk =
    bnd (read_gw g) (\<lambda>gw. bnd (must (g_rp gw)) (\<lambda>rp.
      let rate = get_dr rp (rx_datarate pk) (rx_bandwidth pk);
          array = rx_payload pk @ drop (length (rx_payload pk)) (stack_buf n)
      in if rate = MAX_DATARATES then return ()
         else (\<lambda>w. case GetMoteMtype (n_db n) (w_motes w) array of
             (ms, None, _) \<Rightarrow> Some ((), w\<lparr>w_motes := ms\<rparr>)
           | (ms, Some i, joinReq) \<Rightarrow>
               bnd (read_mote i) (\<lambda>m. bnd (must (add_copy gw pk rate (start_local n gw pk joinReq m))) (write_mote i)) (w\<lparr>w_motes := ms\<rparr>))))"

definition parse_uplink :: "ns_env \<Rightarrow> nat \<Rightarrow> buf \<Rightarrow> unit ns" where
  "parse_uplink n g b =
    bnd (must (rd 0 38 b)) (\<lambda>_.
      let size = unat (le_word (slice 36 2 b) :: u16) in
      if size > 256 then return ()
      else bnd (must (rd 38 (size + 1) b)) (\<lambda>body.
        let pk = \<lparr>rx_freq_hz = le_word (slice 0 4 b), if_chain = b ! 4, rx_status = b ! 5, rx_count_us = le_word (slice 6 4 b),
              rx_rf_chain = b ! 10, rx_modulation = b ! 11, rx_bandwidth = b ! 12, rx_datarate = le_word (slice 13 4 b),
              rx_coderate = b ! 17, pk_rssi = n_ieee32 n (le_word (slice 18 4 b)), pk_snr = n_ieee32 n (le_word (slice 22 4 b)),
              rx_payload = take size body, rx_modem_idx = last body\<rparr>
        in if size \<le> 11 then return ()
           else if body ! 0 AND 3 \<noteq> 0 then return ()
           else fNS_uplink_direct n g pk))"

section \<open>Messages of a gateway\<close>

definition PROT_VER :: u32 where "PROT_VER = 3"
definition REQ_CONF :: u8 where "REQ_CONF = 0"
definition BEACON_INDICATION :: u8 where "BEACON_INDICATION = 1"
definition UPLINK :: u8 where "UPLINK = 2"
definition BEACON_INIT :: u8 where "BEACON_INIT = 4"

definition create_gateway :: "u64 \<Rightarrow> u32 \<Rightarrow> gateway_t" where
  "create_gateway eui sock =
    \<lparr>g_fd = sock, num_modems = 0, g_eui = eui, g_coord = \<lparr>c_lat = 0, c_lon = 0, c_alt = 0\<rparr>, g_tstamp_at_beacon = 0, g_seconds_at_beacon = 0,
     sx1301_ppm_err = 0, trigcnt_pingslot_zero = 0, host_time_beacon_indication = \<lparr>tv_sec = 0, tv_nsec = 0\<rparr>,
     g_lgw_trigcnt_at_next_beacon = 0, new_indication = False, g_updated = False, have_gps_fix = False, g_beacon_ch = 0,
     beacon_modem_idx = 0, count_us_tx_start = 0, count_us_tx_end = 0, g_RFRegion = None, downpacketsreceived = 0,
     gooduppacketsreceived = 0, packetstransmitted = 0, uppacketsforwarded = 0, uppacketsreceived = 0, g_rp = None,
     g_read_host_time = \<lparr>tv_sec = 0, tv_nsec = 0\<rparr>\<rparr>"

text \<open>The node of a gateway: the first with its EUI, else a new one at the end. An old connection is closed.\<close>

definition gateway_node :: "u64 \<Rightarrow> u32 \<Rightarrow> nat ns" where
  "gateway_node eui sock w =
    (case index_where (\<lambda>gw. g_eui gw = eui) (w_gws w) of
       None \<Rightarrow> Some (length (w_gws w), w\<lparr>w_gws := w_gws w @ [create_gateway eui sock]\<rparr>)
     | Some g \<Rightarrow>
         (let gw = w_gws w ! g
          in Some (g, w\<lparr>w_gws := (w_gws w)[g := gw\<lparr>g_fd := sock\<rparr>],
                        w_eff := w_eff w @ (if g_fd gw \<noteq> sock then [Close (g_fd gw)] else [])\<rparr>)))"

definition close_with :: "u32 \<Rightarrow> int ns" where
  "close_with sock = andthen (emit (Close sock)) (return (- 1))"

text \<open>The configuration is sent when the database knows the gateway; one it does not know is added first.\<close>

definition req_conf :: "ns_env \<Rightarrow> nat \<Rightarrow> u32 \<Rightarrow> buf \<Rightarrow> int ns" where
  "req_conf n g sock abuf =
    bnd (must (rd 0 4 abuf)) (\<lambda>ver.
      if le_word ver \<noteq> PROT_VER then close_with sock
      else bnd (fNS_find_gateway n g) (\<lambda>i. bnd (must (rd 4 1 abuf)) (\<lambda>modems.
        andthen (modify_gw g (\<lambda>gw. gw\<lparr>num_modems := modems ! 0\<rparr>))
          (let configure = bnd (send_gateway_config n g) (\<lambda>r. if r < 0 then close_with sock else return 5)
           in if i = 0 then
                bnd (fNS_add_gateway n g) (\<lambda>_. bnd (fNS_find_gateway n g) (\<lambda>found. if found > 0 then configure else return 5))
              else if i > 0 then configure else return 5))))"

definition read_coord :: "ns_env \<Rightarrow> nat \<Rightarrow> buf \<Rightarrow> coord_s option" where
  "read_coord n off abuf =
    map_option (\<lambda>b. \<lparr>c_lat = n_ieee64 n (le_word (slice 0 8 b)), c_lon = n_ieee64 n (le_word (slice 8 8 b)),
      c_alt = sint (le_word (slice 16 2 b) :: u16)\<rparr>) (rd off 18 abuf)"

definition beacon_init :: "ns_env \<Rightarrow> nat \<Rightarrow> timespec \<Rightarrow> buf \<Rightarrow> int ns" where
  "beacon_init n g now abuf =
    bnd (must (rd 0 28 abuf)) (\<lambda>b. bnd (must (read_coord n 8 abuf)) (\<lambda>coord.
      let next_beacon = le_word (slice 0 4 b) in
      andthen (modify_gw g (\<lambda>gw. gw\<lparr>g_lgw_trigcnt_at_next_beacon := next_beacon, g_seconds_at_beacon := le_word (slice 4 4 b),
          g_coord := coord, g_beacon_ch := b ! 26, beacon_modem_idx := b ! 27\<rparr>))
        (andthen (fNS_update_gateway n g now)
          (andthen (modify_gw g (\<lambda>gw. gw\<lparr>g_tstamp_at_beacon := next_beacon - word_of_int BEACON_PERIOD_US, have_gps_fix := True\<rparr>))
            (return 28)))))"

definition beacon_sent :: "ns_env \<Rightarrow> nat \<Rightarrow> timespec \<Rightarrow> buf \<Rightarrow> int ns" where
  "beacon_sent n g now abuf =
    bnd (must (rd 0 27 abuf)) (\<lambda>b. bnd (must (read_coord n 8 abuf)) (\<lambda>coord.
      andthen (modify_gw g (\<lambda>gw. gw\<lparr>g_coord := coord, g_beacon_ch := b ! 26\<rparr>))
        (andthen (beacon_indication g (le_word (slice 0 4 b)) (le_word (slice 4 4 b)) now) (return 27))))"

definition gateway_eui :: "buf \<Rightarrow> u64" where
  "gateway_eui b = foldl (\<lambda>e x. push_bit 8 e OR ucast x) 0 (slice 3 6 b)"

text \<open>One message: the octets consumed, or a negative number. nbytes is cut to eight bits at the call.\<close>

definition parse_gateway :: "ns_env \<Rightarrow> buf \<Rightarrow> u8 \<Rightarrow> u32 \<Rightarrow> int ns" where
  "parse_gateway n b nbytes sock =
    (if nbytes < 9 then return (- 1)
     else let msg_len = le_word (slice 1 2 b) :: u16;
              abuf = slice 9 (unat nbytes - 9) b;
              now = n_clock n
          in bnd (gateway_node (gateway_eui b) sock) (\<lambda>g.
               andthen (modify_gw g (\<lambda>gw. gw\<lparr>g_read_host_time := now\<rparr>))
                 (bnd (if b ! 0 = REQ_CONF then req_conf n g sock abuf
                       else if b ! 0 = BEACON_INIT then beacon_init n g now abuf
                       else if b ! 0 = BEACON_INDICATION then beacon_sent n g now abuf
                       else if b ! 0 = UPLINK then
                         andthen (modify_gw g (\<lambda>gw. gw\<lparr>uppacketsreceived := uppacketsreceived gw + 1\<rparr>))
                           (andthen (parse_uplink n g abuf) (return (int (unat msg_len))))
                       else return 0)
                   (\<lambda>used. return (if used < 0 then - 1 else used + 9)))))"

text \<open>
  A read from the socket: the message at the start of the buffer is parsed as
  long as octets are left over. The buffer is never advanced.
\<close>

partial_function (option) messages :: "ns_env \<Rightarrow> buf \<Rightarrow> u32 \<Rightarrow> int \<Rightarrow> ns_world \<Rightarrow> (int \<times> ns_world) option" where
  "messages n b sock nbytes w =
    (if nbytes > 0 then
       (case parse_gateway n b (word_of_int nbytes) sock w of None \<Rightarrow> None
        | Some (r, w') \<Rightarrow> if r < 0 then Some (r, w') else messages n b sock (nbytes - r) w')
     else Some (0, w))"

definition gateway_gone :: "u32 \<Rightarrow> unit ns" where
  "gateway_gone sock w =
    (case index_where (\<lambda>gw. g_fd gw = sock) (w_gws w) of
       None \<Rightarrow> Some ((), w)
     | Some g \<Rightarrow> modify_gw g (\<lambda>gw. gw\<lparr>g_fd := - 1, g_updated := False, have_gps_fix := False\<rparr>) w)"

text \<open>What read returned: None is an error, the empty list the end of the connection.\<close>

definition read_from_client :: "ns_env \<Rightarrow> u32 \<Rightarrow> buf option \<Rightarrow> int ns" where
  "read_from_client n sock got =
    (case got of None \<Rightarrow> return (- 1)
     | Some [] \<Rightarrow> andthen (gateway_gone sock) (return (- 1))
     | Some b \<Rightarrow> messages n b sock (int (length b)))"

definition gateway_disconnect :: "u64 \<Rightarrow> unit ns" where
  "gateway_disconnect eui w =
    (case index_where (\<lambda>gw. g_eui gw = eui) (w_gws w) of
       None \<Rightarrow> Some ((), w)
     | Some g \<Rightarrow> emit (Shutdown (g_fd (w_gws w ! g))) w)"

end
