(* ===== verification/Forwarding.thy ===== *)
theory Forwarding
  imports Gateway
begin

text \<open>
  The downlink side of the forwarding server (network_server/fNS.c): which
  gateway sends, when and at which rate, the class B downlink that waits for
  the next beacon, and the periodic service of the gateway process
  (network_server/gateway.c) that sends it.
\<close>

section \<open>The packet\<close>

text \<open>The entry of the rate table; an index behind the table is undefined.\<close>

definition set_rate :: "regional_t \<Rightarrow> u8 \<Rightarrow> lgw_pkt_tx_s \<Rightarrow> lgw_pkt_tx_s option" where
  "set_rate rp rate p =
    (if unat rate < length (datarates rp) then
       (let d = datarates rp ! unat rate
        in Some (if fdev_khz d = 0 then p\<lparr>tx_datarate := ucast (lgw_sf_bps d), tx_bandwidth := lgw_bw d\<rparr>
                 else p\<lparr>tx_modulation := MOD_FSK, f_dev := fdev_khz d, tx_datarate := ucast (lgw_sf_bps d)\<rparr>))
     else None)"

definition downlink_packet :: "ns_env \<Rightarrow> regional_t \<Rightarrow> buf \<Rightarrow> lgw_pkt_tx_s" where
  "downlink_packet n rp frame = (stack_tx n)\<lparr>tx_mode := TIMESTAMPED, tx_rf_power := word_of_int (dl_tx_dbm rp), invert_pol := True,
     tx_preamble := STD_LORA_PREAMB, no_crc := True, no_header := False, tx_payload := frame, tx_modem_idx := 0,
     tx_coderate := CR_LORA_4_5, tx_modulation := MOD_LORA\<rparr>"

definition freq_hz :: "rat \<Rightarrow> u32 option" where "freq_hz mhz = to_u32 (to_float (mhz * 1000000))"

definition send_packet :: "ns_env \<Rightarrow> nat \<Rightarrow> lgw_pkt_tx_s \<Rightarrow> result ns" where
  "send_packet n g p =
    bnd (read_gw g) (\<lambda>gw. bnd (gateway_id_write_downlink n (g_eui gw) p) (\<lambda>r. return (if r < 0 then XmitFailed else Success)))"

section \<open>Ping slots\<close>

partial_function (option) use_pingslot :: "int \<Rightarrow> u32 \<Rightarrow> u16 \<Rightarrow> u16 option" where
  "use_pingslot now_slot period slot =
    (if int (unat slot) < now_slot + 5 then use_pingslot now_slot period (ucast (ucast slot + period)) else Some slot)"

text \<open>The counter at a ping slot: a sum of floats.\<close>

definition ping_count_us :: "gateway_t \<Rightarrow> u16 \<Rightarrow> u32 option" where
  "ping_count_us gw slot =
    (let us = to_float (of_nat (unat slot * 30000));
         s = to_float (to_double (of_nat (unat slot) * to_double (3 / 100)));
         ofs = to_float (us + to_float (sx1301_ppm_err gw * s))
     in to_u32 (to_float (to_float (of_nat (unat (trigcnt_pingslot_zero gw))) + ofs)))"

definition now_pingslot :: "ns_env \<Rightarrow> gateway_t \<Rightarrow> int option" where
  "now_pingslot n gw =
    (let since = difftimespec (n_clock n) (host_time_beacon_indication gw);
         slot = \<lceil>to_double (to_double (since - to_double (212 / 100)) / to_double (3 / 100))\<rceil>
     in if - 32768 \<le> slot \<and> slot \<le> 32767 then Some slot else None)"

definition zero_f :: "nat \<Rightarrow> f_t" where
  "zero_f g = \<lparr>beaconDeferred = False, f_PingPeriod = 0, f_gw = g, f_tx_pkt = \<lparr>tx_freq_hz = 0, tx_mode = 0, tx_count_us = 0,
     tx_rf_power = 0, tx_modulation = 0, tx_bandwidth = 0, tx_datarate = 0, tx_coderate = 0, invert_pol = False, f_dev = 0,
     tx_preamble = 0, no_crc = False, no_header = False, tx_payload = [], tx_modem_idx = 0\<rparr>, f_clientID = None, f_reqTid = 0\<rparr>"

definition defer_ping :: "nat \<Rightarrow> DLMetaData_t \<Rightarrow> u64 \<Rightarrow> string option \<Rightarrow> lgw_pkt_tx_s \<Rightarrow> mote_t \<Rightarrow> mote_t" where
  "defer_ping g md reqTid client p m =
    (let f = (case m_f m of Some f \<Rightarrow> f | None \<Rightarrow> zero_f g);
         f1 = f\<lparr>beaconDeferred := True, f_PingPeriod := PingPeriod md, f_gw := g, f_tx_pkt := p\<rparr>
     in m\<lparr>m_f := Some (case client of Some c \<Rightarrow> f1\<lparr>f_clientID := Some c, f_reqTid := reqTid\<rparr> | None \<Rightarrow> f1)\<rparr>)"

definition class_b_downlink ::
  "ns_env \<Rightarrow> DLMetaData_t \<Rightarrow> u64 \<Rightarrow> string option \<Rightarrow> nat \<Rightarrow> regional_t \<Rightarrow> lgw_pkt_tx_s \<Rightarrow> result option ns" where
  "class_b_downlink n md reqTid client g rp p0 =
    bnd (read_gw g) (\<lambda>gw. bnd (must (freq_hz (dl_DLFreq1 md))) (\<lambda>hz.
      bnd (must (set_rate rp (DataRate1 md) (p0\<lparr>tx_freq_hz := hz\<rparr>))) (\<lambda>p1.
      if PingPeriod md = 0 then return (Some XmitFailed)
      else bnd (must (now_pingslot n gw)) (\<lambda>now_slot.
        let addr = fh_DevAddr (parse_fhdr (tx_payload p0)) in
        bnd (must (LoRaMacBeaconComputePingOffset (ucast (g_seconds_at_beacon gw)) addr (ucast (PingPeriod md)))) (\<lambda>ofs.
        bnd (must (use_pingslot now_slot (PingPeriod md) ofs)) (\<lambda>slot.
        bnd (must (ping_count_us gw slot)) (\<lambda>count.
          let p2 = p1\<lparr>tx_count_us := count\<rparr> in
          if ucast slot \<ge> BEACON_WINDOW_SLOTS then
            bnd (find_mote n NONE_DEVEUI addr) (\<lambda>i.
              andthen (modify_mote i (defer_ping g md reqTid client p2)) (return None))
          else bnd (send_packet n g p2) (\<lambda>r. return (Some r)))))))))"

section \<open>Receive windows\<close>

text \<open>One window; None when the downlink goes on.\<close>

definition rx_window :: "ns_env \<Rightarrow> nat \<Rightarrow> regional_t \<Rightarrow> u8 \<Rightarrow> rat \<Rightarrow> (lgw_pkt_tx_s \<Rightarrow> lgw_pkt_tx_s) \<Rightarrow> lgw_pkt_tx_s \<Rightarrow>
    (result option \<times> lgw_pkt_tx_s) ns" where
  "rx_window n g rp rate mhz timing p =
    (if mhz > 1 then
       if unat rate \<ge> num_datarates rp then return (Some XmitFailed, p)
       else bnd (must (set_rate rp rate p)) (\<lambda>p1. bnd (must (freq_hz mhz)) (\<lambda>hz.
         let p2 = timing (p1\<lparr>tx_freq_hz := hz\<rparr>)
         in bnd (send_packet n g p2) (\<lambda>r. return (if r = XmitFailed then Some XmitFailed else None, p2))))
     else return (None, p))"

text \<open>The last node of the list with the file descriptor of the token.\<close>

definition token_gateway :: "gateway_t list \<Rightarrow> u32 \<Rightarrow> nat option" where
  "token_gateway gws sock = find (\<lambda>g. g_fd (gws ! g) = sock) (rev [0..<length gws])"

definition too_late :: "ns_env \<Rightarrow> DLMetaData_t \<Rightarrow> gateway_t \<Rightarrow> bool" where
  "too_late n md gw \<longleftrightarrow> ClassMode md = CHR ''A'' \<and>
     to_double (difftimespec (n_clock n) (g_read_host_time gw) + to_double (1 / 100)) > of_nat (unat (RXDelay1 md))"

definition rx_windows :: "ns_env \<Rightarrow> DLMetaData_t \<Rightarrow> ULToken_t \<Rightarrow> nat \<Rightarrow> regional_t \<Rightarrow> lgw_pkt_tx_s \<Rightarrow> result ns" where
  "rx_windows n md tok g rp p =
    (let after = (\<lambda>s. count_us tok + word_of_nat (s * 1000000));
         delay1 = unat (RXDelay1 md)
     in bnd (rx_window n g rp (DataRate1 md) (dl_DLFreq1 md) (\<lambda>p. p\<lparr>tx_count_us := after delay1\<rparr>) p) (\<lambda>(r1, p1).
          case r1 of Some r \<Rightarrow> return r
          | None \<Rightarrow>
              bnd (rx_window n g rp (DataRate2 md) (dl_DLFreq2 md)
                     (\<lambda>p. if ClassMode md = CHR ''C'' then p\<lparr>tx_mode := IMMEDIATE\<rparr> else p\<lparr>tx_count_us := after (delay1 + 1)\<rparr>) p1)
                (\<lambda>(r2, _). return (case r2 of Some r \<Rightarrow> r | None \<Rightarrow> Success))))"

text \<open>None is the answer that follows after the next beacon.\<close>

definition fNS_downlink :: "ns_env \<Rightarrow> DLMetaData_t \<Rightarrow> u64 \<Rightarrow> string option \<Rightarrow> buf option \<Rightarrow> u8 \<Rightarrow> result option ns" where
  "fNS_downlink n md reqTid client txBuf txLen =
    (case txBuf of None \<Rightarrow> return (Some XmitFailed)
     | Some b \<Rightarrow>
       if txLen = 0 then return (Some XmitFailed)
       else case dl_FNSULToken md of None \<Rightarrow> return (Some XmitFailed)
       | Some t \<Rightarrow>
         bnd (must (token_octets (stack_octet n) t)) (\<lambda>os. let tok = parse_ULToken os in (\<lambda>w.
           (case token_gateway (w_gws w) (tok_fd tok) of None \<Rightarrow> return (Some XmitFailed)
            | Some g \<Rightarrow>
              let gw = w_gws w ! g in
              if too_late n md gw then return (Some XmitFailed)
              else case find_region (n_regions n) (g_RFRegion gw) of None \<Rightarrow> return (Some XmitFailed)
              | Some rg \<Rightarrow>
                bnd (must (rd 0 (unat txLen) b)) (\<lambda>frame.
                  let p = downlink_packet n (regional rg) frame in
                  if ClassMode md = CHR ''B'' then class_b_downlink n md reqTid client g (regional rg) p
                  else if ClassMode md = CHR ''C'' \<or> ClassMode md = CHR ''A''
                  then bnd (rx_windows n md tok g (regional rg) p) (\<lambda>r. return (Some r))
                  else return (Some XmitFailed))) w)))"

section \<open>After the beacon\<close>

text \<open>The name of the client is freed and the pointer kept: None stands for it, and a later use is undefined.\<close>

definition free_client :: "mote_t \<Rightarrow> mote_t" where
  "free_client m = m\<lparr>m_f := map_option (\<lambda>f. f\<lparr>f_clientID := None\<rparr>) (m_f m)\<rparr>"

definition fNS_beacon_service :: "ns_env \<Rightarrow> nat \<Rightarrow> unit ns" where
  "fNS_beacon_service n i =
    bnd (read_mote i) (\<lambda>m.
      case m_f m of None \<Rightarrow> return ()
      | Some f \<Rightarrow>
        if \<not> beaconDeferred f then return ()
        else bnd (read_gw (f_gw f)) (\<lambda>gw.
          bnd (must (LoRaMacBeaconComputePingOffset (ucast (g_seconds_at_beacon gw)) (m_devAddr m) (ucast (f_PingPeriod f)))) (\<lambda>ofs.
          bnd (must (ping_count_us gw ofs)) (\<lambda>count.
          let p = (f_tx_pkt f)\<lparr>tx_count_us := count\<rparr> in
          andthen (write_mote i (m\<lparr>m_f := Some (f\<lparr>beaconDeferred := False, f_tx_pkt := p\<rparr>)\<rparr>))
            (bnd (send_packet n (f_gw f) p) (\<lambda>r.
              case sql_motes_query (n_db n) (n_now n) (m_devEui m) (m_devAddr m) of (res, sql) \<Rightarrow>
                if res = Success then
                  if r_roamState sql = Some roamfPASSIVE
                  then andthen (send_XmitDataAns n False [] (f_clientID f) (f_reqTid f) r) (modify_mote i free_client)
                  else andthen (answer_app_downlink n i r False) (return ())
                else return ()))))))"

definition GATEWAY_WAITING_SECONDS :: rat where "GATEWAY_WAITING_SECONDS = to_double (2 / 10)"

definition update_indicated :: "ns_env \<Rightarrow> nat \<Rightarrow> unit ns" where
  "update_indicated n g =
    bnd (read_gw g) (\<lambda>gw.
      if new_indication gw then
        andthen (fNS_update_gateway n g (host_time_beacon_indication gw))
          (modify_gw g (\<lambda>gw. gw\<lparr>new_indication := False, g_updated := True\<rparr>))
      else modify_gw g (\<lambda>gw. gw\<lparr>g_updated := False\<rparr>))"

definition gateway_service :: "ns_env \<Rightarrow> unit ns" where
  "gateway_service n w =
    (if tv_sec (w_beacon_start w) \<noteq> 0 \<and> difftimespec (n_clock n) (w_beacon_start w) > GATEWAY_WAITING_SECONDS then
       andthen (each (fNS_beacon_service n) (filter (\<lambda>i. w_motes w ! i \<noteq> None) [0..<length (w_motes w)]))
         (each (update_indicated n) [0..<length (w_gws w)]) (w\<lparr>w_beacon_start := (w_beacon_start w)\<lparr>tv_sec := 0\<rparr>\<rparr>)
     else Some ((), w))"

end
