(* ===== verification/Samples.thy ===== *)
theory Samples
  imports JoinDispatch JoinFacts Metadata Base64 Forwarding
begin

text \<open>Concrete device states and environments, on which the properties are evaluated.\<close>

definition md0 :: DLMetaData_t where
  "md0 = \<lparr>dl_DevEUI = 0, dl_DevAddr = 0, dl_FPort = 0, dl_FCntDown = 0, dl_Confirmed = False, dl_DLFreq1 = 0,
     dl_DLFreq2 = 0, RXDelay1 = 0, DataRate1 = 0, DataRate2 = 0, ClassMode = CHR 0x00, dl_FNSULToken = None,
     ultList = [], HiPriorityFlag = False, PingPeriod = 0\<rparr>"

definition dl0 :: downlink_t where
  "dl0 = \<lparr>d_md = md0, d_reqTid = 0, ansDest = None, isAnsDestAS = False, d_PHYPayloadBin = replicate 256 0,
     d_PHYPayloadLen = 0, d_FRMPayloadBin = replicate 244 0, d_FRMPayloadLen = 0, FRMSent = False, resendAt = 0\<rparr>"

definition flags0 :: s_flags where
  "flags0 = \<lparr>send_start_mac_cmds = False, session_start_at_uplink = False, force_adr = False, incrNFCntDown = False,
     newFCntUp = False, upConfreSent = False, checkOldSessions = False, RStop_flag = False, answer_app_downlink = False\<rparr>"

definition s0 :: s_t where
  "s0 = \<lparr>ChMask = replicate 6 0, macq = empty_queue, snr_history = replicate 3 0, snr_history_idx = 0, txpwr_idx = 0,
     ConfFCntDown = 0, AFCntDown = 0, confDLPHYPayloadBin = replicate 256 0, confDLPHYPayloadLen = 0, ping_slot_info = 0,
     ping_period = 0, ping_offset = 0, downlink = dl0, s_DLFreq1 = 0, s_DLFreq2 = 0, classModeInd = 0,
     type2_rejoin_count = 0, flags = flags0\<rparr>"

lemma s0_macq [simp]: "macq s0 = empty_queue" "flags s0 = flags0"
  by (simp_all add: s0_def)

definition env0 :: mac_env where
  "env0 = \<lparr>e_rx_snr = 7, e_devAddr = 0x01020304, e_devEui = 5, e_GWCnt = 2, e_RFRegion = Some ''EU868'',
     e_ult = parse_ULToken (replicate 21 0), e_db = (\<lambda>_. SqlRows []), e_mq = (\<lambda>_. 0), e_now = 100, e_regions = []\<rparr>"

lemma env0_ok: "callbacks_ok (e_regions env0)"
  by (simp add: callbacks_ok_def env0_def)

lemma env0_runs: "parse_mac_command env0 0 None [2, 3, 7] 3 s0 \<noteq> None"
  by (simp add: parse_mac_command_def mac_cmd_loop.simps mac_cmd_step_def arg_def mote_cmds_def
      put_cmd_def clear_cmd_def flags0_def Let_def)

text \<open>A network server without regions, and a 1.0 device whose unconfirmed frame carries the right code.\<close>

definition tx0 :: lgw_pkt_tx_s where
  "tx0 = \<lparr>tx_freq_hz = 0, tx_mode = 0, tx_count_us = 0, tx_rf_power = 0, tx_modulation = 0, tx_bandwidth = 0, tx_datarate = 0,
     tx_coderate = 0, invert_pol = False, f_dev = 0, tx_preamble = 0, no_crc = False, no_header = False, tx_payload = [], tx_modem_idx = 0\<rparr>"

definition blank_device :: DeviceProfile_t where
  "blank_device = \<lparr>SupportsClassB = False, ClassBTimeout = 0, PingSlotPeriod = 0, PingSlotDR = 0, PingSlotFreq = 0,
     SupportsClassC = False, ClassCTimeout = 0, RegParamsRevision = [], SupportsJoin = False, MACVersion = [], dp_RXDelay1 = 0,
     RXDROffset1 = 0, RXDataRate2 = 0, RXFreq2 = 0, FactoryPresetFreqs = [], MaxEIRP = 0, MaxDutyCycle = 0, dp_RFRegion = [],
     Supports32bitFCnt = False\<rparr>"

definition ns0 :: ns_env where
  "ns0 = \<lparr>n_db = (\<lambda>_. SqlRows []), n_mq = (\<lambda>_. 0), n_now = 100, n_regions = [], n_float = (\<lambda>_. 0), myNetwork_id32 = 1,
     myNetwork_idStr = ''000001'', netIdDomain = ''netids.example'', n_easy = True, n_post = (\<lambda>_ _. 0), stack32 = 0,
     stack_octet = 0, stack_ult = parse_ULToken (replicate 21 0), stack_buf = replicate 256 0,
     stack_tx = tx0, n_clock = \<lparr>tv_sec = 100, tv_nsec = 0\<rparr>, n_read_file = (\<lambda>_. None), regionPath = ''conf'', n_write = (\<lambda>_ b. int (length b)), n_ieee32 = of_int \<circ> sint, n_ieee64 = of_int \<circ> sint,
     n_strftime = (\<lambda>_. ''2019-01-01T00:00:00Z''), n_leap_seconds = 18, dl_rxwin = 1, joinDomain = ''joineuis.example'',
     devAddrBase = 0x80000000, nwkAddrBits = 24, n_wrap = (\<lambda>_ k. Some k), n_unwrap = (\<lambda>_ k. Some (take 16 k)),
     n_perform = True, n_affected = (\<lambda>_. 1), n_mktime = (\<lambda>_. 0), n_error = (\<lambda>_. ''failed''), n_errno = (\<lambda>_. 1), n_insert_id = (\<lambda>_. 7), n_pointer = ''0x10'', stack_text = [], stack_profile = blank_profile, stack_device = blank_device, stack_ulmd = zero_ulmd\<rparr>"

definition frame0 :: buf where "frame0 = [0x40, 4, 3, 2, 1, 0, 1, 0]"

definition frame_mic0 :: buf where
  "frame_mic0 = take 4 (mic_octets (replicate 16 0) (uplink_block 0 0 0 0x01020304 1 8) frame0)"

definition phy0 :: buf where "phy0 = frame0 @ frame_mic0 @ replicate 244 0"

definition mote0 :: mote_t where
  "mote0 = zero_mote\<lparr>m_devAddr := 0x01020304, m_s := Some s0, session := zero_session\<lparr>until := - 1\<rparr>,
     ULPayloadBin := phy0, ULPHYPayloadLen := 12\<rparr>"

lemma length_frame_mic0 [simp]: "length frame_mic0 = 4"
  by (simp add: frame_mic0_def)

lemma length_phy0 [simp]: "length phy0 = 256"
  by (simp add: phy0_def frame0_def)

lemma phy0_front: "phy0 ! 0 = 0x40" "phy0 ! 5 = 0" "take 8 phy0 = frame0" "slice 8 4 phy0 = frame_mic0"
  by (simp_all add: phy0_def frame0_def slice_def)

lemma phy0_fhdr: "parse_fhdr phy0 = \<lparr>fh_DevAddr = 0x01020304, fh_FCtrl = 0, fh_FCnt = 1\<rparr>"
proof -
  have "fhdr_octets \<lparr>fh_DevAddr = 0x01020304, fh_FCtrl = 0, fh_FCnt = 1\<rparr> = [4, 3, 2, 1, 0, 1, 0]" by code_simp
  then show ?thesis using parse_fhdr_octets [of "0x40" "\<lparr>fh_DevAddr = 0x01020304, fh_FCtrl = 0, fh_FCnt = 1\<rparr>" "frame_mic0 @ replicate 244 0"]
    by (simp add: phy0_def frame0_def)
qed

lemma mote0_fields [simp]:
  "ULPayloadBin mote0 = phy0" "ULPHYPayloadLen mote0 = 12" "m_s mote0 = Some s0" "session mote0 = zero_session\<lparr>until := - 1\<rparr>"
  "m_devAddr mote0 = 0x01020304" "rx_snr mote0 = 0"
  by (simp_all add: mote0_def zero_mote_def)

lemma mote0_mic: "mic_check10 mote0 s (zero_ulmd\<lparr>ul_FCntUp := 1\<rparr>) = Some (MicOk s)"
proof -
  let ?res = "mic_check10 mote0 s (zero_ulmd\<lparr>ul_FCntUp := 1\<rparr>)"
  obtain res where res: "?res = Some res"
    by (simp add: mic_check10_def Let_def check_mic10_def rx_mic32_def)
  have k: "length (SNwkSIntKeyBin (session mote0)) = 16" by (simp add: zero_session_def)
  have good: "take 4 (mic_octets (SNwkSIntKeyBin (session mote0)) (uplink_block 0 0 0 (fh_DevAddr (parse_fhdr (ULPayloadBin mote0)))
      (ul_FCntUp (zero_ulmd\<lparr>ul_FCntUp := 1\<rparr>)) (ULPHYPayloadLen mote0 - 4)) (take (unat (ULPHYPayloadLen mote0) - 4) (ULPayloadBin mote0)))
      = slice (unat (ULPHYPayloadLen mote0) - 4) 4 (ULPayloadBin mote0)"
    by (simp add: phy0_fhdr phy0_front frame_mic0_def zero_session_def)
  show ?thesis using mic_check10_ok [OF res k] res good by simp
qed

lemma zero_session_fields [simp]:
  "FCntUp zero_session = 0" "nullNFCntDown zero_session = False" "OptNeg zero_session = False" "NFCntDown zero_session = 0"
  by (simp_all add: zero_session_def)

lemma phy0_type: "mtype_of (phy0 ! 0) = MTYPE_UNCONF_UP"
  unfolding phy0_front by code_simp

lemma FCtrl_zero [simp]: "FCtrl_ACK 0 = False" "FCtrl_ADR 0 = False" "FCtrl_ADRACKReq 0 = False" "FOptsLen 0 = 0"
  by code_simp+

lemma mote0_accept:
  assumes "flags s = flags0\<lparr>newFCntUp := True\<rparr>" "downlink s = dl0" "macq s = empty_queue" "confDLPHYPayloadLen s = 0"
  shows "\<exists>r. accept_uplink ns0 mote0 False (zero_ulmd\<lparr>ul_FCntUp := 1\<rparr>) False s = Some r"
proof -
  have e: "are_mac_cmds_queued empty_queue = False" by code_simp
  have port: "\<not> int (unat (12 :: u8)) - 4 > int 8" by simp
  have ack: "take_ack mote0 s = (mote0, s, [])" by (simp add: take_ack_def phy0_fhdr)
  have start: "start_session ns0 m ul s = Some s" for m ul using assms by (simp add: start_session_def flags0_def)
  have cmds: "uplink_commands ns0 mote0 False ul False s = Some (s, [], False)" for ul
    by (simp add: uplink_commands_def Let_def phy0_fhdr)
  have adr: "run_adr ns0 mote0 ul s = network_controller_uplink s 0" for ul
    using assms by (simp add: run_adr_def Let_def phy0_fhdr network_controller_uplink_def flags0_def)
  have idle: "sNS_schedule_downlink mote0 (s'\<lparr>flags := fl\<rparr>) = Some (s'\<lparr>flags := fl\<rparr>)"
    if "s' = network_controller_uplink s 0" for s' fl
    using assms e that
    by (simp add: sNS_schedule_downlink_def downlink_wanted_def Let_def phy0_type phy0_fhdr forces_downlink_def
        network_controller_uplink_def dl0_def)
  show ?thesis
    using assms(1) unfolding accept_uplink_def
    by (simp add: Let_def ack start cmds adr idle flags0_def)
qed

lemma mote0_accepted:
  "\<exists>r. sNS_uplink ns0 mote0 False zero_ulmd False = Some r \<and> uo_result r = Success"
proof -
  have f: "fcnt32 0 1 = 1" "\<not> replayed 0 1" by code_simp+
  have g: "session_gate ns0 mote0 False s0 = Some (s0, [], None)" by (simp add: session_gate_def)
  obtain r where "accept_uplink ns0 mote0 False (zero_ulmd\<lparr>ul_FCntUp := 1\<rparr>) False (s0\<lparr>flags := flags0\<lparr>newFCntUp := True\<rparr>\<rparr>) = Some r"
    using mote0_accept [of "s0\<lparr>flags := flags0\<lparr>newFCntUp := True\<rparr>\<rparr>"] by (auto simp: s0_def)
  then show ?thesis
    using accept_uplink_Success
    by (simp add: sNS_uplink_def Let_def state_for_def g phy0_fhdr f mote0_mic)
qed

text \<open>A join server that knows one 1.0 device, and the join request of that device.\<close>

definition text0 :: json_text where "text0 j = (case j of JStr s \<Rightarrow> s | _ \<Rightarrow> [])"

definition wrap0 :: key_wrap where "wrap0 kek key = (if length key = 16 then Some (key @ replicate 8 0) else None)"

definition unwrap0 :: key_wrap where "unwrap0 kek enc = Some (take 16 enc)"

definition key0 :: buf where "key0 = bytes_of (replicate 16 (CHR ''k''))"

definition js_db0 :: mysql where
  "js_db0 q =
    (if q = ''SELECT NwkKey FROM joinmotes WHERE eui = 5'' then SqlRows [[Some (replicate 16 (CHR ''k''))]]
     else if q = ''SELECT AppKey FROM joinmotes WHERE eui = 5'' then SqlRows [[None]]
     else if take 12 q = ''SELECT Lifet'' then SqlRows [[Some ''60'']] else SqlRows [])"

definition js0 :: js_env where
  "js0 = \<lparr>js_db = js_db0, js_text = text0, js_wrap = wrap0, js_rand = 9, myJoinEui64 = 1,
     envelope_app = \<lparr>kek_label = None, key_bin = []\<rparr>, envelope_nwk = \<lparr>kek_label = Some ''nwk'', key_bin = replicate 16 1\<rparr>,
     js_uncyphered = replicate 222 0, js_txBuf = replicate 256 0, js_error = (\<lambda>_. ''failed''), js_affected = (\<lambda>_. 1)\<rparr>"

definition join_frame0 :: buf where
  "join_frame0 = [0] @ uint64_to_eui_buf 1 @ uint64_to_eui_buf 5 @ [7, 0]"

definition join_rx0 :: buf where "join_rx0 = join_frame0 @ join_mic key0 join_frame0"

definition join_fields0 :: fields where
  "join_fields0 = [(''PHYPayload'', JStr (hex_of_buf join_rx0)), (''DevEUI'', JStr ''5''), (''DevAddr'', JStr ''1a2b''),
     (''DLSettings'', JStr ''3''), (''RxDelay'', JStr ''1'')]"

lemma length_key0 [simp]: "length key0 = 16"
  by (simp add: key0_def bytes_of_def)

lemma length_eui_buf [simp]: "length (uint64_to_eui_buf v) = 8"
  by (simp add: uint64_le_bytes)

lemma length_join0 [simp]: "length join_frame0 = 19" "length join_rx0 = 23"
  by (simp_all add: join_frame0_def join_rx0_def)

lemma join_rx0_parts:
  "slice 1 8 join_rx0 = uint64_to_eui_buf 1" "slice 9 8 join_rx0 = uint64_to_eui_buf 5" "slice 17 2 join_rx0 = [7, 0]"
  "take 19 join_rx0 = join_frame0" "slice 19 4 join_rx0 = join_mic key0 join_frame0" "join_rx0 \<noteq> []" "hd join_rx0 = 0"
proof -
  have e: "length (uint64_to_eui_buf 1) = 8" "length (uint64_to_eui_buf 5) = 8" by simp_all
  show "take 19 join_rx0 = join_frame0" "slice 19 4 join_rx0 = join_mic key0 join_frame0" "join_rx0 \<noteq> []" "hd join_rx0 = 0"
    using length_join0(1) by (simp_all add: join_rx0_def slice_def join_frame0_def)
  show "slice 1 8 join_rx0 = uint64_to_eui_buf 1" "slice 9 8 join_rx0 = uint64_to_eui_buf 5" "slice 17 2 join_rx0 = [7, 0]"
    by (simp_all add: join_rx0_def join_frame0_def slice_def)
qed

lemma js0_sel [simp]: "js_text js0 = text0" "js_db js0 = js_db0" "js_wrap js0 = wrap0" "js_rand js0 = 9" "myJoinEui64 js0 = 1"
  by (simp_all add: js0_def)

lemma text0_JStr [simp]: "text0 (JStr s) = s" by (simp add: text0_def)

lemma join_fields0_get:
  "map_of join_fields0 ''PHYPayload'' = Some (JStr (hex_of_buf join_rx0))" "map_of join_fields0 ''DevEUI'' = Some (JStr ''5'')"
  "map_of join_fields0 ''DevAddr'' = Some (JStr ''1a2b'')" "map_of join_fields0 ''DLSettings'' = Some (JStr ''3'')"
  "map_of join_fields0 ''RxDelay'' = Some (JStr ''1'')" "map_of join_fields0 ''CFList'' = None"
  by (simp_all add: join_fields0_def)

lemma scans0:
  "sscanf_hex ''5'' = Some (5 :: u64)" "sscanf_hex ''1a2b'' = Some (0x1a2b :: u32)" "sscanf_hex ''3'' = Some (3 :: u32)"
  "sscanf_hex ''1'' = Some (1 :: u32)" "sscanf_dec ''60'' = Some (60 :: u32)"
  by (simp_all add: sscanf_hex_def sscanf_dec_def scan_value_def is_space_def skip_0x_def scan_unsigned_digits_def digit_val_def)

lemma scans1:
  "sscanf_dec ''3'' = Some (3 :: u32)" "sscanf_dec ''4'' = Some (4 :: u32)" "sscanf_dec ''8'' = Some (8 :: u32)"
  "sscanf_dec ''9'' = Some (9 :: u32)"
  by (simp_all add: sscanf_dec_def scan_value_def is_space_def scan_unsigned_digits_def digit_val_def)

lemma js0_frame: "js_frame js0 join_fields0 = Some (Inr (join_rx0, 23, 5))"
proof -
  have d: "sscanf_hex ''5'' = Some (5 :: u64)" by (rule scans0)
  have "hex_pairs 23 (hex_of_buf join_rx0) = Some join_rx0" by (rule hex_pairs_hex_all) simp
  moreover have "length (hex_of_buf join_rx0) = 46" by (simp add: len_simps)
  ultimately show ?thesis
    unfolding js_frame_def join_fields0_get option.case js0_sel text0_JStr Let_def d by simp
qed

lemma js0_keys:
  "get_sql_joinmote_key js_db0 ''NwkKey'' 5 = Some (1, Some key0)"
  "get_sql_joinmote_key js_db0 ''AppKey'' 5 = Some (0, None)"
proof -
  have five: "print_unsigned (5 :: u64) = ''5''" by code_simp
  have q: "''SELECT '' @ ''NwkKey'' @ '' FROM joinmotes WHERE eui = '' @ print_unsigned (5 :: u64) = ''SELECT NwkKey FROM joinmotes WHERE eui = 5''"
    "''SELECT '' @ ''AppKey'' @ '' FROM joinmotes WHERE eui = '' @ print_unsigned (5 :: u64) = ''SELECT AppKey FROM joinmotes WHERE eui = 5''"
    unfolding five by simp_all
  show "get_sql_joinmote_key js_db0 ''NwkKey'' 5 = Some (1, Some key0)"
    unfolding get_sql_joinmote_key_def q by (simp add: js_db0_def cell_def key0_def bytes_of_def)
  show "get_sql_joinmote_key js_db0 ''AppKey'' 5 = Some (0, None)"
    unfolding get_sql_joinmote_key_def q by (simp add: js_db0_def cell_def)
qed

lemma js0_no_JSIntKey: "get_sql_joinmote_key js_db0 ''JSIntKey'' 5 = Some (- 1, None)"
  by (simp add: get_sql_joinmote_key_def js_db0_def)

definition rq0 :: join_rq where
  "rq0 = \<lparr>rq_MicKey = Some key0, rq_JoinEUI = uint64_to_eui_buf 1, rq_nonce = 7, rq_type = 0xff\<rparr>"

lemma js0_request: "js_request js0 join_rx0 23 5 = Some (Inr rq0)"
proof -
  have m: "mtype_of 0 = MTYPE_JOIN_REQ" by code_simp
  have n: "(le_word [7, 0] :: u16) = 7" by code_simp
  have join: "js_join js0 join_rx0 5 = Some (Inr rq0)"
    using js0_keys(1) by (simp add: js_join_def field_at_def join_rx0_parts [simplified] eui_roundtrip rq0_def n del: le_word.simps)
  obtain mic where mic: "rx_mic32 join_rx0 23 = Some mic" by (simp add: rx_mic32_def)
  have "js_check js0 join_rx0 23 rq0 = Some Success"
    using mic rx_mic32_slice(3) [OF mic]
    by (simp add: js_check_def rq0_def eui_roundtrip join_mic_code join_rx0_parts del: le_word.simps)
  then have chk: "js_check js0 join_rx0 23 rq0 = Some Success" .
  obtain ms where rx: "join_rx0 = 0 # ms" using join_rx0_parts(6,7) by (metis list.collapse)
  show ?thesis
    using join chk m unfolding js_request_def rx by simp
qed

lemma js0_nonce: "js_nonce10 js0 5 rq0 = (Inr 9, [''INSERT INTO nonces (mote, nonce) VALUE (5, 7)''])"
proof -
  have d: "print_unsigned (5 :: u64) = ''5''" "print_unsigned (7 :: u16) = ''7''" by code_simp+
  have "js_db0 (''SELECT mote'' @ x) = SqlRows []" for x by (simp add: js_db0_def)
  then have "check_nonce js_db0 5 7 = 0" unfolding check_nonce_def by simp
  then show ?thesis unfolding js_nonce10_def js0_sel by (simp add: rq0_def d)
qed

lemma js0_complete: "\<exists>ans. js_complete js0 join_fields0 1 5 rq0 False [] 9 = Some (Success, ans)"
proof -
  have h: "sscanf_hex ''1a2b'' = Some (0x1a2b :: u32)" "sscanf_hex ''3'' = Some (3 :: u32)" "sscanf_hex ''1'' = Some (1 :: u32)"
    by (rule scans0)+
  obtain addr dls delay where f: "js_fields js0 join_fields0 False = Some (Inr (addr, dls, delay, []))"
    unfolding js_fields_def join_fields0_get option.case js0_sel text0_JStr h Let_def by simp
  have len: "length (GenerateSessionKey on t key0 jn eui dn nid) = 16" for on t jn eui dn nid
    using aes.E_length [of "aes_key128 key0"] by (simp add: GenerateSessionKey_def aes_block_def Let_def)
  have life: "js_db js0 (''SELECT Lifetime FROM joinmotes WHERE eui = '' @ x) = SqlRows [[Some ''60'']]" for x
    unfolding js0_sel by (simp add: js_db0_def)
  have d: "sscanf_dec ''60'' = Some (60 :: u32)" by (rule scans0)
  have env: "envelope_nwk js0 = \<lparr>kek_label = Some ''nwk'', key_bin = replicate 16 1\<rparr>"
    "envelope_app js0 = \<lparr>kek_label = None, key_bin = []\<rparr>"
    by (simp_all add: js0_def)
  have "\<exists>ans. js_answer js0 5 (session_keys js0 False key0 [] 9 rq0 1) tx = Some (Success, ans)" for tx
    unfolding js_answer_def life
    by (simp add: session_keys_def Let_def create_KeyEnvelope_def env wrap0_def len cell_def d)
  then show ?thesis
    by (simp add: js_complete_def js0_keys f Let_def)
qed

lemma js0_accepts:
  "\<exists>out. parse_rf_join_req js0 join_fields0 1 = Some out \<and> jo_result out = Success"
  using js0_complete by (auto simp: parse_rf_join_req_def js0_frame js0_request js0_keys js0_nonce)

section \<open>Messages and metadata\<close>

definition json0 :: json_api where
  "json0 = \<lparr>ja_text = text0, ja_int = (\<lambda>j. case j of JInt i \<Rightarrow> i | _ \<Rightarrow> 0), ja_real = (\<lambda>j. case j of JReal r \<Rightarrow> r | _ \<Rightarrow> 0),
     ja_bool = (\<lambda>j. case j of JBool b \<Rightarrow> b | _ \<Rightarrow> False)\<rparr>"

lemma json0_laws: "json_laws json0"
  by (simp add: json_laws_def json0_def)

lemma scan9: "sscanf_hex ''9'' = Some (9 :: u32)" "sscanf_hex ''1'' = Some (1 :: u32)" "sscanf_dec ''3'' = Some (3 :: u32)" "sscanf_dec ''4'' = Some (4 :: u64)"
  by (simp_all add: sscanf_hex_def sscanf_dec_def scan_value_def is_space_def skip_0x_def scan_unsigned_digits_def digit_val_def)

lemma same_id_one: "same_id ''1'' ''1'' = Some True"
proof -
  have "fst (ascii_hex_loop ''1'') = 0" by code_simp
  then show ?thesis by (simp add: same_id_def scan9)
qed

definition home_db0 :: mysql where
  "home_db0 q = (if take 11 q = ''SELECT home'' then SqlRows [[Some ''3'', Some ''4'']] else SqlRows [[Some ''3''], [Some ''9'']])"

lemma home0: "getHomeNS (js0\<lparr>js_db := home_db0\<rparr>) [(''DevEUI'', JStr ''5'')] ''9'' = Some (Success, [(''HNetID'', JStr ''000003'')])"
proof -
  have h: "sscanf_hex ''5'' = Some (5 :: u64)" by (rule scans0)
  have n: "sscanf_dec ''9'' = Some (9 :: u32)" by (rule scans1)
  have z: "zero_pad 6 (print_hex (3 :: u32)) = ''000003''" by code_simp
  show ?thesis
    by (simp add: getHomeNS_def h n scan9 z home_db0_def home_row_def cell_def)
qed

definition gw0 :: GWInfo_t where
  "gw0 = \<lparr>gw_id = 7, gw_RFRegion = Some ''EU868'', RSSI = - 100, SNR = 5, Lat = 50, Lon = 4, gw_ULToken = Some ''0a'', DLAllowed = True\<rparr>"

definition ul0 :: ULMetaData_t where
  "ul0 = zero_ulmd\<lparr>ul_DevEUI := 5, ul_DevAddr := 0x01020304, ul_FPort := - 1, ul_DataRate := 3, ULFreq := 868,
     ul_FNSULToken := Some ''0b'', RecvTime := ''2019-01-01T00:00:00Z'', ul_RFRegion := Some ''EU868'', GWCnt := 1, gwList := [Some gw0]\<rparr>"

lemma ul0_ok: "ul_ok ul0"
proof -
  have "gw_ok gw0" by (simp add: gw_ok_def gw0_def int8_ok_def region_names_def)
  then show ?thesis by (simp add: ul_ok_def ul0_def region_names_def zero_ulmd_def exI [of _ "[gw0]"])
qed

lemma ul0_generates: "\<exists>j. generateULMetaData ul0 fNS True = Some (Some j)"
  by (simp add: generateULMetaData_def ul_gateways_def gw_array_def ul0_def gw0_def generateGWInfoElement_def)

section \<open>A region and a service profile\<close>

definition rp0 :: regional_t where
  "rp0 = \<lparr>TxParamSetup = 0, enableTxParamSetup = False, Rx2_FrequencyHz = 869525000, Rx2_Datarate = 0, ping_freq_hz = 869525000,
     ping_dr = 3, uplink_dr_max = 5, Rx1DrOffset = 0, dl_tx_dbm = 27, datarates = [], num_datarates = 0, beacon_hz = 869525000,
     default_txpwr_idx = 0, max_txpwr_idx = 7, init_ChMask = replicate 6 0, get_ch = None, get_cflist = None,
     cb_init_session = None, parse_start_mac_cmd = None, rx1_band_conv = None\<rparr>"

lemma adr0_raises: "adr_choice (rp0\<lparr>uplink_dr_max := 5, max_txpwr_idx := 7\<rparr>) (s0\<lparr>snr_history := [4, 4, 4]\<rparr>) 0 \<noteq> (0, i)"
proof -
  have w: "snr_window (s0\<lparr>snr_history := [4, 4, 4]\<rparr>) = [4, 4, 4]"
    by (simp add: snr_window_def s0_def SNR_HISTORY_SIZE_def upt_rec)
  have r: "raise_dr 5 0 4 = (2, - 1)"
    by (simp add: raise_dr.simps [of 5 0] raise_dr.simps [of 5 1] raise_dr.simps [of 5 2])
  have "uplink_dr_max (rp0\<lparr>uplink_dr_max := 5, max_txpwr_idx := 7\<rparr>) = 5" by simp
  then show ?thesis
    unfolding adr_choice_def w Let_def by (simp add: r MAX_DATARATES_def split: prod.split)
qed

definition mote_db0 :: mysql where
  "mote_db0 q = SqlRows [replicate 20 (Some ''4'')]"

lemma rejoin0_runs: "\<exists>st. sNS_force_rejoin mote_db0 (\<lambda>_. 0) 5 7 (Some s0) 2 = (0, Some st)"
proof -
  have w: "fst (getMotesWhere mote_db0 5 7) = Success"
    by (simp add: getMotesWhere_def NONE_DEVEUI_def)
  obtain r wh where g: "getMotesWhere mote_db0 5 7 = (r, wh)" by fastforce
  then have "r = Success" using w by simp
  then obtain sp where "readServiceProfileFromSql mote_db0 (\<lambda>_. 0) 5 7 = (0, sp)"
    unfolding readServiceProfileFromSql_def g by (simp add: mote_db0_def)
  then show ?thesis by (simp add: sNS_force_rejoin_def Let_def)
qed

lemma frame0_finishes: "\<exists>s'. finish_frame mote0 s0 (0x60 # replicate 255 0) False = Some s'"
  by (simp add: finish_frame_def Let_def write_at_def s0_def dl0_def nth_Cons' split: mtype_e.split)

end
