(* ===== verification/Profiles.thy ===== *)
theory Profiles
  imports World
begin

text \<open>
  Device and service profiles (network_server/common.c, web.c): a profile
  received from another network is written to the database, and the own
  profile is sent as JSON. Local variables that are read before they are set
  are the stack values of the environment; a string that fills its array has
  no terminator, and reading it is undefined.
\<close>

section \<open>Text and columns\<close>

definition print_2f :: "rat \<Rightarrow> string" where
  "print_2f q =
    (let k = nat (round_even (\<bar>q\<bar> * 100))
     in (if q < 0 then ''-'' else []) @ dec_of (k div 100) @ ''.'' @ zero_pad 2 (dec_of (k mod 100)))"

fun sep_by :: "string \<Rightarrow> string list \<Rightarrow> string" where
  "sep_by s [] = []"
| "sep_by s [x] = x"
| "sep_by s (x # y # r) = x @ s @ sep_by s (y # r)"

fun split_at :: "char \<Rightarrow> string \<Rightarrow> string list" where
  "split_at c [] = [[]]"
| "split_at c (x # xs) =
    (if x = c then [] # split_at c xs else case split_at c xs of t # ts \<Rightarrow> (x # t) # ts | [] \<Rightarrow> [[x]])"

text \<open>strtok skips empty tokens.\<close>

definition strtok_all :: "char \<Rightarrow> string \<Rightarrow> string list" where
  "strtok_all c s = filter (\<lambda>t. t \<noteq> []) (split_at c s)"

definition print_bool :: "bool \<Rightarrow> string" where "print_bool b = (if b then ''1'' else ''0'')"

definition atoi :: "string \<Rightarrow> int" where
  "atoi t = sint (word_of_int (store (scan_value 10 t) 0) :: u32)"

definition update_text :: "string \<Rightarrow> (string \<times> string) list \<Rightarrow> u64 \<Rightarrow> string" where
  "update_text table cols mid = ''UPDATE '' @ table @ ''s SET '' @ sep_by '', '' (map (\<lambda>(c, v). c @ '' = '' @ v) cols) @
     '' WHERE '' @ table @ ''ID = '' @ print_unsigned mid"

definition insert_text :: "string \<Rightarrow> (string \<times> string) list \<Rightarrow> u64 \<Rightarrow> string" where
  "insert_text table cols mid = ''INSERT INTO '' @ table @ ''s ('' @ sep_by '','' ((table @ ''ID'') # map fst cols) @
     '') VALUES ('' @ sep_by '','' (print_unsigned mid # map snd cols) @ '')''"

section \<open>Service profiles\<close>

definition service_columns :: "ServiceProfile_t \<Rightarrow> (string \<times> string) list" where
  "service_columns sp =
    [(''ULRate'', print_unsigned (ULRate sp)), (''ULBucketSize'', print_unsigned (ULBucketSize sp)),
     (''ULRatePolicy'', quote (ULRatePolicy sp)), (''DLRate'', print_unsigned (DLRate sp)),
     (''DLBucketSize'', print_unsigned (DLBucketSize sp)), (''DLRatePolicy'', quote (DLRatePolicy sp)),
     (''AddGWMetadata'', print_bool (AddGWMetadata sp)), (''DevStatusReqFreq'', print_unsigned (DevStatusReqFreq sp)),
     (''ReportDevStatusBattery'', print_bool (ReportDevStatusBattery sp)),
     (''ReportDevStatusMargin'', print_bool (ReportDevStatusMargin sp)), (''DRMin'', print_unsigned (DRMin sp)),
     (''DRMax'', print_unsigned (DRMax sp)), (''ChannelMask'', quote (ChannelMask sp)), (''PRAllowed'', print_bool (PRAllowed sp)),
     (''HRAllowed'', print_bool (HRAllowed sp)), (''RAAllowed'', print_bool (RAAllowed sp)),
     (''NwkGeoLoc'', print_bool (NwkGeoLoc sp)), (''TargetPER'', quote (print_f (TargetPER sp))),
     (''MinGWDiversity'', print_unsigned (MinGWDiversity sp))]"

definition updateServiceProfile :: "ns_env \<Rightarrow> ServiceProfile_t \<Rightarrow> u64 \<Rightarrow> int ns" where
  "updateServiceProfile n sp mid =
    bnd (run_query n (update_text ''ServiceProfile'' (service_columns sp) mid)) (\<lambda>ok. return (if ok then 0 else - 1))"

definition insertServiceProfile :: "ns_env \<Rightarrow> ServiceProfile_t \<Rightarrow> u64 \<Rightarrow> int ns" where
  "insertServiceProfile n sp mid =
    (if length (ULRatePolicy sp) > 16 \<or> length (DLRatePolicy sp) > 16 \<or> length (ChannelMask sp) > 32 then return (- 1)
     else let q = insert_text ''ServiceProfile'' (service_columns sp) mid
          in bnd (run_query n q) (\<lambda>ok. return (if ok then n_affected n q else - 1)))"

definition c_text :: "nat \<Rightarrow> string \<Rightarrow> string option" where
  "c_text k s = (if length s < k then Some s else None)"

definition service_of_json :: "json_api \<Rightarrow> fields \<Rightarrow> ServiceProfile_t \<Rightarrow> ServiceProfile_t option" where
  "service_of_json a j sp =
    (let num = (\<lambda>name old. member j name (\<lambda>v. word_of_int (ja_int a v)) old);
         flag = (\<lambda>name old. member j name (ja_bool a) old);
         text = (\<lambda>name. member j name (ja_text a) [])
     in case (c_text 16 (text ''ULRatePolicy''), c_text 16 (text ''DLRatePolicy''), c_text 32 (text ''ChannelMask'')) of
          (Some ulp, Some dlp, Some mk) \<Rightarrow>
            Some \<lparr>ULRate = num ''ULRate'' (ULRate sp), ULBucketSize = num ''ULBucketSize'' (ULBucketSize sp), ULRatePolicy = ulp,
              DLRate = num ''DLRate'' (DLRate sp), DLBucketSize = num ''DLBucketSize'' (DLBucketSize sp), DLRatePolicy = dlp,
              AddGWMetadata = flag ''AddGWMetadata'' (AddGWMetadata sp), DevStatusReqFreq = num ''DevStatusReqFreq'' (DevStatusReqFreq sp),
              ReportDevStatusBattery = flag ''ReportDevStatusBattery'' (ReportDevStatusBattery sp),
              ReportDevStatusMargin = flag ''ReportDevStatusMargin'' (ReportDevStatusMargin sp), DRMin = num ''DRMin'' (DRMin sp),
              DRMax = num ''DRMax'' (DRMax sp), ChannelMask = mk, PRAllowed = flag ''PRAllowed'' (PRAllowed sp),
              HRAllowed = flag ''HRAllowed'' (HRAllowed sp), RAAllowed = flag ''RAAllowed'' (RAAllowed sp),
              NwkGeoLoc = flag ''NwkGeoLoc'' (NwkGeoLoc sp), TargetPER = member j ''TargetPER'' (\<lambda>v. to_float (ja_real a v)) (TargetPER sp),
              MinGWDiversity = num ''MinGWDiversity'' (MinGWDiversity sp)\<rparr>
        | _ \<Rightarrow> None)"

definition row_id :: "row \<Rightarrow> u64 option" where
  "row_id row = (case cell row 0 of None \<Rightarrow> None | Some t \<Rightarrow> sscanf_dec t)"

text \<open>The rows of a query; None is a query without rows to fetch.\<close>

definition fetch :: "ns_env \<Rightarrow> string \<Rightarrow> row list option" where
  "fetch n q = (case n_db n q of SqlRows rows \<Rightarrow> Some rows | _ \<Rightarrow> None)"

definition saveServiceProfile :: "json_api \<Rightarrow> ns_env \<Rightarrow> mote_t \<Rightarrow> fields \<Rightarrow> int ns" where
  "saveServiceProfile a n m j =
    (case getMotesWhere (n_db n) (m_devEui m) (m_devAddr m) of (res, wh) \<Rightarrow>
      if res \<noteq> Success then return (- 1)
      else bnd (must (service_of_json a j (stack_profile n))) (\<lambda>sp.
        case fetch n (''SELECT ServiceProfileID FROM ServiceProfiles INNER JOIN motes ON ServiceProfiles.ServiceProfileID = motes.ID WHERE '' @ wh) of
          None \<Rightarrow> return (- 1)
        | Some (row # _) \<Rightarrow> bnd (must (row_id row)) (updateServiceProfile n sp)
        | Some [] \<Rightarrow>
            let mid = fst (getMoteID (n_db n) (m_devEui m) (m_devAddr m))
            in if mid > 0 then bnd (insertServiceProfile n sp mid) (\<lambda>r. return (if r = 1 then 0 else r)) else return (- 1)))"

definition char_bool :: "string \<Rightarrow> bool" where "char_bool t = (take 1 t \<noteq> ''0'')"

text \<open>None is a NULL column; Some None the null pointer returned.\<close>

definition jsonGetServiceProfile :: "ns_env \<Rightarrow> u64 \<Rightarrow> u32 \<Rightarrow> fields option option" where
  "jsonGetServiceProfile n devEui devAddr =
    (case getMotesWhere (n_db n) devEui devAddr of (res, wh) \<Rightarrow>
      if res \<noteq> Success then Some None
      else case fetch n (''SELECT ServiceProfiles.* FROM ServiceProfiles INNER JOIN motes ON ServiceProfiles.ServiceProfileID = motes.ID WHERE '' @ wh) of
        Some (row # _) \<Rightarrow>
          if None \<in> set (map (cell row) [0..<20]) then None
          else let t = text_cell row; i = (\<lambda>k. JInt (atoi (t k))); b = (\<lambda>k. JBool (char_bool (t k)))
               in Some (Some [(''ServiceProfileID'', JStr (t 0)), (''ULRate'', i 1), (''ULBucketSize'', i 2), (''ULRatePolicy'', JStr (t 3)),
                 (''DLRate'', i 4), (''DLBucketSize'', i 5), (''DLRatePolicy'', JStr (t 6)), (''AddGWMetadata'', b 7),
                 (''DevStatusReqFreq'', i 8), (''ReportDevStatusBattery'', b 9), (''ReportDevStatusMargin'', b 10), (''DRMin'', i 11),
                 (''DRMax'', i 12), (''ChannelMask'', JStr (t 13)), (''PRAllowed'', b 14), (''HRAllowed'', b 15), (''RAAllowed'', b 16),
                 (''NwkGeoLoc'', b 17), (''TargetPER'', JReal (n_float n (t 18))), (''MinGWDiversity'', i 19)])
      | _ \<Rightarrow> Some None)"

section \<open>Device profiles\<close>

definition device_columns :: "DeviceProfile_t \<Rightarrow> (string \<times> string) list" where
  "device_columns dp =
    [(''SupportsClassB'', print_bool (SupportsClassB dp)), (''ClassBTimeout'', print_unsigned (ClassBTimeout dp)),
     (''PingSlotPeriod'', print_unsigned (PingSlotPeriod dp)), (''PingSlotDR'', print_unsigned (PingSlotDR dp)),
     (''PingSlotFreq'', quote (print_f (PingSlotFreq dp))), (''SupportsClassC'', print_bool (SupportsClassC dp)),
     (''ClassCTimeout'', print_unsigned (ClassCTimeout dp)), (''RegParamsRevision'', quote (RegParamsRevision dp)),
     (''SupportsJoin'', print_bool (SupportsJoin dp)), (''MACVersion'', quote (MACVersion dp)),
     (''RXDelay1'', print_unsigned (dp_RXDelay1 dp)), (''RXDROffset1'', print_unsigned (RXDROffset1 dp)),
     (''RXDataRate2'', print_unsigned (RXDataRate2 dp)), (''RXFreq2'', quote (print_f (RXFreq2 dp))),
     (''FactoryPresetFreqs'', quote (FactoryPresetFreqs dp)), (''MaxEIRP'', print_int (MaxEIRP dp)),
     (''MaxDutyCycle'', quote (print_f (MaxDutyCycle dp))), (''RFRegion'', quote (dp_RFRegion dp)),
     (''Supports32bitFCnt'', print_bool (Supports32bitFCnt dp))]"

text \<open>A NULL connection puts the statement on the queue.\<close>

definition send_statement :: "ns_env \<Rightarrow> string \<Rightarrow> int ns" where
  "send_statement n q = andthen (emit (Statement q)) (return (n_mq n q))"

definition updateDeviceProfile :: "ns_env \<Rightarrow> bool \<Rightarrow> DeviceProfile_t \<Rightarrow> u64 \<Rightarrow> int ns" where
  "updateDeviceProfile n direct dp mid =
    (let q = update_text ''DeviceProfile'' (device_columns dp) mid
     in if \<not> direct then bnd (send_statement n q) (\<lambda>r. return (if r < 0 then r else 0))
        else bnd (run_query n q) (\<lambda>ok.
          if \<not> ok then return (- 1)
          else if n_affected n q = 0
          then bnd (run_query n ''UPDATE DeviceProfiles SET timestamp = CURRENT_TIMESTAMP()'') (\<lambda>ok2. return (if ok2 then 0 else - 1))
          else return 0))"

definition with_region_defaults :: "region_t list \<Rightarrow> DeviceProfile_t \<Rightarrow> DeviceProfile_t" where
  "with_region_defaults rl dp =
    (case find (\<lambda>r. getRFRegion (dp_RFRegion dp) = rg_RFRegion r) rl of None \<Rightarrow> dp
     | Some r \<Rightarrow>
         let rp = regional r
         in dp\<lparr>RXDROffset1 := ucast (Rx1DrOffset rp), RXFreq2 := to_float (to_double (of_int (uint (Rx2_FrequencyHz rp)) / 1000000)),
              RXDataRate2 := ucast (Rx2_Datarate rp),
              PingSlotFreq := (if ping_freq_hz rp \<noteq> 0 then to_float (of_int (uint (ping_freq_hz rp))) else PingSlotFreq dp),
              PingSlotDR := ucast (ping_dr rp)\<rparr>)"

definition insertDeviceProfile :: "ns_env \<Rightarrow> bool \<Rightarrow> DeviceProfile_t \<Rightarrow> u64 \<Rightarrow> int ns" where
  "insertDeviceProfile n direct dp mid =
    (let q = insert_text ''DeviceProfile'' (device_columns (with_region_defaults (n_regions n) dp)) mid
     in if \<not> direct then send_statement n q
        else bnd (run_query n q) (\<lambda>ok. return (if ok then n_affected n q else - 1)))"

text \<open>Each frequency is printed into 8 octets, the list into 96.\<close>

definition preset_freqs :: "json_api \<Rightarrow> fields \<Rightarrow> string \<Rightarrow> string option" where
  "preset_freqs a j old =
    (case map_of j ''FactoryPresetFreqs'' of None \<Rightarrow> Some old
     | Some (JArr xs) \<Rightarrow>
         let ts = map (\<lambda>x. print_2f (ja_real a x)) xs; t = sep_by '', '' ts
         in if list_all (\<lambda>t. length t < 8) ts \<and> length t < 96 then Some t else None
     | Some _ \<Rightarrow> None)"

definition device_of_json :: "json_api \<Rightarrow> fields \<Rightarrow> DeviceProfile_t \<Rightarrow> DeviceProfile_t option" where
  "device_of_json a j dp =
    (let num = (\<lambda>name old. member j name (\<lambda>v. word_of_int (ja_int a v)) old);
         flag = (\<lambda>name old. member j name (ja_bool a) old);
         real = (\<lambda>name old. member j name (\<lambda>v. to_float (ja_real a v)) old)
     in case (preset_freqs a j (FactoryPresetFreqs dp), c_text 32 (member j ''MACVersion'' (ja_text a) (MACVersion dp)),
              c_text 16 (member j ''RegParamsRevision'' (ja_text a) (RegParamsRevision dp)),
              c_text 32 (member j ''RFRegion'' (ja_text a) (dp_RFRegion dp))) of
          (Some freqs, Some mac, Some revision, Some region) \<Rightarrow>
            Some \<lparr>SupportsClassB = flag ''SupportsClassB'' (SupportsClassB dp), ClassBTimeout = num ''ClassBTimeout'' (ClassBTimeout dp),
              PingSlotPeriod = num ''PingSlotPeriod'' (PingSlotPeriod dp), PingSlotDR = num ''PingSlotDR'' (PingSlotDR dp),
              PingSlotFreq = real ''PingSlotFreq'' (PingSlotFreq dp), SupportsClassC = flag ''SupportsClassC'' (SupportsClassC dp),
              ClassCTimeout = num ''ClassCTimeout'' (ClassCTimeout dp), RegParamsRevision = revision,
              SupportsJoin = flag ''SupportsJoin'' (SupportsJoin dp), MACVersion = mac, dp_RXDelay1 = num ''RXDelay1'' (dp_RXDelay1 dp),
              RXDROffset1 = num ''RXDROffset1'' (RXDROffset1 dp), RXDataRate2 = num ''RXDataRate2'' (RXDataRate2 dp),
              RXFreq2 = real ''RXFreq2'' (RXFreq2 dp), FactoryPresetFreqs = freqs, MaxEIRP = member j ''MaxEIRP'' (ja_int a) (MaxEIRP dp),
              MaxDutyCycle = real ''MaxDutyCycle'' (MaxDutyCycle dp), dp_RFRegion = region,
              Supports32bitFCnt = flag ''Supports32bitFCnt'' (Supports32bitFCnt dp)\<rparr>
        | _ \<Rightarrow> None)"

text \<open>The write is slow, so that its time is kept with the device.\<close>

definition saveDeviceProfile :: "json_api \<Rightarrow> ns_env \<Rightarrow> nat \<Rightarrow> fields \<Rightarrow> int ns" where
  "saveDeviceProfile a n i j =
    bnd (read_mote i) (\<lambda>m. bnd (must (device_of_json a j (stack_device n))) (\<lambda>dp.
      case getMotesWhere (n_db n) (m_devEui m) (m_devAddr m) of (res, wh) \<Rightarrow>
      if res \<noteq> Success then return (- 1)
      else case fetch n (''SELECT DeviceProfileID FROM DeviceProfiles INNER JOIN motes ON DeviceProfiles.DeviceProfileID = motes.ID WHERE '' @ wh) of
          None \<Rightarrow> return (- 1)
        | Some rows \<Rightarrow>
            bnd (case rows of
                   row # _ \<Rightarrow> bnd (must (row_id row)) (updateDeviceProfile n False dp)
                 | [] \<Rightarrow> (let mid = fst (getMoteID (n_db n) (m_devEui m) (m_devAddr m))
                          in if mid > 0 then insertDeviceProfile n False dp mid else return (- 1))) (\<lambda>r.
            andthen (if r = 0 then modify_mote i (\<lambda>m. m\<lparr>writtenDeviceProfileTimestamp := n_strftime n (n_now n)\<rparr>) else return ())
              (return r))))"

text \<open>None is a NULL column; Some None the failure.\<close>

definition getDeviceProfileTimestamp :: "ns_env \<Rightarrow> mote_t \<Rightarrow> (string \<times> int) option option" where
  "getDeviceProfileTimestamp n m =
    (case getMotesWhere (n_db n) (m_devEui m) (m_devAddr m) of (res, wh) \<Rightarrow>
      if res \<noteq> Success then Some None
      else case fetch n (''SELECT UNIX_TIMESTAMP(DeviceProfiles.timestamp) FROM DeviceProfiles INNER JOIN motes ON DeviceProfiles.DeviceProfileID = motes.ID WHERE '' @ wh) of
        Some (row # _) \<Rightarrow> map_option (\<lambda>t. Some (n_strftime n (sint t), sint t)) (row_id row)
      | _ \<Rightarrow> Some None)"

text \<open>The two permissions of a row, scanned over the values of the variables before.\<close>

definition two_flags :: "row \<Rightarrow> u32 \<times> u32 \<Rightarrow> (u32 \<times> u32) option" where
  "two_flags row old =
    (case (cell row 0, cell row 1) of
       (Some p, Some h) \<Rightarrow> Some (store (sscanf_dec p) (fst old), store (sscanf_dec h) (snd old))
     | _ \<Rightarrow> None)"

definition device_json :: "ns_env \<Rightarrow> row \<Rightarrow> fields" where
  "device_json n row =
    (let t = text_cell row; i = (\<lambda>k. JInt (atoi (t k))); b = (\<lambda>k. JBool (char_bool (t k))); r = (\<lambda>k. JReal (n_float n (t k)))
     in [(''SupportsClassB'', b 1), (''ClassBTimeout'', i 2), (''PingSlotPeriod'', i 3), (''PingSlotDR'', i 4), (''PingSlotFreq'', r 5),
         (''SupportsClassC'', b 6), (''ClassCTimeout'', i 7), (''MACVersion'', JStr (t 8)), (''RegParamsRevision'', JStr (t 9)),
         (''SupportsJoin'', b 10), (''RXDelay1'', i 11), (''RXDROffset1'', i 12), (''RXDataRate2'', i 13), (''RXFreq2'', r 14),
         (''FactoryPresetFreqs'', JArr (map (\<lambda>t. JReal (n_float n t)) (strtok_all (CHR '','') (t 15)))), (''MaxEIRP'', i 16),
         (''MaxDutyCycle'', r 17), (''RFRegion'', JStr (t 18)), (''Supports32bitFCnt'', b 19)])"

definition jsonGetDeviceProfile :: "ns_env \<Rightarrow> u64 \<Rightarrow> string \<Rightarrow> fields \<Rightarrow> (result \<times> fields) option" where
  "jsonGetDeviceProfile n devEui client ans =
    (let net = (store (sscanf_hex client) (stack32 n) :: u32) in
     case fetch n (''SELECT PRAllowed, HRAllowed FROM roaming WHERE NetID = '' @ print_unsigned net) of
       Some (row # _) \<Rightarrow>
         (case two_flags row (stack32 n, stack32 n) of None \<Rightarrow> None
          | Some (pr, hr) \<Rightarrow>
            if pr = 0 \<and> hr = 0 then Some (NoRoamingAgreement, ans)
            else let mid = fst (getMoteID (n_db n) devEui NONE_DEVADDR) in
              if mid = 0 then Some (UnknownDevEUI, ans)
              else case fetch n (''SELECT PRAllowed, HRAllowed, RAAllowed FROM ServiceProfiles WHERE ServiceProfileID = '' @ print_unsigned mid) of
                Some (row2 # _) \<Rightarrow>
                  (case two_flags row2 (pr, hr) of None \<Rightarrow> None
                   | Some (pr2, hr2) \<Rightarrow>
                     if hr2 = 0 \<and> pr2 = 0 then Some (RoamingActDisallowed, ans)
                     else let ans1 = add_field ''RoamingActivationType'' (JStr (if hr2 \<noteq> 0 then ''Handover'' else ''Passive'')) ans in
                       (case fetch n (''SELECT *, DATE_FORMAT(timestamp, '' @ quote ''%Y-%m-%dT%TZ'' @ '') FROM DeviceProfiles WHERE DeviceProfileID = '' @ print_unsigned mid) of
                          Some (row3 # _) \<Rightarrow>
                            if None \<in> set (map (cell row3) (21 # [1..<20])) then None
                            else Some (Success, add_field ''DeviceProfile'' (JObj (device_json n row3))
                                   (add_field ''DeviceProfileTimestamp'' (JStr (text_cell row3 21)) ans1))
                        | _ \<Rightarrow> Some (Other, ans1)))
              | _ \<Rightarrow> Some (RoamingActDisallowed, ans))
     | _ \<Rightarrow> Some (NoRoamingAgreement, ans))"

end
