(* ===== verification/AppServer.thy ===== *)
theory AppServer
  imports Gateway Profiles Addressing Base64
begin

text \<open>
  The application server (app_server/main.c and the handlers of messages in
  app_server/web.c): frames come up enciphered and are stored in clear or
  passed on, downlinks go to the network server with the counter of the
  application, and the list of requests remembers which device an answer is
  for. A computation without a result is undefined behaviour.
\<close>

section \<open>State and surroundings\<close>

text \<open>A payload that was freed keeps its pointer.\<close>

datatype payload_t = NoPayload | Payload buf | Freed

record msg_t =
  msg_devEui :: u64
  msg_devAddr :: u32
  msg_fport :: u8
  msg_conf :: bool
  msg_payload :: payload_t
  msg_payLen :: u8

record sent_t =
  sent_msg :: msg_t
  sent_tid :: u32

record as_world =
  tlist :: "sent_t list"
  next_req_tid :: u32
  post_id :: u32
  as_eff :: "effect list"

text \<open>What is read without having been written is an argument.\<close>

record as_env =
  as_db :: mysql
  as_mq :: mqueue
  as_affected :: "string \<Rightarrow> int"
  as_error :: "string \<Rightarrow> string"
  as_easy :: bool
  as_post :: "string \<Rightarrow> json \<Rightarrow> int"
  as_mktime :: "string \<Rightarrow> u64"
  myAS_ID :: string
  as_netIdDomain :: string
  key_envelope_app :: key_envelope_t
  as_unwrap :: key_wrap
  left_key :: buf
  left_eui :: u64
  left_octets :: buf
  left_forward :: string
  left_ulmd :: ULMetaData_t

definition as_query :: "as_env \<Rightarrow> string \<Rightarrow> as_world \<Rightarrow> bool \<times> as_world" where
  "as_query n q w = (as_db n q \<noteq> SqlError, w\<lparr>as_eff := as_eff w @ [Query q]\<rparr>)"

definition as_mq_send :: "as_env \<Rightarrow> string \<Rightarrow> as_world \<Rightarrow> int \<times> as_world" where
  "as_mq_send n q w = (as_mq n q, w\<lparr>as_eff := as_eff w @ [Statement q]\<rparr>)"

definition where_device :: "u64 \<Rightarrow> u32 \<Rightarrow> string" where
  "where_device eui addr = (if eui = NONE_DEVEUI then ''DevAddr = '' @ print_unsigned addr else ''eui = '' @ print_unsigned eui)"

definition unknown_device :: "ULMetaData_t \<Rightarrow> result" where
  "unknown_device ul = (if ul_DevEUI ul = NONE_DEVEUI then UnknownDevAddr else UnknownDevEUI)"

definition first_row :: "as_env \<Rightarrow> string \<Rightarrow> row option" where
  "first_row n q = (case as_db n q of SqlRows (r # _) \<Rightarrow> Some r | _ \<Rightarrow> None)"

text \<open>Sixteen octets are copied from a cell, however long it is.\<close>

definition key_cell :: "string \<Rightarrow> buf option" where
  "key_cell t = (if length t < 16 then None else Some (take 16 (bytes_of t)))"

section \<open>The table of devices\<close>

definition updateSKey_query :: "bool \<Rightarrow> buf \<Rightarrow> u64 \<Rightarrow> string option \<Rightarrow> u32 option \<Rightarrow> string" where
  "updateSKey_query clrAFCntDown key devEui abp ota =
    ''UPDATE activemotes SET '' @
    (case ota of Some a \<Rightarrow> ''DevAddr = '' @ print_unsigned a @ '', '' | None \<Rightarrow> []) @
    (if clrAFCntDown then ''AFCntDown = 0, '' else []) @ ''AppSKey = 0x'' @ hex_of_buf key @ '' WHERE '' @
    (case abp of
       Some a \<Rightarrow> if devEui = NONE_DEVEUI then ''DevAddr = '' @ a else ''eui = '' @ print_unsigned devEui
     | None \<Rightarrow> ''eui = '' @ print_unsigned devEui)"

definition updateSKey :: "as_env \<Rightarrow> bool \<Rightarrow> buf \<Rightarrow> u64 \<Rightarrow> string option \<Rightarrow> u32 option \<Rightarrow> as_world \<Rightarrow> int \<times> as_world" where
  "updateSKey n clrAFCntDown key devEui abp ota = as_mq_send n (updateSKey_query clrAFCntDown key devEui abp ota)"

text \<open>An address that does not scan is an uninitialised variable.\<close>

definition updateDevAddr :: "as_env \<Rightarrow> u64 \<Rightarrow> u32 \<Rightarrow> as_world \<Rightarrow> (int \<times> as_world) option" where
  "updateDevAddr n eui addr w =
    (case first_row n (''SELECT DevAddr FROM activemotes WHERE eui = '' @ print_unsigned eui) of
       None \<Rightarrow> Some (- 1, w)
     | Some row \<Rightarrow>
         (case (case cell row 0 of Some t \<Rightarrow> sscanf_dec t | None \<Rightarrow> Some NONE_DEVADDR) of
            None \<Rightarrow> None
          | Some old \<Rightarrow>
              if old = addr then Some (0, w)
              else let q = ''UPDATE activemotes SET DevAddr = '' @ print_unsigned addr @ '' WHERE eui = '' @ print_unsigned eui;
                       (ok, w1) = as_query n q w
                   in Some (if \<not> ok \<or> as_affected n q = 0 then - 1 else 0, w1)))"

definition set_sql_AFCntDown :: "as_env \<Rightarrow> u64 \<Rightarrow> u32 \<Rightarrow> u32 \<Rightarrow> as_world \<Rightarrow> int \<times> as_world" where
  "set_sql_AFCntDown n eui addr fcnt w =
    (let q = ''UPDATE activemotes SET AFCntDown = '' @ print_unsigned fcnt @ '' WHERE '' @ where_device eui addr;
         (ok, w1) = as_query n q w
     in (if ok then 0 else - 1, w1))"

definition incr_sql_AFCntDown :: "as_env \<Rightarrow> u64 \<Rightarrow> u32 \<Rightarrow> as_world \<Rightarrow> int \<times> as_world" where
  "incr_sql_AFCntDown n eui addr w =
    (let q = ''UPDATE activemotes SET AFCntDown = AFCntDown + 1 WHERE '' @ where_device eui addr;
         (ok, w1) = as_query n q w
     in (if \<not> ok \<or> as_affected n q \<noteq> 1 then - 1 else 0, w1))"

section \<open>The key of a session\<close>

text \<open>The key that is stored differs from the given one, or there is none.\<close>

definition key_differs :: "as_env \<Rightarrow> u64 \<Rightarrow> buf \<Rightarrow> bool option" where
  "key_differs n eui key =
    (case first_row n (''SELECT AppSKey FROM activemotes WHERE eui = '' @ print_unsigned eui) of
       None \<Rightarrow> Some True
     | Some row \<Rightarrow> (case cell row 0 of None \<Rightarrow> Some True | Some t \<Rightarrow> map_option (\<lambda>k. k \<noteq> key) (key_cell t)))"

text \<open>
  None in the result is a message without a key. The address is scanned into
  an uninitialised variable.
\<close>

definition saveAppSKey ::
  "json_api \<Rightarrow> as_env \<Rightarrow> bool \<Rightarrow> fields \<Rightarrow> u64 \<Rightarrow> as_world \<Rightarrow> (result option \<times> buf \<times> as_world) option" where
  "saveAppSKey a n clrAFCntDown j eui w =
    (case getKey (ja_text a) (as_unwrap n) j ''AppSKey'' (key_envelope_app n) of
       None \<Rightarrow> None
     | Some None \<Rightarrow> Some (None, left_key n, w)
     | Some (Some (Inl r)) \<Rightarrow> Some (Some r, left_key n, w)
     | Some (Some (Inr key)) \<Rightarrow>
         (case key_differs n eui key of
            None \<Rightarrow> None
          | Some True \<Rightarrow>
              (case (case map_of j ''DevAddr'' of None \<Rightarrow> Some None | Some v \<Rightarrow> map_option Some (sscanf_hex (ja_text a v))) of
                 None \<Rightarrow> None
               | Some ota \<Rightarrow>
                   (case updateSKey n clrAFCntDown key eui None ota w of (r, w1) \<Rightarrow>
                      Some (Some (if r = 0 then Success else Other), key, w1)))
          | Some False \<Rightarrow>
              Some (Some Success, key, if clrAFCntDown then snd (set_sql_AFCntDown n eui NONE_DEVADDR 0 w) else w)))"

text \<open>A device whose key is not known counts as a success; the buffer of the key stays as it was.\<close>

definition getAppSKey :: "as_env \<Rightarrow> ULMetaData_t \<Rightarrow> buf \<Rightarrow> (result \<times> buf) option" where
  "getAppSKey n ul key0 =
    (case first_row n (''SELECT AppSKey, AFCntDown FROM activemotes WHERE '' @ where_device (ul_DevEUI ul) (ul_DevAddr ul)) of
       None \<Rightarrow> Some (unknown_device ul, key0)
     | Some row \<Rightarrow> (case cell row 0 of None \<Rightarrow> Some (Success, key0) | Some t \<Rightarrow> map_option (\<lambda>k. (Success, k)) (key_cell t)))"

section \<open>A frame goes up\<close>

text \<open>The best readings of all gateways; a node without data is undefined.\<close>

fun best_readings :: "GWInfo_t option list \<Rightarrow> int \<times> int \<Rightarrow> (int \<times> int) option" where
  "best_readings [] b = Some b"
| "best_readings (None # gs) b = None"
| "best_readings (Some g # gs) (rssi, snr) = best_readings gs (max (RSSI g) rssi, max (SNR g) snr)"

definition gateway_json :: "GWInfo_t \<Rightarrow> json" where
  "gateway_json g = JObj [(''gtw_id'', JStr (print_hex (gw_id g))), (''rssi'', JInt (RSSI g)), (''snr'', JInt (SNR g))]"

definition cayenne_url :: string where "cayenne_url = ''https://lora.mydevices.com/v1/networks/semtech/uplink''"

definition cayenne_json :: "u32 \<Rightarrow> ULMetaData_t \<Rightarrow> buf \<Rightarrow> json option" where
  "cayenne_json k ul payload =
    (case (base64_encode payload, best_readings (gwList ul) (- 128, - 128)) of
       (Some enc, Some (rssi, snr)) \<Rightarrow>
         Some (JObj ([(''deveui'', JStr (print_hex (ul_DevEUI ul))), (''dataFrame'', JStr enc), (''port'', JInt (ul_FPort ul)),
            (''timestamp'', JStr (RecvTime ul)), (''fcnt'', JInt (c_int (ul_FCntUp ul))), (''sf_used'', JInt 7), (''id'', JInt (c_int k)),
            (''live'', JBool True), (''decrypted'', JBool False)] @
            (if gwList ul = [] then []
             else [(''gtw_info'', JArr (map gateway_json (List.map_filter id (gwList ul)))), (''rssi'', JInt rssi), (''snr'', JInt snr)])))
     | _ \<Rightarrow> None)"

definition cayenne_post :: "as_env \<Rightarrow> ULMetaData_t \<Rightarrow> buf \<Rightarrow> as_world \<Rightarrow> (int \<times> as_world) option" where
  "cayenne_post n ul payload w =
    (case cayenne_json (post_id w) ul payload of
       None \<Rightarrow> None
     | Some j \<Rightarrow>
         Some (if as_easy n
               then (as_post n cayenne_url j, w\<lparr>as_eff := as_eff w @ [Post cayenne_url j], post_id := post_id w + 1\<rparr>)
               else (- 1, w)))"

definition forward_uplink :: "as_env \<Rightarrow> string \<Rightarrow> ULMetaData_t \<Rightarrow> buf \<Rightarrow> as_world \<Rightarrow> (result \<times> as_world) option" where
  "forward_uplink n where_text ul payload w =
    (case first_row n (''SELECT forwardTo FROM activemotes WHERE '' @ where_text) of
       None \<Rightarrow> Some (Other, w)
     | Some row \<Rightarrow>
         if store (cell row 0) (left_forward n) = ''Cayenne''
         then map_option (\<lambda>(_, w1). (Success, w1)) (cayenne_post n ul payload w) else Some (Success, w))"

definition frame_columns :: "ULMetaData_t \<Rightarrow> bool \<Rightarrow> string" where
  "frame_columns ul has_payload =
    (if GWCnt ul > 0 then ''GWCnt, RSSI, SNR, '' else []) @ (if ULFreq ul > 0 then ''ULFreq, '' else []) @
    (if ul_DataRate ul \<noteq> 255 then ''DataRate, '' else []) @ (if has_payload then ''FRMPayload, '' else [])"

definition frame_insert :: "as_env \<Rightarrow> ULMetaData_t \<Rightarrow> u64 \<Rightarrow> int \<times> int \<Rightarrow> u32 \<Rightarrow> buf \<Rightarrow> string" where
  "frame_insert n ul ident best hz payload =
    ''INSERT INTO frames ('' @ frame_columns ul (payload \<noteq> []) @ ''ID, RecvTime, FPort, FCntUp, Confirmed) VALUES ('' @
    (if GWCnt ul > 0 then print_unsigned (GWCnt ul) @ '', '' @ print_int (fst best) @ '', '' @ print_int (snd best) @ '', '' else []) @
    (if ULFreq ul > 0 then print_unsigned hz @ '', '' else []) @
    (if ul_DataRate ul \<noteq> 255 then print_unsigned (ul_DataRate ul) @ '', '' else []) @
    (if payload \<noteq> [] then ''0x'' @ hex_of_buf payload @ '', '' else []) @
    print_unsigned ident @ '', FROM_UNIXTIME('' @ print_unsigned (as_mktime n (RecvTime ul)) @ ''), '' @
    print_unsigned (word_of_int (ul_FPort ul) :: u32) @ '', '' @ print_unsigned (ul_FCntUp ul) @ '', '' @
    (if ul_Confirmed ul then ''1'' else ''0'') @ '')''"

text \<open>The frequency is a float; its product is converted only when it is positive.\<close>

definition frame_hz :: "ULMetaData_t \<Rightarrow> u32 option" where
  "frame_hz ul = (if ULFreq ul > 0 then to_u32 (to_float (ULFreq ul * 1000000)) else Some 0)"

definition save_frame :: "as_env \<Rightarrow> ULMetaData_t \<Rightarrow> buf \<Rightarrow> as_world \<Rightarrow> (result \<times> as_world) option" where
  "save_frame n ul payload w =
    (let wh = where_device (ul_DevEUI ul) (ul_DevAddr ul) in
     case as_db n (''SELECT ID FROM activemotes WHERE '' @ wh) of
       SqlError \<Rightarrow> Some (Other, w)
     | SqlNoResult \<Rightarrow> Some (Other, w)
     | SqlRows [] \<Rightarrow> Some (unknown_device ul, w)
     | SqlRows (row # _) \<Rightarrow>
         (case (Option.bind (cell row 0) sscanf_dec, best_readings (gwList ul) (- 128, - 128), frame_hz ul) of
            (Some ident, Some best, Some hz) \<Rightarrow>
              (case as_mq_send n (frame_insert n ul ident best hz payload) w of (r, w1) \<Rightarrow>
                 if r < 0 then Some (Other, w1)
                 else map_option (\<lambda>(_, w2). (Success, w2)) (forward_uplink n wh ul payload w1))
          | _ \<Rightarrow> None))"

text \<open>More than 512 digits leave the array; the number of octets that are stored is cut to one octet.\<close>

definition app_uplink :: "as_env \<Rightarrow> string \<Rightarrow> ULMetaData_t \<Rightarrow> buf \<Rightarrow> as_world \<Rightarrow> (result \<times> as_world) option" where
  "app_uplink n frmStr ul key w =
    (let k = (length frmStr + 1) div 2 in
     if k > 256 then None
     else case hex_pairs k frmStr of None \<Rightarrow> None
     | Some enc \<Rightarrow>
         (case LoRa_Encrypt 1 key (enc @ drop k (left_octets n)) (word_of_nat k) (ul_DevAddr ul) True (ul_FCntUp ul) (left_octets n) of
            None \<Rightarrow> None
          | Some dec \<Rightarrow> save_frame n ul (take (unat (word_of_nat k :: u8)) dec) w))"

section \<open>The state of a downlink\<close>

definition escape_quotes :: "string \<Rightarrow> string" where
  "escape_quotes t = concat (map (\<lambda>c. if c = CHR 0x27 then [CHR 0x5c, CHR 0x27] else [c]) t)"

text \<open>A text that does not fit its array, and one that is a null pointer, are undefined.\<close>

definition writeDownlinkStatus :: "as_env \<Rightarrow> u64 \<Rightarrow> u32 \<Rightarrow> string option \<Rightarrow> as_world \<Rightarrow> (int \<times> as_world) option" where
  "writeDownlinkStatus n eui addr text w =
    (case Option.bind text (\<lambda>t. c_text 128 (escape_quotes t)) of None \<Rightarrow> None
     | Some txt \<Rightarrow>
         let wh = where_device eui addr;
             q = ''UPDATE activemotes SET downlinkStatus = '' @ quote txt @ '' WHERE '' @ wh;
             (ok, w1) = as_query n q w
         in Some (if \<not> ok then - 1
                  else if as_affected n q = 1 then 0
                  else case first_row n (''SELECT downlinkStatus FROM activemotes WHERE '' @ wh) of
                    None \<Rightarrow> - 1 | Some row \<Rightarrow> if cell row 0 = text then 0 else - 1, w1))"

section \<open>Requests that wait for their answer\<close>

definition blank_msg :: "msg_t \<Rightarrow> bool" where
  "blank_msg m \<longleftrightarrow> msg_devEui m = NONE_DEVEUI \<and> msg_devAddr m = NONE_DEVADDR"

text \<open>The node of a finished request is used again. The payload is copied.\<close>

definition copy_msg :: "msg_t \<Rightarrow> msg_t option" where
  "copy_msg m =
    (if msg_payLen m = 0 then Some (m\<lparr>msg_payload := NoPayload\<rparr>)
     else case msg_payload m of
            Payload b \<Rightarrow> if length b < unat (msg_payLen m) then None else Some (m\<lparr>msg_payload := Payload (take (unat (msg_payLen m)) b)\<rparr>)
          | _ \<Rightarrow> None)"

definition tlistAdd :: "msg_t \<Rightarrow> u32 \<Rightarrow> as_world \<Rightarrow> as_world option" where
  "tlistAdd m tid w =
    map_option (\<lambda>c.
      let node = \<lparr>sent_msg = c, sent_tid = tid\<rparr>
      in w\<lparr>tlist := (case index_where (\<lambda>t. blank_msg (sent_msg t)) (tlist w) of
                        Some k \<Rightarrow> (tlist w)[k := node] | None \<Rightarrow> tlist w @ [node])\<rparr>) (copy_msg m)"

definition release_msg :: "msg_t \<Rightarrow> msg_t option" where
  "release_msg m =
    (let blank = m\<lparr>msg_devEui := NONE_DEVEUI, msg_devAddr := NONE_DEVADDR\<rparr> in
     case msg_payload m of NoPayload \<Rightarrow> Some blank | Payload _ \<Rightarrow> Some (blank\<lparr>msg_payload := Freed\<rparr>) | Freed \<Rightarrow> None)"

section \<open>A downlink goes out\<close>

definition AS_generateDLMetaData :: "u64 \<Rightarrow> u32 \<Rightarrow> u8 \<Rightarrow> u32 \<Rightarrow> bool \<Rightarrow> fields" where
  "AS_generateDLMetaData eui addr fport fcntdown conf =
    (if eui \<noteq> NONE_DEVEUI then [(''DevEUI'', JStr (print_hex eui))] else [(''DevAddr'', JStr (print_hex addr))]) @
    [(''FPort'', JInt (uint fport)), (''FCntDown'', JInt (c_int fcntdown))] @ (if conf then [(''Confirmed'', JBool True)] else [])"

text \<open>The address of the device, or why there is none.\<close>

definition downlink_address :: "as_env \<Rightarrow> msg_t \<Rightarrow> string + u32" where
  "downlink_address n m =
    (if msg_devEui m \<noteq> NONE_DEVEUI then
       (let q = ''SELECT DevAddr FROM activemotes WHERE eui = '' @ print_unsigned (msg_devEui m) in
        case as_db n q of
          SqlError \<Rightarrow> Inl ([CHR 0x1b] @ ''[31msend_downlink get DevAddr: '' @ as_error n q @ [CHR 0x1b] @ ''[0m'')
        | SqlNoResult \<Rightarrow> Inl (q @ '': no result'')
        | SqlRows rows \<Rightarrow>
            (case rows of
               (Some t # _) # _ \<Rightarrow> Inr (store (sscanf_dec t) (msg_devAddr m))
             | _ \<Rightarrow> Inl (q @ '': no row'')))
     else if msg_devAddr m = NONE_DEVADDR then Inl ''no devAddr'' else Inr (msg_devAddr m))"

text \<open>Key and counter. A key that is too short and a counter that does not scan are undefined.\<close>

definition downlink_key :: "as_env \<Rightarrow> string \<Rightarrow> (string + buf \<times> u32) option" where
  "downlink_key n q =
    (case as_db n q of
       SqlError \<Rightarrow> Some (Inl (q @ '': '' @ as_error n q))
     | SqlNoResult \<Rightarrow> Some (Inl (q @ '': no result''))
     | SqlRows [] \<Rightarrow> Some (Inl (q @ '': no row'' @ [CHR 0x0a]))
     | SqlRows (row # _) \<Rightarrow>
         (case cell row 0 of
            None \<Rightarrow> Some (Inl (q @ '': no AppSKey''))
          | Some t \<Rightarrow>
              (case (key_cell t, case cell row 1 of None \<Rightarrow> Some 0 | Some c \<Rightarrow> sscanf_dec c) of
                 (Some key, Some cnt) \<Rightarrow> Some (Inr (key, cnt)) | _ \<Rightarrow> None)))"

text \<open>
  The message to the network server. Without a payload the text is still the
  query. The payload that was freed, or is shorter than its length, is
  undefined.
\<close>

definition downlink_cipher :: "as_env \<Rightarrow> msg_t \<Rightarrow> u32 \<Rightarrow> buf \<Rightarrow> u32 \<Rightarrow> buf option" where
  "downlink_cipher n m addr key cnt =
    (case (msg_payload m, msg_payLen m = 0) of
       (_, True) \<Rightarrow> Some []
     | (Payload b, False) \<Rightarrow>
         if length b < unat (msg_payLen m) then None
         else map_option (take (unat (msg_payLen m))) (LoRa_Encrypt 1 key b (ucast (msg_payLen m)) addr False cnt (left_octets n))
     | _ \<Rightarrow> None)"

definition downlink_fields :: "string \<Rightarrow> msg_t \<Rightarrow> u32 \<Rightarrow> buf \<Rightarrow> u32 \<Rightarrow> fields" where
  "downlink_fields q m addr cipher cnt =
    [(''FRMPayload'', JStr (if cipher = [] then q else hex_of_buf cipher)),
     (''DLMetaData'', JObj (AS_generateDLMetaData (msg_devEui m) addr (msg_fport m) cnt (msg_conf m)))]"

text \<open>The result, the reason when one is given, and the message with the address that was found.\<close>

definition post_downlink :: "as_env \<Rightarrow> msg_t \<Rightarrow> u32 \<Rightarrow> fields \<Rightarrow> as_world \<Rightarrow> (int \<times> string option \<times> as_world) option" where
  "post_downlink n m net j w =
    (let tid = next_req_tid w;
         w1 = w\<lparr>next_req_tid := tid + 1\<rparr>;
         nid = zero_pad 6 (print_hex net);
         host = nid @ ''.'' @ as_netIdDomain n;
         jobj = JObj (lib_generate_json j nid (myAS_ID n) (ucast tid) (Some (message_text XmitDataReq)) None)
     in if \<not> as_easy n then Some (- 1, None, w1)
        else let w2 = w1\<lparr>as_eff := as_eff w1 @ [Post host jobj]\<rparr>; r = as_post n host jobj
             in if r \<noteq> 0 then Some (r, Some (print_int r @ '' = http_post_hostname('' @ host @ '')''), w2)
                else Option.bind (tlistAdd m tid w2) (\<lambda>w3.
                  map_option (\<lambda>(s, w4). (0, if s < 0 then Some ''writeDownlinkStatus() failed '' else None, w4))
                    (writeDownlinkStatus n (msg_devEui m) (msg_devAddr m) (Some ''SENT'') w3)))"

definition send_downlink :: "as_env \<Rightarrow> msg_t \<Rightarrow> as_world \<Rightarrow> (int \<times> string option \<times> msg_t \<times> as_world) option" where
  "send_downlink n m w =
    (case downlink_address n m of
       Inl t \<Rightarrow> Some (- 1, Some t, m, w)
     | Inr addr \<Rightarrow>
         let m1 = m\<lparr>msg_devAddr := addr\<rparr>;
             q = ''SELECT AppSKey, AFCntDown FROM activemotes WHERE '' @ where_device (msg_devEui m) addr
         in (case downlink_key n q of None \<Rightarrow> None
             | Some (Inl t) \<Rightarrow> Some (- 1, Some t, m1, w)
             | Some (Inr (key, cnt)) \<Rightarrow>
                 (case downlink_cipher n m1 addr key cnt of None \<Rightarrow> None
                  | Some cipher \<Rightarrow>
                      (case parseDevAddr addr of
                         None \<Rightarrow> Some (- 1, Some (''cant get NetID from DevAddr '' @ zero_pad 8 (print_hex addr)), m1, w)
                       | Some (net, _, _) \<Rightarrow>
                           map_option (\<lambda>(r, t, w1). (r, t, m1, w1)) (post_downlink n m1 net (downlink_fields q m1 addr cipher cnt) w)))))"

section \<open>Messages\<close>

definition as_DevAddr :: "json_api \<Rightarrow> fields \<Rightarrow> u32" where
  "as_DevAddr a ulj = (case map_of ulj ''DevAddr'' of Some v \<Rightarrow> store (sscanf_hex (ja_text a v)) NONE_DEVADDR | None \<Rightarrow> NONE_DEVADDR)"

text \<open>The device number of an uplink: a variable without a value when the message has none. False is an unknown device.\<close>

definition uplink_device :: "json_api \<Rightarrow> as_env \<Rightarrow> fields \<Rightarrow> as_world \<Rightarrow> (bool \<times> u64 \<times> as_world) option" where
  "uplink_device a n ulj w =
    (case map_of ulj ''DevEUI'' of
       None \<Rightarrow> Some (True, left_eui n, w)
     | Some v \<Rightarrow>
         let eui = store (sscanf_hex (ja_text a v)) (left_eui n); addr = as_DevAddr a ulj
         in if addr = NONE_DEVADDR then Some (True, eui, w)
            else map_option (\<lambda>(r, w1). (r = 0, eui, w1)) (updateDevAddr n eui addr w))"

text \<open>A key in the message starts a session and clears the counter; else the stored key is used.\<close>

definition receive_frame :: "json_api \<Rightarrow> as_env \<Rightarrow> fields \<Rightarrow> as_world \<Rightarrow> (result \<times> as_world) option" where
  "receive_frame a n j w =
    (case (map_of j ''FRMPayload'', map_of j ''ULMetaData'') of
       (Some frm, Some ulv) \<Rightarrow>
         let ulj = members ulv in
         (case uplink_device a n ulj w of None \<Rightarrow> None
          | Some (found, eui, w1) \<Rightarrow>
              if \<not> found then Some (UnknownDevEUI, w1)
              else (case saveAppSKey a n True j eui w1 of None \<Rightarrow> None
                | Some (saved, key, w2) \<Rightarrow>
                    if saved \<noteq> None \<and> saved \<noteq> Some Success then Some (the saved, w2)
                    else (case ParseULMetaData a ulj (left_ulmd n) of None \<Rightarrow> None
                      | Some (r, ul) \<Rightarrow>
                          if r < 0 then Some (MalformedRequest, w2)
                          else if saved \<noteq> None then app_uplink n (ja_text a frm) ul key w2
                          else (case getAppSKey n ul key of None \<Rightarrow> None
                            | Some (res, key1) \<Rightarrow>
                                if res = Success then app_uplink n (ja_text a frm) ul key1 w2 else Some (res, w2)))))
     | _ \<Rightarrow> Some (MalformedRequest, w))"

definition set_msg :: "nat \<Rightarrow> msg_t \<Rightarrow> as_world \<Rightarrow> as_world" where
  "set_msg k m w = w\<lparr>tlist := (tlist w)[k := (tlist w ! k)\<lparr>sent_msg := m\<rparr>]\<rparr>"

text \<open>
  The network server wants another counter: it is stored, and the payload is
  enciphered and sent again. The reason that is written when the counter
  cannot be stored was never set.
\<close>

definition send_again :: "as_env \<Rightarrow> nat \<Rightarrow> u32 \<Rightarrow> as_world \<Rightarrow> as_world option" where
  "send_again n k fcnt w =
    (let m = sent_msg (tlist w ! k) in
     case set_sql_AFCntDown n (msg_devEui m) (msg_devAddr m) fcnt w of (r, w1) \<Rightarrow>
       if r < 0 then None
       else Option.bind (send_downlink n m w1) (\<lambda>(r2, t, m2, w2).
         Option.bind (if r2 < 0 then map_option snd (writeDownlinkStatus n (msg_devEui m2) (msg_devAddr m2) t w2) else Some w2) (\<lambda>w3.
           map_option (\<lambda>m3. set_msg k m3 w3) (release_msg m2))))"

definition downlink_answered ::
  "json_api \<Rightarrow> as_env \<Rightarrow> fields \<Rightarrow> u64 \<Rightarrow> result option \<Rightarrow> as_world \<Rightarrow> as_world option" where
  "downlink_answered a n j tid res w =
    (case index_where (\<lambda>t. ucast (sent_tid t) = tid) (tlist w) of
       None \<Rightarrow> Some w
     | Some k \<Rightarrow>
         let m = sent_msg (tlist w ! k);
             status = (\<lambda>w1. Option.bind (writeDownlinkStatus n (msg_devEui m) (msg_devAddr m) (map_option result_text res) w1) (\<lambda>(r, w2).
               if r = 0 then map_option (\<lambda>m1. set_msg k m1 w2) (release_msg m) else Some w2))
         in if res = Some Success then status (snd (incr_sql_AFCntDown n (msg_devEui m) (msg_devAddr m) w))
            else (case map_of j ''FCntDown'' of
                    Some v \<Rightarrow> send_again n k (word_of_int (ja_int a v)) w
                  | None \<Rightarrow> status w))"

text \<open>Every request with the number of the answer is served.\<close>

fun keys_answered ::
  "json_api \<Rightarrow> as_env \<Rightarrow> fields \<Rightarrow> u64 \<Rightarrow> result option \<Rightarrow> nat list \<Rightarrow> as_world \<Rightarrow> as_world option" where
  "keys_answered a n j tid res [] w = Some w"
| "keys_answered a n j tid res (k # ks) w =
     (let t = tlist w ! k; m = sent_msg t in
      if ucast (sent_tid t) \<noteq> tid then keys_answered a n j tid res ks w
      else Option.bind (if res = Some Success then map_option (snd \<circ> snd) (saveAppSKey a n False j (msg_devEui m) w) else Some w) (\<lambda>w1.
        keys_answered a n j tid res ks (set_msg k (m\<lparr>msg_devEui := NONE_DEVEUI, msg_devAddr := NONE_DEVADDR\<rparr>) w1)))"

text \<open>The result of the request and its reply, which follows at once.\<close>

definition as_dispatch :: "json_api \<Rightarrow> as_env \<Rightarrow> fields \<Rightarrow> parsed_json \<Rightarrow> as_world \<Rightarrow> (result \<times> as_world) option" where
  "as_dispatch a n j p w =
    (case (pj_pmt p, pj_tid p) of
       (Some XmitDataReq, _) \<Rightarrow> receive_frame a n j w
     | (Some XmitDataAns, Some tid) \<Rightarrow> map_option (\<lambda>w1. (Success, w1)) (downlink_answered a n j tid (pj_received p) w)
     | (Some AppSKeyAns, Some tid) \<Rightarrow> map_option (\<lambda>w1. (Success, w1)) (keys_answered a n j tid (pj_received p) [0..<length (tlist w)] w)
     | _ \<Rightarrow> Some (Success, w))"

definition as_ParseJson :: "json_api \<Rightarrow> as_env \<Rightarrow> fields \<Rightarrow> as_world \<Rightarrow> (fields option \<times> as_world) option" where
  "as_ParseJson a n j w =
    (case lib_parse_json a j (myAS_ID n) of None \<Rightarrow> None
     | Some p \<Rightarrow>
         Option.bind (if pj_result p = Success then as_dispatch a n j p w else Some (pj_result p, w)) (\<lambda>(res, w1).
           case pj_ans p of None \<Rightarrow> Some (None, w1)
           | Some t \<Rightarrow>
               (case pj_sender p of None \<Rightarrow> None
                | Some s \<Rightarrow> Some (Some (lib_generate_json [] s (myAS_ID n) (store (pj_tid p) 0) (Some (message_text t)) (Some (result_text res))), w1))))"

end
