(* ===== verification/AppRequests.thy ===== *)
theory AppRequests
  imports AppServer
begin

text \<open>
  What the operator asks of the application server (app_server/web.c): the
  fields of a form, and what is done when it is submitted: a downlink, the key
  of a session, and changes of the table of devices. The fields are texts,
  empty when they were not filled in. An operation returns its result and the
  reason of a failure, empty when none was given.
\<close>

section \<open>The form\<close>

datatype op_e = OP_NONE | OP_CREATE | OP_DELETE | OP_STOP | OP_APPSKEYREQ | OP_DELETE_FRAMES | OP_SET_FORWARD | OP_DOWNLINK

record appInfo_t =
  DevEUIstr :: string
  DevAddrStr :: string
  newAppSKey :: string
  editAppSKey :: string
  ai_op :: op_e
  ai_target :: string
  ai_conf :: bool
  ai_fport :: string
  ai_payload :: buf
  ai_payloadLen :: u8
  inhibit_refresh :: bool

definition browser_post_init :: "appInfo_t \<Rightarrow> appInfo_t" where "browser_post_init ai = ai\<lparr>ai_op := OP_NONE\<rparr>"

text \<open>An octet that does not scan repeats the one before; the first one has none before it.\<close>

fun hex_octets :: "u32 option \<Rightarrow> nat \<Rightarrow> string \<Rightarrow> buf option" where
  "hex_octets i 0 s = Some []"
| "hex_octets i (Suc k) s =
    (case (case sscanf_02x s of Some v \<Rightarrow> Some v | None \<Rightarrow> i) of None \<Rightarrow> None
     | Some v \<Rightarrow> map_option (Cons (ucast v)) (hex_octets (Some v) k (drop 2 s)))"

text \<open>The array of the payload has 244 octets.\<close>

definition write_payload :: "buf \<Rightarrow> appInfo_t \<Rightarrow> appInfo_t option" where
  "write_payload b ai = (if length b > 244 then None else Some (ai\<lparr>ai_payload := memcpy_at (ai_payload ai) 0 b (length b)\<rparr>))"

definition hex_payload :: "string \<Rightarrow> appInfo_t \<Rightarrow> appInfo_t option" where
  "hex_payload data ai =
    Option.bind (hex_octets None ((length data + 1) div 2) data) (\<lambda>b.
      map_option (\<lambda>a. a\<lparr>ai_payloadLen := word_of_nat (length b)\<rparr>) (write_payload b ai))"

text \<open>strncpy fills the array with zeros and cuts the text; the length is not cut with it.\<close>

definition text_payload :: "string \<Rightarrow> appInfo_t \<Rightarrow> appInfo_t" where
  "text_payload data ai =
    ai\<lparr>ai_payload := take 244 (bytes_of data @ replicate 244 0), ai_payloadLen := word_of_nat (length data)\<rparr>"

definition form_action :: "string \<Rightarrow> appInfo_t \<Rightarrow> appInfo_t option" where
  "form_action data ai =
    (if data = ''create'' then Some (ai\<lparr>ai_op := OP_CREATE\<rparr>)
     else if data = ''stop'' then Some (ai\<lparr>ai_op := OP_STOP\<rparr>)
     else if data = message_text AppSKeyReq then Some (ai\<lparr>ai_op := OP_APPSKEYREQ\<rparr>)
     else if data = ''deleteFrames'' then Some (ai\<lparr>ai_op := OP_DELETE_FRAMES\<rparr>)
     else if take 8 data = ''Forward:'' then write_payload (bytes_of (drop 8 data) @ [0]) (ai\<lparr>ai_op := OP_SET_FORWARD\<rparr>)
     else Some ai)"

text \<open>
  One field of the form. A text that fills its array has no end; it counts as
  undefined when it is copied.
\<close>

definition post_iterator :: "string \<Rightarrow> string \<Rightarrow> appInfo_t \<Rightarrow> appInfo_t option" where
  "post_iterator key data ai =
    (if data = [] then Some ai
     else if key = ''DevEUI'' then map_option (\<lambda>t. ai\<lparr>DevEUIstr := t\<rparr>) (c_text 24 data)
     else if key = ''DevAddr'' then map_option (\<lambda>t. ai\<lparr>DevAddrStr := t\<rparr>) (c_text 16 data)
     else if key = ''newSKey'' then map_option (\<lambda>t. ai\<lparr>newAppSKey := t\<rparr>) (c_text 33 data)
     else if key = ''editSKey'' then map_option (\<lambda>t. ai\<lparr>editAppSKey := t\<rparr>) (c_text 33 data)
     else if key = ''mtype'' then
       Some (ai\<lparr>ai_conf := (if data = ''sendConf'' then True else if data = ''sendUnconf'' then False else ai_conf ai), ai_op := OP_DOWNLINK\<rparr>)
     else if ai_op ai \<noteq> OP_DOWNLINK \<and> key = ''action'' then form_action data ai
     else if key = ''payHex'' then (if ai_payloadLen ai = 0 then hex_payload data ai else Some ai)
     else if key = ''payText'' then Some (if ai_payloadLen ai = 0 then text_payload data ai else ai)
     else if key = ''port'' then map_option (\<lambda>t. ai\<lparr>ai_fport := t\<rparr>) (c_text 8 data)
     else if data = ''delete'' then map_option (\<lambda>t. ai\<lparr>ai_target := t, ai_op := OP_DELETE\<rparr>) (c_text 64 key)
     else Some ai)"

fun post_fields :: "(string \<times> string) list \<Rightarrow> appInfo_t \<Rightarrow> appInfo_t option" where
  "post_fields [] ai = Some ai"
| "post_fields ((key, data) # ks) ai = Option.bind (post_iterator key data ai) (post_fields ks)"

section \<open>Operations of the form\<close>

text \<open>The reason is written into 1024 octets.\<close>

type_synonym outcome = "int \<times> string \<times> as_world"

definition failed :: "string \<Rightarrow> as_world \<Rightarrow> outcome" where "failed t w = (- 1, take 1023 t, w)"

text \<open>A statement that fails, and one that must touch a row and touches none.\<close>

definition change_rows :: "as_env \<Rightarrow> string \<Rightarrow> string \<Rightarrow> as_world \<Rightarrow> outcome" where
  "change_rows n what q w =
    (let (ok, w1) = as_query n q w
     in if \<not> ok then failed (what @ as_error n q) w1
        else if as_affected n q = 0 then failed ''no rows affected'' w1 else (0, [], w1))"

text \<open>Without a handle of the HTTP client the result is CURLE_FAILED_INIT.\<close>

definition requestAppSKey :: "as_env \<Rightarrow> appInfo_t \<Rightarrow> as_world \<Rightarrow> outcome option" where
  "requestAppSKey n ai w =
    (if DevEUIstr ai = [] then Some (failed ''need DevEUI '' w)
     else if DevAddrStr ai = [] then Some (failed ''need DevAddr '' w)
     else let m = \<lparr>msg_devEui = store (sscanf_dec (DevEUIstr ai)) NONE_DEVEUI, msg_devAddr = store (sscanf_dec (DevAddrStr ai)) NONE_DEVADDR,
                msg_fport = 0, msg_conf = False, msg_payload = NoPayload, msg_payLen = 0\<rparr>
          in (case parseDevAddr (msg_devAddr m) of
                None \<Rightarrow> Some (failed (''cant get NetID from DevAddr '' @ zero_pad 8 (print_hex (msg_devAddr m))) w)
              | Some (net, _, _) \<Rightarrow>
                  let tid = next_req_tid w;
                      w1 = w\<lparr>next_req_tid := tid + 1\<rparr>;
                      nid = zero_pad 6 (print_hex net);
                      host = nid @ ''.'' @ as_netIdDomain n;
                      jobj = JObj (lib_generate_json [(''DevEUI'', JStr (print_hex (msg_devEui m)))] nid (myAS_ID n) (ucast tid)
                               (Some (message_text AppSKeyReq)) None)
                  in if \<not> as_easy n then Some (2, [], w1)
                     else let w2 = w1\<lparr>as_eff := as_eff w1 @ [Post host jobj]\<rparr>; r = as_post n host jobj
                          in if r = 0 then map_option (\<lambda>w3. (r, [], w3)) (tlistAdd m tid w2)
                             else Some (r, take 1023 (print_int r @ '' = http_post_hostname('' @ host @ '') ''), w2)))"

text \<open>The port of the form is cut to one octet; the numbers are scanned into variables without a value.\<close>

definition sendDownlink :: "as_env \<Rightarrow> appInfo_t \<Rightarrow> as_world \<Rightarrow> outcome option" where
  "sendDownlink n ai w =
    (case sscanf_dec (ai_fport ai) :: u32 option of
       None \<Rightarrow> Some (failed ''port value invalid'' w)
     | Some fport \<Rightarrow>
         if fport = 0 then Some (failed ''port value invalid'' w)
         else (case (if DevEUIstr ai = [] then Some NONE_DEVEUI else sscanf_dec (DevEUIstr ai),
                     if DevAddrStr ai = [] then Some NONE_DEVADDR else sscanf_dec (DevAddrStr ai)) of
             (Some eui, Some addr) \<Rightarrow>
               map_option (\<lambda>(r, t, _, w1). (r, take 1023 (store t []), w1))
                 (send_downlink n \<lparr>msg_devEui = eui, msg_devAddr = addr, msg_fport = ucast fport, msg_conf = ai_conf ai,
                    msg_payload = Payload (ai_payload ai), msg_payLen = ai_payloadLen ai\<rparr> w)
           | _ \<Rightarrow> None))"

definition form_device :: "appInfo_t \<Rightarrow> string" where
  "form_device ai =
    (if DevEUIstr ai \<noteq> [] then ''eui = '' @ DevEUIstr ai else if DevAddrStr ai \<noteq> [] then ''DevAddr = '' @ DevAddrStr ai else [])"

text \<open>The text in the array of the payload; without a zero it has no end.\<close>

definition payload_text :: "buf \<Rightarrow> string option" where
  "payload_text b = (if 0 \<in> set b then Some (map (\<lambda>x. char_of (unat x)) (takeWhile (\<lambda>x. x \<noteq> 0) b)) else None)"

text \<open>No reason is given when no row was touched.\<close>

definition setForwarding :: "as_env \<Rightarrow> appInfo_t \<Rightarrow> as_world \<Rightarrow> outcome option" where
  "setForwarding n ai w =
    Option.bind (payload_text (ai_payload ai)) (\<lambda>to.
      map_option (\<lambda>q.
        let (ok, w1) = as_query n q w
        in if \<not> ok then failed (''setForwarding: '' @ as_error n q) w1 else (if as_affected n q \<noteq> 1 then - 1 else 0, [], w1))
        (c_text 512 (''UPDATE activemotes SET forwardTo = '' @ (if to = ''None'' then ''NULL'' else quote to) @ '' WHERE '' @ form_device ai)))"

text \<open>A row without a number is undefined.\<close>

definition eraseFrames :: "as_env \<Rightarrow> appInfo_t \<Rightarrow> as_world \<Rightarrow> outcome option" where
  "eraseFrames n ai w =
    (let q0 = ''SELECT ID from activemotes WHERE '' @ form_device ai in
     case as_db n q0 of
       SqlError \<Rightarrow> Some (failed (''erase frames: '' @ as_error n q0) w)
     | SqlNoResult \<Rightarrow> Some (failed ''erase frames no result'' w)
     | SqlRows rows \<Rightarrow>
         (case (case rows of [] \<Rightarrow> Some 0 | row # _ \<Rightarrow> map_option (\<lambda>t. store (sscanf_dec t) (0 :: u64)) (cell row 0)) of
            None \<Rightarrow> None
          | Some ident \<Rightarrow>
              if ident = 0 then Some (failed ''erase frames couldnt get ID'' w)
              else let q = ''DELETE FROM frames WHERE ID = '' @ print_unsigned ident; (ok, w1) = as_query n q w
                   in Some (if ok then (0, [], w1) else failed (''delete frames: '' @ as_error n q) w1)))"

definition target_device :: "string \<Rightarrow> string \<Rightarrow> string" where
  "target_device eui addr =
    (if eui \<noteq> [] \<and> addr \<noteq> [] then ''eui = '' @ eui @ '' AND DevAddr = '' @ addr
     else if eui \<noteq> [] then ''eui = '' @ eui else ''DevAddr = '' @ addr)"

text \<open>With neither part of the name the condition was never written.\<close>

definition deleteMote :: "as_env \<Rightarrow> string \<Rightarrow> as_world \<Rightarrow> outcome option" where
  "deleteMote n target w =
    (case getTarget target of None \<Rightarrow> None
     | Some (r, eui, addr) \<Rightarrow>
         if r < 0 then Some (failed (''getTarget '' @ [CHR 0x22] @ target @ [CHR 0x22]) w)
         else if eui = [] \<and> addr = [] \<or> length addr \<ge> 32 then None
         else Some (change_rows n ''delete from activemotes: '' (''DELETE FROM activemotes WHERE '' @ target_device eui addr) w))"

definition createMote :: "as_env \<Rightarrow> appInfo_t \<Rightarrow> bool \<Rightarrow> as_world \<Rightarrow> outcome option" where
  "createMote n ai ota w =
    map_option (\<lambda>q. change_rows n ''insert into activemotes: '' q w)
      (if ota then map_option (\<lambda>e. ''INSERT INTO activemotes (eui) VALUES ('' @ print_unsigned (e :: u64) @ '')'') (sscanf_hex (DevEUIstr ai))
       else map_option (\<lambda>d. ''INSERT INTO activemotes (DevAddr, AppSKey) VALUES ('' @ print_unsigned (d :: u32) @ '', 0x'' @ newAppSKey ai @ '')'')
              (sscanf_hex (DevAddrStr ai)))"

section \<open>A form is submitted\<close>

definition motesURL :: string where "motesURL = ''/motes''"
definition postFailURL :: string where "postFailURL = ''/postFail''"
definition skeyURL :: string where "skeyURL = ''/skey''"
definition framesURL :: string where "framesURL = ''/frames''"

fun op_number :: "op_e \<Rightarrow> u32" where
  "op_number OP_NONE = 0" | "op_number OP_CREATE = 1" | "op_number OP_DELETE = 2" | "op_number OP_STOP = 3"
| "op_number OP_APPSKEYREQ = 4" | "op_number OP_DELETE_FRAMES = 5" | "op_number OP_SET_FORWARD = 6" | "op_number OP_DOWNLINK = 7"

text \<open>The devices are shown again after a change that succeeded.\<close>

definition then_motes :: "outcome \<Rightarrow> string \<times> string \<times> as_world" where
  "then_motes x = (case x of (r, t, w) \<Rightarrow> (if r = 0 then motesURL else ''.'', t, w))"

definition submit_motes :: "as_env \<Rightarrow> appInfo_t \<Rightarrow> as_world \<Rightarrow> (string \<times> string \<times> as_world) option" where
  "submit_motes n ai w =
    (let refuse = (\<lambda>t. Some (''.'', t, w)) in
     case ai_op ai of
       OP_CREATE \<Rightarrow>
         if DevEUIstr ai \<noteq> [] \<and> DevAddrStr ai \<noteq> [] then refuse ''enter either DevEUI(OTA) or DevAddr(ABP), not both''
         else if DevEUIstr ai \<noteq> [] then
           (if newAppSKey ai \<noteq> [] then refuse ''OTA requires empty AppSKey'' else map_option then_motes (createMote n ai True w))
         else if DevAddrStr ai \<noteq> [] then
           (if numHexDigits (newAppSKey ai) < 32 then refuse ''ABP requires 32-hex-char AppSKey'' else map_option then_motes (createMote n ai False w))
         else refuse ''enter either DevEUI(OTA) or DevAddr(ABP)''
     | OP_DELETE \<Rightarrow> map_option then_motes (deleteMote n (ai_target ai) w)
     | p \<Rightarrow> refuse (''unknown op '' @ print_unsigned (op_number p)))"

definition submit_skey :: "as_env \<Rightarrow> appInfo_t \<Rightarrow> as_world \<Rightarrow> (string \<times> string \<times> as_world) option" where
  "submit_skey n ai w =
    (if numHexDigits (editAppSKey ai) < 32 then Some (''.'', ''requires 32-hex-char AppSKey'', w)
     else map_option (\<lambda>key. case updateSKey n False key NONE_DEVEUI (Some (DevAddrStr ai)) None w of (r, w1) \<Rightarrow> then_motes (r, [], w1))
            (hex_pairs 16 (editAppSKey ai)))"

definition submit_frames :: "as_env \<Rightarrow> appInfo_t \<Rightarrow> as_world \<Rightarrow> outcome option" where
  "submit_frames n ai w =
    (case ai_op ai of
       OP_STOP \<Rightarrow> Some (0, [], w)
     | OP_APPSKEYREQ \<Rightarrow> requestAppSKey n ai w
     | OP_DELETE_FRAMES \<Rightarrow> eraseFrames n ai w
     | OP_SET_FORWARD \<Rightarrow> setForwarding n ai w
     | _ \<Rightarrow> sendDownlink n ai w)"

text \<open>The page that is shown next, the reason of a failure, the form and the state.\<close>

definition browser_post_submitted ::
  "as_env \<Rightarrow> string \<Rightarrow> appInfo_t \<Rightarrow> as_world \<Rightarrow> (string \<times> string \<times> appInfo_t \<times> as_world) option" where
  "browser_post_submitted n url ai w =
    map_option (\<lambda>(u, t, w1).
      (if t = [] then u else postFailURL, t,
       if url \<noteq> motesURL \<and> url \<noteq> skeyURL \<and> take 7 url = framesURL \<and> ai_op ai = OP_STOP then ai\<lparr>inhibit_refresh := True\<rparr> else ai, w1))
     (if url = motesURL then submit_motes n ai w
      else if url = skeyURL then submit_skey n ai w
      else if take 7 url = framesURL then map_option (\<lambda>(r, t, w1). (url, t, w1)) (submit_frames n ai w)
      else Some (''.'', take 1023 (''post URL '' @ [CHR 0x22] @ url @ [CHR 0x22]), w))"

section \<open>The start of the server\<close>

text \<open>Name and envelope key of the configuration.\<close>

definition as_conf_json ::
  "json_api \<Rightarrow> fields \<Rightarrow> u32 \<Rightarrow> string \<Rightarrow> key_envelope_t \<Rightarrow> (int \<times> string \<times> key_envelope_t) option" where
  "as_conf_json a conf port as_id ke =
    (case map_of conf ''AS_ID'' of
       None \<Rightarrow> Some (- 1, as_id, ke)
     | Some v \<Rightarrow>
         map_option (\<lambda>(r, ke'). (if r < 0 then - 1 else 0, take 63 (ja_text a v @ '':'' @ print_unsigned port), ke'))
           (parse_json_KeyEnvelope (ja_text a) ''KeyEnvelopeApp'' conf ke))"

text \<open>Devices whose downlink was sent before the start: their state is cleared, up to the first statement that fails.\<close>

definition sent_devices :: "row list \<Rightarrow> u64 \<Rightarrow> (u64 \<times> u32) list" where
  "sent_devices rows eui0 =
    map (\<lambda>row. (case cell row 0 of Some t \<Rightarrow> store (sscanf_dec t) eui0 | None \<Rightarrow> NONE_DEVEUI,
                case cell row 1 of Some t \<Rightarrow> store (sscanf_dec t) NONE_DEVADDR | None \<Rightarrow> NONE_DEVADDR)) rows"

fun clear_devices :: "as_env \<Rightarrow> (u64 \<times> u32) list \<Rightarrow> as_world \<Rightarrow> int \<times> as_world" where
  "clear_devices n [] w = (0, w)"
| "clear_devices n ((eui, addr) # ds) w =
     (if addr = NONE_DEVADDR then clear_devices n ds w
      else let (ok, w1) = as_query n (''UPDATE activemotes SET downlinkStatus = NULL WHERE '' @ where_device eui addr) w
           in if ok then clear_devices n ds w1 else (- 1, w1))"

definition clear_sent :: "as_env \<Rightarrow> as_world \<Rightarrow> int \<times> as_world" where
  "clear_sent n w =
    (case as_db n (''SELECT eui, DevAddr FROM activemotes WHERE downlinkStatus = '' @ quote ''SENT'') of
       SqlRows rows \<Rightarrow> clear_devices n (sent_devices rows (left_eui n)) w
     | _ \<Rightarrow> (- 1, w))"

end
