(* ===== verification/AppFacts.thy ===== *)
theory AppFacts
  imports AppRequests
begin

text \<open>
  The application server reads what the device enciphered and the device reads
  what the application server enciphers, and the list of requests never gives
  a freed payload away.
\<close>

section \<open>The cipher in larger buffers\<close>

lemma BlockExOr_front: "n \<le> length xs \<Longrightarrow> BlockExOr S (xs @ ys) n = BlockExOr S xs n"
  by (auto simp: BlockExOr_def nth_append)

lemma memcpy_at_front: "pos + n \<le> length out \<Longrightarrow> memcpy_at (out @ ys) pos b n = memcpy_at out pos b n @ ys"
  by (simp add: memcpy_at_def)

lemma enc_loop_front:
  "enc_loop A key i blocks ov inp pos out = Some r \<Longrightarrow> enc_loop A key i blocks ov (inp @ xs) pos (out @ ys) = Some (r @ ys)"
proof (induction A key i blocks ov inp pos out rule: enc_loop.induct)
  case (1 A key i blocks ov inp pos out)
  define k where "k = (if ucast i < blocks \<or> ov = 0 then 16 else unat ov)"
  show ?case
  proof (cases "ucast i \<le> blocks")
    case True
    have short: "pos + k \<le> length inp" "pos + k \<le> length out"
      using 1(2) True unfolding enc_loop.simps [of A key i blocks ov inp pos out] Let_def k_def [symmetric] by (auto split: if_splits)
    then have on: "enc_loop A key (i + 1) blocks ov inp (pos + 16)
        (memcpy_at out pos (BlockExOr (aes_block (aes_key128 key) (A[15 := i])) (drop pos inp) k) k) = Some r"
      using 1(2) True unfolding enc_loop.simps [of A key i blocks ov inp pos out] Let_def k_def [symmetric] by (simp split: if_splits)
    have "enc_loop A key (i + 1) blocks ov (inp @ xs) (pos + 16)
        (memcpy_at out pos (BlockExOr (aes_block (aes_key128 key) (A[15 := i])) (drop pos inp) k) k @ ys) = Some (r @ ys)"
      using 1(1) [OF True refl k_def _ on] short by auto
    then show ?thesis
      using True short unfolding enc_loop.simps [of A key i blocks ov "inp @ xs" pos "out @ ys"] Let_def k_def [symmetric]
      by (simp add: BlockExOr_front memcpy_at_front)
  next
    case False
    then show ?thesis using 1(2) by (simp add: enc_loop.simps)
  qed
qed

lemma LoRa_Encrypt_front:
  "LoRa_Encrypt i key inp len a up s out = Some r \<Longrightarrow> LoRa_Encrypt i key (inp @ xs) len a up s (out @ ys) = Some (r @ ys)"
  by (auto simp: LoRa_Encrypt_def enc_loop_front split: if_splits)

text \<open>In buffers of any size, the octets of the data are those of the cipher on the data alone.\<close>

lemma LoRa_Encrypt_buffers:
  assumes "length key = 16" "k = length data" "k < 4065" "k \<le> length out"
  shows "LoRa_Encrypt 1 key (data @ xs) (word_of_nat k) a up s out =
    Some (xor_bytes data (keystream key a up s ((k + 15) div 16)) @ drop k out)"
proof -
  have "LoRa_Encrypt 1 key data (word_of_nat k) a up s (take k out) = Some (xor_bytes data (keystream key a up s ((k + 15) div 16)))"
    using LoRa_Encrypt_keystream [of key "take k out" data a up s] assms by simp
  from LoRa_Encrypt_front [OF this, of xs "drop k out"] show ?thesis by simp
qed

lemma xor_keystream_twice:
  assumes "length key = 16"
  shows "xor_bytes (xor_bytes data (keystream key a up s ((length data + 15) div 16))) (keystream key a up s ((length data + 15) div 16)) = data"
  using assms by (intro xor_bytes_cancel) simp

section \<open>A frame of a device\<close>

definition enciphered :: "buf \<Rightarrow> u32 \<Rightarrow> bool \<Rightarrow> u32 \<Rightarrow> buf \<Rightarrow> buf" where
  "enciphered key addr up cnt data = xor_bytes data (keystream key addr up cnt ((length data + 15) div 16))"

lemma length_enciphered [simp]: "length key = 16 \<Longrightarrow> length (enciphered key addr up cnt data) = length data"
  by (simp add: enciphered_def)

lemma enciphered_by_code:
  "length key = 16 \<Longrightarrow> length data < 4065 \<Longrightarrow>
    LoRa_Encrypt 1 key data (word_of_nat (length data)) addr up cnt (replicate (length data) 0) = Some (enciphered key addr up cnt data)"
  by (simp add: LoRa_Encrypt_keystream enciphered_def)

lemma enciphered_twice [simp]: "length key = 16 \<Longrightarrow> enciphered key addr up cnt (enciphered key addr up cnt data) = data"
  unfolding enciphered_def by (simp add: xor_keystream_twice)

lemma app_uplink_reads:
  assumes "length key = 16" "length data < 256" "length (left_octets n) = 256"
  shows "app_uplink n (hex_of_buf (enciphered key (ul_DevAddr ul) True (ul_FCntUp ul) data)) ul key w = save_frame n ul data w"
proof -
  let ?c = "enciphered key (ul_DevAddr ul) True (ul_FCntUp ul) data"
  have c: "length ?c = length data" using assms(1) by simp
  have "LoRa_Encrypt 1 key (?c @ drop (length data) (left_octets n)) (word_of_nat (length data)) (ul_DevAddr ul) True (ul_FCntUp ul) (left_octets n) =
      Some (enciphered key (ul_DevAddr ul) True (ul_FCntUp ul) ?c @ drop (length data) (left_octets n))"
    using LoRa_Encrypt_buffers [of key "length data" ?c] assms c by (simp add: enciphered_def)
  moreover have "unat (word_of_nat (length data) :: u8) = length data"
    using assms(2) by (simp add: unat_of_nat)
  ultimately show ?thesis
    using assms c by (simp add: app_uplink_def hex_pairs_hex_all Let_def)
qed

lemma forward_uplink_grows: "forward_uplink n wh ul payload w = Some (r, w') \<Longrightarrow> \<exists>es. as_eff w' = as_eff w @ es"
  by (auto simp: forward_uplink_def cayenne_post_def split: option.splits if_splits)

text \<open>
  The text of an INSERT with the columns and values of a list, and what the
  code writes for a frame: each value under the name of its column.
\<close>

definition insert_into :: "string \<Rightarrow> (string \<times> string) list \<Rightarrow> string" where
  "insert_into table fs =
    ''INSERT INTO '' @ table @ '' ('' @ sep_by '', '' (map fst fs) @ '') VALUES ('' @ sep_by '', '' (map snd fs) @ '')''"

definition frame_row :: "as_env \<Rightarrow> ULMetaData_t \<Rightarrow> u64 \<Rightarrow> int \<times> int \<Rightarrow> u32 \<Rightarrow> buf \<Rightarrow> (string \<times> string) list" where
  "frame_row n ul ident best hz payload =
    (if GWCnt ul > 0 then [(''GWCnt'', print_unsigned (GWCnt ul)), (''RSSI'', print_int (fst best)), (''SNR'', print_int (snd best))] else []) @
    (if ULFreq ul > 0 then [(''ULFreq'', print_unsigned hz)] else []) @
    (if ul_DataRate ul \<noteq> 255 then [(''DataRate'', print_unsigned (ul_DataRate ul))] else []) @
    (if payload \<noteq> [] then [(''FRMPayload'', ''0x'' @ hex_of_buf payload)] else []) @
    [(''ID'', print_unsigned ident), (''RecvTime'', ''FROM_UNIXTIME('' @ print_unsigned (as_mktime n (RecvTime ul)) @ '')''),
     (''FPort'', print_unsigned (word_of_int (ul_FPort ul) :: u32)), (''FCntUp'', print_unsigned (ul_FCntUp ul)),
     (''Confirmed'', if ul_Confirmed ul then ''1'' else ''0'')]"

lemma frame_insert_row: "frame_insert n ul ident best hz payload = insert_into ''frames'' (frame_row n ul ident best hz payload)"
  by (simp add: frame_insert_def frame_columns_def insert_into_def frame_row_def)

text \<open>A list of columns that holds the payload, the counter, the port and the device of an uplink.\<close>

definition holds_frame :: "ULMetaData_t \<Rightarrow> u64 \<Rightarrow> buf \<Rightarrow> (string \<times> string) list \<Rightarrow> bool" where
  "holds_frame ul ident payload fs \<longleftrightarrow> distinct (map fst fs) \<and> map_of fs ''ID'' = Some (print_unsigned ident) \<and>
     map_of fs ''FRMPayload'' = (if payload = [] then None else Some (''0x'' @ hex_of_buf payload)) \<and>
     map_of fs ''FPort'' = Some (print_unsigned (word_of_int (ul_FPort ul) :: u32)) \<and>
     map_of fs ''FCntUp'' = Some (print_unsigned (ul_FCntUp ul)) \<and>
     map_of fs ''Confirmed'' = Some (if ul_Confirmed ul then ''1'' else ''0'')"

lemma frame_row_holds: "holds_frame ul ident payload (frame_row n ul ident best hz payload)"
  unfolding holds_frame_def frame_row_def by (cases "GWCnt ul > 0"; cases "ULFreq ul > 0"; cases "ul_DataRate ul = 255"; cases "payload = []") simp_all

lemma save_frame_stores:
  assumes "save_frame n ul payload w = Some (Success, w')"
  shows "\<exists>ident row rows fs es. as_db n (''SELECT ID FROM activemotes WHERE '' @ where_device (ul_DevEUI ul) (ul_DevAddr ul)) = SqlRows (row # rows) \<and>
    Option.bind (cell row 0) sscanf_dec = Some ident \<and> as_eff w' = as_eff w @ Statement (insert_into ''frames'' fs) # es \<and> holds_frame ul ident payload fs"
proof -
  obtain ident best hz w1 wh x row rows where r: "as_db n (''SELECT ID FROM activemotes WHERE '' @ where_device (ul_DevEUI ul) (ul_DevAddr ul)) = SqlRows (row # rows)"
    "Option.bind (cell row 0) sscanf_dec = Some ident"
    and w1: "as_mq_send n (frame_insert n ul ident best hz payload) w = (as_mq n (frame_insert n ul ident best hz payload), w1)"
    and f: "forward_uplink n wh ul payload w1 = Some (x, w')"
    using assms
    by (auto simp: save_frame_def Let_def unknown_device_def as_mq_send_def split: sqlres.splits list.splits option.splits if_splits prod.splits)
  obtain es where "as_eff w' = as_eff w1 @ es" using forward_uplink_grows [OF f] by blast
  then have "as_eff w' = as_eff w @ Statement (frame_insert n ul ident best hz payload) # es"
    using w1 by (auto simp: as_mq_send_def)
  with r frame_row_holds show ?thesis unfolding frame_insert_row by blast
qed

section \<open>A downlink of the application\<close>

lemma octet_small: "unat (x :: u8) < 256"
proof -
  have "unat x < 2 ^ LENGTH(8)" by (rule unsigned_less)
  then show ?thesis by simp
qed

lemma writeDownlinkStatus_grows: "writeDownlinkStatus n eui addr t w = Some (r, w') \<Longrightarrow> \<exists>es. as_eff w' = as_eff w @ es"
  by (auto simp: writeDownlinkStatus_def as_query_def Let_def split: option.splits if_splits)

lemma tlistAdd_eff: "tlistAdd m tid w = Some w' \<Longrightarrow> as_eff w' = as_eff w"
  by (auto simp: tlistAdd_def Let_def)

lemma post_downlink_posts:
  assumes "post_downlink n m net j w = Some (0, t, w')"
  shows "\<exists>es. as_eff w' = as_eff w @ Post (zero_pad 6 (print_hex net) @ ''.'' @ as_netIdDomain n)
    (JObj (lib_generate_json j (zero_pad 6 (print_hex net)) (myAS_ID n) (ucast (next_req_tid w)) (Some (message_text XmitDataReq)) None)) # es"
  using assms
  by (auto simp: post_downlink_def Let_def bind_eq_Some_conv split: if_splits dest!: writeDownlinkStatus_grows tlistAdd_eff)

lemma header_keeps_member:
  assumes "k \<notin> {''ProtocolVersion'', ''ReceiverID'', ''SenderID'', ''TransactionID'', ''MessageType''}"
  shows "map_of (lib_generate_json j dest src tid (Some mt) None) k = map_of j k"
  using assms by (simp add: lib_generate_json_def add_field_get Let_def)

lemma downlink_cipher_is:
  assumes "msg_payload m = Payload (b @ rest)" "length b = unat (msg_payLen m)" "length key = 16" "length (left_octets n) = 256"
  shows "downlink_cipher n m addr key cnt = Some (enciphered key addr False cnt b)"
proof (cases "msg_payLen m = 0")
  case True
  then show ?thesis using assms by (simp add: downlink_cipher_def enciphered_def)
next
  case False
  have len: "length b < 256" using assms(2) octet_small [of "msg_payLen m"] by simp
  have "ucast (msg_payLen m) = (word_of_nat (length b) :: u16)" using assms(2) by simp
  then have "LoRa_Encrypt 1 key (b @ rest) (ucast (msg_payLen m)) addr False cnt (left_octets n) = Some (enciphered key addr False cnt b @ drop (length b) (left_octets n))"
    using LoRa_Encrypt_buffers [of key "length b" b "left_octets n" rest] assms(3,4) len by (simp add: enciphered_def)
  then show ?thesis using assms(1-3) False by (simp add: downlink_cipher_def)
qed

lemma key_cell_length: "key_cell t = Some k \<Longrightarrow> length k = 16"
  by (auto simp: key_cell_def bytes_of_def split: if_splits)

lemma downlink_key_length: "downlink_key n q = Some (Inr (key, cnt)) \<Longrightarrow> length key = 16"
  by (auto simp: downlink_key_def key_cell_length split: sqlres.splits list.splits option.splits)

text \<open>The row of a device, and the metadata that name it, the port and the counter.\<close>

definition row_of :: "u64 \<Rightarrow> u32 \<Rightarrow> string" where
  "row_of eui addr = (if eui = NONE_DEVEUI then ''DevAddr = '' @ print_unsigned addr else ''eui = '' @ print_unsigned eui)"

definition names_downlink :: "u64 \<Rightarrow> u32 \<Rightarrow> u8 \<Rightarrow> u32 \<Rightarrow> bool \<Rightarrow> fields \<Rightarrow> bool" where
  "names_downlink eui addr fport cnt conf md \<longleftrightarrow>
    map_of md ''DevEUI'' = (if eui = NONE_DEVEUI then None else Some (JStr (print_hex eui))) \<and>
    map_of md ''DevAddr'' = (if eui = NONE_DEVEUI then Some (JStr (print_hex addr)) else None) \<and>
    map_of md ''FPort'' = Some (JInt (uint fport)) \<and> map_of md ''FCntDown'' = Some (JInt (c_int cnt)) \<and>
    map_of md ''Confirmed'' = (if conf then Some (JBool True) else None)"

lemma metadata_names_downlink: "names_downlink eui addr fport cnt conf (AS_generateDLMetaData eui addr fport cnt conf)"
  by (simp add: names_downlink_def AS_generateDLMetaData_def)

text \<open>The request to the network of the address: it names the device, and its payload deciphers to b.\<close>

definition carries_downlink :: "as_env \<Rightarrow> u64 \<Rightarrow> u32 \<Rightarrow> u8 \<Rightarrow> bool \<Rightarrow> buf \<Rightarrow> effect \<Rightarrow> bool" where
  "carries_downlink n eui addr fport conf b e \<longleftrightarrow>
    (\<exists>key cnt c net i a j md.
      downlink_key n (''SELECT AppSKey, AFCntDown FROM activemotes WHERE '' @ row_of eui addr) = Some (Inr (key, cnt)) \<and>
      parseDevAddr addr = Some (net, i, a) \<and> e = Post (zero_pad 6 (print_hex net) @ ''.'' @ as_netIdDomain n) (JObj j) \<and>
      map_of j ''FRMPayload'' = Some (JStr (hex_of_buf c)) \<and> map_of j ''DLMetaData'' = Some (JObj md) \<and>
      names_downlink eui addr fport cnt conf md \<and>
      LoRa_Encrypt 1 key c (word_of_nat (length c)) addr False cnt (replicate (length c) 0) = Some b)"

lemma send_downlink_posts:
  assumes run: "send_downlink n m w = Some (0, t, m', w')" and m: "msg_payload m = Payload (b @ rest)" "length b = unat (msg_payLen m)" "b \<noteq> []"
    and n: "length (left_octets n) = 256"
  shows "\<exists>addr e es. downlink_address n m = Inr addr \<and> as_eff w' = as_eff w @ e # es \<and>
    carries_downlink n (msg_devEui m) addr (msg_fport m) (msg_conf m) b e"
proof -
  obtain addr where addr: "downlink_address n m = Inr addr" using run by (auto simp: send_downlink_def split: sum.splits)
  let ?m = "m\<lparr>msg_devAddr := addr\<rparr>"
  let ?q = "''SELECT AppSKey, AFCntDown FROM activemotes WHERE '' @ row_of (msg_devEui m) addr"
  have wd: "where_device eui a = row_of eui a" for eui a by (simp add: where_device_def row_of_def)
  obtain key cnt where key: "downlink_key n ?q = Some (Inr (key, cnt))"
    using run addr by (auto simp: send_downlink_def Let_def wd split: option.splits sum.splits)
  have len: "length key = 16" by (rule downlink_key_length [OF key])
  define c where "c = enciphered key addr False cnt b"
  have c: "downlink_cipher n ?m addr key cnt = Some c"
    unfolding c_def by (rule downlink_cipher_is) (use m n len in simp_all)
  have c0: "length c = length b" "c \<noteq> []" using len m(3) by (auto simp: c_def simp flip: length_greater_0_conv)
  obtain net i a where net: "parseDevAddr addr = Some (net, i, a)" "post_downlink n ?m net (downlink_fields ?q ?m addr c cnt) w = Some (0, t, w')"
    using run addr key c by (auto simp: send_downlink_def Let_def wd split: option.splits)
  let ?j = "lib_generate_json (downlink_fields ?q ?m addr c cnt) (zero_pad 6 (print_hex net)) (myAS_ID n)
      (ucast (next_req_tid w)) (Some (message_text XmitDataReq)) None"
  from post_downlink_posts [OF net(2)] obtain es where
    p: "as_eff w' = as_eff w @ Post (zero_pad 6 (print_hex net) @ ''.'' @ as_netIdDomain n) (JObj ?j) # es" by blast
  have "length b < 4065" using m(2) octet_small [of "msg_payLen m"] by linarith
  then have decipher: "LoRa_Encrypt 1 key c (word_of_nat (length c)) addr False cnt (replicate (length c) 0) = Some b"
    using enciphered_by_code [of key c] len c0 by (simp add: c_def)
  have members: "map_of ?j ''FRMPayload'' = Some (JStr (hex_of_buf c))"
    "map_of ?j ''DLMetaData'' = Some (JObj (AS_generateDLMetaData (msg_devEui m) addr (msg_fport m) cnt (msg_conf m)))"
    using c0(2) by (simp_all add: header_keeps_member downlink_fields_def)
  have "carries_downlink n (msg_devEui m) addr (msg_fport m) (msg_conf m) b (Post (zero_pad 6 (print_hex net) @ ''.'' @ as_netIdDomain n) (JObj ?j))"
    unfolding carries_downlink_def
    by (intro exI conjI) (rule key net(1) refl members metadata_names_downlink decipher)+
  with addr p show ?thesis by blast
qed

section \<open>A downlink of a form\<close>

lemma hex_octets_hex: "hex_octets i (length b) (hex_of_buf b @ rest) = Some b"
proof (induction b arbitrary: i)
  case (Cons x b)
  have "hex_of_buf (x # b) @ rest = hex2 x @ hex_of_buf b @ rest" "length (hex2 x) = 2"
    by (simp_all add: hex_of_buf_def hex2_def)
  then show ?case using sscanf_hex2 [of x "hex_of_buf b @ rest"] Cons by simp
qed simp

lemma hex_payload_is:
  assumes "length b \<le> 244" "length (ai_payload ai) = 244"
  shows "hex_payload (hex_of_buf b) ai =
    Some (ai\<lparr>ai_payload := b @ drop (length b) (ai_payload ai), ai_payloadLen := word_of_nat (length b)\<rparr>)"
  using hex_octets_hex [of None b "[]"] assms by (simp add: hex_payload_def write_payload_def memcpy_at_def len_simps)

definition form_wf :: "appInfo_t \<Rightarrow> bool" where "form_wf ai \<longleftrightarrow> length (ai_payload ai) = 244"

lemma write_payload_wf: "write_payload b ai = Some ai' \<Longrightarrow> form_wf ai \<Longrightarrow> form_wf ai'"
  by (auto simp: write_payload_def form_wf_def memcpy_at_def split: if_splits)

lemma hex_payload_wf: "hex_payload data ai = Some ai' \<Longrightarrow> form_wf ai \<Longrightarrow> form_wf ai'"
  by (auto simp: hex_payload_def form_wf_def bind_eq_Some_conv dest!: write_payload_wf)

lemma form_action_wf: "form_action data ai = Some ai' \<Longrightarrow> form_wf ai \<Longrightarrow> form_wf ai'"
  by (auto simp: form_action_def dest!: write_payload_wf split: if_splits) (simp_all add: form_wf_def)

lemma post_iterator_wf:
  assumes "post_iterator key data ai = Some ai'" "form_wf ai"
  shows "form_wf ai'"
  using assms unfolding post_iterator_def
  by (auto split: if_split_asm dest: form_action_wf hex_payload_wf) (auto simp: form_wf_def text_payload_def bytes_of_def)

lemma post_fields_wf: "post_fields ks ai = Some ai' \<Longrightarrow> form_wf ai \<Longrightarrow> form_wf ai'"
  by (induction ks ai rule: post_fields.induct) (auto simp: bind_eq_Some_conv intro: post_iterator_wf)

lemma form_payload:
  assumes "post_iterator ''payHex'' (hex_of_buf b) ai = Some ai'" "form_wf ai" "ai_payloadLen ai = 0" "b \<noteq> []"
  shows "\<exists>rest. ai_payload ai' = b @ rest" "unat (ai_payloadLen ai') = length b"
proof -
  have "hex_of_buf b \<noteq> []" using assms(4) by (simp add: len_simps flip: length_greater_0_conv)
  then have run: "hex_payload (hex_of_buf b) ai = Some ai'" using assms(1,3) by (simp add: post_iterator_def)
  then have short: "length b \<le> 244"
    using hex_octets_hex [of None b "[]"] by (auto simp: hex_payload_def write_payload_def len_simps split: if_splits)
  have "ai' = ai\<lparr>ai_payload := b @ drop (length b) (ai_payload ai), ai_payloadLen := word_of_nat (length b)\<rparr>"
    using run hex_payload_is [OF short, of ai] assms(2) by (simp add: form_wf_def)
  then show "\<exists>rest. ai_payload ai' = b @ rest" "unat (ai_payloadLen ai') = length b"
    using short by (simp_all add: unat_of_nat)
qed

text \<open>
  The device of a form: by its EUI, then the address is that of its row, or
  by its address. An address in the row that is no number leaves the one typed.
\<close>

definition form_names :: "as_env \<Rightarrow> appInfo_t \<Rightarrow> u64 \<Rightarrow> u32 \<Rightarrow> bool" where
  "form_names n ai eui addr \<longleftrightarrow>
    (\<exists>typed. (if DevEUIstr ai = [] then eui = NONE_DEVEUI else sscanf_dec (DevEUIstr ai) = Some eui) \<and>
      (if DevAddrStr ai = [] then typed = NONE_DEVADDR else sscanf_dec (DevAddrStr ai) = Some typed) \<and>
      (if eui = NONE_DEVEUI then addr = typed \<and> typed \<noteq> NONE_DEVADDR
       else \<exists>t row rows. as_db n (''SELECT DevAddr FROM activemotes WHERE eui = '' @ print_unsigned eui) = SqlRows ((Some t # row) # rows) \<and>
         addr = store (sscanf_dec t) typed))"

lemma downlink_address_named:
  assumes "downlink_address n m = Inr addr"
  shows "if msg_devEui m = NONE_DEVEUI then addr = msg_devAddr m \<and> msg_devAddr m \<noteq> NONE_DEVADDR
    else \<exists>t row rows. as_db n (''SELECT DevAddr FROM activemotes WHERE eui = '' @ print_unsigned (msg_devEui m)) = SqlRows ((Some t # row) # rows) \<and>
      addr = store (sscanf_dec t) (msg_devAddr m)"
  using assms by (auto simp: downlink_address_def Let_def split: if_splits sqlres.splits list.splits option.splits)

lemma sendDownlink_posts:
  assumes run: "sendDownlink n ai w = Some (0, t, w')" and b: "ai_payload ai = b @ rest" "unat (ai_payloadLen ai) = length b" "b \<noteq> []"
    and n: "length (left_octets n) = 256"
  shows "\<exists>eui addr fport e es. form_names n ai eui addr \<and> sscanf_dec (ai_fport ai) = Some (fport :: u32) \<and> as_eff w' = as_eff w @ e # es \<and>
    carries_downlink n eui addr (ucast fport) (ai_conf ai) b e"
proof -
  obtain eui typed fport t' m' where f: "sscanf_dec (ai_fport ai) = Some (fport :: u32)"
    "(if DevEUIstr ai = [] then Some NONE_DEVEUI else sscanf_dec (DevEUIstr ai)) = Some eui"
    "(if DevAddrStr ai = [] then Some NONE_DEVADDR else sscanf_dec (DevAddrStr ai)) = Some typed"
    and s: "send_downlink n \<lparr>msg_devEui = eui, msg_devAddr = typed, msg_fport = ucast fport, msg_conf = ai_conf ai,
       msg_payload = Payload (ai_payload ai), msg_payLen = ai_payloadLen ai\<rparr> w = Some (0, t', m', w')"
    using run unfolding sendDownlink_def failed_def by (auto split: option.split_asm if_split_asm)
  from send_downlink_posts [OF s, of b rest] b n obtain addr e es where
    p: "downlink_address n \<lparr>msg_devEui = eui, msg_devAddr = typed, msg_fport = ucast fport, msg_conf = ai_conf ai,
       msg_payload = Payload (ai_payload ai), msg_payLen = ai_payloadLen ai\<rparr> = Inr addr"
    "as_eff w' = as_eff w @ e # es" "carries_downlink n eui addr (ucast fport) (ai_conf ai) b e" by auto
  have "form_names n ai eui addr"
    unfolding form_names_def using f(2,3) downlink_address_named [OF p(1)]
    by (intro exI [of _ typed]) (auto split: if_splits)
  with f(1) p(2,3) show ?thesis by blast
qed

section \<open>The list of requests\<close>

text \<open>A payload has its length; one that was freed belongs to no request.\<close>

definition msg_ok :: "msg_t \<Rightarrow> bool" where
  "msg_ok m \<longleftrightarrow> (case msg_payload m of NoPayload \<Rightarrow> msg_payLen m = 0 | Payload b \<Rightarrow> length b = unat (msg_payLen m) | Freed \<Rightarrow> blank_msg m)"

definition as_wf :: "as_world \<Rightarrow> bool" where "as_wf w \<longleftrightarrow> (\<forall>t \<in> set (tlist w). msg_ok (sent_msg t))"

definition same_list :: "as_world \<Rightarrow> as_world \<Rightarrow> bool" where "same_list w w' \<longleftrightarrow> tlist w' = tlist w"

lemma same_list_wf: "same_list w w' \<Longrightarrow> as_wf w \<Longrightarrow> as_wf w'"
  by (simp add: same_list_def as_wf_def)

named_theorems list_kept

lemma statements_same [list_kept]:
  "as_query n q w = (ok, w') \<Longrightarrow> same_list w w'"
  "as_mq_send n q w = (r, w') \<Longrightarrow> same_list w w'"
  "set_sql_AFCntDown n eui addr fcnt w = (r, w') \<Longrightarrow> same_list w w'"
  "incr_sql_AFCntDown n eui addr w = (r, w') \<Longrightarrow> same_list w w'"
  "updateSKey n clr key eui abp ota w = (r, w') \<Longrightarrow> same_list w w'"
  by (auto simp: as_query_def as_mq_send_def set_sql_AFCntDown_def incr_sql_AFCntDown_def updateSKey_def same_list_def Let_def)

lemma handlers_same [list_kept]:
  "writeDownlinkStatus n eui addr t w = Some (r, w') \<Longrightarrow> same_list w w'"
  "updateDevAddr n eui addr w = Some (r, w') \<Longrightarrow> same_list w w'"
  "cayenne_post n ul payload w = Some (r, w') \<Longrightarrow> same_list w w'"
  by (auto simp: writeDownlinkStatus_def updateDevAddr_def cayenne_post_def as_query_def same_list_def Let_def
      split: option.splits if_splits)

lemma forward_uplink_same [list_kept]: "forward_uplink n wh ul payload w = Some (r, w') \<Longrightarrow> same_list w w'"
  by (auto simp: forward_uplink_def same_list_def dest: list_kept split: option.splits if_splits)

lemma same_list_refl [simp]: "same_list w w"
  by (simp add: same_list_def)

lemma same_list_trans: "same_list u v \<Longrightarrow> same_list v w \<Longrightarrow> same_list u w"
  by (simp add: same_list_def)

lemma same_snd [list_kept]: "same_list w (snd (set_sql_AFCntDown n eui addr fcnt w))" "same_list w (snd (incr_sql_AFCntDown n eui addr w))"
  by (metis prod.collapse list_kept(3,4))+

lemma save_frame_same [list_kept]: "save_frame n ul payload w = Some (r, w') \<Longrightarrow> same_list w w'"
  unfolding save_frame_def Let_def
  by (auto split: sqlres.split_asm list.split_asm option.split_asm if_split_asm prod.split_asm
      dest: list_kept(2) forward_uplink_same intro: same_list_trans)

lemma app_uplink_same [list_kept]: "app_uplink n t ul key w = Some (r, w') \<Longrightarrow> same_list w w'"
  by (auto simp: app_uplink_def Let_def dest: save_frame_same split: option.split_asm if_split_asm)

lemma saveAppSKey_same [list_kept]: "saveAppSKey a n clr j eui w = Some (r, key, w') \<Longrightarrow> same_list w w'"
  unfolding saveAppSKey_def
  by (auto split: option.split_asm sum.split_asm bool.split_asm prod.split_asm if_split_asm dest: list_kept(5) intro: same_snd(1))

lemma uplink_device_same [list_kept]: "uplink_device a n ulj w = Some (found, eui, w') \<Longrightarrow> same_list w w'"
  by (auto simp: uplink_device_def Let_def dest: handlers_same(2) split: option.split_asm if_split_asm)

lemma receive_frame_same [list_kept]:
  assumes "receive_frame a n j w = Some (r, w')"
  shows "same_list w w'"
  using assms
  by (auto simp: receive_frame_def Let_def same_list_def split: option.split_asm if_split_asm prod.split_asm
      dest!: uplink_device_same saveAppSKey_same app_uplink_same)

section \<open>Every message keeps the list well-formed\<close>

lemma msg_wf: "as_wf w \<Longrightarrow> k < length (tlist w) \<Longrightarrow> msg_ok (sent_msg (tlist w ! k))"
  by (simp add: as_wf_def)

lemma set_msg_wf: "as_wf w \<Longrightarrow> msg_ok m \<Longrightarrow> as_wf (set_msg k m w)"
  by (cases "k < length (tlist w)")
    (auto simp: as_wf_def set_msg_def list_update_beyond dest!: set_update_subset_insert [THEN subsetD])

lemma copy_msg_ok: "copy_msg m = Some c \<Longrightarrow> msg_ok c"
  by (auto simp: copy_msg_def msg_ok_def split: if_splits payload_t.splits)

lemma release_msg_ok: "release_msg m = Some c \<Longrightarrow> msg_ok m \<Longrightarrow> msg_ok c"
  by (auto simp: release_msg_def msg_ok_def blank_msg_def Let_def split: payload_t.splits)

lemma release_moved: "release_msg (m\<lparr>msg_devAddr := addr\<rparr>) = Some c \<Longrightarrow> msg_ok m \<Longrightarrow> msg_ok c"
  by (auto simp: release_msg_def msg_ok_def blank_msg_def Let_def split: payload_t.splits)

lemma tlistAdd_wf: "tlistAdd m tid w = Some w' \<Longrightarrow> as_wf w \<Longrightarrow> as_wf w'"
  using copy_msg_ok
  by (auto simp: tlistAdd_def as_wf_def Let_def split: option.splits dest!: set_update_subset_insert [THEN subsetD])

lemma as_wf_update [simp]:
  "as_wf (w\<lparr>next_req_tid := x\<rparr>) = as_wf w" "as_wf (w\<lparr>as_eff := es\<rparr>) = as_wf w"
  by (simp_all add: as_wf_def)

lemma writeDownlinkStatus_wf: "writeDownlinkStatus n eui addr t w = Some (r, w') \<Longrightarrow> as_wf w \<Longrightarrow> as_wf w'"
  by (rule same_list_wf [OF handlers_same(1)])

lemma post_downlink_wf: "post_downlink n m net j w = Some (r, t, w') \<Longrightarrow> as_wf w \<Longrightarrow> as_wf w'"
  by (auto simp: post_downlink_def Let_def bind_eq_Some_conv split: if_split_asm
      dest!: tlistAdd_wf intro: writeDownlinkStatus_wf)

lemma send_downlink_wf: "send_downlink n m w = Some (r, t, m', w') \<Longrightarrow> as_wf w \<Longrightarrow> as_wf w'"
  by (auto simp: send_downlink_def Let_def split: sum.split_asm option.split_asm prod.split_asm dest: post_downlink_wf)

lemma send_downlink_msg: "send_downlink n m w = Some (r, t, m', w') \<Longrightarrow> \<exists>addr. m' = m\<lparr>msg_devAddr := addr\<rparr>"
  by (auto simp: send_downlink_def Let_def split: sum.split_asm option.split_asm prod.split_asm intro: exI [of _ "msg_devAddr m"])

lemma send_again_wf:
  assumes "send_again n k fcnt w = Some w'" "as_wf w" "k < length (tlist w)"
  shows "as_wf w'"
proof -
  let ?m = "sent_msg (tlist w ! k)"
  obtain w1 where w1: "set_sql_AFCntDown n (msg_devEui ?m) (msg_devAddr ?m) fcnt w = (0, w1)"
    using assms(1) by (cases "set_sql_AFCntDown n (msg_devEui ?m) (msg_devAddr ?m) fcnt w")
      (auto simp: send_again_def Let_def set_sql_AFCntDown_def split: if_split_asm prod.split_asm)
  then obtain r2 t m2 w2 where w2: "send_downlink n ?m w1 = Some (r2, t, m2, w2)"
    and rest: "Option.bind (if r2 < 0 then map_option snd (writeDownlinkStatus n (msg_devEui m2) (msg_devAddr m2) t w2) else Some w2) (\<lambda>w3.
           map_option (\<lambda>m3. set_msg k m3 w3) (release_msg m2)) = Some w'"
    using assms(1) by (auto simp: send_again_def Let_def bind_eq_Some_conv split: if_split_asm)
  obtain w3 m3 where w3: "w3 = w2 \<or> (\<exists>s. writeDownlinkStatus n (msg_devEui m2) (msg_devAddr m2) t w2 = Some (s, w3))"
    and m3: "release_msg m2 = Some m3" "w' = set_msg k m3 w3"
    using rest by (auto simp: bind_eq_Some_conv split: if_split_asm)
  obtain addr where m2: "m2 = ?m\<lparr>msg_devAddr := addr\<rparr>" using send_downlink_msg [OF w2] by blast
  have "as_wf w1" using same_list_wf [OF list_kept(3) [OF w1]] assms(2) by simp
  then have "as_wf w3" using send_downlink_wf [OF w2] w3 writeDownlinkStatus_wf by blast
  moreover have "msg_ok m3"
    using release_moved [OF _ msg_wf [OF assms(2,3)]] m3(1) m2 by simp
  ultimately show ?thesis using set_msg_wf m3(2) by simp
qed

lemma downlink_answered_wf:
  assumes "downlink_answered a n j tid res w = Some w'" "as_wf w"
  shows "as_wf w'"
proof (cases "index_where (\<lambda>t. ucast (sent_tid t) = tid) (tlist w)")
  case None
  then show ?thesis using assms by (simp add: downlink_answered_def)
next
  case (Some k)
  then have k: "k < length (tlist w)" using index_where_Some by blast
  let ?m = "sent_msg (tlist w ! k)"
  have status: "as_wf w3"
    if "as_wf w1" "Option.bind (writeDownlinkStatus n (msg_devEui ?m) (msg_devAddr ?m) t w1)
      (\<lambda>(r, w2). if r = 0 then map_option (\<lambda>m1. set_msg k m1 w2) (release_msg ?m) else Some w2) = Some w3" for t w1 w3
    using that release_msg_ok [OF _ msg_wf [OF assms(2) k]] writeDownlinkStatus_wf
    by (auto simp: bind_eq_Some_conv set_msg_wf split: if_split_asm)
  have counted: "as_wf (snd (incr_sql_AFCntDown n eui addr w))" for eui addr
    using same_list_wf [OF same_snd(2)] assms(2) by blast
  show ?thesis
    using assms(1) Some status [OF counted] status [OF assms(2)] send_again_wf [OF _ assms(2) k]
    by (auto simp: downlink_answered_def Let_def split: if_split_asm option.split_asm)
qed

lemma keys_answered_wf: "keys_answered a n j tid res ks w = Some w' \<Longrightarrow> as_wf w \<Longrightarrow> \<forall>k \<in> set ks. k < length (tlist w) \<Longrightarrow> as_wf w'"
proof (induction ks arbitrary: w)
  case (Cons k ks)
  let ?m = "sent_msg (tlist w ! k)"
  show ?case
  proof (cases "ucast (sent_tid (tlist w ! k)) = tid")
    case False
    then show ?thesis using Cons by (simp add: Let_def)
  next
    case True
    let ?blank = "?m\<lparr>msg_devEui := NONE_DEVEUI, msg_devAddr := NONE_DEVADDR\<rparr>"
    obtain w1 where saved: "w1 = w \<or> (\<exists>r key. saveAppSKey a n False j (msg_devEui ?m) w = Some (r, key, w1))"
      and on: "keys_answered a n j tid res ks (set_msg k ?blank w1) = Some w'"
      using Cons.prems(1) True by (auto simp: Let_def bind_eq_Some_conv split: if_split_asm)
    have w1: "same_list w w1" using saved saveAppSKey_same by auto
    have "msg_ok ?blank" using msg_wf [of w k] Cons.prems by (auto simp: msg_ok_def blank_msg_def split: payload_t.splits)
    then have "as_wf (set_msg k ?blank w1)" using same_list_wf [OF w1] Cons.prems(2) set_msg_wf by blast
    then show ?thesis using Cons.IH [OF on] w1 Cons.prems(3) by (simp add: set_msg_def same_list_def)
  qed
qed simp

lemma receive_frame_wf: "receive_frame a n j w = Some (r, w') \<Longrightarrow> as_wf w \<Longrightarrow> as_wf w'"
  by (rule same_list_wf [OF receive_frame_same])

lemma as_ParseJson_wf:
  assumes "as_ParseJson a n j w = Some (r, w')" "as_wf w"
  shows "as_wf w'"
proof -
  have "as_wf w1" if "as_dispatch a n j p w = Some (res, w1)" for p res w1
    using that assms(2)
    by (auto simp: as_dispatch_def split: option.split_asm message_type.split_asm
        intro: downlink_answered_wf receive_frame_wf keys_answered_wf)
  note dispatched = this
  obtain p res w1 where p: "lib_parse_json a j (myAS_ID n) = Some p"
    and w1: "(if pj_result p = Success then as_dispatch a n j p w else Some (pj_result p, w)) = Some (res, w1)"
    and ans: "(case pj_ans p of None \<Rightarrow> Some (None, w1) | Some t \<Rightarrow> (case pj_sender p of None \<Rightarrow> None
      | Some s \<Rightarrow> Some (Some (lib_generate_json [] s (myAS_ID n) (store (pj_tid p) 0) (Some (message_text t)) (Some (result_text res))), w1))) = Some (r, w')"
    using assms(1) unfolding as_ParseJson_def
    by (cases "lib_parse_json a j (myAS_ID n)") (auto simp: bind_eq_Some_conv simp del: if_split)
  have "w' = w1" using ans by (cases "pj_ans p"; cases "pj_sender p") auto
  then show ?thesis using w1 dispatched assms(2) by (auto split: if_split_asm)
qed

section \<open>An answer that comes twice\<close>

text \<open>The payload of a finished request is freed once more when its answer comes again with a counter.\<close>

lemma second_answer_frees_twice:
  assumes "index_where (\<lambda>t. ucast (sent_tid t) = tid) (tlist w) = Some k"
    and "blank_msg (sent_msg (tlist w ! k))" "msg_payload (sent_msg (tlist w ! k)) = Freed"
    and "res \<noteq> Some Success" "map_of j ''FCntDown'' = Some v"
  shows "downlink_answered a n j tid res w = None"
proof -
  have "send_again n k (word_of_int (ja_int a v)) w = None"
    using assms(2,3)
    by (auto simp: send_again_def Let_def send_downlink_def downlink_address_def blank_msg_def release_msg_def bind_eq_None_conv
        split: prod.split option.split)
  then show ?thesis using assms(1,4,5) by (simp add: downlink_answered_def Let_def)
qed

end
