(* ===== verification/AppSamples.thy ===== *)
theory AppSamples
  imports Samples AppFacts
begin

text \<open>An application server with one device, a frame of the device, and a downlink to it.\<close>

definition app_row :: row where "app_row = [Some (replicate 16 (CHR ''k'')), Some ''4'']"

definition app0 :: as_env where
  "app0 = \<lparr>as_db = (\<lambda>q. SqlRows (if take 9 q = ''SELECT ID'' then [[Some ''4'']] else [app_row])), as_mq = (\<lambda>_. 0), as_affected = (\<lambda>_. 1),
     as_error = (\<lambda>_. []), as_easy = True, as_post = (\<lambda>_ _. 0), as_mktime = (\<lambda>_. 100), myAS_ID = ''as:80'',
     as_netIdDomain = ''netids.example'', key_envelope_app = \<lparr>kek_label = None, key_bin = []\<rparr>, as_unwrap = (\<lambda>_ k. Some (take 16 k)),
     left_key = replicate 16 0, left_eui = 0, left_octets = replicate 256 0, left_forward = [], left_ulmd = zero_ulmd\<rparr>"

definition app_start :: as_world where "app_start = \<lparr>tlist = [], next_req_tid = 9, post_id = 0, as_eff = []\<rparr>"

definition app_ul :: ULMetaData_t where "app_ul = zero_ulmd\<lparr>ul_DevAddr := 0x01020304, ul_DevEUI := NONE_DEVEUI, ul_FCntUp := 7\<rparr>"

definition app_msg :: msg_t where
  "app_msg = \<lparr>msg_devEui = NONE_DEVEUI, msg_devAddr = 0x01020304, msg_fport = 2, msg_conf = False, msg_payload = Payload ([1, 2, 3] @ replicate 241 0), msg_payLen = 3\<rparr>"

text \<open>The form as it is before the payload is filled in.\<close>

definition app_form :: appInfo_t where
  "app_form = \<lparr>DevEUIstr = [], DevAddrStr = ''16909060'', newAppSKey = [], editAppSKey = [], ai_op = OP_DOWNLINK, ai_target = [], ai_conf = False,
     ai_fport = ''2'', ai_payload = replicate 244 0, ai_payloadLen = 0, inhibit_refresh = False\<rparr>"

lemma scan4: "sscanf_dec ''4'' = Some (4 :: u64)" "sscanf_dec ''4'' = Some (4 :: u32)"
  by (simp_all add: sscanf_dec_def scan_value_def is_space_def skip_0x_def scan_unsigned_digits_def digit_val_def)

lemma app0_fields [simp]:
  "as_mq app0 q = 0" "as_affected app0 q = 1" "as_easy app0" "as_post app0 h j = 0" "length (left_octets app0) = 256" "left_octets app0 = replicate 256 0"
  by (simp_all add: app0_def)

lemma app0_queries: "as_db app0 q \<noteq> SqlError" by (simp add: app0_def)

lemma app0_rows:
  "as_db app0 (''SELECT ID'' @ x) = SqlRows [[Some ''4'']]" "as_db app0 (''SELECT for'' @ x) = SqlRows [app_row]"
  "as_db app0 (''SELECT App'' @ x) = SqlRows [app_row]" "as_db app0 (''UPDATE'' @ x) = SqlRows [app_row]"
  by (simp_all add: app0_def take_Cons' split: list.split)

lemma app0_forwards: "\<exists>w1. forward_uplink app0 wh ul p w = Some (Success, w1)"
  using app0_rows(2) [of "''wardTo FROM activemotes WHERE '' @ wh"]
  by (simp add: forward_uplink_def first_row_def app_row_def cell_def store_def eval_nat_numeral)

lemma app0_saves: "\<exists>w'. save_frame app0 app_ul [1, 2, 3] app_start = Some (Success, w')"
proof -
  have b: "best_readings (gwList app_ul) (- 128, - 128) = Some (- 128, - 128)" "frame_hz app_ul = Some 0"
    by (simp_all add: app_ul_def zero_ulmd_def frame_hz_def)
  obtain g where g: "forward_uplink app0 wh ul p w = Some (Success, g wh ul p w)" for wh ul p w
    using app0_forwards by metis
  show ?thesis
    using app0_rows(1) [of "'' FROM activemotes WHERE '' @ where_device (ul_DevEUI app_ul) (ul_DevAddr app_ul)"]
    by (simp add: g save_frame_def Let_def as_mq_send_def cell_def scan4 b)
qed

lemma parse_app_addr: "\<exists>net a b. parseDevAddr 0x01020304 = Some (net, a, b)"
  by (simp add: parseDevAddr_def Let_def)

lemma app0_status: "\<exists>w'. writeDownlinkStatus app0 NONE_DEVEUI 0x01020304 (Some ''SENT'') w = Some (0, w')"
  using app0_rows(4)
  by (simp add: writeDownlinkStatus_def escape_quotes_def c_text_def as_query_def Let_def)

lemma app0_sends: "\<exists>t m' w'. send_downlink app0 app_msg app_start = Some (0, t, m', w')"
proof -
  have addr: "downlink_address app0 app_msg = Inr 0x01020304" by (simp add: downlink_address_def app_msg_def NONE_DEVADDR_def)
  have "\<exists>k. key_cell (replicate 16 (CHR ''k'')) = Some k" by (simp add: key_cell_def)
  then obtain k where k: "key_cell (replicate 16 (CHR ''k'')) = Some k" by blast
  have key: "downlink_key app0 (''SELECT AppSKey'' @ x) = Some (Inr (k, 4))" for x
    using app0_rows(3) [of "''SKey'' @ x"] k by (simp add: downlink_key_def app_row_def cell_def scan4 eval_nat_numeral)
  have cipher: "downlink_cipher app0 (app_msg\<lparr>msg_devAddr := 0x01020304\<rparr>) 0x01020304 k 4 = Some (enciphered k 0x01020304 False 4 [1, 2, 3])"
    by (rule downlink_cipher_is) (simp_all add: app_msg_def key_cell_length [OF k])
  obtain net a b where net: "parseDevAddr 0x01020304 = Some (net, a, b)" using parse_app_addr by blast
  obtain g where g: "writeDownlinkStatus app0 NONE_DEVEUI 0x01020304 (Some ''SENT'') w = Some (0, g w)" for w
    using app0_status by metis
  have post: "\<exists>t w'. post_downlink app0 (app_msg\<lparr>msg_devAddr := 0x01020304\<rparr>) net j app_start = Some (0, t, w')" for j
    by (simp add: g post_downlink_def Let_def tlistAdd_def copy_msg_def app_msg_def)
  show ?thesis
    using addr key [of "'', AFCntDown FROM activemotes WHERE '' @ where_device (msg_devEui app_msg) 0x01020304"] cipher net post
    by (simp add: send_downlink_def Let_def)
qed

lemma app_form_filled:
  "post_iterator ''payHex'' (hex_of_buf [1, 2, 3]) app_form =
    Some (app_form\<lparr>ai_payload := [1, 2, 3] @ replicate 241 0, ai_payloadLen := 3\<rparr>)"
proof -
  have "post_iterator ''payHex'' (hex_of_buf [1, 2, 3]) app_form = hex_payload (hex_of_buf [1, 2, 3]) app_form"
    by (simp add: post_iterator_def app_form_def hex_of_buf_def hex2_def)
  also have "\<dots> = Some (app_form\<lparr>ai_payload := [1, 2, 3] @ replicate 241 0, ai_payloadLen := 3\<rparr>)"
    using hex_payload_is [of "[1, 2, 3]" app_form] by (simp add: app_form_def)
  finally show ?thesis .
qed

lemma scan_form: "sscanf_dec ''16909060'' = Some (0x01020304 :: u32)" "sscanf_dec ''2'' = Some (2 :: u32)"
  by (simp_all add: sscanf_dec_def scan_value_def is_space_def skip_0x_def scan_unsigned_digits_def digit_val_def)

lemma app0_form_sent: "\<exists>t w'. sendDownlink app0 (app_form\<lparr>ai_payload := [1, 2, 3] @ replicate 241 0, ai_payloadLen := 3\<rparr>) app_start = Some (0, t, w')"
  using app0_sends by (auto simp: sendDownlink_def app_form_def scan_form app_msg_def)

text \<open>The answer to the downlink that waits.\<close>

definition app_answer :: fields where
  "app_answer = lib_generate_json [] ''as:80'' ''000003'' 9 (Some (message_text XmitDataAns)) (Some (result_text Success))"

definition app_waiting :: as_world where
  "app_waiting = app_start\<lparr>tlist := [\<lparr>sent_msg = app_msg\<lparr>msg_payload := Payload [1, 2, 3]\<rparr>, sent_tid = 9\<rparr>]\<rparr>"

lemma app0_id: "same_id (myAS_ID app0) ''as:80'' = Some True"
proof -
  have "fst (ascii_hex_loop ''as:80'') \<noteq> 0" by code_simp
  then show ?thesis by (simp add: same_id_def app0_def)
qed

lemma app0_writes: "\<exists>w'. writeDownlinkStatus app0 NONE_DEVEUI 0x01020304 (Some ''Success'') w = Some (0, w') \<and> tlist w' = tlist w"
  by (simp add: writeDownlinkStatus_def escape_quotes_def c_text_def as_query_def Let_def app0_queries)

lemma app_answered: "\<exists>ans w'. as_ParseJson json0 app0 app_answer app_waiting = Some (ans, w') \<and> msg_payload (sent_msg (tlist w' ! 0)) = Freed"
proof -
  obtain p where p: "lib_parse_json json0 app_answer (myAS_ID app0) = Some p" "pj_result p = Success" "pj_ans p = None" "pj_pmt p = Some XmitDataAns"
      "pj_tid p = Some 9" "pj_received p = Some Success"
    using header_roundtrip [OF json0_laws app0_id, of "''000003''" XmitDataAns "[]" 9 "Some (result_text Success)"]
    received_result_text [of Success]
    by (simp add: app_answer_def c_int_def)
  obtain w1 where w1: "incr_sql_AFCntDown app0 NONE_DEVEUI 0x01020304 app_waiting = (0, w1)" "tlist w1 = tlist app_waiting"
    by (simp add: incr_sql_AFCntDown_def as_query_def Let_def app0_queries)
  obtain w2 where w2: "writeDownlinkStatus app0 NONE_DEVEUI 0x01020304 (Some ''Success'') w1 = Some (0, w2)" "tlist w2 = tlist w1"
    using app0_writes by blast
  have "downlink_answered json0 app0 app_answer 9 (Some Success) app_waiting =
      Some (set_msg 0 (app_msg\<lparr>msg_devEui := NONE_DEVEUI, msg_devAddr := NONE_DEVADDR, msg_payload := Freed\<rparr>) w2)"
    using w1 w2 by (simp add: downlink_answered_def app_waiting_def app_msg_def release_msg_def Let_def)
  moreover have "length (tlist w2) = 1" using w1 w2 by (simp add: app_waiting_def)
  ultimately show ?thesis using p by (simp add: as_ParseJson_def as_dispatch_def set_msg_def)
qed

end
