(* ===== verification/Regions.thy ===== *)
theory Regions
  imports Gateway Backend Bands Metadata Profiles Envelope
begin

text \<open>
  The channel plan of AS923 (network_server/band_arib8ch.c) and the region
  tables the network server reads at start-up (parse_region_config and
  ns_conf_json of network_server/gateway.c). Floats are rationals rounded by
  to_float. A region file is what json-c makes of the octets read.
\<close>

section \<open>AS923\<close>

text \<open>sscanf with one %f conversion: a decimal fraction with an optional exponent.\<close>

definition dec_digits :: "string \<Rightarrow> string" where "dec_digits s = takeWhile (\<lambda>c. digit_val 10 c \<noteq> None) s"

definition signed :: "string \<Rightarrow> int \<times> string" where
  "signed s = (case s of c # cs \<Rightarrow> if c = CHR ''-'' then (- 1, cs) else if c = CHR ''+'' then (1, cs) else (1, s) | [] \<Rightarrow> (1, s))"

definition exponent :: "string \<Rightarrow> int" where
  "exponent s =
    (case s of c # cs \<Rightarrow>
       if c = CHR ''e'' \<or> c = CHR ''E''
       then (let (g, t) = signed cs in case scan_unsigned_digits 10 (dec_digits t) of Some k \<Rightarrow> g * int k | None \<Rightarrow> 0) else 0
     | [] \<Rightarrow> 0)"

definition power10 :: "int \<Rightarrow> rat" where
  "power10 e = (if e \<ge> 0 then 10 ^ nat e else 1 / 10 ^ nat (- e))"

definition sscanf_float :: "string \<Rightarrow> rat option" where
  "sscanf_float s =
    (let (g, s1) = signed (dropWhile is_space s);
         ip = dec_digits s1; s2 = drop (length ip) s1;
         (fp, s3) = (case s2 of c # cs \<Rightarrow> if c = CHR ''.'' then (dec_digits cs, drop (length (dec_digits cs)) cs) else ([], s2) | [] \<Rightarrow> ([], s2))
     in map_option (\<lambda>k. to_float (of_int (g * int k) * power10 (exponent s3 - int (length fp)))) (scan_unsigned_digits 10 (ip @ fp)))"

definition channelsMHz :: "rat list" where
  "channelsMHz = map to_float [9232 / 10, 9234 / 10, 922, 9218 / 10, 9216 / 10, 9214 / 10]"

definition arib_get_ch :: "rat \<Rightarrow> u8 \<Rightarrow> int" where
  "arib_get_ch MHz DataRate =
    (case find (\<lambda>k. \<bar>to_float (MHz - channelsMHz ! k)\<bar> < to_double (3 / 100)) [0..<6] of Some k \<Rightarrow> int k | None \<Rightarrow> - 1)"

text \<open>A channel in units of 100 Hz; the quotient is within the range of the integer.\<close>

definition channel_freq :: "nat \<Rightarrow> u32" where
  "channel_freq k = word_of_int (trunc (to_float (to_float (channelsMHz ! k * 1000000) / 100)))"

definition arib_get_cflist :: buf where
  "arib_get_cflist =
    Write3ByteValue (channel_freq 3) @ Write3ByteValue (channel_freq 4) @ Write3ByteValue (channel_freq 5) @
    Write3ByteValue 0 @ Write3ByteValue 0 @ Write1ByteValue 0"

definition enable_ch :: "u16 \<Rightarrow> s_t \<Rightarrow> s_t" where
  "enable_ch m s = s\<lparr>ChMask := (ChMask s)[0 := ChMask s ! 0 OR m]\<rparr>"

definition disable_ch :: "u16 \<Rightarrow> s_t \<Rightarrow> s_t" where
  "disable_ch m s = s\<lparr>ChMask := (ChMask s)[0 := ChMask s ! 0 AND NOT m]\<rparr>"

text \<open>
  The data rate and the frequency are scanned into variables that keep what
  they had when a column does not scan; what they hold at first is an argument.
  A frequency that does not fit the integer is undefined.
\<close>

definition ping_commands :: "u32 \<Rightarrow> u32 \<Rightarrow> u32 \<Rightarrow> s_t \<Rightarrow> s_t" where
  "ping_commands freq rate beacon s =
    put_cmd (put_cmd s SRV_MAC_PING_SLOT_CHANNEL_REQ (Write3ByteValue freq @ [ucast rate]) True)
      SRV_MAC_BEACON_FREQ_REQ (Write3ByteValue (beacon div 100)) True"

definition rx2_command :: "u32 \<Rightarrow> u32 \<Rightarrow> s_t \<Rightarrow> s_t" where
  "rx2_command freq rate s = put_cmd s SRV_MAC_RX_PARAM_SETUP_REQ (ucast rate # Write3ByteValue freq) True"

definition in_100Hz :: "rat \<Rightarrow> u32 option" where "in_100Hz MHz = to_u32 (to_float (MHz * 10000))"

definition arib_rx2 :: "(string \<Rightarrow> string option) \<Rightarrow> u32 \<Rightarrow> rat \<Rightarrow> s_t \<Rightarrow> s_t option" where
  "arib_rx2 col rate MHz s =
    (case col ''RXFreq2'' of None \<Rightarrow> Some s
     | Some f \<Rightarrow>
         (case col ''RXDataRate2'' of None \<Rightarrow> Some s
          | Some d \<Rightarrow> map_option (\<lambda>freq. rx2_command freq (store (sscanf_dec d) rate) s) (in_100Hz (store (sscanf_float f) MHz))))"

definition arib_init_session :: "u32 \<Rightarrow> rat \<Rightarrow> mysql \<Rightarrow> u64 \<Rightarrow> u32 \<Rightarrow> u32 \<Rightarrow> s_t \<Rightarrow> s_t option" where
  "arib_init_session dr0 MHz0 db devEui devAddr beacon s =
    (let col = (\<lambda>name. deviceProfileReq db devEui devAddr name 32); s1 = enable_ch 0x0038 s in
     case col ''SupportsClassB'' of None \<Rightarrow> Some s1
     | Some b \<Rightarrow>
         if take 1 b = ''1'' then
           (case col ''PingSlotDR'' of None \<Rightarrow> Some s1
            | Some d \<Rightarrow>
                (case col ''PingSlotFreq'' of None \<Rightarrow> Some s1
                 | Some f \<Rightarrow>
                     let rate = store (sscanf_dec d) dr0; MHz = store (sscanf_float f) MHz0
                     in Option.bind (in_100Hz MHz) (\<lambda>freq. arib_rx2 col rate MHz (ping_commands freq rate beacon s1))))
         else arib_rx2 col dr0 MHz0 s1)"

definition DR_3 :: u8 where "DR_3 = 3"
definition DR_5 :: u8 where "DR_5 = 5"

text \<open>The answers of the device, each with one octet of status, which is not read.\<close>

definition arib_new_channel :: "s_t \<Rightarrow> s_t" where
  "arib_new_channel s =
    (let s1 = enable_ch 0x0004 (put_cmd s SRV_MAC_NEW_CHANNEL_REQ (2 # Write3ByteValue (channel_freq 2) @ [push_bit 4 DR_5 OR DR_3]) True)
     in s1\<lparr>flags := (flags s1)\<lparr>force_adr := True\<rparr>\<rparr>)"

definition arib_done :: "s_t \<Rightarrow> s_t" where
  "arib_done s =
    (let s1 = disable_ch 0x0003 s in s1\<lparr>flags := (flags s1)\<lparr>force_adr := True, send_start_mac_cmds := False\<rparr>\<rparr>)"

text \<open>The index has 8 bits, and so has the length of the buffer.\<close>

partial_function (option) arib_loop :: "buf \<Rightarrow> u8 \<Rightarrow> s_t \<Rightarrow> s_t option" where
  "arib_loop buf idx s =
    (if unat idx < length buf then
       (case map_of mote_cmds (buf ! unat idx) of
          Some MOTE_MAC_RX_PARAM_SETUP_ANS \<Rightarrow> arib_loop buf (idx + 2) (arib_new_channel s)
        | Some MOTE_MAC_NEW_CHANNEL_ANS \<Rightarrow> arib_loop buf (idx + 2) (arib_done s)
        | _ \<Rightarrow> arib_loop buf (idx + 1) s)
     else Some s)"

definition arib_parse_start_mac_cmd :: "buf \<Rightarrow> s_t \<Rightarrow> s_t option" where
  "arib_parse_start_mac_cmd buf s = arib_loop buf 0 s"

definition rx1_band_conv_as923 :: "rat \<Rightarrow> u8 \<Rightarrow> u8 \<Rightarrow> DLMetaData_t \<Rightarrow> DLMetaData_t option" where
  "rx1_band_conv_as923 f ULDataRate off out =
    Some (out\<lparr>dl_DLFreq2 := 0, dl_DLFreq1 := f, DataRate1 := ULDataRate - off\<rparr>)"

section \<open>The file of a region\<close>

definition put_bits :: "nat \<Rightarrow> nat \<Rightarrow> int \<Rightarrow> u8 \<Rightarrow> u8" where
  "put_bits k n v old = (old AND NOT (push_bit k (mask n))) OR push_bit k (take_bit n (word_of_int v))"

definition lora_sf :: "int \<Rightarrow> u8" where
  "lora_sf sf = (case map_of [(7, 0x02), (8, 0x04), (9, 0x08), (10, 0x10), (11, 0x20), (12, 0x40)] sf of Some v \<Rightarrow> v | None \<Rightarrow> 0x7E)"

definition lora_bw :: "int \<Rightarrow> u8" where
  "lora_bw bw =
    (case map_of [(7, 0x07), (8, 0x07), (15, 0x06), (16, 0x06), (31, 0x05), (62, 0x04), (63, 0x04), (125, 0x03), (250, 0x02), (500, 0x01)] bw of
       Some v \<Rightarrow> v | None \<Rightarrow> 0)"

definition dr_of_json :: "json_api \<Rightarrow> fields \<Rightarrow> dr_t \<Rightarrow> dr_t" where
  "dr_of_json a j d =
    (let num = (\<lambda>name. map_option (ja_int a) (map_of j name));
         sf = store (num ''sf'') 0;
         fdev = store (num ''fdev_khz'') 0;
         d1 = (if num ''sf'' = None then d else d\<lparr>lgw_sf_bps := lora_sf sf\<rparr>)
     in if fdev = 0 then (case num ''bw'' of None \<Rightarrow> d1 | Some bw \<Rightarrow> d1\<lparr>lgw_bw := lora_bw bw\<rparr>)
        else d1\<lparr>lgw_sf_bps := word_of_int sf, fdev_khz := word_of_int fdev\<rparr>)"

text \<open>An entry behind the last one of the array, of 24 data rates or 6 masks, is undefined.\<close>

fun put_datarates :: "json_api \<Rightarrow> json list \<Rightarrow> nat \<Rightarrow> dr_t list \<Rightarrow> dr_t list option" where
  "put_datarates a [] i ds = Some ds"
| "put_datarates a (j # js) i ds =
     (if i < length ds then put_datarates a js (i + 1) (ds[i := dr_of_json a (members j) (ds ! i)]) else None)"

fun put_chmasks :: "json_api \<Rightarrow> json list \<Rightarrow> nat \<Rightarrow> u16 list \<Rightarrow> u16 list option" where
  "put_chmasks a [] i ms = Some ms"
| "put_chmasks a (j # js) i ms =
     (if i < length ms then Option.bind (sscanf_hex (ja_text a j)) (\<lambda>v. put_chmasks a js (i + 1) (ms[i := ucast (v :: u32)])) else None)"

definition parse_TxParamSetup :: "json_api \<Rightarrow> fields \<Rightarrow> regional_t \<Rightarrow> regional_t" where
  "parse_TxParamSetup a j rp =
    (case map_of j ''TxParamSetup'' of None \<Rightarrow> rp\<lparr>enableTxParamSetup := False\<rparr>
     | Some v \<Rightarrow>
         let bits = (\<lambda>name k n old. case map_of (members v) name of Some b \<Rightarrow> put_bits k n (ja_int a b) old | None \<Rightarrow> old)
         in rp\<lparr>enableTxParamSetup := True,
               TxParamSetup := bits ''MaxEIRP'' 0 4 (bits ''UplinkDwellTime'' 4 1 (bits ''DownlinkDwellTime'' 5 1 (TxParamSetup rp)))\<rparr>)"

text \<open>The number of data rates is cut to one octet; what is not an array has no length.\<close>

definition parse_data_rates :: "json_api \<Rightarrow> fields \<Rightarrow> regional_t \<Rightarrow> regional_t option" where
  "parse_data_rates a j rp =
    (case map_of j ''data_rates'' of None \<Rightarrow> Some rp
     | Some (JArr js) \<Rightarrow>
         let k = unat (word_of_nat (length js) :: u8)
         in map_option (\<lambda>ds. rp\<lparr>num_datarates := k, datarates := ds\<rparr>) (put_datarates a (take k js) 0 (datarates rp))
     | Some _ \<Rightarrow> None)"

definition parse_init_chmasks :: "json_api \<Rightarrow> fields \<Rightarrow> regional_t \<Rightarrow> regional_t option" where
  "parse_init_chmasks a j rp =
    (case map_of j ''init_chmasks'' of None \<Rightarrow> Some rp
     | Some (JArr js) \<Rightarrow> map_option (\<lambda>ms. rp\<lparr>init_ChMask := ms\<rparr>) (put_chmasks a js 0 (init_ChMask rp))
     | Some _ \<Rightarrow> None)"

definition parse_rx2 :: "json_api \<Rightarrow> fields \<Rightarrow> regional_t \<Rightarrow> regional_t" where
  "parse_rx2 a j rp =
    rp\<lparr>Rx2_FrequencyHz := member j ''rx2_freq_hz'' (\<lambda>v. word_of_int (ja_int a v)) (Rx2_FrequencyHz rp),
       Rx2_Datarate := member j ''rx2_dr'' (\<lambda>v. word_of_int (ja_int a v)) (Rx2_Datarate rp)\<rparr>"

definition parse_limits :: "json_api \<Rightarrow> fields \<Rightarrow> regional_t \<Rightarrow> regional_t" where
  "parse_limits a j rp =
    (let octet = (\<lambda>name old. member j name (\<lambda>v. word_of_int (ja_int a v)) old) in
     rp\<lparr>uplink_dr_max := octet ''uplink_dr_max'' (uplink_dr_max rp),
        dl_tx_dbm := member j ''dl_tx_dbm'' (\<lambda>v. int8 (ja_int a v)) (dl_tx_dbm rp),
        ping_freq_hz := member j ''ping_freq_hz'' (\<lambda>v. word_of_int (ja_int a v)) (ping_freq_hz rp),
        ping_dr := octet ''ping_dr'' (ping_dr rp),
        default_txpwr_idx := octet ''default_txpwr_idx'' (default_txpwr_idx rp),
        max_txpwr_idx := octet ''max_txpwr_idx'' (max_txpwr_idx rp),
        Rx1DrOffset := octet ''Rx1DrOffset'' (Rx1DrOffset rp)\<rparr>)"

text \<open>None for the file is a text that json-c does not parse.\<close>

definition parse_region_config :: "json_api \<Rightarrow> fields option \<Rightarrow> regional_t \<Rightarrow> regional_t option" where
  "parse_region_config a file rp =
    (case Option.bind file (\<lambda>f. map_option (\<lambda>v. (f, members v)) (map_of f ''lora_server'')) of
       None \<Rightarrow> Some rp
     | Some (f, srv) \<Rightarrow>
         Option.bind (parse_data_rates a srv (parse_TxParamSetup a srv (parse_rx2 a srv rp))) (\<lambda>rp1.
         Option.bind (parse_init_chmasks a srv (parse_limits a srv rp1)) (\<lambda>rp2.
           Some (case map_of f ''lorawan'' of None \<Rightarrow> rp2
             | Some v \<Rightarrow> rp2\<lparr>beacon_hz := member (members v) ''beacon_hz'' (\<lambda>b. word_of_int (ja_int a b)) (beacon_hz rp2)\<rparr>))))"

section \<open>The configuration of the server\<close>

definition zero_regional :: regional_t where
  "zero_regional = \<lparr>TxParamSetup = 0, enableTxParamSetup = False, Rx2_FrequencyHz = 0, Rx2_Datarate = 0, ping_freq_hz = 0, ping_dr = 0,
     uplink_dr_max = 0, Rx1DrOffset = 0, dl_tx_dbm = 0, datarates = replicate 24 \<lparr>lgw_bw = 0, lgw_sf_bps = 0, fdev_khz = 0\<rparr>,
     num_datarates = 0, beacon_hz = 0, default_txpwr_idx = 0, max_txpwr_idx = 0, init_ChMask = replicate 6 0, get_ch = None,
     get_cflist = None, cb_init_session = None, parse_start_mac_cmd = None, rx1_band_conv = None\<rparr>"

definition zero_region :: region_t where
  "zero_region = \<lparr>conf_file_8ch = None, conf_file_16ch = None, rg_RFRegion = None, regional = zero_regional\<rparr>"

text \<open>The regions of the list, up to a name that is not known.\<close>

fun read_regions :: "json_api \<Rightarrow> json list \<Rightarrow> region_t list \<Rightarrow> int \<times> region_t list" where
  "read_regions a [] rl = (0, rl)"
| "read_regions a (j # js) rl =
     (let fs = members j; name = map_option (ja_text a) (map_of fs ''name'')
      in if name \<notin> insert None (Some ` set region_names) then (- 1, rl @ [zero_region])
         else read_regions a js (rl @ [zero_region\<lparr>rg_RFRegion := name,
                conf_file_8ch := map_option (ja_text a) (map_of fs ''conf_file_8ch''),
                conf_file_16ch := map_option (ja_text a) (map_of fs ''conf_file_16ch'')\<rparr>]))"

text \<open>
  The functions of a region. The name of a region without one is compared
  through a null pointer. The first two arguments are what arib_init_session
  finds in its variables.
\<close>

definition region_callbacks :: "u32 \<Rightarrow> rat \<Rightarrow> string \<Rightarrow> regional_t \<Rightarrow> regional_t" where
  "region_callbacks rate0 MHz0 t rp =
    (if t = ''EU868'' then rp\<lparr>rx1_band_conv := Some rx1_band_conv_eu868\<rparr>
     else if take 5 t = ''US902'' then rp\<lparr>rx1_band_conv := Some rx1_band_conv_us902, get_ch := Some us902_get_ch\<rparr>
     else if t = ''China779'' then rp\<lparr>rx1_band_conv := Some rx1_band_conv_cn779\<rparr>
     else if t = ''EU433'' then rp\<lparr>rx1_band_conv := Some rx1_band_conv_eu433\<rparr>
     else if t = ''Australia915'' then rp\<lparr>rx1_band_conv := Some rx1_band_conv_au915, get_ch := Some au915_get_ch\<rparr>
     else if t = ''AS923'' then
       rp\<lparr>rx1_band_conv := Some rx1_band_conv_as923, parse_start_mac_cmd := Some arib_parse_start_mac_cmd, get_ch := Some arib_get_ch,
          cb_init_session := Some (arib_init_session rate0 MHz0), get_cflist := Some arib_get_cflist\<rparr>
     else rp)"

definition set_callbacks :: "u32 \<Rightarrow> rat \<Rightarrow> string option \<Rightarrow> regional_t \<Rightarrow> regional_t option" where
  "set_callbacks rate0 MHz0 name rp =
    map_option (\<lambda>t. region_callbacks rate0 MHz0 t
      (rp\<lparr>rx1_band_conv := None, parse_start_mac_cmd := None, cb_init_session := None, get_cflist := None\<rparr>)) name"

text \<open>A file that cannot be opened or is empty, or what its text is.\<close>

datatype region_file = Unreadable | Readable "fields option"

record conf_env =
  cf_api :: json_api
  cf_file :: "string \<Rightarrow> region_file"
  cf_dr :: u32
  cf_MHz :: rat

definition load_region :: "conf_env \<Rightarrow> string \<Rightarrow> region_t \<Rightarrow> region_t option" where
  "load_region e path r =
    (case conf_file_8ch r of None \<Rightarrow> Some r
     | Some f \<Rightarrow>
         Option.bind (c_text 256 (path @ ''/'' @ f)) (\<lambda>p.
           case cf_file e p of Unreadable \<Rightarrow> Some r
           | Readable c \<Rightarrow>
               Option.bind (parse_region_config (cf_api e) c (regional r)) (\<lambda>rp.
                 map_option (\<lambda>rp1. r\<lparr>regional := rp1\<rparr>) (set_callbacks (cf_dr e) (cf_MHz e) (rg_RFRegion r) rp))))"

fun load_regions :: "conf_env \<Rightarrow> string \<Rightarrow> region_t list \<Rightarrow> region_t list option" where
  "load_regions e path [] = Some []"
| "load_regions e path (r # rs) =
     Option.bind (load_region e path r) (\<lambda>r1. map_option (Cons r1) (load_regions e path rs))"

text \<open>sscanf with one %i conversion: the prefix gives the base.\<close>

definition sscanf_int :: "string \<Rightarrow> u32 option" where
  "sscanf_int s =
    (let t = snd (signed (dropWhile is_space s));
         base = (if skip_0x t \<noteq> t then 16 else if take 1 t = ''0'' then 8 else 10)
     in map_option (\<lambda>v. word_of_int (max (- (2 ^ 63)) (min (2 ^ 63 - 1) v))) (scan_value base s))"

record ns_conf =
  nc_id :: u32
  nc_idStr :: string
  nc_leap_seconds :: u32
  nc_rxwin :: u8
  nc_path :: string
  nc_regions :: "region_t list"
  nc_envelope :: key_envelope_t
  nc_VendorID :: u32

text \<open>The list of regions is empty when the configuration is read.\<close>

definition conf_regions :: "conf_env \<Rightarrow> fields \<Rightarrow> ns_conf \<Rightarrow> (int \<times> ns_conf) option" where
  "conf_regions e j c =
    (case map_of j ''regions'' of None \<Rightarrow> Some (0, c)
     | Some (JArr js) \<Rightarrow>
         if js \<noteq> [] \<and> nc_regions c \<noteq> [] then None
         else (case read_regions (cf_api e) js (nc_regions c) of (r, rl) \<Rightarrow> Some (r, c\<lparr>nc_regions := rl\<rparr>))
     | Some _ \<Rightarrow> None)"

definition conf_keys :: "conf_env \<Rightarrow> fields \<Rightarrow> ns_conf \<Rightarrow> (int \<times> ns_conf) option" where
  "conf_keys e j c =
    map_option (\<lambda>(r, ke).
      let c1 = c\<lparr>nc_envelope := ke\<rparr>
      in if r < 0 then (- 1, c1)
         else (0, c1\<lparr>nc_VendorID := member j ''VendorID'' (\<lambda>v. store (sscanf_hex (ja_text (cf_api e) v)) (nc_VendorID c)) (nc_VendorID c)\<rparr>))
      (parse_json_KeyEnvelope (ja_text (cf_api e)) ''KeyEnvelopeNSJS'' j (nc_envelope c))"

definition conf_tables :: "conf_env \<Rightarrow> fields \<Rightarrow> ns_conf \<Rightarrow> (int \<times> ns_conf) option" where
  "conf_tables e j c =
    Option.bind (conf_regions e j c) (\<lambda>(r, c1).
      if r < 0 then Some (- 1, c1)
      else Option.bind (load_regions e (nc_path c1) (nc_regions c1)) (\<lambda>rl. conf_keys e j (c1\<lparr>nc_regions := rl\<rparr>)))"

definition ns_conf_json :: "conf_env \<Rightarrow> fields \<Rightarrow> ns_conf \<Rightarrow> (int \<times> ns_conf) option" where
  "ns_conf_json e j c =
    (let a = cf_api e in
     case map_of j ''network_id'' of None \<Rightarrow> Some (- 1, c)
     | Some v \<Rightarrow>
         let nid = store (sscanf_int (ja_text a v)) (nc_id c);
             c1 = c\<lparr>nc_id := nid, nc_idStr := zero_pad 6 (print_hex nid)\<rparr>
         in (case map_of j ''leap_seconds'' of None \<Rightarrow> Some (- 1, c1)
             | Some v \<Rightarrow>
                 let c2 = c1\<lparr>nc_leap_seconds := word_of_int (ja_int a v)\<rparr>
                 in (case map_of j ''dl_rxwin'' of None \<Rightarrow> Some (- 1, c2)
                     | Some v \<Rightarrow>
                         let c3 = c2\<lparr>nc_rxwin := word_of_int (ja_int a v)\<rparr>
                         in (case map_of j ''regionPath'' of None \<Rightarrow> Some (- 1, c3)
                             | Some v \<Rightarrow> Option.bind (c_text 128 (ja_text a v)) (\<lambda>p. conf_tables e j (c3\<lparr>nc_path := p\<rparr>))))))"

end
