(* ===== verification/StateFacts.thy ===== *)
theory StateFacts
  imports UplinkFacts
begin

text \<open>
  The well-formedness of a device's state: the command ring is in its
  invariant, the buffers have the sizes of their declarations, and the index
  of the signal history is within it. Every operation of the serving server on
  one device keeps it.
\<close>

section \<open>Well-formed devices\<close>

definition s_wf :: "s_t \<Rightarrow> bool" where
  "s_wf s \<longleftrightarrow> queue_inv (macq s) \<and> length (snr_history s) = SNR_HISTORY_SIZE \<and> snr_history_idx s < SNR_HISTORY_SIZE \<and>
     length (confDLPHYPayloadBin s) = 256 \<and> length (d_PHYPayloadBin (downlink s)) = 256 \<and>
     length (d_FRMPayloadBin (downlink s)) = 244"

definition mote_wf :: "mote_t \<Rightarrow> bool" where
  "mote_wf m \<longleftrightarrow> length (t_slots m) = NT \<and> length (ULPayloadBin m) = 256 \<and>
     (\<forall>k. bestR m = Some k \<longrightarrow> k < length (requesterList m)) \<and> (\<forall>s. m_s m = Some s \<longrightarrow> s_wf s)"

text \<open>The regional callbacks keep the state of a device well-formed.\<close>

definition regions_wf :: "region_t list \<Rightarrow> bool" where
  "regions_wf rl \<longleftrightarrow> (\<forall>r \<in> set rl. \<forall>s. s_wf s \<longrightarrow>
     (\<forall>f b s'. parse_start_mac_cmd (regional r) = Some f \<longrightarrow> f b s = Some s' \<longrightarrow> s_wf s') \<and>
     (\<forall>f db e d b s'. cb_init_session (regional r) = Some f \<longrightarrow> f db e d b s = Some s' \<longrightarrow> s_wf s'))"

lemma zero_s_wf [simp, intro]: "s_wf zero_s"
  by (simp add: s_wf_def zero_s_def Let_def empty_queue_inv SNR_HISTORY_SIZE_def)

text \<open>What the invariant does not read may change.\<close>

lemma s_wf_flags [simp]: "s_wf (s\<lparr>flags := f\<rparr>) = s_wf s" "s_wf (s\<lparr>ConfFCntDown := a\<rparr>) = s_wf s"
  "s_wf (s\<lparr>AFCntDown := b\<rparr>) = s_wf s" "s_wf (s\<lparr>confDLPHYPayloadLen := c\<rparr>) = s_wf s" "s_wf (s\<lparr>txpwr_idx := d\<rparr>) = s_wf s"
  "s_wf (s\<lparr>ping_slot_info := e\<rparr>) = s_wf s" "s_wf (s\<lparr>ping_period := g\<rparr>) = s_wf s" "s_wf (s\<lparr>ping_offset := h\<rparr>) = s_wf s"
  "s_wf (s\<lparr>classModeInd := i\<rparr>) = s_wf s" "s_wf (s\<lparr>type2_rejoin_count := j\<rparr>) = s_wf s"
  "s_wf (s\<lparr>s_DLFreq1 := k\<rparr>) = s_wf s" "s_wf (s\<lparr>s_DLFreq2 := l\<rparr>) = s_wf s" "s_wf (s\<lparr>ChMask := n\<rparr>) = s_wf s"
  by (simp_all add: s_wf_def)

lemma s_wf_downlink:
  assumes "s_wf s" "length (d_PHYPayloadBin d) = 256" "length (d_FRMPayloadBin d) = 244"
  shows "s_wf (s\<lparr>downlink := d\<rparr>)"
  using assms by (simp add: s_wf_def)

lemma s_wf_macq: "s_wf s \<Longrightarrow> queue_inv q \<Longrightarrow> s_wf (s\<lparr>macq := q\<rparr>)"
  by (simp add: s_wf_def)

lemma s_wf_queue [intro]: "s_wf s \<Longrightarrow> queue_inv (macq s)"
  by (simp add: s_wf_def)

lemma s_wf_bufs [intro]: "s_wf s \<Longrightarrow> length (d_PHYPayloadBin (downlink s)) = 256"
  "s_wf s \<Longrightarrow> length (d_FRMPayloadBin (downlink s)) = 244" "s_wf s \<Longrightarrow> length (confDLPHYPayloadBin s) = 256"
  by (simp_all add: s_wf_def)

lemma put_cmd_wf [intro]: "s_wf s \<Longrightarrow> s_wf (put_cmd s c args needs)"
  by (simp add: put_cmd_def s_wf_macq mq.put_inv s_wf_queue)

lemma clear_cmd_wf [intro]: "s_wf s \<Longrightarrow> s_wf (clear_cmd s c)"
  using mq.clear_law by (simp add: clear_cmd_def s_wf_macq s_wf_queue)

lemma mote_init_wf [intro]: "s_wf s \<Longrightarrow> s_wf (network_controller_mote_init rl s name)"
  by (simp add: network_controller_mote_init_def s_wf_def SNR_HISTORY_SIZE_def split: option.split)

lemma with_s_wf: "mote_wf m \<Longrightarrow> s_wf s \<Longrightarrow> mote_wf (with_s m s)"
  by (simp add: mote_wf_def with_s_def)

section \<open>MAC commands\<close>

lemma mac_cmd_step_wf:
  assumes "s_wf s" "mac_cmd_step e rx s i = Some (s', j, sent)"
  shows "s_wf s'"
  using assms
  by (auto simp: mac_cmd_step_def Let_def ping_slot_info_req_def beacon_timing_def device_time_def
      rekey_ind_def reset_ind_def split: option.splits LoRaMacMoteCmd.splits if_splits prod.splits
      intro!: put_cmd_wf clear_cmd_wf mote_init_wf)

lemma mac_cmd_loop_wf: "mac_cmd_loop e rx len s i sent = Some r \<Longrightarrow> s_wf s \<Longrightarrow> s_wf (fst r)"
proof (induction e rx len s i sent r rule: mac_cmd_loop.raw_induct [rotated, consumes 1])
  case (1 loop e rx len s i sent r)
  show ?case
  proof (cases "i < len")
    case True
    then obtain t where step: "mac_cmd_step e rx s i = Some t" "loop e rx len (fst t) (fst (snd t)) (sent @ snd (snd t)) = Some r"
      using 1(2) by (auto split: option.splits)
    have "s_wf (fst t)" using mac_cmd_step_wf [OF 1(3)] step(1) by (cases t) auto
    then show ?thesis by (rule 1(1) [OF step(2)])
  qed (use 1(2,3) in auto)
qed

lemma parse_mac_command_wf:
  assumes "s_wf s" "regions_wf (e_regions e)" "parse_mac_command e stack tok rx len s = Some (s', sent, r)"
  shows "s_wf s'"
proof -
  obtain en s1 where p: "mac_cmd_loop en rx len s 0 [] = Some (s1, sent)" "\<not> r"
    "s' = s1 \<or> (\<exists>f. start_callback (e_regions e) (e_RFRegion e) = Some f \<and> f (take (unat len) rx) s1 = Some s')"
    by (rule parse_mac_command_parts [OF assms(3)])
  have "s_wf s1" using mac_cmd_loop_wf [OF p(1) assms(1)] by simp
  then show ?thesis using p(3) start_callback_in [of "e_regions e"] assms(2) unfolding regions_wf_def by blast
qed

lemma init_session_wf:
  assumes "regions_wf rl" "s_wf s" "init_session rl db e d s name = Some (k, s')"
  shows "s_wf s'"
proof (cases "find (\<lambda>r. rg_RFRegion r = name) rl")
  case None
  then show ?thesis using assms(2,3) by (simp add: init_session_def)
next
  case (Some r)
  then have "r \<in> set rl" by (metis (no_types, lifting) find_Some_iff nth_mem)
  then have cb: "s_wf t" if "cb_init_session (regional r) = Some f" "f db e d b s = Some t" for f b t
    using assms(1,2) that unfolding regions_wf_def by blast
  show ?thesis using Some assms(2,3) cb by (auto simp: init_session_def intro!: put_cmd_wf split: option.splits)
qed

lemma force_rejoin_wf:
  assumes "s_wf st" "sNS_force_rejoin db f e a (Some st) typ = (k, Some st')"
  shows "s_wf st'"
  using assms mq.wipe_law [OF s_wf_queue [OF assms(1)]]
  by (auto simp: sNS_force_rejoin_def Let_def intro!: put_cmd_wf s_wf_macq split: prod.splits if_splits)

section \<open>The uplink handler\<close>

lemma no_FOpts_encryption:
  assumes "0 < n" "n < 16" "length inp < 16 + n"
  shows "LoRa_Encrypt 0 key inp (word_of_nat n) a up s out = None"
proof -
  let ?n = "word_of_nat n :: u16"
  have n: "unat ?n = n" using assms by (simp add: unat_of_nat)
  then have n0: "?n \<noteq> 0" using assms(1) by (metis unat_0 less_irrefl)
  have ov: "unat (FindBlockOverhang ?n) = n" using assms n by (simp add: unat_overhang)
  have "unat (CountBlocks ?n) = 1" using assms n by (simp add: unat_CountBlocks)
  then have b: "CountBlocks ?n = 1" by (metis unat_1 unsigned_word_eqI)
  show ?thesis
    using assms n0 ov b
    by (simp add: LoRa_Encrypt_def enc_loop.simps [of _ _ 0] enc_loop.simps [of _ _ 1] Let_def)
qed

text \<open>With a 1.1 session only an empty ring gives a frame, the same one as without.\<close>

lemma get_queued_1_0:
  assumes "queue_inv q" "get_queued_mac_cmds q phy a key cnt optneg = Some r"
  shows "get_queued_mac_cmds q phy a key cnt False = Some r"
proof -
  note F = queue_inv_facts [OF assms(1)]
  obtain ss bytes ret where g: "gather (queue_indices q) (slots q) [] 0 = (ss, bytes, ret)" by (metis prod_cases3)
  have dom: "\<forall>i \<in> set (queue_indices q). i < length (slots q)" using F by simp
  have "length bytes \<le> 15"
    using gather_spec [OF F(2) F(3) dom _ g, unfolded Let_def] by auto
  then have "LoRa_Encrypt 0 key (bytes @ replicate (16 - length bytes) 0) (word_of_nat (length bytes)) a False cnt out = None"
    if "bytes \<noteq> []" for out
    using that by (intro no_FOpts_encryption) auto
  then show ?thesis using assms(2)
    by (cases "bytes = []") (auto simp: get_queued_mac_cmds_def g Let_def split: if_splits)
qed

lemma get_queued_wf:
  assumes "queue_inv q" "length phy = 256" "get_queued_mac_cmds q phy a key cnt optneg = Some (q', phy', need)"
  shows "queue_inv q'" "length phy' = 256"
  using get_refines [OF assms(1) get_queued_1_0 [OF assms(1,3)]] assms(2) by (simp_all add: len_simps)

lemma write_at_len: "write_at b off d = Some b' \<Longrightarrow> length b' = length b"
  by (auto simp: write_at_def len_simps split: if_splits)

lemma add_frm_wf:
  assumes "s_wf s" "length phy = 256" "add_frm m s phy = Some (s', phy', af)"
  shows "s_wf s'" "length phy' = 256"
  using assms
  by (auto simp: add_frm_def Let_def intro!: s_wf_downlink split: if_splits option.splits dest!: write_at_len)

lemma finish_frame_wf:
  assumes "s_wf s" "length phy = 256" "finish_frame m s phy af = Some s'"
  shows "s_wf s'"
proof -
  have le: "unat x \<le> 256" for x :: u8 using unat_byte_lt [of x] by (rule less_imp_le)
  show ?thesis
    using assms
    by (auto simp: finish_frame_def Let_def len_simps le s_wf_def split: option.splits mtype_e.splits dest!: write_at_len)
qed

lemma schedule_wf:
  assumes "s_wf s" "sNS_schedule_downlink m s = Some s'"
  shows "s_wf s'"
proof (cases "downlink_wanted m s")
  case True
  then obtain q phy need where get: "get_queued_mac_cmds (macq s) (d_PHYPayloadBin (downlink s)) (m_devAddr m)
      (NwkSEncKeyBin (session m)) (NFCntDown (session m)) (OptNeg (session m)) = Some (q, phy, need)"
    using assms(2) by (auto simp: sNS_schedule_downlink_def split: option.splits)
  note G = get_queued_wf [OF s_wf_queue [OF assms(1)] s_wf_bufs(1) [OF assms(1)] get]
  let ?s = "s\<lparr>macq := q, downlink := (downlink s)\<lparr>d_PHYPayloadBin := phy, FRMSent := False\<rparr>\<rparr>"
  have wf: "s_wf ?s" using assms(1) G by (simp add: s_wf_def)
  have len: "length (phy[0 := x]) = 256" for x using G(2) by simp
  have frame: "s_wf s''" if "finish_frame m ?s (phy[0 := x]) af = Some s''" for x af s''
    using finish_frame_wf [OF wf len that] .
  have frm: "s_wf s''" if "add_frm m ?s phy = Some (s2, phy2, af)" "finish_frame m s2 phy2 af = Some s''" for s2 phy2 af s''
    using finish_frame_wf [OF add_frm_wf [OF wf G(2) that(1)] that(2)] .
  have "finish_frame m ?s (phy[0 := set_mtype MTYPE_UNCONF_DN (phy ! 0)]) False = Some s' \<or>
      (\<exists>s2 phy2 af. add_frm m ?s phy = Some (s2, phy2, af) \<and> finish_frame m s2 phy2 af = Some s')"
    using assms(2) True unfolding sNS_schedule_downlink_def get Let_def
    by (cases "add_frm m ?s phy") (simp_all split: if_split_asm prod.split_asm)
  then show ?thesis using frame frm by blast
qed (use assms in \<open>simp add: sNS_schedule_downlink_def\<close>)

lemma clear_frm_wf [intro]: "s_wf s \<Longrightarrow> s_wf (clear_frm s)"
  by (auto simp: clear_frm_def intro!: s_wf_downlink)

lemma answer_app_wf: "answer_app n m s res httpd = Some (s', j, eff) \<Longrightarrow> s_wf s \<Longrightarrow> s_wf s'"
  using answer_app_state by (metis clear_frm_wf)

lemma session_gate_wf:
  assumes "s_wf s" "session_gate n m optneg s = Some (s', eff, why)"
  shows "s_wf s'"
  using assms force_rejoin_wf [OF assms(1)]
  by (auto simp: session_gate_def Let_def dest!: answer_app_wf split: if_splits prod.splits option.splits)

lemma mic_check_wf:
  assumes "s_wf s"
  shows "mic_check10 m s ul = Some res \<Longrightarrow> case res of MicOk s' \<Rightarrow> s_wf s' | MicBad s' \<Rightarrow> s_wf s' | NoChannel \<Rightarrow> True"
    "mic_check11 n m s ul = Some res \<Longrightarrow> case res of MicOk s' \<Rightarrow> s_wf s' | MicBad s' \<Rightarrow> s_wf s' | NoChannel \<Rightarrow> True"
proof -
  have le: "unat x \<le> 256" for x :: u8 using unat_byte_lt [of x] by (rule less_imp_le)
  have "s_wf (resend_conf s)"
    using assms by (auto simp: resend_conf_def Let_def s_wf_def le len_simps)
  then show "mic_check10 m s ul = Some res \<Longrightarrow> case res of MicOk s' \<Rightarrow> s_wf s' | MicBad s' \<Rightarrow> s_wf s' | NoChannel \<Rightarrow> True"
    "mic_check11 n m s ul = Some res \<Longrightarrow> case res of MicOk s' \<Rightarrow> s_wf s' | MicBad s' \<Rightarrow> s_wf s' | NoChannel \<Rightarrow> True"
    using assms by (auto simp: mic_check10_def mic_check11_def Let_def split: if_splits option.splits bool.splits)
qed

lemma take_ack_wf:
  assumes "take_ack m s = (m', s', eff)" "s_wf s"
  shows "s_wf s'" "mote_wf m' = mote_wf m"
  using assms
  by (auto simp: take_ack_def Let_def mote_wf_def intro!: s_wf_downlink split: if_splits)

lemma network_uplink_wf [intro]: "s_wf s \<Longrightarrow> s_wf (network_controller_uplink s x)"
  by (auto simp: network_controller_uplink_def Let_def s_wf_def SNR_HISTORY_SIZE_def)

lemma adr_wf [intro]: "s_wf s \<Longrightarrow> s_wf (network_controller_adr rl s d name)"
  by (auto simp: network_controller_adr_def Let_def intro!: s_wf_macq mq.put_inv split: option.splits prod.splits)

lemma run_adr_wf: "s_wf s \<Longrightarrow> s_wf (run_adr n m ul s)"
  by (auto simp: run_adr_def Let_def)

lemma start_session_wf: "regions_wf (n_regions n) \<Longrightarrow> s_wf s \<Longrightarrow> start_session n m ul s = Some s' \<Longrightarrow> s_wf s'"
  using init_session_wf [of "n_regions n" "s\<lparr>flags := (flags s)\<lparr>session_start_at_uplink := False\<rparr>\<rparr>"]
  by (auto simp: start_session_def split: if_splits)

lemma uplink_commands_wf:
  assumes "s_wf s" "regions_wf (n_regions n)" "uplink_commands n m optneg ul d s = Some (s', sent, d')"
  shows "s_wf s'"
proof -
  have "regions_wf (e_regions (mac_env_of n m ul))" using assms(2) by (simp add: mac_env_of_def)
  then show ?thesis
    using assms(1,3) parse_mac_command_wf [OF assms(1)]
    by (auto simp: uplink_commands_def Let_def split: if_splits option.splits)
qed

lemma accept_uplink_stages:
  assumes "accept_uplink n m optneg ul d s = Some r"
  obtains m1 s1 m2 s2 eff ul' s3 s4 sent d' fl s7 where
    "m1 = m \<or> m1 = m\<lparr>session := (session m)\<lparr>nullNFCntDown := False\<rparr>\<rparr>"
    "s1 = s \<or> s1 = s\<lparr>flags := (flags s)\<lparr>checkOldSessions := False\<rparr>\<rparr>"
    "take_ack m1 s1 = (m2, s2, eff)" "start_session n m2 ul' s2 = Some s3" "uplink_commands n m2 optneg ul' d s3 = Some (s4, sent, d')"
    "sNS_schedule_downlink m2 ((run_adr n m2 ul' s4)\<lparr>flags := fl\<rparr>) = Some s7" "uo_mote r = with_s m2 s7"
proof -
  define s1 where "s1 = (if \<not> optneg \<and> checkOldSessions (flags s) then s\<lparr>flags := (flags s)\<lparr>checkOldSessions := False\<rparr>\<rparr> else s)"
  define m1 where "m1 = (if nullNFCntDown (session m) then m\<lparr>session := (session m)\<lparr>nullNFCntDown := False\<rparr>\<rparr> else m)"
  obtain m2 s2 eff3 where ack: "take_ack m1 s1 = (m2, s2, eff3)" by (metis prod_cases3)
  define ul' where "ul' = ul\<lparr>ul_Confirmed := mtype_of (ULPayloadBin m ! 0) = MTYPE_CONF_UP,
     ul_FCntDown := if optneg then AFCntDown s2 else NFCntDown (session m2)\<rparr>"
  have r: "(case Option.bind (start_session n m2 ul' s2) (uplink_commands n m2 optneg ul' d) of None \<Rightarrow> None
    | Some (s4, sent, d') \<Rightarrow> map_option (with_s m2) (sNS_schedule_downlink m2 ((run_adr n m2 ul' s4)\<lparr>flags :=
        (flags (run_adr n m2 ul' s4))\<lparr>upConfreSent := ul_FCntUp ul' = FCntUp (session m2) \<and> mtype_of (ULPayloadBin m ! 0) = MTYPE_CONF_UP\<rparr>\<rparr>)))
    = Some (uo_mote r)"
    using assms ack unfolding accept_uplink_def s1_def m1_def ul'_def
    by (simp add: Let_def split: if_splits option.splits prod.splits) auto
  obtain s4 sent d' where cmds0: "Option.bind (start_session n m2 ul' s2) (uplink_commands n m2 optneg ul' d) = Some (s4, sent, d')"
    using r by (auto split: option.splits)
  obtain s3 where s3: "start_session n m2 ul' s2 = Some s3" and cmds: "uplink_commands n m2 optneg ul' d s3 = Some (s4, sent, d')"
    using cmds0 by (auto simp: bind_eq_Some_conv)
  obtain fl s7 where sch: "sNS_schedule_downlink m2 ((run_adr n m2 ul' s4)\<lparr>flags := fl\<rparr>) = Some s7" "uo_mote r = with_s m2 s7"
    using r unfolding cmds0 by auto
  show ?thesis
    by (rule that [OF _ _ ack s3 cmds sch]) (simp_all add: m1_def s1_def)
qed

lemma accept_uplink_wf:
  assumes "s_wf s" "mote_wf m" "regions_wf (n_regions n)" "accept_uplink n m optneg ul d s = Some r"
  shows "mote_wf (uo_mote r)"
  using assms(4)
proof (cases rule: accept_uplink_stages)
  case (1 m1 s1 m2 s2 eff ul' s3 s4 sent d' fl s7)
  have s1: "s_wf s1" and m1: "mote_wf m1" using 1(1,2) assms(1,2) by (auto simp: mote_wf_def)
  note ack = take_ack_wf [OF 1(3) s1]
  have "s_wf s4" using uplink_commands_wf [OF start_session_wf [OF assms(3) ack(1) 1(4)] assms(3) 1(5)] .
  then have "s_wf s7" using schedule_wf [OF _ 1(6)] run_adr_wf by simp
  then show ?thesis using ack(2) m1 1(7) by (simp add: with_s_wf)
qed

lemma state_for_wf [intro]: "mote_wf m \<Longrightarrow> s_wf (state_for n m region)"
  by (auto simp: state_for_def mote_wf_def split: option.splits)

lemma sNS_uplink_wf:
  assumes "mote_wf m" "regions_wf (n_regions n)" "sNS_uplink n m optneg ul d = Some r"
  shows "mote_wf (uo_mote r)"
  using assms(3)
proof (cases rule: sNS_uplink_cases)
  case (gate s eff why)
  then show ?thesis using session_gate_wf [OF state_for_wf [OF assms(1)]] assms(1) by (auto intro: with_s_wf)
next
  case (replay s eff)
  then show ?thesis using session_gate_wf [OF state_for_wf [OF assms(1)]] assms(1) by (auto intro: with_s_wf)
next
  case (mic s eff ul1 res)
  have s: "s_wf s" using session_gate_wf [OF state_for_wf [OF assms(1)] mic(1)] .
  then have s1: "s_wf (s\<lparr>flags := (flags s)\<lparr>newFCntUp := True\<rparr>\<rparr>)" by simp
  have "case res of MicOk s' \<Rightarrow> s_wf s' | MicBad s' \<Rightarrow> s_wf s' | NoChannel \<Rightarrow> True"
    using mic(4) mic_check_wf [OF s1] by (cases optneg) (simp_all only: if_True if_False)
  moreover have "mote_wf (m\<lparr>ULPHYPayloadLen := 0\<rparr>)" using assms(1) by (simp add: mote_wf_def)
  ultimately show ?thesis
    using mic(5) s assms(1) accept_uplink_wf [OF _ assms(1,2)]
    by (cases res) (auto intro!: with_s_wf)
qed

end
