(* ===== verification/RegionFacts.thy ===== *)
theory RegionFacts
  imports Regions StateFacts
begin

text \<open>
  The channel plan of AS923 has the frequencies it names, its callbacks keep
  the state of a device, and so do the regions of every configuration.
\<close>

section \<open>Channels\<close>

text \<open>Rounding to a float, value by value: the scaled value and its unit.\<close>

lemma scale24_numeral:
  "scale24 (numeral k) x u =
    (if x \<ge> 2 ^ 24 then scale24 (pred_numeral k) (x / 2) (u * 2) else if x < 2 ^ 23 then scale24 (pred_numeral k) (x * 2) (u / 2) else (x, u))"
  by (simp add: numeral_eq_Suc)

lemma round_even_near: "\<bar>y - of_int k\<bar> < 1 / 2 \<Longrightarrow> round_even y = k"
proof -
  assume a: "\<bar>y - of_int k\<bar> < 1 / 2"
  show ?thesis
  proof (cases "of_int k \<le> y")
    case True
    then have "\<lfloor>y\<rfloor> = k" using a by (intro floor_unique) linarith+
    then show ?thesis using a True by (simp add: round_even_def Let_def)
  next
    case False
    then have "of_int (k - 1) \<le> y" "y < of_int (k - 1) + 1" using a by (simp_all add: abs_if split: if_splits)
    then have "\<lfloor>y\<rfloor> = k - 1" by (rule floor_unique)
    then show ?thesis using a False by (simp add: round_even_def Let_def)
  qed
qed

lemma to_float_near: "scale24 200 x 1 = (y, u) \<Longrightarrow> 0 < x \<Longrightarrow> \<bar>y - of_int k\<bar> < 1 / 2 \<Longrightarrow> to_float x = of_int k * u"
  using round_even_near by (simp add: to_float_def)

lemma MHz0: "to_float (4616 / 5) = 15125709 / 16384"
  by (rule to_float_near [of _ "75628544 / 5" "1 / 16384" "15125709", THEN trans]) (simp_all add: scale24_numeral)

lemma Hz0: "to_float (236339203125 / 256) = 923200000"
  by (rule to_float_near [of _ "236339203125 / 16384" "64" "14425000", THEN trans]) (simp_all add: scale24_numeral)

lemma centi0: "to_float (9232000) = 9232000"
  by (rule to_float_near [of _ "9232000" "1" "9232000", THEN trans]) (simp_all add: scale24_numeral)

lemma MHz1: "to_float (4617 / 5) = 7564493 / 8192"
  by (rule to_float_near [of _ "75644928 / 5" "1 / 16384" "15128986", THEN trans]) (simp_all add: scale24_numeral)

lemma Hz1: "to_float (118195203125 / 128) = 923400000"
  by (rule to_float_near [of _ "118195203125 / 8192" "64" "14428125", THEN trans]) (simp_all add: scale24_numeral)

lemma centi1: "to_float (9234000) = 9234000"
  by (rule to_float_near [of _ "9234000" "1" "9234000", THEN trans]) (simp_all add: scale24_numeral)

lemma MHz2: "to_float (922) = 922"
  by (rule to_float_near [of _ "15106048" "1 / 16384" "15106048", THEN trans]) (simp_all add: scale24_numeral)

lemma Hz2: "to_float (922000000) = 922000000"
  by (rule to_float_near [of _ "14406250" "64" "14406250", THEN trans]) (simp_all add: scale24_numeral)

lemma centi2: "to_float (9220000) = 9220000"
  by (rule to_float_near [of _ "9220000" "1" "9220000", THEN trans]) (simp_all add: scale24_numeral)

lemma MHz3: "to_float (4609 / 5) = 15102771 / 16384"
  by (rule to_float_near [of _ "75513856 / 5" "1 / 16384" "15102771", THEN trans]) (simp_all add: scale24_numeral)

lemma Hz3: "to_float (235980796875 / 256) = 921800000"
  by (rule to_float_near [of _ "235980796875 / 16384" "64" "14403125", THEN trans]) (simp_all add: scale24_numeral)

lemma centi3: "to_float (9218000) = 9218000"
  by (rule to_float_near [of _ "9218000" "1" "9218000", THEN trans]) (simp_all add: scale24_numeral)

lemma MHz4: "to_float (4608 / 5) = 7549747 / 8192"
  by (rule to_float_near [of _ "75497472 / 5" "1 / 16384" "15099494", THEN trans]) (simp_all add: scale24_numeral)

lemma Hz4: "to_float (117964796875 / 128) = 921600000"
  by (rule to_float_near [of _ "117964796875 / 8192" "64" "14400000", THEN trans]) (simp_all add: scale24_numeral)

lemma centi4: "to_float (9216000) = 9216000"
  by (rule to_float_near [of _ "9216000" "1" "9216000", THEN trans]) (simp_all add: scale24_numeral)

lemma MHz5: "to_float (4607 / 5) = 7548109 / 8192"
  by (rule to_float_near [of _ "75481088 / 5" "1 / 16384" "15096218", THEN trans]) (simp_all add: scale24_numeral)

lemma Hz5: "to_float (117939203125 / 128) = 921400000"
  by (rule to_float_near [of _ "117939203125 / 8192" "64" "14396875", THEN trans]) (simp_all add: scale24_numeral)

lemma centi5: "to_float (9214000) = 9214000"
  by (rule to_float_near [of _ "9214000" "1" "9214000", THEN trans]) (simp_all add: scale24_numeral)

lemma channels_MHz: "channelsMHz = [15125709 / 16384, 7564493 / 8192, 922, 15102771 / 16384, 7549747 / 8192, 7548109 / 8192]"
  by (simp add: channelsMHz_def MHz0 MHz1 MHz2 MHz3 MHz4 MHz5)

lemma channel_values:
  "channel_freq 0 = 9232000" "channel_freq 1 = 9234000" "channel_freq 2 = 9220000"
  "channel_freq 3 = 9218000" "channel_freq 4 = 9216000" "channel_freq 5 = 9214000"
  by (simp_all add: channel_freq_def channels_MHz trunc_def Hz0 centi0 Hz1 centi1 Hz2 centi2 Hz3 centi3 Hz4 centi4 Hz5 centi5)

lemma cflist_octets:
  "arib_get_cflist = Write3ByteValue 9218000 @ Write3ByteValue 9216000 @ Write3ByteValue 9214000 @ [0, 0, 0, 0, 0, 0, 0]"
  by (simp add: channel_values arib_get_cflist_def Write3ByteValue_def [of 0] Write1ByteValue_def)

section \<open>Callbacks\<close>

lemma enable_ch_fields [simp]:
  "macq (enable_ch m s) = macq s" "flags (enable_ch m s) = flags s" "s_wf (enable_ch m s) = s_wf s"
  "macq (disable_ch m s) = macq s" "flags (disable_ch m s) = flags s" "s_wf (disable_ch m s) = s_wf s"
  by (simp_all add: enable_ch_def disable_ch_def)

lemma put_cmd_ChMask [simp]: "ChMask (put_cmd s c args needs) = ChMask s" "flags (put_cmd s c args needs) = flags s"
  by (simp_all add: put_cmd_def)

text \<open>What both invariants of a device need of a predicate for the start-up commands to keep it.\<close>

locale start_up =
  fixes holds :: "s_t \<Rightarrow> bool"
  assumes put: "holds s \<Longrightarrow> holds (put_cmd s c args needs)"
    and set_flags: "holds s \<Longrightarrow> holds (s\<lparr>flags := f\<rparr>)"
    and set_mask: "holds s \<Longrightarrow> holds (s\<lparr>ChMask := m\<rparr>)"
begin

lemma enable: "holds s \<Longrightarrow> holds (enable_ch m s)"
  by (simp add: enable_ch_def set_mask)

lemma new_channel: "holds s \<Longrightarrow> holds (arib_new_channel s)"
  by (simp add: arib_new_channel_def Let_def enable put set_flags)

lemma finished: "holds s \<Longrightarrow> holds (arib_done s)"
  by (simp add: arib_done_def disable_ch_def Let_def set_mask set_flags)

lemma answers: "arib_loop b i s = Some s' \<Longrightarrow> holds s \<Longrightarrow> holds s'"
proof (induction b i s s' rule: arib_loop.raw_induct [rotated, consumes 1])
  case (1 loop b i s s')
  show ?case
  proof (cases "unat i < length b")
    case True
    have "(\<exists>j. loop b j s = Some s') \<or> (\<exists>j. loop b j (arib_new_channel s) = Some s') \<or> (\<exists>j. loop b j (arib_done s) = Some s')"
      using 1(2) True by (auto split: option.splits LoRaMacMoteCmd.splits)
    then show ?thesis using 1(1,3) new_channel finished by blast
  qed (use 1(2,3) in auto)
qed

lemma rx2: "arib_rx2 col d f s = Some s' \<Longrightarrow> holds s \<Longrightarrow> holds s'"
  by (auto simp: arib_rx2_def rx2_command_def put split: option.splits)

lemma init: "arib_init_session d f db e a b s = Some s' \<Longrightarrow> holds s \<Longrightarrow> holds s'"
  by (auto simp: arib_init_session_def Let_def ping_commands_def bind_eq_Some_conv
      intro: rx2 [OF _ put [OF put [OF enable]]] rx2 [OF _ enable] enable split: option.splits if_splits)

end

interpretation start_wf: start_up s_wf
  by unfold_locales (auto intro: put_cmd_wf)

interpretation start_queue: start_up "\<lambda>s. queue_inv (macq s)"
  by unfold_locales auto

section \<open>Regions of a configuration\<close>

definition plain_or_as923 :: "region_t \<Rightarrow> bool" where
  "plain_or_as923 r \<longleftrightarrow>
    (\<forall>f. parse_start_mac_cmd (regional r) = Some f \<longrightarrow> f = arib_parse_start_mac_cmd) \<and>
    (\<forall>f. cb_init_session (regional r) = Some f \<longrightarrow> (\<exists>d m. f = arib_init_session d m))"

lemma plain_regions_wf: "\<forall>r \<in> set rl. plain_or_as923 r \<Longrightarrow> regions_wf rl"
  unfolding regions_wf_def plain_or_as923_def arib_parse_start_mac_cmd_def using start_wf.answers start_wf.init by blast

lemma plain_regions_ok: "\<forall>r \<in> set rl. plain_or_as923 r \<Longrightarrow> regions_ok rl"
  unfolding regions_ok_def callbacks_ok_def plain_or_as923_def arib_parse_start_mac_cmd_def using start_queue.answers start_queue.init by blast

lemma read_regions_plain:
  "read_regions a js rl = (k, rl') \<Longrightarrow> \<forall>r \<in> set rl. plain_or_as923 r \<Longrightarrow> \<forall>r \<in> set rl'. plain_or_as923 r"
proof (induction a js rl arbitrary: k rl' rule: read_regions.induct)
  case (2 a j js rl)
  then show ?case by (auto simp: Let_def plain_or_as923_def zero_region_def zero_regional_def split: if_splits)
qed simp

lemma if_both: "P x \<Longrightarrow> P y \<Longrightarrow> P (if c then x else y)"
  by simp

lemma region_callbacks_plain:
  "plain_or_as923 (r\<lparr>regional := rp\<rparr>) \<Longrightarrow> plain_or_as923 (r\<lparr>regional := region_callbacks d m t rp\<rparr>)"
  unfolding region_callbacks_def
  by (intro if_both [where P = "\<lambda>x. plain_or_as923 (r\<lparr>regional := x\<rparr>)"]) (auto simp: plain_or_as923_def)

lemma set_callbacks_plain:
  "set_callbacks d m name rp0 = Some rp \<Longrightarrow> plain_or_as923 (r\<lparr>regional := rp\<rparr>)"
  by (auto simp: set_callbacks_def intro!: region_callbacks_plain) (simp add: plain_or_as923_def)

lemma load_region_plain:
  assumes "load_region e path r = Some r'" "plain_or_as923 r"
  shows "plain_or_as923 r'"
proof (cases "conf_file_8ch r")
  case None
  then show ?thesis using assms by (simp add: load_region_def)
next
  case (Some f)
  then obtain p where run: "(case cf_file e p of Unreadable \<Rightarrow> Some r
      | Readable c \<Rightarrow> Option.bind (parse_region_config (cf_api e) c (regional r)) (\<lambda>rp.
          map_option (\<lambda>rp1. r\<lparr>regional := rp1\<rparr>) (set_callbacks (cf_dr e) (cf_MHz e) (rg_RFRegion r) rp))) = Some r'"
    using assms(1) unfolding load_region_def by (auto simp: bind_eq_Some_conv simp del: split_paired_Ex)
  show ?thesis
  proof (cases "cf_file e p")
    case Unreadable
    then show ?thesis using run assms(2) by simp
  next
    case (Readable c)
    then obtain rp0 rp where "set_callbacks (cf_dr e) (cf_MHz e) (rg_RFRegion r) rp0 = Some rp" "r' = r\<lparr>regional := rp\<rparr>"
      using run by (auto simp: bind_eq_Some_conv)
    then show ?thesis using set_callbacks_plain by simp
  qed
qed

lemma load_regions_plain:
  "load_regions e path rl = Some rl' \<Longrightarrow> \<forall>r \<in> set rl. plain_or_as923 r \<Longrightarrow> \<forall>r \<in> set rl'. plain_or_as923 r"
  by (induction e path rl arbitrary: rl' rule: load_regions.induct) (auto simp: bind_eq_Some_conv dest: load_region_plain)

lemma conf_keys_regions:
  assumes "conf_keys e j c = Some (k, c')"
  shows "nc_regions c' = nc_regions c"
proof (cases "parse_json_KeyEnvelope (ja_text (cf_api e)) ''KeyEnvelopeNSJS'' j (nc_envelope c)")
  case None
  then show ?thesis using assms by (simp add: conf_keys_def)
next
  case (Some x)
  then show ?thesis using assms
    by (cases x; cases "fst x < 0") (auto simp: conf_keys_def Let_def)
qed

lemma conf_tables_plain:
  assumes "conf_tables e j c = Some (k, c')" "nc_regions c = []"
  shows "\<forall>r \<in> set (nc_regions c'). plain_or_as923 r"
proof -
  obtain r1 c1 where c1: "conf_regions e j c = Some (r1, c1)"
    and rest: "(if r1 < 0 then Some (- 1, c1) else Option.bind (load_regions e (nc_path c1) (nc_regions c1)) (\<lambda>rl. conf_keys e j (c1\<lparr>nc_regions := rl\<rparr>))) = Some (k, c')"
    using assms(1) by (auto simp: conf_tables_def bind_eq_Some_conv)
  have c1_plain: "\<forall>r \<in> set (nc_regions c1). plain_or_as923 r"
  proof (cases "map_of j ''regions''")
    case None
    then show ?thesis using c1 assms(2) by (simp add: conf_regions_def)
  next
    case (Some v)
    then obtain js where "v = JArr js" using c1 by (cases v) (simp_all add: conf_regions_def)
    then obtain rl where "read_regions (cf_api e) js [] = (r1, rl)" "nc_regions c1 = rl"
      using c1 Some assms(2) by (auto simp: conf_regions_def split: prod.splits)
    then show ?thesis using read_regions_plain [of "cf_api e" js "[]"] by simp
  qed
  show ?thesis
  proof (cases "r1 < 0")
    case True
    then show ?thesis using rest c1_plain by simp
  next
    case False
    then obtain rl where "load_regions e (nc_path c1) (nc_regions c1) = Some rl" "conf_keys e j (c1\<lparr>nc_regions := rl\<rparr>) = Some (k, c')"
      using rest by (auto simp: bind_eq_Some_conv)
    then show ?thesis using load_regions_plain c1_plain conf_keys_regions by fastforce
  qed
qed

lemma option_caseE: "(case x of None \<Rightarrow> a | Some v \<Rightarrow> f v) = y \<Longrightarrow> (x = None \<Longrightarrow> a = y \<Longrightarrow> P) \<Longrightarrow> (\<And>v. x = Some v \<Longrightarrow> f v = y \<Longrightarrow> P) \<Longrightarrow> P"
  by (cases x) auto

lemma configured_regions:
  assumes "ns_conf_json e j c = Some (k, c')" "nc_regions c = []"
  shows "\<forall>r \<in> set (nc_regions c'). plain_or_as923 r"
proof -
  have "nc_regions c' = nc_regions c \<or> (\<exists>c3. nc_regions c3 = nc_regions c \<and> conf_tables e j c3 = Some (k, c'))"
    using assms(1) unfolding ns_conf_json_def Let_def
    by (elim option_caseE) (auto simp: bind_eq_Some_conv)
  then show ?thesis using assms(2) conf_tables_plain by auto
qed

section \<open>The start-up of a session\<close>

lemma rx2_ChMask: "arib_rx2 col d f s = Some s' \<Longrightarrow> ChMask s' = ChMask s"
  by (auto simp: arib_rx2_def rx2_command_def split: option.splits)

lemma init_ChMask_set:
  "arib_init_session d f db e a b s = Some s' \<Longrightarrow> ChMask s' = (ChMask s)[0 := ChMask s ! 0 OR 0x38]"
  by (auto simp: arib_init_session_def Let_def ping_commands_def bind_eq_Some_conv enable_ch_def
      dest!: rx2_ChMask split: option.splits if_splits)

lemma low_bits: "take_bit 6 (((m OR 0x38) OR 4) AND NOT 3) = (0x3C :: u16)"
proof -
  have "bit (take_bit 6 (((m OR 0x38) OR 4) AND NOT 3)) n = bit (take_bit 6 (0x3C :: u16)) n" for n
  proof (cases "n < 6")
    case True
    then have "n \<in> set [0..<6]" by simp
    then show ?thesis by (auto simp: upt_rec bit_simps)
  qed (simp only: bit_take_bit_iff simp_thms)
  then have "take_bit 6 (((m OR 0x38) OR 4) AND NOT 3) = take_bit 6 (0x3C :: u16)" by (intro bit_eqI) blast
  then show ?thesis by simp
qed

text \<open>
  The answers of the start-up in a buffer: the octets 0x05 (the second window
  is set) and 0x07 (the channel is there), each followed by a status that is
  skipped; every other octet is passed over by itself.
\<close>

fun answers_in :: "buf \<Rightarrow> u8 list" where
  "answers_in [] = []"
| "answers_in (c # r) = (if c = 0x05 \<or> c = 0x07 then c # answers_in (drop 1 r) else answers_in r)"

definition on_answer :: "u8 \<Rightarrow> s_t \<Rightarrow> s_t" where
  "on_answer c s = (if c = 0x05 then arib_new_channel s else arib_done s)"

lemma answer_codes:
  "map_of mote_cmds c = Some MOTE_MAC_RX_PARAM_SETUP_ANS \<longleftrightarrow> c = 0x05"
  "map_of mote_cmds c = Some MOTE_MAC_NEW_CHANNEL_ANS \<longleftrightarrow> c = 0x07"
  by (auto simp: mote_cmds_def split: if_splits)

text \<open>The search for answers ends, when the index cannot pass the length by, and acts on each in turn.\<close>

lemma arib_loop_answers: "length b \<le> 253 \<Longrightarrow> arib_loop b i s = Some (fold on_answer (answers_in (drop (unat i) b)) s)"
proof (induction "length b - unat i" arbitrary: i s rule: less_induct)
  case less
  show ?case
  proof (cases "unat i < length b")
    case True
    then have i: "unat i < 253" using less.prems by simp
    note steps = index_steps [OF i]
    have d: "length b - unat (i + 1) < length b - unat i" "length b - unat (i + 2) < length b - unat i"
      using True steps by simp_all
    note ih = less.hyps [OF d(1) less.prems] less.hyps [OF d(2) less.prems]
    have rest: "drop (unat i) b = b ! unat i # drop (unat (i + 1)) b" "drop (unat (i + 2)) b = drop 1 (drop (unat (i + 1)) b)"
      using True steps by (simp_all add: Cons_nth_drop_Suc)
    show ?thesis
    proof (cases "b ! unat i = 0x05 \<or> b ! unat i = 0x07")
      case True
      then show ?thesis
        using \<open>unat i < length b\<close> answer_codes [of "b ! unat i"] rest(2)
        unfolding rest(1) by (subst arib_loop.simps) (auto simp: ih on_answer_def)
    next
      case False
      then have "(case map_of mote_cmds (b ! unat i) of Some MOTE_MAC_RX_PARAM_SETUP_ANS \<Rightarrow> x | Some MOTE_MAC_NEW_CHANNEL_ANS \<Rightarrow> y | _ \<Rightarrow> z) = z" for x y z :: "s_t option"
        using answer_codes [of "b ! unat i"] by (auto split: option.split LoRaMacMoteCmd.split)
      then show ?thesis using False \<open>unat i < length b\<close> unfolding rest(1) by (subst arib_loop.simps) (simp add: ih(1))
    qed
  qed (simp add: arib_loop.simps)
qed

lemma arib_answers: "length b \<le> 253 \<Longrightarrow> arib_parse_start_mac_cmd b s = Some (fold on_answer (answers_in b) s)"
  using arib_loop_answers [of b 0 s] by (simp add: arib_parse_start_mac_cmd_def)

lemma plain_callbacks_end:
  assumes "\<forall>r \<in> set rl. plain_or_as923 r" "start_callback rl name = Some f" "length b \<le> 253"
  shows "f b s \<noteq> None"
proof -
  obtain r where "r \<in> set rl" "parse_start_mac_cmd (regional r) = Some f" using start_callback_in [OF assms(2)] by blast
  then have "f = arib_parse_start_mac_cmd" using assms(1) by (auto simp: plain_or_as923_def)
  then show ?thesis using arib_answers [OF assms(3)] by simp
qed

text \<open>Each answer to the second window asks for channel 2 at 922.0 MHz, rates 3 to 5.\<close>

definition channel2_request :: buf where "channel2_request = [0x07, 2] @ Write3ByteValue 9220000 @ [0x53]"

lemma new_channel_queue: "macq (arib_new_channel s) = put_queue_mac_cmds (macq s) channel2_request True"
proof -
  have "push_bit 4 DR_5 OR DR_3 = 0x53" by (simp add: DR_5_def DR_3_def)
  then show ?thesis by (simp add: arib_new_channel_def Let_def put_cmd_def channel2_request_def channel_values)
qed

lemma done_queue: "macq (arib_done s) = macq s"
  by (simp add: arib_done_def Let_def)

lemma fold_queue:
  assumes "\<And>s. macq (arib_new_channel s) = f (macq s)" "set cs \<subseteq> {0x05, 0x07}"
  shows "macq (fold on_answer cs s) = (f ^^ count_list cs 0x05) (macq s)"
  using assms(2) by (induction cs arbitrary: s) (auto simp: on_answer_def assms(1) done_queue funpow_swap1)

lemmas answers_queue = fold_queue [OF new_channel_queue]

lemma answers_in_set: "set (answers_in b) \<subseteq> {0x05, 0x07}"
  by (induction b rule: answers_in.induct) auto

lemma answers_flag: "0x07 \<in> set cs \<or> \<not> send_start_mac_cmds (flags s) \<Longrightarrow> \<not> send_start_mac_cmds (flags (fold on_answer cs s))"
proof (induction cs arbitrary: s)
  case (Cons c cs)
  have "c = 0x05 \<Longrightarrow> send_start_mac_cmds (flags (on_answer c s)) = send_start_mac_cmds (flags s)"
    "c \<noteq> 0x05 \<Longrightarrow> \<not> send_start_mac_cmds (flags (on_answer c s))"
    by (simp_all add: on_answer_def arib_done_def arib_new_channel_def Let_def)
  then show ?case using Cons.IH [of "on_answer c s"] Cons.prems by (cases "c = 0x05") auto
qed simp

text \<open>The mask: an answer only opens channel 2, or only closes 0 and 1.\<close>

definition low_mask :: "s_t \<Rightarrow> u16" where "low_mask s = ChMask s ! 0"

lemma answer_masks:
  assumes "ChMask s \<noteq> []"
  shows "ChMask (on_answer c s) \<noteq> []" "low_mask (on_answer c s) = (if c = 0x05 then low_mask s OR 4 else low_mask s AND NOT 3)"
  using assms by (simp_all add: on_answer_def low_mask_def arib_done_def arib_new_channel_def enable_ch_def disable_ch_def Let_def)

lemma answer_bits:
  assumes "ChMask s \<noteq> []" "k < 6"
  shows "bit (low_mask (on_answer c s)) k \<longleftrightarrow> (if c = 0x05 then k = 2 \<or> bit (low_mask s) k else \<not> k < 2 \<and> bit (low_mask s) k)"
proof -
  have "k \<in> {0, 1, 2, 3, 4, 5}" using assms(2) by auto
  then show ?thesis unfolding answer_masks(2) [OF assms(1)]
    by (elim insertE emptyE) (simp_all add: bit_or_iff bit_and_iff bit_not_iff)
qed

lemma fold_masks:
  assumes "set cs \<subseteq> {0x05, 0x07}" "ChMask s \<noteq> []"
  shows "ChMask (fold on_answer cs s) \<noteq> []"
    "k < 6 \<Longrightarrow> bit (low_mask (fold on_answer cs s)) k \<longleftrightarrow>
      (if k = 2 then 0x05 \<in> set cs \<or> bit (low_mask s) k else if k < 2 then 0x07 \<notin> set cs \<and> bit (low_mask s) k else bit (low_mask s) k)"
proof -
  have "ChMask (fold on_answer cs s) \<noteq> [] \<and> (k < 6 \<longrightarrow> (bit (low_mask (fold on_answer cs s)) k \<longleftrightarrow>
      (if k = 2 then 0x05 \<in> set cs \<or> bit (low_mask s) k else if k < 2 then 0x07 \<notin> set cs \<and> bit (low_mask s) k else bit (low_mask s) k)))"
    using assms
  proof (induction cs arbitrary: s)
    case (Cons c cs)
    have cs: "set cs \<subseteq> {0x05, 0x07}" "c = 0x05 \<or> c = 0x07" using Cons.prems(1) by auto
    from Cons.IH [OF cs(1) answer_masks(1) [OF Cons.prems(2)]] cs(2) answer_bits [OF Cons.prems(2), of k c]
    show ?case by auto
  qed simp
  then show "ChMask (fold on_answer cs s) \<noteq> []"
    "k < 6 \<Longrightarrow> bit (low_mask (fold on_answer cs s)) k \<longleftrightarrow>
      (if k = 2 then 0x05 \<in> set cs \<or> bit (low_mask s) k else if k < 2 then 0x07 \<notin> set cs \<and> bit (low_mask s) k else bit (low_mask s) k)"
    by blast+
qed

text \<open>
  Buffers with answers arrive one after another; between them the rest of the
  server may change the state of the device, but not the mask.
\<close>

inductive buffers_answered :: "buf list \<Rightarrow> s_t \<Rightarrow> s_t \<Rightarrow> bool" where
  no_buffer: "ChMask s' = ChMask s \<Longrightarrow> buffers_answered [] s s'"
| one_buffer: "ChMask s1 = ChMask s \<Longrightarrow> arib_parse_start_mac_cmd b s1 = Some s2 \<Longrightarrow> buffers_answered bs s2 s' \<Longrightarrow>
    buffers_answered (b # bs) s s'"

lemma buffers_masks:
  assumes "buffers_answered bs s s'" "\<forall>b \<in> set bs. length b \<le> 253" "ChMask s \<noteq> []" "k < 6"
  shows "bit (low_mask s') k \<longleftrightarrow>
    (if k = 2 then (\<exists>b \<in> set bs. 0x05 \<in> set (answers_in b)) \<or> bit (low_mask s) k
     else if k < 2 then (\<forall>b \<in> set bs. 0x07 \<notin> set (answers_in b)) \<and> bit (low_mask s) k else bit (low_mask s) k)"
  using assms(1-3)
proof (induction rule: buffers_answered.induct)
  case (one_buffer s1 s b s2 bs s')
  have s2: "s2 = fold on_answer (answers_in b) s1" using one_buffer.hyps(2) one_buffer.prems(1) by (simp add: arib_answers)
  have s1: "ChMask s1 \<noteq> []" "low_mask s1 = low_mask s" using one_buffer.hyps(1) one_buffer.prems(2) by (simp_all add: low_mask_def)
  note f = fold_masks [OF answers_in_set [of b] s1(1), folded s2]
  from one_buffer.IH [OF _ f(1)] one_buffer.prems(1) f(2) [OF assms(4)] s1(2) show ?case by auto
qed (simp add: low_mask_def)

lemma started_mask:
  assumes "arib_init_session d f db e a b s = Some s1" "ChMask s \<noteq> []" "buffers_answered bs s1 s'" "\<forall>b \<in> set bs. length b \<le> 253"
    and "\<exists>b \<in> set bs. 0x05 \<in> set (answers_in b)" "\<exists>b \<in> set bs. 0x07 \<in> set (answers_in b)"
  shows "take_bit 6 (ChMask s' ! 0) = 0x3C"
proof (rule bit_word_eqI)
  fix k
  have s1: "ChMask s1 \<noteq> []" "low_mask s1 = ChMask s ! 0 OR 0x38" using init_ChMask_set [OF assms(1)] assms(2) by (simp_all add: low_mask_def)
  show "bit (take_bit 6 (ChMask s' ! 0)) k \<longleftrightarrow> bit (0x3C :: u16) k"
  proof (cases "k < 6")
    case True
    then have "bit (ChMask s' ! 0) k \<longleftrightarrow> 2 \<le> k"
      using buffers_masks [OF assms(3,4) s1(1) True] assms(5,6) s1(2)
      by (auto simp: low_mask_def bit_or_iff numeral_eq_Suc less_Suc_eq)
    moreover have "k \<in> {0, 1, 2, 3, 4, 5}" using True by auto
    ultimately show ?thesis using True by (elim insertE emptyE) (simp_all add: bit_take_bit_iff)
  next
    case False
    have "take_bit 6 (0x3C :: u16) = 0x3C" by simp
    then show ?thesis using False by (metis bit_take_bit_iff)
  qed
qed

end
