(* ===== verification/RegionSamples.thy ===== *)
theory RegionSamples
  imports RegionFacts Samples
begin

text \<open>A configuration with the region AS923.\<close>

definition conf_env0 :: conf_env where
  "conf_env0 = \<lparr>cf_api = json0, cf_file = (\<lambda>_. Readable (Some [(''lora_server'', JObj [(''rx2_dr'', JInt 2)])])), cf_dr = 0, cf_MHz = 0\<rparr>"

definition conf_start :: ns_conf where
  "conf_start = \<lparr>nc_id = 0, nc_idStr = [], nc_leap_seconds = 0, nc_rxwin = 0, nc_path = [], nc_regions = [],
     nc_envelope = \<lparr>kek_label = None, key_bin = []\<rparr>, nc_VendorID = 0\<rparr>"

definition conf_json0 :: fields where
  "conf_json0 = [(''network_id'', JStr ''19''), (''leap_seconds'', JInt 18), (''dl_rxwin'', JInt 1), (''regionPath'', JStr ''.''),
     (''regions'', JArr [JObj [(''name'', JStr ''AS923''), (''conf_file_8ch'', JStr ''as'')]])]"

lemma json0_text [simp]: "ja_text json0 (JStr s) = s"
  by (simp add: json0_def text0_def)

lemma conf0_region: "Some ''AS923'' \<in> insert None (Some ` set region_names)"
  by (simp add: region_names_def)

lemma conf0_loads:
  "\<exists>rp. load_regions conf_env0 ''.'' [zero_region\<lparr>rg_RFRegion := Some ''AS923'', conf_file_8ch := Some ''as'', conf_file_16ch := None\<rparr>] =
    Some [zero_region\<lparr>rg_RFRegion := Some ''AS923'', conf_file_8ch := Some ''as'', conf_file_16ch := None,
      regional := region_callbacks 0 0 ''AS923'' rp\<rparr>]"
  by (auto simp: load_region_def conf_env0_def c_text_def parse_region_config_def parse_data_rates_def parse_init_chmasks_def
      set_callbacks_def zero_region_def members_def)

lemma conf0_read:
  "\<exists>c'. ns_conf_json conf_env0 conf_json0 conf_start = Some (0, c') \<and> map rg_RFRegion (nc_regions c') = [Some ''AS923'']"
proof -
  obtain rp where rp: "load_regions conf_env0 ''.'' [zero_region\<lparr>rg_RFRegion := Some ''AS923'', conf_file_8ch := Some ''as'', conf_file_16ch := None\<rparr>] =
    Some [zero_region\<lparr>rg_RFRegion := Some ''AS923'', conf_file_8ch := Some ''as'', conf_file_16ch := None,
      regional := region_callbacks 0 0 ''AS923'' rp\<rparr>]"
    using conf0_loads by blast
  have api: "cf_api conf_env0 = json0" by (simp add: conf_env0_def)
  show ?thesis
    using rp conf0_region
    by (simp add: ns_conf_json_def conf_tables_def conf_regions_def conf_keys_def conf_json0_def conf_start_def api c_text_def
        parse_json_KeyEnvelope_def members_def Let_def del: load_regions.simps)
qed

end
