(* ===== verification/WorldFacts.thy ===== *)
theory WorldFacts
  imports StateFacts World "HOL-Library.Sublist"
begin

text \<open>
  An invariant of the network server's state and the rules that show that a
  handler keeps it: the devices are well-formed, no two gateways have the same
  EUI, and neither a gateway nor an effect is ever lost. A handler is taken
  apart along its statements; a value that was read is known to be well-formed.
\<close>

section \<open>The invariant\<close>

definition world_wf :: "ns_world \<Rightarrow> bool" where
  "world_wf w \<longleftrightarrow> distinct (map g_eui (w_gws w)) \<and> (\<forall>m. Some m \<in> set (w_motes w) \<longrightarrow> mote_wf m)"

definition grows :: "ns_world \<Rightarrow> ns_world \<Rightarrow> bool" where
  "grows w w' \<longleftrightarrow> prefix (map g_eui (w_gws w)) (map g_eui (w_gws w')) \<and> prefix (w_eff w) (w_eff w') \<and>
     length (w_motes w) \<le> length (w_motes w')"

definition stays :: "ns_world \<Rightarrow> ns_world \<Rightarrow> bool" where
  "stays w w' \<longleftrightarrow> (world_wf w \<longrightarrow> world_wf w' \<and> grows w w')"

abbreviation safe :: "'a ns \<Rightarrow> bool" where "safe \<equiv> keeps stays"

lemma stays_refl [simp, intro]: "stays w w"
  by (simp add: stays_def grows_def)

lemma stays_trans [intro]: "stays a b \<Longrightarrow> stays b c \<Longrightarrow> stays a c"
  unfolding stays_def grows_def by (meson prefix_order.trans le_trans)

lemma safeI: "(\<And>w x w'. world_wf w \<Longrightarrow> p w = Some (x, w') \<Longrightarrow> world_wf w' \<and> grows w w') \<Longrightarrow> safe p"
  by (simp add: keeps_def stays_def)

lemma safeD: "safe p \<Longrightarrow> p w = Some (x, w') \<Longrightarrow> world_wf w \<Longrightarrow> world_wf w' \<and> grows w w'"
  by (simp add: keeps_def stays_def)

section \<open>Statements\<close>

lemma safe_bnd: "safe p \<Longrightarrow> (\<And>x. safe (f x)) \<Longrightarrow> safe (bnd p f)"
  by (rule keeps_bnd) auto

lemma safe_andthen: "safe p \<Longrightarrow> safe q \<Longrightarrow> safe (andthen p q)"
  by (rule keeps_andthen) auto

lemma safe_return: "safe (return x)"
  by (rule keeps_return) simp

lemma safe_undefined: "safe undefined_behaviour"
  by (rule keeps_undefined)

lemma safe_must: "safe (must v)"
  by (rule keeps_must) simp

lemma safe_bnd_must: "(\<And>x. v = Some x \<Longrightarrow> safe (f x)) \<Longrightarrow> safe (bnd (must v) f)"
  by (cases v) (auto simp: keeps_def bnd_def must_def undefined_behaviour_def return_def)

lemma safe_emit: "safe (emit e)" "safe (emit_all es)"
  by (auto intro!: safeI simp: emit_def emit_all_def world_wf_def grows_def)

lemma safe_if: "(b \<Longrightarrow> safe p) \<Longrightarrow> (\<not> b \<Longrightarrow> safe q) \<Longrightarrow> safe (if b then p else q)"
  by simp

lemma safe_option: "(v = None \<Longrightarrow> safe p) \<Longrightarrow> (\<And>x. v = Some x \<Longrightarrow> safe (q x)) \<Longrightarrow> safe (case v of None \<Rightarrow> p | Some x \<Rightarrow> q x)"
  by (cases v) auto

lemma safe_prod: "(\<And>x y. v = (x, y) \<Longrightarrow> safe (f x y)) \<Longrightarrow> safe (case v of (x, y) \<Rightarrow> f x y)"
  by (cases v) auto

lemma safe_list: "(v = [] \<Longrightarrow> safe p) \<Longrightarrow> (\<And>x xs. v = x # xs \<Longrightarrow> safe (q x xs)) \<Longrightarrow> safe (case v of [] \<Rightarrow> p | x # xs \<Rightarrow> q x xs)"
  by (cases v) auto

lemma safe_sum: "(\<And>x. v = Inl x \<Longrightarrow> safe (p x)) \<Longrightarrow> (\<And>x. v = Inr x \<Longrightarrow> safe (q x)) \<Longrightarrow> safe (case v of Inl x \<Rightarrow> p x | Inr x \<Rightarrow> q x)"
  by (cases v) auto

lemma safe_mtype: "safe a \<Longrightarrow> safe b \<Longrightarrow> safe c \<Longrightarrow> safe d \<Longrightarrow> safe e \<Longrightarrow> safe f \<Longrightarrow> safe g \<Longrightarrow> safe h \<Longrightarrow> safe (case_mtype_e a b c d e f g h t)"
  by (cases t) auto

lemma safe_sqlres: "safe a \<Longrightarrow> safe b \<Longrightarrow> (\<And>rows. v = SqlRows rows \<Longrightarrow> safe (c rows)) \<Longrightarrow> safe (case v of SqlError \<Rightarrow> a | SqlNoResult \<Rightarrow> b | SqlRows rows \<Rightarrow> c rows)"
  by (cases v) auto

lemma safe_each: "(\<And>x. x \<in> set xs \<Longrightarrow> safe (f x)) \<Longrightarrow> safe (each f xs)"
  by (induction xs) (auto intro: safe_return safe_andthen)

section \<open>Devices and gateways\<close>

lemma world_wf_mote: "world_wf w \<Longrightarrow> i < length (w_motes w) \<Longrightarrow> w_motes w ! i = Some m \<Longrightarrow> mote_wf m"
  unfolding world_wf_def by (metis nth_mem)

lemma safe_bnd_read_mote:
  assumes "\<And>m. mote_wf m \<Longrightarrow> safe (f m)"
  shows "safe (bnd (read_mote i) f)"
proof (rule safeI)
  fix w x w' assume w: "world_wf w" and run: "bnd (read_mote i) f w = Some (x, w')"
  then obtain m where "i < length (w_motes w)" "w_motes w ! i = Some m" "f m w = Some (x, w')"
    by (auto simp: bnd_def read_mote_def split: if_splits option.splits)
  then show "world_wf w' \<and> grows w w'" using safeD [OF assms] world_wf_mote w by blast
qed

lemma safe_read_mote: "safe (read_mote i)"
  by (auto simp: keeps_def read_mote_def split: if_splits)

lemma safe_write_mote:
  assumes "mote_wf m"
  shows "safe (write_mote i m)"
proof (rule safeI)
  fix w x w' assume w: "world_wf w" and "write_mote i m w = Some (x, w')"
  then have w': "w' = w\<lparr>w_motes := (w_motes w)[i := Some m]\<rparr>" by (auto simp: write_mote_def split: if_splits)
  have "mote_wf m'" if "Some m' \<in> set ((w_motes w)[i := Some m])" for m'
    using that w assms set_update_subset_insert [of "w_motes w" i "Some m"] by (auto simp: world_wf_def)
  then show "world_wf w' \<and> grows w w'" using w by (simp add: w' world_wf_def grows_def)
qed

lemma safe_modify_mote: "(\<And>m. mote_wf m \<Longrightarrow> mote_wf (f m)) \<Longrightarrow> safe (modify_mote i f)"
  unfolding modify_mote_def by (intro safe_bnd_read_mote safe_write_mote)

lemma mote_wf_s: "mote_wf m \<Longrightarrow> m_s m = Some s \<Longrightarrow> s_wf s"
  by (simp add: mote_wf_def)

lemma safe_bnd_read_s: "(\<And>s. s_wf s \<Longrightarrow> safe (f s)) \<Longrightarrow> safe (bnd (read_s i) f)"
  unfolding read_s_def keeps_def bnd_def read_mote_def must_def stays_def
  by (auto simp: return_def undefined_behaviour_def split: option.splits if_splits)
    (metis mote_wf_s world_wf_mote safeD)+

lemma safe_modify_s: "(\<And>s. s_wf s \<Longrightarrow> s_wf (f s)) \<Longrightarrow> safe (modify_s i f)"
  unfolding modify_s_def by (intro safe_bnd_read_mote safe_bnd_must safe_write_mote) (auto simp: mote_wf_def)

lemma safe_read_gw: "safe (read_gw g)"
  by (auto simp: keeps_def read_gw_def split: if_splits)

text \<open>A gateway may change in all but its EUI.\<close>

lemma safe_gateways:
  assumes "world_wf w" "map g_eui gws = map g_eui (w_gws w)"
  shows "world_wf (w\<lparr>w_gws := gws\<rparr>) \<and> grows w (w\<lparr>w_gws := gws\<rparr>)"
  using assms by (simp add: world_wf_def grows_def)

lemma map_update_same: "g_eui x = g_eui (gws ! g) \<Longrightarrow> map g_eui (gws[g := x]) = map g_eui gws"
  by (cases "g < length gws") (simp_all add: map_update list_update_same_conv list_update_beyond)

lemma modify_gw_wf:
  assumes "world_wf w" "modify_gw g f w = Some (x, w')" "g < length (w_gws w) \<Longrightarrow> g_eui (f (w_gws w ! g)) = g_eui (w_gws w ! g)"
  shows "world_wf w' \<and> grows w w'"
proof -
  have g: "g < length (w_gws w)" and w': "w' = w\<lparr>w_gws := (w_gws w)[g := f (w_gws w ! g)]\<rparr>"
    using assms(2) by (auto simp: modify_gw_def split: if_splits)
  show ?thesis unfolding w' using assms(1) map_update_same [OF assms(3) [OF g]] by (rule safe_gateways)
qed

lemma safe_modify_gw:
  assumes "\<And>gw. g_eui (f gw) = g_eui gw"
  shows "safe (modify_gw g f)"
proof (rule safeI)
  fix w x w' assume "world_wf w" "modify_gw g f w = Some (x, w')"
  then show "world_wf w' \<and> grows w w'" by (rule modify_gw_wf) (rule assms)
qed

text \<open>Operations that were shown to be safe, and the rules for statements; specific rules come first.\<close>

named_theorems safe_ops "handlers that keep the invariant"

lemmas safe_rules = safe_bnd_read_mote safe_bnd_read_s safe_bnd_must safe_write_mote safe_modify_mote safe_modify_s safe_modify_gw
  safe_read_mote safe_read_gw safe_emit safe_return safe_undefined safe_must safe_each safe_if safe_option safe_prod safe_list safe_sum
  safe_mtype safe_sqlres safe_andthen safe_bnd

text \<open>What the invariant does not read may change.\<close>

lemma mote_wf_update [simp]: "mote_wf (m\<lparr>session := a\<rparr>) = mote_wf m" "mote_wf (m\<lparr>m_devEui := b\<rparr>) = mote_wf m"
  "mote_wf (m\<lparr>m_devAddr := c\<rparr>) = mote_wf m" "mote_wf (m\<lparr>progress := d\<rparr>) = mote_wf m" "mote_wf (m\<lparr>m_h := e\<rparr>) = mote_wf m"
  "mote_wf (m\<lparr>m_f := f\<rparr>) = mote_wf m" "mote_wf (m\<lparr>ulmd_local := g\<rparr>) = mote_wf m" "mote_wf (m\<lparr>ULPHYPayloadLen := h\<rparr>) = mote_wf m"
  "mote_wf (m\<lparr>ULFRMPayloadLen := i\<rparr>) = mote_wf m" "mote_wf (m\<lparr>nth_session := j\<rparr>) = mote_wf m" "mote_wf (m\<lparr>is_new := k\<rparr>) = mote_wf m"
  "mote_wf (m\<lparr>rxdrOffset1 := l\<rparr>) = mote_wf m" "mote_wf (m\<lparr>bestULTokenStr := n\<rparr>) = mote_wf m" "mote_wf (m\<lparr>best_sq := p\<rparr>) = mote_wf m"
  "mote_wf (m\<lparr>rx_snr := q\<rparr>) = mote_wf m" "mote_wf (m\<lparr>m_read_host_time := r\<rparr>) = mote_wf m"
  "mote_wf (m\<lparr>writtenDeviceProfileTimestamp := s\<rparr>) = mote_wf m" "mote_wf (m\<lparr>first_uplink_host_time := t\<rparr>) = mote_wf m"
  "mote_wf (m\<lparr>release_uplink_host_time := u\<rparr>) = mote_wf m"
  by (simp_all add: mote_wf_def)

lemma mote_wf_m_s: "mote_wf m \<Longrightarrow> s_wf s \<Longrightarrow> mote_wf (m\<lparr>m_s := Some s\<rparr>)"
  by (simp add: mote_wf_def)

lemma mote_wf_requester [simp]: "mote_wf m \<Longrightarrow> mote_wf (m\<lparr>requesterList := (requesterList m)[k := r]\<rparr>)"
  by (auto simp: mote_wf_def)

section \<open>The shared operations\<close>

lemma next_tid_wf: "mote_wf m \<Longrightarrow> next_tid r c m cb = (c', m', tid) \<Longrightarrow> mote_wf m'"
  by (auto simp: next_tid_def Let_def mote_wf_def)

lemma safe_tid: "safe p \<Longrightarrow> safe (\<lambda>w. p (w\<lparr>w_tid := c\<rparr>))"
  unfolding keeps_def stays_def world_wf_def grows_def by fastforce

lemma safe_new_tid [safe_ops]: "safe (new_tid n i cb)"
proof -
  have "safe (\<lambda>w. case next_tid (stack32 n) (w_tid w) m cb of (c, m', tid) \<Rightarrow> bnd (write_mote i m') (\<lambda>_. return tid) (w\<lparr>w_tid := c\<rparr>))"
    if "mote_wf m" for m
  proof (rule safeI)
    fix w x w'
    assume w: "world_wf w"
      and run: "(case next_tid (stack32 n) (w_tid w) m cb of (c, m', tid) \<Rightarrow> bnd (write_mote i m') (\<lambda>_. return tid) (w\<lparr>w_tid := c\<rparr>)) = Some (x, w')"
    obtain c m' tid where t: "next_tid (stack32 n) (w_tid w) m cb = (c, m', tid)" by (metis prod_cases3)
    have "safe (\<lambda>w. bnd (write_mote i m') (\<lambda>_. return tid) (w\<lparr>w_tid := c\<rparr>))"
      using next_tid_wf [OF that t] by (intro safe_tid safe_rules)
    from safeD [OF this _ w] show "world_wf w' \<and> grows w w'" using run t by simp
  qed
  then show ?thesis unfolding new_tid_def by (rule safe_bnd_read_mote)
qed

lemma safe_run_query [safe_ops]: "safe (run_query n q)" and safe_post [safe_ops]: "safe (post n h j)"
  by (simp_all add: run_query_def post_def safe_rules)

lemma safe_update_roam [safe_ops]: "safe (update_roam n e a st til net mic)"
  unfolding update_roam_def by (intro safe_rules)

lemma safe_answer_app_downlink [safe_ops]: "safe (answer_app_downlink n i res httpd)"
  unfolding answer_app_downlink_def
  by (intro safe_rules) (auto dest: answer_app_wf mote_wf_s intro: with_s_wf)

lemma safe_send_XmitDataAns [safe_ops]: "safe (send_XmitDataAns n toAS ans dest tid res)"
  unfolding send_XmitDataAns_def by (intro safe_rules)

lemma getMote_wf:
  assumes "getMote db ms e a = (ms', i)" "\<forall>m. Some m \<in> set ms \<longrightarrow> mote_wf m"
  shows "(\<forall>m. Some m \<in> set ms' \<longrightarrow> mote_wf m) \<and> length ms \<le> length ms'"
proof -
  have new: "mote_wf (create_mote db e' a)" for e'
    by (simp add: create_mote_def Let_def mote_wf_def zero_mote_def NT_def)
  have upd: "(\<forall>m. Some m \<in> set (ms[k := x]) \<longrightarrow> mote_wf m)" if "\<And>m. x = Some m \<Longrightarrow> mote_wf m" for k x
    using assms(2) that set_update_subset_insert [of ms k x] by auto
  show ?thesis using assms(1)
  proof (cases rule: getMote_cases)
    case (found m)
    then have "mote_wf m" using assms(2) by (metis known_def nth_mem)
    then show ?thesis unfolding found(3) by (intro conjI upd) auto
  next
    case reused
    show ?thesis unfolding reused(4) using new by (intro conjI upd) auto
  next
    case added
    show ?thesis unfolding added(3) using assms(2) new by auto
  qed
qed

lemma safe_motes:
  assumes "world_wf w" "(\<forall>m. Some m \<in> set ms \<longrightarrow> mote_wf m) \<and> length (w_motes w) \<le> length ms"
  shows "world_wf (w\<lparr>w_motes := ms\<rparr>) \<and> grows w (w\<lparr>w_motes := ms\<rparr>)"
  using assms by (simp add: world_wf_def grows_def)

lemma world_wf_motes: "world_wf w \<Longrightarrow> \<forall>m. Some m \<in> set (w_motes w) \<longrightarrow> mote_wf m"
  by (simp add: world_wf_def)

lemma safe_find_mote [safe_ops]: "safe (find_mote n e a)"
  by (rule safeI) (auto simp: find_mote_def intro!: safe_motes getMote_wf world_wf_motes split: prod.splits)

end
