(* ===== verification/SafeGateway.thy ===== *)
theory SafeGateway
  imports WorldFacts Forwarding
begin

text \<open>
  The gateway protocol and the forwarding server's downlinks keep the
  invariant of the network server's state, whatever octets a gateway sends.
\<close>

section \<open>Messages of a gateway\<close>

lemma safe_gateway_write_downlink [safe_ops]: "safe (gateway_write_downlink n g p)"
  unfolding gateway_write_downlink_def Let_def by (intro safe_rules) simp

lemma safe_gateway_id_write_downlink [safe_ops]: "safe (gateway_id_write_downlink n eui p)"
  using safe_gateway_write_downlink by (auto simp: gateway_id_write_downlink_def keeps_def split: option.splits)

lemma safe_fNS_update_gateway [safe_ops]: "safe (fNS_update_gateway n g t)"
  unfolding fNS_update_gateway_def Let_def by (intro safe_ops safe_rules)

lemma gw_rows_eui: "gw_rows rows gw = Some gw' \<Longrightarrow> g_eui gw' = g_eui gw"
  by (induction rows gw rule: gw_rows.induct) (auto simp: gw_row_def Let_def split: option.splits if_splits)

lemma safe_read_write_gw:
  assumes "world_wf w" "modify_gw g (\<lambda>_. gw') w = Some (x, w')" "g_eui gw' = g_eui (w_gws w ! g)"
  shows "world_wf w' \<and> grows w w'"
  using assms(1,2) by (rule modify_gw_wf) (rule assms(3))

lemma safe_fNS_find_gateway [safe_ops]: "safe (fNS_find_gateway n g)"
proof (rule safeI)
  fix w x w' assume w: "world_wf w" and run: "fNS_find_gateway n g w = Some (x, w')"
  show "world_wf w' \<and> grows w w'"
  proof (cases "w' = w")
    case True
    then show ?thesis using w by (simp add: grows_def)
  next
    case False
    then have "\<exists>rows gw'. modify_gw g (\<lambda>_. gw') w = Some ((), w') \<and> gw_rows rows (w_gws w ! g) = Some gw'"
      using run by (auto simp: fNS_find_gateway_def bnd_def andthen_def read_gw_def must_def return_def undefined_behaviour_def
          split: if_splits sqlres.splits option.splits) blast
    then show ?thesis using safe_read_write_gw [OF w] gw_rows_eui by blast
  qed
qed

lemma safe_fNS_add_gateway [safe_ops]: "safe (fNS_add_gateway n g)"
  unfolding fNS_add_gateway_def Let_def by (intro safe_ops safe_rules) simp

lemma safe_send_gateway_config [safe_ops]: "safe (send_gateway_config n g)"
  unfolding send_gateway_config_def by (intro safe_rules) simp

lemma safe_beacon_start: "safe (\<lambda>w. Some ((), if b w then w\<lparr>w_beacon_start := t\<rparr> else w))"
  by (auto intro!: safeI simp: world_wf_def grows_def)

lemma safe_beacon_indication [safe_ops]: "safe (beacon_indication g tstamp secs t)"
proof (rule safeI)
  fix w x w' assume w: "world_wf w" and run: "beacon_indication g tstamp secs t w = Some (x, w')"
  obtain gw' y w1 where m: "modify_gw g (\<lambda>_. gw') w = Some (y, w1)" "g_eui gw' = g_eui (w_gws w ! g)"
    and w': "w' = w1 \<or> w' = w1\<lparr>w_beacon_start := t\<rparr>"
    using run
    by (auto simp: beacon_indication_def bnd_def andthen_def read_gw_def must_def return_def undefined_behaviour_def Let_def
        split: if_splits option.splits prod.splits)
  then show "world_wf w' \<and> grows w w'" using safe_read_write_gw [OF w m] by (auto simp: world_wf_def grows_def)
qed

lemma start_local_wf: "mote_wf m \<Longrightarrow> mote_wf (start_local n gw pk j m)"
  by (simp add: start_local_def save_uplink_start_def Let_def mote_wf_def)

lemma add_copy_wf: "add_copy gw pk rate m = Some m' \<Longrightarrow> length (rx_payload pk) \<le> 256 \<Longrightarrow> mote_wf m \<Longrightarrow> mote_wf m'"
  by (auto simp: add_copy_def Let_def mote_wf_def len_simps split: option.splits if_splits)

lemma GetMoteMtype_wf:
  assumes "GetMoteMtype db ms phy = (ms', i, j)" "\<forall>m. Some m \<in> set ms \<longrightarrow> mote_wf m"
  shows "(\<forall>m. Some m \<in> set ms' \<longrightarrow> mote_wf m) \<and> length ms \<le> length ms'"
proof -
  have "ms' = ms \<or> (\<exists>e a i. getMote db ms e a = (ms', i))"
    using assms(1) by (auto simp: GetMoteMtype_def Let_def split: mtype_e.splits prod.splits if_splits)
  then show ?thesis using getMote_wf assms(2) by (metis order_refl)
qed

lemma safe_fNS_uplink_direct:
  assumes "length (rx_payload pk) \<le> 256"
  shows "safe (fNS_uplink_direct n g pk)"
proof -
  have copy: "safe (\<lambda>w. case GetMoteMtype (n_db n) (w_motes w) b of
        (ms, None, _) \<Rightarrow> Some ((), w\<lparr>w_motes := ms\<rparr>)
      | (ms, Some i, j) \<Rightarrow> bnd (read_mote i) (\<lambda>m. bnd (must (add_copy gw pk rate (start_local n gw pk j m))) (write_mote i)) (w\<lparr>w_motes := ms\<rparr>))"
    for b gw rate
  proof (rule safeI)
    fix w x w' assume w: "world_wf w" and run: "(case GetMoteMtype (n_db n) (w_motes w) b of
        (ms, None, _) \<Rightarrow> Some ((), w\<lparr>w_motes := ms\<rparr>)
      | (ms, Some i, j) \<Rightarrow> bnd (read_mote i) (\<lambda>m. bnd (must (add_copy gw pk rate (start_local n gw pk j m))) (write_mote i)) (w\<lparr>w_motes := ms\<rparr>)) = Some (x, w')"
    obtain ms i j where g: "GetMoteMtype (n_db n) (w_motes w) b = (ms, i, j)" by (metis prod_cases3)
    note ms = safe_motes [OF w GetMoteMtype_wf [OF g world_wf_motes [OF w]]]
    have body: "safe (bnd (read_mote k) (\<lambda>m. bnd (must (add_copy gw pk rate (start_local n gw pk j m))) (write_mote k)))" for k
      using assms by (intro safe_rules) (auto intro: add_copy_wf start_local_wf)
    show "world_wf w' \<and> grows w w'"
    proof (cases i)
      case None
      then show ?thesis using run ms by (simp add: g)
    next
      case (Some k)
      then have "bnd (read_mote k) (\<lambda>m. bnd (must (add_copy gw pk rate (start_local n gw pk j m))) (write_mote k)) (w\<lparr>w_motes := ms\<rparr>) = Some (x, w')"
        using run by (simp add: g)
      then show ?thesis using safeD [OF body] ms stays_trans [of w "w\<lparr>w_motes := ms\<rparr>" w'] w by (auto simp: stays_def)
    qed
  qed
  show ?thesis unfolding fNS_uplink_direct_def Let_def by (intro copy safe_rules)
qed

lemma safe_parse_uplink [safe_ops]: "safe (parse_uplink n g b)"
  unfolding parse_uplink_def Let_def by (intro safe_fNS_uplink_direct safe_rules) simp

lemma safe_gateway_node [safe_ops]: "safe (gateway_node eui sock)"
proof (rule safeI)
  fix w x w' assume w: "world_wf w" and run: "gateway_node eui sock w = Some (x, w')"
  show "world_wf w' \<and> grows w w'"
  proof (cases "index_where (\<lambda>gw. g_eui gw = eui) (w_gws w)")
    case None
    then have "eui \<notin> g_eui ` set (w_gws w)" by (auto simp: index_where_None)
    then show ?thesis using run w None by (auto simp: gateway_node_def world_wf_def grows_def create_gateway_def)
  next
    case (Some g)
    define gws where "gws = (w_gws w)[g := (w_gws w ! g)\<lparr>g_fd := sock\<rparr>]"
    have "map g_eui gws = map g_eui (w_gws w)" unfolding gws_def by (rule map_update_same) simp
    moreover have "\<exists>es. w' = w\<lparr>w_gws := gws, w_eff := w_eff w @ es\<rparr>"
      using run Some by (auto simp: gateway_node_def Let_def gws_def)
    ultimately show ?thesis using w by (auto simp: world_wf_def grows_def)
  qed
qed

lemma safe_close_with [safe_ops]: "safe (close_with sock)"
  unfolding close_with_def by (intro safe_rules)

lemma safe_req_conf [safe_ops]: "safe (req_conf n g sock abuf)"
  unfolding req_conf_def Let_def
  by (intro safe_ops safe_rules) simp

lemma safe_beacon_init [safe_ops]: "safe (beacon_init n g now abuf)"
  unfolding beacon_init_def Let_def by (intro safe_ops safe_rules) simp_all

lemma safe_beacon_sent [safe_ops]: "safe (beacon_sent n g now abuf)"
  unfolding beacon_sent_def by (intro safe_ops safe_rules) simp

lemma safe_parse_gateway [safe_ops]: "safe (parse_gateway n b k sock)"
  unfolding parse_gateway_def Let_def
  by (intro safe_ops safe_rules) simp_all

lemma messages_stays: "messages n b sock k w = Some y \<Longrightarrow> stays w (snd y)"
proof (induction n b sock k w y rule: messages.raw_induct [rotated, consumes 1])
  case (1 messages n b sock k w y)
  show ?case
  proof (cases "k > 0")
    case True
    then obtain r w1 where p: "parse_gateway n b (word_of_int k) sock w = Some (r, w1)"
      and y: "y = (r, w1) \<or> messages n b sock (k - r) w1 = Some y"
      using 1(2) by (auto split: option.splits if_splits)
    have "stays w w1" using safe_parse_gateway p by (auto simp: keeps_def)
    then show ?thesis using y 1(1) [of n b sock "k - r" w1 y] stays_trans by auto
  qed (use 1(2) in auto)
qed

lemma safe_messages [safe_ops]: "safe (messages n b sock k)"
  unfolding keeps_def using messages_stays by fastforce

lemma safe_gateway_gone [safe_ops]: "safe (gateway_gone sock)"
proof -
  have m: "safe (modify_gw g (\<lambda>gw. gw\<lparr>g_fd := - 1, g_updated := False, have_gps_fix := False\<rparr>))" for g
    by (intro safe_rules) simp
  show ?thesis using m by (auto simp: gateway_gone_def keeps_def split: option.splits)
qed

lemma safe_read_from_client [safe_ops]: "safe (read_from_client n sock got)"
  unfolding read_from_client_def by (intro safe_ops safe_rules)

lemma safe_gateway_disconnect [safe_ops]: "safe (gateway_disconnect eui)"
  using safe_emit(1) by (auto simp: gateway_disconnect_def keeps_def split: option.splits)

section \<open>Downlinks and the time after the beacon\<close>

lemma safe_send_packet [safe_ops]: "safe (send_packet n g p)"
  unfolding send_packet_def by (intro safe_ops safe_rules)

lemma safe_class_b_downlink [safe_ops]: "safe (class_b_downlink n md tid client g rp p)"
  unfolding class_b_downlink_def Let_def
  by (intro safe_ops safe_rules) (simp add: defer_ping_def Let_def split: option.split)

lemma safe_rx_window [safe_ops]: "safe (rx_window n g rp rate mhz timing p)"
  unfolding rx_window_def Let_def by (intro safe_ops safe_rules)

lemma safe_rx_windows [safe_ops]: "safe (rx_windows n md tok g rp p)"
  unfolding rx_windows_def Let_def by (intro safe_ops safe_rules)

lemma safe_state: "(\<And>w0. safe (f w0)) \<Longrightarrow> safe (\<lambda>w. f w w)"
  by (simp add: keeps_def)

lemma safe_fNS_downlink [safe_ops]: "safe (fNS_downlink n md tid client b len)"
  unfolding fNS_downlink_def Let_def
  by (intro safe_rules safe_state [where f = "\<lambda>w0. (case token_gateway (w_gws w0) t of None \<Rightarrow> p w0 | Some g \<Rightarrow> q w0 g)" for p q t])
    (intro safe_ops safe_rules)+

lemma safe_fNS_beacon_service [safe_ops]: "safe (fNS_beacon_service n i)"
  unfolding fNS_beacon_service_def Let_def
  by (intro safe_ops safe_rules) (simp_all add: free_client_def)

lemma safe_update_indicated [safe_ops]: "safe (update_indicated n g)"
  unfolding update_indicated_def by (intro safe_ops safe_rules) simp_all

lemma safe_gateway_service [safe_ops]: "safe (gateway_service n)"
proof (rule safeI)
  fix w x w' assume w: "world_wf w" and run: "gateway_service n w = Some (x, w')"
  let ?w = "w\<lparr>w_beacon_start := (w_beacon_start w)\<lparr>tv_sec := 0\<rparr>\<rparr>"
  let ?p = "andthen (each (fNS_beacon_service n) (filter (\<lambda>i. w_motes w ! i \<noteq> None) [0..<length (w_motes w)]))
      (each (update_indicated n) [0..<length (w_gws w)])"
  have p: "safe ?p" by (intro safe_ops safe_rules)
  have "w' = w \<or> ?p ?w = Some (x, w')" using run by (auto simp: gateway_service_def split: if_splits)
  moreover have "stays w ?w" by (simp add: stays_def world_wf_def grows_def)
  ultimately show "world_wf w' \<and> grows w w'"
    using p w stays_trans by (metis keeps_def stays_def stays_refl)
qed

end
