(* ===== verification/Roaming.thy ===== *)
theory Roaming
  imports Profiles Forwarding
begin

text \<open>
  Messages between network servers (network_server/common.c): a request that
  carries a payload, the answer to a request that waits, the session keys of a
  partner, and the end and the start of roaming. A requester is known by its
  position in the list of the device; a freed one leaves an empty node, and
  reading it is undefined.
\<close>

section \<open>Requests and answers\<close>

definition sendXmitDataReq :: "ns_env \<Rightarrow> nat \<Rightarrow> fields \<Rightarrow> string \<Rightarrow> string \<Rightarrow> string \<Rightarrow> buf \<Rightarrow> AnsCallback_t \<Rightarrow> result ns" where
  "sendXmitDataReq n i jo dest host payloadName payload cb =
    (if payload = [] then return XmitFailed
     else bnd (new_tid n i cb) (\<lambda>tid.
       let j = lib_generate_json (add_field payloadName (JStr (hex_of_buf payload)) jo) dest (myNetwork_idStr n) (ucast tid)
                 (Some ''XmitDataReq'') None
       in if \<not> n_easy n then return XmitFailed
          else bnd (post n host j) (\<lambda>r. return (if r = 0 \<and> n_perform n then Success else XmitFailed))))"

definition requester_at :: "mote_t \<Rightarrow> nat \<Rightarrow> requester_t option" where
  "requester_at m k = (if k < length (requesterList m) then requesterList m ! k else None)"

definition read_requester :: "nat \<Rightarrow> nat \<Rightarrow> requester_t ns" where
  "read_requester i k = bnd (read_mote i) (\<lambda>m. must (requester_at m k))"

definition modify_requester :: "nat \<Rightarrow> nat \<Rightarrow> (requester_t \<Rightarrow> requester_t) \<Rightarrow> unit ns" where
  "modify_requester i k f = bnd (read_requester i k) (\<lambda>r.
     modify_mote i (\<lambda>m. m\<lparr>requesterList := (requesterList m)[k := Some (f r)]\<rparr>))"

definition free_requester :: "nat \<Rightarrow> nat \<Rightarrow> unit ns" where
  "free_requester i k = modify_mote i (\<lambda>m. m\<lparr>requesterList := (requesterList m)[k := None]\<rparr>)"

text \<open>The requester whose copy of the uplink was the best: read through its node.\<close>

definition best_requester :: "mote_t \<Rightarrow> requester_t option" where
  "best_requester m = (case bestR m of None \<Rightarrow> None | Some k \<Rightarrow> requester_at m k)"

definition scan_netid :: "ns_env \<Rightarrow> string \<Rightarrow> u32" where
  "scan_netid n t = store (sscanf_hex t) (stack32 n)"

definition answer_type :: "string \<Rightarrow> string option" where
  "answer_type mt = map_of [(''PRStartReq'', ''PRStartAns''), (''HRStartReq'', ''HRStartAns''), (''XmitDataReq'', ''XmitDataAns'')] mt"

text \<open>A type without an answer is appended to an array that is not terminated.\<close>

definition r_post_ans_to_ns :: "ns_env \<Rightarrow> nat \<Rightarrow> nat \<Rightarrow> result \<Rightarrow> fields \<Rightarrow> int ns" where
  "r_post_ans_to_ns n i k res j =
    bnd (read_requester i k) (\<lambda>r.
      if \<not> needsAnswer r then return (- 1)
      else if \<not> n_easy n then return (- 1)
      else bnd (must (case rq_MessageType r of None \<Rightarrow> None | Some mt \<Rightarrow> answer_type mt)) (\<lambda>ans.
        bnd (post n (ns_hostname n (scan_netid n (ClientID r)))
               (lib_generate_json j (ClientID r) (myNetwork_idStr n) (inTid r) (Some ans) (Some (result_text res)))) (\<lambda>ret.
          andthen (if n_perform n then free_requester i k else return ()) (return ret))))"

section \<open>Keys of a partner\<close>

text \<open>The result, None when there is no such key, and the key buffer.\<close>

definition get_nsns_key :: "json_api \<Rightarrow> ns_env \<Rightarrow> fields \<Rightarrow> string \<Rightarrow> string \<Rightarrow> buf \<Rightarrow> (result option \<times> buf) option" where
  "get_nsns_key a n j name netIDstr key =
    (case map_of j name of None \<Rightarrow> Some (None, key)
     | Some v \<Rightarrow>
        let obj = members v in
        (case map_of obj ''AESKey'' of None \<Rightarrow> Some (Some Other, key)
         | Some k \<Rightarrow>
           (case map_of obj ''KEKLabel'' of
              None \<Rightarrow> map_option (\<lambda>b. (Some Success, b)) (hex_pairs 16 (ja_text a k))
            | Some l \<Rightarrow>
                (case fetch n (''SELECT KEK FROM roaming WHERE NetID = '' @ print_unsigned (scan_netid n netIDstr) @
                        '' AND KEKlabel = '' @ quote (ja_text a l)) of
                   Some (row # _) \<Rightarrow>
                     (case cell row 0 of None \<Rightarrow> None
                      | Some kek \<Rightarrow>
                          (case parse_key_envelope (ja_text a) (n_unwrap n) obj
                                  \<lparr>kek_label = Some (ja_text a l), key_bin = take 16 (bytes_of kek)\<rparr> of
                             None \<Rightarrow> None
                           | Some (Inl r) \<Rightarrow> Some (Some r, key)
                           | Some (Inr b) \<Rightarrow> Some (Some Success, b)))
                 | _ \<Rightarrow> Some (Some Other, key)))))"

section \<open>The end of roaming\<close>

definition until_of :: "ns_env \<Rightarrow> u32 \<Rightarrow> u64" where
  "until_of n lifetime = word_of_int (n_now n) + ucast lifetime"

text \<open>The device a request names, the failure when it is unknown, and its row.\<close>

definition stop_target :: "json_api \<Rightarrow> ns_env \<Rightarrow> fields \<Rightarrow> (u64 \<times> u32 \<times> result) option" where
  "stop_target a n j =
    (case map_of j ''DevAddr'' of
       Some v \<Rightarrow> Some (NONE_DEVEUI, store (sscanf_hex (ja_text a v)) NONE_DEVADDR, UnknownDevAddr)
     | None \<Rightarrow>
         (case map_of j ''DevEUI'' of
            Some v \<Rightarrow> Some (store (sscanf_hex (ja_text a v)) NONE_DEVEUI, NONE_DEVADDR, UnknownDevEUI)
          | None \<Rightarrow> None))"

definition stoppable :: "roam_state option \<Rightarrow> message_type \<Rightarrow> bool" where
  "stoppable st pmt \<longleftrightarrow> st = Some roamfPASSIVE \<and> pmt = PRStopReq \<or> st = Some roamsHANDOVER \<and> pmt = HRStopReq"

definition RStop :: "json_api \<Rightarrow> ns_env \<Rightarrow> message_type \<Rightarrow> fields \<Rightarrow> string \<Rightarrow> result ns" where
  "RStop a n pmt j sender =
    (case stop_target a n j of None \<Rightarrow> return MalformedRequest
     | Some (eui, addr, unknown) \<Rightarrow>
        (case sql_motes_query (n_db n) (n_now n) eui addr of (res, sql) \<Rightarrow>
          if res \<noteq> Success then return unknown
          else if stoppable (r_roamState sql) pmt then
            andthen (update_roam n eui addr
                (Some (if map_of j ''Lifetime'' = None then roamNONE else roamDEFERRED))
                (map_option (\<lambda>v. until_of n (word_of_int (ja_int a v))) (map_of j ''Lifetime'')) (Some (scan_netid n sender)) None)
              (return Success)
          else return unknown))"

section \<open>The start of roaming is answered\<close>

definition zero_dlmd :: DLMetaData_t where
  "zero_dlmd = \<lparr>dl_DevEUI = 0, dl_DevAddr = 0, dl_FPort = 0, dl_FCntDown = 0, dl_Confirmed = False, dl_DLFreq1 = 0, dl_DLFreq2 = 0,
     RXDelay1 = 0, DataRate1 = 0, DataRate2 = 0, ClassMode = CHR 0x00, dl_FNSULToken = None, ultList = [], HiPriorityFlag = False,
     PingPeriod = 0\<rparr>"

text \<open>A frame in an answer goes to the gateway when its metadata are for the forwarding server.\<close>

definition send_answered_frame :: "json_api \<Rightarrow> ns_env \<Rightarrow> fields \<Rightarrow> buf option \<Rightarrow> u8 \<Rightarrow> unit ns" where
  "send_answered_frame a n j rfBuf rfLen =
    (case map_of j ''DLMetaData'' of None \<Rightarrow> return ()
     | Some v \<Rightarrow>
         bnd (must (parseDLMetaData a (members v) zero_dlmd)) (\<lambda>(role, md).
           if role = fNS then andthen (fNS_downlink n md 0 None rfBuf rfLen) (return ()) else return ()))"

text \<open>A scan that fails leaves an uninitialised variable.\<close>

definition take_DevEUI :: "json_api \<Rightarrow> nat \<Rightarrow> fields \<Rightarrow> unit ns" where
  "take_DevEUI a i j =
    (case map_of j ''DevEUI'' of None \<Rightarrow> return ()
     | Some v \<Rightarrow> bnd (must (sscanf_hex (ja_text a v))) (\<lambda>eui. modify_mote i (\<lambda>m. m\<lparr>m_devEui := eui\<rparr>)))"

definition take_DevAddr :: "json_api \<Rightarrow> nat \<Rightarrow> fields \<Rightarrow> unit ns" where
  "take_DevAddr a i j =
    (case map_of j ''DevAddr'' of None \<Rightarrow> return ()
     | Some v \<Rightarrow> modify_mote i (\<lambda>m. m\<lparr>m_devAddr := store (sscanf_hex (ja_text a v)) (m_devAddr m)\<rparr>))"

text \<open>The new state; None is a service profile that was not saved.\<close>

definition started_state :: "json_api \<Rightarrow> ns_env \<Rightarrow> bool \<Rightarrow> nat \<Rightarrow> fields \<Rightarrow> result \<Rightarrow> roam_state option ns" where
  "started_state a n handover i j res =
    (if res = Success then
       (case map_of j ''ServiceProfile'' of None \<Rightarrow> return (Some roamNONE)
        | Some v \<Rightarrow>
            bnd (read_mote i) (\<lambda>m. bnd (saveServiceProfile a n m (members v)) (\<lambda>r.
              return (if r < 0 then None else Some (if handover then roamsHANDOVER else roamfPASSIVE)))))
     else return (Some (if res = Deferred then roamDEFERRED else roamNONE)))"

definition xRStartAnsCallback ::
  "json_api \<Rightarrow> ns_env \<Rightarrow> bool \<Rightarrow> nat \<Rightarrow> fields \<Rightarrow> result \<Rightarrow> string \<Rightarrow> buf option \<Rightarrow> u8 \<Rightarrow> bool \<Rightarrow> u32 \<Rightarrow> unit ns" where
  "xRStartAnsCallback a n handover i j res sender rfBuf rfLen fMICup lifetime =
    andthen (take_DevEUI a i j)
      (bnd (read_mote i) (\<lambda>m.
        andthen (if rfLen > 0 \<and> bestR m = None \<and> rfBuf \<noteq> None then send_answered_frame a n j rfBuf rfLen else return ())
          (if lifetime = 0 then return ()
           else bnd (started_state a n handover i j res) (\<lambda>st.
             if st = None then return ()
             else bnd (read_mote i) (\<lambda>m.
               andthen (update_roam n (m_devEui m) (m_devAddr m) st (Some (until_of n lifetime)) (Some (scan_netid n sender)) (Some fMICup))
                 (return ()))))))"

end
