(* ===== verification/HomeServer.thy ===== *)
theory HomeServer
  imports Roaming
begin

text \<open>
  The home network server (network_server/hNS.c): the request to the join
  server, the application payload on its way to the application server and
  back, and a downlink for a device whose serving server is remote.
\<close>

section \<open>The join server\<close>

definition join_eui_at :: "nat \<Rightarrow> buf \<Rightarrow> u64" where
  "join_eui_at off phy = eui_buf_to_uint64 (slice off 8 phy)"

definition stored_JoinEUI :: "ns_env \<Rightarrow> u64 \<Rightarrow> u64" where
  "stored_JoinEUI n devEui =
    (case fetch n (''SELECT JoinEUI FROM motes WHERE DevEUI = '' @ print_unsigned devEui) of
       Some (row # _) \<Rightarrow> (case cell row 0 of Some t \<Rightarrow> store (sscanf_dec t) NONE_DEVEUI | None \<Rightarrow> NONE_DEVEUI)
     | _ \<Rightarrow> NONE_DEVEUI)"

text \<open>The type of the request and the join server; None when there is nothing to send.\<close>

definition join_target :: "ns_env \<Rightarrow> mote_t \<Rightarrow> (string \<times> u64) option" where
  "join_target n m =
    (let phy = ULPayloadBin m in
     case mtype_of (phy ! 0) of
       MTYPE_REJOIN_REQ \<Rightarrow>
         (let eui = stored_JoinEUI n (m_devEui m)
          in if eui = NONE_DEVEUI then None
             else if phy ! 1 = 1 then Some (''RejoinReq'', join_eui_at 2 phy)
             else if phy ! 1 > 2 then None else Some (''RejoinReq'', eui))
     | MTYPE_JOIN_REQ \<Rightarrow> Some (''JoinReq'', join_eui_at 1 phy)
     | _ \<Rightarrow> None)"

definition frame_of :: "mote_t \<Rightarrow> buf" where
  "frame_of m = take (unat (ULPHYPayloadLen m)) (ULPayloadBin m)"

definition zero_h :: h_t where
  "zero_h = \<lparr>sendAppSKey = False, h_reqTid = 0, h_ansDest = None, h_ansJobj = None, h_rxResult = None\<rparr>"

text \<open>
  A column of the device profile scanned into the variable n, which keeps its
  value when the text is no number. The receive parameters are the settings
  octet, the offset and the delay; None is a missing profile.
\<close>

definition profile_number :: "ns_env \<Rightarrow> u64 \<Rightarrow> u32 \<Rightarrow> string \<Rightarrow> u32 \<Rightarrow> u32 option" where
  "profile_number n eui addr column old =
    map_option (\<lambda>t. store (sscanf_dec t) old) (deviceProfileReq (n_db n) eui addr column 513)"

text \<open>The requests stop at the first column that is missing; the offset is taken once it was read.\<close>

definition join_settings :: "ns_env \<Rightarrow> mote_t \<Rightarrow> mote_t \<times> (u8 \<times> u32) option" where
  "join_settings n m =
    (case profile_number n (m_devEui m) NONE_DEVADDR ''RXDataRate2'' (ucast (ULPHYPayloadLen m)) of None \<Rightarrow> (m, None)
     | Some dr2 \<Rightarrow>
        (case profile_number n (m_devEui m) NONE_DEVADDR ''RXDROffset1'' dr2 of None \<Rightarrow> (m, None)
         | Some ofs \<Rightarrow>
            let m1 = m\<lparr>rxdrOffset1 := ucast ofs\<rparr> in
            (case profile_number n (m_devEui m) NONE_DEVADDR ''RXDelay1'' ofs of None \<Rightarrow> (m1, None)
             | Some delay \<Rightarrow> (m1, Some (ucast dr2 OR ucast (push_bit 4 ofs), if delay = 0 then 1 else delay)))))"

definition hNS_toJS :: "ns_env \<Rightarrow> nat \<Rightarrow> string \<Rightarrow> int ns" where
  "hNS_toJS n i cflist =
    bnd (read_mote i) (\<lambda>m0.
      case join_target n m0 of None \<Rightarrow> return (- 1)
      | Some (mt, joinEui) \<Rightarrow>
          bnd (new_tid n i hNS_JoinAnsCallback) (\<lambda>tid.
          andthen (modify_mote i (\<lambda>m. m\<lparr>m_h := Some (case m_h m of Some h \<Rightarrow> h | None \<Rightarrow> zero_h)\<rparr>))
          (bnd (read_mote i) (\<lambda>m.
            case join_settings n m of (m1, settings) \<Rightarrow>
              andthen (write_mote i m1)
                (case settings of None \<Rightarrow> return (- 1)
                 | Some (dls, delay) \<Rightarrow>
                     let j = lib_generate_json [] (print_hex joinEui) (myNetwork_idStr n) (ucast tid) (Some mt) None @
                           [(''MACVersion'', JStr ''1.1''), (''PHYPayload'', JStr (hex_of_buf (frame_of m))),
                            (''DevEUI'', JStr (print_hex (m_devEui m))), (''DevAddr'', JStr (print_hex (m_devAddr m))),
                            (''DLSettings'', JStr (hex2 dls)), (''RxDelay'', JInt (c_int delay))] @
                           (if cflist \<noteq> [] then [(''CFList'', JStr cflist)] else [])
                     in if \<not> n_easy n then return (- 1) else post n (getJsHostName joinEui (joinDomain n)) j)))))"

section \<open>The application server\<close>

text \<open>None is a name without terminator, or a NULL column; Some None the failure.\<close>

definition sqlGetASID :: "ns_env \<Rightarrow> u64 \<Rightarrow> u32 \<Rightarrow> string option option" where
  "sqlGetASID n eui addr =
    (case getMotesWhere (n_db n) eui addr of (res, wh) \<Rightarrow>
      if res \<noteq> Success then Some None
      else case fetch n (''SELECT RoutingProfiles.AS_ID FROM RoutingProfiles INNER JOIN motes ON RoutingProfiles.RoutingProfileID = motes.ID WHERE '' @ wh) of
        Some (row # _) \<Rightarrow> (case cell row 0 of None \<Rightarrow> None | Some t \<Rightarrow> map_option Some (c_text 112 t))
      | _ \<Rightarrow> Some None)"

text \<open>
  The envelope with the application key of the newest session, with the
  address it was made for; None is a NULL address column. The result is not
  changed when there is no row.
\<close>

definition getAppSKeyEnvelope :: "ns_env \<Rightarrow> u64 \<Rightarrow> bool \<Rightarrow> (result \<times> fields option \<times> u32) option" where
  "getAppSKeyEnvelope n eui want_addr =
    (case getMoteID (n_db n) eui NONE_DEVADDR of (mid, res) \<Rightarrow>
      if res \<noteq> Success then Some (res, None, stack32 n)
      else case fetch n (''SELECT AS_KEK_label, HEX(AS_KEK_key), DevAddr FROM sessions WHERE ID = '' @ print_unsigned mid @
             '' AND createdAt IN (SELECT max(createdAt) FROM sessions)'') of
        None \<Rightarrow> Some (Other, None, stack32 n)
      | Some [] \<Rightarrow> Some (res, None, stack32 n)
      | Some (row # _) \<Rightarrow>
          if want_addr \<and> cell row 2 = None then None
          else Some (Success,
            Some ((case cell row 0 of Some l \<Rightarrow> [(''KEKLabel'', JStr l)] | None \<Rightarrow> []) @
                  (case cell row 1 of Some k \<Rightarrow> [(''AESKey'', JStr k)] | None \<Rightarrow> [])),
            if want_addr then store (sscanf_dec (text_cell row 2)) (stack32 n) else stack32 n))"

definition hNS_XmitDataReq_toAS :: "ns_env \<Rightarrow> nat \<Rightarrow> buf \<Rightarrow> ULMetaData_t \<Rightarrow> result ns" where
  "hNS_XmitDataReq_toAS n i frm ul =
    (if frm = [] then return XmitFailed
     else bnd (read_mote i) (\<lambda>m. bnd (must (sqlGetASID n (m_devEui m) (m_devAddr m))) (\<lambda>asid.
       case asid of None \<Rightarrow> return Other
       | Some dest \<Rightarrow> bnd (must (generateULMetaData ul sNS True)) (\<lambda>uj.
          case uj of None \<Rightarrow> return Other
          | Some u \<Rightarrow>
              bnd (must (case m_h m of
                     Some h \<Rightarrow> if sendAppSKey h then map_option (\<lambda>(_, e, _). e) (getAppSKeyEnvelope n (m_devEui m) False) else Some None
                   | None \<Rightarrow> Some None)) (\<lambda>envl.
              let jo = (case envl of Some e \<Rightarrow> [(''AppSKey'', JObj e)] | None \<Rightarrow> []) @ [(''ULMetaData'', JObj u)]
              in bnd (sendXmitDataReq n i jo dest (''http://'' @ dest) ''FRMPayload'' frm hNS_XmitDataAnsCallback_uplink) (\<lambda>r.
                andthen (if r = Success \<and> envl \<noteq> None
                         then modify_mote i (\<lambda>m. m\<lparr>m_h := map_option (\<lambda>h. h\<lparr>sendAppSKey := False\<rparr>) (m_h m)\<rparr>) else return ())
                  (return r)))))))"

section \<open>Answers on their way\<close>

definition on_XmitDataAns_downlink :: "json_api \<Rightarrow> nat \<Rightarrow> fields \<Rightarrow> result \<Rightarrow> unit ns" where
  "on_XmitDataAns_downlink a i j res =
    (let copy = (\<lambda>name. case map_of j name of Some v \<Rightarrow> [(name, JInt (ja_int a v))] | None \<Rightarrow> [])
     in modify_mote i (\<lambda>m. m\<lparr>m_h := map_option (\<lambda>h.
          h\<lparr>h_ansJobj := Some (copy ''FCntDown'' @ copy ''DLFreq1'' @ copy ''DLFreq2''), h_rxResult := Some res\<rparr>) (m_h m)\<rparr>))"

text \<open>The nodes of the requester list that wait for the answer of the application server.\<close>

definition waits_for_as :: "mote_t \<Rightarrow> nat \<Rightarrow> bool" where
  "waits_for_as m k = (case requester_at m k of
     None \<Rightarrow> False | Some r \<Rightarrow> needsAnswer r \<and> rq_MessageType r = Some ''XmitDataReq'' \<and> ans_ans r)"

text \<open>A failed post of an answer whose requester was freed prints its name: undefined.\<close>

definition post_and_report :: "ns_env \<Rightarrow> nat \<Rightarrow> nat \<Rightarrow> result \<Rightarrow> fields \<Rightarrow> unit ns" where
  "post_and_report n i k res j =
    bnd (r_post_ans_to_ns n i k res j) (\<lambda>r. if r < 0 then bnd (read_requester i k) (\<lambda>_. return ()) else return ())"

definition on_XmitDataAns_uplink :: "ns_env \<Rightarrow> nat \<Rightarrow> result \<Rightarrow> unit ns" where
  "on_XmitDataAns_uplink n i res =
    bnd (read_mote i) (\<lambda>m0.
      each (\<lambda>k. bnd (read_mote i) (\<lambda>m. if waits_for_as m k then post_and_report n i k res [] else return ()))
        [0..<length (requesterList m0)])"

definition hNS_XmitDataReq_down :: "ns_env \<Rightarrow> nat \<Rightarrow> u64 \<Rightarrow> string \<Rightarrow> buf \<Rightarrow> DLMetaData_t \<Rightarrow> u32 \<Rightarrow> result option ns" where
  "hNS_XmitDataReq_down n i reqTid requester frm md dest =
    andthen (modify_mote i (\<lambda>m. m\<lparr>m_h := Some ((case m_h m of Some h \<Rightarrow> h | None \<Rightarrow> zero_h)\<lparr>h_reqTid := reqTid, h_ansDest := Some requester\<rparr>)\<rparr>))
      (bnd (must (generateDLMetaData n None 0 md hNS)) (\<lambda>(dlo, _).
        bnd (sendXmitDataReq n i [(''DLMetaData'', JObj dlo)] (zero_pad 6 (print_hex dest)) (ns_hostname n dest) ''FRMPayload'' frm
               hNS_XmitDataAnsCallback_downlink) (\<lambda>r.
          return (if r = Success then None else Some r))))"

definition hNS_service :: "ns_env \<Rightarrow> nat \<Rightarrow> unit ns" where
  "hNS_service n i =
    bnd (read_mote i) (\<lambda>m.
      case m_h m of None \<Rightarrow> return ()
      | Some h \<Rightarrow>
          (case (h_ansJobj h, h_rxResult h) of
             (Some j, Some res) \<Rightarrow>
               andthen (send_XmitDataAns n True j (h_ansDest h) (h_reqTid h) res)
                 (modify_mote i (\<lambda>m. m\<lparr>m_h := map_option (\<lambda>h. h\<lparr>h_ansJobj := None, h_rxResult := None\<rparr>) (m_h m)\<rparr>))
           | _ \<Rightarrow> return ()))"

end
