(* ===== verification/Serving.thy ===== *)
theory Serving
  imports HomeServer
begin

text \<open>
  The serving network server (network_server/sNS.c) around its uplink handler:
  session keys from a join answer, the start of handover, the answers to
  partners that started roaming, the downlink to the own gateway or a partner,
  the application's downlink of classes A to C, and the end of roaming. A
  variable that a failed request or scan leaves unset is a stack value of the
  environment or undefined, as its use demands. Of a key that cannot be
  wrapped nothing is said.
\<close>

section \<open>Session keys from a join answer\<close>

text \<open>The list as text; None when the region is unknown. The last region of the name counts.\<close>

definition cflist_of :: "region_t list \<Rightarrow> string option \<Rightarrow> string option" where
  "cflist_of rl name =
    (case find (\<lambda>r. rg_RFRegion r = name) (rev rl) of None \<Rightarrow> None
     | Some r \<Rightarrow> Some (case get_cflist (regional r) of Some b \<Rightarrow> hex_of_buf b | None \<Rightarrow> []))"

text \<open>A key by its name: whether it was there, and the key buffer after the call.\<close>

definition session_key ::
  "json_api \<Rightarrow> ns_env \<Rightarrow> key_envelope_t \<Rightarrow> bool \<Rightarrow> string \<Rightarrow> fields \<Rightarrow> string \<Rightarrow> buf \<Rightarrow> (bool \<times> buf) option" where
  "session_key a n ke fromJS sender j name old =
    (if fromJS then
       (case getKey (ja_text a) (n_unwrap n) j name ke of None \<Rightarrow> None
        | Some (Some (Inr k)) \<Rightarrow> Some (True, k)
        | Some _ \<Rightarrow> Some (False, old))
     else map_option (\<lambda>(r, b). (r = Some Success, b)) (get_nsns_key a n j name sender old))"

text \<open>The devices whose address belongs to a session that was never used leave the list.\<close>

definition drop_unused :: "ns_env \<Rightarrow> u64 \<Rightarrow> unit ns" where
  "drop_unused n eui w =
    (case deleteNeverUsedSessions (n_db n) (n_mq n) eui (map (map_option m_devAddr) (w_motes w)) of (_, qs, left) \<Rightarrow>
       Some ((), w\<lparr>w_motes := map (\<lambda>(m, l). if l = None then None else m) (zip (w_motes w) left),
                   w_eff := w_eff w @ map Statement qs\<rparr>))"

definition store_session :: "ns_env \<Rightarrow> nat \<Rightarrow> u32 \<Rightarrow> bool \<Rightarrow> int ns" where
  "store_session n i lifetime optneg =
    bnd (read_mote i) (\<lambda>m.
      andthen (drop_unused n (m_devEui m))
        (andthen (modify_s i (\<lambda>s. s\<lparr>flags := (flags s)\<lparr>checkOldSessions := True\<rparr>,
                                     ConfFCntDown := if optneg then 0 else ConfFCntDown s\<rparr>))
          (case add_database_session (n_db n) (n_mq n) (m_devEui m) (Some (until_of n lifetime)) (Some (SNwkSIntKeyBin (session m)))
                  (Some (FNwkSIntKeyBin (session m))) (Some (NwkSEncKeyBin (session m))) None None (Some (m_devAddr m)) optneg of
             (r, qs) \<Rightarrow> andthen (emit_all (map Statement qs)) (return r))))"

text \<open>The join server's name of a device that joined at it; the result of the statement.\<close>

definition store_JoinEUI :: "ns_env \<Rightarrow> nat \<Rightarrow> string \<Rightarrow> int ns" where
  "store_JoinEUI n i sender =
    (if length sender > 8 then
       bnd (read_mote i) (\<lambda>m. bnd (must (sscanf_hex sender)) (\<lambda>joinEui.
         send_statement n (''UPDATE motes SET JoinEUI = '' @ print_unsigned (joinEui :: u64) @ '' WHERE DevEUI = '' @ print_unsigned (m_devEui m))))
     else return 0)"

definition three_keys ::
  "json_api \<Rightarrow> ns_env \<Rightarrow> key_envelope_t \<Rightarrow> bool \<Rightarrow> string \<Rightarrow> fields \<Rightarrow> session_t \<Rightarrow> (int \<times> session_t) option" where
  "three_keys a n ke fromJS sender j se =
    (let key = session_key a n ke fromJS sender j; bad = (\<lambda>ok. if ok then 0 else 1 :: int) in
     case key ''SNwkSIntKey'' (SNwkSIntKeyBin se) of None \<Rightarrow> None
     | Some (ok1, s) \<Rightarrow>
       (case key ''FNwkSIntKey'' (FNwkSIntKeyBin se) of None \<Rightarrow> None
        | Some (ok2, f) \<Rightarrow>
          (case key ''NwkSEncKey'' (NwkSEncKeyBin se) of None \<Rightarrow> None
           | Some (ok3, e) \<Rightarrow>
              Some (bad ok1 + bad ok2 + bad ok3,
                se\<lparr>SNwkSIntKeyBin := s, FNwkSIntKeyBin := f, NwkSEncKeyBin := e, OptNeg := True\<rparr>))))"

text \<open>One key makes a 1.0 session, three a 1.1 session. Only a join that stores nothing drops the pending payload.\<close>

definition take_JoinAns :: "json_api \<Rightarrow> ns_env \<Rightarrow> key_envelope_t \<Rightarrow> nat \<Rightarrow> u32 \<Rightarrow> fields \<Rightarrow> string \<Rightarrow> int ns" where
  "take_JoinAns a n ke i lifetime j sender =
    (if lifetime = 0 then return (- 1)
     else andthen (take_DevAddr a i j) (bnd (store_JoinEUI n i sender) (\<lambda>ret.
       let fromJS = (length sender > 8); give_up = (\<lambda>r. andthen (modify_s i clear_frm) (return r)) in
       bnd (read_mote i) (\<lambda>m. bnd (must (session_key a n ke fromJS sender j ''NwkSKey'' (FNwkSIntKeyBin (session m)))) (\<lambda>(ok, k).
         let se = (session m)\<lparr>FNwkSIntKeyBin := k\<rparr> in
         if ok then
           andthen (write_mote i (m\<lparr>session := se\<lparr>SNwkSIntKeyBin := k, NwkSEncKeyBin := k, OptNeg := False\<rparr>\<rparr>))
             (if ret = 0 then store_session n i lifetime False else give_up ret)
         else
           bnd (must (three_keys a n ke fromJS sender j se)) (\<lambda>(bad, se').
             andthen (write_mote i (m\<lparr>session := se'\<rparr>))
               (if ret - bad = 0 then store_session n i lifetime True else give_up (ret - bad))))))))"

section \<open>The start of handover\<close>

definition ensure_s :: "ns_env \<Rightarrow> nat \<Rightarrow> (mote_t \<Rightarrow> string option) \<Rightarrow> unit ns" where
  "ensure_s n i region = modify_mote i (\<lambda>m. m\<lparr>m_s := Some (state_for n m (region m))\<rparr>)"

text \<open>A column of the profile: a request that fails leaves the text, a scan that fails the number.\<close>

definition profile_step :: "ns_env \<Rightarrow> mote_t \<Rightarrow> string \<Rightarrow> string \<times> u32 \<Rightarrow> string \<times> u32" where
  "profile_step n m column st =
    (let t = (case deviceProfileReq (n_db n) (m_devEui m) (m_devAddr m) column 512 of Some t \<Rightarrow> t | None \<Rightarrow> fst st)
     in (t, store (sscanf_dec t) (snd st)))"

definition start_request_fields :: "ns_env \<Rightarrow> mote_t \<Rightarrow> string \<Rightarrow> fields \<Rightarrow> fields" where
  "start_request_fields n m stamp uj =
    (let phy = (if frame_of m = [] then stamp else hex_of_buf (frame_of m));
         has_addr = (m_devAddr m \<noteq> NONE_DEVADDR);
         (t1, dr2) = profile_step n m ''RXDataRate2'' (if has_addr then print_hex (m_devAddr m) else phy, ucast (ULPHYPayloadLen m));
         (t2, ofs) = profile_step n m ''RXDROffset1'' (t1, dr2);
         dls = hex2 (ucast dr2 OR ucast (push_bit 4 ofs));
         (t3, delay) = profile_step n m ''RXDelay1'' (dls, ofs);
         cfl = (case cflist_of (n_regions n) (ul_RFRegion (ulmd_local m)) of Some c \<Rightarrow> c | None \<Rightarrow> stack_text n)
     in [(''DeviceProfileTimestamp'', JStr stamp), (''PHYPayload'', JStr phy), (''MACVersion'', JStr ''1.1''), (''ULMetaData'', JObj uj)] @
        (if has_addr then [(''DevAddr'', JStr (print_hex (m_devAddr m)))] else []) @
        [(''DLSettings'', JStr dls), (''RxDelay'', JInt (c_int (if delay = 0 then 1 else delay)))] @
        (if cfl \<noteq> [] then [(''CFList'', JStr cfl)] else []))"

definition CURLE_FAILED_INIT :: int where "CURLE_FAILED_INIT = 2"

definition sNS_sendHRStartReq :: "ns_env \<Rightarrow> nat \<Rightarrow> u32 \<Rightarrow> int ns" where
  "sNS_sendHRStartReq n i homeNetID =
    (if homeNetID = myNetwork_id32 n then return (- 1)
     else bnd (new_tid n i sNS_HRStartAnsCallback) (\<lambda>tid.
       andthen (ensure_s n i (\<lambda>m. ul_RFRegion (ulmd_local m)))
         (bnd (read_mote i) (\<lambda>m.
           bnd (if writtenDeviceProfileTimestamp m \<noteq> [] then return (Some (writtenDeviceProfileTimestamp m))
                else bnd (must (getDeviceProfileTimestamp n m)) (\<lambda>r. return (map_option fst r))) (\<lambda>stamp.
           case stamp of None \<Rightarrow> return (- 1)
           | Some t \<Rightarrow>
             bnd (must (generateULMetaData (ulmd_local m) fNS True)) (\<lambda>uj.
               case uj of None \<Rightarrow> return (- 1)
               | Some u \<Rightarrow>
                 if \<not> n_easy n then return CURLE_FAILED_INIT
                 else post n (ns_hostname n homeNetID)
                   (lib_generate_json (start_request_fields n m t u) (print_hex homeNetID) (myNetwork_idStr n) (ucast tid)
                      (Some ''HRStartReq'') None)))))))"

section \<open>Answers to partners that started roaming\<close>

text \<open>The key under which keys for a partner are wrapped.\<close>

definition partner_envelope :: "ns_env \<Rightarrow> u32 \<Rightarrow> key_envelope_t" where
  "partner_envelope n netid =
    (case fetch n (''SELECT KEKlabel, KEK FROM roaming WHERE NetID = '' @ print_unsigned netid @ '' '') of
       Some (row # _) \<Rightarrow>
         (case (cell row 0, cell row 1) of
            (Some l, Some k) \<Rightarrow> \<lparr>kek_label = Some l, key_bin = take 16 (bytes_of k)\<rparr>
          | _ \<Rightarrow> \<lparr>kek_label = None, key_bin = []\<rparr>)
     | _ \<Rightarrow> \<lparr>kek_label = None, key_bin = []\<rparr>)"

text \<open>The new state and which keys go along: the one for forwarding, or all for serving.\<close>

definition wants_mic :: "ns_env \<Rightarrow> u32 \<Rightarrow> bool option" where
  "wants_mic n netid = map_option (\<lambda>v. v = 1) (isNetID (n_db n) netid ''fMICup'')"

definition start_kind :: "ns_env \<Rightarrow> mote_t \<Rightarrow> string option \<Rightarrow> u32 \<Rightarrow> (roam_state option \<times> bool \<times> bool) option" where
  "start_kind n m mt netid =
    (if mt = Some ''PRStartReq'' then map_option (\<lambda>mic. (Some roamsPASSIVE, mic, False)) (wants_mic n netid)
     else if mt = Some ''HRStartReq'' then Some (Some roamhHANDOVER, False, True)
     else if mt = Some ''XmitDataReq'' then
       (case r_roamState (snd (sql_motes_query (n_db n) (n_now n) (m_devEui m) (m_devAddr m))) of
          Some roamhHANDOVER \<Rightarrow> Some (None, False, True)
        | Some roamsPASSIVE \<Rightarrow> map_option (\<lambda>mic. (None, mic, False)) (wants_mic n netid)
        | _ \<Rightarrow> Some (None, False, False))
     else Some (None, False, False))"

definition start_keys :: "ns_env \<Rightarrow> session_t \<Rightarrow> key_envelope_t \<Rightarrow> bool \<Rightarrow> bool \<Rightarrow> fields option" where
  "start_keys n se ke passive handover =
    (let wrapped = (\<lambda>name key. map_option (\<lambda>e. (name, JObj e)) (create_KeyEnvelope (n_wrap n) key ke));
         cnt = Some (''FCntUp'', JInt 0)
     in those (if passive then
          (if OptNeg se then [cnt, wrapped ''FNwkSIntKey'' (FNwkSIntKeyBin se)] else [wrapped ''NwkSKey'' (FNwkSIntKeyBin se)])
        else if handover then
          (if OptNeg se then [wrapped ''FNwkSIntKey'' (FNwkSIntKeyBin se), wrapped ''SNwkSIntKey'' (SNwkSIntKeyBin se),
             wrapped ''NwkSEncKey'' (NwkSEncKeyBin se), cnt]
           else [wrapped ''NwkSKey'' (FNwkSIntKeyBin se)])
        else []))"

text \<open>Without a service profile nothing else is added. None is undefined.\<close>

definition generateXRStartAnsSuccess ::
  "ns_env \<Rightarrow> mote_t \<Rightarrow> buf \<Rightarrow> fields \<Rightarrow> u32 \<Rightarrow> requester_t \<Rightarrow> fields \<Rightarrow> u32 \<Rightarrow> (roam_state option \<times> fields) option" where
  "generateXRStartAnsSuccess n m frame jdl netid r ans lifetime =
    (let tail = [(''DLMetaData'', JObj jdl)] @ (if frame \<noteq> [] then [(''PHYPayload'', JStr (hex_of_buf frame))] else []) @
           [(''DevAddr'', JStr (print_hex (m_devAddr m)))];
         add_all = foldl (\<lambda>j (k, v). add_field k v j)
     in if lifetime = 0 then Some (None, add_all ans tail)
        else case jsonGetServiceProfile n (m_devEui m) NONE_DEVADDR of None \<Rightarrow> None
        | Some None \<Rightarrow> Some (None, ans)
        | Some (Some sp) \<Rightarrow>
            (case start_kind n m (rq_MessageType r) netid of None \<Rightarrow> None
             | Some (st, passive, handover) \<Rightarrow>
                 map_option (\<lambda>keys. (st, add_all ans ([(''ServiceProfile'', JObj sp)] @ keys @
                     (if m_devEui m \<noteq> NONE_DEVEUI then [(''DevEUI'', JStr (print_hex (m_devEui m)))] else []) @
                     [(''Lifetime'', JInt (c_int lifetime))] @ tail)))
                   (start_keys n (session m) (partner_envelope n netid) passive handover)))"

definition roam_until :: "ns_env \<Rightarrow> int \<Rightarrow> u64 option" where
  "roam_until n lifetime = (if lifetime > 0 then Some (word_of_int (n_now n + lifetime)) else None)"

text \<open>
  A lifetime below zero makes the result Other, and so does an answer without
  a new state: for the rest of the list too.
\<close>

definition join_answer_body ::
  "ns_env \<Rightarrow> mote_t \<Rightarrow> fields \<Rightarrow> result \<Rightarrow> buf \<Rightarrow> requester_t \<Rightarrow> (result \<times> roam_state option \<times> fields \<times> u64 option) option" where
  "join_answer_body n m jdl res frame r =
    (if res \<noteq> Success then Some (res, None, [], None)
     else let life = getLifetime (n_db n) (m_devEui m) NONE_DEVADDR in
       if life < 0 then Some (Other, None, [], None)
       else map_option (\<lambda>(st, j). (if st = None then Other else Success, st, j, roam_until n life))
              (generateXRStartAnsSuccess n m frame jdl (scan_netid n (ClientID r)) r [] (word_of_int life)))"

definition join_answer_sent :: "ns_env \<Rightarrow> nat \<Rightarrow> nat \<Rightarrow> u32 \<Rightarrow> roam_state option \<Rightarrow> u64 option \<Rightarrow> unit ns" where
  "join_answer_sent n i k netid st til =
    andthen
      (if st = None then return ()
       else bnd (must (wants_mic n netid)) (\<lambda>mic. bnd (read_mote i) (\<lambda>m.
         andthen (update_roam n (m_devEui m) (m_devAddr m) st til (Some netid) (Some mic)) (return ()))))
      (modify_requester i k (\<lambda>r. r\<lparr>needsAnswer := False\<rparr>))"

text \<open>One requester: the result for the next one, and what the last post returned.\<close>

definition join_answer_one :: "ns_env \<Rightarrow> nat \<Rightarrow> fields \<Rightarrow> buf \<Rightarrow> nat \<Rightarrow> result \<Rightarrow> int \<Rightarrow> (result \<times> int) ns" where
  "join_answer_one n i jdl frame k res ret =
    bnd (read_mote i) (\<lambda>m.
      case requester_at m k of None \<Rightarrow> return (res, ret)
      | Some r \<Rightarrow>
          (case (if needsAnswer r then Option.bind (rq_MessageType r) answer_type else None) of None \<Rightarrow> return (res, ret)
           | Some mt \<Rightarrow>
               let netid = scan_netid n (ClientID r) in
               bnd (must (join_answer_body n m jdl res frame r)) (\<lambda>(res', st, j, til).
                 if \<not> n_easy n then return (res', ret)
                 else bnd (post n (ns_hostname n netid) (lib_generate_json j (ClientID r) (myNetwork_idStr n) (inTid r) (Some mt) (Some (result_text res')))) (\<lambda>ret'.
                   andthen (if ret' = 0 then join_answer_sent n i k netid st til else return ()) (return (res', ret'))))))"

fun join_answers :: "ns_env \<Rightarrow> nat \<Rightarrow> fields \<Rightarrow> buf \<Rightarrow> nat list \<Rightarrow> result \<Rightarrow> int \<Rightarrow> int ns" where
  "join_answers n i jdl frame [] res ret = return ret"
| "join_answers n i jdl frame (k # ks) res ret =
     bnd (join_answer_one n i jdl frame k res ret) (\<lambda>(res', ret'). join_answers n i jdl frame ks res' ret')"

definition sNS_JoinAnsJson :: "ns_env \<Rightarrow> nat \<Rightarrow> fields \<Rightarrow> result \<Rightarrow> buf \<Rightarrow> int ns" where
  "sNS_JoinAnsJson n i jdl res frame =
    bnd (read_mote i) (\<lambda>m0. bnd (join_answers n i jdl frame [0..<length (requesterList m0)] res (- 1)) (\<lambda>ret.
      andthen (emit_all (map Statement (snd (deleteOldSessions (n_db n) (n_mq n) (m_devEui m0) False)))) (return ret)))"

text \<open>The requester behind bestR; the pointer itself may not be null.\<close>

definition sNS_answer_RStart_Success :: "ns_env \<Rightarrow> nat \<Rightarrow> fields \<Rightarrow> (result \<times> fields) ns" where
  "sNS_answer_RStart_Success n i ans =
    bnd (read_mote i) (\<lambda>m. bnd (must (bestR m)) (\<lambda>_.
      let life = getLifetime (n_db n) (m_devEui m) (m_devAddr m) in
      if life < 0 then return (Other, ans)
      else bnd (must (best_requester m)) (\<lambda>r. bnd (must (m_s m)) (\<lambda>s.
        let md = zero_dlmd\<lparr>RXDelay1 := 1, dl_DevEUI := m_devEui m, dl_DevAddr := m_devAddr m, ClassMode := CHR ''A''\<rparr>;
            frame = take (unat (d_PHYPayloadLen (downlink s))) (d_PHYPayloadBin (downlink s)) in
        bnd (must (generateDLMetaData n (Some (rq_ulmd r)) (rxdrOffset1 m) md sNS)) (\<lambda>(jdl, _).
        bnd (must (generateXRStartAnsSuccess n m frame jdl (scan_netid n (ClientID r)) r ans (word_of_int life))) (\<lambda>(_, j).
          return (Success, j)))))))"

definition sNS_answer_RStart_Success_save :: "ns_env \<Rightarrow> nat \<Rightarrow> unit ns" where
  "sNS_answer_RStart_Success_save n i =
    bnd (read_mote i) (\<lambda>m. bnd (must (best_requester m)) (\<lambda>r.
      let life = getLifetime (n_db n) (m_devEui m) (m_devAddr m); netid = scan_netid n (ClientID r);
          st = (if rq_MessageType r = Some ''HRStartReq'' then Some roamhHANDOVER
                else if rq_MessageType r = Some ''PRStartReq'' then Some roamsPASSIVE else None) in
      bnd (must (wants_mic n netid)) (\<lambda>mic.
        andthen (update_roam n (m_devEui m) (m_devAddr m) st (roam_until n life) (Some netid) (Some mic)) (return ()))))"

section \<open>A frame for the own gateway\<close>

text \<open>The rate is scanned into an uninitialised variable.\<close>

definition getPingConfig :: "ns_env \<Rightarrow> u64 \<Rightarrow> u32 \<Rightarrow> DLMetaData_t \<Rightarrow> (int \<times> DLMetaData_t) option" where
  "getPingConfig n eui addr md =
    (case deviceProfileReq (n_db n) eui addr ''PingSlotDR'' 64 of None \<Rightarrow> Some (- 1, md)
     | Some t \<Rightarrow>
         (case sscanf_dec t :: u32 option of None \<Rightarrow> None
          | Some rate \<Rightarrow>
              let md1 = md\<lparr>DataRate1 := ucast rate\<rparr>
              in Some (case deviceProfileReq (n_db n) eui addr ''PingSlotFreq'' 64 of None \<Rightarrow> (- 1, md1)
                 | Some u \<Rightarrow> (0, md1\<lparr>dl_DLFreq1 := n_float n u\<rparr>))))"

text \<open>The metadata of the frame; Some None is the failure.\<close>

definition local_metadata :: "ns_env \<Rightarrow> mote_t \<Rightarrow> s_t \<Rightarrow> ULMetaData_t \<Rightarrow> u8 \<Rightarrow> char \<Rightarrow> DLMetaData_t option option" where
  "local_metadata n m s ul rxDelay1 classMode =
    (let md = zero_dlmd\<lparr>dl_FNSULToken := (if ul_FNSULToken ul = Some [] then None else ul_FNSULToken ul), ClassMode := classMode\<rparr>;
         conv = (\<lambda>rw md. map_option (\<lambda>(_, md'). Some md') (sNS_band_conv n rw (m_devEui m) (m_devAddr m) (ULFreq ul) (ul_DataRate ul)
                   (rxdrOffset1 m) (ul_RFRegion ul) md))
     in if ping_period s > 0 \<and> classMode = CHR ''B'' then
          map_option (\<lambda>(r, md'). if r < 0 then None else Some (md'\<lparr>PingPeriod := ucast (ping_period s)\<rparr>)) (getPingConfig n (m_devEui m) (m_devAddr m) md)
        else if classMode = CHR ''A'' then conv (dl_rxwin n) (md\<lparr>RXDelay1 := rxDelay1\<rparr>)
        else if classMode = CHR ''C'' then conv 2 md
        else Some None)"

text \<open>None is the deferred downlink, whose result comes later.\<close>

definition sNS_phy_downlink_local :: "ns_env \<Rightarrow> nat \<Rightarrow> ULMetaData_t \<Rightarrow> u8 \<Rightarrow> char \<Rightarrow> result option ns" where
  "sNS_phy_downlink_local n i ul rxDelay1 classMode =
    bnd (read_mote i) (\<lambda>m. bnd (must (m_s m)) (\<lambda>s.
      if d_PHYPayloadLen (downlink s) = 0 then return (Some XmitFailed)
      else bnd (must (local_metadata n m s ul rxDelay1 classMode)) (\<lambda>meta.
        case meta of None \<Rightarrow> return (Some XmitFailed)
        | Some md \<Rightarrow>
            bnd (fNS_downlink n md 0 None (Some (d_PHYPayloadBin (downlink s))) (d_PHYPayloadLen (downlink s))) (\<lambda>r.
              andthen (modify_s i (\<lambda>s.
                  if r \<noteq> None \<and> r \<noteq> Some Success then s\<lparr>s_DLFreq1 := 0, s_DLFreq2 := 0\<rparr>
                  else s\<lparr>downlink := (downlink s)\<lparr>d_PHYPayloadLen := 0\<rparr>, s_DLFreq1 := dl_DLFreq1 md, s_DLFreq2 := dl_DLFreq2 md\<rparr>))
                (return r)))))"

end
