(* ===== verification/ServingDown.thy ===== *)
theory ServingDown
  imports Serving
begin

text \<open>
  The serving network server (network_server/sNS.c), continued: the frame of a
  downlink goes out and its outcome is recorded, the application's payload is
  taken, the join answer of the home server is passed on, an uplink is
  finished, and roaming is stopped.
\<close>

section \<open>After a frame was sent\<close>

definition schedule :: "nat \<Rightarrow> unit ns" where
  "schedule i = bnd (read_mote i) (\<lambda>m. bnd (must (m_s m)) (\<lambda>s. bnd (must (sNS_schedule_downlink m s)) (\<lambda>s'. write_mote i (with_s m s'))))"

definition sNS_get_dlphylen :: "mote_t \<Rightarrow> u8 option" where
  "sNS_get_dlphylen m = map_option (\<lambda>s. d_PHYPayloadLen (downlink s)) (m_s m)"

definition count_unconfirmed :: "nat \<Rightarrow> unit ns" where
  "count_unconfirmed i =
    bnd (read_mote i) (\<lambda>m. bnd (must (m_s m)) (\<lambda>s.
      if incrNFCntDown (flags s) then
        (case incr_sql_NFCntDown (m_devAddr m) of (r, q) \<Rightarrow>
          andthen (emit (Statement q))
            (if r = 0 then write_mote i (m\<lparr>session := (session m)\<lparr>NFCntDown := NFCntDown (session m) + 1\<rparr>,
                             m_s := Some (s\<lparr>flags := (flags s)\<lparr>incrNFCntDown := False\<rparr>\<rparr>)\<rparr>)
             else return ()))
      else return ()))"

text \<open>The application is answered unless it waits for the acknowledgement of a confirmed frame.\<close>

definition sNSDownlinkSent :: "ns_env \<Rightarrow> nat \<Rightarrow> result \<Rightarrow> bool \<Rightarrow> fields option ns" where
  "sNSDownlinkSent n i res httpd =
    bnd (read_s i) (\<lambda>s0.
      andthen
        (if res = Success then
           andthen (if mtype_of (d_PHYPayloadBin (downlink s0) ! 0) = MTYPE_UNCONF_DN then count_unconfirmed i else return ())
             (modify_s i (\<lambda>s. s\<lparr>downlink := (downlink s)\<lparr>d_PHYPayloadLen := 0\<rparr>\<rparr>))
         else return ())
        (if \<not> dl_Confirmed (d_md (downlink s0)) \<and> d_FRMPayloadLen (downlink s0) > 0
         then bnd (answer_app_downlink n i res httpd) (\<lambda>j.
                andthen (modify_s i (\<lambda>s. s\<lparr>flags := (flags s)\<lparr>answer_app_downlink := False\<rparr>\<rparr>)) (return j))
         else return None))"

section \<open>A frame goes to the best receiver\<close>

text \<open>None is the class B parameters that could not be read.\<close>

definition remote_metadata :: "ns_env \<Rightarrow> mote_t \<Rightarrow> s_t \<Rightarrow> u8 \<Rightarrow> char \<Rightarrow> DLMetaData_t option option" where
  "remote_metadata n m s rxDelay1 classMode =
    (let md = zero_dlmd\<lparr>dl_DevEUI := m_devEui m, dl_DevAddr := if m_devEui m = NONE_DEVEUI then m_devAddr m else NONE_DEVADDR,
           ClassMode := classMode\<rparr>
     in if ping_period s > 0 \<and> classMode = CHR ''B'' then
          map_option (\<lambda>(r, md'). if r < 0 then None else Some (md'\<lparr>PingPeriod := ucast (ping_period s)\<rparr>)) (getPingConfig n (m_devEui m) (m_devAddr m) md)
        else Some (Some (md\<lparr>RXDelay1 := rxDelay1\<rparr>)))"

text \<open>The frame goes to the partner with the best copy of the uplink; None leaves the whole handler.\<close>

definition send_remote :: "ns_env \<Rightarrow> nat \<Rightarrow> u8 \<Rightarrow> char \<Rightarrow> result option ns" where
  "send_remote n i rxDelay1 classMode =
    bnd (read_mote i) (\<lambda>m. bnd (must (m_s m)) (\<lambda>s. bnd (must (remote_metadata n m s rxDelay1 classMode)) (\<lambda>meta.
      case meta of None \<Rightarrow> return None
      | Some md \<Rightarrow>
          bnd (must (best_requester m)) (\<lambda>r.
          bnd (must (generateDLMetaData n (Some (rq_ulmd r)) (rxdrOffset1 m) md sNS)) (\<lambda>(j, md').
          andthen (modify_s i (\<lambda>s. s\<lparr>s_DLFreq1 := dl_DLFreq1 md', s_DLFreq2 := dl_DLFreq2 md'\<rparr>))
            (bnd (sendXmitDataReq n i [(''DLMetaData'', JObj j)] (ClientID r) (ns_hostname n (scan_netid n (ClientID r))) ''PHYPayload''
                   (take (unat (d_PHYPayloadLen (downlink s))) (d_PHYPayloadBin (downlink s))) sNS_downlink_phy_answer)
              (\<lambda>res. return (Some res))))))))"

text \<open>The result of the frame, when one was sent, and the answer for the HTTP client; None leaves the whole handler.\<close>

definition finish_send :: "ns_env \<Rightarrow> nat \<Rightarrow> char \<Rightarrow> bool \<Rightarrow> (result option \<times> fields option) option ns" where
  "finish_send n i classMode httpd =
    bnd (read_mote i) (\<lambda>m. bnd (must (m_s m)) (\<lambda>s.
      let delay = (if mtype_of (ULPayloadBin m ! 0) \<in> {MTYPE_JOIN_REQ, MTYPE_REJOIN_REQ} then 5 else 1);
          sent = (\<lambda>res. bnd (sNSDownlinkSent n i res httpd) (\<lambda>j. return (Some (Some res, j))))
      in if d_PHYPayloadLen (downlink s) = 0 then return (Some (None, None))
         else if bestR m = None then
           bnd (sNS_phy_downlink_local n i (ulmd_local m) delay classMode) (\<lambda>r.
             case r of None \<Rightarrow> return (Some (None, None)) | Some res \<Rightarrow> sent res)
         else bnd (send_remote n i delay classMode) (\<lambda>r. case r of None \<Rightarrow> return None | Some res \<Rightarrow> sent res)))"

section \<open>The payload of an uplink goes up\<close>

text \<open>Port and payload behind the options of a data frame.\<close>

definition uplink_payload :: "mote_t \<Rightarrow> (u8 \<times> buf) option" where
  "uplink_payload m =
    (let phy = ULPayloadBin m; ofs = 8 + FOptsLen (fh_FCtrl (parse_fhdr phy)); len = unat (ULPHYPayloadLen m)
     in if int len - 4 > int ofs then Some (phy ! ofs, slice (ofs + 1) (len - 4 - (ofs + 1)) phy) else None)"

definition best_ulmd :: "mote_t \<Rightarrow> ULMetaData_t option" where
  "best_ulmd m = (if bestR m = None then Some (ulmd_local m) else map_option rq_ulmd (best_requester m))"

definition set_best_ulmd :: "nat \<Rightarrow> ULMetaData_t \<Rightarrow> unit ns" where
  "set_best_ulmd i ul =
    bnd (read_mote i) (\<lambda>m. case bestR m of None \<Rightarrow> write_mote i (m\<lparr>ulmd_local := ul\<rparr>)
      | Some k \<Rightarrow> modify_requester i k (\<lambda>r. r\<lparr>rq_ulmd := ul\<rparr>))"

text \<open>To the home server when this server serves by handover, else to the application server.\<close>

definition forward_payload :: "json_api \<Rightarrow> ns_env \<Rightarrow> nat \<Rightarrow> sql_row \<Rightarrow> u8 \<Rightarrow> buf \<Rightarrow> unit ns" where
  "forward_payload a n i sql port frm =
    bnd (read_mote i) (\<lambda>m. bnd (must (best_ulmd m)) (\<lambda>ul0.
      let ul = ul0\<lparr>ul_FPort := uint port\<rparr>;
          sp = snd (readServiceProfileFromSql (n_db n) (n_float n) (m_devEui m) (m_devAddr m)) in
      andthen (set_best_ulmd i ul)
        (bnd (must (generateULMetaData ul sNS (AddGWMetadata sp))) (\<lambda>uj.
          case uj of None \<Rightarrow> return ()
          | Some u \<Rightarrow>
              if r_roamState sql = Some roamsHANDOVER then
                let net = r_roamingWithNetID sql in
                bnd (sendXmitDataReq n i [(''ULMetaData'', JObj u)] (zero_pad 6 (print_hex net)) (ns_hostname n net) ''FRMPayload'' frm sNS_uplink_frm_answer)
                  (\<lambda>_. return ())
              else bnd (must (ParseULMetaData a u (stack_ulmd n))) (\<lambda>(r, parsed).
                if r = 0 then bnd (hNS_XmitDataReq_toAS n i frm parsed) (\<lambda>_. return ()) else return ())))))"

definition sNS_finish_phy_downlink :: "json_api \<Rightarrow> ns_env \<Rightarrow> nat \<Rightarrow> sql_row \<Rightarrow> char \<Rightarrow> bool \<Rightarrow> (result option \<times> fields option) ns" where
  "sNS_finish_phy_downlink a n i sql classMode httpd =
    bnd (read_mote i) (\<lambda>m0.
      if m_s m0 = None then return (Some Other, None)
      else bnd (finish_send n i classMode httpd) (\<lambda>r.
        case r of None \<Rightarrow> return (Some Other, None)
        | Some (res, j) \<Rightarrow>
            bnd (read_s i) (\<lambda>s.
            bnd (if s_flags.answer_app_downlink (flags s)
                 then andthen (modify_s i (\<lambda>s. s\<lparr>flags := (flags s)\<lparr>answer_app_downlink := False\<rparr>\<rparr>)) (answer_app_downlink n i Success httpd)
                 else return None) (\<lambda>j2.
            andthen
              (case (if mtype_of (ULPayloadBin m0 ! 0) \<in> {MTYPE_UNCONF_UP, MTYPE_CONF_UP} then uplink_payload m0 else None) of
                 Some (port, frm) \<Rightarrow> if port > 0 then forward_payload a n i sql port frm else return ()
               | None \<Rightarrow> return ())
              (return (res, if j2 = None then j else j2))))))"

section \<open>A payload of the application\<close>

definition class_timeout :: "ns_env \<Rightarrow> nat \<Rightarrow> string \<Rightarrow> string \<Rightarrow> unit ns" where
  "class_timeout n i column old =
    bnd (read_mote i) (\<lambda>m.
      let t = (case deviceProfileReq (n_db n) (m_devEui m) (m_devAddr m) column 32 of Some t \<Rightarrow> t | None \<Rightarrow> old) in
      bnd (must (sscanf_dec t :: u32 option)) (\<lambda>k.
        if k > 0 then modify_s i (\<lambda>s. s\<lparr>downlink := (downlink s)\<lparr>resendAt := n_now n + uint k\<rparr>\<rparr>) else return ()))"

text \<open>The frame goes at once; the answer to a confirmed one waits for the device's acknowledgement.\<close>

definition send_now :: "json_api \<Rightarrow> ns_env \<Rightarrow> nat \<Rightarrow> sql_row \<Rightarrow> char \<Rightarrow> string \<Rightarrow> string \<Rightarrow> bool \<Rightarrow> (result option \<times> fields option) ns" where
  "send_now a n i sql classMode column old httpd =
    andthen (schedule i)
      (bnd (sNS_finish_phy_downlink a n i sql classMode httpd) (\<lambda>(r, j).
        bnd (read_s i) (\<lambda>s.
          if r = Some Success \<and> dl_Confirmed (d_md (downlink s)) then andthen (class_timeout n i column old) (return (None, j))
          else return (r, j))))"

definition profile_text :: "ns_env \<Rightarrow> mote_t \<Rightarrow> string \<Rightarrow> string" where
  "profile_text n m column =
    (case deviceProfileReq (n_db n) (m_devEui m) (m_devAddr m) column 32 of Some t \<Rightarrow> t | None \<Rightarrow> stack_text n)"

definition CLASS_C :: u8 where "CLASS_C = 2"

text \<open>Class B is compared with the octet one, class C with the digit.\<close>

definition downlinkBC :: "json_api \<Rightarrow> ns_env \<Rightarrow> nat \<Rightarrow> sql_row \<Rightarrow> bool \<Rightarrow> (result option \<times> fields option) ns" where
  "downlinkBC a n i sql httpd =
    bnd (read_mote i) (\<lambda>m. bnd (must (m_s m)) (\<lambda>s.
      andthen (modify_s i (\<lambda>s. s\<lparr>downlink := (downlink s)\<lparr>resendAt := 0\<rparr>\<rparr>))
        (let b = profile_text n m ''SupportsClassB''; c = profile_text n m ''SupportsClassC'' in
         if ping_period s > 0 \<and> take 1 b = [CHR 0x01] then send_now a n i sql (CHR ''B'') ''ClassBTimeout'' b httpd
         else if take 1 c = ''1'' \<and> (\<not> OptNeg (session m) \<or> classModeInd s = CLASS_C)
         then send_now a n i sql (CHR ''C'') ''ClassCTimeout'' c httpd
         else return (None, None))))"

text \<open>The counter a 1.0 device will use next; the payload must be enciphered with it.\<close>

definition needed_FCntDown :: "ns_env \<Rightarrow> mote_t \<Rightarrow> s_t \<Rightarrow> u32" where
  "needed_FCntDown n m s =
    (if take 1 (profile_text n m ''SupportsClassC'') \<noteq> ''1'' \<and> incrNFCntDown (flags s)
     then NFCntDown (session m) + 1 else NFCntDown (session m))"

definition hNS_to_sNS_downlink ::
  "json_api \<Rightarrow> ns_env \<Rightarrow> nat \<Rightarrow> u64 \<Rightarrow> string \<Rightarrow> buf \<Rightarrow> DLMetaData_t \<Rightarrow> bool \<Rightarrow> (result option \<times> fields option) ns" where
  "hNS_to_sNS_downlink a n i reqTid requester frm md httpd =
    bnd (read_mote i) (\<lambda>m0.
      let sql = snd (sql_motes_query (n_db n) (n_now n) (m_devEui m0) (m_devAddr m0)) in
      andthen (ensure_s n i (\<lambda>m. getRFRegion (profile_text n m ''RFRegion'')))
        (bnd (read_mote i) (\<lambda>m. bnd (must (m_s m)) (\<lambda>s.
          if \<not> r_OptNeg sql \<and> dl_FCntDown md \<noteq> needed_FCntDown n m s
          then return (Some Other, Some [(''FCntDown'', JInt (c_int (needed_FCntDown n m s)))])
          else bnd (must (write_at (d_FRMPayloadBin (downlink s)) 0 frm)) (\<lambda>bin.
            andthen (modify_s i (\<lambda>s. s\<lparr>downlink := (downlink s)\<lparr>d_FRMPayloadLen := word_of_nat (length frm), d_FRMPayloadBin := bin,
                d_md := md, isAnsDestAS := (r_roamState sql \<in> {Some roamsPASSIVE, Some roamNONE}), d_reqTid := reqTid,
                ansDest := Some requester\<rparr>\<rparr>))
              (downlinkBC a n i sql httpd))))))"

end
