(* ===== verification/ServingUp.thy ===== *)
theory ServingUp
  imports ServingDown
begin

text \<open>
  The serving network server (network_server/sNS.c), concluded: the join
  answer of the home server, a join or rejoin request on its way to the join
  server, the end of the collection of an uplink, and the end of roaming.
\<close>

section \<open>The join answer is passed on\<close>

definition join_accept_metadata :: "mote_t \<Rightarrow> DLMetaData_t" where
  "join_accept_metadata m = zero_dlmd\<lparr>dl_DevEUI := m_devEui m, dl_DevAddr := NONE_DEVADDR, dl_FPort := 255, ClassMode := CHR ''A'', RXDelay1 := 5\<rparr>"

text \<open>The accept frame through the own gateway; 0 when it was sent.\<close>

definition join_local :: "ns_env \<Rightarrow> nat \<Rightarrow> buf \<Rightarrow> int ns" where
  "join_local n i frame =
    bnd (read_s i) (\<lambda>s. bnd (must (write_at (d_PHYPayloadBin (downlink s)) 0 frame)) (\<lambda>bin.
      andthen (modify_s i (\<lambda>s. s\<lparr>downlink := (downlink s)\<lparr>d_PHYPayloadBin := bin, d_PHYPayloadLen := word_of_nat (length frame)\<rparr>\<rparr>))
        (bnd (read_mote i) (\<lambda>m. bnd (sNS_phy_downlink_local n i (ulmd_local m) 5 (CHR ''A'')) (\<lambda>r.
          return (if r = Some Success then 0 else - 1))))))"

definition join_remote :: "ns_env \<Rightarrow> nat \<Rightarrow> result \<Rightarrow> buf \<Rightarrow> int ns" where
  "join_remote n i res frame =
    bnd (read_mote i) (\<lambda>m. bnd (must (best_requester m)) (\<lambda>r.
      bnd (must (generateDLMetaData n (Some (rq_ulmd r)) (rxdrOffset1 m) (if res = Success then join_accept_metadata m else zero_dlmd) sNS)) (\<lambda>(j, md).
        andthen (modify_s i (\<lambda>s. s\<lparr>s_DLFreq1 := dl_DLFreq1 md, s_DLFreq2 := dl_DLFreq2 md\<rparr>))
          (sNS_JoinAnsJson n i j res frame))))"

text \<open>The result of taking the keys is overwritten: only a missing lifetime is a failure.\<close>

definition hNs_to_sNS_JoinAns :: "json_api \<Rightarrow> ns_env \<Rightarrow> key_envelope_t \<Rightarrow> nat \<Rightarrow> fields \<Rightarrow> result \<Rightarrow> string \<Rightarrow> buf \<Rightarrow> int ns" where
  "hNs_to_sNS_JoinAns a n ke i j rxResult sender frame =
    bnd (read_mote i) (\<lambda>m0.
      if rxResult \<noteq> Success then
        (case bestR m0 of None \<Rightarrow> return (- 1) | Some k \<Rightarrow> bnd (r_post_ans_to_ns n i k rxResult []) (\<lambda>_. return (- 1)))
      else
        bnd (case map_of j ''Lifetime'' of None \<Rightarrow> return Other
             | Some v \<Rightarrow> bnd (take_JoinAns a n ke i (word_of_int (ja_int a v)) j sender) (\<lambda>_. return Success)) (\<lambda>res.
        andthen (modify_s i (\<lambda>s. s\<lparr>flags := (flags s)\<lparr>session_start_at_uplink := True\<rparr>\<rparr>))
          (bnd (if bestR m0 \<noteq> None then join_remote n i res frame
                else if res = Success then join_local n i frame else return (- 1)) (\<lambda>ret.
            andthen (if ret = 0 then modify_s i (\<lambda>s. s\<lparr>macq := wipe_queued_mac_cmds (macq s), confDLPHYPayloadLen := 0\<rparr>) else return ())
              (return ret)))))"

section \<open>The partner's answer to the start of handover\<close>

definition lifetime_of :: "json_api \<Rightarrow> fields \<Rightarrow> u32" where
  "lifetime_of a j = (case map_of j ''Lifetime'' of Some v \<Rightarrow> word_of_int (ja_int a v) | None \<Rightarrow> 0)"

definition renew_profile :: "json_api \<Rightarrow> ns_env \<Rightarrow> nat \<Rightarrow> fields \<Rightarrow> string \<Rightarrow> unit ns" where
  "renew_profile a n i j sender =
    (case (map_of j ''DeviceProfile'', map_of j ''DeviceProfileTimestamp'') of
       (Some dp, Some _) \<Rightarrow>
         bnd (saveDeviceProfile a n i (members dp)) (\<lambda>r.
           if r = 0 then bnd (sNS_sendHRStartReq n i (scan_netid n sender)) (\<lambda>_. return ()) else return ())
     | _ \<Rightarrow> return ())"

definition on_HRStartAns ::
  "json_api \<Rightarrow> ns_env \<Rightarrow> key_envelope_t \<Rightarrow> nat \<Rightarrow> fields \<Rightarrow> result \<Rightarrow> string \<Rightarrow> buf option \<Rightarrow> u8 \<Rightarrow> unit ns" where
  "on_HRStartAns a n ke i j rxResult sender rfBuf rfLen =
    (if rxResult = StaleDeviceProfile then renew_profile a n i j sender
     else bnd (case rfBuf of None \<Rightarrow> return rxResult
               | Some b \<Rightarrow>
                   if rxResult = Success then
                     bnd (must (arg b 0)) (\<lambda>octet.
                       if mtype_of octet = MTYPE_JOIN_ACC
                       then bnd (take_JoinAns a n ke i (lifetime_of a j) j sender) (\<lambda>r. return (if r < 0 then Other else rxResult))
                       else return rxResult)
                   else return rxResult) (\<lambda>res.
       andthen (take_DevAddr a i j) (xRStartAnsCallback a n True i j res sender rfBuf rfLen True (lifetime_of a j))))"

section \<open>A join request on its way to the join server\<close>

text \<open>All partners but the best are told to wait, or all of them that it failed.\<close>

definition defer_fields :: "mote_t \<Rightarrow> int \<Rightarrow> fields" where
  "defer_fields m life = (if life > 0 then [(''Lifetime'', JInt life)] else []) @ [(''DevAddr'', JStr (print_hex (m_devAddr m)))]"

definition sNS_JoinReq :: "ns_env \<Rightarrow> nat \<Rightarrow> string option \<Rightarrow> int ns" where
  "sNS_JoinReq n i region =
    bnd (read_mote i) (\<lambda>m0.
      let life = getLifetime (n_db n) (m_devEui m0) NONE_DEVADDR;
          s0 = (case m_s m0 of Some s \<Rightarrow> s | None \<Rightarrow> zero_s) in
      andthen (write_mote i (m0\<lparr>m_s := Some (network_controller_mote_init (n_regions n) s0 region)\<rparr>))
        (case cflist_of (n_regions n) region of None \<Rightarrow> return (- 1)
         | Some c \<Rightarrow>
             bnd (hNS_toJS n i c) (\<lambda>ret.
               andthen (each (\<lambda>k. bnd (read_mote i) (\<lambda>m.
                     if ret = 0 \<and> bestR m = Some k then return ()
                     else if ret \<noteq> 0 \<or> life < 0 then post_and_report n i k Other []
                     else post_and_report n i k Deferred (defer_fields m life))) [0..<length (requesterList m0)])
                 (return ret))))"

definition assignDevAddrToJS :: "ns_env \<Rightarrow> nat \<Rightarrow> string option \<Rightarrow> result ns" where
  "assignDevAddrToJS n i region =
    bnd (\<lambda>w. bnd (modify_mote i (\<lambda>m. m\<lparr>m_devAddr :=
             getDevAddr (n_db n) (devAddrBase n) (nwkAddrBits n) (map (map_option m_devAddr) (w_motes w)) (m_devAddr m)\<rparr>)) return w) (\<lambda>_.
    bnd (read_mote i) (\<lambda>m.
      bnd (if m_devAddr m = NONE_DEVADDR then return Other
           else bnd (sNS_JoinReq n i region) (\<lambda>r. return (if r < 0 then Other else Success))) (\<lambda>res.
        andthen (modify_mote i (\<lambda>m. m\<lparr>session := (session m)\<lparr>until := 0\<rparr>\<rparr>)) (return res))))"

section \<open>The end of an uplink's collection\<close>

text \<open>
  The integrity code of a rejoin request, tried with one session after the
  other; the device with the session that was tried last. No result is a loop
  that does not end.
\<close>

definition rejoin_mic_ok :: "mote_t \<Rightarrow> u32 \<Rightarrow> bool" where
  "rejoin_mic_ok m mic \<longleftrightarrow>
    le_word (LoRa_GenerateJoinFrameIntegrityCode (SNwkSIntKeyBin (session m)) (ULPayloadBin m) (unat (ULPHYPayloadLen m) - 4)) = mic"

partial_function (option) rejoinTry :: "ns_env \<Rightarrow> u32 \<Rightarrow> mote_t \<Rightarrow> (bool \<times> mote_t) option" where
  "rejoinTry n mic m =
    (if rejoin_mic_ok m mic then Some (True, m)
     else if \<not> next_session (session m) then Some (False, m)
     else case getSession (n_db n) (n_now n) (m_devEui m) (m_devAddr m) (nth_session m + 1) (session m) of
       (r, se) \<Rightarrow> (let m' = m\<lparr>nth_session := nth_session m + 1, session := se\<rparr>
                   in if r < 0 then Some (False, m') else rejoinTry n mic m'))"

text \<open>A type 2 request was asked for, or comes from a device whose handover expired; None drops it.\<close>

definition allow_rejoin :: "nat \<Rightarrow> sql_row \<Rightarrow> u8 \<Rightarrow> bool option ns" where
  "allow_rejoin i sql t =
    (if t \<noteq> 2 then return (Some False)
     else if r_roamState sql = Some roamhHANDOVER \<and> r_roamExpired sql then return (Some True)
     else bnd (read_s i) (\<lambda>s.
       if type2_rejoin_count s = 0 then return None
       else andthen (modify_s i (\<lambda>s. s\<lparr>type2_rejoin_count := type2_rejoin_count s - 1\<rparr>)) (return (Some False))))"

definition rejoin_netid :: "buf \<Rightarrow> u32" where
  "rejoin_netid phy = ucast (phy ! 2) OR push_bit 8 (ucast (phy ! 3)) OR push_bit 16 (ucast (phy ! 4))"

definition finish_rejoin :: "ns_env \<Rightarrow> nat \<Rightarrow> sql_row \<Rightarrow> string option \<Rightarrow> result ns" where
  "finish_rejoin n i sql region =
    bnd (read_mote i) (\<lambda>m.
      let phy = ULPayloadBin m; t = phy ! 1 in
      if t = 1 then
        (if expired (session m) then bnd (assignDevAddrToJS n i region) (\<lambda>_. return Other)
         else andthen (if r_is_sNS sql then schedule i else return ()) (return Other))
      else if t = 2 \<or> t = 0 then
        bnd (must (rx_mic32 phy (ULPHYPayloadLen m))) (\<lambda>mic. bnd (must (rejoinTry n mic m)) (\<lambda>(ok, m').
          andthen (write_mote i m')
            (if \<not> ok then return Other
             else bnd (allow_rejoin i sql t) (\<lambda>al.
               case al of None \<Rightarrow> return Other
               | Some forced \<Rightarrow>
                   if rejoin_netid phy \<noteq> myNetwork_id32 n then return Other
                   else if forced \<or> expired (session m') then assignDevAddrToJS n i region
                   else andthen (if r_is_sNS sql then schedule i else return ()) (return Other)))))
      else return Other)"

definition NONE_NETID :: u32 where "NONE_NETID = 0xffffff"

definition finish_join :: "ns_env \<Rightarrow> nat \<Rightarrow> string option \<Rightarrow> result ns" where
  "finish_join n i region =
    bnd (read_mote i) (\<lambda>m.
      case sql_motes_query_item (n_db n) (myNetwork_id32 n) (m_devEui m) NONE_DEVADDR ''fwdToNetID'' (stack32 n) of (r, net) \<Rightarrow>
        if r \<noteq> Success then return r
        else if net = NONE_NETID \<or> net = myNetwork_id32 n then assignDevAddrToJS n i region
        else return Success)"

text \<open>A data frame: roaming stops when the own gateway heard the device best.\<close>

definition finish_data :: "ns_env \<Rightarrow> nat \<Rightarrow> sql_row \<Rightarrow> ULMetaData_t \<Rightarrow> (result \<times> bool) ns" where
  "finish_data n i sql ul =
    bnd (read_mote i) (\<lambda>m0.
      andthen (if r_roamState sql = Some roamsPASSIVE \<and> bestR m0 = None
               then modify_s i (\<lambda>s. s\<lparr>flags := (flags s)\<lparr>RStop_flag := True\<rparr>\<rparr>) else return ())
        (if r_roamState sql = Some roamsPASSIVE \<or> r_roamState sql = Some roamNONE then
           bnd (read_mote i) (\<lambda>m. bnd (must (sNS_uplink n m (r_OptNeg sql) ul False)) (\<lambda>out.
             andthen (write_mote i (uo_mote out)) (andthen (set_best_ulmd i (uo_ulmd out)) (andthen (emit_all (uo_effects out))
               (return (uo_result out, uo_discard out))))))
         else return (Other, False)))"

text \<open>The result, None without an uplink, and whether the uplink is to be discarded.\<close>

definition sNS_uplink_finish :: "ns_env \<Rightarrow> nat \<Rightarrow> bool \<Rightarrow> sql_row \<Rightarrow> bool \<Rightarrow> (result option \<times> bool) ns" where
  "sNS_uplink_finish n i jsonFinish sql discard0 =
    bnd (read_mote i) (\<lambda>m.
      if ULPHYPayloadLen m = 0 then return (None, discard0)
      else bnd (must (best_ulmd m)) (\<lambda>ul.
        (case mtype_of (ULPayloadBin m ! 0) of
           MTYPE_REJOIN_REQ \<Rightarrow> bnd (finish_rejoin n i sql (ul_RFRegion ul)) (\<lambda>r. return (Some r, False))
         | MTYPE_JOIN_REQ \<Rightarrow> bnd (finish_join n i (ul_RFRegion ul)) (\<lambda>r. return (Some r, False))
         | t \<Rightarrow> if jsonFinish \<and> (t = MTYPE_UNCONF_UP \<or> t = MTYPE_CONF_UP)
                then bnd (finish_data n i sql ul) (\<lambda>(r, d). return (Some r, d)) else return (Some Other, False))))"

section \<open>The end of roaming\<close>

definition on_xRStopAns :: "ns_env \<Rightarrow> nat \<Rightarrow> result \<Rightarrow> string \<Rightarrow> unit ns" where
  "on_xRStopAns n i rxResult sender =
    (if rxResult = Success then
       bnd (read_mote i) (\<lambda>m. andthen (update_roam n (m_devEui m) (m_devAddr m) (Some roamNONE) None (Some (scan_netid n sender)) None) (return ()))
     else return ())"

definition sNS_roamStop :: "nat \<Rightarrow> unit ns" where
  "sNS_roamStop i = modify_mote i (\<lambda>m. m\<lparr>m_s := map_option (\<lambda>s. s\<lparr>flags := (flags s)\<lparr>RStop_flag := True\<rparr>\<rparr>) (m_s m)\<rparr>)"

definition stop_message :: "roam_state option \<Rightarrow> string option" where
  "stop_message st = (if st = Some roamsPASSIVE then Some ''PRStopReq'' else if st = Some roamhHANDOVER then Some ''HRStopReq'' else None)"

definition send_stop :: "ns_env \<Rightarrow> nat \<Rightarrow> unit ns" where
  "send_stop n i =
    bnd (read_mote i) (\<lambda>m.
      case sql_motes_query (n_db n) (n_now n) (m_devEui m) (m_devAddr m) of (sr, sql) \<Rightarrow>
        (case (if sr = Success then stop_message (r_roamState sql) else None) of None \<Rightarrow> return ()
         | Some mt \<Rightarrow>
             bnd (new_tid n i sNS_xRStopAnsCallback) (\<lambda>tid.
               let net = r_roamingWithNetID sql;
                   who = (if m_devEui m \<noteq> NONE_DEVEUI then (''DevEUI'', JStr (print_hex (m_devEui m)))
                          else (''DevAddr'', JStr (print_hex (m_devAddr m))))
               in if n_easy n
                  then bnd (post n (ns_hostname n net) (lib_generate_json [who] (zero_pad 6 (print_hex net)) (myNetwork_idStr n) (ucast tid) (Some mt) None))
                         (\<lambda>_. return ())
                  else return ())))"

text \<open>Between uplinks: the request to stop, and the resend of a confirmed frame whose time has come.\<close>

definition sNS_service :: "json_api \<Rightarrow> ns_env \<Rightarrow> nat \<Rightarrow> unit ns" where
  "sNS_service a n i =
    bnd (read_mote i) (\<lambda>m.
      case m_s m of None \<Rightarrow> return ()
      | Some s \<Rightarrow>
          if progress m \<noteq> PROGRESS_OFF then return ()
          else andthen
            (if RStop_flag (flags s)
             then andthen (send_stop n i) (modify_s i (\<lambda>s. s\<lparr>flags := (flags s)\<lparr>RStop_flag := False\<rparr>\<rparr>)) else return ())
            (if resendAt (downlink s) \<noteq> 0 \<and> resendAt (downlink s) \<le> n_now n then
               bnd (downlinkBC a n i (snd (sql_motes_query (n_db n) (n_now n) (m_devEui m) (m_devAddr m))) False) (\<lambda>(r, _).
                 case r of Some res \<Rightarrow> andthen (answer_app_downlink n i res False) (return ()) | None \<Rightarrow> return ())
             else return ()))"

end
