(* ===== verification/ForwardUp.thy ===== *)
theory ForwardUp
  imports ServingUp
begin

text \<open>
  The uplink side of the forwarding server (network_server/fNS.c): an uplink
  of a device this server does not serve is sent to the network that does, a
  device that is not known yet starts roaming, and the partners' answers are
  taken. A handler of an answer is named after the request it answers.
\<close>

section \<open>Integrity at the forwarding server\<close>

text \<open>The two octets of the forwarding key's code; a frame of one octet reads before its start.\<close>

definition check_cmacF :: "buf \<Rightarrow> u8 \<Rightarrow> u32 \<Rightarrow> buf \<Rightarrow> bool option" where
  "check_cmacF phy len cnt key =
    (if unat len < 2 \<or> length phy < unat len then None
     else let rx_mic = push_bit 8 (ucast (phy ! (unat len - 1))) + ucast (phy ! (unat len - 2)) :: u16;
              block = uplink_block 0 0 0 (fh_DevAddr (parse_fhdr phy)) cnt (len - 4);
              temp = cmac_of cmac_mem key [block_octets block, take (unat (len - 4)) phy]
          in Some (le_word (take 2 temp) = rx_mic))"

text \<open>The code of a 1.0 frame that this server was given the key to check; None is an access outside the frame.\<close>

definition forward_check :: "mote_t \<Rightarrow> sql_row \<Rightarrow> result option" where
  "forward_check m sql =
    (let phy = ULPayloadBin m; rx32 = fcnt32 (FCntUp (session m)) (fh_FCnt (parse_fhdr phy))
     in if \<not> (mtype_of (phy ! 0) \<in> {MTYPE_UNCONF_UP, MTYPE_CONF_UP} \<and> r_enable_fNS_MIC sql) then Some Success
        else if replayed (FCntUp (session m)) rx32 then Some Other
        else if r_OptNeg sql then Some Success
        else map_option (\<lambda>ok. if ok then Success else MICFailed)
               (check_mic10 (uplink_block 0 0 0 (fh_DevAddr (parse_fhdr phy)) rx32 (ULPHYPayloadLen m - 4))
                 (SNwkSIntKeyBin (session m)) phy (ULPHYPayloadLen m)))"

definition fNS_XmitDataReq_uplink :: "ns_env \<Rightarrow> nat \<Rightarrow> sql_row \<Rightarrow> result ns" where
  "fNS_XmitDataReq_uplink n i sql =
    bnd (read_mote i) (\<lambda>m. bnd (must (forward_check m sql)) (\<lambda>r.
      if r \<noteq> Success then return r
      else bnd (must (generateULMetaData (ulmd_local m) fNS True)) (\<lambda>uj.
        case uj of None \<Rightarrow> return Other
        | Some u \<Rightarrow>
            let net = r_roamingWithNetID sql
            in sendXmitDataReq n i [(''ULMetaData'', JObj u)] (zero_pad 6 (print_hex net)) (ns_hostname n net) ''PHYPayload'' (frame_of m)
                 fNS_XmitDataAnsCallback)))"

section \<open>Requests to the home network\<close>

definition MINIMUM_PHY_SIZE :: nat where "MINIMUM_PHY_SIZE = 12"

definition sendPRStartReq :: "ns_env \<Rightarrow> nat \<Rightarrow> u32 \<Rightarrow> int ns" where
  "sendPRStartReq n i NetID =
    bnd (read_mote i) (\<lambda>m0.
      if unat (ULPHYPayloadLen m0) < MINIMUM_PHY_SIZE then return (- 1)
      else bnd (new_tid n i PRStartAnsCallback) (\<lambda>tid.
        bnd (must (generateULMetaData (ulmd_local m0) fNS True)) (\<lambda>uj.
          case uj of None \<Rightarrow> return (- 1)
          | Some u \<Rightarrow>
              let j = lib_generate_json [(''ULMetaData'', JObj u)] (print_hex NetID) (myNetwork_idStr n) (ucast tid) (Some ''PRStartReq'') None
              in if \<not> n_easy n then return CURLE_FAILED_INIT
                 else post n (ns_hostname n NetID) (add_field ''PHYPayload'' (JStr (hex_of_buf (frame_of m0))) j))))"

definition sendProfileReq :: "ns_env \<Rightarrow> nat \<Rightarrow> u32 \<Rightarrow> int ns" where
  "sendProfileReq n i NetID =
    bnd (new_tid n i ProfileAnsCallback) (\<lambda>tid. bnd (read_mote i) (\<lambda>m.
      if \<not> n_easy n then return CURLE_FAILED_INIT
      else post n (ns_hostname n NetID) (lib_generate_json [(''DevEUI'', JStr (print_hex (m_devEui m)))] (print_hex NetID) (myNetwork_idStr n)
             (ucast tid) (Some ''ProfileReq'') None)))"

definition sendHomeNSReq :: "ns_env \<Rightarrow> nat \<Rightarrow> u64 \<Rightarrow> u64 \<Rightarrow> unit ns" where
  "sendHomeNSReq n i devEui joinEui =
    bnd (new_tid n i HomeNSAnsCallback) (\<lambda>tid.
      if \<not> n_easy n then return ()
      else bnd (post n (getJsHostName joinEui (joinDomain n)) (lib_generate_json [(''DevEUI'', JStr (print_hex devEui))] (print_hex joinEui)
             (myNetwork_idStr n) (ucast tid) (Some ''HomeNSReq'') None)) (\<lambda>_. return ()))"

text \<open>Roaming with a network starts by its permissions; False is no agreement.\<close>

definition net_allows :: "ns_env \<Rightarrow> u32 \<Rightarrow> string \<Rightarrow> bool ns" where
  "net_allows n netid column = bnd (must (isNetID (n_db n) netid column)) (\<lambda>v. return (v = 1))"

definition start_roaming :: "ns_env \<Rightarrow> nat \<Rightarrow> u32 \<Rightarrow> u32 \<Rightarrow> bool ns" where
  "start_roaming n i netid addr =
    bnd (net_allows n netid ''PRAllowed'') (\<lambda>pr.
      if pr then bnd (sendPRStartReq n i netid) (\<lambda>_. return True)
      else bnd (net_allows n netid ''HRAllowed'') (\<lambda>hr.
        if hr then bnd (read_mote i) (\<lambda>m.
          bnd (if deviceProfileReq (n_db n) (m_devEui m) addr ''DeviceProfileID'' 0 \<noteq> None then sNS_sendHRStartReq n i netid
               else sendProfileReq n i netid) (\<lambda>_. return True))
        else return False))"

section \<open>The answers\<close>

definition on_fNS_XmitDataAns :: "json_api \<Rightarrow> ns_env \<Rightarrow> fields \<Rightarrow> buf option \<Rightarrow> u8 \<Rightarrow> unit ns" where
  "on_fNS_XmitDataAns a n j rfBuf rfLen = (if rfLen > 0 then send_answered_frame a n j rfBuf rfLen else return ())"

definition add_session ::
  "ns_env \<Rightarrow> nat \<Rightarrow> u64 option \<Rightarrow> buf option \<Rightarrow> buf option \<Rightarrow> buf option \<Rightarrow> u32 option \<Rightarrow> bool \<Rightarrow> unit ns" where
  "add_session n i til snk fnk nek fcntup optneg =
    bnd (read_mote i) (\<lambda>m. emit_all (map Statement
      (snd (add_database_session (n_db n) (n_mq n) (m_devEui m) til snk fnk nek fcntup None (Some (m_devAddr m)) optneg))))"

text \<open>The key for the integrity of uplinks, when it was sent: whether this server checks from now on.\<close>

definition take_mic_key :: "json_api \<Rightarrow> ns_env \<Rightarrow> nat \<Rightarrow> fields \<Rightarrow> string \<Rightarrow> u64 option \<Rightarrow> bool ns" where
  "take_mic_key a n i j sender til =
    (case map_of j ''FCntUp'' of
       Some v \<Rightarrow>
         bnd (must (get_nsns_key a n j ''FNwkSIntKey'' sender [])) (\<lambda>(res, key).
           let cnt = Some (word_of_int (ja_int a v)) in
           if res = Some Success then andthen (add_session n i til None (Some key) None cnt True) (return True)
           else andthen (if res = None then add_session n i til None None None cnt True else return ()) (return False))
     | None \<Rightarrow>
         bnd (must (get_nsns_key a n j ''NwkSKey'' sender [])) (\<lambda>(res, key).
           if res = Some Success then andthen (add_session n i til (Some key) (Some key) (Some key) None False) (return True)
           else andthen (if res = None then add_session n i til None None None None False else return ()) (return False)))"

definition start_sessions :: "json_api \<Rightarrow> ns_env \<Rightarrow> nat \<Rightarrow> fields \<Rightarrow> result \<Rightarrow> string \<Rightarrow> u64 option \<Rightarrow> bool ns" where
  "start_sessions a n i j res sender til =
    bnd (if res = Success then take_mic_key a n i j sender til
         else if res = Deferred then
           bnd (read_mote i) (\<lambda>m. andthen (if m_devAddr m = NONE_DEVADDR then return () else add_session n i til None None None None False)
             (return False))
         else return False) (\<lambda>mic. bnd (read_mote i) (\<lambda>m.
      andthen (emit_all (map Statement (snd (deleteOldSessions (n_db n) (n_mq n) (m_devEui m) False)))) (return mic)))"

definition take_own_DevEUI :: "json_api \<Rightarrow> nat \<Rightarrow> fields \<Rightarrow> unit ns" where
  "take_own_DevEUI a i j =
    (case map_of j ''DevEUI'' of None \<Rightarrow> return ()
     | Some v \<Rightarrow> modify_mote i (\<lambda>m. m\<lparr>m_devEui := store (sscanf_hex (ja_text a v)) (m_devEui m)\<rparr>))"

definition on_PRStartAns :: "json_api \<Rightarrow> ns_env \<Rightarrow> nat \<Rightarrow> fields \<Rightarrow> result \<Rightarrow> string \<Rightarrow> buf option \<Rightarrow> u8 \<Rightarrow> unit ns" where
  "on_PRStartAns a n i j res sender rfBuf rfLen =
    (let lifetime = lifetime_of a j
     in andthen (take_DevAddr a i j) (andthen (take_own_DevEUI a i j)
          (bnd (if lifetime > 0 then start_sessions a n i j res sender (Some (until_of n lifetime)) else return False) (\<lambda>mic.
            xRStartAnsCallback a n False i j res sender rfBuf rfLen mic lifetime))))"

definition on_ProfileAns :: "json_api \<Rightarrow> ns_env \<Rightarrow> nat \<Rightarrow> fields \<Rightarrow> result \<Rightarrow> string \<Rightarrow> unit ns" where
  "on_ProfileAns a n i j res sender =
    (let netid = scan_netid n sender in
     if res \<noteq> Success then
       (case map_of j ''Lifetime'' of None \<Rightarrow> return ()
        | Some v \<Rightarrow> bnd (read_mote i) (\<lambda>m. andthen
            (update_roam n (m_devEui m) (m_devAddr m) (Some roamDEFERRED) (Some (word_of_int (n_now n + ja_int a v))) (Some netid) None) (return ())))
     else case map_of j ''RoamingActivationType'' of None \<Rightarrow> return ()
     | Some t \<Rightarrow>
         bnd (case (map_of j ''DeviceProfile'', map_of j ''DeviceProfileTimestamp'') of
                (Some dp, Some _) \<Rightarrow> saveDeviceProfile a n i (members dp) | _ \<Rightarrow> return 0) (\<lambda>r.
           if r < 0 then return ()
           else if ja_text a t = ''Passive'' then bnd (sendPRStartReq n i netid) (\<lambda>_. return ())
           else if ja_text a t = ''Handover'' then bnd (sNS_sendHRStartReq n i netid) (\<lambda>_. return ())
           else return ()))"

definition on_HomeNSAns :: "json_api \<Rightarrow> ns_env \<Rightarrow> nat \<Rightarrow> fields \<Rightarrow> result \<Rightarrow> unit ns" where
  "on_HomeNSAns a n i j res =
    (case (if res = Success then map_of j ''HNetID'' else None) of None \<Rightarrow> return ()
     | Some v \<Rightarrow> bnd (start_roaming n i (scan_netid n (ja_text a v)) NONE_DEVADDR) (\<lambda>_. return ()))"

section \<open>An uplink of the own gateways\<close>

definition drop_frame :: "nat \<Rightarrow> unit ns" where "drop_frame i = modify_mote i (\<lambda>m. m\<lparr>ULPHYPayloadLen := 0\<rparr>)"

text \<open>A join: True when the device belongs elsewhere, or is unknown.\<close>

definition activate :: "ns_env \<Rightarrow> nat \<Rightarrow> u64 \<Rightarrow> u64 \<Rightarrow> bool ns" where
  "activate n i devEui joinEui =
    andthen (modify_mote i (\<lambda>m. m\<lparr>m_devEui := devEui\<rparr>))
      (case sql_motes_query_item (n_db n) (myNetwork_id32 n) devEui NONE_DEVADDR ''fwdToNetID'' (stack32 n) of (r, net) \<Rightarrow>
        if r \<noteq> Success then return True
        else if net = NONE_NETID then andthen (sendHomeNSReq n i devEui joinEui) (return True)
        else if net = myNetwork_id32 n then return False
        else bnd (start_roaming n i net NONE_DEVADDR) (\<lambda>started. andthen (if started then drop_frame i else return ()) (return True)))"

text \<open>The session whose forwarding key fits the frame. No result is a loop that does not end.\<close>

partial_function (option) ftry :: "ns_env \<Rightarrow> mote_t \<Rightarrow> (bool \<times> mote_t) option" where
  "ftry n m =
    (case check_cmacF (ULPayloadBin m) (ULPHYPayloadLen m) (fcnt32 (FCntUp (session m)) (fh_FCnt (parse_fhdr (ULPayloadBin m))))
        (FNwkSIntKeyBin (session m)) of None \<Rightarrow> None
     | Some ok \<Rightarrow>
         if ok then Some (True, m)
         else if \<not> next_session (session m) then Some (False, m)
         else case getSession (n_db n) (n_now n) NONE_DEVEUI (m_devAddr m) (nth_session m + 1) (session m) of
           (r, se) \<Rightarrow> (let m' = m\<lparr>nth_session := nth_session m + 1, session := se\<rparr>
                       in if r < 0 then Some (False, m') else ftry n m'))"

text \<open>A foreign network's frame: roaming starts, or it is discarded.\<close>

definition start_or_discard :: "ns_env \<Rightarrow> nat \<Rightarrow> u32 \<Rightarrow> u32 \<Rightarrow> bool \<Rightarrow> (bool \<times> bool) ns" where
  "start_or_discard n i netid addr discard =
    bnd (start_roaming n i netid addr) (\<lambda>started. andthen (drop_frame i) (return (True, if started then discard else True)))"

definition rejoin_forward :: "ns_env \<Rightarrow> nat \<Rightarrow> sql_row \<Rightarrow> bool \<Rightarrow> (bool \<times> bool) ns" where
  "rejoin_forward n i sql discard =
    bnd (read_mote i) (\<lambda>m.
      let phy = ULPayloadBin m in
      if phy ! 1 = 2 \<or> phy ! 1 = 0 then
        (if rejoin_netid phy \<noteq> myNetwork_id32 n then start_or_discard n i (rejoin_netid phy) NONE_DEVADDR discard else return (False, discard))
      else if phy ! 1 = 1 \<and> r_roamState sql \<noteq> Some roamsHANDOVER then
        bnd (activate n i (join_eui_at 10 phy) (join_eui_at 2 phy)) (\<lambda>skip. return (skip, discard))
      else return (False, discard))"

text \<open>A data frame whose network, and whose integrity where it can be checked, are settled.\<close>

definition data_forward :: "ns_env \<Rightarrow> nat \<Rightarrow> sql_row \<Rightarrow> bool \<Rightarrow> (bool \<times> bool) ns" where
  "data_forward n i sql discard =
    (if r_roamState sql = Some roamsHANDOVER then
       bnd (read_mote i) (\<lambda>m. bnd (must (sNS_uplink n m (r_OptNeg sql) (ulmd_local m) discard)) (\<lambda>out.
         andthen (write_mote i ((uo_mote out)\<lparr>ulmd_local := uo_ulmd out\<rparr>)) (andthen (emit_all (uo_effects out))
           (return (False, uo_discard out)))))
     else if r_roamState sql = Some roamfPASSIVE then
       bnd (fNS_XmitDataReq_uplink n i sql) (\<lambda>_. andthen (drop_frame i) (return (True, discard)))
     else return (False, discard))"

definition data_check :: "ns_env \<Rightarrow> nat \<Rightarrow> sql_row \<Rightarrow> bool \<Rightarrow> (bool \<times> bool) ns" where
  "data_check n i sql discard =
    bnd (read_mote i) (\<lambda>m.
      if r_OptNeg sql \<and> \<not> (r_roamState sql = Some roamfPASSIVE \<and> \<not> r_enable_fNS_MIC sql) then
        bnd (must (ftry n m)) (\<lambda>(ok, m'). andthen (write_mote i m') (if ok then data_forward n i sql discard else return (True, discard)))
      else data_forward n i sql discard)"

text \<open>Whether the collection ends now, and whether the device is discarded.\<close>

definition fNS_uplink_finish :: "ns_env \<Rightarrow> nat \<Rightarrow> sql_row \<Rightarrow> bool \<Rightarrow> (bool \<times> bool) ns" where
  "fNS_uplink_finish n i sql discard =
    (if r_roamState sql \<notin> {Some roamNONE, Some roamsHANDOVER, Some roamfPASSIVE} then return (False, discard)
     else bnd (read_mote i) (\<lambda>m.
       let phy = ULPayloadBin m in
       (case mtype_of (phy ! 0) of
          MTYPE_REJOIN_REQ \<Rightarrow> rejoin_forward n i sql discard
        | MTYPE_JOIN_REQ \<Rightarrow> bnd (activate n i (join_eui_at 9 phy) (join_eui_at 1 phy)) (\<lambda>skip. return (skip, discard))
        | t \<Rightarrow>
            if t = MTYPE_UNCONF_UP \<or> t = MTYPE_CONF_UP then
              (if r_roamState sql = Some roamNONE then
                 (case parseDevAddr (fh_DevAddr (parse_fhdr phy)) of None \<Rightarrow> return (True, discard)
                  | Some (netid, _, _) \<Rightarrow>
                      if netid \<noteq> myNetwork_id32 n then start_or_discard n i netid (m_devAddr m) discard
                      else data_check n i sql discard)
               else data_check n i sql discard)
            else return (False, discard))))"

end
