(* ===== verification/Collect.thy ===== *)
theory Collect
  imports ForwardUp
begin

text \<open>
  The collection of an uplink (network_server/common.c): copies from partners
  join the one from the own gateways, the best one is kept, and when the time
  is over the uplink is finished and the partners are answered. The periodic
  service visits every device; the message dispatch of network_server/web.c
  hands answers to their handlers and requests to the collection. An answer
  of None is no answer in the HTTP reply.
\<close>

section \<open>The home server's join answer\<close>

definition store_app_key :: "json_api \<Rightarrow> ns_env \<Rightarrow> nat \<Rightarrow> fields \<Rightarrow> json \<Rightarrow> u64 \<Rightarrow> unit ns" where
  "store_app_key a n i obj key mid =
    (let label = (case map_of obj ''KEKLabel'' of Some l \<Rightarrow> quote (ja_text a l) | None \<Rightarrow> ''NULL'');
         q = ''UPDATE sessions SET AS_KEK_label = '' @ label @ '', AS_KEK_key = 0x'' @ ja_text a key @ '' WHERE ID = '' @ print_unsigned mid @
               '' ORDER BY createdAt DESC LIMIT 1''
     in bnd (must (c_text 512 q)) (\<lambda>q. bnd (send_statement n q) (\<lambda>_. bnd (read_mote i) (\<lambda>m. bnd (must (m_h m)) (\<lambda>h.
          write_mote i (m\<lparr>m_h := Some (h\<lparr>sendAppSKey := True\<rparr>)\<rparr>))))))"

definition on_JoinAns :: "json_api \<Rightarrow> ns_env \<Rightarrow> key_envelope_t \<Rightarrow> nat \<Rightarrow> fields \<Rightarrow> result \<Rightarrow> string \<Rightarrow> buf \<Rightarrow> unit ns" where
  "on_JoinAns a n ke i j res sender frame =
    bnd (hNs_to_sNS_JoinAns a n ke i j res sender frame) (\<lambda>r.
      if r < 0 then return ()
      else case map_of j ''AppSKey'' of None \<Rightarrow> return ()
      | Some obj \<Rightarrow>
          (case map_of (members obj) ''AESKey'' of None \<Rightarrow> return ()
           | Some key \<Rightarrow> bnd (read_mote i) (\<lambda>m.
               case getMoteID (n_db n) (m_devEui m) (m_devAddr m) of (mid, r2) \<Rightarrow>
                 if r2 \<noteq> Success then return () else store_app_key a n i (members obj) key mid)))"

section \<open>The end of a collection\<close>

text \<open>The session is read once per uplink; False is a failed read.\<close>

definition load_session :: "ns_env \<Rightarrow> nat \<Rightarrow> bool ns" where
  "load_session n i =
    bnd (read_mote i) (\<lambda>m.
      let load = (\<lambda>eui addr. case getSession (n_db n) (n_now n) eui addr 0 (session m) of (r, se) \<Rightarrow>
            andthen (write_mote i (m\<lparr>nth_session := 0, session := se\<rparr>)) (return (\<not> r < 0)))
      in if until (session m) \<noteq> 0 then return True
         else case mtype_of (ULPayloadBin m ! 0) of
           MTYPE_REJOIN_REQ \<Rightarrow> load (m_devEui m) NONE_DEVADDR
         | MTYPE_UNCONF_UP \<Rightarrow> load NONE_DEVEUI (m_devAddr m)
         | MTYPE_CONF_UP \<Rightarrow> load NONE_DEVEUI (m_devAddr m)
         | _ \<Rightarrow> return True)"

text \<open>An expired roaming ends here, but not by handover.\<close>

definition end_expired :: "ns_env \<Rightarrow> nat \<Rightarrow> sql_row \<Rightarrow> sql_row ns" where
  "end_expired n i sql =
    (if r_roamState sql \<noteq> Some roamNONE \<and> r_roamExpired sql \<and> r_roamState sql \<notin> {Some roamsHANDOVER, Some roamhHANDOVER}
     then bnd (read_mote i) (\<lambda>m. andthen (update_roam n (m_devEui m) (m_devAddr m) (Some roamNONE) None None None)
            (return (sql\<lparr>r_roamState := Some roamNONE\<rparr>)))
     else return sql)"

definition started_row :: "string option \<Rightarrow> sql_row \<Rightarrow> sql_row" where
  "started_row mt sql =
    (if mt = Some ''PRStartReq'' then sql\<lparr>r_roamState := Some roamsPASSIVE\<rparr>
     else if mt = Some ''HRStartReq'' then sql\<lparr>r_roamState := Some roamhHANDOVER\<rparr> else sql)"

definition is_start :: "string option \<Rightarrow> bool" where
  "is_start mt \<longleftrightarrow> mt = Some ''PRStartReq'' \<or> mt = Some ''HRStartReq''"

text \<open>The start of roaming by a data frame: the best partner gets the keys, the others wait. The best one is read.\<close>

definition answer_start :: "ns_env \<Rightarrow> nat \<Rightarrow> nat \<Rightarrow> requester_t \<Rightarrow> sql_row \<Rightarrow> (result \<times> fields \<times> sql_row) ns" where
  "answer_start n i k r sql =
    bnd (read_mote i) (\<lambda>m.
      let life = getLifetime (n_db n) (m_devEui m) NONE_DEVADDR;
          j = [(''Lifetime'', JInt life)] @ (if m_devEui m \<noteq> NONE_DEVEUI then [(''DevEUI'', JStr (print_hex (m_devEui m)))] else [])
      in if life < 1 then return (Other, [], sql)
         else bnd (must (bestR m)) (\<lambda>b.
           if b = k then bnd (sNS_answer_RStart_Success n i j) (\<lambda>(res, j'). return (res, j', started_row (rq_MessageType r) sql))
           else return (Deferred, j, sql)))"

text \<open>A payload goes to the application server; None is the answer that comes later.\<close>

definition answer_payload :: "ns_env \<Rightarrow> nat \<Rightarrow> requester_t \<Rightarrow> result option ns" where
  "answer_payload n i r =
    bnd (read_mote i) (\<lambda>m.
      if ULFRMPayloadLen m = 0 then return None
      else bnd (hNS_XmitDataReq_toAS n i (take (unat (ULFRMPayloadLen m)) (ULPayloadBin m)) (rq_ulmd r)) (\<lambda>res.
        andthen (modify_mote i (\<lambda>m. m\<lparr>ULFRMPayloadLen := 0\<rparr>)) (return (if res = Success then None else Some res))))"

text \<open>
  The result for one partner. Another kind of message has no result that is
  used: its answer is undefined, or not sent.
\<close>

definition partner_result :: "ns_env \<Rightarrow> nat \<Rightarrow> nat \<Rightarrow> requester_t \<Rightarrow> result \<Rightarrow> sql_row \<Rightarrow> (result option \<times> fields \<times> sql_row) ns" where
  "partner_result n i k r sqlResult sql =
    (if sqlResult \<noteq> Success then return (Some sqlResult, [], sql)
     else if is_start (rq_MessageType r) then
       bnd (answer_start n i k r sql) (\<lambda>(res, j, sql'). return (Some res, j, sql'))
     else if rq_MessageType r = Some ''XmitDataReq'' then bnd (answer_payload n i r) (\<lambda>res. return (res, [], sql))
     else return (Some Other, [], sql))"

text \<open>After the answer was posted its requester may be gone: reading it is undefined.\<close>

definition partner_posted :: "ns_env \<Rightarrow> nat \<Rightarrow> nat \<Rightarrow> result \<Rightarrow> fields \<Rightarrow> unit ns" where
  "partner_posted n i k res j =
    andthen (if map_of j ''PHYPayload'' \<noteq> None then bnd (sNSDownlinkSent n i Success False) (\<lambda>_. return ()) else return ())
      (if res = Success then bnd (read_requester i k) (\<lambda>r. if is_start (rq_MessageType r) then sNS_answer_RStart_Success_save n i else return ())
       else return ())"

definition answer_partner :: "ns_env \<Rightarrow> nat \<Rightarrow> result \<Rightarrow> nat \<Rightarrow> sql_row \<Rightarrow> sql_row ns" where
  "answer_partner n i sqlResult k sql =
    bnd (read_mote i) (\<lambda>m.
      case requester_at m k of None \<Rightarrow> return sql
      | Some r \<Rightarrow>
          if \<not> needsAnswer r \<or> mtype_of (ULPayloadBin m ! 0) \<in> {MTYPE_REJOIN_REQ, MTYPE_JOIN_REQ} then return sql
          else bnd (partner_result n i k r sqlResult sql) (\<lambda>(res, j, sql').
            case res of None \<Rightarrow> return sql'
            | Some x \<Rightarrow> bnd (r_post_ans_to_ns n i k x j) (\<lambda>ret.
                andthen (if ret = 0 then partner_posted n i k x j else return ()) (return sql'))))"

fun answer_partners :: "ns_env \<Rightarrow> nat \<Rightarrow> result \<Rightarrow> nat list \<Rightarrow> sql_row \<Rightarrow> sql_row ns" where
  "answer_partners n i sqlResult [] sql = return sql"
| "answer_partners n i sqlResult (k # ks) sql =
     bnd (answer_partner n i sqlResult k sql) (\<lambda>sql'. answer_partners n i sqlResult ks sql')"

record flags_t =
  f_discard :: bool
  f_skip_next :: bool

text \<open>What the application gets, and the frame in the receive window.\<close>

definition finish_json :: "json_api \<Rightarrow> ns_env \<Rightarrow> nat \<Rightarrow> sql_row \<Rightarrow> result option \<Rightarrow> unit ns" where
  "finish_json a n i sql uplinkResult =
    andthen (if uplinkResult = Some Success then bnd (sNS_finish_phy_downlink a n i sql (CHR ''A'') False) (\<lambda>_. return ()) else return ())
      (drop_frame i)"

definition finish_remote :: "json_api \<Rightarrow> ns_env \<Rightarrow> nat \<Rightarrow> result \<Rightarrow> sql_row \<Rightarrow> flags_t ns" where
  "finish_remote a n i sqlResult sql =
    bnd (read_mote i) (\<lambda>m0.
      let answers = (\<lambda>sql. answer_partners n i sqlResult [0..<length (requesterList m0)] sql) in
      if sqlResult \<noteq> Success \<and> bestR m0 \<noteq> None then
        bnd (answers sql) (\<lambda>sql'. andthen (finish_json a n i sql' None) (return \<lparr>f_discard = False, f_skip_next = False\<rparr>))
      else bnd (end_expired n i sql) (\<lambda>sql1.
        if r_roamState sql1 = Some roamDEFERRED then return \<lparr>f_discard = False, f_skip_next = True\<rparr>
        else if r_roamState sql1 = Some roamsHANDOVER then
          andthen (finish_json a n i sql1 None) (return \<lparr>f_discard = False, f_skip_next = False\<rparr>)
        else bnd (if bestR m0 \<noteq> None \<and> r_roamState sql1 \<in> {Some roamsPASSIVE, Some roamhHANDOVER} then bnd (must (best_requester m0)) (\<lambda>_. return ()) else return ()) (\<lambda>_.
          bnd (sNS_uplink_finish n i True sql1 False) (\<lambda>(res, discard). bnd (answers sql1) (\<lambda>sql2.
            andthen (finish_json a n i sql2 res) (return \<lparr>f_discard = discard, f_skip_next = False\<rparr>))))))"

definition finish_local :: "ns_env \<Rightarrow> nat \<Rightarrow> result \<Rightarrow> sql_row \<Rightarrow> flags_t ns" where
  "finish_local n i sqlResult sql =
    bnd (read_mote i) (\<lambda>m.
      if sqlResult \<noteq> Success \<and> m_devEui m \<noteq> NONE_DEVEUI then return \<lparr>f_discard = True, f_skip_next = True\<rparr>
      else bnd (end_expired n i sql) (\<lambda>sql1.
        if r_roamState sql1 = Some roamDEFERRED then return \<lparr>f_discard = False, f_skip_next = True\<rparr>
        else if r_roamState sql1 \<in> {Some roamNONE, Some roamfPASSIVE, Some roamsHANDOVER} then
          bnd (fNS_uplink_finish n i sql1 False) (\<lambda>(skip, discard). return \<lparr>f_discard = discard, f_skip_next = skip\<rparr>)
        else bnd (answer_partners n i sqlResult [0..<length (requesterList m)] sql1) (\<lambda>_. return \<lparr>f_discard = False, f_skip_next = False\<rparr>)))"

definition finish :: "json_api \<Rightarrow> ns_env \<Rightarrow> nat \<Rightarrow> bool \<Rightarrow> flags_t ns" where
  "finish a n i jsonFinish =
    bnd (load_session n i) (\<lambda>ok.
      if \<not> ok then return \<lparr>f_discard = True, f_skip_next = True\<rparr>
      else bnd (if jsonFinish then return ()
                else bnd (read_mote i) (\<lambda>m. bnd (must (bestULTokenStr m)) (\<lambda>t.
                  write_mote i (m\<lparr>ulmd_local := (ulmd_local m)\<lparr>ul_FNSULToken := Some t\<rparr>\<rparr>)))) (\<lambda>_.
        bnd (read_mote i) (\<lambda>m.
          case sql_motes_query (n_db n) (n_now n) (m_devEui m) (m_devAddr m) of (sqlResult, sql) \<Rightarrow>
            if jsonFinish then finish_remote a n i sqlResult sql else finish_local n i sqlResult sql)))"

section \<open>The periodic service\<close>

definition REQUEST_WAITING_SECONDS_LOCAL :: rat where "REQUEST_WAITING_SECONDS_LOCAL = to_double (2 / 10)"
definition REQUEST_WAITING_SECONDS_JSON :: rat where "REQUEST_WAITING_SECONDS_JSON = to_double (4 / 10)"

definition end_collection :: "nat \<Rightarrow> flags_t \<Rightarrow> unit ns" where
  "end_collection i fl =
    andthen (modify_mote i (\<lambda>m. m\<lparr>progress := PROGRESS_OFF, is_new := False\<rparr>))
      (if f_discard fl then (\<lambda>w. Some ((), w\<lparr>w_motes := (w_motes w)[i := None]\<rparr>)) else return ())"

definition service_collection :: "json_api \<Rightarrow> ns_env \<Rightarrow> nat \<Rightarrow> unit ns" where
  "service_collection a n i =
    bnd (read_mote i) (\<lambda>m.
      let waited = difftimespec (n_clock n) (first_uplink_host_time m) in
      (case progress m of
         PROGRESS_OFF \<Rightarrow> return ()
       | PROGRESS_LOCAL \<Rightarrow>
           if waited > REQUEST_WAITING_SECONDS_LOCAL then
             bnd (finish a n i False) (\<lambda>fl.
               if f_skip_next fl then end_collection i fl else modify_mote i (\<lambda>m. m\<lparr>progress := PROGRESS_JSON\<rparr>))
           else return ()
       | PROGRESS_JSON \<Rightarrow>
           if waited > REQUEST_WAITING_SECONDS_JSON then bnd (finish a n i True) (end_collection i) else return ()))"

text \<open>
  Every device of the list. A device that a handler adds behind them has
  nothing to serve yet, so that visiting it would change nothing.
\<close>

definition common_service :: "json_api \<Rightarrow> ns_env \<Rightarrow> unit ns" where
  "common_service a n w =
    each (\<lambda>i w. if w_motes w ! i = None then Some ((), w)
                else andthen (sNS_service a n i) (andthen (hNS_service n i) (service_collection a n i)) w)
      [0..<length (w_motes w)] w"

end
