(* ===== verification/NsDispatch.thy ===== *)
theory NsDispatch
  imports Collect
begin

text \<open>
  Messages that reach the network server: a partner's copy of an uplink and a
  downlink (uplinkJson, downlinkJson of network_server/common.c), the request
  for an application key, and the dispatch of requests and answers (ParseJson
  of network_server/web.c). A result is None when the answer is sent later;
  the members of the answer are None when no object was made for it.
\<close>

type_synonym reply = "result option \<times> fields option"

definition refuse :: "result \<Rightarrow> reply ns" where "refuse r = return (Some r, Some [])"

section \<open>A downlink\<close>

definition downlink_target :: "ns_env \<Rightarrow> DLMetaData_t \<Rightarrow> nat ns" where
  "downlink_target n md =
    (if dl_DevEUI md \<noteq> NONE_DEVEUI then find_mote n (dl_DevEUI md) NONE_DEVADDR else find_mote n (dl_DevEUI md) (dl_DevAddr md))"

definition serve_downlink ::
  "json_api \<Rightarrow> ns_env \<Rightarrow> u64 \<Rightarrow> string \<Rightarrow> fields \<Rightarrow> DLMetaData_t \<Rightarrow> buf \<Rightarrow> bool \<Rightarrow> reply ns" where
  "serve_downlink a n reqTid client dlj md pay httpd =
    bnd (downlink_target n md) (\<lambda>i.
      case map_of dlj ''FPort'' of None \<Rightarrow> return (Some InvalidFPort, None)
      | Some p \<Rightarrow>
          if ja_int a p = 0 then return (Some InvalidFPort, None)
          else bnd (read_mote i) (\<lambda>m.
            case sql_motes_query (n_db n) (n_now n) (m_devEui m) (m_devAddr m) of (sr, sql) \<Rightarrow>
              if sr \<noteq> Success then return (Some sr, None)
              else if r_roamState sql = Some roamhHANDOVER then
                bnd (hNS_XmitDataReq_down n i reqTid client pay md (r_roamingWithNetID sql)) (\<lambda>r. return (r, None))
              else hNS_to_sNS_downlink a n i reqTid client pay md httpd))"

definition downlinkJson :: "json_api \<Rightarrow> ns_env \<Rightarrow> u64 \<Rightarrow> string \<Rightarrow> fields \<Rightarrow> buf option \<Rightarrow> u8 \<Rightarrow> bool \<Rightarrow> reply ns" where
  "downlinkJson a n reqTid client dlj payBuf payLen httpd =
    bnd (must (parseDLMetaData a dlj zero_dlmd)) (\<lambda>(role, md).
      bnd (if role = fNS then bnd (fNS_downlink n md reqTid (Some client) payBuf payLen) (\<lambda>r. return (r, None))
           else if role = noneNS \<or> dl_DevEUI md = NONE_DEVEUI \<and> dl_DevAddr md = NONE_DEVADDR then return (Some MalformedRequest, None)
           else serve_downlink a n reqTid client dlj md (case payBuf of Some b \<Rightarrow> take (unat payLen) b | None \<Rightarrow> []) httpd) (\<lambda>(r, j).
        return (r, if r \<noteq> None \<and> j = None then Some [] else j)))"

section \<open>A copy of an uplink\<close>

text \<open>The octets GetMoteMtype reads of a frame.\<close>

definition join_octets :: "buf \<Rightarrow> nat" where
  "join_octets phy =
    (case mtype_of (phy ! 0) of MTYPE_JOIN_REQ \<Rightarrow> 17 | MTYPE_REJOIN_REQ \<Rightarrow> (if phy ! 1 = 1 then 18 else 13) | _ \<Rightarrow> 8)"

text \<open>The device, None when there is none, and whether the frame is a join request.\<close>

definition uplink_target :: "json_api \<Rightarrow> ns_env \<Rightarrow> fields \<Rightarrow> int \<Rightarrow> buf \<Rightarrow> (nat option \<times> bool) ns" where
  "uplink_target a n ulj frm pay =
    (if frm = 0 then
       (if length pay < join_octets pay then undefined_behaviour
        else (\<lambda>w. case GetMoteMtype (n_db n) (w_motes w) pay of (ms, i, joinReq) \<Rightarrow> Some ((i, joinReq), w\<lparr>w_motes := ms\<rparr>)))
     else if frm = 1 then
       (let eui = member ulj ''DevEUI'' (\<lambda>v. store (sscanf_hex (ja_text a v)) NONE_DEVEUI) NONE_DEVEUI;
            addr = member ulj ''DevAddr'' (\<lambda>v. store (sscanf_hex (ja_text a v)) NONE_DEVADDR) NONE_DEVADDR
        in bnd (if eui \<noteq> NONE_DEVEUI then find_mote n eui NONE_DEVADDR else find_mote n NONE_DEVEUI addr) (\<lambda>i. return (Some i, False)))
     else return (None, False))"

text \<open>Whether roaming may start with the sender; None goes on. A permission that is not in the row is what the variable held.\<close>

definition allowed_result :: "ns_env \<Rightarrow> mote_t \<Rightarrow> (bool \<times> bool \<times> bool \<Rightarrow> bool) \<Rightarrow> result option" where
  "allowed_result n m which =
    (let u = (stack32 n \<noteq> 0) in
     case isMotesAllowed (n_db n) (m_devEui m) (m_devAddr m) (u, u, u) of (res, flags3) \<Rightarrow>
       if res \<noteq> Success then Some (if m_devEui m = NONE_DEVEUI then UnknownDevAddr else UnknownDevEUI)
       else if \<not> which flags3 then Some RoamingActDisallowed else None)"

definition check_profile_age :: "json_api \<Rightarrow> ns_env \<Rightarrow> mote_t \<Rightarrow> string \<Rightarrow> fields \<Rightarrow> reply ns" where
  "check_profile_age a n m client j =
    (case map_of j ''DeviceProfileTimestamp'' of None \<Rightarrow> refuse MalformedRequest
     | Some v \<Rightarrow>
         bnd (must (getDeviceProfileTimestamp n m)) (\<lambda>ours.
           case ours of None \<Rightarrow> refuse Other
           | Some (_, tdb) \<Rightarrow>
               if n_mktime n (ja_text a v) < tdb then
                 bnd (must (jsonGetDeviceProfile n (m_devEui m) client [])) (\<lambda>(r, ans).
                   return (Some (if r = Success then StaleDeviceProfile else Other), Some ans))
               else return (None, None)))"

definition check_start :: "json_api \<Rightarrow> ns_env \<Rightarrow> mote_t \<Rightarrow> string \<Rightarrow> message_type \<Rightarrow> fields \<Rightarrow> reply ns" where
  "check_start a n m client mt j =
    (if mt = HRStartReq then
       bnd (net_allows n (scan_netid n client) ''HRAllowed'') (\<lambda>ok.
         if \<not> ok then refuse NoRoamingAgreement
         else case allowed_result n m (\<lambda>(_, h, _). h) of Some r \<Rightarrow> refuse r
         | None \<Rightarrow> check_profile_age a n m client j)
     else if mt = PRStartReq then
       bnd (net_allows n (scan_netid n client) ''PRAllowed'') (\<lambda>ok.
         if \<not> ok then refuse NoRoamingAgreement
         else case allowed_result n m (\<lambda>(p, _, _). p) of Some r \<Rightarrow> refuse r | None \<Rightarrow> return (None, None))
     else return (None, None))"

text \<open>The best gateway of the partner: quality, signal to noise and token. A node without data is undefined.\<close>

fun best_gateway :: "GWInfo_t option list \<Rightarrow> int \<times> int \<times> string option \<Rightarrow> (int \<times> int \<times> string option) option" where
  "best_gateway [] b = Some b"
| "best_gateway (None # gs) b = None"
| "best_gateway (Some g # gs) b =
     (let sq = SNR g * 12 + RSSI g in best_gateway gs (if sq > fst b then (sq, SNR g, gw_ULToken g) else b))"

definition take_copy :: "nat \<Rightarrow> buf \<Rightarrow> int \<times> int \<times> string option \<Rightarrow> mote_t \<Rightarrow> mote_t" where
  "take_copy k pay best m =
    (case best of (sq, snr, tok) \<Rightarrow>
      if sq > best_sq m then
        m\<lparr>ULPayloadBin := memcpy_at (ULPayloadBin m) 0 pay (length pay), ULPHYPayloadLen := word_of_nat (length pay), best_sq := sq,
          rx_snr := snr, bestR := Some k, bestULTokenStr := (if tok = None then bestULTokenStr m else tok)\<rparr>
      else m)"

definition blank_requester :: "string \<Rightarrow> string \<Rightarrow> u64 \<Rightarrow> requester_t" where
  "blank_requester mt client reqTid =
    \<lparr>needsAnswer = True, rq_MessageType = Some mt, ClientID = client, inTid = reqTid, rq_ulmd = zero_ulmd, ans_ans = False\<rparr>"

definition refuse_requester :: "nat \<Rightarrow> nat \<Rightarrow> reply ns" where
  "refuse_requester i k = andthen (modify_requester i k (\<lambda>r. r\<lparr>needsAnswer := False\<rparr>)) (refuse MalformedRequest)"

definition add_requester :: "json_api \<Rightarrow> nat \<Rightarrow> nat \<Rightarrow> fields \<Rightarrow> int \<Rightarrow> buf \<Rightarrow> reply ns" where
  "add_requester a i k ulj frm pay =
    bnd (read_mote i) (\<lambda>m. bnd (must (ParseULMetaData a ulj zero_ulmd)) (\<lambda>(ok, ul0).
      let ul = (if frm = 0 \<and> ok = 0 \<and> ul_DevEUI ul0 = NONE_DEVEUI \<and> m_devEui m \<noteq> NONE_DEVEUI then ul0\<lparr>ul_DevEUI := m_devEui m\<rparr> else ul0) in
      andthen (modify_requester i k (\<lambda>r. r\<lparr>rq_ulmd := ul\<rparr>))
        (if frm = 0 then
           (if ok \<noteq> 0 \<or> gwList ul = [] then refuse_requester i k
            else bnd (must (best_gateway (gwList ul) (INT_MIN, - 128, None))) (\<lambda>best.
              andthen (modify_mote i (take_copy k pay best)) (return (None, None))))
         else if ok < 0 then refuse_requester i k
         else andthen (modify_mote i (\<lambda>m. m\<lparr>ULFRMPayloadLen := word_of_nat (length pay),
                   ULPayloadBin := memcpy_at (ULPayloadBin m) 0 pay (length pay)\<rparr>))
                (andthen (modify_requester i k (\<lambda>r. r\<lparr>ans_ans := True\<rparr>)) (return (None, None))))))"

definition uplinkJson ::
  "json_api \<Rightarrow> ns_env \<Rightarrow> u64 \<Rightarrow> string \<Rightarrow> fields \<Rightarrow> fields \<Rightarrow> message_type \<Rightarrow> int \<Rightarrow> buf \<Rightarrow> reply ns" where
  "uplinkJson a n reqTid client ulj j mt frm pay =
    (if pay = [] then refuse MalformedRequest
     else bnd (uplink_target a n ulj frm pay) (\<lambda>(target, joinReq).
       case target of None \<Rightarrow> return (Some Other, None)
       | Some i \<Rightarrow>
           let rx2s = (if dl_rxwin n = 1 then (if joinReq then 5 else 1) else (if joinReq then 6 else 2)) in
           andthen (modify_mote i (\<lambda>m. if progress m = PROGRESS_OFF then save_uplink_start (n_clock n) m rx2s PROGRESS_JSON else m))
             (bnd (read_mote i) (\<lambda>m. bnd (check_start a n m client mt j) (\<lambda>(r, ans).
               if r \<noteq> None then return (r, ans)
               else andthen (write_mote i (m\<lparr>requesterList := requesterList m @ [Some (blank_requester (message_text mt) client reqTid)]\<rparr>))
                 (add_requester a i (length (requesterList m)) ulj frm pay))))))"

section \<open>The dispatch\<close>

text \<open>The device number is scanned into an uninitialised variable.\<close>

definition getAppSKey :: "json_api \<Rightarrow> ns_env \<Rightarrow> fields \<Rightarrow> (result \<times> fields) option" where
  "getAppSKey a n j =
    (case map_of j ''DevEUI'' of None \<Rightarrow> Some (MalformedRequest, [])
     | Some v \<Rightarrow>
         (case sscanf_hex (ja_text a v) of None \<Rightarrow> None
          | Some eui \<Rightarrow>
              map_option (\<lambda>(r, e, addr). (r, case e of Some fs \<Rightarrow> [(''AppSKey'', JObj fs), (''DevAddr'', JStr (print_hex addr))] | None \<Rightarrow> []))
                (getAppSKeyEnvelope n eui True)))"

definition MAXIMUM_FRM_SIZE :: nat where "MAXIMUM_FRM_SIZE = 255 - MINIMUM_PHY_SIZE"

text \<open>
  The payload of a message: the kind of payload, the octets and their number,
  or Inl for a wrong size. The number is an octet, and so many octets are
  written that a text of more than 512 digits leaves the array: undefined.
\<close>

definition read_payload :: "json_api \<Rightarrow> fields \<Rightarrow> (unit + int \<times> buf option \<times> u8) option" where
  "read_payload a j =
    (let (frm, v) = (case map_of j ''PHYPayload'' of Some v \<Rightarrow> (0, Some v)
           | None \<Rightarrow> (case map_of j ''FRMPayload'' of Some v \<Rightarrow> (1, Some v) | None \<Rightarrow> (- 1, None)))
     in case v of None \<Rightarrow> Some (Inr (frm, None, 0))
        | Some x \<Rightarrow>
            let t = ja_text a x; len = word_of_nat (length t div 2) :: u8 in
            if frm = 0 \<and> unat len < MINIMUM_PHY_SIZE \<or> frm = 1 \<and> unat len > MAXIMUM_FRM_SIZE then Some (Inl ())
            else if (length t + 1) div 2 > 256 then None
            else map_option (\<lambda>b. Inr (frm, Some b, len)) (hex_pairs ((length t + 1) div 2) t))"

definition call_back ::
  "json_api \<Rightarrow> ns_env \<Rightarrow> key_envelope_t \<Rightarrow> AnsCallback_t \<Rightarrow> nat \<Rightarrow> fields \<Rightarrow> result \<Rightarrow> string \<Rightarrow> buf option \<Rightarrow> u8 \<Rightarrow> unit ns" where
  "call_back a n ke cb i j res sender rfBuf rfLen =
    (case cb of
       fNS_XmitDataAnsCallback \<Rightarrow> on_fNS_XmitDataAns a n j rfBuf rfLen
     | PRStartAnsCallback \<Rightarrow> on_PRStartAns a n i j res sender rfBuf rfLen
     | ProfileAnsCallback \<Rightarrow> on_ProfileAns a n i j res sender
     | HomeNSAnsCallback \<Rightarrow> on_HomeNSAns a n i j res
     | hNS_JoinAnsCallback \<Rightarrow> on_JoinAns a n ke i j res sender (case rfBuf of Some b \<Rightarrow> take (unat rfLen) b | None \<Rightarrow> [])
     | hNS_XmitDataAnsCallback_downlink \<Rightarrow> on_XmitDataAns_downlink a i j res
     | hNS_XmitDataAnsCallback_uplink \<Rightarrow> on_XmitDataAns_uplink n i res
     | sNS_HRStartAnsCallback \<Rightarrow> on_HRStartAns a n ke i j res sender rfBuf rfLen
     | sNS_downlink_phy_answer \<Rightarrow> return ()
     | sNS_uplink_frm_answer \<Rightarrow> return ()
     | sNS_xRStopAnsCallback \<Rightarrow> on_xRStopAns n i res sender)"

definition dispatch_answer ::
  "json_api \<Rightarrow> ns_env \<Rightarrow> key_envelope_t \<Rightarrow> u64 \<Rightarrow> fields \<Rightarrow> result \<Rightarrow> string \<Rightarrow> buf option \<Rightarrow> u8 \<Rightarrow> unit ns" where
  "dispatch_answer a n ke tid j res sender rfBuf rfLen w =
    (case take_answer (w_motes w) tid of None \<Rightarrow> Some ((), w)
     | Some (i, cb, ms) \<Rightarrow>
         (case cb of None \<Rightarrow> return () | Some f \<Rightarrow> call_back a n ke f i j res sender rfBuf rfLen) (w\<lparr>w_motes := ms\<rparr>))"

text \<open>A request for a profile is refused without an answer when the sender's network is not known.\<close>

definition dispatch_request ::
  "json_api \<Rightarrow> ns_env \<Rightarrow> message_type \<Rightarrow> u64 \<Rightarrow> fields \<Rightarrow> string \<Rightarrow> int \<Rightarrow> buf option \<Rightarrow> u8 \<Rightarrow> bool \<Rightarrow> reply ns" where
  "dispatch_request a n mt tid j sender frm rfBuf rfLen httpd =
    (let some = (\<lambda>(r, fs). (Some r, Some fs)) in
     if mt = ProfileReq then
       bnd (net_allows n (scan_netid n sender) ''count(1)'') (\<lambda>ok.
         if \<not> ok then return (Some NoRoamingAgreement, None)
         else case map_of j ''DevEUI'' of None \<Rightarrow> return (Some MalformedRequest, None)
         | Some v \<Rightarrow> bnd (must (sscanf_hex (ja_text a v))) (\<lambda>eui.
             bnd (must (jsonGetDeviceProfile n eui sender [])) (\<lambda>r. return (some r))))
     else if mt = AppSKeyReq then bnd (must (getAppSKey a n j)) (\<lambda>r. return (some r))
     else if mt = PRStopReq \<or> mt = HRStopReq then bnd (RStop a n mt j sender) refuse
     else case (map_of j ''ULMetaData'', map_of j ''DLMetaData'') of
       (Some ul, _) \<Rightarrow> uplinkJson a n tid sender (members ul) j mt frm (case rfBuf of Some b \<Rightarrow> take (unat rfLen) b | None \<Rightarrow> [])
     | (None, Some dl) \<Rightarrow> downlinkJson a n tid sender (members dl) rfBuf rfLen httpd
     | _ \<Rightarrow> return (Some MalformedRequest, None))"

text \<open>
  The answer in the HTTP reply. An answer that came back for a request of this
  server has no reply (httpd is False): an object made for one is undefined.
\<close>

definition reply_with :: "ns_env \<Rightarrow> bool \<Rightarrow> message_type option \<Rightarrow> string \<Rightarrow> u64 \<Rightarrow> reply \<Rightarrow> fields option ns" where
  "reply_with n httpd ans sender tid rep =
    (case rep of
       (Some res, Some j) \<Rightarrow>
         if httpd then return (Some (lib_generate_json j sender (myNetwork_idStr n) tid (map_option message_text ans) (Some (result_text res))))
         else undefined_behaviour
     | (None, Some j) \<Rightarrow> if httpd then return (Some j) else undefined_behaviour
     | _ \<Rightarrow> return None)"

definition ParseJson :: "json_api \<Rightarrow> ns_env \<Rightarrow> key_envelope_t \<Rightarrow> bool \<Rightarrow> fields \<Rightarrow> fields option ns" where
  "ParseJson a n ke httpd j =
    bnd (must (lib_parse_json a j (myNetwork_idStr n))) (\<lambda>p.
      let sender = (case pj_sender p of Some s \<Rightarrow> s | None \<Rightarrow> stack_text n);
          tid = (case pj_tid p of Some t \<Rightarrow> t | None \<Rightarrow> 0);
          say = reply_with n httpd (pj_ans p) sender tid in
      if pj_result p = MalformedRequest then (if httpd then say (Some MalformedRequest, Some []) else return None)
      else if pj_ans p = None \<and> pj_received p = None \<or> pj_result p \<noteq> Success then return None
      else bnd (must (read_payload a j)) (\<lambda>pay.
        case pay of
          Inl _ \<Rightarrow> if httpd \<and> pj_ans p \<noteq> None then say (Some FrameSizeError, Some []) else return None
        | Inr (frm, rfBuf, rfLen) \<Rightarrow>
            (case (pj_ans p, pj_pmt p, pj_received p) of
               (None, _, Some res) \<Rightarrow> andthen (dispatch_answer a n ke tid j res sender rfBuf rfLen) (return None)
             | (Some _, Some mt, _) \<Rightarrow> bnd (dispatch_request a n mt tid j sender frm rfBuf rfLen httpd) say
             | _ \<Rightarrow> return None)))"

end
