(* ===== verification/SafeServer.thy ===== *)
theory SafeServer
  imports SafeGateway NsDispatch
begin

text \<open>
  The roles of the network server keep the invariant of its state: the home
  server, the serving server with its joins, roaming and downlinks, and the
  forwarding server's uplinks, whatever messages, rows and replies they meet.
\<close>

section \<open>Profiles and messages between servers\<close>

lemma safe_send_statement [safe_ops]: "safe (send_statement n q)"
  unfolding send_statement_def by (intro safe_rules)

lemma safe_saveServiceProfile [safe_ops]: "safe (saveServiceProfile a n m j)"
  unfolding saveServiceProfile_def updateServiceProfile_def insertServiceProfile_def Let_def by (intro safe_ops safe_rules)

lemma safe_saveDeviceProfile [safe_ops]: "safe (saveDeviceProfile a n i j)"
  unfolding saveDeviceProfile_def updateDeviceProfile_def insertDeviceProfile_def Let_def by (intro safe_ops safe_rules) simp

lemma safe_sendXmitDataReq [safe_ops]: "safe (sendXmitDataReq n i j dest host name payload cb)"
  unfolding sendXmitDataReq_def Let_def by (intro safe_ops safe_rules)

lemma safe_read_requester [safe_ops]: "safe (read_requester i k)"
  unfolding read_requester_def by (intro safe_rules)

lemma safe_modify_requester [safe_ops]: "safe (modify_requester i k f)"
  unfolding modify_requester_def by (intro safe_ops safe_rules) simp

lemma safe_free_requester [safe_ops]: "safe (free_requester i k)"
  unfolding free_requester_def by (intro safe_rules) simp

lemma safe_r_post_ans_to_ns [safe_ops]: "safe (r_post_ans_to_ns n i k res j)"
  unfolding r_post_ans_to_ns_def by (intro safe_ops safe_rules)

lemma safe_RStop [safe_ops]: "safe (RStop a n pmt j sender)"
  unfolding RStop_def by (intro safe_ops safe_rules)

lemma safe_send_answered_frame [safe_ops]: "safe (send_answered_frame a n j b len)"
  unfolding send_answered_frame_def by (intro safe_ops safe_rules)

lemma safe_take_address [safe_ops]: "safe (take_DevEUI a i j)" "safe (take_DevAddr a i j)"
  unfolding take_DevEUI_def take_DevAddr_def by (intro safe_rules; simp)+

lemma safe_xRStartAnsCallback [safe_ops]: "safe (xRStartAnsCallback a n h i j res sender b len mic life)"
  unfolding xRStartAnsCallback_def started_state_def by (intro safe_ops safe_rules)

section \<open>The home server\<close>

lemma join_settings_wf: "join_settings n m = (m', r) \<Longrightarrow> mote_wf m \<Longrightarrow> mote_wf m'"
  by (auto simp: join_settings_def Let_def split: option.splits)

lemma safe_hNS_toJS [safe_ops]: "safe (hNS_toJS n i c)"
  unfolding hNS_toJS_def Let_def by (intro safe_ops safe_rules) (auto intro: join_settings_wf)

lemma safe_hNS_XmitDataReq_toAS [safe_ops]: "safe (hNS_XmitDataReq_toAS n i frm ul)"
  unfolding hNS_XmitDataReq_toAS_def Let_def by (intro safe_ops safe_rules) simp

lemma safe_XmitDataAns [safe_ops]: "safe (on_XmitDataAns_downlink a i j res)" "safe (on_XmitDataAns_uplink n i res)"
  unfolding on_XmitDataAns_downlink_def on_XmitDataAns_uplink_def post_and_report_def Let_def
  by (intro safe_ops safe_rules; simp)+

lemma safe_post_and_report [safe_ops]: "safe (post_and_report n i k res j)"
  unfolding post_and_report_def by (intro safe_ops safe_rules)

lemma safe_hNS_XmitDataReq_down [safe_ops]: "safe (hNS_XmitDataReq_down n i tid who frm md dest)"
  unfolding hNS_XmitDataReq_down_def by (intro safe_ops safe_rules) simp

lemma safe_hNS_service [safe_ops]: "safe (hNS_service n i)"
  unfolding hNS_service_def by (intro safe_ops safe_rules) simp

section \<open>The serving server\<close>

lemma safe_drop_unused [safe_ops]: "safe (drop_unused n eui)"
proof (rule safeI)
  fix w x w' assume w: "world_wf w" and run: "drop_unused n eui w = Some (x, w')"
  obtain k qs left where d: "deleteNeverUsedSessions (n_db n) (n_mq n) eui (map (map_option m_devAddr) (w_motes w)) = (k, qs, left)"
    by (metis prod_cases3)
  have "length left = length (w_motes w)" using d unfolding deleteNeverUsedSessions_def
    by (auto simp: Let_def split: if_splits prod.splits sqlres.splits)
  then show "world_wf w' \<and> grows w w'" using w run
    by (auto simp: drop_unused_def d world_wf_def grows_def split: if_splits) (metis set_zip_leftD)
qed

lemma safe_store_session [safe_ops]: "safe (store_session n i life optneg)"
  unfolding store_session_def by (intro safe_ops safe_rules) simp

lemma safe_store_JoinEUI [safe_ops]: "safe (store_JoinEUI n i sender)"
  unfolding store_JoinEUI_def by (intro safe_ops safe_rules)

lemma safe_take_JoinAns [safe_ops]: "safe (take_JoinAns a n ke i life j sender)"
  unfolding take_JoinAns_def Let_def by (intro safe_ops safe_rules) auto

lemma safe_ensure_s [safe_ops]: "safe (ensure_s n i region)"
  unfolding ensure_s_def by (intro safe_rules) (auto intro: mote_wf_m_s)

lemma safe_sNS_sendHRStartReq [safe_ops]: "safe (sNS_sendHRStartReq n i net)"
  unfolding sNS_sendHRStartReq_def by (intro safe_ops safe_rules)

lemma safe_join_answer_one [safe_ops]: "safe (join_answer_one n i jdl frame k res ret)"
  unfolding join_answer_one_def join_answer_sent_def Let_def by (intro safe_ops safe_rules)

lemma safe_join_answers [safe_ops]: "safe (join_answers n i jdl frame ks res ret)"
  by (induction ks arbitrary: res ret) (auto intro!: safe_ops safe_rules)

lemma safe_sNS_JoinAnsJson [safe_ops]: "safe (sNS_JoinAnsJson n i jdl res frame)"
  unfolding sNS_JoinAnsJson_def by (intro safe_ops safe_rules)

lemma safe_answer_RStart [safe_ops]: "safe (sNS_answer_RStart_Success n i ans)" "safe (sNS_answer_RStart_Success_save n i)"
  unfolding sNS_answer_RStart_Success_def sNS_answer_RStart_Success_save_def Let_def by (intro safe_ops safe_rules)+

lemma safe_sNS_phy_downlink_local [safe_ops]: "safe (sNS_phy_downlink_local n i ul delay c)"
  unfolding sNS_phy_downlink_local_def by (intro safe_ops safe_rules) (auto intro!: s_wf_downlink)

lemma safe_schedule [safe_ops]: "safe (schedule i)"
  unfolding schedule_def by (intro safe_rules) (auto intro: with_s_wf schedule_wf mote_wf_s)

lemma safe_sNSDownlinkSent [safe_ops]: "safe (sNSDownlinkSent n i res httpd)"
  unfolding sNSDownlinkSent_def count_unconfirmed_def
  by (intro safe_ops safe_rules) (auto intro!: s_wf_downlink simp: mote_wf_def dest: mote_wf_s)

lemma safe_send_remote [safe_ops]: "safe (send_remote n i delay c)"
  unfolding send_remote_def by (intro safe_ops safe_rules) simp

lemma safe_finish_send [safe_ops]: "safe (finish_send n i c httpd)"
  unfolding finish_send_def Let_def by (intro safe_ops safe_rules)

lemma safe_set_best_ulmd [safe_ops]: "safe (set_best_ulmd i ul)"
  unfolding set_best_ulmd_def by (intro safe_ops safe_rules) simp

lemma safe_forward_payload [safe_ops]: "safe (forward_payload a n i sql port frm)"
  unfolding forward_payload_def Let_def by (intro safe_ops safe_rules)

lemma safe_sNS_finish_phy_downlink [safe_ops]: "safe (sNS_finish_phy_downlink a n i sql c httpd)"
  unfolding sNS_finish_phy_downlink_def by (intro safe_ops safe_rules) simp

lemma safe_send_now [safe_ops]: "safe (send_now a n i sql c col old httpd)"
  unfolding send_now_def class_timeout_def Let_def by (intro safe_ops safe_rules) (auto intro!: s_wf_downlink)

lemma safe_downlinkBC [safe_ops]: "safe (downlinkBC a n i sql httpd)"
  unfolding downlinkBC_def Let_def by (intro safe_ops safe_rules) (auto intro!: s_wf_downlink)

lemma safe_hNS_to_sNS_downlink [safe_ops]: "safe (hNS_to_sNS_downlink a n i tid who frm md httpd)"
  unfolding hNS_to_sNS_downlink_def Let_def
  by (intro safe_ops safe_rules) (auto intro!: s_wf_downlink dest!: write_at_len simp: mote_wf_def s_wf_def)

lemma safe_join_local [safe_ops]: "safe (join_local n i frame)"
  unfolding join_local_def by (intro safe_ops safe_rules) (auto intro!: s_wf_downlink dest!: write_at_len)

lemma safe_join_remote [safe_ops]: "safe (join_remote n i res frame)"
  unfolding join_remote_def by (intro safe_ops safe_rules) simp

lemma safe_hNs_to_sNS_JoinAns [safe_ops]: "safe (hNs_to_sNS_JoinAns a n ke i j res sender frame)"
  unfolding hNs_to_sNS_JoinAns_def
  by (intro safe_ops safe_rules) (auto intro!: s_wf_macq intro: mq.wipe_law [THEN conjunct1] s_wf_queue)

lemma safe_on_HRStartAns [safe_ops]: "safe (on_HRStartAns a n ke i j res sender b len)"
  unfolding on_HRStartAns_def renew_profile_def by (intro safe_ops safe_rules)

lemma safe_sNS_JoinReq [safe_ops]: "safe (sNS_JoinReq n i region)"
  unfolding sNS_JoinReq_def Let_def by (intro safe_ops safe_rules) (auto intro!: mote_wf_m_s dest: mote_wf_s split: option.split)

lemma safe_new_addr: "safe (\<lambda>w. bnd (modify_mote i (\<lambda>m. m\<lparr>m_devAddr := g w m\<rparr>)) return w)"
  by (rule safe_state [of "\<lambda>w0. bnd (modify_mote i (\<lambda>m. m\<lparr>m_devAddr := g w0 m\<rparr>)) return"]) (intro safe_rules, simp)

lemma safe_assignDevAddrToJS [safe_ops]: "safe (assignDevAddrToJS n i region)"
  unfolding assignDevAddrToJS_def by (intro safe_new_addr safe_ops safe_rules) simp

lemma rejoinTry_wf: "rejoinTry n mic m = Some r \<Longrightarrow> mote_wf (snd r) = mote_wf m"
proof (induction n mic m r rule: rejoinTry.raw_induct [rotated, consumes 1])
  case (1 rejoinTry n mic m r)
  obtain k se where g: "getSession (n_db n) (n_now n) (m_devEui m) (m_devAddr m) (nth_session m + 1) (session m) = (k, se)"
    by fastforce
  let ?m = "m\<lparr>nth_session := nth_session m + 1, session := se\<rparr>"
  have "snd r = m \<or> snd r = ?m \<or> rejoinTry n mic ?m = Some r"
    using 1(2) by (simp add: g Let_def split: if_split_asm) auto
  then show ?case using 1(1) [of n mic ?m r] by auto
qed

lemma safe_finish_rejoin [safe_ops]: "safe (finish_rejoin n i sql region)"
  unfolding finish_rejoin_def allow_rejoin_def Let_def
  by (intro safe_ops safe_rules) (auto dest: rejoinTry_wf)

lemma safe_finish_join [safe_ops]: "safe (finish_join n i region)"
  unfolding finish_join_def by (intro safe_ops safe_rules)

lemma safe_finish_data [safe_ops]: "regions_wf (n_regions n) \<Longrightarrow> safe (finish_data n i sql ul)"
  unfolding finish_data_def by (intro safe_ops safe_rules) (auto intro: sNS_uplink_wf)

lemma safe_sNS_uplink_finish [safe_ops]: "regions_wf (n_regions n) \<Longrightarrow> safe (sNS_uplink_finish n i json sql d)"
  unfolding sNS_uplink_finish_def by (intro safe_ops safe_rules)

lemma safe_on_xRStopAns [safe_ops]: "safe (on_xRStopAns n i res sender)"
  unfolding on_xRStopAns_def by (intro safe_ops safe_rules)

lemma safe_sNS_roamStop [safe_ops]: "safe (sNS_roamStop i)"
  unfolding sNS_roamStop_def by (intro safe_rules) (auto simp: mote_wf_def)

lemma safe_sNS_service [safe_ops]: "safe (sNS_service a n i)"
  unfolding sNS_service_def send_stop_def Let_def by (intro safe_ops safe_rules) simp

section \<open>The forwarding server\<close>

lemma safe_fNS_XmitDataReq_uplink [safe_ops]: "safe (fNS_XmitDataReq_uplink n i sql)"
  unfolding fNS_XmitDataReq_uplink_def Let_def by (intro safe_ops safe_rules)

lemma safe_start_requests [safe_ops]: "safe (sendPRStartReq n i net)" "safe (sendProfileReq n i net)" "safe (sendHomeNSReq n i e je)"
  unfolding sendPRStartReq_def sendProfileReq_def sendHomeNSReq_def Let_def by (intro safe_ops safe_rules)+

lemma safe_start_roaming [safe_ops]: "safe (start_roaming n i net addr)"
  unfolding start_roaming_def net_allows_def by (intro safe_ops safe_rules)

lemma safe_on_fNS_XmitDataAns [safe_ops]: "safe (on_fNS_XmitDataAns a n j b len)"
  unfolding on_fNS_XmitDataAns_def by (intro safe_ops safe_rules)

lemma safe_on_PRStartAns [safe_ops]: "safe (on_PRStartAns a n i j res sender b len)"
  unfolding on_PRStartAns_def start_sessions_def take_mic_key_def add_session_def take_own_DevEUI_def Let_def
  by (intro safe_ops safe_rules) simp

lemma safe_on_ProfileAns [safe_ops]: "safe (on_ProfileAns a n i j res sender)" "safe (on_HomeNSAns a n i j res)"
  unfolding on_ProfileAns_def on_HomeNSAns_def Let_def by (intro safe_ops safe_rules)+

lemma safe_drop_frame [safe_ops]: "safe (drop_frame i)"
  unfolding drop_frame_def by (intro safe_rules) simp

lemma safe_activate [safe_ops]: "safe (activate n i e je)"
  unfolding activate_def by (intro safe_ops safe_rules) simp

lemma ftry_wf: "ftry n m = Some r \<Longrightarrow> mote_wf (snd r) = mote_wf m"
proof (induction n m r rule: ftry.raw_induct [rotated, consumes 1])
  case (1 ftry n m r)
  obtain k se where g: "getSession (n_db n) (n_now n) NONE_DEVEUI (m_devAddr m) (nth_session m + 1) (session m) = (k, se)"
    by fastforce
  let ?m = "m\<lparr>nth_session := nth_session m + 1, session := se\<rparr>"
  have "snd r = m \<or> snd r = ?m \<or> ftry n ?m = Some r"
    using 1(2) by (simp add: g Let_def split: if_split_asm option.split_asm) auto
  then show ?case using 1(1) [of n ?m r] by auto
qed

lemma safe_data_check [safe_ops]: "regions_wf (n_regions n) \<Longrightarrow> safe (data_check n i sql d)"
  unfolding data_check_def data_forward_def
  by (intro safe_ops safe_rules) (auto dest: ftry_wf intro: sNS_uplink_wf)

lemma safe_fNS_uplink_finish [safe_ops]: "regions_wf (n_regions n) \<Longrightarrow> safe (fNS_uplink_finish n i sql d)"
  unfolding fNS_uplink_finish_def rejoin_forward_def start_or_discard_def Let_def by (intro safe_ops safe_rules)

section \<open>The collection and the dispatch\<close>

lemma safe_on_JoinAns [safe_ops]: "safe (on_JoinAns a n ke i j res sender frame)"
  unfolding on_JoinAns_def store_app_key_def Let_def by (intro safe_ops safe_rules) simp

lemma safe_load_session [safe_ops]: "safe (load_session n i)"
  unfolding load_session_def Let_def by (intro safe_rules) simp_all

lemma safe_end_expired [safe_ops]: "safe (end_expired n i sql)"
  unfolding end_expired_def by (intro safe_ops safe_rules)

lemma safe_answer_payload [safe_ops]: "safe (answer_payload n i r)"
  unfolding answer_payload_def by (intro safe_ops safe_rules) simp

lemma safe_answer_partner [safe_ops]: "safe (answer_partner n i res k sql)"
  unfolding answer_partner_def partner_result_def partner_posted_def answer_start_def Let_def by (intro safe_ops safe_rules)

lemma safe_answer_partners [safe_ops]: "safe (answer_partners n i res ks sql)"
  by (induction ks arbitrary: sql) (auto intro!: safe_ops safe_rules)

lemma safe_finish_json [safe_ops]: "safe (finish_json a n i sql res)"
  unfolding finish_json_def by (intro safe_ops safe_rules)

lemma safe_finish [safe_ops]: "regions_wf (n_regions n) \<Longrightarrow> safe (finish a n i json)"
  unfolding finish_def finish_remote_def finish_local_def Let_def by (intro safe_ops safe_rules) simp_all

lemma safe_remove_mote: "safe (\<lambda>w. Some ((), w\<lparr>w_motes := (w_motes w)[i := None]\<rparr>))"
proof (rule safeI)
  fix w x w' assume w: "world_wf w" and "Some ((), w\<lparr>w_motes := (w_motes w)[i := None]\<rparr>) = Some (x, w')"
  then have w': "w' = w\<lparr>w_motes := (w_motes w)[i := None]\<rparr>" by simp
  have "\<forall>m. Some m \<in> set ((w_motes w)[i := None]) \<longrightarrow> mote_wf m"
    using w set_update_subset_insert [of "w_motes w" i None] by (auto simp: world_wf_def)
  then show "world_wf w' \<and> grows w w'" unfolding w' using w by (intro safe_motes) simp_all
qed

lemma safe_end_collection [safe_ops]: "safe (end_collection i fl)"
  unfolding end_collection_def by (intro safe_remove_mote safe_rules) simp

lemma safe_progress: "safe p \<Longrightarrow> safe q \<Longrightarrow> safe r \<Longrightarrow> safe (case_progress_e p q r x)"
  by (cases x) auto

lemma safe_service_collection [safe_ops]: "regions_wf (n_regions n) \<Longrightarrow> safe (service_collection a n i)"
  unfolding service_collection_def Let_def by (intro safe_progress safe_ops safe_rules) simp_all

lemma safe_common_service: "regions_wf (n_regions n) \<Longrightarrow> safe (common_service a n)"
proof -
  assume r: "regions_wf (n_regions n)"
  have "safe (\<lambda>w. if w_motes w ! i = None then Some ((), w)
      else andthen (sNS_service a n i) (andthen (hNS_service n i) (service_collection a n i)) w)" (is "safe (\<lambda>w. if _ then _ else ?p w)") for i
  proof -
    have "safe ?p" using r by (intro safe_ops safe_rules)
    then show ?thesis by (auto simp: keeps_def)
  qed
  then have "safe (each (\<lambda>i w. if w_motes w ! i = None then Some ((), w)
      else andthen (sNS_service a n i) (andthen (hNS_service n i) (service_collection a n i)) w) [0..<k])" for k
    by (rule safe_each)
  then show ?thesis unfolding common_service_def keeps_def by blast
qed

section \<open>Messages\<close>

lemma safe_refuse [safe_ops]: "safe (refuse r)"
  unfolding refuse_def by (intro safe_rules)

lemma safe_downlinkJson [safe_ops]: "safe (downlinkJson a n tid client dl b len httpd)"
  unfolding downlinkJson_def serve_downlink_def downlink_target_def Let_def by (intro safe_ops safe_rules)

lemma safe_uplink_target [safe_ops]: "safe (uplink_target a n ulj frm pay)"
proof -
  have "safe (\<lambda>w. case GetMoteMtype (n_db n) (w_motes w) pay of (ms, i, j) \<Rightarrow> Some ((i, j), w\<lparr>w_motes := ms\<rparr>))"
    by (rule safeI) (auto intro!: safe_motes GetMoteMtype_wf world_wf_motes split: prod.splits)
  then show ?thesis unfolding uplink_target_def Let_def by (intro safe_ops safe_rules)
qed

lemma safe_check_start [safe_ops]: "safe (check_start a n m client mt j)"
  unfolding check_start_def check_profile_age_def net_allows_def by (intro safe_ops safe_rules)

lemma take_copy_wf:
  "mote_wf m \<Longrightarrow> length pay \<le> 256 \<Longrightarrow> k < length (requesterList m) \<Longrightarrow> mote_wf (take_copy k pay best m)"
  by (auto simp: take_copy_def mote_wf_def len_simps split: prod.split)

text \<open>A copy names its requester, whose node has just been written.\<close>

definition has_requester :: "nat \<Rightarrow> nat \<Rightarrow> ns_world \<Rightarrow> bool" where
  "has_requester i k w \<longleftrightarrow> i < length (w_motes w) \<and> (\<exists>m. w_motes w ! i = Some m \<and> k < length (requesterList m))"

lemma modify_requester_has: "modify_requester i k f w = Some (x, w') \<Longrightarrow> has_requester i k w'"
  by (auto simp: modify_requester_def read_requester_def modify_mote_def bnd_def read_mote_def write_mote_def must_def return_def
      undefined_behaviour_def requester_at_def has_requester_def split: if_splits option.splits)

lemma safe_modify_requester_then:
  assumes "safe (\<lambda>w. if has_requester i k w then q w else None)"
  shows "safe (andthen (modify_requester i k f) q)"
proof (rule safeI)
  fix w x w' assume w: "world_wf w" and "andthen (modify_requester i k f) q w = Some (x, w')"
  then obtain y w1 where m: "modify_requester i k f w = Some (y, w1)" and q: "q w1 = Some (x, w')"
    by (auto simp: andthen_def bnd_def split: option.splits)
  have "stays w w1" using safe_modify_requester m by (auto simp: keeps_def)
  moreover have "stays w1 w'" using assms q modify_requester_has [OF m] by (auto simp: keeps_def)
  ultimately show "world_wf w' \<and> grows w w'" using w stays_trans by (metis stays_def)
qed

lemma safe_guarded: "safe q \<Longrightarrow> safe (\<lambda>w. if h w then q w else None)"
  by (auto simp: keeps_def)

lemma safe_guarded_if:
  "(b \<Longrightarrow> safe (\<lambda>w. if h w then p w else None)) \<Longrightarrow> (\<not> b \<Longrightarrow> safe (\<lambda>w. if h w then q w else None)) \<Longrightarrow>
   safe (\<lambda>w. if h w then (if b then p else q) w else None)"
  by simp

lemma safe_guarded_must:
  "(\<And>x. v = Some x \<Longrightarrow> safe (\<lambda>w. if h w then q x w else None)) \<Longrightarrow> safe (\<lambda>w. if h w then bnd (must v) q w else None)"
  by (cases v) (auto simp: keeps_def bnd_def must_def undefined_behaviour_def return_def)

lemma safe_guarded_copy:
  assumes "length pay \<le> 256"
  shows "safe (\<lambda>w. if has_requester i k w then andthen (modify_mote i (take_copy k pay best)) (return r) w else None)"
proof (rule safeI)
  fix w x w'
  assume w: "world_wf w" and run: "(if has_requester i k w then andthen (modify_mote i (take_copy k pay best)) (return r) w else None) = Some (x, w')"
  then obtain m where m: "i < length (w_motes w)" "w_motes w ! i = Some m" "k < length (requesterList m)"
    by (auto simp: has_requester_def split: if_splits)
  then have "w' = w\<lparr>w_motes := (w_motes w)[i := Some (take_copy k pay best m)]\<rparr>"
    using run by (auto simp: andthen_def bnd_def modify_mote_def read_mote_def write_mote_def return_def split: if_splits)
  then have "write_mote i (take_copy k pay best m) w = Some ((), w')" using m by (simp add: write_mote_def)
  moreover have "mote_wf (take_copy k pay best m)" using take_copy_wf world_wf_mote [OF w m(1,2)] assms m(3) by blast
  ultimately show "world_wf w' \<and> grows w w'" using safeD [OF safe_write_mote] w by blast
qed

lemma safe_add_requester [safe_ops]:
  assumes "length pay \<le> 256"
  shows "safe (add_requester a i k ulj frm pay)"
  unfolding add_requester_def Let_def
  by (rule safe_bnd_read_mote, rule safe_bnd_must, rule safe_prod, rule safe_modify_requester_then,
      intro safe_guarded_copy safe_guarded_if safe_guarded_must safe_guarded)
    (unfold refuse_requester_def, (intro safe_ops safe_rules | simp add: assms mote_wf_def)+)

lemma safe_uplinkJson [safe_ops]:
  assumes "length pay \<le> 256"
  shows "safe (uplinkJson a n tid client ulj j mt frm pay)"
  using assms unfolding uplinkJson_def Let_def
  by (intro safe_ops safe_rules) (auto simp: mote_wf_def save_uplink_start_def Let_def less_Suc_eq)

lemma safe_call_back [safe_ops]: "safe (call_back a n ke cb i j res sender b len)"
  unfolding call_back_def by (cases cb) (simp_all, (intro safe_ops safe_rules)+)

lemma take_answer_wf:
  assumes "take_answer ms tid = Some (i, cb, ms')" "\<forall>m. Some m \<in> set ms \<longrightarrow> mote_wf m"
  shows "(\<forall>m. Some m \<in> set ms' \<longrightarrow> mote_wf m) \<and> length ms \<le> length ms'"
proof -
  let ?P = "\<lambda>n. case n of None \<Rightarrow> False | Some m \<Rightarrow> list_ex (\<lambda>t. ucast (sentTID t) = tid) (take NT (t_slots m))"
  obtain m k where i: "index_where ?P ms = Some i" "ms ! i = Some m"
    and ms': "ms' = ms[i := Some (m\<lparr>t_slots := (t_slots m)[k := (t_slots m ! k)\<lparr>AnsCallback := None\<rparr>]\<rparr>)]"
    using assms(1) unfolding take_answer_def by (auto split: option.splits)
  have "mote_wf m" using assms(2) i index_where_Some [OF i(1)] by (metis nth_mem)
  then have "mote_wf (m\<lparr>t_slots := (t_slots m)[k := (t_slots m ! k)\<lparr>AnsCallback := None\<rparr>]\<rparr>)" by (simp add: mote_wf_def)
  then show ?thesis using assms(2) set_update_subset_insert [of ms i] unfolding ms' by fastforce
qed

lemma safe_dispatch_answer [safe_ops]: "safe (dispatch_answer a n ke tid j res sender b len)"
proof (rule safeI)
  fix w x w' assume w: "world_wf w" and run: "dispatch_answer a n ke tid j res sender b len w = Some (x, w')"
  show "world_wf w' \<and> grows w w'"
  proof (cases "take_answer (w_motes w) tid")
    case None
    then show ?thesis using run w by (auto simp: dispatch_answer_def grows_def)
  next
    case (Some r)
    then obtain i cb ms where t: "take_answer (w_motes w) tid = Some (i, cb, ms)" by (metis prod_cases3)
    let ?w = "w\<lparr>w_motes := ms\<rparr>" and ?p = "case cb of None \<Rightarrow> return () | Some f \<Rightarrow> call_back a n ke f i j res sender b len"
    have run: "?p ?w = Some (x, w')" using run t by (simp add: dispatch_answer_def)
    have "safe ?p" by (intro safe_ops safe_rules)
    then have "stays ?w w'" using run by (auto simp: keeps_def)
    moreover have "stays w ?w" using safe_motes [OF w take_answer_wf [OF t world_wf_motes [OF w]]] by (simp add: stays_def)
    ultimately have "stays w w'" using stays_trans by blast
    then show ?thesis using w by (simp add: stays_def)
  qed
qed

lemma safe_dispatch_request [safe_ops]: "safe (dispatch_request a n mt tid j sender frm b len httpd)"
proof -
  have len: "length (case b of Some p \<Rightarrow> take (unat len) p | None \<Rightarrow> []) \<le> 256" for b :: "buf option" and len :: u8
    using less_imp_le [OF unat_byte_lt [of len]] by (auto split: option.split intro: le_trans [OF min.cobounded2])
  show ?thesis unfolding dispatch_request_def net_allows_def Let_def by (intro safe_ops safe_rules) (rule len)
qed

lemma safe_reply_with [safe_ops]: "safe (reply_with n httpd ans sender tid rep)"
  by (auto simp: reply_with_def split: option.splits prod.splits intro!: safe_rules)

lemma safe_ParseJson: "safe (ParseJson a n ke httpd j)"
  unfolding ParseJson_def Let_def by (intro safe_ops safe_rules)

end
