(* ===== verification/NsForms.thy ===== *)
theory NsForms
  imports NsDispatch
begin

text \<open>
  What the operator asks of the network server (network_server/web.c): the
  fields of a form, kept for a session, and what is done when it is submitted:
  devices, their profiles and keys, the other networks, roaming and the
  gateways' regions. An operation returns its result and the reason of a
  failure, empty when none was given; the reason is written into 1024 octets.
  A text that is longer than its array is undefined.
\<close>

section \<open>The form\<close>

datatype form_op = OPR_NONE | OPR_CREATE | OPR_DELETE | OPR_EDIT | OPR_ADD_PROFILES | OPR_RSTOP

record form_t =
  fm_DevEUI :: string
  fm_devAddr :: string
  fm_NwkAddr :: string
  fm_op :: form_op
  fm_addMote :: bool
  fm_addProfiles :: bool
  fm_ota :: bool
  fm_SNwkSIntKey :: string
  fm_FNwkSIntKey :: string
  fm_NwkSEncKey :: string
  fm_device :: DeviceProfile_t
  fm_service :: ServiceProfile_t
  fm_AS_ID :: string
  fm_moteID :: u64
  fm_target :: string
  fm_network :: u32
  fm_fMICup :: bool
  fm_KEKlabel :: string
  fm_KEK :: string
  fm_Lifetime :: u32
  fm_NetID :: string
  fm_gatewayID :: u64
  fm_region :: "string option"
  fm_redir_url :: string

text \<open>Values of the form that stand for a field the operator has to fill in.\<close>

definition FLT_MAX :: rat where "FLT_MAX = of_nat ((2 ^ 24 - 1) * 2 ^ 104)"
definition UINT_MAX :: u32 where "UINT_MAX = 0xffffffff"
definition INT_MAX :: int where "INT_MAX = 2147483647"

definition create_form :: form_t where
  "create_form =
    \<lparr>fm_DevEUI = [], fm_devAddr = [], fm_NwkAddr = [], fm_op = OPR_NONE, fm_addMote = False, fm_addProfiles = False, fm_ota = False,
     fm_SNwkSIntKey = [], fm_FNwkSIntKey = [], fm_NwkSEncKey = [],
     fm_device = \<lparr>SupportsClassB = False, ClassBTimeout = 0, PingSlotPeriod = 0, PingSlotDR = UINT_MAX, PingSlotFreq = FLT_MAX,
       SupportsClassC = True, ClassCTimeout = 0, RegParamsRevision = [], SupportsJoin = False, MACVersion = [],
       dp_RXDelay1 = UINT_MAX, RXDROffset1 = UINT_MAX, RXDataRate2 = UINT_MAX, RXFreq2 = FLT_MAX, FactoryPresetFreqs = [],
       MaxEIRP = INT_MAX, MaxDutyCycle = 0, dp_RFRegion = [], Supports32bitFCnt = False\<rparr>,
     fm_service = blank_profile, fm_AS_ID = [], fm_moteID = 0, fm_target = [], fm_network = 0, fm_fMICup = False,
     fm_KEKlabel = [], fm_KEK = [], fm_Lifetime = 0, fm_NetID = [], fm_gatewayID = 0, fm_region = None, fm_redir_url = []\<rparr>"

text \<open>A box that is not checked is not posted; all are cleared before the fields arrive.\<close>

definition post_init :: "form_t \<Rightarrow> form_t" where
  "post_init f = f\<lparr>fm_op := OPR_NONE,
     fm_device := (fm_device f)\<lparr>SupportsClassB := False, SupportsClassC := False, Supports32bitFCnt := False\<rparr>,
     fm_service := (fm_service f)\<lparr>AddGWMetadata := False, ReportDevStatusBattery := False, ReportDevStatusMargin := False,
       PRAllowed := False, HRAllowed := False, RAAllowed := False, NwkGeoLoc := False\<rparr>,
     fm_fMICup := False, fm_KEKlabel := [], fm_KEK := [], fm_DevEUI := [], fm_devAddr := [], fm_NwkAddr := [], fm_region := None\<rparr>"

text \<open>%f of sscanf: the value is the C library's, the text has to start like a number.\<close>

definition to_lower :: "char \<Rightarrow> char" where "to_lower c = (if c \<in> {CHR ''A''..CHR ''Z''} then char_of (of_char c + 32 :: nat) else c)"

definition starts_number :: "string \<Rightarrow> bool" where
  "starts_number t =
    (let u = dropWhile is_space t; v = (if take 1 u \<in> {''-'', ''+''} then drop 1 u else u); d = (\<lambda>s. s \<noteq> [] \<and> digit_val 10 (hd s) \<noteq> None)
     in d v \<or> take 1 v = ''.'' \<and> d (drop 1 v) \<or> map to_lower (take 3 v) \<in> {''inf'', ''nan''})"

definition scan_float :: "ns_env \<Rightarrow> string \<Rightarrow> rat \<Rightarrow> rat" where
  "scan_float n t old = (if starts_number t then to_float (n_float n t) else old)"

definition scan_signed :: "string \<Rightarrow> int \<Rightarrow> int" where
  "scan_signed t old = (case scan_value 10 t of None \<Rightarrow> old | Some v \<Rightarrow> sint (word_of_int v :: u32))"

text \<open>Hexadecimal in, decimal kept; a text that is no number is read from a variable without a value.\<close>

definition hextodec :: "nat \<Rightarrow> string \<Rightarrow> string option" where
  "hextodec k t = Option.bind (sscanf_hex t) (\<lambda>v. c_text k (print_unsigned (v :: u64)))"

definition parse_action :: "string \<Rightarrow> form_t \<Rightarrow> form_t" where
  "parse_action t f =
    (if t = ''create'' then f\<lparr>fm_op := OPR_CREATE, fm_addMote := True, fm_addProfiles := False\<rparr>
     else if t = ''createHome'' then f\<lparr>fm_op := OPR_CREATE, fm_addMote := True, fm_addProfiles := True\<rparr> else f)"

type_synonym field_action = "string \<Rightarrow> form_t \<Rightarrow> form_t option"

definition parse_text :: "nat \<Rightarrow> (string \<Rightarrow> form_t \<Rightarrow> form_t) \<Rightarrow> field_action" where
  "parse_text k upd t f = map_option (\<lambda>u. upd u f) (c_text k t)"

definition on_device :: "(string \<Rightarrow> DeviceProfile_t \<Rightarrow> DeviceProfile_t) \<Rightarrow> field_action" where
  "on_device upd t f = Some (f\<lparr>fm_device := upd t (fm_device f)\<rparr>)"

definition device_text :: "nat \<Rightarrow> (string \<Rightarrow> DeviceProfile_t \<Rightarrow> DeviceProfile_t) \<Rightarrow> field_action" where
  "device_text k upd = parse_text k (\<lambda>t f. f\<lparr>fm_device := upd t (fm_device f)\<rparr>)"

definition on_service :: "(string \<Rightarrow> ServiceProfile_t \<Rightarrow> ServiceProfile_t) \<Rightarrow> field_action" where
  "on_service upd t f = Some (f\<lparr>fm_service := upd t (fm_service f)\<rparr>)"

definition service_text :: "nat \<Rightarrow> (string \<Rightarrow> ServiceProfile_t \<Rightarrow> ServiceProfile_t) \<Rightarrow> field_action" where
  "service_text k upd = parse_text k (\<lambda>t f. f\<lparr>fm_service := upd t (fm_service f)\<rparr>)"

section \<open>The fields\<close>

definition device_actions :: "ns_env \<Rightarrow> (string \<times> field_action) list" where
  "device_actions n =
    [(''SupportsClassB'', on_device (\<lambda>t. SupportsClassB_update (\<lambda>_. True))),
     (''ClassBTimeout'', on_device (\<lambda>t. ClassBTimeout_update (store (sscanf_dec t)))),
     (''PingSlotPeriod'', on_device (\<lambda>t. PingSlotPeriod_update (store (sscanf_dec t)))),
     (''PingSlotDR'', on_device (\<lambda>t. PingSlotDR_update (store (sscanf_dec t)))),
     (''PingSlotFreq'', on_device (\<lambda>t. PingSlotFreq_update (scan_float n t))),
     (''SupportsClassC'', on_device (\<lambda>t. SupportsClassC_update (\<lambda>_. True))),
     (''ClassCTimeout'', on_device (\<lambda>t. ClassCTimeout_update (store (sscanf_dec t)))),
     (''RegParamsRevision'', device_text 16 (\<lambda>t. RegParamsRevision_update (\<lambda>_. t))),
     (''SupportsJoin'', on_device (\<lambda>t. SupportsJoin_update (\<lambda>_. True))),
     (''MACVersion'', device_text 32 (\<lambda>t. MACVersion_update (\<lambda>_. t))),
     (''RXDelay1'', on_device (\<lambda>t. dp_RXDelay1_update (store (sscanf_dec t)))),
     (''RXDROffset1'', on_device (\<lambda>t. RXDROffset1_update (store (sscanf_dec t)))),
     (''RXDataRate2'', on_device (\<lambda>t. RXDataRate2_update (store (sscanf_dec t)))),
     (''RXFreq2'', on_device (\<lambda>t. RXFreq2_update (scan_float n t))),
     (''FactoryPresetFreqs'', device_text 96 (\<lambda>t. FactoryPresetFreqs_update (\<lambda>_. t))),
     (''MaxEIRP'', on_device (\<lambda>t. MaxEIRP_update (scan_signed t))),
     (''MaxDutyCycle'', on_device (\<lambda>t. MaxDutyCycle_update (scan_float n t))),
     (''RFRegion'', device_text 32 (\<lambda>t. dp_RFRegion_update (\<lambda>_. t))),
     (''Supports32bitFCnt'', on_device (\<lambda>t. Supports32bitFCnt_update (\<lambda>_. True)))]"

definition service_actions :: "ns_env \<Rightarrow> (string \<times> field_action) list" where
  "service_actions n =
    [(''ULRate'', on_service (\<lambda>t. ULRate_update (store (sscanf_dec t)))),
     (''ULBucketSize'', on_service (\<lambda>t. ULBucketSize_update (store (sscanf_dec t)))),
     (''ULRatePolicy'', service_text 16 (\<lambda>t. ULRatePolicy_update (\<lambda>_. t))),
     (''DLRate'', on_service (\<lambda>t. DLRate_update (store (sscanf_dec t)))),
     (''DLBucketSize'', on_service (\<lambda>t. DLBucketSize_update (store (sscanf_dec t)))),
     (''DLRatePolicy'', service_text 16 (\<lambda>t. DLRatePolicy_update (\<lambda>_. t))),
     (''AddGWMetadata'', on_service (\<lambda>t. AddGWMetadata_update (\<lambda>_. True))),
     (''DevStatusReqFreq'', on_service (\<lambda>t. DevStatusReqFreq_update (store (sscanf_dec t)))),
     (''ReportDevStatusBattery'', on_service (\<lambda>t. ReportDevStatusBattery_update (\<lambda>_. True))),
     (''ReportDevStatusMargin'', on_service (\<lambda>t. ReportDevStatusMargin_update (\<lambda>_. True))),
     (''DRMin'', on_service (\<lambda>t. DRMin_update (store (sscanf_dec t)))),
     (''DRMax'', on_service (\<lambda>t. DRMax_update (store (sscanf_dec t)))),
     (''ChannelMask'', service_text 32 (\<lambda>t. ChannelMask_update (\<lambda>_. t))),
     (''PRAllowed'', on_service (\<lambda>t. PRAllowed_update (\<lambda>_. True))),
     (''HRAllowed'', on_service (\<lambda>t. HRAllowed_update (\<lambda>_. True))),
     (''RAAllowed'', on_service (\<lambda>t. RAAllowed_update (\<lambda>_. True))),
     (''NwkGeoLoc'', on_service (\<lambda>t. NwkGeoLoc_update (\<lambda>_. True))),
     (''TargetPER'', on_service (\<lambda>t. TargetPER_update (scan_float n t))),
     (''MinGWDiversity'', on_service (\<lambda>t. MinGWDiversity_update (store (sscanf_dec t))))]"

definition key_actions :: "ns_env \<Rightarrow> (string \<times> field_action) list" where
  "key_actions n =
    [(''DevEUI'', \<lambda>t f. map_option (\<lambda>u. f\<lparr>fm_DevEUI := u\<rparr>) (hextodec 40 t)),
     (''DevAddr'', \<lambda>t f. map_option (\<lambda>u. f\<lparr>fm_devAddr := u\<rparr>) (hextodec 16 t)),
     (''NwkAddr'', parse_text 16 (\<lambda>t f. f\<lparr>fm_NwkAddr := t\<rparr>)),
     (''action'', \<lambda>t f. Some (parse_action t f)),
     (''moteID'', \<lambda>t f. Some (f\<lparr>fm_moteID := store (sscanf_dec t) (fm_moteID f)\<rparr>)),
     (''NetID'', parse_text 12 (\<lambda>t f. f\<lparr>fm_NetID := t\<rparr>)),
     (''Lifetime'', \<lambda>t f. Some (f\<lparr>fm_Lifetime := store (sscanf_dec t) (fm_Lifetime f)\<rparr>)),
     (''SNwkSIntKey'', parse_text 64 (\<lambda>t f. f\<lparr>fm_SNwkSIntKey := t\<rparr>)),
     (''FNwkSIntKey'', parse_text 64 (\<lambda>t f. f\<lparr>fm_FNwkSIntKey := t\<rparr>)),
     (''NwkSEncKey'', parse_text 64 (\<lambda>t f. f\<lparr>fm_NwkSEncKey := t\<rparr>))] @
    device_actions n @ service_actions n @ [(''AS-ID'', parse_text 64 (\<lambda>t f. f\<lparr>fm_AS_ID := t\<rparr>))]"

text \<open>The key of these fields names a device.\<close>

definition data_actions :: "(string \<times> field_action) list" where
  "data_actions =
    [(''delete'', parse_text 64 (\<lambda>t f. f\<lparr>fm_target := t, fm_op := OPR_DELETE\<rparr>)),
     (''homeAdd'', parse_text 64 (\<lambda>t f. f\<lparr>fm_target := t, fm_op := OPR_ADD_PROFILES, fm_addMote := False, fm_addProfiles := True\<rparr>)),
     (''roamingUpdate'', parse_text 64 (\<lambda>t f. f\<lparr>fm_target := t, fm_op := OPR_NONE, fm_addMote := False, fm_addProfiles := False\<rparr>)),
     (''roamStop'', parse_text 64 (\<lambda>t f. f\<lparr>fm_target := t, fm_op := OPR_RSTOP, fm_addMote := False, fm_addProfiles := False\<rparr>))]"

text \<open>A NULL region in the database is compared: undefined.\<close>

definition changed_region :: "ns_env \<Rightarrow> string \<Rightarrow> string \<Rightarrow> form_t \<Rightarrow> form_t option" where
  "changed_region n gw region f =
    Option.bind (c_text 512 (''SELECT RFRegion FROM gateways WHERE eui = '' @ gw)) (\<lambda>q.
      case fetch n q of
        Some (row # _) \<Rightarrow>
          (case cell row 0 of None \<Rightarrow> None
           | Some t \<Rightarrow> Some (if region = t then f else f\<lparr>fm_gatewayID := store (sscanf_dec gw) (fm_gatewayID f), fm_region := getRFRegion region\<rparr>))
      | _ \<Rightarrow> Some f)"

definition network_field :: "string \<Rightarrow> string \<Rightarrow> form_t \<Rightarrow> form_t option" where
  "network_field key data f =
    (let service = (\<lambda>u. Some (f\<lparr>fm_service := u (fm_service f)\<rparr>)) in
     if key = ''NetID'' then Some (f\<lparr>fm_network := store (sscanf_hex data) (fm_network f)\<rparr>)
     else if key = ''PRAllowed'' then service (PRAllowed_update (\<lambda>_. True))
     else if key = ''HRAllowed'' then service (HRAllowed_update (\<lambda>_. True))
     else if key = ''RAAllowed'' then service (RAAllowed_update (\<lambda>_. True))
     else if key = ''fMICup'' then Some (f\<lparr>fm_fMICup := True\<rparr>)
     else if key = ''KEKlabel'' then parse_text 129 (\<lambda>t f. f\<lparr>fm_KEKlabel := t\<rparr>) data f
     else if key = ''KEK'' then parse_text 33 (\<lambda>t f. f\<lparr>fm_KEK := t\<rparr>) data f
     else if key = ''add'' then Some (f\<lparr>fm_op := OPR_CREATE\<rparr>)
     else if key = ''change'' then Some (f\<lparr>fm_op := OPR_EDIT\<rparr>)
     else if data = ''delete'' then Some (f\<lparr>fm_op := OPR_DELETE, fm_network := store (sscanf_dec key) (fm_network f)\<rparr>)
     else Some f)"

text \<open>One field of a form; the address of the form is not known when it is not set yet.\<close>

definition post_field :: "ns_env \<Rightarrow> string option \<Rightarrow> string \<Rightarrow> string \<Rightarrow> form_t \<Rightarrow> form_t option" where
  "post_field n url key data f =
    (if data = [] then Some f
     else if url = Some ''/networks'' then network_field key data f
     else if url = Some ''/gateways'' \<and> take 7 key = ''region_'' then changed_region n (drop 7 key) data f
     else case map_of (key_actions n) key of
            Some act \<Rightarrow> act data f
          | None \<Rightarrow> (case map_of data_actions data of Some act \<Rightarrow> act key f | None \<Rightarrow> Some f))"

fun post_fields_ns :: "ns_env \<Rightarrow> string option \<Rightarrow> (string \<times> string) list \<Rightarrow> form_t \<Rightarrow> form_t option" where
  "post_fields_ns n url [] f = Some f"
| "post_fields_ns n url ((key, data) # ks) f = Option.bind (post_field n url key data f) (post_fields_ns n url ks)"

end
