(* ===== verification/NsRequests.thy ===== *)
theory NsRequests
  imports NsForms
begin

text \<open>
  The operations of the operator's forms (network_server/web.c): the
  statements of each, in order, with the reason of every failure, and the
  submission of a form. A failure leaves the transaction it began open.
\<close>

section \<open>Outcomes\<close>

type_synonym outcome = "int \<times> string"

definition failed_ns :: "string \<Rightarrow> outcome ns" where "failed_ns t = return (- 1, take 1023 t)"

definition fine_ns :: "outcome ns" where "fine_ns = return (0, [])"

text \<open>The first failure ends a sequence.\<close>

definition unless_failed :: "outcome ns \<Rightarrow> outcome ns \<Rightarrow> outcome ns" where
  "unless_failed p q = bnd p (\<lambda>(r, t). if r < 0 then return (r, t) else q)"

text \<open>The error of the statement that was run last.\<close>

definition is_query :: "effect \<Rightarrow> bool" where "is_query e = (case e of Query _ \<Rightarrow> True | _ \<Rightarrow> False)"

definition last_error :: "ns_env \<Rightarrow> ns_world \<Rightarrow> string" where
  "last_error n w = (case find is_query (rev (w_eff w)) of Some (Query q) \<Rightarrow> n_error n q | _ \<Rightarrow> [])"

definition failed_last :: "ns_env \<Rightarrow> string \<Rightarrow> outcome ns" where
  "failed_last n t w = failed_ns (t @ last_error n w) w"

definition run_statement :: "ns_env \<Rightarrow> string \<Rightarrow> string \<Rightarrow> string \<Rightarrow> outcome ns" where
  "run_statement n before after q =
    bnd (run_query n q) (\<lambda>ok. if ok then fine_ns else failed_ns (before @ n_error n q @ after))"

text \<open>A statement that has to touch a row.\<close>

definition change_row :: "ns_env \<Rightarrow> string \<Rightarrow> string \<Rightarrow> string \<Rightarrow> string \<Rightarrow> outcome ns" where
  "change_row n before after none q =
    unless_failed (run_statement n before after q) (if n_affected n q < 1 then failed_ns none else fine_ns)"

definition endl :: string where "endl = [CHR 0x0A]"

text \<open>
  The number in the first cell of the first row. A NULL cell, and one that is
  no number, are undefined: the variable has no value yet.
\<close>

definition first_number :: "ns_env \<Rightarrow> string \<Rightarrow> string \<Rightarrow> string \<Rightarrow> ('a :: len word \<Rightarrow> outcome ns) \<Rightarrow> outcome ns" where
  "first_number n q no_row no_result f =
    (case n_db n q of
       SqlError \<Rightarrow> failed_ns (q @ '': '' @ n_error n q @ endl)
     | SqlNoResult \<Rightarrow> failed_ns no_result
     | SqlRows [] \<Rightarrow> failed_ns no_row
     | SqlRows (row # _) \<Rightarrow> bnd (must (Option.bind (cell row 0) sscanf_dec)) f)"

text \<open>Both parts of a name; each has an array of its own.\<close>

definition name_parts :: "nat \<Rightarrow> nat \<Rightarrow> string \<Rightarrow> (string \<times> string) option option" where
  "name_parts k1 k2 target =
    (case getTarget target of None \<Rightarrow> None
     | Some (r, eui, addr) \<Rightarrow>
         if r < 0 then Some None
         else case (c_text k1 eui, c_text k2 addr) of (Some e, Some a) \<Rightarrow> Some (Some (e, a)) | _ \<Rightarrow> None)"

definition in_quotes :: "string \<Rightarrow> string" where "in_quotes t = [CHR 0x22] @ t @ [CHR 0x22]"

section \<open>Other networks and gateways\<close>

definition quoted_or_null :: "string \<Rightarrow> string" where "quoted_or_null t = (if t = [] then ''NULL'' else quote t)"

definition updateNetwork :: "ns_env \<Rightarrow> form_t \<Rightarrow> outcome ns" where
  "updateNetwork n f =
    (let q = ''UPDATE roaming SET PRAllowed = '' @ print_bool (PRAllowed (fm_service f)) @ '', HRAllowed = '' @ print_bool (HRAllowed (fm_service f)) @
           '', RAAllowed = '' @ print_bool (RAAllowed (fm_service f)) @ '', fMICup = '' @ print_bool (fm_fMICup f) @
           '', KEKlabel = '' @ quoted_or_null (fm_KEKlabel f) @ '', KEK = '' @ (if fm_KEK f = [] then ''NULL'' else ''0x'' @ fm_KEK f) @
           '' WHERE NetID = '' @ print_unsigned (fm_network f)
     in change_row n (q @ ''<br>update roaming: '') [] ''roaming: nothing updated'' q)"

definition deleteNetwork :: "ns_env \<Rightarrow> form_t \<Rightarrow> outcome ns" where
  "deleteNetwork n f =
    change_row n ''delete from roaming: '' [] ''delete network: nothing deleted'' (''DELETE FROM roaming WHERE NetID = '' @ print_unsigned (fm_network f))"

definition addNetwork :: "ns_env \<Rightarrow> form_t \<Rightarrow> outcome ns" where
  "addNetwork n f =
    (if fm_network f = myNetwork_id32 n then failed_ns ''can only roam with other networks''
     else run_statement n ''insert into roaming: '' [] (''INSERT INTO roaming (NetID, PRAllowed, HRAllowed, RAAllowed, fMICup) VALUES ('' @
       print_unsigned (fm_network f) @ '', '' @ print_bool (PRAllowed (fm_service f)) @ '', '' @ print_bool (HRAllowed (fm_service f)) @ '', '' @
       print_bool (RAAllowed (fm_service f)) @ '', '' @ print_bool (fm_fMICup f) @ '')''))"

definition changeGatewayRegion :: "ns_env \<Rightarrow> form_t \<Rightarrow> outcome ns" where
  "changeGatewayRegion n f =
    (case fm_region f of None \<Rightarrow> failed_ns ''NULL RFRegion''
     | Some t \<Rightarrow>
         let q = ''UPDATE gateways SET RFRegion = '' @ quote t @ '' WHERE eui = '' @ print_unsigned (fm_gatewayID f)
         in unless_failed (change_row n (q @ '': '') endl (''no rows affected: '' @ q @ endl) q)
              (andthen (gateway_disconnect (fm_gatewayID f)) fine_ns))"

section \<open>Roaming\<close>

text \<open>None of the numbers is scanned into an initialised variable.\<close>

definition stopRoaming :: "ns_env \<Rightarrow> form_t \<Rightarrow> outcome ns" where
  "stopRoaming n f =
    bnd (must (name_parts 64 32 (fm_target f))) (\<lambda>parts. case parts of None \<Rightarrow> failed_ns (''get target '' @ in_quotes (fm_target f))
     | Some (eui, addr) \<Rightarrow>
         bnd (must (sscanf_dec eui)) (\<lambda>devEui. bnd (must (sscanf_dec addr)) (\<lambda>devAddr.
           bnd (find_mote n devEui devAddr) (\<lambda>i. andthen (sNS_roamStop i) fine_ns))))"

text \<open>None is a number that was not scanned.\<close>

definition strGetMotesWhere :: "ns_env \<Rightarrow> string \<Rightarrow> string \<Rightarrow> (result \<times> string) option" where
  "strGetMotesWhere n eui addr =
    (if eui \<noteq> [] then Some (Success, ''DevEUI = '' @ eui)
     else case n_db n (''SELECT ID FROM sessions WHERE DevAddr = '' @ addr) of
         SqlRows (row # _) \<Rightarrow> map_option (\<lambda>i. (Success, ''ID = '' @ print_unsigned (i :: u32))) (Option.bind (cell row 0) sscanf_dec)
       | SqlRows [] \<Rightarrow> Some (UnknownDevAddr, [])
       | _ \<Rightarrow> Some (Other, []))"

text \<open>No reason is given when the device is not found.\<close>

definition updateRoaming :: "ns_env \<Rightarrow> form_t \<Rightarrow> outcome ns" where
  "updateRoaming n f =
    bnd (must (name_parts 64 32 (fm_target f))) (\<lambda>parts. case parts of None \<Rightarrow> failed_ns (''get target '' @ in_quotes (fm_target f))
     | Some (eui, addr) \<Rightarrow>
         bnd (must (strGetMotesWhere n eui addr)) (\<lambda>(res, wh).
           if res \<noteq> Success then return (- 1, [])
           else let q = ''UPDATE motes SET sNSLifetime = '' @ print_unsigned (fm_Lifetime f) @ '', fwdToNetID = '' @ fm_NetID f @ '' WHERE '' @ wh
                in change_row n ''update motes: '' endl (''update motes: nothing updated: '' @ q @ endl) q))"

section \<open>Session keys of a personalised device\<close>

text \<open>
  A key is refused unless it starts with 32 hexadecimal digits. The digits are
  written into 16 octets, also when there are more of them: None.
\<close>

definition key_of_field :: "string \<Rightarrow> buf option option" where
  "key_of_field t =
    (if numHexDigits t < 32 then Some None
     else case ascii_hex_loop t of (r, b) \<Rightarrow> if length b > 16 then None else if r < 0 then Some None else Some (Some b))"

definition with_key :: "string \<Rightarrow> string \<Rightarrow> (buf \<Rightarrow> outcome ns) \<Rightarrow> outcome ns" where
  "with_key name t f =
    bnd (must (key_of_field t)) (\<lambda>k. case k of None \<Rightarrow> failed_ns (name @ '' < 32 hex digits'') | Some b \<Rightarrow> f b)"

definition updateSKeys :: "ns_env \<Rightarrow> form_t \<Rightarrow> outcome ns" where
  "updateSKeys n f =
    with_key ''SNwkSIntKey'' (fm_SNwkSIntKey f) (\<lambda>s. with_key ''FNwkSIntKey'' (fm_FNwkSIntKey f) (\<lambda>k. with_key ''NwkSEncKey'' (fm_NwkSEncKey f) (\<lambda>e.
      let sel = ''SELECT ID FROM sessions WHERE DevAddr = '' @ fm_devAddr f
      in unless_failed
           (change_row n ''update SKeys: '' endl ''update SKeys: nothing updated''
             (''UPDATE sessions SET SNwkSIntKey = 0x'' @ hex_of_buf s @ '', FNwkSIntKey = 0x'' @ hex_of_buf k @
              '', NwkSEncKey = 0x'' @ hex_of_buf e @ '' WHERE DevAddr = '' @ fm_devAddr f))
           (first_number n sel (''sessions DevAddr '' @ sel @ '': no row'' @ endl) (sel @ '': no result'' @ endl) (\<lambda>mid.
              run_statement n ''update motes: '' endl
                (''UPDATE motes SET OptNeg = '' @ print_bool (\<not> (k = s \<and> k = e)) @ '' WHERE ID = '' @ print_unsigned (mid :: u32)))))))"

section \<open>Devices and profiles\<close>

text \<open>The number of the new device; 0 is a failure.\<close>

definition addMote :: "ns_env \<Rightarrow> form_t \<Rightarrow> (u64 \<times> string) ns" where
  "addMote n f =
    (if fm_DevEUI f = [] \<and> fm_devAddr f = [] then return (0, ''addMote: nothing to add'')
     else let ota = fm_DevEUI f \<noteq> [];
              q = ''INSERT INTO motes (fwdToNetID'' @ (if ota then '', DevEUI'' else []) @ '') VALUES ('' @
                  (if fm_NetID f = [] then ''NULL'' else fm_NetID f) @ (if ota then '', '' @ fm_DevEUI f else []) @ '')''
          in bnd (run_query n q) (\<lambda>ok.
               if \<not> ok then return (0, take 1023 (''addMote '' @ print_unsigned (n_errno n q) @ '': '' @ n_error n q))
               else let mid = n_insert_id n q in
                 if fm_devAddr f = [] then return (mid, [])
                 else let q2 = ''INSERT INTO sessions (ID, DevAddr) VALUES ('' @ print_unsigned mid @ '', '' @ fm_devAddr f @ '')''
                      in bnd (run_query n q2) (\<lambda>ok2.
                           return (if ok2 then (mid, []) else (0, take 1023 (''addMote: '' @ n_error n q2))))))"

definition updateProfiles :: "ns_env \<Rightarrow> form_t \<Rightarrow> outcome ns" where
  "updateProfiles n f =
    unless_failed (run_statement n ''BEGIN '' [] ''BEGIN'')
    (bnd (updateDeviceProfile n True (fm_device f) (fm_moteID f)) (\<lambda>r.
       if r < 0 then failed_last n ''update DeviceProfiles '' else
     bnd (updateServiceProfile n (fm_service f) (fm_moteID f)) (\<lambda>r2.
       if r2 < 0 then failed_last n ''ServiceProfiles '' else
     unless_failed (run_statement n ''RoutingProfiles '' []
         (''UPDATE RoutingProfiles SET AS_ID = '' @ quote (fm_AS_ID f) @ '' WHERE RoutingProfileID = '' @ print_unsigned (fm_moteID f)))
       (run_statement n ''COMMIT '' [] ''COMMIT''))))"

text \<open>The profiles of a device that has a number; the reason of an earlier failure is kept.\<close>

definition insert_profiles :: "ns_env \<Rightarrow> form_t \<Rightarrow> u64 \<Rightarrow> string \<Rightarrow> outcome ns" where
  "insert_profiles n f mid t0 =
    unless_failed (run_statement n ''newProfiles BEGIN '' [] ''BEGIN'')
    (bnd (insertDeviceProfile n True (fm_device f) mid) (\<lambda>r.
       if r \<noteq> 1 then failed_last n ''newProfiles insertDeviceProfile(): '' else
     bnd (insertServiceProfile n (fm_service f) mid) (\<lambda>r2.
       if r2 < 0 then failed_last n ''newProfiles ServiceProfiles ''
       else if r2 \<noteq> 1 then failed_ns (''newProfiles ServiceProfiles '' @ print_int r2 @ '' inserted rows'') else
     let q = ''INSERT INTO RoutingProfiles (RoutingProfileID, AS_ID) VALUES ('' @ print_unsigned mid @ '', '' @ quote (fm_AS_ID f) @ '')'' in
     unless_failed (run_statement n ''newProfiles RoutingProfiles '' [] q)
     (if n_affected n q \<noteq> 1 then failed_ns (''newProfiles ServiceProfiles '' @ print_int (n_affected n q) @ '' inserted rows'')
      else unless_failed (run_statement n ''newProfiles COMMIT '' [] ''COMMIT'') (return (0, t0))))))"

definition newProfiles :: "ns_env \<Rightarrow> form_t \<Rightarrow> bool \<Rightarrow> outcome ns" where
  "newProfiles n f newMote =
    (if newMote then bnd (addMote n f) (\<lambda>(mid, t). insert_profiles n f mid t)
     else bnd (must (strGetMotesWhere n (fm_DevEUI f) (fm_devAddr f))) (\<lambda>(res, wh).
       if res \<noteq> Success then return (- 1, [])
       else let q = ''SELECT ID FROM motes WHERE '' @ wh
            in first_number n q (''motes ID '' @ q @ '': no row'' @ endl) (q @ '': no result'' @ endl) (\<lambda>mid. insert_profiles n f mid [])))"

text \<open>Fields that have to be filled in; the others get a value. The reason is empty when the form is accepted.\<close>

definition class_b_fields :: "DeviceProfile_t \<Rightarrow> DeviceProfile_t \<times> string" where
  "class_b_fields dp =
    (if SupportsClassB dp then
       (dp, if PingSlotFreq dp = FLT_MAX then ''PingSlotFreq required for classB''
            else if PingSlotDR dp = UINT_MAX then ''PingSlotDR required for classB'' else [])
     else (dp\<lparr>PingSlotFreq := (if PingSlotFreq dp = FLT_MAX then 0 else PingSlotFreq dp),
              PingSlotDR := (if PingSlotDR dp = UINT_MAX then 0 else PingSlotDR dp)\<rparr>, []))"

definition window_fields :: "DeviceProfile_t \<Rightarrow> DeviceProfile_t \<times> string" where
  "window_fields dp =
    (if \<not> SupportsJoin dp then
       (dp, if dp_RXDelay1 dp = UINT_MAX then ''ABP RXDelay1 required''
            else if RXDROffset1 dp = UINT_MAX then ''ABP RXDROffset1 required''
            else if RXDataRate2 dp = UINT_MAX then ''ABP RXDataRate2 required''
            else if RXFreq2 dp = FLT_MAX then ''ABP RXFreq2 required'' else [])
     else (dp\<lparr>dp_RXDelay1 := (if dp_RXDelay1 dp = UINT_MAX then 1 else dp_RXDelay1 dp),
              RXDROffset1 := (if RXDROffset1 dp = UINT_MAX then 0 else RXDROffset1 dp),
              RXFreq2 := (if RXFreq2 dp = FLT_MAX then 0 else RXFreq2 dp),
              RXDataRate2 := (if RXDataRate2 dp = UINT_MAX then 0 else RXDataRate2 dp)\<rparr>, []))"

definition checkProfiles :: "DeviceProfile_t \<Rightarrow> DeviceProfile_t \<times> string" where
  "checkProfiles dp =
    (case class_b_fields dp of (dp1, t) \<Rightarrow>
       if t \<noteq> [] then (dp1, t)
       else if MACVersion dp1 = [] then (dp1, ''MACVersion required'')
       else if MaxEIRP dp1 = INT_MAX then (dp1, ''MaxEIRP required'')
       else if SupportsClassC dp1 \<and> ClassCTimeout dp1 = UINT_MAX then (dp1, ''MaxEIRP required'')
       else window_fields dp1)"

text \<open>With neither part of the name the query was never written.\<close>

definition delete_text :: "string \<Rightarrow> string \<Rightarrow> u64 \<Rightarrow> string" where
  "delete_text table col i = ''DELETE FROM '' @ table @ '' WHERE '' @ col @ '' = '' @ print_unsigned i"

definition delete_rows :: "ns_env \<Rightarrow> u64 \<Rightarrow> outcome ns" where
  "delete_rows n mid =
    (let motes = delete_text ''motes'' ''ID'' mid; sessions = delete_text ''sessions'' ''ID'' mid
     in unless_failed (run_statement n ''BEGIN '' [] ''BEGIN'')
       (unless_failed (run_statement n ''delete device profile: '' endl (delete_text ''DeviceProfiles'' ''DeviceProfileID'' mid))
       (unless_failed (run_statement n ''delete service profile: '' endl (delete_text ''ServiceProfiles'' ''ServiceProfileID'' mid))
       (unless_failed (run_statement n ''delete routing profile: '' endl (delete_text ''RoutingProfiles'' ''RoutingProfileID'' mid))
       (unless_failed (run_statement n (motes @ '': '') endl motes)
       (unless_failed (run_statement n (sessions @ '': '') endl sessions)
         (run_statement n ''COMMIT '' [] ''COMMIT'')))))))"

definition deleteMote_ns :: "ns_env \<Rightarrow> form_t \<Rightarrow> outcome ns" where
  "deleteMote_ns n f =
    bnd (must (name_parts 64 32 (fm_target f))) (\<lambda>parts. case parts of
       None \<Rightarrow> failed_ns (''deleteMote getTarget '' @ in_quotes (fm_target f))
     | Some (eui, addr) \<Rightarrow>
         if eui = [] \<and> addr = [] then undefined_behaviour
         else let q = (if eui \<noteq> [] then ''SELECT ID FROM motes WHERE DevEUI = '' @ eui else ''SELECT ID FROM sessions WHERE DevAddr = '' @ addr)
              in first_number n q (q @ '': no row'' @ endl) (q @ '': no result'' @ endl) (delete_rows n))"

section \<open>A form is submitted\<close>

text \<open>The address of a personalised device is the network's block with the part the operator chose.\<close>

definition NwkAddrStr_to_devAddrStr :: "ns_env \<Rightarrow> form_t \<Rightarrow> form_t \<times> int \<times> string" where
  "NwkAddrStr_to_devAddrStr n f =
    (let top = push_bit (nwkAddrBits n) 1 + 1 :: u32 in
     case sscanf_hex (fm_NwkAddr f) :: u32 option of
       None \<Rightarrow> (f, - 1, ''nwkAddr invalid'')
     | Some a \<Rightarrow>
         if a > top then (f, - 1, ''nwkAddr too large ('' @ print_hex a @ '' > '' @ print_hex top @ '')'')
         else (f\<lparr>fm_devAddr := print_unsigned (devAddrBase n OR a)\<rparr>, 0, []))"

definition show_page :: "string \<Rightarrow> form_t \<Rightarrow> form_t" where "show_page u f = f\<lparr>fm_redir_url := u\<rparr>"

text \<open>The page is shown when the operation succeeded.\<close>

definition then_show :: "string \<Rightarrow> form_t \<Rightarrow> outcome ns \<Rightarrow> (form_t \<times> string) ns" where
  "then_show u f p = bnd p (\<lambda>(r, t). return (if r = 0 then show_page u f else f, t))"

fun op_code :: "form_op \<Rightarrow> nat" where
  "op_code OPR_NONE = 0" | "op_code OPR_CREATE = 1" | "op_code OPR_DELETE = 2" | "op_code OPR_EDIT = 3"
| "op_code OPR_ADD_PROFILES = 4" | "op_code OPR_RSTOP = 5"

definition submit_create :: "ns_env \<Rightarrow> form_t \<Rightarrow> (form_t \<times> string) ns" where
  "submit_create n f =
    (if (fm_DevEUI f = []) = (fm_NwkAddr f = []) then return (f, ''enter either DevEUI(OTA) or NwkAddr(ABP)'')
     else case (if fm_NwkAddr f \<noteq> [] then NwkAddrStr_to_devAddrStr n f else (f, 0, [])) of (f1, r, t) \<Rightarrow>
       if r < 0 then return (f1, t)
       else let f2 = f1\<lparr>fm_ota := (fm_DevEUI f1 \<noteq> [])\<rparr> in
         if fm_addProfiles f2 then
           (if fm_NetID f2 \<noteq> ''NULL'' then return (f2, ''adding profiles requires foreign NetID to be none'')
            else return (show_page (if fm_addMote f2 then ''/addProfilesToNewURL'' else ''/addProfilesToExistingURL'') f2, []))
         else bnd (addMote n f2) (\<lambda>(mid, t1). return (if mid > 0 then show_page ''/motes'' f2 else f2, t1)))"

definition submit_add_profiles :: "form_t \<Rightarrow> (form_t \<times> string) ns" where
  "submit_add_profiles f =
    bnd (must (name_parts 48 24 (fm_target f))) (\<lambda>parts. case parts of
       None \<Rightarrow> return (f, ''OPR_ADD_PROFILES getTarget '' @ in_quotes (fm_target f))
     | Some (eui, addr) \<Rightarrow>
         bnd (must (if eui \<noteq> [] then map_option (\<lambda>e. f\<lparr>fm_ota := True, fm_DevEUI := e\<rparr>) (c_text 40 eui)
                    else map_option (\<lambda>a. f\<lparr>fm_ota := False, fm_devAddr := a\<rparr>) (c_text 16 addr))) (\<lambda>f1.
           return (show_page ''/addProfilesToExistingURL'' f1, [])))"

definition submit_motes_ns :: "ns_env \<Rightarrow> form_t \<Rightarrow> (form_t \<times> string) ns" where
  "submit_motes_ns n f =
    (case fm_op f of
       OPR_CREATE \<Rightarrow> submit_create n f
     | OPR_DELETE \<Rightarrow> then_show ''/motes'' f (deleteMote_ns n f)
     | OPR_EDIT \<Rightarrow> return (f, ''OPR_EDIT'')
     | OPR_ADD_PROFILES \<Rightarrow> submit_add_profiles f
     | p \<Rightarrow> return (f, ''browser_post_submitted /motes unknown op '' @ dec_of (op_code p) @ '', at '' @ n_pointer n))"

text \<open>The profiles are checked before any statement.\<close>

definition with_profiles :: "form_t \<Rightarrow> (form_t \<Rightarrow> outcome ns) \<Rightarrow> (form_t \<times> string) ns" where
  "with_profiles f p =
    (case checkProfiles (fm_device f) of (dp, t) \<Rightarrow>
       let f1 = f\<lparr>fm_device := dp\<rparr> in if t \<noteq> [] then return (f1, t) else then_show ''/motes'' f1 (p f1))"

definition submit_networks :: "ns_env \<Rightarrow> form_t \<Rightarrow> (form_t \<times> string) ns" where
  "submit_networks n f =
    (case fm_op f of
       OPR_DELETE \<Rightarrow> then_show ''/networks'' f (deleteNetwork n f)
     | OPR_EDIT \<Rightarrow> then_show ''/networks'' f (updateNetwork n f)
     | OPR_CREATE \<Rightarrow> then_show ''/networks'' f (addNetwork n f)
     | _ \<Rightarrow> return (f, []))"

definition submit_to :: "ns_env \<Rightarrow> string \<Rightarrow> form_t \<Rightarrow> (form_t \<times> string) ns" where
  "submit_to n url f =
    (if url = ''/motes'' then submit_motes_ns n f
     else if url = ''/addProfilesToExistingURL'' then with_profiles f (\<lambda>f. newProfiles n f False)
     else if url = ''/addProfilesToNewURL'' then with_profiles f (\<lambda>f. newProfiles n f True)
     else if url = ''/updateProfilesURL'' then with_profiles f (updateProfiles n)
     else if url = ''/sKeyEdit'' then then_show ''/motes'' f (updateSKeys n f)
     else if url = ''/networks'' then submit_networks n f
     else if url = ''/roaming'' then then_show ''/motes'' f (if fm_op f = OPR_RSTOP then stopRoaming n f else updateRoaming n f)
     else if url = ''/gateways'' then then_show ''/gateways'' f (changeGatewayRegion n f)
     else return (f, take 1023 (''unknown url '' @ url)))"

text \<open>
  The form of the session after a submission, with the page shown next and the
  reason of a failure. Without a reason, an operation that failed leaves the
  page of the submission before.
\<close>

definition post_submitted :: "ns_env \<Rightarrow> string \<Rightarrow> form_t \<Rightarrow> (form_t \<times> string) ns" where
  "post_submitted n url f =
    bnd (submit_to n url f) (\<lambda>(f1, t). return (if t \<noteq> [] then show_page ''/postFail'' f1 else f1, t))"

text \<open>The fields of a request, and its submission.\<close>

definition post_form :: "ns_env \<Rightarrow> string \<Rightarrow> (string \<times> string) list \<Rightarrow> form_t \<Rightarrow> (form_t \<times> string) ns" where
  "post_form n url ks f = bnd (must (post_fields_ns n (Some url) ks (post_init f))) (post_submitted n url)"

end
