(* ===== verification/NsFormFacts.thy ===== *)
theory NsFormFacts
  imports NsRequests SafeServer
begin

text \<open>
  What the forms of the network server do: every one keeps the invariant of
  the state; the statements a form runs, in order, with a COMMIT only behind
  statements that all succeeded; the values a checked form holds; the address
  of a device the operator adds by hand.
\<close>

section \<open>The invariant\<close>

lemma safe_failed_ns [safe_ops]: "safe (failed_ns t)"
  unfolding failed_ns_def by (rule safe_return)

lemma safe_fine_ns [safe_ops]: "safe fine_ns"
  unfolding fine_ns_def by (rule safe_return)

lemma safe_failed_last [safe_ops]: "safe (failed_last n t)"
  using safe_failed_ns unfolding keeps_def failed_last_def by blast

lemma safe_unless_failed: "safe p \<Longrightarrow> safe q \<Longrightarrow> safe (unless_failed p q)"
  unfolding unless_failed_def by (intro safe_rules)

lemma safe_run_statement [safe_ops]: "safe (run_statement n b a q)"
  unfolding run_statement_def by (intro safe_ops safe_rules)

lemma safe_change_row [safe_ops]: "safe (change_row n b a none q)"
  unfolding change_row_def by (intro safe_unless_failed safe_ops safe_rules)

lemma safe_first_number: "(\<And>i. safe (f i)) \<Longrightarrow> safe (first_number n q a b f)"
  unfolding first_number_def by (intro safe_ops safe_rules)

lemmas safe_form_rules = safe_unless_failed safe_first_number safe_rules

lemma safe_networks [safe_ops]: "safe (updateNetwork n f)" "safe (deleteNetwork n f)" "safe (addNetwork n f)"
  unfolding updateNetwork_def deleteNetwork_def addNetwork_def Let_def by (intro safe_ops safe_rules)+

lemma safe_changeGatewayRegion [safe_ops]: "safe (changeGatewayRegion n f)"
  unfolding changeGatewayRegion_def Let_def by (intro safe_ops safe_form_rules)

lemma safe_roaming [safe_ops]: "safe (stopRoaming n f)" "safe (updateRoaming n f)"
  unfolding stopRoaming_def updateRoaming_def Let_def by (intro safe_ops safe_rules)+

lemma safe_updateSKeys [safe_ops]: "safe (updateSKeys n f)"
  unfolding updateSKeys_def with_key_def Let_def by (intro safe_ops safe_form_rules)

lemma safe_addMote [safe_ops]: "safe (addMote n f)"
  unfolding addMote_def Let_def by (intro safe_ops safe_rules)

lemma safe_write_profiles [safe_ops]:
  "safe (updateDeviceProfile n True dp i)" "safe (insertDeviceProfile n True dp i)" "safe (updateServiceProfile n sp i)" "safe (insertServiceProfile n sp i)"
  unfolding updateDeviceProfile_def insertDeviceProfile_def updateServiceProfile_def insertServiceProfile_def Let_def
  by (intro safe_ops safe_rules)+

lemma safe_profiles [safe_ops]: "safe (updateProfiles n f)" "safe (insert_profiles n f i t)" "safe (newProfiles n f new)"
  unfolding updateProfiles_def newProfiles_def insert_profiles_def Let_def by (intro safe_ops safe_form_rules)+

lemma safe_deleteMote_ns [safe_ops]: "safe (deleteMote_ns n f)"
  unfolding deleteMote_ns_def delete_rows_def Let_def by (intro safe_ops safe_form_rules)

lemma safe_then_show: "safe p \<Longrightarrow> safe (then_show u f p)"
  unfolding then_show_def by (intro safe_rules)

lemma safe_with_profiles: "(\<And>f. safe (p f)) \<Longrightarrow> safe (with_profiles f p)"
  unfolding with_profiles_def Let_def by (intro safe_then_show safe_rules)

lemma safe_submit_motes [safe_ops]: "safe (submit_motes_ns n f)"
  unfolding submit_motes_ns_def submit_create_def submit_add_profiles_def Let_def
  by (cases "fm_op f") (simp_all only: form_op.simps, (intro safe_then_show safe_ops safe_rules)+)

lemma safe_submit_networks [safe_ops]: "safe (submit_networks n f)"
  unfolding submit_networks_def by (cases "fm_op f") (simp_all only: form_op.simps, (intro safe_then_show safe_ops safe_rules)+)

lemma safe_submit_to [safe_ops]: "safe (submit_to n url f)"
  unfolding submit_to_def by (intro safe_with_profiles safe_then_show safe_ops safe_rules)

lemma safe_post_form [safe_ops]: "safe (post_form n url ks f)"
  unfolding post_form_def post_submitted_def by (intro safe_ops safe_rules)

section \<open>The statements of a form\<close>

definition queries :: "effect list \<Rightarrow> string list" where
  "queries es = List.map_filter (\<lambda>e. case e of Query q \<Rightarrow> Some q | _ \<Rightarrow> None) es"

lemma queries_simps [simp]:
  "queries [] = []" "queries (Query q # es) = q # queries es" "queries (Shutdown k # es) = queries es" "queries (es @ es') = queries es @ queries es'"
  by (simp_all add: queries_def List.map_filter_def)

text \<open>The result of a computation and the statements it runs are related; the effects before are kept.\<close>

definition runs :: "'a ns \<Rightarrow> ('a \<Rightarrow> string list \<Rightarrow> bool) \<Rightarrow> bool" where
  "runs p P \<longleftrightarrow> (\<forall>w x w'. p w = Some (x, w') \<longrightarrow> (\<exists>es. w_eff w' = w_eff w @ es \<and> P x (queries es)))"

lemma runsI: "(\<And>w x w'. p w = Some (x, w') \<Longrightarrow> \<exists>es. w_eff w' = w_eff w @ es \<and> P x (queries es)) \<Longrightarrow> runs p P"
  by (simp add: runs_def)

lemma runsD: "runs p P \<Longrightarrow> p w = Some (x, w') \<Longrightarrow> \<exists>es. w_eff w' = w_eff w @ es \<and> P x (queries es)"
  by (simp add: runs_def)

lemma runs_imp: "runs p P \<Longrightarrow> (\<And>x qs. P x qs \<Longrightarrow> Q x qs) \<Longrightarrow> runs p Q"
  unfolding runs_def by blast

lemma runs_return: "P x [] \<Longrightarrow> runs (return x) P"
  by (rule runsI) (auto simp: return_def intro: exI [of _ "[]"])

lemma runs_undefined: "runs undefined_behaviour P"
  by (simp add: runs_def undefined_behaviour_def)

lemma runs_bnd:
  assumes p: "runs p P" and f: "\<And>x qs. P x qs \<Longrightarrow> runs (f x) (\<lambda>y qs'. Q y (qs @ qs'))"
  shows "runs (bnd p f) Q"
proof (rule runsI)
  fix w y w'
  assume "bnd p f w = Some (y, w')"
  then obtain x v where v: "p w = Some (x, v)" "f x v = Some (y, w')" by (auto simp: bnd_def split: option.splits)
  obtain es where es: "w_eff v = w_eff w @ es" "P x (queries es)" using runsD [OF p v(1)] by blast
  obtain es' where "w_eff w' = w_eff v @ es'" "Q y (queries es @ queries es')" using runsD [OF f [OF es(2)] v(2)] by blast
  then show "\<exists>es. w_eff w' = w_eff w @ es \<and> Q y (queries es)" using es(1) by (intro exI [of _ "es @ es'"]) simp
qed

lemma runs_must: "(\<And>x. v = Some x \<Longrightarrow> runs (f x) Q) \<Longrightarrow> runs (bnd (must v) f) Q"
  by (cases v) (auto simp: must_def runs_def bnd_def undefined_behaviour_def return_def)

lemma runs_query: "runs (run_query n q) (\<lambda>ok qs. qs = [q] \<and> (ok \<longleftrightarrow> n_db n q \<noteq> SqlError))"
  by (rule runsI) (auto simp: run_query_def andthen_def bnd_def emit_def return_def)

text \<open>An outcome with its statements: they are the beginning of a list, up to the first that fails.\<close>

fun in_order :: "ns_env \<Rightarrow> string list \<Rightarrow> outcome \<Rightarrow> string list \<Rightarrow> bool" where
  "in_order n [] out qs \<longleftrightarrow> out = (0, []) \<and> qs = []"
| "in_order n (q # ss) out [] \<longleftrightarrow> False"
| "in_order n (q # ss) out (q' # qs) \<longleftrightarrow>
    q' = q \<and> (if n_db n q = SqlError then fst out < 0 \<and> snd out \<noteq> [] \<and> qs = [] else in_order n ss out qs)"

lemma runs_failed: "t \<noteq> [] \<Longrightarrow> P (- 1, take 1023 t) [] \<Longrightarrow> runs (failed_ns t) P"
  by (simp add: failed_ns_def runs_return)

lemma runs_failed_last: "t \<noteq> [] \<Longrightarrow> (\<And>u. u \<noteq> [] \<Longrightarrow> P (- 1, u) []) \<Longrightarrow> runs (failed_last n t) P"
  by (rule runsI) (auto simp: failed_last_def failed_ns_def return_def intro!: exI [of _ "[]"])

lemma runs_statement:
  assumes "b \<noteq> []"
  shows "runs (run_statement n b a q) (in_order n [q])"
  unfolding run_statement_def
  by (rule runs_bnd [OF runs_query]) (use assms in \<open>auto simp: fine_ns_def failed_ns_def intro!: runs_return\<close>)

lemma in_order_step:
  assumes "runs p (in_order n ss)" "b \<noteq> []"
  shows "runs (unless_failed (run_statement n b a q) p) (in_order n (q # ss))"
proof -
  have "runs (run_statement n b a q) (\<lambda>out qs. qs = [q] \<and> (if n_db n q = SqlError then fst out < 0 \<and> snd out \<noteq> [] else out = (0, [])))"
    by (rule runs_imp [OF runs_statement [OF assms(2)]]) (auto simp: neq_Nil_conv split: if_splits elim: in_order.elims)
  then show ?thesis
    unfolding unless_failed_def
    by (rule runs_bnd) (use assms(1) in \<open>auto split: if_splits intro!: runs_return\<close>)
qed

text \<open>The same without the outcome: a computation may stop anywhere, but not behind a failure.\<close>

fun part_run :: "ns_env \<Rightarrow> string list \<Rightarrow> string list \<Rightarrow> bool" where
  "part_run n [] qs \<longleftrightarrow> qs = []"
| "part_run n (q # ss) [] \<longleftrightarrow> True"
| "part_run n (q # ss) (q' # qs) \<longleftrightarrow> q' = q \<and> (if n_db n q = SqlError then qs = [] else part_run n ss qs)"

lemma part_run_Nil [simp]: "part_run n ss []"
  by (cases ss) simp_all

lemma in_order_part: "in_order n ss out qs \<Longrightarrow> part_run n ss qs"
  by (induction n ss out qs rule: in_order.induct) (auto split: if_splits)

lemma in_order_success: "in_order n ss (0, t) qs \<Longrightarrow> t = [] \<and> qs = ss \<and> (\<forall>q \<in> set ss. n_db n q \<noteq> SqlError)"
  by (induction n ss "(0 :: int, t)" qs rule: in_order.induct) (auto split: if_splits)

lemma in_order_failure: "in_order n ss (r, t) qs \<Longrightarrow> r \<noteq> 0 \<Longrightarrow> t \<noteq> [] \<and> (\<exists>q \<in> set ss. n_db n q = SqlError)"
  by (induction n ss "(r, t)" qs rule: in_order.induct) (auto split: if_splits)

text \<open>Statements are committed only when all of them, since the begin, succeeded.\<close>

definition committed :: "ns_env \<Rightarrow> string list \<Rightarrow> bool" where
  "committed n qs \<longleftrightarrow>
    (''COMMIT'' \<in> set qs \<longrightarrow> (\<exists>a b. qs = a @ [''BEGIN''] @ b @ [''COMMIT''] \<and> ''COMMIT'' \<notin> set (a @ b) \<and> (\<forall>q \<in> set b. n_db n q \<noteq> SqlError)))"

lemma committed_none: "''COMMIT'' \<notin> set qs \<Longrightarrow> committed n qs"
  by (simp add: committed_def)

lemma part_run_last:
  "part_run n (ss @ [c]) qs \<Longrightarrow> c \<in> set qs \<Longrightarrow> c \<notin> set ss \<Longrightarrow> qs = ss @ [c] \<and> (\<forall>q \<in> set ss. n_db n q \<noteq> SqlError)"
proof (induction ss arbitrary: qs)
  case Nil
  then show ?case by (cases qs) (auto split: if_splits)
next
  case (Cons q ss)
  then show ?case by (cases qs) (auto split: if_splits)
qed

lemma part_run_committed:
  assumes "part_run n (''BEGIN'' # ss @ [''COMMIT'']) qs" "''COMMIT'' \<notin> set ss"
  shows "committed n qs"
proof (cases "''COMMIT'' \<in> set qs")
  case True
  have "qs = (''BEGIN'' # ss) @ [''COMMIT''] \<and> (\<forall>q \<in> set (''BEGIN'' # ss). n_db n q \<noteq> SqlError)"
    by (rule part_run_last) (use assms True in simp_all)
  then show ?thesis unfolding committed_def by (intro impI exI [of _ "[]"] exI [of _ ss]) (use assms(2) in simp)
qed (rule committed_none)

lemma committed_behind:
  assumes "committed n qs" "''COMMIT'' \<notin> set cs"
  shows "committed n (cs @ qs)"
proof (cases "''COMMIT'' \<in> set qs")
  case True
  then obtain a b where "qs = a @ [''BEGIN''] @ b @ [''COMMIT'']" "''COMMIT'' \<notin> set (a @ b)" "\<forall>q \<in> set b. n_db n q \<noteq> SqlError"
    using assms(1) unfolding committed_def by blast
  then show ?thesis unfolding committed_def by (intro impI exI [of _ "cs @ a"] exI [of _ b]) (use assms(2) in simp)
qed (use assms in \<open>simp add: committed_none\<close>)

section \<open>The profiles of a device\<close>

text \<open>What is run for a form with profiles of a device that has some, and of one that has none.\<close>

definition routing_update :: "form_t \<Rightarrow> string" where
  "routing_update f = ''UPDATE RoutingProfiles SET AS_ID = '' @ quote (fm_AS_ID f) @ '' WHERE RoutingProfileID = '' @ print_unsigned (fm_moteID f)"

definition device_update :: "ns_env \<Rightarrow> form_t \<Rightarrow> string list" where
  "device_update n f =
    (let q = update_text ''DeviceProfile'' (device_columns (fm_device f)) (fm_moteID f)
     in q # (if n_affected n q = 0 then [''UPDATE DeviceProfiles SET timestamp = CURRENT_TIMESTAMP()''] else []))"

definition service_update :: "form_t \<Rightarrow> string" where
  "service_update f = update_text ''ServiceProfile'' (service_columns (fm_service f)) (fm_moteID f)"

definition update_script :: "ns_env \<Rightarrow> form_t \<Rightarrow> string list" where
  "update_script n f = [''BEGIN''] @ device_update n f @ [service_update f, routing_update f, ''COMMIT'']"

definition routing_insert :: "form_t \<Rightarrow> u64 \<Rightarrow> string" where
  "routing_insert f mid = ''INSERT INTO RoutingProfiles (RoutingProfileID, AS_ID) VALUES ('' @ print_unsigned mid @ '', '' @ quote (fm_AS_ID f) @ '')''"

definition insert_script :: "ns_env \<Rightarrow> form_t \<Rightarrow> u64 \<Rightarrow> string list" where
  "insert_script n f mid =
    [''BEGIN'', insert_text ''DeviceProfile'' (device_columns (with_region_defaults (n_regions n) (fm_device f))) mid,
     insert_text ''ServiceProfile'' (service_columns (fm_service f)) mid,
     routing_insert f mid, ''COMMIT'']"

lemma texts_begin:
  "take 6 (update_text t c i) = ''UPDATE''" "take 6 (insert_text t c i) = ''INSERT''" "take 6 (routing_update f) = ''UPDATE''"
  by (simp_all add: update_text_def insert_text_def routing_update_def)

lemma text_not_commit: "take 6 q = ''UPDATE'' \<or> take 6 q = ''INSERT'' \<or> take 6 q = ''DELETE'' \<Longrightarrow> q \<noteq> ''COMMIT''"
  by auto

lemma runs_updateDeviceProfile:
  "runs (updateDeviceProfile n True (fm_device f) (fm_moteID f))
    (\<lambda>r qs. (r = 0 \<and> qs = device_update n f \<and> (\<forall>q \<in> set qs. n_db n q \<noteq> SqlError)) \<or> (r < 0 \<and> in_order n (device_update n f) (- 1, ''x'') qs))"
  unfolding updateDeviceProfile_def Let_def not_True_eq_False if_False
  by (rule runs_bnd [OF runs_query])
    (auto simp: device_update_def Let_def intro!: runs_return runs_bnd [OF runs_query] split: if_splits)

lemma runs_updateServiceProfile:
  "runs (updateServiceProfile n (fm_service f) (fm_moteID f))
    (\<lambda>r qs. qs = [service_update f] \<and> r = (if n_db n (service_update f) = SqlError then - 1 else 0))"
  unfolding updateServiceProfile_def service_update_def
  by (rule runs_bnd [OF runs_query]) (auto intro!: runs_return)

lemma in_order_append:
  "in_order n ss (r, u) qs \<Longrightarrow> r < 0 \<Longrightarrow> t \<noteq> [] \<Longrightarrow> in_order n (ss @ ss') (r, t) qs"
  by (induction n ss "(r, u)" qs rule: in_order.induct) (auto split: if_splits)

lemma in_order_after:
  "\<forall>q \<in> set ss. n_db n q \<noteq> SqlError \<Longrightarrow> in_order n (ss @ ss') out (ss @ qs) \<longleftrightarrow> in_order n ss' out qs"
  by (induction ss) simp_all

lemma update_script_eq: "update_script n f = ''BEGIN'' # device_update n f @ [service_update f, routing_update f, ''COMMIT'']"
  by (simp add: update_script_def)

lemma runs_updateProfiles: "runs (updateProfiles n f) (in_order n (update_script n f))"
  unfolding updateProfiles_def update_script_eq routing_update_def [symmetric]
proof (rule in_order_step)
  let ?rest = "unless_failed (run_statement n ''RoutingProfiles '' [] (routing_update f)) (run_statement n ''COMMIT '' [] ''COMMIT'')"
  have rest: "runs ?rest (in_order n [routing_update f, ''COMMIT''])"
    by (rule in_order_step) (simp_all add: runs_statement)
  show "runs (bnd (updateDeviceProfile n True (fm_device f) (fm_moteID f)) (\<lambda>r.
       if r < 0 then failed_last n ''update DeviceProfiles '' else
     bnd (updateServiceProfile n (fm_service f) (fm_moteID f)) (\<lambda>r2.
       if r2 < 0 then failed_last n ''ServiceProfiles '' else ?rest)))
     (in_order n (device_update n f @ [service_update f, routing_update f, ''COMMIT'']))" (is "runs (bnd ?p ?f) ?P")
  proof (rule runs_bnd [OF runs_updateDeviceProfile])
    fix r :: int and qs
    assume c: "r = 0 \<and> qs = device_update n f \<and> (\<forall>q \<in> set qs. n_db n q \<noteq> SqlError) \<or> r < 0 \<and> in_order n (device_update n f) (- 1, ''x'') qs"
    show "runs (?f r) (\<lambda>y qs'. ?P y (qs @ qs'))"
    proof (cases "r < 0")
      case True
      with c show ?thesis
        by (auto intro!: runs_failed_last in_order_append)
    next
      case False
      with c show ?thesis
        by (auto simp: in_order_after intro!: runs_bnd [OF runs_updateServiceProfile] runs_failed_last rest split: if_splits)
    qed
  qed
qed simp

lemma runs_insertDeviceProfile:
  "runs (insertDeviceProfile n True dp mid)
    (\<lambda>r qs. qs = [insert_text ''DeviceProfile'' (device_columns (with_region_defaults (n_regions n) dp)) mid] \<and>
      (r = 1 \<longrightarrow> (\<forall>q \<in> set qs. n_db n q \<noteq> SqlError)))"
  unfolding insertDeviceProfile_def Let_def not_True_eq_False if_False
  by (rule runs_bnd [OF runs_query]) (auto intro!: runs_return)

lemma runs_insertServiceProfile:
  "runs (insertServiceProfile n sp mid)
    (\<lambda>r qs. qs = [] \<and> r < 0 \<or> qs = [insert_text ''ServiceProfile'' (service_columns sp) mid] \<and>
      (r = 1 \<longrightarrow> (\<forall>q \<in> set qs. n_db n q \<noteq> SqlError)))"
  unfolding insertServiceProfile_def Let_def
  by (auto intro!: runs_return runs_bnd [OF runs_query])

lemma part_run_step:
  assumes "runs p (\<lambda>_ qs. part_run n ss qs)" "b \<noteq> []"
  shows "runs (unless_failed (run_statement n b a q) p) (\<lambda>_ qs. part_run n (q # ss) qs)"
  unfolding unless_failed_def
  by (rule runs_bnd [OF runs_statement [OF assms(2)]])
    (use assms(1) in \<open>auto simp: neq_Nil_conv split: if_splits intro!: runs_return elim!: in_order.elims\<close>)

text \<open>A call that runs one statement or none, and goes on only with the result 1.\<close>

lemma part_run_call:
  fixes f :: "int \<Rightarrow> 'b ns"
  assumes "runs p (\<lambda>r qs. qs = [] \<and> r \<noteq> 1 \<or> qs = [q] \<and> (r = 1 \<longrightarrow> n_db n q \<noteq> SqlError))"
    and "runs (f 1) (\<lambda>_ qs. part_run n ss qs)" "\<And>r. r \<noteq> 1 \<Longrightarrow> runs (f r) (\<lambda>_ qs. qs = [])"
  shows "runs (bnd p f) (\<lambda>_ qs. part_run n (q # ss) qs)"
proof (rule runs_bnd [OF assms(1)])
  fix r :: int and qs :: "string list"
  assume c: "qs = [] \<and> r \<noteq> 1 \<or> qs = [q] \<and> (r = 1 \<longrightarrow> n_db n q \<noteq> SqlError)"
  show "runs (f r) (\<lambda>_ qs'. part_run n (q # ss) (qs @ qs'))"
  proof (cases "r = 1")
    case True
    with c assms(2) show ?thesis by simp
  next
    case False
    from c show ?thesis by (auto intro: runs_imp [OF assms(3) [OF False]])
  qed
qed

lemma runs_failed_any: "runs (failed_ns t) (\<lambda>_ qs. qs = [])" "runs (failed_last n t) (\<lambda>_ qs. qs = [])"
  by (auto simp: runs_def failed_ns_def failed_last_def return_def intro!: exI [of _ "[]"])

lemma part_run_none: "runs p (\<lambda>_ qs. qs = []) \<Longrightarrow> runs p (\<lambda>_ qs. part_run n ss qs)"
  by (auto elim: runs_imp)

lemma runs_routing_insert:
  "runs (unless_failed (run_statement n ''newProfiles RoutingProfiles '' [] q)
      (if c then failed_ns u else unless_failed (run_statement n ''newProfiles COMMIT '' [] ''COMMIT'') (return x)))
    (\<lambda>_ qs. part_run n [q, ''COMMIT''] qs)"
proof (rule part_run_step)
  have "runs (unless_failed (run_statement n ''newProfiles COMMIT '' [] ''COMMIT'') (return x)) (\<lambda>_ qs. part_run n [''COMMIT''] qs)"
    by (rule part_run_step) (simp_all add: runs_return)
  then show "runs (if c then failed_ns u else unless_failed (run_statement n ''newProfiles COMMIT '' [] ''COMMIT'') (return x))
      (\<lambda>_ qs. part_run n [''COMMIT''] qs)"
    by (cases c) (simp_all only: if_True if_False part_run_none runs_failed_any)
qed simp

lemma runs_insert_profiles: "runs (insert_profiles n f mid t) (\<lambda>_ qs. part_run n (insert_script n f mid) qs)"
  unfolding insert_profiles_def insert_script_def Let_def routing_insert_def [symmetric]
proof (rule part_run_step, rule part_run_call, goal_cases)
  case 1
  show ?case by (rule runs_imp [OF runs_insertDeviceProfile]) auto
next
  case 2
  show ?case
    unfolding not_True_eq_False simp_thms if_False
  proof (rule part_run_call, goal_cases)
    case 1
    show ?case by (rule runs_imp [OF runs_insertServiceProfile]) auto
  qed (simp_all add: runs_failed_any runs_routing_insert)
qed (simp_all add: runs_failed_any)

section \<open>Every form\<close>

definition delete_script :: "u64 \<Rightarrow> string list" where
  "delete_script mid =
    [''BEGIN'', delete_text ''DeviceProfiles'' ''DeviceProfileID'' mid, delete_text ''ServiceProfiles'' ''ServiceProfileID'' mid,
     delete_text ''RoutingProfiles'' ''RoutingProfileID'' mid, delete_text ''motes'' ''ID'' mid, delete_text ''sessions'' ''ID'' mid, ''COMMIT'']"

lemma runs_first_number:
  "(\<And>i. runs (f i) P) \<Longrightarrow> (\<And>t. runs (failed_ns t) P) \<Longrightarrow> runs (first_number n q a b f) P"
  unfolding first_number_def by (auto intro!: runs_must split: sqlres.split list.split)

lemma runs_failed_none: "P [] \<Longrightarrow> runs (failed_ns t) (\<lambda>_ qs. P qs)"
  by (simp add: failed_ns_def runs_return)

lemma committed_scripts:
  "part_run n (delete_script mid) qs \<Longrightarrow> committed n qs" "part_run n (insert_script n f mid) qs \<Longrightarrow> committed n qs"
  "part_run n (update_script n f) qs \<Longrightarrow> committed n qs"
proof -
  have s: "delete_script mid = ''BEGIN'' # butlast (tl (delete_script mid)) @ [''COMMIT'']"
    "insert_script n f mid = ''BEGIN'' # butlast (tl (insert_script n f mid)) @ [''COMMIT'']"
    "update_script n f = ''BEGIN'' # (device_update n f @ [service_update f, routing_update f]) @ [''COMMIT'']"
    by (simp_all add: delete_script_def insert_script_def update_script_def)
  have d: "''COMMIT'' \<notin> set (butlast (tl (delete_script mid)))" by (auto simp: delete_script_def delete_text_def)
  have i: "''COMMIT'' \<notin> set (butlast (tl (insert_script n f mid)))"
    by (auto simp: insert_script_def insert_text_def routing_insert_def)
  have u: "''COMMIT'' \<notin> set (device_update n f @ [service_update f, routing_update f])"
    by (auto simp: device_update_def service_update_def routing_update_def update_text_def Let_def)
  show "part_run n (delete_script mid) qs \<Longrightarrow> committed n qs" by (rule part_run_committed [OF _ d]) (subst (asm) s(1))
  show "part_run n (insert_script n f mid) qs \<Longrightarrow> committed n qs" by (rule part_run_committed [OF _ i]) (subst (asm) s(2))
  show "part_run n (update_script n f) qs \<Longrightarrow> committed n qs" by (rule part_run_committed [OF _ u]) (subst (asm) s(3))
qed

lemma runs_last_statement: "b \<noteq> [] \<Longrightarrow> runs (run_statement n b a q) (\<lambda>_ qs. part_run n [q] qs)"
  by (rule runs_imp [OF runs_statement]) (auto intro: in_order_part)

lemma runs_delete_rows: "runs (delete_rows n mid) (\<lambda>_ qs. part_run n (delete_script mid) qs)"
  unfolding delete_rows_def delete_script_def Let_def by (intro part_run_step runs_last_statement) simp_all

text \<open>Only these begin a transaction; the others run no COMMIT.\<close>

lemma runs_committed:
  "runs (deleteMote_ns n f) (\<lambda>_ qs. committed n qs)" "runs (updateProfiles n f) (\<lambda>_ qs. committed n qs)"
  "runs (insert_profiles n f mid t) (\<lambda>_ qs. committed n qs)"
proof -
  have none: "runs (failed_ns t) (\<lambda>_ qs. committed n qs)" for t by (rule runs_failed_none) (simp add: committed_none)
  have "runs (first_number n q a b (delete_rows n)) (\<lambda>_ qs. committed n qs)" for q a b
    by (intro runs_first_number none runs_imp [OF runs_delete_rows]) (rule committed_scripts(1))
  then show "runs (deleteMote_ns n f) (\<lambda>_ qs. committed n qs)"
    unfolding deleteMote_ns_def Let_def by (intro runs_must) (auto split: option.split intro: none runs_undefined)
  show "runs (updateProfiles n f) (\<lambda>_ qs. committed n qs)"
    by (rule runs_imp [OF runs_updateProfiles]) (blast intro: committed_scripts(3) in_order_part)
  show "runs (insert_profiles n f mid t) (\<lambda>_ qs. committed n qs)"
    by (rule runs_imp [OF runs_insert_profiles]) (rule committed_scripts(2))
qed

abbreviation uncommitted :: "'a ns \<Rightarrow> bool" where "uncommitted p \<equiv> runs p (\<lambda>_ qs. ''COMMIT'' \<notin> set qs)"

lemma uncommitted_bnd: "uncommitted p \<Longrightarrow> (\<And>x. uncommitted (f x)) \<Longrightarrow> uncommitted (bnd p f)"
  by (rule runs_bnd) (auto elim: runs_imp)

lemma uncommitted_basic: "uncommitted (failed_ns t)" "uncommitted fine_ns" "uncommitted (return x)"
  by (simp_all add: failed_ns_def fine_ns_def runs_return)

lemma uncommitted_unless: "uncommitted p \<Longrightarrow> uncommitted q \<Longrightarrow> uncommitted (unless_failed p q)"
  unfolding unless_failed_def by (rule uncommitted_bnd) (auto intro: uncommitted_basic)

lemma uncommitted_query: "q \<noteq> ''COMMIT'' \<Longrightarrow> uncommitted (run_query n q)"
  by (rule runs_imp [OF runs_query]) auto

lemma uncommitted_statement: "q \<noteq> ''COMMIT'' \<Longrightarrow> uncommitted (run_statement n b a q)"
  unfolding run_statement_def by (intro uncommitted_bnd uncommitted_query) (auto intro: uncommitted_basic)

lemma uncommitted_change: "q \<noteq> ''COMMIT'' \<Longrightarrow> uncommitted (change_row n b a none q)"
  unfolding change_row_def by (intro uncommitted_unless uncommitted_statement) (auto intro: uncommitted_basic)

lemma uncommitted_effect_free: "(\<And>w x w'. p w = Some (x, w') \<Longrightarrow> \<exists>es. w_eff w' = w_eff w @ es \<and> queries es = []) \<Longrightarrow> uncommitted p"
  by (rule runsI) fastforce

lemma uncommitted_device: "uncommitted (find_mote n e a)" "uncommitted (sNS_roamStop i)" "uncommitted (gateway_disconnect eui)"
  by (rule uncommitted_effect_free,
      auto simp: find_mote_def sNS_roamStop_def modify_mote_def read_mote_def write_mote_def bnd_def gateway_disconnect_def emit_def
        split: prod.splits option.splits if_splits intro: exI [of _ "[]"])+

lemma uncommitted_must: "(\<And>x. v = Some x \<Longrightarrow> uncommitted (f x)) \<Longrightarrow> uncommitted (bnd (must v) f)"
  by (rule runs_must)

lemma uncommitted_networks:
  "uncommitted (updateNetwork n f)" "uncommitted (deleteNetwork n f)" "uncommitted (addNetwork n f)" "uncommitted (changeGatewayRegion n f)"
proof -
  show "uncommitted (updateNetwork n f)" "uncommitted (deleteNetwork n f)"
    unfolding updateNetwork_def deleteNetwork_def Let_def by (rule uncommitted_change, simp)+
  show "uncommitted (addNetwork n f)"
    unfolding addNetwork_def by (auto intro: uncommitted_basic uncommitted_statement)
  show "uncommitted (changeGatewayRegion n f)"
    unfolding changeGatewayRegion_def Let_def andthen_def
    by (cases "fm_region f")
      (simp_all add: uncommitted_basic uncommitted_unless uncommitted_change uncommitted_bnd uncommitted_device)
qed

lemma uncommitted_roaming: "uncommitted (stopRoaming n f)" "uncommitted (updateRoaming n f)"
  unfolding stopRoaming_def updateRoaming_def andthen_def Let_def
  by (rule uncommitted_must, auto split: option.split prod.split
      intro!: uncommitted_must uncommitted_bnd uncommitted_device uncommitted_basic uncommitted_change)+

lemma uncommitted_updateSKeys: "uncommitted (updateSKeys n f)"
  unfolding updateSKeys_def with_key_def Let_def
  by (auto split: option.split intro!: uncommitted_must uncommitted_unless uncommitted_basic uncommitted_change runs_first_number uncommitted_statement)

lemma uncommitted_addMote: "uncommitted (addMote n f)"
  unfolding addMote_def Let_def by (auto intro!: uncommitted_bnd uncommitted_query uncommitted_basic)

lemma committed_newProfiles: "runs (newProfiles n f new) (\<lambda>_ qs. committed n qs)"
proof -
  have behind: "runs (bnd p g) (\<lambda>_ qs. committed n qs)" if "uncommitted p" "\<And>x. runs (g x) (\<lambda>_ qs. committed n qs)"
    for p :: "'x ns" and g :: "'x \<Rightarrow> outcome ns"
    by (rule runs_bnd [OF that(1)]) (auto intro: committed_behind runs_imp [OF that(2)])
  have none: "runs (failed_ns t) (\<lambda>_ qs. committed n qs)" for t by (rule runs_failed_none) (simp add: committed_none)
  have ret: "runs (return x) (\<lambda>_ qs. committed n qs)" for x :: outcome by (rule runs_return) (simp add: committed_none)
  show ?thesis
    unfolding newProfiles_def Let_def
    by (auto intro!: behind uncommitted_addMote runs_committed runs_must runs_first_number none ret)
qed

lemma committed_of: "uncommitted p \<Longrightarrow> runs p (\<lambda>_ qs. committed n qs)"
  by (erule runs_imp) (rule committed_none)

lemma runs_then_show: "runs p (\<lambda>_ qs. P qs) \<Longrightarrow> runs (then_show u f p) (\<lambda>_ qs. P qs)"
  unfolding then_show_def by (erule runs_bnd) (auto intro: runs_return)

lemma committed_with_profiles: "(\<And>f. runs (p f) (\<lambda>_ qs. committed n qs)) \<Longrightarrow> runs (with_profiles f p) (\<lambda>_ qs. committed n qs)"
  unfolding with_profiles_def Let_def by (auto split: prod.split intro!: runs_return committed_none runs_then_show)

lemma committed_motes: "runs (submit_motes_ns n f) (\<lambda>_ qs. committed n qs)"
proof -
  have create: "uncommitted (submit_create n f)"
    unfolding submit_create_def Let_def
    by (auto split: prod.split intro!: uncommitted_basic uncommitted_bnd uncommitted_addMote)
  have add: "uncommitted (submit_add_profiles f)"
    unfolding submit_add_profiles_def by (auto split: option.split intro!: uncommitted_must uncommitted_basic)
  show ?thesis
    unfolding submit_motes_ns_def
    by (cases "fm_op f") (simp_all add: committed_of create add uncommitted_basic runs_then_show runs_committed)
qed

lemma runs_if: "(b \<Longrightarrow> runs p P) \<Longrightarrow> (\<not> b \<Longrightarrow> runs q P) \<Longrightarrow> runs (if b then p else q) P"
  by simp

lemma committed_submit: "runs (submit_to n url f) (\<lambda>_ qs. committed n qs)"
proof -
  have "uncommitted (submit_networks n f)"
    unfolding submit_networks_def by (cases "fm_op f") (simp_all add: uncommitted_networks uncommitted_basic runs_then_show)
  then show ?thesis
    unfolding submit_to_def
    by (intro runs_if committed_motes committed_with_profiles committed_newProfiles runs_committed committed_of runs_then_show
        uncommitted_updateSKeys uncommitted_roaming uncommitted_networks uncommitted_basic)
qed

lemma committed_form: "runs (post_form n url ks f) (\<lambda>_ qs. committed n qs)"
  unfolding post_form_def post_submitted_def
  by (rule runs_must, rule runs_bnd [OF committed_submit]) (auto intro: runs_return)

section \<open>A profile that passes the check\<close>

text \<open>No field the operator has to fill in is left at the value that stands for an empty one.\<close>

definition filled :: "DeviceProfile_t \<Rightarrow> bool" where
  "filled dp \<longleftrightarrow>
    MACVersion dp \<noteq> [] \<and> MaxEIRP dp \<noteq> INT_MAX \<and> PingSlotFreq dp \<noteq> FLT_MAX \<and> PingSlotDR dp \<noteq> UINT_MAX \<and>
    (SupportsClassC dp \<longrightarrow> ClassCTimeout dp \<noteq> UINT_MAX) \<and> dp_RXDelay1 dp \<noteq> UINT_MAX \<and> RXDROffset1 dp \<noteq> UINT_MAX \<and>
    RXDataRate2 dp \<noteq> UINT_MAX \<and> RXFreq2 dp \<noteq> FLT_MAX"

lemma maxima: "(0 :: rat) \<noteq> FLT_MAX" "(0 :: u32) \<noteq> UINT_MAX" "(1 :: u32) \<noteq> UINT_MAX"
  by (simp_all add: FLT_MAX_def UINT_MAX_def)

lemma class_b_filled:
  "class_b_fields dp = (dp', []) \<Longrightarrow> PingSlotFreq dp' \<noteq> FLT_MAX \<and> PingSlotDR dp' \<noteq> UINT_MAX"
  using maxima by (auto simp: class_b_fields_def split: if_splits)

lemma windows_filled:
  "window_fields dp = (dp', []) \<Longrightarrow> dp_RXDelay1 dp' \<noteq> UINT_MAX \<and> RXDROffset1 dp' \<noteq> UINT_MAX \<and> RXDataRate2 dp' \<noteq> UINT_MAX \<and> RXFreq2 dp' \<noteq> FLT_MAX \<and>
    MACVersion dp' = MACVersion dp \<and> MaxEIRP dp' = MaxEIRP dp \<and> PingSlotFreq dp' = PingSlotFreq dp \<and> PingSlotDR dp' = PingSlotDR dp \<and>
    SupportsClassC dp' = SupportsClassC dp \<and> ClassCTimeout dp' = ClassCTimeout dp"
  using maxima by (auto simp: window_fields_def split: if_splits)

lemma checked_filled:
  assumes "checkProfiles dp = (dp', [])"
  shows "filled dp'"
proof -
  obtain dp1 where 1: "class_b_fields dp = (dp1, [])" "MACVersion dp1 \<noteq> []" "MaxEIRP dp1 \<noteq> INT_MAX"
    "\<not> (SupportsClassC dp1 \<and> ClassCTimeout dp1 = UINT_MAX)" "window_fields dp1 = (dp', [])"
    using assms by (auto simp: checkProfiles_def split: prod.splits if_splits)
  show ?thesis using class_b_filled [OF 1(1)] windows_filled [OF 1(5)] 1(2-4) by (auto simp: filled_def)
qed

lemma profiles_stored:
  assumes "post_submitted n ''/updateProfilesURL'' f w = Some ((f', []), w')"
  obtains dp es where "checkProfiles (fm_device f) = (dp, [])" "w_eff w' = w_eff w @ es"
    "queries es = update_script n (f\<lparr>fm_device := dp\<rparr>)" "\<forall>q \<in> set (queries es). n_db n q \<noteq> SqlError" "fm_redir_url f' = ''/motes''"
proof -
  obtain f1 where s: "with_profiles f (updateProfiles n) w = Some ((f1, []), w')" "f' = f1"
    using assms by (auto simp: post_submitted_def submit_to_def bnd_def return_def split: option.splits if_splits)
  obtain dp where c: "checkProfiles (fm_device f) = (dp, [])" and r: "then_show ''/motes'' (f\<lparr>fm_device := dp\<rparr>) (updateProfiles n (f\<lparr>fm_device := dp\<rparr>)) w = Some ((f1, []), w')"
    using s(1) by (auto simp: with_profiles_def Let_def return_def split: prod.splits if_splits)
  obtain k where k: "updateProfiles n (f\<lparr>fm_device := dp\<rparr>) w = Some ((k, []), w')"
    "f1 = (if k = 0 then show_page ''/motes'' (f\<lparr>fm_device := dp\<rparr>) else f\<lparr>fm_device := dp\<rparr>)"
    using r by (auto simp: then_show_def bnd_def return_def split: option.splits)
  obtain es where es: "w_eff w' = w_eff w @ es" "in_order n (update_script n (f\<lparr>fm_device := dp\<rparr>)) (k, []) (queries es)"
    using runsD [OF runs_updateProfiles k(1)] by blast
  have "k = 0" using in_order_failure [OF es(2)] by blast
  with in_order_success es k c s(2) that show ?thesis by (fastforce simp: show_page_def)
qed

text \<open>The columns of a statement hold the values of a profile, each under its name.\<close>

definition device_values :: "DeviceProfile_t \<Rightarrow> (string \<times> string) list \<Rightarrow> bool" where
  "device_values dp cols \<longleftrightarrow> distinct (map fst cols) \<and> map_of cols = map_of
    [(''SupportsJoin'', print_bool (SupportsJoin dp)), (''Supports32bitFCnt'', print_bool (Supports32bitFCnt dp)),
     (''SupportsClassB'', print_bool (SupportsClassB dp)), (''ClassBTimeout'', print_unsigned (ClassBTimeout dp)),
     (''PingSlotPeriod'', print_unsigned (PingSlotPeriod dp)), (''PingSlotDR'', print_unsigned (PingSlotDR dp)),
     (''PingSlotFreq'', quote (print_f (PingSlotFreq dp))),
     (''SupportsClassC'', print_bool (SupportsClassC dp)), (''ClassCTimeout'', print_unsigned (ClassCTimeout dp)),
     (''RXDelay1'', print_unsigned (dp_RXDelay1 dp)), (''RXDROffset1'', print_unsigned (RXDROffset1 dp)),
     (''RXDataRate2'', print_unsigned (RXDataRate2 dp)), (''RXFreq2'', quote (print_f (RXFreq2 dp))),
     (''MACVersion'', quote (MACVersion dp)), (''RegParamsRevision'', quote (RegParamsRevision dp)),
     (''FactoryPresetFreqs'', quote (FactoryPresetFreqs dp)), (''RFRegion'', quote (dp_RFRegion dp)),
     (''MaxEIRP'', print_int (MaxEIRP dp)), (''MaxDutyCycle'', quote (print_f (MaxDutyCycle dp)))]"

definition service_values :: "ServiceProfile_t \<Rightarrow> (string \<times> string) list \<Rightarrow> bool" where
  "service_values sp cols \<longleftrightarrow> distinct (map fst cols) \<and> map_of cols = map_of
    [(''ULRate'', print_unsigned (ULRate sp)), (''DLRate'', print_unsigned (DLRate sp)),
     (''ULBucketSize'', print_unsigned (ULBucketSize sp)), (''DLBucketSize'', print_unsigned (DLBucketSize sp)),
     (''ULRatePolicy'', quote (ULRatePolicy sp)), (''DLRatePolicy'', quote (DLRatePolicy sp)),
     (''DRMin'', print_unsigned (DRMin sp)), (''DRMax'', print_unsigned (DRMax sp)), (''ChannelMask'', quote (ChannelMask sp)),
     (''PRAllowed'', print_bool (PRAllowed sp)), (''HRAllowed'', print_bool (HRAllowed sp)), (''RAAllowed'', print_bool (RAAllowed sp)),
     (''DevStatusReqFreq'', print_unsigned (DevStatusReqFreq sp)), (''ReportDevStatusBattery'', print_bool (ReportDevStatusBattery sp)),
     (''ReportDevStatusMargin'', print_bool (ReportDevStatusMargin sp)), (''AddGWMetadata'', print_bool (AddGWMetadata sp)),
     (''NwkGeoLoc'', print_bool (NwkGeoLoc sp)), (''TargetPER'', quote (print_f (TargetPER sp))),
     (''MinGWDiversity'', print_unsigned (MinGWDiversity sp))]"

lemma columns_hold_values: "device_values dp (device_columns dp)" "service_values sp (service_columns sp)"
  by (simp_all add: device_values_def device_columns_def service_values_def service_columns_def fun_eq_iff)

definition set_where :: "string \<Rightarrow> (string \<times> string) list \<Rightarrow> string \<Rightarrow> u64 \<Rightarrow> string" where
  "set_where table cols key i =
    ''UPDATE '' @ table @ '' SET '' @ sep_by '', '' (map (\<lambda>(c, v). c @ '' = '' @ v) cols) @ '' WHERE '' @ key @ '' = '' @ print_unsigned i"

lemma update_script_where:
  "update_script n f =
    [''BEGIN'', set_where ''DeviceProfiles'' (device_columns (fm_device f)) ''DeviceProfileID'' (fm_moteID f)] @
    (if n_affected n (set_where ''DeviceProfiles'' (device_columns (fm_device f)) ''DeviceProfileID'' (fm_moteID f)) = 0
     then [''UPDATE DeviceProfiles SET timestamp = CURRENT_TIMESTAMP()''] else []) @
    [set_where ''ServiceProfiles'' (service_columns (fm_service f)) ''ServiceProfileID'' (fm_moteID f),
     set_where ''RoutingProfiles'' [(''AS_ID'', quote (fm_AS_ID f))] ''RoutingProfileID'' (fm_moteID f), ''COMMIT'']"
  by (simp add: update_script_def device_update_def service_update_def routing_update_def update_text_def set_where_def Let_def)

section \<open>The address of a device added by hand\<close>

lemma scan_dec_of:
  assumes "n < 2 ^ 64"
  shows "scan_value 10 (dec_of n) = Some (int n)"
proof -
  obtain d cs where h: "dec_of n = digit_char d # cs" "d < 10"
    using digits_of_head [of "Suc n" n 10] by (auto simp: dec_of_def simp del: digits_of.simps)
  have "scan_unsigned_digits 10 (digit_char d # cs) = Some n"
    using scan_digits_digits_of [of 10 n] h(1) by (simp add: dec_of_def del: digits_of.simps)
  moreover have "min n (2 ^ 64 - 1) = n" "d < 16" using assms h(2) by simp_all
  ultimately show ?thesis
    using digit_char_plain [of d] by (simp add: scan_value_def h(1) Let_def del: power_numeral)
qed

lemma sscanf_print_unsigned [roundtrip]:
  assumes "LENGTH('a) \<le> 64"
  shows "sscanf_dec (print_unsigned (x :: 'a :: len word)) = Some x"
proof -
  have "unat x < 2 ^ LENGTH('a)" by simp
  also have "(2 :: nat) ^ LENGTH('a) \<le> 2 ^ 64" using assms by (rule power_increasing) simp
  finally show ?thesis by (simp add: sscanf_dec_def print_unsigned_def scan_dec_of)
qed

lemma block_carry:
  assumes "t < 8" "r = 0 \<or> r = 1"
  shows "block_addr t ID 0 OR (2 ^ addr_bits t + r) = block_addr t (ID OR 1) r"
proof -
  have "(2 ^ addr_bits t + r :: u32) = push_bit (addr_bits t) 1 OR r"
    using assms by (auto elim!: less_8_cases simp: addr_bits_def)
  then show ?thesis by (simp add: block_addr_def push_bit_or or.assoc)
qed

lemma next_network_fits: "t < 8 \<Longrightarrow> take_bit (id_bits t) ID = ID \<Longrightarrow> take_bit (id_bits t) (ID OR 1) = ID OR (1 :: u32)"
  by (auto elim!: less_8_cases simp: id_bits_def)

lemma accepted_address:
  assumes "NwkAddrStr_to_devAddrStr n f = (f', 0, t)"
  obtains a where "sscanf_hex (fm_NwkAddr f) = Some a" "a \<le> push_bit (nwkAddrBits n) 1 + 1" "fm_devAddr f' = print_unsigned (devAddrBase n OR a)"
  using assms that by (auto simp: NwkAddrStr_to_devAddrStr_def Let_def split: option.splits if_splits)

text \<open>
  The two numbers above the block carry into the lowest bit of the network's
  number: into the next network when it is even, back into this one when it is odd.
\<close>

lemma odd_network: "ID OR 1 = (if bit ID 0 then ID else ID + (1 :: u32))"
proof (cases "bit ID 0")
  case True
  then show ?thesis by (auto intro!: bit_word_eqI simp: bit_simps)
next
  case False
  then have "\<not> bit ID n \<or> \<not> bit (1 :: u32) n" for n by (cases "n = 0") (simp_all add: bit_1_iff)
  then have "ID + 1 = ID OR 1" by (rule disjunctive_add)
  then show ?thesis using False by simp
qed


lemma typed_address:
  assumes "t < 8" "take_bit (id_bits t) ID = ID" "a \<le> push_bit (addr_bits t) 1 + (1 :: u32)"
  shows "parseDevAddr (block_addr t ID 0 OR a) =
    (if a < 2 ^ addr_bits t then Some (net_id t ID, ID, a) else Some (net_id t (ID OR 1), ID OR 1, a - 2 ^ addr_bits t))"
proof (cases "a < 2 ^ addr_bits t")
  case True
  then have "take_bit (addr_bits t) a = a" by (simp add: take_bit_eq_mask less_mask_eq)
  then show ?thesis using True parse_block_addr [OF assms(1,2)] by (simp add: block_addr_or)
next
  case False
  define r where "r = a - 2 ^ addr_bits t"
  have r: "r = 0 \<or> r = 1" "a = 2 ^ addr_bits t + r"
    using False assms(1,3) unfolding r_def by (auto elim!: less_8_cases simp: addr_bits_def word_le_nat_alt word_less_nat_alt unat_arith_simps)
  have "take_bit (addr_bits t) r = r" using r(1) assms(1) by (auto elim!: less_8_cases simp: addr_bits_def)
  then have "parseDevAddr (block_addr t ID 0 OR a) = Some (net_id t (ID OR 1), ID OR 1, r)"
    unfolding r(2) block_carry [OF assms(1) r(1)] by (rule parse_block_addr [OF assms(1) next_network_fits [OF assms(1,2)]])
  then show ?thesis using False by (simp add: r_def)
qed

end
