(* ===== verification/Server.thy ===== *)
theory Server
  imports NsRequests
begin

text \<open>
  The network server as a whole (the main loop of network_server/gateway.c and
  the forms of network_server/web.c): what
  arrives is an event, handled at once and to its end. The surroundings may be
  others at every event; only the regions are read once, at the start. A form
  is submitted with the fields its session has kept, whatever they are. The
  program runs its HTTP handlers in a second thread without a lock; a sequence
  of events is one of its schedules at the granularity of handlers.
\<close>

section \<open>Events\<close>

datatype event =
    FromGateway u32 "buf option"
  | FromPeer key_envelope_t bool fields
  | AfterBeacon
  | Service
  | Submit string "(string \<times> string) list" form_t

text \<open>A connection whose message was refused is closed by the loop.\<close>

definition from_gateway :: "ns_env \<Rightarrow> u32 \<Rightarrow> buf option \<Rightarrow> unit ns" where
  "from_gateway n sock got = bnd (read_from_client n sock got) (\<lambda>r. if r < 0 then emit (Close sock) else return ())"

definition handle :: "json_api \<Rightarrow> ns_env \<Rightarrow> event \<Rightarrow> unit ns" where
  "handle a n e =
    (case e of
       FromGateway sock got \<Rightarrow> from_gateway n sock got
     | FromPeer ke httpd j \<Rightarrow> andthen (ParseJson a n ke httpd j) (return ())
     | AfterBeacon \<Rightarrow> gateway_service n
     | Service \<Rightarrow> common_service a n
     | Submit url ks f \<Rightarrow> andthen (post_form n url ks f) (return ()))"

definition server_step :: "json_api \<Rightarrow> region_t list \<Rightarrow> ns_env \<times> event \<Rightarrow> ns_world \<Rightarrow> ns_world option" where
  "server_step a rl ne w = map_option snd (handle a ((fst ne)\<lparr>n_regions := rl\<rparr>) (snd ne) w)"

definition start_world :: ns_world where
  "start_world = \<lparr>w_motes = [], w_gws = [], w_tid = None, w_beacon_start = \<lparr>tv_sec = 0, tv_nsec = 0\<rparr>, w_eff = []\<rparr>"

text \<open>The states an event system reaches; an event without a result is undefined behaviour and ends the run.\<close>

inductive reaches :: "('e \<Rightarrow> 's \<Rightarrow> 's option) \<Rightarrow> 's \<Rightarrow> 's \<Rightarrow> bool" for step where
  here: "reaches step s s"
| onward: "reaches step s t \<Longrightarrow> step e t = Some u \<Longrightarrow> reaches step s u"

inductive_cases reachesE: "reaches step s t"

locale event_system =
  fixes step :: "'e \<Rightarrow> 's \<Rightarrow> 's option" and holds :: "'s \<Rightarrow> bool" and upto :: "'s \<Rightarrow> 's \<Rightarrow> bool"
  assumes step_keeps: "holds s \<Longrightarrow> step e s = Some t \<Longrightarrow> holds t \<and> upto s t"
    and upto_refl: "upto s s"
    and upto_trans: "upto s t \<Longrightarrow> upto t u \<Longrightarrow> upto s u"
begin

lemma reached: "reaches step s t \<Longrightarrow> holds s \<Longrightarrow> holds t \<and> upto s t"
  by (induction rule: reaches.induct) (blast intro: upto_refl upto_trans dest: step_keeps)+

text \<open>What holds is never lost on the way.\<close>

lemma reached_between:
  assumes "reaches step s t" "reaches step t u" "holds s"
  shows "holds u \<and> upto s t \<and> upto t u"
  using reached [OF assms(1,3)] reached [OF assms(2)] by blast

end

end
