(* ===== verification/ServerFacts.thy ===== *)
theory ServerFacts
  imports SafeServer NsFormFacts Server
begin

text \<open>
  Every event keeps the invariant of the network server's state; the states
  the server reaches are the states of an event system.
\<close>

section \<open>Every event keeps the invariant\<close>

lemma safe_from_gateway [safe_ops]: "safe (from_gateway n sock got)"
  unfolding from_gateway_def by (intro safe_ops safe_rules)

lemma safe_handle: "regions_wf (n_regions n) \<Longrightarrow> safe (handle a n e)"
  unfolding handle_def
  by (cases e) (auto intro!: safe_ops safe_rules intro: safe_ParseJson safe_common_service)

lemma grows_refl: "grows w w"
  by (simp add: grows_def)

lemma grows_trans: "grows u v \<Longrightarrow> grows v w \<Longrightarrow> grows u w"
  unfolding grows_def by (meson prefix_order.trans le_trans)

interpretation server: event_system "server_step a rl" "\<lambda>w. regions_wf rl \<and> world_wf w" grows for a rl
proof unfold_locales
  fix s e t assume s: "regions_wf rl \<and> world_wf s" and step: "server_step a rl e s = Some t"
  let ?p = "handle a ((fst e)\<lparr>n_regions := rl\<rparr>) (snd e)"
  have p: "safe ?p" by (rule safe_handle) (use s in simp)
  obtain y where y: "?p s = Some y" "snd y = t"
    using step unfolding server_step_def map_option_eq_Some by blast
  then have "?p s = Some (fst y, t)" by (metis prod.collapse)
  from safeD [OF p this] s show "(regions_wf rl \<and> world_wf t) \<and> grows s t" by blast
qed (fact grows_refl grows_trans)+

lemma start_world_wf [simp]: "world_wf start_world"
  by (simp add: world_wf_def start_world_def)

end
