(* ===== verification/DownlinkFacts.thy ===== *)
theory DownlinkFacts
  imports WorldFacts Forwarding
begin

text \<open>
  What a downlink of class A or C writes: to the gateway of the token only,
  the whole frame, in the receive windows the device opens, counted from the
  end of its uplink.
\<close>

section \<open>Packets on the way to a gateway\<close>

text \<open>Packets went to the gateways at these sockets; nothing else was written, and no gateway changed its identity.\<close>

definition wrote :: "u32 \<Rightarrow> lgw_pkt_tx_s list \<Rightarrow> ns_world \<Rightarrow> ns_world \<Rightarrow> bool" where
  "wrote sk ps w w' \<longleftrightarrow> w_eff w' = w_eff w @ map (\<lambda>p. Write sk (tx_octets p)) ps \<and>
     map g_eui (w_gws w') = map g_eui (w_gws w) \<and> map g_fd (w_gws w') = map g_fd (w_gws w)"

lemma wrote_nothing [simp]: "wrote sk [] w w"
  by (simp add: wrote_def)

lemma wrote_append: "wrote sk ps w w1 \<Longrightarrow> wrote sk qs w1 w2 \<Longrightarrow> wrote sk (ps @ qs) w w2"
  by (simp add: wrote_def)

lemma same_gateways:
  assumes "wrote sk ps w w'" "g < length (w_gws w)"
  shows "g < length (w_gws w')" "g_fd (w_gws w' ! g) = g_fd (w_gws w ! g)"
    "distinct (map g_eui (w_gws w)) \<Longrightarrow> distinct (map g_eui (w_gws w'))"
proof -
  have e: "map g_eui (w_gws w') = map g_eui (w_gws w)" "map g_fd (w_gws w') = map g_fd (w_gws w)"
    using assms(1) by (simp_all add: wrote_def)
  show g: "g < length (w_gws w')" using assms(2) arg_cong [OF e(1), of length] by simp
  show "g_fd (w_gws w' ! g) = g_fd (w_gws w ! g)"
    using arg_cong [OF e(2), of "\<lambda>l. l ! g"] g assms(2) by simp
  show "distinct (map g_eui (w_gws w)) \<Longrightarrow> distinct (map g_eui (w_gws w'))" by (simp only: e(1))
qed

lemma index_where_own: "distinct (map f xs) \<Longrightarrow> g < length xs \<Longrightarrow> index_where (\<lambda>x. f x = f (xs ! g)) xs = Some g"
  by (cases "index_where (\<lambda>x. f x = f (xs ! g)) xs")
    (auto simp: index_where_None distinct_conv_nth dest!: index_where_Some)

lemma gateway_write_wrote:
  assumes "gateway_write_downlink n g p w = Some (r, w')" "g < length (w_gws w)"
  shows "\<exists>ps. wrote (g_fd (w_gws w ! g)) ps w w' \<and> set ps \<subseteq> {p} \<and> length ps \<le> 1"
proof (cases "length (tx_payload p) > 256")
  case True
  then show ?thesis using assms(1) by (auto simp: gateway_write_downlink_def return_def intro: exI [of _ "[]"])
next
  case False
  then have "wrote (g_fd (w_gws w ! g)) [p] w w'"
    using assms
    by (auto simp: gateway_write_downlink_def bnd_def andthen_def read_gw_def emit_def return_def must_def undefined_behaviour_def
        wrote_def Let_def modify_gw_def map_update list_update_same_conv split: if_splits option.splits)
  then show ?thesis by (intro exI [of _ "[p]"]) simp
qed

lemma send_packet_wrote:
  assumes "send_packet n g p w = Some (r, w')" "distinct (map g_eui (w_gws w))" "g < length (w_gws w)"
  shows "\<exists>ps. wrote (g_fd (w_gws w ! g)) ps w w' \<and> set ps \<subseteq> {p} \<and> length ps \<le> 1"
proof -
  have i: "index_where (\<lambda>gw. g_eui gw = g_eui (w_gws w ! g)) (w_gws w) = Some g"
    using assms(2,3) by (rule index_where_own)
  obtain r1 where "gateway_write_downlink n g p w = Some (r1, w')"
    using assms(1,3) i
    by (auto simp: send_packet_def gateway_id_write_downlink_def bnd_def read_gw_def return_def split: option.splits)
  then show ?thesis by (rule gateway_write_wrote) (rule assms(3))
qed

section \<open>Receive windows\<close>

lemma set_rate_keeps:
  "set_rate rp rate p = Some q \<Longrightarrow> tx_payload q = tx_payload p \<and> tx_mode q = tx_mode p \<and> tx_count_us q = tx_count_us p"
  by (auto simp: set_rate_def Let_def split: if_splits)

lemma rx_window_wrote:
  assumes "rx_window n g rp rate mhz timing p w = Some ((r, q), w')" "distinct (map g_eui (w_gws w))" "g < length (w_gws w)"
  shows "\<exists>ps. wrote (g_fd (w_gws w ! g)) ps w w' \<and> length ps \<le> 1 \<and>
    (q = p \<and> ps = [] \<or> (\<exists>p1. tx_payload p1 = tx_payload p \<and> tx_mode p1 = tx_mode p \<and> q = timing p1 \<and> set ps \<subseteq> {q}))"
proof (cases "mhz > 1 \<and> unat rate < num_datarates rp")
  case True
  then obtain p1 hz r1 where p1: "set_rate rp rate p = Some p1" "q = timing (p1\<lparr>tx_freq_hz := hz\<rparr>)"
    and sent: "send_packet n g q w = Some (r1, w')"
    using assms(1)
    by (auto simp: rx_window_def bnd_def must_def return_def undefined_behaviour_def Let_def split: option.splits)
  obtain ps where "wrote (g_fd (w_gws w ! g)) ps w w'" "set ps \<subseteq> {q}" "length ps \<le> 1"
    using send_packet_wrote [OF sent assms(2,3)] by blast
  then show ?thesis using set_rate_keeps [OF p1(1)] p1(2) by (intro exI [of _ ps]) (auto intro!: exI [of _ "p1\<lparr>tx_freq_hz := hz\<rparr>"])
next
  case False
  then have "q = p" "w' = w" using assms(1) by (auto simp: rx_window_def return_def split: if_splits)
  then show ?thesis by (intro exI [of _ "[]"]) simp
qed

lemma rx_window_packets:
  assumes "rx_window n g rp rate mhz timing p w = Some ((r, q), w')" "distinct (map g_eui (w_gws w))" "g < length (w_gws w)"
    and Q: "\<And>p1. tx_payload p1 = tx_payload p \<Longrightarrow> tx_mode p1 = tx_mode p \<Longrightarrow> Q (timing p1)"
  shows "\<exists>ps. wrote (g_fd (w_gws w ! g)) ps w w' \<and> length ps \<le> 1 \<and> (\<forall>q \<in> set ps. Q q)"
proof -
  obtain ps where ps: "wrote (g_fd (w_gws w ! g)) ps w w'" "length ps \<le> 1"
    and "q = p \<and> ps = [] \<or> (\<exists>p1. tx_payload p1 = tx_payload p \<and> tx_mode p1 = tx_mode p \<and> q = timing p1 \<and> set ps \<subseteq> {q})"
    using rx_window_wrote [OF assms(1-3)] by (elim exE conjE)
  then have "ps = [] \<or> Q q \<and> set ps \<subseteq> {q}" using Q by metis
  then show ?thesis using ps by auto
qed

section \<open>The downlink\<close>

definition after :: "ULToken_t \<Rightarrow> nat \<Rightarrow> u32" where
  "after tok s = count_us tok + word_of_nat (s * 1000000)"

text \<open>A packet carries the frame in a window of the device: class C listens all the time.\<close>

definition in_window :: "DLMetaData_t \<Rightarrow> ULToken_t \<Rightarrow> buf \<Rightarrow> lgw_pkt_tx_s \<Rightarrow> bool" where
  "in_window md tok frame p \<longleftrightarrow> tx_payload p = frame \<and>
     (tx_mode p = TIMESTAMPED \<and> tx_count_us p \<in> {after tok (unat (RXDelay1 md)), after tok (unat (RXDelay1 md) + 1)} \<or>
      ClassMode md = CHR ''C'' \<and> tx_mode p = IMMEDIATE)"

lemma rx_windows_wrote:
  assumes "rx_windows n md tok g rp p w = Some (r, w')" "distinct (map g_eui (w_gws w))" "g < length (w_gws w)"
    "tx_mode p = TIMESTAMPED"
  shows "\<exists>ps. wrote (g_fd (w_gws w ! g)) ps w w' \<and> length ps \<le> 2 \<and> (\<forall>q \<in> set ps. in_window md tok (tx_payload p) q)"
proof -
  let ?w1 = "rx_window n g rp (DataRate1 md) (dl_DLFreq1 md) (\<lambda>p. p\<lparr>tx_count_us := after tok (unat (RXDelay1 md))\<rparr>)"
  let ?w2 = "rx_window n g rp (DataRate2 md) (dl_DLFreq2 md)
      (\<lambda>p. if ClassMode md = CHR ''C'' then p\<lparr>tx_mode := IMMEDIATE\<rparr> else p\<lparr>tx_count_us := after tok (unat (RXDelay1 md) + 1)\<rparr>)"
  obtain r1 p1 w1 where 1: "?w1 p w = Some ((r1, p1), w1)"
    and rest: "r1 \<noteq> None \<and> w' = w1 \<or> (\<exists>r2 p2. ?w2 p1 w1 = Some ((r2, p2), w'))"
    using assms(1) unfolding rx_windows_def Let_def after_def [symmetric]
    by (auto simp: bnd_def return_def split: option.splits prod.splits)
  obtain ps where ps: "wrote (g_fd (w_gws w ! g)) ps w w1" "length ps \<le> 1"
    and set: "p1 = p \<and> ps = [] \<or> (\<exists>p0. tx_payload p0 = tx_payload p \<and> tx_mode p0 = tx_mode p \<and>
      p1 = p0\<lparr>tx_count_us := after tok (unat (RXDelay1 md))\<rparr> \<and> set ps \<subseteq> {p1})"
    using rx_window_wrote [OF 1 assms(2,3)] by blast
  then have in1: "\<forall>q \<in> set ps. in_window md tok (tx_payload p) q" and p1: "tx_payload p1 = tx_payload p" "tx_mode p1 = TIMESTAMPED"
    using assms(4) by (auto simp: in_window_def)
  show ?thesis
  proof (cases "w' = w1")
    case True
    then show ?thesis using ps in1 by (intro exI [of _ ps]) simp
  next
    case False
    then obtain r2 p2 where 2: "?w2 p1 w1 = Some ((r2, p2), w')" using rest by blast
    note same = same_gateways [OF ps(1) assms(3)]
    have two: "in_window md tok (tx_payload p) (if ClassMode md = CHR ''C'' then p0\<lparr>tx_mode := IMMEDIATE\<rparr> else p0\<lparr>tx_count_us := after tok (unat (RXDelay1 md) + 1)\<rparr>)"
      if "tx_payload p0 = tx_payload p1" "tx_mode p0 = tx_mode p1" for p0
      using that p1 by (simp add: in_window_def)
    obtain qs where qs: "wrote (g_fd (w_gws w1 ! g)) qs w1 w'" "length qs \<le> 1" "\<forall>q \<in> set qs. in_window md tok (tx_payload p) q"
      using rx_window_packets [OF 2 same(3) [OF assms(2)] same(1), of "in_window md tok (tx_payload p)", OF two] by metis
    note qs = qs(1) [unfolded same(2)] qs(2,3)
    then show ?thesis using in1 ps(2) qs(2,3) wrote_append [OF ps(1) qs(1)] by (intro exI [of _ "ps @ qs"]) auto
  qed
qed

lemma token_gateway_known: "token_gateway gws sk = Some g \<Longrightarrow> g < length gws \<and> g_fd (gws ! g) = sk"
  using nth_mem [of _ "rev [0..<length gws]"] by (auto simp: token_gateway_def find_Some_iff)

lemma downlink_in_windows:
  assumes run: "fNS_downlink n md tid client (Some b) len w = Some (r, w')"
    and A: "ClassMode md \<noteq> CHR ''B''" and tok: "dl_FNSULToken md = Some t" "token_octets (stack_octet n) t = Some os"
    and w: "world_wf w"
  shows "\<exists>ps. wrote (tok_fd (parse_ULToken os)) ps w w' \<and> length ps \<le> 2 \<and>
    (\<forall>p \<in> set ps. in_window md (parse_ULToken os) (take (unat len) b) p) \<and>
    (ps \<noteq> [] \<longrightarrow> (\<exists>gw \<in> set (w_gws w). g_fd gw = tok_fd (parse_ULToken os) \<and> \<not> too_late n md gw))"
proof -
  let ?tok = "parse_ULToken os"
  have "w' = w \<or> (\<exists>g (rg :: region_t) frame r1. token_gateway (w_gws w) (tok_fd ?tok) = Some g \<and> \<not> too_late n md (w_gws w ! g) \<and>
      rd 0 (unat len) b = Some frame \<and> rx_windows n md ?tok g (regional rg) (downlink_packet n (regional rg) frame) w = Some (r1, w'))"
    using run A tok
    by (auto simp: fNS_downlink_def must_def bnd_def return_def undefined_behaviour_def Let_def split: if_splits option.splits)
  then show ?thesis
  proof (elim disjE exE conjE)
    assume "w' = w"
    then show ?thesis by (intro exI [of _ "[]"]) simp
  next
    fix g rg frame r1
    assume g: "token_gateway (w_gws w) (tok_fd ?tok) = Some g" "\<not> too_late n md (w_gws w ! g)" and frame: "rd 0 (unat len) b = Some frame"
      and sent: "rx_windows n md ?tok g (regional rg) (downlink_packet n (regional rg) frame) w = Some (r1, w')"
    have p: "tx_payload (downlink_packet n (regional rg) frame) = take (unat len) b" "tx_mode (downlink_packet n (regional rg) frame) = TIMESTAMPED"
      using frame by (auto simp: downlink_packet_def rd_def slice_def split: if_splits)
    have "distinct (map g_eui (w_gws w))" using w by (simp add: world_wf_def)
    from rx_windows_wrote [OF sent this _ p(2)] token_gateway_known [OF g(1)] g(2) p(1)
    show ?thesis by (metis nth_mem)
  qed
qed

end
