(* ===== verification/CopyFacts.thy ===== *)
theory CopyFacts
  imports WorldFacts NsDispatch
begin

text \<open>
  One frame reaches the server in several copies, from its own gateways and
  through partners, in any order. The frame that is kept is the one of the
  best signal, the first of the best when several are equal.
\<close>

section \<open>Copies in the order they arrive\<close>

datatype copy = OwnCopy gateway_t lgw_pkt_rx_s u8 | PartnerCopy nat buf "int \<times> int \<times> string option"

primrec receive_copy :: "copy \<Rightarrow> mote_t \<Rightarrow> mote_t option" where
  "receive_copy (OwnCopy gw pk rate) m = add_copy gw pk rate m"
| "receive_copy (PartnerCopy k pay best) m = Some (take_copy k pay best m)"

primrec receive_copies :: "copy list \<Rightarrow> mote_t \<Rightarrow> mote_t option" where
  "receive_copies [] m = Some m"
| "receive_copies (c # cs) m = Option.bind (receive_copy c m) (receive_copies cs)"

primrec copy_quality :: "copy \<Rightarrow> int" where
  "copy_quality (OwnCopy gw pk rate) = signal_quality pk"
| "copy_quality (PartnerCopy k pay best) = fst best"

primrec copy_frame :: "copy \<Rightarrow> buf" where
  "copy_frame (OwnCopy gw pk rate) = rx_payload pk"
| "copy_frame (PartnerCopy k pay best) = pay"

section \<open>The best of them\<close>

text \<open>Better than b, than all before, and as good as all after.\<close>

definition is_best :: "int \<Rightarrow> copy list \<Rightarrow> copy \<Rightarrow> bool" where
  "is_best b cs c \<longleftrightarrow> (\<exists>ys zs. cs = ys @ c # zs \<and> b < copy_quality c \<and>
     (\<forall>d \<in> set ys. copy_quality d < copy_quality c) \<and> (\<forall>d \<in> set zs. copy_quality d \<le> copy_quality c))"

definition kept :: "copy \<Rightarrow> mote_t \<Rightarrow> bool" where
  "kept c m \<longleftrightarrow> best_sq m = copy_quality c \<and> take (length (copy_frame c)) (ULPayloadBin m) = copy_frame c \<and>
     ULPHYPayloadLen m = word_of_nat (length (copy_frame c)) \<and>
     (case c of OwnCopy gw pk _ \<Rightarrow> bestULTokenStr m = Some (token_text gw pk) | PartnerCopy k _ _ \<Rightarrow> bestR m = Some k)"

definition same_choice :: "mote_t \<Rightarrow> mote_t \<Rightarrow> bool" where
  "same_choice m m' \<longleftrightarrow> best_sq m' = best_sq m \<and> ULPayloadBin m' = ULPayloadBin m \<and> ULPHYPayloadLen m' = ULPHYPayloadLen m \<and>
     bestULTokenStr m' = bestULTokenStr m \<and> bestR m' = bestR m"

lemma same_choice_kept: "same_choice m m' \<Longrightarrow> kept c m \<Longrightarrow> kept c m'"
  by (auto simp: same_choice_def kept_def split: copy.splits)

lemma same_choice_trans: "same_choice m m' \<Longrightarrow> same_choice m' m'' \<Longrightarrow> same_choice m m''"
  by (simp add: same_choice_def)

lemma is_best_Cons:
  assumes "is_best a cs d" "b \<le> a" "copy_quality c \<le> a"
  shows "is_best b (c # cs) d"
proof -
  obtain ys zs where "cs = ys @ d # zs" "a < copy_quality d" "\<forall>e \<in> set ys. copy_quality e < copy_quality d"
    "\<forall>e \<in> set zs. copy_quality e \<le> copy_quality d"
    using assms(1) unfolding is_best_def by blast
  then show ?thesis unfolding is_best_def using assms(2,3) by (intro exI [of _ "c # ys"] exI [of _ zs]) auto
qed

lemma is_best_first: "b < copy_quality c \<Longrightarrow> \<forall>d \<in> set cs. copy_quality d \<le> copy_quality c \<Longrightarrow> is_best b (c # cs) c"
  unfolding is_best_def by (intro exI [of _ "[]"] exI [of _ cs]) simp

lemma receive_copy_choice:
  assumes "receive_copy c m = Some m'" "length (copy_frame c) \<le> 256" "length (ULPayloadBin m) = 256"
  shows "if best_sq m < copy_quality c then kept c m' else same_choice m m'" and "length (ULPayloadBin m') = 256"
  using assms
  by (cases c; force simp: add_copy_def take_copy_def Let_def kept_def same_choice_def len_simps memcpy_at_def
      split: option.splits prod.splits if_splits)+

lemma receive_copies_choice:
  assumes "receive_copies cs m = Some m'" "\<forall>c \<in> set cs. length (copy_frame c) \<le> 256" "length (ULPayloadBin m) = 256"
  shows "if \<exists>c \<in> set cs. best_sq m < copy_quality c then \<exists>c. is_best (best_sq m) cs c \<and> kept c m' else same_choice m m'"
  using assms
proof (induction cs arbitrary: m)
  case (Cons c cs)
  then obtain m1 where m1: "receive_copy c m = Some m1" "receive_copies cs m1 = Some m'"
    by (auto simp: bind_eq_Some_conv)
  note one = receive_copy_choice [OF m1(1)]
  have IH: "if \<exists>c \<in> set cs. best_sq m1 < copy_quality c then \<exists>c. is_best (best_sq m1) cs c \<and> kept c m' else same_choice m1 m'"
    using Cons.IH [OF m1(2)] one(2) Cons.prems by simp
  show ?case
  proof (cases "best_sq m < copy_quality c")
    case True
    then have k: "kept c m1" using one(1) Cons.prems by simp
    then have q: "best_sq m1 = copy_quality c" by (simp add: kept_def)
    show ?thesis
    proof (cases "\<exists>d \<in> set cs. copy_quality c < copy_quality d")
      case True
      then obtain d where "is_best (copy_quality c) cs d" "kept d m'" using IH q by auto
      then show ?thesis using is_best_Cons [of "copy_quality c" cs d "best_sq m" c] \<open>best_sq m < copy_quality c\<close> by auto
    next
      case False
      then have "\<not> (\<exists>d \<in> set cs. best_sq m1 < copy_quality d)" using q by simp
      then have "same_choice m1 m'" using IH by (simp only: if_False)
      then have "kept c m'" using k same_choice_kept by blast
      moreover have "is_best (best_sq m) (c # cs) c"
        using False \<open>best_sq m < copy_quality c\<close> by (intro is_best_first) (auto simp: not_less)
      ultimately have "is_best (best_sq m) (c # cs) c" "kept c m'" by auto
      then show ?thesis using \<open>best_sq m < copy_quality c\<close> by auto
    qed
  next
    case False
    then have s: "same_choice m m1" using one(1) Cons.prems by simp
    then have "best_sq m1 = best_sq m" by (simp add: same_choice_def)
    moreover have "is_best (best_sq m) cs d \<Longrightarrow> is_best (best_sq m) (c # cs) d" for d
      using False by (intro is_best_Cons) auto
    ultimately show ?thesis using IH False same_choice_trans [OF s] by (auto split: if_splits)
  qed
qed (simp add: same_choice_def)

section \<open>What the copies leave recorded of their senders\<close>

text \<open>
  The copies that were the best at their arrival, each better than all before.
  Only a partner's copy writes the requester, and only a copy with a token
  writes the token: a better own copy leaves the requester of the partner that
  led before, where ns.h says it is null when the best copy is local.
\<close>

primrec leaders :: "int \<Rightarrow> copy list \<Rightarrow> copy list" where
  "leaders b [] = []"
| "leaders b (c # cs) = (if b < copy_quality c then c # leaders (copy_quality c) cs else leaders b cs)"

primrec requester_after :: "copy \<Rightarrow> nat option \<Rightarrow> nat option" where
  "requester_after (OwnCopy gw pk rate) r = r"
| "requester_after (PartnerCopy k pay best) r = Some k"

primrec token_after :: "copy \<Rightarrow> string option \<Rightarrow> string option" where
  "token_after (OwnCopy gw pk rate) t = Some (token_text gw pk)"
| "token_after (PartnerCopy k pay best) t = (if snd (snd best) = None then t else snd (snd best))"

lemma receive_copy_senders:
  assumes "receive_copy c m = Some m'"
  shows "if best_sq m < copy_quality c
    then best_sq m' = copy_quality c \<and> bestR m' = requester_after c (bestR m) \<and> bestULTokenStr m' = token_after c (bestULTokenStr m)
    else best_sq m' = best_sq m \<and> bestR m' = bestR m \<and> bestULTokenStr m' = bestULTokenStr m"
  using assms
  by (cases c) (auto simp: add_copy_def take_copy_def Let_def split: option.splits prod.splits if_splits)

lemma receive_copies_senders:
  assumes "receive_copies cs m = Some m'"
  shows "bestR m' = fold requester_after (leaders (best_sq m) cs) (bestR m)"
    "bestULTokenStr m' = fold token_after (leaders (best_sq m) cs) (bestULTokenStr m)"
  using assms
proof (induction cs arbitrary: m)
  case (Cons c cs)
  {
    case 1
    then obtain m1 where m1: "receive_copy c m = Some m1" "receive_copies cs m1 = Some m'" by (auto simp: bind_eq_Some_conv)
    show ?case using receive_copy_senders [OF m1(1)] Cons.IH(1) [OF m1(2)] by (simp split: if_splits)
  next
    case 2
    then obtain m1 where m1: "receive_copy c m = Some m1" "receive_copies cs m1 = Some m'" by (auto simp: bind_eq_Some_conv)
    show ?case using receive_copy_senders [OF m1(1)] Cons.IH(2) [OF m1(2)] by (simp split: if_splits)
  }
qed simp_all

end
