(* ===== verification/CounterFacts.thy ===== *)
theory CounterFacts
  imports WorldFacts ServingDown
begin

text \<open>
  The downlink counter of a device: an unconfirmed frame that went out uses
  it up, once, in the session and in the database; nothing else does.
\<close>

definition mote_at :: "ns_world \<Rightarrow> nat \<Rightarrow> mote_t \<Rightarrow> s_t \<Rightarrow> bool" where
  "mote_at w i m s \<longleftrightarrow> i < length (w_motes w) \<and> w_motes w ! i = Some m \<and> m_s m = Some s"

text \<open>The statements among the effects, those put on the queue and those run at once.\<close>

fun statements :: "effect list \<Rightarrow> string list" where
  "statements [] = []"
| "statements (Statement q # es) = q # statements es"
| "statements (Query q # es) = q # statements es"
| "statements (_ # es) = statements es"

lemma statements_append [simp]: "statements (es @ es') = statements es @ statements es'"
  by (induction es rule: statements.induct) simp_all

text \<open>The counter, and whether it is still to be advanced, stay as they are; no statement is added.\<close>

definition same_counter :: "nat \<Rightarrow> ns_world \<Rightarrow> ns_world \<Rightarrow> bool" where
  "same_counter i w w' \<longleftrightarrow> (\<exists>es. w_eff w' = w_eff w @ es \<and> statements es = []) \<and>
     (\<forall>m s. mote_at w i m s \<longrightarrow> (\<exists>m' s'. mote_at w' i m' s' \<and> session m' = session m \<and> m_devAddr m' = m_devAddr m \<and>
        incrNFCntDown (flags s') = incrNFCntDown (flags s)))"

lemma same_counter_refl [simp]: "same_counter i w w"
  unfolding same_counter_def by (auto intro: exI [of _ "[]"])

lemma same_counter_trans:
  assumes "same_counter i u v" "same_counter i v w"
  shows "same_counter i u w"
proof -
  obtain es es' where "w_eff v = w_eff u @ es" "statements es = []" "w_eff w = w_eff v @ es'" "statements es' = []"
    using assms unfolding same_counter_def by blast
  then have "w_eff w = w_eff u @ es @ es'" "statements (es @ es') = []" by simp_all
  then show ?thesis using assms unfolding same_counter_def by (intro conjI) (blast, metis)
qed

lemma read_s_at: "read_s i w = Some (s, w') \<longleftrightarrow> w' = w \<and> (\<exists>m. mote_at w i m s)"
  by (auto simp: read_s_def bnd_def read_mote_def must_def return_def undefined_behaviour_def mote_at_def split: if_splits option.splits)

lemma modify_s_at:
  assumes "modify_s i f w = Some (x, w')" "mote_at w i m s"
  shows "mote_at w' i (m\<lparr>m_s := Some (f s)\<rparr>) (f s) \<and> w_eff w' = w_eff w"
  using assms by (auto simp: modify_s_def bnd_def read_mote_def write_mote_def must_def return_def mote_at_def split: if_splits option.splits)

lemma modify_s_counter:
  assumes "modify_s i f w = Some (x, w')" "\<And>s. incrNFCntDown (flags (f s)) = incrNFCntDown (flags s)"
  shows "same_counter i w w'"
proof -
  have "w_eff w' = w_eff w"
    using assms(1) by (auto simp: modify_s_def bnd_def read_mote_def write_mote_def must_def return_def undefined_behaviour_def split: if_splits option.splits)
  then show ?thesis using modify_s_at [OF assms(1)] assms(2) by (fastforce simp: same_counter_def)
qed

lemma answer_app_flags: "answer_app n m s res httpd = Some (s', j, eff) \<Longrightarrow> flags s' = flags s"
  by (drule answer_app_state) (auto simp: clear_frm_def)

lemma answers_only_post:
  "statements (snd (sNS_XmitDataAns_tohNS n s res netid)) = []"
  "sendXmitDataAns n toAS j dest tid res = Some (ret, eff) \<Longrightarrow> statements eff = []"
  unfolding sNS_XmitDataAns_tohNS_def sendXmitDataAns_def Let_def by (simp, simp split: option.splits if_splits) auto

lemma answer_app_statements:
  assumes "answer_app n m s res httpd = Some (s', j, eff)"
  shows "statements eff = []"
proof -
  let ?sql = "snd (sql_motes_query (n_db n) (n_now n) (m_devEui m) (m_devAddr m))"
  consider "eff = snd (sNS_XmitDataAns_tohNS n s res (r_roamingWithNetID ?sql))" | "eff = []"
    | ret where "sendXmitDataAns n (isAnsDestAS (downlink s)) (dl_freqs s) (ansDest (downlink s)) (d_reqTid (downlink s)) res = Some (ret, eff)"
    using assms unfolding answer_app_def Let_def by (simp split: if_split_asm prod.split_asm) auto
  then show ?thesis using answers_only_post by cases simp_all
qed

lemma answer_app_downlink_counter:
  assumes "answer_app_downlink n i res httpd w = Some (j, w')"
  shows "same_counter i w w'"
proof -
  obtain m s s' eff where m: "mote_at w i m s" "answer_app n m s res httpd = Some (s', j, eff)"
    and w': "w' = w\<lparr>w_motes := (w_motes w)[i := Some (with_s m s')], w_eff := w_eff w @ eff\<rparr>"
    using assms
    by (auto simp: answer_app_downlink_def bnd_def andthen_def read_mote_def write_mote_def must_def return_def undefined_behaviour_def
        emit_all_def mote_at_def split: if_splits option.splits)
  have "mote_at w' i (with_s m s') s'" using m(1) by (simp add: mote_at_def w' with_s_def)
  then show ?thesis using m answer_app_flags [OF m(2)] answer_app_statements [OF m(2)]
    by (fastforce simp: same_counter_def mote_at_def w' with_s_def)
qed

lemma keeps_counter [intro]:
  "keeps (same_counter i) (answer_app_downlink n i res httpd)"
  "(\<And>s. incrNFCntDown (flags (f s)) = incrNFCntDown (flags s)) \<Longrightarrow> keeps (same_counter i) (modify_s i f)"
  using answer_app_downlink_counter modify_s_counter by (auto simp: keeps_def)

text \<open>The counter goes up when a frame that uses it went out.\<close>

definition uses_counter :: "result \<Rightarrow> s_t \<Rightarrow> bool" where
  "uses_counter res s \<longleftrightarrow> res = Success \<and> mtype_of (d_PHYPayloadBin (downlink s) ! 0) = MTYPE_UNCONF_DN \<and> incrNFCntDown (flags s)"

lemma count_unconfirmed_at:
  assumes "count_unconfirmed i w = Some (x, w')" "mote_at w i m s"
  shows "if incrNFCntDown (flags s)
    then mote_at w' i (m\<lparr>session := (session m)\<lparr>NFCntDown := NFCntDown (session m) + 1\<rparr>,
             m_s := Some (s\<lparr>flags := (flags s)\<lparr>incrNFCntDown := False\<rparr>\<rparr>)\<rparr>) (s\<lparr>flags := (flags s)\<lparr>incrNFCntDown := False\<rparr>\<rparr>) \<and>
         w_eff w' = w_eff w @ [Statement (snd (incr_sql_NFCntDown (m_devAddr m)))]
    else w' = w"
  using assms
  by (auto simp: count_unconfirmed_def bnd_def andthen_def read_mote_def write_mote_def must_def return_def emit_def
      incr_sql_NFCntDown_def mote_at_def split: if_splits option.splits)


lemma sent_frame_counts:
  assumes run: "sNSDownlinkSent n i res httpd w = Some (j, w')" and m: "mote_at w i m s"
  shows "\<exists>m' s'. mote_at w' i m' s' \<and> m_devAddr m' = m_devAddr m \<and>
    (if uses_counter res s
     then session m' = (session m)\<lparr>NFCntDown := NFCntDown (session m) + 1\<rparr> \<and> \<not> incrNFCntDown (flags s') \<and>
       (\<exists>es. w_eff w' = w_eff w @ Statement (snd (incr_sql_NFCntDown (m_devAddr m))) # es \<and> statements es = [])
     else session m' = session m \<and> incrNFCntDown (flags s') = incrNFCntDown (flags s) \<and>
       (\<exists>es. w_eff w' = w_eff w @ es \<and> statements es = []))"
proof -
  let ?sent = "if res = Success then
      andthen (if mtype_of (d_PHYPayloadBin (downlink s) ! 0) = MTYPE_UNCONF_DN then count_unconfirmed i else return ())
        (modify_s i (\<lambda>s. s\<lparr>downlink := (downlink s)\<lparr>d_PHYPayloadLen := 0\<rparr>\<rparr>))
    else return ()"
  let ?answer = "if \<not> dl_Confirmed (d_md (downlink s)) \<and> d_FRMPayloadLen (downlink s) > 0
     then bnd (answer_app_downlink n i res httpd) (\<lambda>j.
            andthen (modify_s i (\<lambda>s. s\<lparr>flags := (flags s)\<lparr>answer_app_downlink := False\<rparr>\<rparr>)) (return j))
     else return None"
  have r: "read_s i w = Some (s, w)" using m by (auto simp: read_s_at)
  obtain w2 where w2: "?sent w = Some ((), w2)" "?answer w2 = Some (j, w')"
    using run unfolding sNSDownlinkSent_def bnd_def [of "read_s i"] r by (auto simp: andthen_def bnd_def split: option.splits)
  have a: "same_counter i w2 w'"
  proof -
    have "keeps (same_counter i) ?answer"
      by (auto intro!: keeps_bnd keeps_andthen keeps_return intro: same_counter_trans)
    then show ?thesis using w2(2) by (simp add: keeps_def)
  qed
  show ?thesis
  proof (cases "res = Success")
    case False
    then have "w2 = w" using w2(1) by (simp add: return_def)
    then show ?thesis using a m False by (fastforce simp: same_counter_def uses_counter_def)
  next
    case True
    then obtain w1 where w1: "(if mtype_of (d_PHYPayloadBin (downlink s) ! 0) = MTYPE_UNCONF_DN then count_unconfirmed i else return ()) w = Some ((), w1)"
      and w12: "modify_s i (\<lambda>s. s\<lparr>downlink := (downlink s)\<lparr>d_PHYPayloadLen := 0\<rparr>\<rparr>) w1 = Some ((), w2)"
      using w2(1) by (auto simp: andthen_def bnd_def split: option.splits)
    have b: "same_counter i w1 w'" using modify_s_counter [OF w12] a same_counter_trans by simp
    show ?thesis
    proof (cases "uses_counter res s")
      case True
      then show ?thesis using w1 count_unconfirmed_at [OF _ m] b unfolding same_counter_def uses_counter_def by fastforce
    next
      case False
      then have "w1 = w" using w1 count_unconfirmed_at [OF _ m] \<open>res = Success\<close> by (auto simp: uses_counter_def return_def split: if_splits)
      then show ?thesis using b m False by (fastforce simp: same_counter_def)
    qed
  qed
qed

end
