(* ===== verification/ServerSamples.thy ===== *)
theory ServerSamples
  imports Samples ServerFacts DownlinkFacts CopyFacts CounterFacts
begin

text \<open>
  A gateway that connects twice, a class C downlink and three copies of a
  frame, for the witnesses of the properties of the server as a whole.
\<close>

section \<open>A gateway without a name\<close>

definition gw_hello :: buf where "gw_hello = [0xff, 0, 0, 0, 0, 0, 0, 0, 7]"

lemma hello_eui: "gateway_eui gw_hello = 7"
  by (simp add: gateway_eui_def gw_hello_def slice_def)

lemma hello_parse:
  "parse_gateway ns0 gw_hello 9 s w =
     bnd (gateway_node 7 s) (\<lambda>g. andthen (modify_gw g (\<lambda>gw. gw\<lparr>g_read_host_time := n_clock ns0\<rparr>)) (return 9)) w"
proof -
  have t: "gw_hello ! 0 = 0xff" by (simp add: gw_hello_def)
  show ?thesis
    by (simp add: parse_gateway_def hello_eui t REQ_CONF_def BEACON_INIT_def BEACON_INDICATION_def UPLINK_def Let_def bnd_def andthen_def return_def split: option.split)
qed

lemma hello_server:
  "server_step json0 [] (ns0, FromGateway s (Some gw_hello)) w =
     map_option snd (bnd (gateway_node 7 s) (\<lambda>g. modify_gw g (\<lambda>gw. gw\<lparr>g_read_host_time := n_clock ns0\<rparr>)) w)"
proof -
  have n: "ns0\<lparr>n_regions := []\<rparr> = ns0" by (simp add: ns0_def)
  have l: "read_from_client ns0 s (Some gw_hello) = messages ns0 gw_hello s 9"
    by (simp add: read_from_client_def gw_hello_def)
  have m: "messages ns0 gw_hello s 9 w = (case parse_gateway ns0 gw_hello 9 s w of None \<Rightarrow> None | Some (r, w1) \<Rightarrow> if r < 0 then Some (r, w1) else messages ns0 gw_hello s (9 - r) w1)"
    by (subst messages.simps) simp
  have z: "messages ns0 gw_hello s 0 w = Some (0, w)" for w
    by (subst messages.simps) simp
  show ?thesis
    by (simp add: server_step_def handle_def n from_gateway_def l m z hello_parse bnd_def andthen_def return_def split: option.split)
qed

lemma hello_steps:
  assumes "w_eff w = []"
  shows "w_gws w = [] \<Longrightarrow> \<exists>w'. server_step json0 [] (ns0, FromGateway s (Some gw_hello)) w = Some w' \<and>
      map g_eui (w_gws w') = [7] \<and> map g_fd (w_gws w') = [s] \<and> w_eff w' = []"
    and "map g_eui (w_gws w) = [7] \<Longrightarrow> map g_fd (w_gws w) = [f] \<Longrightarrow> f \<noteq> s \<Longrightarrow>
      \<exists>w'. server_step json0 [] (ns0, FromGateway s (Some gw_hello)) w = Some w' \<and>
      map g_eui (w_gws w') = [7] \<and> map g_fd (w_gws w') = [s] \<and> w_eff w' = [Close f]"
  using assms by (auto simp: hello_server gateway_node_def create_gateway_def bnd_def modify_gw_def Let_def)

section \<open>A class C downlink\<close>

definition region0 :: region_t where
  "region0 = \<lparr>conf_file_8ch = None, conf_file_16ch = None, rg_RFRegion = Some ''EU868'',
     regional = rp0\<lparr>num_datarates := 1, datarates := [\<lparr>lgw_bw = 0, lgw_sf_bps = 4, fdev_khz = 0\<rparr>]\<rparr>\<rparr>"

definition token0 :: string where "token0 = replicate 42 (CHR ''0'')"

definition md_C :: DLMetaData_t where
  "md_C = zero_dlmd\<lparr>ClassMode := CHR ''C'', dl_FNSULToken := Some token0, dl_DLFreq2 := 2\<rparr>"

definition world_gw :: ns_world where
  "world_gw = start_world\<lparr>w_gws := [(create_gateway 7 0)\<lparr>g_RFRegion := Some ''EU868''\<rparr>]\<rparr>"

lemma token0_octets: "token_octets 0 token0 = Some (replicate 21 0)"
proof -
  have z: "sscanf_hex ''00'' = Some (0 :: u8)"
    by (simp add: sscanf_hex_def scan_value_def is_space_def skip_0x_def scan_unsigned_digits_def digit_val_def)
  have t: "take 2 (drop (2 * i) token0) = ''00''" if "i < 21" for i
  proof -
    have "min 2 (42 - 2 * i) = 2" using that by simp
    then show ?thesis by (simp add: token0_def numeral_2_eq_2)
  qed
  have "length (foldl (\<lambda>os i. os @ [store (sscanf_hex (take 2 (drop (2 * i) token0))) (last os)]) [0 :: u8] [0..<m]) = m + 1 \<and>
      foldl (\<lambda>os i. os @ [store (sscanf_hex (take 2 (drop (2 * i) token0))) (last os)]) [0 :: u8] [0..<m] = replicate (m + 1) 0" if "m \<le> 21" for m
    using that by (induction m) (auto simp: t z store_def replicate_append_same)
  from this [of 21] show ?thesis by (simp add: token_octets_def token0_def)
qed

lemma token0_socket: "tok_fd (parse_ULToken (replicate 21 0)) = 0"
  by (simp add: parse_ULToken_def slice_def eval_nat_numeral)

lemma float0: "freq_hz 2 = Some 2000000"
proof -
  have "to_float 2000000 = 2000000" by code_simp
  then show ?thesis by (simp add: freq_hz_def to_u32_def to_range_def trunc_def)
qed

lemma downlink0_runs:
  "\<exists>r w'. fNS_downlink (ns0\<lparr>n_regions := [region0]\<rparr>) md_C 1 None (Some phy0) 12 world_gw = Some (Some r, w') \<and> w_eff w' \<noteq> []"
proof -
  let ?n = "ns0\<lparr>n_regions := [region0]\<rparr>"
  let ?w = world_gw
  have gw: "w_gws ?w = [(create_gateway 7 0)\<lparr>g_RFRegion := Some ''EU868''\<rparr>]" by (simp add: world_gw_def)
  note tok = token0_socket
  have g: "token_gateway (w_gws ?w) 0 = Some 0" by (simp add: gw token_gateway_def create_gateway_def)
  have late: "\<not> too_late ?n md_C (w_gws ?w ! 0)" by (simp add: too_late_def md_C_def)
  have rg: "find_region (n_regions ?n) (g_RFRegion (w_gws ?w ! 0)) = Some region0" by (simp add: find_region_def gw region0_def)
  have frame: "rd 0 (unat (12 :: u8)) phy0 = Some (take 12 phy0)" by (simp add: rd_def slice_def)
  have "\<exists>r w'. rx_windows ?n md_C (parse_ULToken (replicate 21 0)) 0 (regional region0) (downlink_packet ?n (regional region0) (take 12 phy0)) ?w = Some (r, w') \<and>
      w_eff w' \<noteq> []"
    by (simp add: rx_windows_def rx_window_def md_C_def zero_dlmd_def bnd_def return_def must_def float0 set_rate_def region0_def Let_def)
      (simp add: send_packet_def gateway_id_write_downlink_def gateway_write_downlink_def bnd_def read_gw_def andthen_def emit_def gw create_gateway_def return_def modify_gw_def must_def downlink_packet_def
        ns0_def tx0_def lgw_time_on_air_us_def lgw_bw_getval_def)
  then show ?thesis
    using tok g late rg frame token0_octets
    by (auto simp: fNS_downlink_def md_C_def ns0_def must_def return_def bnd_def Let_def)
qed


section \<open>A frame that was sent\<close>

definition s_sent :: s_t where
  "s_sent = s0\<lparr>flags := flags0\<lparr>incrNFCntDown := True\<rparr>, downlink := dl0\<lparr>d_PHYPayloadBin := 0x60 # replicate 255 0, d_PHYPayloadLen := 12\<rparr>\<rparr>"

definition world_sent :: ns_world where
  "world_sent = start_world\<lparr>w_motes := [Some (mote0\<lparr>m_s := Some s_sent\<rparr>)]\<rparr>"

lemma sent0_at: "mote_at world_sent 0 (mote0\<lparr>m_s := Some s_sent\<rparr>) s_sent"
  by (simp add: mote_at_def world_sent_def)

lemma mtype_down0: "mtype_of 0x60 = MTYPE_UNCONF_DN"
  by code_simp

lemma sent0_uses: "uses_counter Success s_sent" "NFCntDown (session mote0) = 0"
  by (simp_all add: uses_counter_def s_sent_def mtype_down0 mote0_def zero_session_def)

lemma sent0_runs: "\<exists>j w'. sNSDownlinkSent ns0 0 Success False world_sent = Some (j, w') \<and> length (w_motes w') = 1"
  by (simp add: sNSDownlinkSent_def read_s_def bnd_def read_mote_def must_def return_def andthen_def count_unconfirmed_def
      incr_sql_NFCntDown_def emit_def write_mote_def modify_s_def world_sent_def s_sent_def mtype_down0 dl0_def)

end
