(* ===== verification/JoinForms.thy ===== *)
theory JoinForms
  imports JoinDispatch
begin

text \<open>
  What the operator asks of the join server (join_server/web.c): the fields of
  a form, kept for a session and not cleared between forms, and what is done
  when it is submitted: a device with its keys, its home network, the networks
  it may roam in and the lifetime of its sessions. An operation returns the
  reason of a failure, empty when it succeeded, and the statements it ran.
\<close>

section \<open>The form\<close>

datatype js_op = OP_NONE | OP_ADD | OP_DEL | OP_SET_HOME_NETID | OP_ADD_ROAM_NETID | OP_DEL_ROAM_NETID | OP_LIFETIME

record js_form =
  jf_DevEUI :: u64
  jf_NwkKey :: string
  jf_AppKey :: string
  jf_op :: js_op
  jf_roamNetID :: u32
  jf_homeNetID :: u32
  jf_Lifetime :: u32
  jf_redir_url :: string

definition NONE_NETID :: u32 where "NONE_NETID = 0xffffff"

text \<open>A text that fills its array has no end, and counts as undefined when it is copied.\<close>

definition key_text :: "string \<Rightarrow> string option" where "key_text t = (if length t < 33 then Some t else None)"

definition net_field :: "string \<Rightarrow> u32 \<Rightarrow> u32" where
  "net_field data old = (if data = [] then NONE_NETID else store (sscanf_hex data) old)"

definition js_action :: "string \<Rightarrow> js_op \<Rightarrow> js_op" where
  "js_action data old =
    (if data = ''setHomeNetID'' then OP_SET_HOME_NETID else if data = ''addRoamNetID'' then OP_ADD_ROAM_NETID
     else if data = ''updateLifetime'' then OP_LIFETIME else old)"

definition js_post_iterator :: "string \<Rightarrow> string \<Rightarrow> js_form \<Rightarrow> js_form option" where
  "js_post_iterator key data f =
    (if key = ''DevEUI'' then Some (f\<lparr>jf_DevEUI := store (sscanf_hex data) (jf_DevEUI f)\<rparr>)
     else if key = ''NwkKey'' then map_option (\<lambda>t. f\<lparr>jf_NwkKey := t\<rparr>) (key_text data)
     else if key = ''AppKey'' then map_option (\<lambda>t. f\<lparr>jf_AppKey := t\<rparr>) (key_text data)
     else if key = ''action'' then Some (f\<lparr>jf_op := js_action data (jf_op f)\<rparr>)
     else if key = ''Lifetime'' then Some (f\<lparr>jf_Lifetime := store (sscanf_dec data) (jf_Lifetime f)\<rparr>)
     else if key = ''addbut'' then Some (f\<lparr>jf_op := OP_ADD\<rparr>)
     else if take 4 key = ''del-'' then Some (f\<lparr>jf_DevEUI := store (sscanf_hex (drop 4 key)) (jf_DevEUI f), jf_op := OP_DEL\<rparr>)
     else if key = ''NetID'' then Some (f\<lparr>jf_homeNetID := net_field data (jf_homeNetID f)\<rparr>)
     else if key = ''roamNetID'' then Some (f\<lparr>jf_roamNetID := net_field data (jf_roamNetID f)\<rparr>)
     else if data = ''deleteNetID'' then Some (f\<lparr>jf_roamNetID := store (sscanf_hex key) (jf_roamNetID f), jf_op := OP_DEL_ROAM_NETID\<rparr>)
     else Some f)"

fun js_post_fields :: "(string \<times> string) list \<Rightarrow> js_form \<Rightarrow> js_form option" where
  "js_post_fields [] f = Some f"
| "js_post_fields ((key, data) # ks) f = Option.bind (js_post_iterator key data f) (js_post_fields ks)"

section \<open>Operations\<close>

type_synonym js_done = "string \<times> string list"

text \<open>A statement, and a statement that has to touch a row.\<close>

definition js_statement :: "js_env \<Rightarrow> string \<Rightarrow> string \<Rightarrow> string \<Rightarrow> js_done" where
  "js_statement e before after q = (if js_db e q = SqlError then before @ js_error e q @ after else [], [q])"

definition js_change :: "js_env \<Rightarrow> string \<Rightarrow> string \<Rightarrow> string \<Rightarrow> js_done" where
  "js_change e before none q =
    (if js_db e q = SqlError then take 1023 (before @ js_error e q) else if js_affected e q < 1 then take 1023 none else [], [q])"

definition with_escape :: "string \<Rightarrow> string" where "with_escape t = CHR 0x1B # t"

definition DEFAULT_LIFETIME :: nat where "DEFAULT_LIFETIME = 3600"

text \<open>The row of a new device: with a key of its own it is a 1.1 device, and the keys of rejoins are derived.\<close>

definition hex_value :: "buf \<Rightarrow> string" where "hex_value b = ''0x'' @ hex_of_buf b"

definition joinmote_row :: "u64 \<Rightarrow> buf \<Rightarrow> buf option \<Rightarrow> (string \<times> string) list" where
  "joinmote_row eui nwk app =
    [(''Lifetime'', dec_of DEFAULT_LIFETIME), (''eui'', print_unsigned eui), (''NwkKey'', hex_value nwk)] @
    (case app of None \<Rightarrow> []
     | Some k \<Rightarrow>
         [(''AppKey'', hex_value k), (''JSIntKey'', hex_value (GenerateJoinKey 0x06 nwk (le_bytes 8 eui))),
          (''JSEncKey'', hex_value (GenerateJoinKey 0x05 nwk (le_bytes 8 eui)))])"

fun commas :: "string list \<Rightarrow> string" where
  "commas [] = []"
| "commas [x] = x"
| "commas (x # xs) = x @ '', '' @ commas xs"

definition replace_text :: "(string \<times> string) list \<Rightarrow> string" where
  "replace_text cols = ''REPLACE INTO joinmotes ('' @ commas (map fst cols) @ '') VALUES ('' @ commas (map snd cols) @ '')''"

text \<open>Two digits that do not scan leave an octet without a value.\<close>

definition mote_ota_add :: "js_env \<Rightarrow> js_form \<Rightarrow> js_done option" where
  "mote_ota_add e f =
    (case (hex_pairs 16 (jf_NwkKey f), if jf_AppKey f = [] then Some None else map_option Some (hex_pairs 16 (jf_AppKey f))) of
       (Some nwk, Some app) \<Rightarrow>
         Some (js_statement e (with_escape ''[31mJS (ota add) Error querying server: '') (with_escape ''[0m'' @ [CHR 0x0A])
           (replace_text (joinmote_row (jf_DevEUI f) nwk app)))
     | _ \<Rightarrow> None)"

definition delMote :: "js_env \<Rightarrow> u64 \<Rightarrow> js_done" where
  "delMote e eui =
    (case js_statement e ''joinmotes mysql_query() '' [] (''DELETE FROM joinmotes WHERE eui = '' @ print_unsigned eui) of (t, qs) \<Rightarrow>
       if t \<noteq> [] then (t, qs)
       else case js_statement e ''nonces mysql_query() '' [] (''DELETE FROM nonces WHERE mote = '' @ print_unsigned eui) of (t2, qs2) \<Rightarrow> (t2, qs @ qs2))"

definition is_hex :: "char \<Rightarrow> bool" where
  "is_hex c \<longleftrightarrow> c \<in> {CHR ''a''..CHR ''f''} \<or> c \<in> {CHR ''A''..CHR ''F''} \<or> c \<in> {CHR ''0''..CHR ''9''}"

text \<open>The last complaint is kept; only the key of the network is looked at digit by digit.\<close>

definition check_keys :: "js_form \<Rightarrow> string" where
  "check_keys f =
    (let t = (if length (jf_NwkKey f) < 32 then ''NwkKey less than 32 chars''
              else case find (\<lambda>i. \<not> is_hex (jf_NwkKey f ! i)) [0..<32] of
                     Some i \<Rightarrow> ''NwkKey: bad hex char at '' @ dec_of i | None \<Rightarrow> [])
     in if jf_AppKey f \<noteq> [] \<and> length (jf_AppKey f) < 32 then ''AppKey less than 32 chars'' else t)"

definition otaMotesSubmitted :: "js_env \<Rightarrow> js_form \<Rightarrow> js_done option" where
  "otaMotesSubmitted e f =
    (case jf_op f of
       OP_DEL \<Rightarrow> Some (delMote e (jf_DevEUI f))
     | OP_ADD \<Rightarrow> if check_keys f \<noteq> [] then Some (check_keys f, []) else mote_ota_add e f
     | _ \<Rightarrow> Some ([], []))"

text \<open>ULONG_MAX stands for no device; a NULL column is read: undefined.\<close>

definition js_getMoteID :: "js_env \<Rightarrow> u64 \<Rightarrow> u64 option" where
  "js_getMoteID e eui =
    (case js_db e (''SELECT ID FROM joinmotes WHERE eui = '' @ print_unsigned eui) of
       SqlRows (row # _) \<Rightarrow> map_option (\<lambda>t. store (sscanf_dec t) (- 1)) (cell row 0)
     | _ \<Rightarrow> Some (- 1))"

definition updateLifetime :: "js_env \<Rightarrow> js_form \<Rightarrow> js_done" where
  "updateLifetime e f =
    js_change e ''joinmotes mysql_query() '' ''set lifetime: nothing updated''
      (''UPDATE joinmotes SET Lifetime = '' @ print_unsigned (jf_Lifetime f) @ '' WHERE eui = '' @ print_unsigned (jf_DevEUI f))"

text \<open>A statement on the networks of a device has to touch exactly one row.\<close>

definition change_roamable :: "js_env \<Rightarrow> string \<Rightarrow> (u64 \<Rightarrow> string) \<Rightarrow> js_form \<Rightarrow> js_done option" where
  "change_roamable e verb text f =
    map_option (\<lambda>mid.
      if mid = - 1 then (''getMoteID('' @ print_hex (jf_DevEUI f) @ '') failed'', [])
      else let q = text mid; n = (word_of_int (js_affected e q) :: u64)
           in (if js_db e q = SqlError then take 1023 (verb @ '' roamingNetIDs '' @ js_error e q)
               else if n \<noteq> 1 then verb @ '' roamingNetIDs affected rows '' @ print_unsigned n else [], [q]))
      (js_getMoteID e (jf_DevEUI f))"

definition delRoamableNetID :: "js_env \<Rightarrow> js_form \<Rightarrow> js_done option" where
  "delRoamableNetID e f =
    change_roamable e ''DELETE'' (\<lambda>mid. ''DELETE FROM roamingNetIDs WHERE moteID = '' @ print_unsigned mid @ '' AND NetID = '' @ print_unsigned (jf_roamNetID f)) f"

definition addRoamableNetID :: "js_env \<Rightarrow> js_form \<Rightarrow> js_done option" where
  "addRoamableNetID e f =
    change_roamable e ''INSERT'' (\<lambda>mid. ''INSERT INTO roamingNetIDs (moteID, NetID) VALUE ('' @ print_unsigned mid @ '', '' @ print_unsigned (jf_roamNetID f) @ '')'') f"

definition updateHomeNetID :: "js_env \<Rightarrow> js_form \<Rightarrow> js_done" where
  "updateHomeNetID e f =
    (let q = ''UPDATE joinmotes SET homeNetID = '' @ (if jf_homeNetID f = NONE_NETID then ''NULL'' else print_unsigned (jf_homeNetID f)) @
           '' WHERE eui = '' @ print_unsigned (jf_DevEUI f)
     in js_change e ''joinmotes mysql_query() '' (''set netid: nothing updated<br>'' @ q) q)"

section \<open>A form is submitted\<close>

fun js_op_number :: "js_op \<Rightarrow> nat" where
  "js_op_number OP_NONE = 0" | "js_op_number OP_ADD = 1" | "js_op_number OP_DEL = 2" | "js_op_number OP_SET_HOME_NETID = 3"
| "js_op_number OP_ADD_ROAM_NETID = 4" | "js_op_number OP_DEL_ROAM_NETID = 5" | "js_op_number OP_LIFETIME = 6"

definition submit_edit :: "js_env \<Rightarrow> js_form \<Rightarrow> (string \<times> js_done) option" where
  "submit_edit e f =
    (case jf_op f of
       OP_SET_HOME_NETID \<Rightarrow> Some (''/otaMotes'', updateHomeNetID e f)
     | OP_ADD_ROAM_NETID \<Rightarrow> map_option (Pair ''/edit'') (addRoamableNetID e f)
     | OP_DEL_ROAM_NETID \<Rightarrow> map_option (Pair ''/edit'') (delRoamableNetID e f)
     | OP_LIFETIME \<Rightarrow> Some (''/edit'', updateLifetime e f)
     | p \<Rightarrow> Some ([], ''/edit unknown op '' @ dec_of (js_op_number p), []))"

definition js_post_submitted :: "js_env \<Rightarrow> string \<Rightarrow> js_form \<Rightarrow> (js_form \<times> js_done) option" where
  "js_post_submitted e url f =
    map_option (\<lambda>(u, t, qs). (f\<lparr>jf_redir_url := (if t = [] then u else ''/postFail'')\<rparr>, t, qs))
      (if url = ''/otaMotes'' then map_option (Pair ''/otaMotes'') (otaMotesSubmitted e f)
       else if url = ''/edit'' then submit_edit e f
       else Some ([], take 1023 (''browser_post_submitted unknown url '' @ url), []))"

text \<open>The fields of a request, and its submission.\<close>

definition js_post_form :: "js_env \<Rightarrow> string \<Rightarrow> (string \<times> string) list \<Rightarrow> js_form \<Rightarrow> (js_form \<times> js_done) option" where
  "js_post_form e url ks f = Option.bind (js_post_fields ks f) (js_post_submitted e url)"

end
