(* ===== verification/JoinFormFacts.thy ===== *)
theory JoinFormFacts
  imports JoinForms
begin

text \<open>
  A device the operator enters: a key that passes the check is read back digit
  by digit, so that the row of the database holds the key that was typed.
\<close>

section \<open>Hexadecimal digits\<close>

lemma hex_digit_value:
  assumes "is_hex c"
  shows "\<not> is_space c" "c \<noteq> CHR ''-''" "c \<noteq> CHR ''+''" "c \<noteq> CHR ''x''" "c \<noteq> CHR ''X''" "\<exists>k < 16. digit_val 16 c = Some k"
proof -
  have n: "48 \<le> (of_char c :: nat) \<and> (of_char c :: nat) \<le> 57 \<or> 65 \<le> (of_char c :: nat) \<and> (of_char c :: nat) \<le> 70 \<or>
      97 \<le> (of_char c :: nat) \<and> (of_char c :: nat) \<le> 102"
    using assms by (auto simp: is_hex_def less_eq_char_def)
  then show "\<not> is_space c" "c \<noteq> CHR ''-''" "c \<noteq> CHR ''+''" "c \<noteq> CHR ''x''" "c \<noteq> CHR ''X''"
    by (auto simp: is_space_def)
  from n show "\<exists>k < 16. digit_val 16 c = Some k" by (auto simp: digit_val_def Let_def)
qed

lemma scan_pair:
  assumes "is_hex c" "is_hex d"
  obtains k l where "k < 16" "l < 16" "digit_val 16 c = Some k" "digit_val 16 d = Some l"
    "sscanf_02x (c # d # r) = Some (word_of_nat (k * 16 + l))"
proof -
  note C = hex_digit_value [OF assms(1)] and D = hex_digit_value [OF assms(2)]
  obtain k l where kl: "k < 16" "l < 16" "digit_val 16 c = Some k" "digit_val 16 d = Some l" using C(6) D(6) by blast
  have "k * 16 + l < 2 ^ 64" using kl(1,2) by simp
  then have "scan_value 16 [c, d] = Some (int (k * 16 + l))"
    using C(1-3) kl by (simp add: scan_value_def skip_0x_def scan_unsigned_digits_def)
  then have "sscanf_02x (c # d # r) = Some (word_of_nat (k * 16 + l))"
    using C(1) D(4,5) by (simp add: sscanf_02x_def sscanf_hex_def)
  then show ?thesis using that kl by blast
qed

text \<open>Octets that have the digits of a text.\<close>

definition same_digits :: "string \<Rightarrow> buf \<Rightarrow> bool" where
  "same_digits t b \<longleftrightarrow> map (digit_val 16) t = map (digit_val 16) (hex_of_buf b)"

lemma hex2_digits: "k < 16 \<Longrightarrow> l < 16 \<Longrightarrow> map (digit_val 16) (hex2 (ucast (word_of_nat (k * 16 + l) :: u32))) = [Some k, Some l]"
proof -
  assume "k < 16" "l < 16"
  then have "m < 256" if "m = k * 16 + l" for m using that by simp
  then have "unat (ucast (word_of_nat m :: u32) :: u8) = m" if "m = k * 16 + l" for m
    using that by (simp add: unsigned_ucast_eq unat_of_nat take_bit_eq_mod del: of_nat_add of_nat_mult)
  then show ?thesis using \<open>k < 16\<close> \<open>l < 16\<close> by (simp add: hex2_def)
qed

lemma hex_pairs_digits:
  "length t = 2 * n \<Longrightarrow> \<forall>c \<in> set t. is_hex c \<Longrightarrow> \<exists>b. hex_pairs n t = Some b \<and> length b = n \<and> same_digits t b"
proof (induction n arbitrary: t)
  case (Suc n)
  obtain c d r where t: "t = c # d # r" using Suc.prems(1) by (cases t; cases "tl t") auto
  obtain b where b: "hex_pairs n r = Some b" "length b = n" "same_digits r b"
    using Suc.IH [of r] Suc.prems t by auto
  obtain k l where kl: "k < 16" "l < 16" "digit_val 16 c = Some k" "digit_val 16 d = Some l"
    "sscanf_02x (c # d # r) = Some (word_of_nat (k * 16 + l))"
    using scan_pair [of c d r] Suc.prems(2) t by auto
  have "same_digits t (ucast (word_of_nat (k * 16 + l) :: u32) # b)"
    using b(3) kl hex2_digits [OF kl(1,2)] by (simp add: same_digits_def t hex_of_buf_def)
  then show ?case using b kl(5) by (simp add: t)
qed (simp add: same_digits_def hex_of_buf_def)

section \<open>A device is entered\<close>

lemma checked_NwkKey:
  assumes "check_keys f = []"
  shows "32 \<le> length (jf_NwkKey f)" "\<forall>i < 32. is_hex (jf_NwkKey f ! i)" "jf_AppKey f = [] \<or> 32 \<le> length (jf_AppKey f)"
  using assms by (auto simp: check_keys_def Let_def find_None_iff split: if_splits option.splits)

lemma entered_key:
  assumes "32 \<le> length t" "length t < 33" "\<forall>i < 32. is_hex (t ! i)"
  obtains b where "hex_pairs 16 t = Some b" "length b = 16" "same_digits t b"
proof -
  have "\<forall>c \<in> set t. is_hex c" using assms by (auto simp: in_set_conv_nth)
  then show ?thesis using hex_pairs_digits [of t 16] assms that by auto
qed

lemma otaMotesSubmitted_add:
  "jf_op f = OP_ADD \<Longrightarrow> check_keys f = [] \<Longrightarrow> otaMotesSubmitted e f = mote_ota_add e f"
  by (simp add: otaMotesSubmitted_def)

text \<open>The texts of the two statements.\<close>

lemma row_texts:
  "replace_text (joinmote_row eui nwk None) =
    ''REPLACE INTO joinmotes (Lifetime, eui, NwkKey) VALUES (3600, '' @ print_unsigned eui @ '', 0x'' @ hex_of_buf nwk @ '')''"
  "replace_text (joinmote_row eui nwk (Some k)) =
    ''REPLACE INTO joinmotes (Lifetime, eui, NwkKey, AppKey, JSIntKey, JSEncKey) VALUES (3600, '' @ print_unsigned eui @
      '', 0x'' @ hex_of_buf nwk @ '', 0x'' @ hex_of_buf k @ '', 0x'' @ hex_of_buf (GenerateJoinKey 6 nwk (le_bytes 8 eui)) @
      '', 0x'' @ hex_of_buf (GenerateJoinKey 5 nwk (le_bytes 8 eui)) @ '')''"
proof -
  have d: "dec_of DEFAULT_LIFETIME = ''3600''" by code_simp
  show "replace_text (joinmote_row eui nwk None) =
    ''REPLACE INTO joinmotes (Lifetime, eui, NwkKey) VALUES (3600, '' @ print_unsigned eui @ '', 0x'' @ hex_of_buf nwk @ '')''"
    "replace_text (joinmote_row eui nwk (Some k)) =
    ''REPLACE INTO joinmotes (Lifetime, eui, NwkKey, AppKey, JSIntKey, JSEncKey) VALUES (3600, '' @ print_unsigned eui @
      '', 0x'' @ hex_of_buf nwk @ '', 0x'' @ hex_of_buf k @ '', 0x'' @ hex_of_buf (GenerateJoinKey 6 nwk (le_bytes 8 eui)) @
      '', 0x'' @ hex_of_buf (GenerateJoinKey 5 nwk (le_bytes 8 eui)) @ '')''"
    by (simp_all add: replace_text_def joinmote_row_def hex_value_def d)
qed

end
