(* ===== verification/FormSamples.thy ===== *)
theory FormSamples
  imports Samples NsFormFacts JoinFormFacts
begin

text \<open>Forms of the network server and of the join server for the witnesses.\<close>

section \<open>A form with profiles\<close>

definition form0 :: form_t where
  "form0 = create_form\<lparr>fm_device := blank_device\<lparr>MACVersion := ''1.0.2''\<rparr>, fm_moteID := 7\<rparr>"

lemma ns0_runs [simp]: "n_db ns0 q = SqlRows []" "n_affected ns0 q = 1"
  by (simp_all add: ns0_def)

lemma ns0_statement: "run_statement ns0 b a q w = Some ((0, []), w\<lparr>w_eff := w_eff w @ [Query q]\<rparr>)"
  by (simp add: run_statement_def run_query_def andthen_def bnd_def emit_def return_def fine_ns_def)

lemma ns0_updates:
  "updateProfiles ns0 f w = Some ((0, []), w\<lparr>w_eff := w_eff w @ map Query (update_script ns0 f)\<rparr>)"
  by (simp add: updateProfiles_def unless_failed_def bnd_def ns0_statement updateDeviceProfile_def updateServiceProfile_def
      run_query_def andthen_def emit_def return_def update_script_def device_update_def service_update_def
      routing_update_def [symmetric] Let_def del: append.simps append_Cons)

lemma form0_passes: "checkProfiles (fm_device form0) = (fm_device form0, [])"
  by (simp add: form0_def create_form_def blank_device_def checkProfiles_def class_b_fields_def window_fields_def FLT_MAX_def UINT_MAX_def INT_MAX_def)

lemma form0_submitted:
  "post_submitted ns0 ''/updateProfilesURL'' form0 w =
    Some ((show_page ''/motes'' form0, []), w\<lparr>w_eff := w_eff w @ map Query (update_script ns0 form0)\<rparr>)"
  by (simp add: post_submitted_def submit_to_def with_profiles_def form0_passes then_show_def ns0_updates bnd_def return_def del: append_Cons)

lemma form0_fields: "post_fields_ns ns0 (Some ''/updateProfilesURL'') [(''moteID'', ''7'')] (post_init (form0\<lparr>fm_moteID := 0\<rparr>)) = Some form0"
proof -
  have "post_init (form0\<lparr>fm_moteID := 0\<rparr>) = form0\<lparr>fm_moteID := 0\<rparr>"
    by (simp add: post_init_def form0_def create_form_def blank_device_def blank_profile_def)
  moreover have "sscanf_dec ''7'' = Some (7 :: u64)"
    by (simp add: sscanf_dec_def scan_value_def is_space_def scan_unsigned_digits_def digit_val_def Let_def)
  ultimately show ?thesis
    by (simp add: post_field_def key_actions_def form0_def)
qed

lemma form0_posted:
  "post_form ns0 ''/updateProfilesURL'' [(''moteID'', ''7'')] (form0\<lparr>fm_moteID := 0\<rparr>) w =
    Some ((show_page ''/motes'' form0, []), w\<lparr>w_eff := w_eff w @ map Query (update_script ns0 form0)\<rparr>)"
  unfolding post_form_def form0_fields by (simp add: must_def bnd_def return_def form0_submitted)

lemma queries_Query: "queries (map Query qs) = qs"
  by (induction qs) simp_all

section \<open>An address and a device\<close>

definition form_abp :: form_t where "form_abp = create_form\<lparr>fm_NwkAddr := ''1a''\<rparr>"

lemma form_abp_address: "\<exists>f'. NwkAddrStr_to_devAddrStr ns0 form_abp = (f', 0, [])"
proof -
  have "sscanf_hex ''1a'' = Some (0x1a :: u32)"
    by (simp add: sscanf_hex_def scan_value_def is_space_def skip_0x_def scan_unsigned_digits_def digit_val_def Let_def)
  then show ?thesis by (simp add: NwkAddrStr_to_devAddrStr_def form_abp_def ns0_def)
qed

definition js_form0 :: js_form where
  "js_form0 = \<lparr>jf_DevEUI = 1, jf_NwkKey = ''2b7e151628AED2A6abf7158809cf4f3c'', jf_AppKey = [], jf_op = OP_ADD, jf_roamNetID = 0, jf_homeNetID = 0,
     jf_Lifetime = 0, jf_redir_url = []\<rparr>"

lemma js_form0_passes: "check_keys js_form0 = []" "length (jf_NwkKey js_form0) = 32"
proof -
  have "list_all is_hex ''2b7e151628AED2A6abf7158809cf4f3c''" by (simp add: is_hex_def less_eq_char_def)
  then have "is_hex (jf_NwkKey js_form0 ! i)" if "i < 32" for i
    using that by (simp add: list_all_length js_form0_def)
  then have "find (\<lambda>i. \<not> is_hex (jf_NwkKey js_form0 ! i)) [0..<32] = None" by (auto simp: find_None_iff)
  moreover show "length (jf_NwkKey js_form0) = 32" by (simp add: js_form0_def)
  ultimately show "check_keys js_form0 = []" by (simp add: check_keys_def js_form0_def)
qed

end
