(* ===== verification/Resolve.thy ===== *)
theory Resolve
  imports Codec
begin

text \<open>
  The address of a server by its name (libbackend/resolve.c): the hosts of the
  configuration, the answers of the name service with their NAPTR and SRV
  records, the choice of a record, and the search from record to record. The
  name service, the expansion of a compressed name, and random numbers are
  arguments. An address in a message is an offset from its start. None is an
  access outside a buffer, a record used as one of another type, or a search
  that does not end.
\<close>

section \<open>Records\<close>

record srv_rdata =
  srv_priority :: u16
  srv_weight :: u16
  srv_port :: u16
  srv_name :: string

record naptr_rdata =
  naptr_order :: u16
  naptr_pref :: u16
  naptr_flags :: string
  naptr_services :: string
  naptr_regexp :: string
  naptr_repl :: string

datatype rr = SRV srv_rdata | NAPTR naptr_rdata

record result_list =
  rl_class :: u16
  rl_ttl :: u32
  rl_vp :: "rr option"

record host_list =
  host_name :: "string option"
  host_postTo :: "string option"
  host_port :: u16

text \<open>The size of an answer and the buffer of 8192 octets it is in; the text of a name; random numbers in the order they are drawn.\<close>

record dns_env =
  d_search :: "string \<Rightarrow> u16 \<Rightarrow> (nat \<times> buf) option"
  d_expand :: "buf \<Rightarrow> nat \<Rightarrow> nat \<Rightarrow> string option"
  d_rand :: "nat \<Rightarrow> u32"
  d_hosts :: "host_list list"
  d_curl :: bool
  d_init :: bool

definition T_SRV :: u16 where "T_SRV = 33"
definition T_NAPTR :: u16 where "T_NAPTR = 35"

section \<open>Octets of a message\<close>

definition octet :: "buf \<Rightarrow> nat \<Rightarrow> u8 option" where "octet m p = (if p < length m then Some (m ! p) else None)"

definition ntohs_at :: "buf \<Rightarrow> nat \<Rightarrow> u16 option" where
  "ntohs_at m p = (if p + 1 < length m then Some (push_bit 8 (ucast (m ! p)) OR ucast (m ! (p + 1))) else None)"

definition ntohl_at :: "buf \<Rightarrow> nat \<Rightarrow> u32 option" where
  "ntohl_at m p =
    (case (ntohs_at m p, ntohs_at m (p + 2)) of (Some a, Some b) \<Rightarrow> Some (push_bit 16 (ucast a) OR ucast b) | _ \<Rightarrow> None)"

text \<open>The octets of an array up to the first zero.\<close>

definition c_string :: "buf \<Rightarrow> string" where "c_string b = map (\<lambda>x. char_of (unat x)) (takeWhile (\<lambda>x. x \<noteq> 0) b)"

section \<open>The parsers\<close>

definition dns_srv_parser :: "dns_env \<Rightarrow> buf \<Rightarrow> nat \<Rightarrow> nat \<Rightarrow> srv_rdata option option" where
  "dns_srv_parser d m e p =
    (if p + 6 \<ge> e then Some None
     else case (ntohs_at m p, ntohs_at m (p + 2), ntohs_at m (p + 4)) of
         (Some pri, Some w, Some port) \<Rightarrow>
           Some (map_option (\<lambda>t. \<lparr>srv_priority = pri, srv_weight = w, srv_port = port, srv_name = t\<rparr>) (d_expand d m e (p + 6)))
       | _ \<Rightarrow> None)"

text \<open>
  A text behind its length at q, with its end; so many octets have to follow
  it. The array of a text has 255 octets and the zero is written behind the
  text: a text of 255 octets is undefined.
\<close>

definition counted_text :: "buf \<Rightarrow> nat \<Rightarrow> nat \<Rightarrow> nat \<Rightarrow> (string \<times> nat) option option" where
  "counted_text m e after q =
    (case octet m q of None \<Rightarrow> None
     | Some l \<Rightarrow>
         let k = unat l in
         if q + after + k \<ge> e then Some None
         else if k = 255 \<or> q + 1 + k > length m then None else Some (Some (c_string (slice (q + 1) k m), q + 1 + k)))"

definition dns_naptr_parser :: "dns_env \<Rightarrow> buf \<Rightarrow> nat \<Rightarrow> nat \<Rightarrow> naptr_rdata option option" where
  "dns_naptr_parser d m e p =
    (if p + 7 \<ge> e then Some None
     else case (ntohs_at m p, ntohs_at m (p + 2)) of
         (Some order, Some pref) \<Rightarrow>
           (case counted_text m e 3 (p + 4) of None \<Rightarrow> None | Some None \<Rightarrow> Some None
            | Some (Some (flags, q1)) \<Rightarrow>
           (case counted_text m e 2 q1 of None \<Rightarrow> None | Some None \<Rightarrow> Some None
            | Some (Some (services, q2)) \<Rightarrow>
           (case counted_text m e 1 q2 of None \<Rightarrow> None | Some None \<Rightarrow> Some None
            | Some (Some (regexp, q3)) \<Rightarrow>
                Some (map_option (\<lambda>t. \<lparr>naptr_order = order, naptr_pref = pref, naptr_flags = flags, naptr_services = services,
                  naptr_regexp = regexp, naptr_repl = t\<rparr>) (d_expand d m e q3)))))
       | _ \<Rightarrow> None)"

function skip_labels :: "buf \<Rightarrow> nat \<Rightarrow> nat \<Rightarrow> nat option" where
  "skip_labels m e p =
    (if p < e then
       (case octet m p of None \<Rightarrow> None
        | Some b \<Rightarrow>
            if b = 0 then Some (p + 1) else if b AND 0xc0 = 0xc0 then Some (p + 2) else skip_labels m e (p + (unat b + 1)))
     else Some p)"
  by pat_completeness auto
termination by (relation "measure (\<lambda>(m, e, p). e - p)") auto

declare skip_labels.simps [simp del]

text \<open>Some None is the null pointer: the name runs to the end of the message or over it.\<close>

definition skipDnsName :: "buf \<Rightarrow> nat \<Rightarrow> nat \<Rightarrow> nat option option" where
  "skipDnsName m e p = map_option (\<lambda>q. if q \<ge> e then None else Some q) (skip_labels m e p)"

section \<open>An answer\<close>

fun skip_questions :: "buf \<Rightarrow> nat \<Rightarrow> nat \<Rightarrow> nat \<Rightarrow> nat option option" where
  "skip_questions m e 0 p = Some (Some p)"
| "skip_questions m e (Suc k) p =
    (case skipDnsName m e p of None \<Rightarrow> None | Some None \<Rightarrow> Some None
     | Some (Some q) \<Rightarrow> if q + 4 \<ge> e then Some None else skip_questions m e k (q + 4))"

definition record_data :: "dns_env \<Rightarrow> buf \<Rightarrow> nat \<Rightarrow> u16 \<Rightarrow> nat \<Rightarrow> rr option option" where
  "record_data d m e rtype p =
    (if rtype = T_SRV then map_option (map_option SRV) (dns_srv_parser d m e p)
     else if rtype = T_NAPTR then map_option (map_option NAPTR) (dns_naptr_parser d m e p)
     else Some None)"

text \<open>A node is added for every answer, without data when its type is unknown or it does not parse.\<close>

fun read_answers :: "dns_env \<Rightarrow> buf \<Rightarrow> nat \<Rightarrow> nat \<Rightarrow> nat \<Rightarrow> result_list list option option" where
  "read_answers d m e 0 p = Some (Some [])"
| "read_answers d m e (Suc k) p =
    (if p \<ge> e then Some (Some [])
     else case skipDnsName m e p of None \<Rightarrow> None | Some None \<Rightarrow> Some None
       | Some (Some q) \<Rightarrow>
           if q + 10 \<ge> e then Some None
           else (case (ntohs_at m q, ntohs_at m (q + 2), ntohl_at m (q + 4), ntohs_at m (q + 8)) of
               (Some rtype, Some cl, Some ttl, Some rdlength) \<Rightarrow>
                 (case record_data d m e rtype (q + 10) of None \<Rightarrow> None
                  | Some vp \<Rightarrow>
                      map_option (map_option (Cons \<lparr>rl_class = cl, rl_ttl = ttl, rl_vp = vp\<rparr>)) (read_answers d m e k (q + 10 + unat rdlength)))
             | _ \<Rightarrow> None))"

text \<open>The empty list is the null pointer.\<close>

definition DNS_HDR_SIZE :: nat where "DNS_HDR_SIZE = 12"

definition getRecord :: "dns_env \<Rightarrow> string \<Rightarrow> u16 \<Rightarrow> result_list list option" where
  "getRecord d name typ =
    (case d_search d name typ of None \<Rightarrow> Some []
     | Some (len, m) \<Rightarrow>
         if DNS_HDR_SIZE \<ge> len then Some []
         else case (ntohs_at m 4, ntohs_at m 6) of
             (Some qdcount, Some ancount) \<Rightarrow>
               (case skip_questions m len (unat qdcount) DNS_HDR_SIZE of None \<Rightarrow> None | Some None \<Rightarrow> Some []
                | Some (Some p) \<Rightarrow>
                    map_option (\<lambda>l. case l of None \<Rightarrow> [] | Some rl \<Rightarrow> rl) (read_answers d m len (unat ancount) p))
           | _ \<Rightarrow> None)"

section \<open>The choice of a record\<close>

text \<open>The first two numbers of either type of record.\<close>

fun rank :: "rr \<Rightarrow> u32 \<times> u32" where
  "rank (SRV s) = (ucast (srv_priority s), ucast (srv_weight s))"
| "rank (NAPTR n) = (ucast (naptr_order n), ucast (naptr_pref n))"

definition UINT_MAX_RANK :: u32 where "UINT_MAX_RANK = 0xffffffff"

definition lowest_priority :: "rr option list \<Rightarrow> u32" where
  "lowest_priority rl =
    fold (\<lambda>v low. case v of None \<Rightarrow> low | Some x \<Rightarrow> if fst (rank x) < low then fst (rank x) else low) rl UINT_MAX_RANK"

text \<open>The lowest second number among those, and how often it was met or fell.\<close>

definition lowest_weight :: "u32 \<Rightarrow> rr option list \<Rightarrow> u32 \<times> nat" where
  "lowest_weight pri rl =
    fold (\<lambda>v (low, k). case v of None \<Rightarrow> (low, k)
      | Some x \<Rightarrow> if fst (rank x) > pri then (low, k) else if snd (rank x) \<le> low then (snd (rank x), k + 1) else (low, k)) rl (UINT_MAX_RANK, 0)"

definition eligible :: "u32 \<Rightarrow> u32 \<Rightarrow> rr option \<Rightarrow> bool" where
  "eligible pri w v = (case v of None \<Rightarrow> False | Some x \<Rightarrow> fst (rank x) \<le> pri \<and> snd (rank x) \<le> w)"

text \<open>get_srv and get_naptr: the index of the record, and whether a random number was drawn.\<close>

definition candidates :: "u32 \<Rightarrow> u32 \<Rightarrow> rr option list \<Rightarrow> nat list" where
  "candidates pri w rl = filter (\<lambda>i. eligible pri w (rl ! i)) [0..<length rl]"

definition get_best :: "u32 \<Rightarrow> rr option list \<Rightarrow> nat option \<times> bool" where
  "get_best r rl =
    (let pri = lowest_priority rl; (w, k) = lowest_weight pri rl
     in if pri = UINT_MAX_RANK \<or> w = UINT_MAX_RANK then (None, False)
        else let j = unat r mod k
             in (if j < length (candidates pri w rl) then Some (candidates pri w rl ! j) else None, True))"

lemma get_best_index: "get_best r rl = (Some i, b) \<Longrightarrow> i < length rl \<and> rl ! i \<noteq> None"
proof -
  assume c: "get_best r rl = (Some i, b)"
  obtain pri w j where "j < length (candidates pri w rl)" "i = candidates pri w rl ! j"
    using c unfolding get_best_def Let_def by (auto split: if_splits prod.splits)
  then have "i \<in> set (candidates pri w rl)" by simp
  then show ?thesis by (auto simp: candidates_def eligible_def split: option.splits)
qed

section \<open>The search\<close>

record rs =
  rs_url :: "string option"
  rs_drawn :: nat
  rs_init :: bool

definition drawn :: "bool \<Rightarrow> rs \<Rightarrow> rs" where "drawn b st = (if b then st\<lparr>rs_drawn := rs_drawn st + 1\<rparr> else st)"

definition http_url :: "string \<Rightarrow> u16 \<Rightarrow> string" where "http_url name port = ''http://'' @ name @ '':'' @ print_unsigned port"

text \<open>A host without a name is compared, one without an address printed: undefined, and so is an address that does not fit.\<close>

fun local_lookup_post :: "host_list list \<Rightarrow> string \<Rightarrow> string option option" where
  "local_lookup_post [] name = Some None"
| "local_lookup_post (h # hs) name =
    (case host_name h of None \<Rightarrow> None
     | Some t \<Rightarrow>
         if name = t then
           (case host_postTo h of None \<Rightarrow> None
            | Some to \<Rightarrow> if length (http_url to (host_port h)) < 296 then Some (Some (http_url to (host_port h))) else None)
         else local_lookup_post hs name)"

lemma present_shrinks:
  "i < length sl \<Longrightarrow> sl ! i = Some x \<Longrightarrow> length (filter (\<lambda>v. \<exists>y. v = Some y) (sl[i := None])) < length (filter (\<lambda>v. \<exists>y. v = Some y) sl)"
proof (induction sl arbitrary: i)
  case (Cons v sl)
  then show ?case by (cases i) auto
qed simp

text \<open>Every server is tried once; the address of the last one stays.\<close>

function srv_loop :: "dns_env \<Rightarrow> rr option list \<Rightarrow> int \<Rightarrow> rs \<Rightarrow> (int \<times> rs) option" where
  "srv_loop d sl ret st =
    (case get_best (d_rand d (rs_drawn st)) sl of
       (None, b) \<Rightarrow> Some (ret, drawn b st)
     | (Some i, b) \<Rightarrow>
         (case sl ! i of
            Some (SRV s) \<Rightarrow>
              if d_curl d then
                (if length (http_url (srv_name s) (srv_port s)) < 296
                 then srv_loop d (sl[i := None]) 0 ((drawn b st)\<lparr>rs_url := Some (http_url (srv_name s) (srv_port s))\<rparr>) else None)
              else Some (ret, drawn b st)
          | _ \<Rightarrow> None))"
  by pat_completeness auto
termination
  by (relation "measure (\<lambda>(d, sl, ret, st). length (filter (\<lambda>v. v \<noteq> None) sl))")
    (auto dest!: get_best_index [OF sym] intro: present_shrinks)

declare srv_loop.simps [simp del]

text \<open>A name: the address is known, or the records to go through.\<close>

definition resolve_start :: "dns_env \<Rightarrow> string \<Rightarrow> rs \<Rightarrow> (int \<times> rs + rr option list \<times> rs) option" where
  "resolve_start d name st =
    (if \<not> rs_init st \<and> \<not> d_init d then Some (Inl (- 1, st))
     else let st1 = st\<lparr>rs_init := True\<rparr> in
       case local_lookup_post (d_hosts d) name of None \<Rightarrow> None
       | Some (Some url) \<Rightarrow> Some (Inl (0, st1\<lparr>rs_url := Some url\<rparr>))
       | Some None \<Rightarrow>
           map_option (\<lambda>nl. if nl = [] then Inl (- 1, st1) else Inr (map rl_vp nl, st1)) (getRecord d name T_NAPTR))"

text \<open>The servers of a record; none is the null pointer.\<close>

definition follow_srv :: "dns_env \<Rightarrow> string \<Rightarrow> int \<Rightarrow> rs \<Rightarrow> (bool \<times> int \<times> rs) option" where
  "follow_srv d name ret st =
    Option.bind (getRecord d name T_SRV) (\<lambda>sl.
      if sl = [] then Some (False, ret, st) else map_option (\<lambda>(r, st1). (r = 0, r, st1)) (srv_loop d (map rl_vp sl) ret st))"

text \<open>
  resolve_post: a name to look up, or records to go through. A record that
  names another one is looked up in turn, so that the search may not end.
\<close>

datatype work = Host string | Records "rr option list" int

partial_function (option) resolve :: "dns_env \<Rightarrow> work \<Rightarrow> rs \<Rightarrow> (int \<times> rs) option" where
  "resolve d wk st =
    (case wk of
       Host name \<Rightarrow>
         Option.bind (resolve_start d name st) (\<lambda>x. case x of Inl (r, st1) \<Rightarrow> Some (r, st1) | Inr (nl, st1) \<Rightarrow> resolve d (Records nl (- 1)) st1)
     | Records nl ret \<Rightarrow>
         (case get_best (d_rand d (rs_drawn st)) nl of
            (None, b) \<Rightarrow> Some (ret, drawn b st)
          | (Some i, b) \<Rightarrow>
              (case nl ! i of
                 Some (NAPTR n) \<Rightarrow>
                   let st1 = drawn b st; rest = nl[i := None]; flag = take 1 (naptr_flags n) in
                   if flag = ''S'' then
                     Option.bind (follow_srv d (naptr_repl n) ret st1) (\<lambda>(found, r, st2). if found then Some (r, st2) else resolve d (Records rest r) st2)
                   else if flag = ''U'' then
                     (if d_curl d then resolve d (Records rest 0) (st1\<lparr>rs_url := Some (naptr_repl n)\<rparr>) else resolve d (Records rest ret) st1)
                   else if flag = ''P'' then
                     Option.bind (resolve d (Host (naptr_repl n)) st1) (\<lambda>(r, st2). if r = 0 then Some (ret, st2) else resolve d (Records rest ret) st2)
                   else resolve d (Records rest ret) st1
               | _ \<Rightarrow> None)))"

definition resolve_post :: "dns_env \<Rightarrow> string \<Rightarrow> rs \<Rightarrow> (int \<times> rs) option" where
  "resolve_post d name st = resolve d (Host name) st"

end
