(* ===== verification/ResolveFacts.thy ===== *)
theory ResolveFacts
  imports Resolve Database
begin

text \<open>
  Facts about the search for a server: an answer is read within the message,
  the record that is chosen is a best one, the address that stays is that of
  the last server tried, and a search without records that name another name
  comes to an end.
\<close>

section \<open>An answer is read within the message\<close>

lemma octet_in: "p < length m \<Longrightarrow> octet m p = Some (m ! p)"
  by (simp add: octet_def)

lemma ntohs_in: "p + 1 < length m \<Longrightarrow> \<exists>v. ntohs_at m p = Some v"
  by (simp add: ntohs_at_def)

lemma ntohl_in: "p + 3 < length m \<Longrightarrow> \<exists>v. ntohl_at m p = Some v"
  by (simp add: ntohl_at_def ntohs_at_def)

lemma skip_labels_in: "e \<le> length m \<Longrightarrow> \<exists>q. skip_labels m e p = Some q"
proof (induction m e p rule: skip_labels.induct)
  case (1 m e p)
  show ?case
  proof (cases "p < e")
    case True
    then have "octet m p = Some (m ! p)" using 1(2) by (simp add: octet_in)
    with 1 True show ?thesis by (subst skip_labels.simps) simp
  qed (simp add: skip_labels.simps)
qed

lemma skipDnsName_in: "e \<le> length m \<Longrightarrow> \<exists>v. skipDnsName m e p = Some v"
  using skip_labels_in by (fastforce simp: skipDnsName_def)

lemma skipDnsName_before: "skipDnsName m e p = Some (Some q) \<Longrightarrow> q < e"
  by (auto simp: skipDnsName_def split: if_splits)

lemma srv_parser_in: "e \<le> length m \<Longrightarrow> dns_srv_parser d m e p \<noteq> None"
  by (simp add: dns_srv_parser_def ntohs_at_def)

text \<open>Only a text of 255 octets is undefined.\<close>

lemma counted_text_in:
  assumes "e \<le> length m" "q < e"
  shows "counted_text m e (Suc after) q = None \<Longrightarrow> m ! q = 255"
    and "counted_text m e (Suc after) q = Some (Some (t, q')) \<Longrightarrow> q' < e"
proof -
  have o: "octet m q = Some (m ! q)" using assms by (simp add: octet_in)
  show "counted_text m e (Suc after) q = None \<Longrightarrow> m ! q = 255"
    using o assms by (auto simp: counted_text_def Let_def word_unat_eq_iff split: if_splits)
  show "counted_text m e (Suc after) q = Some (Some (t, q')) \<Longrightarrow> q' < e"
    using o by (auto simp: counted_text_def Let_def split: if_splits)
qed

lemma naptr_parser_in:
  assumes "e \<le> length m" "\<And>q. q < e \<Longrightarrow> m ! q \<noteq> 255"
  shows "dns_naptr_parser d m e p \<noteq> None"
proof (cases "p + 7 < e")
  case True
  obtain a b where n: "ntohs_at m p = Some a" "ntohs_at m (p + 2) = Some b"
    using ntohs_in [of p m] ntohs_in [of "p + 2" m] True assms(1) by auto
  have c: "q < e \<Longrightarrow> counted_text m e (Suc j) q \<noteq> None" for q j
    using counted_text_in(1) [OF assms(1)] assms(2) by blast
  have c3: "q < e \<Longrightarrow> counted_text m e 3 q \<noteq> None" and c2: "q < e \<Longrightarrow> counted_text m e 2 q \<noteq> None"
    and c1: "q < e \<Longrightarrow> counted_text m e 1 q \<noteq> None" for q
    using c [of q 2] c [of q 1] c [of q 0] by (simp_all add: numeral_2_eq_2 numeral_3_eq_3)
  have s3: "counted_text m e 3 q = Some (Some (t, q')) \<Longrightarrow> q' < e" if "q < e" for t q q'
    using counted_text_in(2) [OF assms(1) that, of 2] by (simp add: numeral_2_eq_2 numeral_3_eq_3)
  have s2: "counted_text m e 2 q = Some (Some (t, q')) \<Longrightarrow> q' < e" if "q < e" for t q q'
    using counted_text_in(2) [OF assms(1) that, of 1] by (simp add: numeral_2_eq_2)
  obtain v where v: "counted_text m e 3 (p + 4) = Some v" using c3 True by fastforce
  show ?thesis
  proof (cases v)
    case (Some x)
    obtain t q1 where x: "x = (t, q1)" by force
    have q1: "q1 < e" using s3 [of "p + 4" t q1] v Some x True by simp
    obtain v' where v': "counted_text m e 2 q1 = Some v'" using c2 q1 by fastforce
    show ?thesis
    proof (cases v')
      case (Some y)
      obtain t' q2 where y: "y = (t', q2)" by force
      have "q2 < e" using s2 [OF q1, of t' q2] v' Some y by simp
      then obtain v'' where "counted_text m e 1 q2 = Some v''" using c1 by fastforce
      with n True v \<open>v = Some x\<close> x v' Some y show ?thesis
        by (cases v'') (auto simp: dns_naptr_parser_def)
    qed (use n True v Some x v' in \<open>simp add: dns_naptr_parser_def\<close>)
  qed (use n True v in \<open>simp add: dns_naptr_parser_def\<close>)
qed (simp add: dns_naptr_parser_def)

lemma record_data_in:
  assumes "e \<le> length m" "\<And>q. q < e \<Longrightarrow> m ! q \<noteq> 255"
  shows "record_data d m e t p \<noteq> None"
  using naptr_parser_in [OF assms, of d p] srv_parser_in [OF assms(1), of d p] by (simp add: record_data_def)

lemma skip_questions_in: "e \<le> length m \<Longrightarrow> skip_questions m e k p \<noteq> None"
proof (induction m e k p rule: skip_questions.induct)
  case (2 m e k p)
  then show ?case using skipDnsName_in [of e m p] by (auto split: option.split)
qed simp

lemma read_answers_in:
  assumes "e \<le> length m" "\<And>q. q < e \<Longrightarrow> m ! q \<noteq> 255"
  shows "read_answers d m e k p \<noteq> None"
proof (induction k arbitrary: p)
  case (Suc k)
  obtain v where v: "skipDnsName m e p = Some v" using skipDnsName_in assms(1) by blast
  show ?case
  proof (cases v)
    case (Some q)
    show ?thesis
    proof (cases "q + 10 < e")
      case True
      then obtain a b c l where n: "ntohs_at m q = Some a" "ntohs_at m (q + 2) = Some b" "ntohl_at m (q + 4) = Some c" "ntohs_at m (q + 8) = Some l"
        using ntohs_in [of q m] ntohs_in [of "q + 2" m] ntohl_in [of "q + 4" m] ntohs_in [of "q + 8" m] assms(1) by auto
      obtain vp where "record_data d m e a (q + 10) = Some vp" using record_data_in [OF assms] by blast
      with n v Some True Suc show ?thesis by simp
    qed (use v Some in simp)
  qed (use v in simp)
qed simp

lemma getRecord_in:
  assumes "d_search d name typ = Some (len, m)" "len \<le> length m" "\<And>q. q < len \<Longrightarrow> m ! q \<noteq> 255"
  shows "getRecord d name typ \<noteq> None"
proof (cases "DNS_HDR_SIZE < len")
  case True
  then obtain a b where n: "ntohs_at m 4 = Some a" "ntohs_at m 6 = Some b"
    using ntohs_in [of 4 m] ntohs_in [of 6 m] assms(2) by (auto simp: DNS_HDR_SIZE_def)
  obtain v where v: "skip_questions m len (unat a) DNS_HDR_SIZE = Some v" using skip_questions_in [OF assms(2)] by blast
  have r: "read_answers d m len (unat b) p \<noteq> None" for p using read_answers_in [OF assms(2,3)] .
  show ?thesis using assms(1) True n v r by (cases v) (simp_all add: getRecord_def)
qed (use assms(1) in \<open>simp add: getRecord_def\<close>)

section \<open>The record that is chosen\<close>

lemma lowest_priority_le: "Some x \<in> set rl \<Longrightarrow> lowest_priority rl \<le> fst (rank x)"
proof -
  let ?f = "\<lambda>v low. case v of None \<Rightarrow> low | Some x \<Rightarrow> if fst (rank x) < low then fst (rank x) else low"
  have low: "fold ?f rl low \<le> low" for rl low
  proof (induction rl arbitrary: low)
    case (Cons v rl)
    have "?f v low \<le> low" by (auto split: option.splits)
    then show ?case using Cons.IH [of "?f v low"] by (simp del: option.case)
  qed simp
  have "Some x \<in> set rl \<Longrightarrow> fold ?f rl low \<le> fst (rank x)" for low
  proof (induction rl arbitrary: low)
    case (Cons v rl)
    show ?case
    proof (cases "v = Some x")
      case True
      then have "?f v low \<le> fst (rank x)" by auto
      then show ?thesis using low [of rl "?f v low"] by (simp del: option.case)
    next
      case False
      then show ?thesis using Cons by simp
    qed
  qed simp
  then show "Some x \<in> set rl \<Longrightarrow> lowest_priority rl \<le> fst (rank x)" by (simp add: lowest_priority_def)
qed

lemma lowest_weight_le: "Some x \<in> set rl \<Longrightarrow> fst (rank x) \<le> pri \<Longrightarrow> fst (lowest_weight pri rl) \<le> snd (rank x)"
proof -
  let ?f = "\<lambda>v (low, k). case v of None \<Rightarrow> (low, k :: nat)
      | Some x \<Rightarrow> if fst (rank x) > pri then (low, k) else if snd (rank x) \<le> low then (snd (rank x), k + 1) else (low, k)"
  have low: "fst (fold ?f rl a) \<le> fst a" for rl a
  proof (induction rl arbitrary: a)
    case (Cons v rl)
    have "fst (?f v a) \<le> fst a" by (auto split: option.splits prod.splits)
    then show ?case using Cons.IH [of "?f v a"] by (simp del: option.case case_prod_conv)
  qed simp
  have "fst (rank x) \<le> pri \<Longrightarrow> Some x \<in> set rl \<Longrightarrow> fst (fold ?f rl a) \<le> snd (rank x)" for a
  proof (induction rl arbitrary: a)
    case (Cons v rl)
    show ?case
    proof (cases "v = Some x")
      case True
      then have "fst (?f v a) \<le> snd (rank x)" using Cons.prems(1) by (auto split: prod.splits)
      then show ?thesis using low [of rl "?f v a"] by (simp del: option.case case_prod_conv)
    next
      case False
      then show ?thesis using Cons by simp
    qed
  qed simp
  then show "Some x \<in> set rl \<Longrightarrow> fst (rank x) \<le> pri \<Longrightarrow> fst (lowest_weight pri rl) \<le> snd (rank x)"
    by (simp add: lowest_weight_def)
qed

lemma get_best_lowest:
  assumes "get_best r rl = (Some i, b)" "Some y \<in> set rl"
  shows "\<exists>x. rl ! i = Some x \<and> (fst (rank x) < fst (rank y) \<or> fst (rank x) = fst (rank y) \<and> snd (rank x) \<le> snd (rank y))"
proof -
  obtain w k where wk: "lowest_weight (lowest_priority rl) rl = (w, k)" by force
  have "i \<in> set (candidates (lowest_priority rl) w rl)"
    using assms(1) wk nth_mem unfolding get_best_def by (auto simp: Let_def split: if_splits)
  then obtain x where x: "rl ! i = Some x" "fst (rank x) \<le> lowest_priority rl" "snd (rank x) \<le> w"
    by (auto simp: candidates_def eligible_def split: option.splits)
  have p: "lowest_priority rl \<le> fst (rank y)" by (rule lowest_priority_le [OF assms(2)])
  have "fst (rank x) = fst (rank y) \<Longrightarrow> w \<le> snd (rank y)"
    using lowest_weight_le [OF assms(2), of "lowest_priority rl"] wk x(2) by simp
  moreover have "fst (rank x) \<le> fst (rank y)" using x(2) p by (rule order_trans)
  ultimately show ?thesis using x(1,3) by (intro exI [of _ x]) (auto simp: order_le_less intro: order_trans)
qed

text \<open>Servers of different priorities are found one after another.\<close>

lemma rank_less: "(ucast x :: u32) < ucast y \<longleftrightarrow> x < y" for x y :: u16
  by (simp add: word_less_nat_alt unat_ucast_up)

lemma rank_max: "(ucast x :: u32) < 0xffffffff" for x :: u16
proof -
  have "unat x < 65536" using unsigned_less [of x, where ?'a = nat] by simp
  then show ?thesis by (simp add: word_less_nat_alt unat_ucast_up)
qed

lemma lowest_priority_head:
  "\<forall>s \<in> set ss. srv_priority a < srv_priority s \<Longrightarrow> lowest_priority (replicate k None @ map (\<lambda>s. Some (SRV s)) (a # ss)) = ucast (srv_priority a)"
proof -
  let ?f = "\<lambda>v low. case v of None \<Rightarrow> low | Some x \<Rightarrow> if fst (rank x) < low then fst (rank x) else low"
  have n: "((\<lambda>low. low) ^^ k) z = z" for z :: u32 by (induction k) simp_all
  have t: "\<forall>s \<in> set ss. srv_priority a < srv_priority s \<Longrightarrow> fold ?f (map (\<lambda>s. Some (SRV s)) ss) (ucast (srv_priority a)) = ucast (srv_priority a)" for ss
    by (induction ss) (auto simp: rank_less not_less_iff_gr_or_eq)
  assume "\<forall>s \<in> set ss. srv_priority a < srv_priority s"
  then show ?thesis using t [of ss] by (simp add: lowest_priority_def n UINT_MAX_RANK_def rank_max)
qed

lemma lowest_weight_head:
  assumes "\<forall>s \<in> set ss. srv_priority a < srv_priority s"
  shows "lowest_weight (ucast (srv_priority a)) (replicate k None @ map (\<lambda>s. Some (SRV s)) (a # ss)) = (ucast (srv_weight a), 1)"
proof -
  let ?f = "\<lambda>v (low, k). case v of None \<Rightarrow> (low, k :: nat)
      | Some x \<Rightarrow> if fst (rank x) > (ucast (srv_priority a) :: u32) then (low, k)
          else if snd (rank x) \<le> low then (snd (rank x), k + 1) else (low, k)"
  have n: "fold ?f (replicate k None) z = z" for z by (induction k) auto
  have t: "\<forall>s \<in> set ss. srv_priority a < srv_priority s \<Longrightarrow> fold ?f (map (\<lambda>s. Some (SRV s)) ss) z = z" for ss z
    by (induction ss) (auto simp: rank_less)
  show ?thesis using t [OF assms] by (simp add: lowest_weight_def n UINT_MAX_RANK_def rank_max less_imp_le)
qed

lemma candidates_head:
  assumes "\<forall>s \<in> set ss. srv_priority a < srv_priority s"
  shows "candidates (ucast (srv_priority a)) (ucast (srv_weight a)) (replicate k None @ map (\<lambda>s. Some (SRV s)) (a # ss)) = [k]"
proof -
  let ?l = "replicate k None @ map (\<lambda>s. Some (SRV s)) (a # ss)"
  let ?P = "\<lambda>i. eligible (ucast (srv_priority a)) (ucast (srv_weight a)) (?l ! i)"
  have a: "filter ?P [0..<k] = []" by (auto simp: filter_empty_conv nth_append eligible_def)
  have b: "filter ?P [Suc k..<length ?l] = []"
  proof (rule filter_False, rule ballI)
    fix i assume i: "i \<in> set [Suc k..<length ?l]"
    then have "?l ! i = Some (SRV (ss ! (i - Suc k)))" "ss ! (i - Suc k) \<in> set ss"
      by (auto simp: nth_append nth_Cons')
    then show "\<not> ?P i" using assms by (simp add: eligible_def rank_less not_le)
  qed
  have "[0..<length ?l] = [0..<k] @ [k..<k + Suc (length ss)]" by (subst upt_add_eq_append [symmetric]) simp_all
  then have "[0..<length ?l] = [0..<k] @ k # [Suc k..<length ?l]" by (subst (asm) (2) upt_conv_Cons) simp_all
  moreover have "?P k" by (simp add: eligible_def nth_append)
  ultimately show ?thesis using a b unfolding candidates_def by (simp del: upt_Suc list.map length_append length_map)
qed

lemma get_best_head:
  assumes "\<forall>s \<in> set ss. srv_priority a < srv_priority s"
  shows "get_best r (replicate k None @ map (\<lambda>s. Some (SRV s)) (a # ss)) = (Some k, True)"
  unfolding get_best_def lowest_priority_head [OF assms] lowest_weight_head [OF assms]
  using rank_max [of "srv_priority a", THEN less_imp_neq] rank_max [of "srv_weight a", THEN less_imp_neq]
  by (simp add: Let_def UINT_MAX_RANK_def lowest_weight_head [OF assms] candidates_head [OF assms] del: list.map)

definition url_of :: "srv_rdata \<Rightarrow> string" where "url_of s = http_url (srv_name s) (srv_port s)"

lemma short_name_fits: "length (srv_name s) < 255 \<Longrightarrow> length (url_of s) < 296"
proof -
  have "unat (srv_port s) < 10 ^ 5" using unsigned_less [of "srv_port s", where ?'a = nat] by simp
  then have "length (print_unsigned (srv_port s)) \<le> 5" by (simp add: print_unsigned_def length_dec_of)
  then show "length (srv_name s) < 255 \<Longrightarrow> length (url_of s) < 296" by (simp add: url_of_def http_url_def)
qed

lemma srv_loop_last:
  assumes "d_curl d" "\<forall>s \<in> set ss. length (url_of s) < 296" "sorted_wrt (\<lambda>s t. srv_priority s < srv_priority t) ss" "ss \<noteq> []"
  shows "map_option (\<lambda>(r, st1). (r, rs_url st1)) (srv_loop d (replicate k None @ map (\<lambda>s. Some (SRV s)) ss) ret st) = Some (0, Some (url_of (last ss)))"
  using assms
proof (induction ss arbitrary: k ret st)
  case (Cons a ss)
  have up: "(replicate k None @ map (\<lambda>s. Some (SRV s)) (a # ss))[k := None] = replicate (Suc k) None @ map (\<lambda>s. Some (SRV s)) ss"
    by (simp add: list_update_append replicate_append_same [symmetric])
  have step: "srv_loop d (replicate k None @ map (\<lambda>s. Some (SRV s)) (a # ss)) ret st
    = srv_loop d (replicate (Suc k) None @ map (\<lambda>s. Some (SRV s)) ss) 0 ((drawn True st)\<lparr>rs_url := Some (url_of a)\<rparr>)"
    using Cons.prems up get_best_head [of ss a] by (subst srv_loop.simps) (simp add: nth_append url_of_def)
  show ?case
  proof (cases "ss = []")
    case True
    have p: "((\<lambda>low. low) ^^ j) z = z" for z :: u32 and j by (induction j) simp_all
    have "get_best r (replicate j None) = (None, False)" for r j
      by (simp add: get_best_def lowest_priority_def UINT_MAX_RANK_def p Let_def split: prod.split)
    then show ?thesis using step True by (simp add: srv_loop.simps drawn_def del: replicate.simps)
  next
    case False
    then show ?thesis unfolding step using Cons.prems by (subst Cons.IH) auto
  qed
qed simp

section \<open>The end of the search\<close>

definition srv_fits :: "rr option \<Rightarrow> bool" where
  "srv_fits v = (case v of None \<Rightarrow> True | Some (SRV s) \<Rightarrow> length (url_of s) < 296 | Some (NAPTR n) \<Rightarrow> False)"

definition naptr_ends :: "rr option \<Rightarrow> bool" where
  "naptr_ends v = (case v of None \<Rightarrow> True | Some (SRV s) \<Rightarrow> False | Some (NAPTR n) \<Rightarrow> take 1 (naptr_flags n) \<noteq> ''P'')"

lemma all_emptied: "\<forall>v \<in> set l. P v \<Longrightarrow> P None \<Longrightarrow> \<forall>v \<in> set (l[i := None]). P v"
  using set_update_subset_insert [of l i None] by blast

text \<open>What a search ends with: 0 and an address to send to, or - 1.\<close>

definition settled :: "int \<times> rs \<Rightarrow> bool" where
  "settled x \<longleftrightarrow> fst x = 0 \<and> rs_url (snd x) \<noteq> None \<or> fst x = - 1"

lemma drawn_url [simp]: "rs_url (drawn b st) = rs_url st"
  by (simp add: drawn_def)

lemma srv_loop_ends:
  "\<forall>v \<in> set sl. srv_fits v \<Longrightarrow> settled (ret, st) \<Longrightarrow> \<exists>x. srv_loop d sl ret st = Some x \<and> settled x"
proof (induction d sl ret st rule: srv_loop.induct)
  case (1 d sl ret st)
  obtain v b where g: "get_best (d_rand d (rs_drawn st)) sl = (v, b)" by force
  have here: "settled (ret, drawn b st)" using 1(3) by (simp add: settled_def)
  show ?case
  proof (cases v)
    case (Some i)
    then have i: "i < length sl" "sl ! i \<noteq> None" using get_best_index g by blast+
    then have "srv_fits (sl ! i)" using 1(2) by simp
    then obtain s where s: "sl ! i = Some (SRV s)" "length (url_of s) < 296"
      using i(2) by (auto simp: srv_fits_def split: option.splits rr.splits)
    let ?next = "srv_loop d (sl[i := None]) 0 ((drawn b st)\<lparr>rs_url := Some (http_url (srv_name s) (srv_port s))\<rparr>)"
    have "d_curl d \<Longrightarrow> \<exists>x. ?next = Some x \<and> settled x"
      by (rule 1(1) [OF g [symmetric, unfolded Some] refl s(1) refl])
        (use s(2) all_emptied [OF 1(2)] in \<open>simp_all add: url_of_def srv_fits_def settled_def\<close>)
    then show ?thesis using g Some s here by (subst srv_loop.simps) (simp add: url_of_def)
  qed (use g here in \<open>simp add: srv_loop.simps\<close>)
qed

lemma follow_srv_ends:
  assumes "\<And>t. \<exists>sl. getRecord d t T_SRV = Some sl \<and> (\<forall>v \<in> set sl. srv_fits (rl_vp v))" "settled (ret, st)"
  shows "\<exists>found r st2. follow_srv d t ret st = Some (found, r, st2) \<and> settled (r, st2)"
proof -
  obtain sl where sl: "getRecord d t T_SRV = Some sl" "\<forall>v \<in> set sl. srv_fits (rl_vp v)" using assms(1) by blast
  have "\<exists>x. srv_loop d (map rl_vp sl) ret st = Some x \<and> settled x" by (rule srv_loop_ends) (use sl(2) assms(2) in auto)
  then obtain x where "srv_loop d (map rl_vp sl) ret st = Some x" "settled x" by blast
  then show ?thesis using sl(1) assms(2) by (cases "sl = []"; cases x) (auto simp: follow_srv_def)
qed

lemma resolve_records_end:
  assumes "\<And>t. \<exists>sl. getRecord d t T_SRV = Some sl \<and> (\<forall>v \<in> set sl. srv_fits (rl_vp v))"
  shows "\<forall>v \<in> set nl. naptr_ends v \<Longrightarrow> settled (ret, st) \<Longrightarrow> \<exists>x. resolve d (Records nl ret) st = Some x \<and> settled x"
proof (induction "length (filter (\<lambda>v. \<exists>y. v = Some y) nl)" arbitrary: nl ret st rule: less_induct)
  case less
  obtain v b where g: "get_best (d_rand d (rs_drawn st)) nl = (v, b)" by force
  have here: "settled (ret, drawn b st)" using less.prems(2) by (simp add: settled_def)
  show ?case
  proof (cases v)
    case (Some i)
    then have i: "i < length nl" "nl ! i \<noteq> None" using get_best_index g by blast+
    then have "naptr_ends (nl ! i)" using less.prems(1) by simp
    then obtain n where n: "nl ! i = Some (NAPTR n)" "take 1 (naptr_flags n) \<noteq> ''P''"
      using i(2) by (auto simp: naptr_ends_def split: option.splits rr.splits)
    have rest: "\<exists>x. resolve d (Records (nl[i := None]) r) z = Some x \<and> settled x" if "settled (r, z)" for r z
      by (rule less.hyps [OF present_shrinks [OF i(1) n(1)] all_emptied [OF less.prems(1)] that]) (simp add: naptr_ends_def)
    obtain found r st2 where f: "follow_srv d (naptr_repl n) ret (drawn b st) = Some (found, r, st2)" "settled (r, st2)"
      using follow_srv_ends [OF assms here] by blast
    have u: "settled (0, (drawn b st)\<lparr>rs_url := Some (naptr_repl n)\<rparr>)" by (simp add: settled_def)
    have "\<exists>x. (if take 1 (naptr_flags n) = ''S'' then if found then Some (r, st2) else resolve d (Records (nl[i := None]) r) st2
        else if take 1 (naptr_flags n) = ''U''
        then if d_curl d then resolve d (Records (nl[i := None]) 0) ((drawn b st)\<lparr>rs_url := Some (naptr_repl n)\<rparr>)
          else resolve d (Records (nl[i := None]) ret) (drawn b st)
        else resolve d (Records (nl[i := None]) ret) (drawn b st)) = Some x \<and> settled x"
      using f(2) rest [OF f(2)] rest [OF u] rest [OF here] by (cases found) simp_all
    then show ?thesis
      unfolding resolve.simps [of d "Records nl ret"]
      by (simp only: work.case g Some n(1) n(2) prod.case option.case rr.case Let_def if_False f(1) bind.bind_lunit)
  qed (use g here in \<open>simp add: resolve.simps\<close>)
qed

lemma local_host_known: "local_lookup_post (d_hosts d) name = Some (Some url) \<Longrightarrow> settled (0, st\<lparr>rs_url := Some url\<rparr>)"
  by (simp add: settled_def)

lemma resolve_ends:
  assumes "\<And>t. \<exists>sl. getRecord d t T_SRV = Some sl \<and> (\<forall>v \<in> set sl. srv_fits (rl_vp v))"
    and "getRecord d name T_NAPTR = Some nl" "\<forall>v \<in> set nl. naptr_ends (rl_vp v)"
    and "local_lookup_post (d_hosts d) name \<noteq> None"
  shows "\<exists>x. resolve_post d name st = Some x \<and> settled x"
proof -
  have minus: "settled (- 1, z)" for z by (simp add: settled_def)
  have r: "\<exists>x. resolve d (Records (map rl_vp nl) (- 1)) z = Some x \<and> settled x" for z
    by (rule resolve_records_end [OF assms(1) _ minus]) (use assms(3) in auto)
  have "resolve_start d name st \<noteq> None" using assms(2,4) by (auto simp: resolve_start_def Let_def split: option.split)
  moreover have "resolve_start d name st = Some (Inr (rl, z)) \<Longrightarrow> rl = map rl_vp nl" for rl z
    using assms(2) by (auto simp: resolve_start_def Let_def split: if_splits option.splits)
  moreover have "resolve_start d name st = Some (Inl x) \<Longrightarrow> settled x" for x
    using assms(2) minus by (auto simp: resolve_start_def Let_def settled_def split: if_splits option.splits)
  ultimately show ?thesis using r unfolding resolve_post_def
    by (subst resolve.simps) (auto split: sum.split)
qed

end
