(* ===== verification/ResolveSamples.thy ===== *)
theory ResolveSamples
  imports ResolveFacts
begin

text \<open>
  A small name service: it answers a question for NAPTR records with one
  record that sends to the servers of a name, and a question for SRV records
  with two servers, the second the less preferred one.
\<close>

definition dns_head :: "u8 \<Rightarrow> u8 \<Rightarrow> buf" where
  "dns_head t n = [0, 0, 0, 0, 0, 1, 0, n, 0, 0, 0, 0, 0, 0, t, 0, 1]"

definition naptr_answer :: buf where
  "naptr_answer = dns_head 35 1 @ [192, 12, 0, 35, 0, 1, 0, 0, 0, 60, 0, 10, 0, 1, 0, 2, 1, 83, 0, 0, 192, 12]"

definition srv_answer :: buf where
  "srv_answer = dns_head 33 2 @ [192, 12, 0, 33, 0, 1, 0, 0, 0, 60, 0, 8, 0, 1, 0, 5, 31, 144, 192, 12]
    @ [192, 12, 0, 33, 0, 1, 0, 0, 0, 60, 0, 8, 0, 2, 0, 5, 31, 145, 192, 12]"

definition dns0 :: dns_env where
  "dns0 = \<lparr>d_search = \<lambda>name t. Some (if t = T_SRV then (57, srv_answer) else (39, naptr_answer)),
    d_expand = \<lambda>m e p. Some ''js'', d_rand = \<lambda>n. 0, d_hosts = [], d_curl = True, d_init = True\<rparr>"

definition rs0 :: rs where "rs0 = \<lparr>rs_url = None, rs_drawn = 0, rs_init = False\<rparr>"

definition server_of :: "u16 \<Rightarrow> u16 \<Rightarrow> srv_rdata" where
  "server_of pri port = \<lparr>srv_priority = pri, srv_weight = 5, srv_port = port, srv_name = ''js''\<rparr>"

definition naptr0 :: naptr_rdata where
  "naptr0 = \<lparr>naptr_order = 1, naptr_pref = 2, naptr_flags = ''S'', naptr_services = [], naptr_regexp = [], naptr_repl = ''js''\<rparr>"

definition node :: "rr \<Rightarrow> result_list" where "node x = \<lparr>rl_class = 1, rl_ttl = 60, rl_vp = Some x\<rparr>"

lemma naptr_read: "getRecord dns0 name T_NAPTR = Some [node (NAPTR naptr0)]"
  by code_simp

lemma srv_read: "getRecord dns0 name T_SRV = Some [node (SRV (server_of 1 8080)), node (SRV (server_of 2 8081))]"
  by code_simp

lemma dns0_servers_fit: "\<exists>sl. getRecord dns0 t T_SRV = Some sl \<and> (\<forall>v \<in> set sl. srv_fits (rl_vp v))"
  by (simp add: srv_read node_def srv_fits_def server_of_def short_name_fits)

end
