(* ===== verification/AesSpec.thy ===== *)
theory AesSpec
  imports AES
begin

text \<open>
  The cipher of FIPS 197 as the standard states it: a state of four columns,
  the four transformations of a round with multiplication in GF(2^8), and the
  expansion of the key into words. The table-driven cipher of
  libbackend/aes.c, whose rounds work on products looked up in tables and
  whose schedule is written octet by octet, computes the same.
\<close>

section \<open>The standard\<close>

text \<open>Multiplication of polynomials modulo x^8 + x^4 + x^3 + x + 1, over the n low coefficients of a.\<close>

fun gf_times :: "nat \<Rightarrow> u8 \<Rightarrow> u8 \<Rightarrow> u8" where
  "gf_times 0 a b = 0"
| "gf_times (Suc n) a b = (if bit a 0 then b else 0) XOR gf_times n (drop_bit 1 a) (xt b)"

definition gf_mult :: "u8 \<Rightarrow> u8 \<Rightarrow> u8" where "gf_mult a b = gf_times 8 a b"

text \<open>
  The substitution: the inverse of the octet in the field, 0 for 0, then the
  sum of the octet and four rotations of it and of the constant 0x63.
\<close>

definition gf_inverse :: "u8 \<Rightarrow> u8" where
  "gf_inverse x = hd (filter (\<lambda>y. gf_mult x y = 1) (map word_of_nat [0..<256]) @ [0])"

definition affine :: "u8 \<Rightarrow> u8" where
  "affine b = b XOR word_rotl 1 b XOR word_rotl 2 b XOR word_rotl 3 b XOR word_rotl 4 b XOR 0x63"

definition SubBytes :: "buf \<Rightarrow> buf" where "SubBytes st = map (\<lambda>x. affine (gf_inverse x)) st"

text \<open>The octet in row r and column c of the state is the one at r + 4 c.\<close>

definition ShiftRows :: "buf \<Rightarrow> buf" where
  "ShiftRows st = map (\<lambda>i. let r = i mod 4; c = i div 4 in st ! (r + 4 * ((c + r) mod 4))) [0..<16]"

definition mix_coefficient :: "nat \<Rightarrow> nat \<Rightarrow> u8" where
  "mix_coefficient r k = [2, 3, 1, 1] ! ((k + 4 - r) mod 4)"

definition MixColumns :: "buf \<Rightarrow> buf" where
  "MixColumns st = map (\<lambda>i. let r = i mod 4; c = i div 4 in
     foldr (\<lambda>k x. gf_mult (mix_coefficient r k) (st ! (k + 4 * c)) XOR x) [0..<4] 0) [0..<16]"

definition AddRoundKey :: "buf \<Rightarrow> buf \<Rightarrow> buf" where "AddRoundKey st k = xor_bytes st k"

definition RotWord :: "buf \<Rightarrow> buf" where "RotWord w = tl w @ [hd w]"

definition Rcon :: "nat \<Rightarrow> buf" where "Rcon j = [(xt ^^ (j - 1)) 1, 0, 0, 0]"

text \<open>The words of the expanded key; Nk is the length of the key in words.\<close>

function key_word :: "nat \<Rightarrow> buf \<Rightarrow> nat \<Rightarrow> buf" where
  "key_word Nk key i =
    (if i < Nk \<or> Nk = 0 then slice (4 * i) 4 key
     else let temp = key_word Nk key (i - 1);
              t = (if i mod Nk = 0 then xor_bytes (SubBytes (RotWord temp)) (Rcon (i div Nk))
                   else if Nk > 6 \<and> i mod Nk = 4 then SubBytes temp else temp)
          in xor_bytes (key_word Nk key (i - Nk)) t)"
  by pat_completeness auto
termination by (relation "measure (\<lambda>(_, _, i). i)") auto

declare key_word.simps [simp del]

definition RoundKey :: "nat \<Rightarrow> buf \<Rightarrow> nat \<Rightarrow> buf" where
  "RoundKey Nk key r = concat (map (\<lambda>c. key_word Nk key (4 * r + c)) [0..<4])"

definition Cipher :: "buf \<Rightarrow> buf \<Rightarrow> buf" where
  "Cipher key inp =
    (let Nk = length key div 4; Nr = Nk + 6;
         s = fold (\<lambda>r s. AddRoundKey (MixColumns (ShiftRows (SubBytes s))) (RoundKey Nk key r)) [1..<Nr]
               (AddRoundKey inp (RoundKey Nk key 0))
     in AddRoundKey (ShiftRows (SubBytes s)) (RoundKey Nk key Nr))"

section \<open>The substitution box\<close>

text \<open>Multiplication is linear and commutes with multiplication by x, hence with any other.\<close>

lemma gf_times_zero: "gf_times n 0 y = 0"
  by (induction n arbitrary: y) simp_all

lemma xt_linear: "xt (a XOR b) = xt a XOR xt b"
  by (rule xt_xor)

lemma xt_nil: "xt 0 = 0"
  by (simp add: xt_def)

lemma gf_times_linear: "gf_times n a (b XOR c) = gf_times n a b XOR gf_times n a c"
  by (induction n arbitrary: a b c) (simp_all add: xt_linear ac_simps)

lemma gf_times_xt: "gf_times n a (xt b) = xt (gf_times n a b)"
  by (induction n arbitrary: a b) (simp_all add: xt_linear xt_nil)

lemma gf_times_nil: "gf_times n a 0 = 0"
  by (induction n arbitrary: a) (simp_all add: xt_nil)

lemma gf_times_commutes: "gf_times n a (gf_times k b c) = gf_times k b (gf_times n a c)"
  by (induction k arbitrary: b c) (simp_all add: gf_times_linear gf_times_xt gf_times_nil)

lemma gf_mult_commutes: "gf_mult a (gf_mult b c) = gf_mult b (gf_mult a c)"
  unfolding gf_mult_def by (rule gf_times_commutes)

lemma ones_check0: "list_all (\<lambda>x. gf_mult x 1 = x) (map word_of_nat [0..<128])"
  by code_simp

lemma ones_check1: "list_all (\<lambda>x. gf_mult x 1 = x) (map word_of_nat [128..<256])"
  by code_simp

lemma gf_mult_one: "gf_mult a 1 = a"
proof -
  have a: "a = word_of_nat (unat a)" "unat a < 256" using unsigned_less [of a, where ?'a = nat] by simp_all
  then show ?thesis
    using ones_check0 ones_check1 unfolding list_all_iff list.set_map set_upt
    by (metis atLeastLessThan_iff image_eqI linorder_not_less zero_le)
qed

lemma gf_mult_comm: "gf_mult a b = gf_mult b a"
  using gf_mult_commutes [of a b 1] by (simp add: gf_mult_one)

lemma gf_inverse_unique: "gf_mult x y = 1 \<Longrightarrow> gf_mult x z = 1 \<Longrightarrow> y = z"
  by (metis gf_mult_commutes gf_mult_comm gf_mult_one)

lemma gf_inverse_eq: "gf_mult x y = 1 \<Longrightarrow> gf_inverse x = y"
proof -
  assume y: "gf_mult x y = 1"
  let ?l = "filter (\<lambda>z. gf_mult x z = 1) (map word_of_nat [0..<256])"
  have "y = word_of_nat (unat y)" "unat y < 256" using unsigned_less [of y, where ?'a = nat] by simp_all
  then have "y \<in> set (map word_of_nat [0..<256])" by (metis atLeastLessThan_iff image_eqI list.set_map set_upt zero_le)
  then have "y \<in> set ?l" using y by simp
  then obtain z zs where z: "?l = z # zs" by (cases ?l) auto
  then have "z \<in> set ?l" by (metis list.set_intros(1))
  then have "z = y" using gf_inverse_unique [OF y] by auto
  then show ?thesis using z by (simp add: gf_inverse_def)
qed

lemma gf_inverse_zero: "gf_inverse 0 = 0"
  by (simp add: gf_inverse_def gf_mult_def gf_times_zero filter_empty_conv)

text \<open>The inverses, octet by octet, and the table of the code.\<close>

definition inverses :: buf where
  "inverses =
    [0, 1, 141, 246, 203, 82, 123, 209, 232, 79, 41, 192, 176, 225, 229, 199, 116, 180, 170, 75, 153, 43, 96, 95, 88, 63, 253, 204, 255, 64, 238, 178,
     58, 110, 90, 241, 85, 77, 168, 201, 193, 10, 152, 21, 48, 68, 162, 194, 44, 69, 146, 108, 243, 57, 102, 66, 242, 53, 32, 111, 119, 187, 89, 25,
     29, 254, 55, 103, 45, 49, 245, 105, 167, 100, 171, 19, 84, 37, 233, 9, 237, 92, 5, 202, 76, 36, 135, 191, 24, 62, 34, 240, 81, 236, 97, 23,
     22, 94, 175, 211, 73, 166, 54, 67, 244, 71, 145, 223, 51, 147, 33, 59, 121, 183, 151, 133, 16, 181, 186, 60, 182, 112, 208, 6, 161, 250, 129, 130,
     131, 126, 127, 128, 150, 115, 190, 86, 155, 158, 149, 217, 247, 2, 185, 164, 222, 106, 50, 109, 216, 138, 132, 114, 42, 20, 159, 136, 249, 220, 137, 154,
     251, 124, 46, 195, 143, 184, 101, 72, 38, 200, 18, 74, 206, 231, 210, 98, 12, 224, 31, 239, 17, 117, 120, 113, 165, 142, 118, 61, 189, 188, 134, 87,
     11, 40, 47, 163, 218, 212, 228, 15, 169, 39, 83, 4, 27, 252, 172, 230, 122, 7, 174, 99, 197, 219, 226, 234, 148, 139, 196, 213, 157, 248, 144, 107,
     177, 13, 214, 235, 198, 14, 207, 173, 8, 78, 215, 227, 93, 80, 30, 179, 91, 35, 56, 52, 104, 70, 3, 140, 221, 156, 125, 160, 205, 26, 65, 28]"

lemma inverses_check0: "list_all2 (\<lambda>x y. x = 0 \<or> gf_mult x y = 1) (map word_of_nat [0..<64]) (take 64 (drop 0 inverses))"
  by code_simp

lemma inverses_check1: "list_all2 (\<lambda>x y. x = 0 \<or> gf_mult x y = 1) (map word_of_nat [64..<128]) (take 64 (drop 64 inverses))"
  by code_simp

lemma inverses_check2: "list_all2 (\<lambda>x y. x = 0 \<or> gf_mult x y = 1) (map word_of_nat [128..<192]) (take 64 (drop 128 inverses))"
  by code_simp

lemma inverses_check3: "list_all2 (\<lambda>x y. x = 0 \<or> gf_mult x y = 1) (map word_of_nat [192..<256]) (take 64 (drop 192 inverses))"
  by code_simp

lemma affine_check: "list_all2 (\<lambda>y s. affine y = ucast s) inverses sb_data"
  by code_simp

lemma length_inverses: "length inverses = 256"
  by (simp add: inverses_def)

lemma inverses_nth: "i < 256 \<Longrightarrow> word_of_nat i = (0 :: u8) \<or> gf_mult (word_of_nat i) (inverses ! i) = 1"
proof -
  have q: "word_of_nat (j + k) = (0 :: u8) \<or> gf_mult (word_of_nat (j + k)) (inverses ! (j + k)) = 1"
    if "list_all2 (\<lambda>x y. x = 0 \<or> gf_mult x y = 1) (map word_of_nat [j..<j + 64]) (take 64 (drop j inverses))"
      "k < 64" "j \<le> 192" for j k
    using list_all2_nthD [OF that(1), of k] that(2,3) length_inverses by simp
  assume "i < 256"
  then consider "i < 64" | "64 \<le> i" "i < 128" | "128 \<le> i" "i < 192" | "192 \<le> i" "i < 256" by linarith
  then show ?thesis
  proof cases
    case 1 then show ?thesis using q [of 0 i] inverses_check0 by simp
  next
    case 2 then show ?thesis using q [of 64 "i - 64"] inverses_check1 by simp
  next
    case 3 then show ?thesis using q [of 128 "i - 128"] inverses_check2 by simp
  next
    case 4 then show ?thesis using q [of 192 "i - 192"] inverses_check3 by simp
  qed
qed

lemma gf_inverse_table: "gf_inverse x = inverses ! unat x"
proof (cases "x = 0")
  case True
  then show ?thesis by (simp add: gf_inverse_zero inverses_def)
next
  case False
  have "x = word_of_nat (unat x)" "unat x < 256" using unsigned_less [of x, where ?'a = nat] by simp_all
  then have "gf_mult x (inverses ! unat x) = 1" using inverses_nth [of "unat x"] False by simp
  then show ?thesis by (rule gf_inverse_eq)
qed

lemma sub_byte: "affine (gf_inverse x) = s_box x"
proof -
  have "unat x < length inverses" using unsigned_less [of x, where ?'a = nat] by (simp add: length_inverses)
  then have "affine (inverses ! unat x) = ucast (sb_data ! unat x)"
    using list_all2_nthD [OF affine_check] by blast
  moreover have "unat x < length sb_data" using unsigned_less [of x, where ?'a = nat] by simp
  ultimately show ?thesis by (simp add: gf_inverse_table s_box_def sbox_def)
qed

lemma SubBytes_table: "SubBytes st = map s_box st"
  by (simp add: SubBytes_def sub_byte)

section \<open>Rounds\<close>

lemma gf_times_numeral:
  "gf_times (numeral k) a b = (if bit a 0 then b else 0) XOR gf_times (pred_numeral k) (drop_bit 1 a) (xt b)"
  by (simp add: numeral_eq_Suc)

lemma small_drops: "drop_bit 1 (1 :: u8) = 0" "drop_bit 1 (2 :: u8) = 1" "drop_bit 1 (3 :: u8) = 1"
  "bit (1 :: u8) 0" "\<not> bit (2 :: u8) 0" "bit (3 :: u8) 0"
  by code_simp+

lemma gf_mult_small: "gf_mult 1 x = x" "gf_mult 2 x = xt x" "gf_mult 3 x = xt x XOR x"
  unfolding gf_mult_def gf_times_numeral [of _ "_ :: u8"] by (simp_all add: gf_times_numeral gf_times_zero small_drops xor.commute)

lemma upt_4: "[0..<4] = [0, 1, 2, 3]" and upt_16: "[0..<16] = [0, 1, 2, 3, 4, 5, 6, 7, 8, 9, 10, 11, 12, 13, 14, 15]"
  by (simp_all add: upt_rec)

lemma shift_sub_rows_eq: "length st = 16 \<Longrightarrow> shift_sub_rows st = ShiftRows (SubBytes st)"
  by (erule list16_cases) (simp add: shift_sub_rows_def ShiftRows_def SubBytes_table upt_16)

lemma mix_coefficients:
  "mix_coefficient 0 0 = 2" "mix_coefficient 0 1 = 3" "mix_coefficient 0 2 = 1" "mix_coefficient 0 3 = 1"
  "mix_coefficient 1 0 = 1" "mix_coefficient 1 1 = 2" "mix_coefficient 1 2 = 3" "mix_coefficient 1 3 = 1"
  "mix_coefficient 2 0 = 1" "mix_coefficient 2 1 = 1" "mix_coefficient 2 2 = 2" "mix_coefficient 2 3 = 3"
  "mix_coefficient 3 0 = 3" "mix_coefficient 3 1 = 1" "mix_coefficient 3 2 = 1" "mix_coefficient 3 3 = 2"
  by (simp_all add: mix_coefficient_def)

lemma length_MixColumns [simp, len_simps]: "length (MixColumns st) = 16"
  by (simp add: MixColumns_def)

definition mixed :: "u8 \<Rightarrow> u8 \<Rightarrow> u8 \<Rightarrow> u8 \<Rightarrow> buf" where
  "mixed a b c d = [xt a XOR xt b XOR b XOR c XOR d, a XOR xt b XOR xt c XOR c XOR d,
     a XOR b XOR xt c XOR xt d XOR d, xt a XOR a XOR b XOR c XOR xt d]"

lemma MixColumns_list:
  "MixColumns [a0, a1, a2, a3, b0, b1, b2, b3, c0, c1, c2, c3, d0, d1, d2, d3] =
    mixed a0 a1 a2 a3 @ mixed b0 b1 b2 b3 @ mixed c0 c1 c2 c3 @ mixed d0 d1 d2 d3"
  unfolding MixColumns_def upt_16 upt_4 mixed_def Let_def list.map foldr_Cons foldr_Nil o_apply id_apply
  by (simp add: mix_coefficients [simplified] gf_mult_small xor.assoc)

lemma mix_sub_columns_eq: "length st = 16 \<Longrightarrow> mix_sub_columns st = MixColumns (ShiftRows (SubBytes st))"
  by (erule list16_cases)
    (simp add: shift_sub_rows_eq [symmetric] shift_sub_rows_def MixColumns_list mixed_def mix_sub_columns_def
      gfm2_sb_eq gfm3_sb_eq xor.assoc)

section \<open>The key schedule\<close>

lemma slice_four: "4 * i + 3 < length xs \<Longrightarrow>
  slice (4 * i) 4 xs = [xs ! (4 * i), xs ! (4 * i + 1), xs ! (4 * i + 2), xs ! (4 * i + 3)]"
  by (rule nth_equalityI) (auto simp: nth_Cons numeral_eq_Suc split: nat.split)

lemma f2_xt: "ucast (f2 (ucast (x :: u8))) = xt x"
  by (simp add: f_bytes)

definition scheduled :: "nat \<Rightarrow> buf \<Rightarrow> nat \<Rightarrow> buf \<times> u8 \<Rightarrow> bool" where
  "scheduled Nk key i s \<longleftrightarrow> length (fst s) = 240 \<and> (\<forall>j < i. slice (4 * j) 4 (fst s) = key_word Nk key j) \<and>
     snd s = (xt ^^ ((i + Nk - 1) div Nk - 1)) 1"

lemma rounds_up:
  assumes "0 < (Nk :: nat)" "Nk \<le> i"
  shows "i mod Nk = 0 \<Longrightarrow> (i + Nk - 1) div Nk = i div Nk"
    "(i + 1 + Nk - 1) div Nk - 1 = (if i mod Nk = 0 then Suc ((i + Nk - 1) div Nk - 1) else (i + Nk - 1) div Nk - 1)"
proof -
  define q r where qr: "q = i div Nk" "r = i mod Nk"
  have i: "i = q * Nk + r" "r < Nk" using assms by (simp_all add: qr)
  have q: "0 < q" using assms by (simp add: qr div_greater_zero_iff)
  have up: "(i + Nk - 1) div Nk = (if r = 0 then q else q + 1)"
  proof (cases r)
    case 0
    then have "i + Nk - 1 = q * Nk + (Nk - 1)" using i assms by simp
    also have "\<dots> div Nk = q" using assms by (simp only: div_mult_self3) simp
    finally show ?thesis using 0 by simp
  next
    case (Suc k)
    then have "i + Nk - 1 = (q + 1) * Nk + k" using i by simp
    also have "\<dots> div Nk = q + 1" using assms i Suc by (simp only: div_mult_self3) simp
    finally show ?thesis using Suc by simp
  qed
  show "i mod Nk = 0 \<Longrightarrow> (i + Nk - 1) div Nk = i div Nk" using up by (simp add: qr)
  have "(i + 1 + Nk - 1) div Nk = q + 1" using assms div_add_self2 [of Nk i] by (simp add: qr)
  then show "(i + 1 + Nk - 1) div Nk - 1 = (if i mod Nk = 0 then Suc ((i + Nk - 1) div Nk - 1) else (i + Nk - 1) div Nk - 1)"
    using up q by (simp add: qr)
qed

lemma key_step_scheduled:
  assumes "0 < Nk" "Nk \<le> i" "i < 60" "scheduled Nk key i (ks, rc)"
  shows "scheduled Nk key (i + 1) (key_step (4 * Nk) (4 * i) (ks, rc))"
proof -
  have len: "length ks = 240" and old: "\<And>j. j < i \<Longrightarrow> slice (4 * j) 4 ks = key_word Nk key j"
    and rc: "rc = (xt ^^ ((i + Nk - 1) div Nk - 1)) 1"
    using assms(4) by (simp_all add: scheduled_def)
  obtain p where p: "i = Suc p" using assms(1,2) by (cases i) auto
  have before: "key_word Nk key (i - 1) = [ks ! (4 * i - 4), ks ! (4 * i - 3), ks ! (4 * i - 2), ks ! (4 * i - 1)]"
    using old [of p] slice_four [of p ks] p len assms(3) by (simp add: algebra_simps)
  have back_at: "4 * i - 4 * Nk = 4 * (i - Nk)" by (simp add: diff_mult_distrib2)
  have older: "key_word Nk key (i - Nk) = [ks ! (4 * (i - Nk)), ks ! (4 * (i - Nk) + 1), ks ! (4 * (i - Nk) + 2), ks ! (4 * (i - Nk) + 3)]"
  proof -
    have "i - Nk < i" "4 * (i - Nk) + 3 < length ks" using len assms(1-3) by linarith+
    then show ?thesis unfolding old [OF \<open>i - Nk < i\<close>, symmetric] by (intro slice_four)
  qed
  have mods: "4 * i mod (4 * Nk) = 4 * (i mod Nk)" by (rule mod_mult_mult1)
  have word: "key_word Nk key i = xor_bytes (key_word Nk key (i - Nk))
      (let temp = key_word Nk key (i - 1)
       in if i mod Nk = 0 then xor_bytes (SubBytes (RotWord temp)) (Rcon (i div Nk))
          else if Nk > 6 \<and> i mod Nk = 4 then SubBytes temp else temp)"
    using assms(1,2) by (subst key_word.simps) (simp add: Let_def)
  have "\<exists>t0 t1 t2 t3. key_step (4 * Nk) (4 * i) (ks, rc) =
      (ks[4 * i := ks ! (4 * (i - Nk)) XOR t0, 4 * i + 1 := ks ! (4 * (i - Nk) + 1) XOR t1,
          4 * i + 2 := ks ! (4 * (i - Nk) + 2) XOR t2, 4 * i + 3 := ks ! (4 * (i - Nk) + 3) XOR t3],
       (xt ^^ ((i + 1 + Nk - 1) div Nk - 1)) 1) \<and>
      key_word Nk key i = xor_bytes (key_word Nk key (i - Nk)) [t0, t1, t2, t3]"
  proof (cases "i mod Nk = 0")
    case True
    then show ?thesis
      using rounds_up [OF assms(1,2)] unfolding word Let_def before RotWord_def SubBytes_table Rcon_def
      by (intro exI [of _ "s_box (ks ! (4 * i - 3)) XOR (xt ^^ (i div Nk - 1)) 1"] exI [of _ "s_box (ks ! (4 * i - 2))"]
          exI [of _ "s_box (ks ! (4 * i - 1))"] exI [of _ "s_box (ks ! (4 * i - 4))"])
        (simp add: key_step_def Let_def mods back_at rc f2_xt)
  next
    case False
    then show ?thesis
      using rounds_up [OF assms(1,2)] unfolding word Let_def before SubBytes_table
      by (auto simp: key_step_def Let_def mods back_at rc)
  qed
  then obtain t0 t1 t2 t3 where step: "key_step (4 * Nk) (4 * i) (ks, rc) =
      (ks[4 * i := ks ! (4 * (i - Nk)) XOR t0, 4 * i + 1 := ks ! (4 * (i - Nk) + 1) XOR t1,
          4 * i + 2 := ks ! (4 * (i - Nk) + 2) XOR t2, 4 * i + 3 := ks ! (4 * (i - Nk) + 3) XOR t3],
       (xt ^^ ((i + 1 + Nk - 1) div Nk - 1)) 1)" (is "_ = (?ks, _)")
    and new: "key_word Nk key i = xor_bytes (key_word Nk key (i - Nk)) [t0, t1, t2, t3]" by blast
  have "slice (4 * j) 4 ?ks = key_word Nk key j" if "j < i + 1" for j
  proof (cases "j = i")
    case True
    then show ?thesis using len assms(3) by (simp add: slice_four new older)
  next
    case False
    then have "slice (4 * j) 4 ?ks = slice (4 * j) 4 ks"
      using that len assms(3) by (simp add: slice_four)
    then show ?thesis using old False that by simp
  qed
  then show ?thesis unfolding step using len by (simp add: scheduled_def)
qed

lemma key_steps_scheduled:
  assumes "0 < Nk" "Nk + m \<le> 60" "scheduled Nk key Nk s"
  shows "scheduled Nk key (Nk + m) (fold (key_step (4 * Nk)) (map (\<lambda>k. 4 * Nk + 4 * k) [0..<m]) s)"
  using assms(2)
proof (induction m)
  case (Suc m)
  let ?s = "fold (key_step (4 * Nk)) (map (\<lambda>k. 4 * Nk + 4 * k) [0..<m]) s"
  have "scheduled Nk key (Nk + m) ?s" using Suc by simp
  then have "scheduled Nk key (Nk + m + 1) (key_step (4 * Nk) (4 * (Nk + m)) ?s)"
    using key_step_scheduled [OF assms(1), of "Nk + m" key "fst ?s" "snd ?s"] Suc.prems by simp
  then show ?case by (simp add: algebra_simps)
qed (use assms(3) in simp)

lemma key_start_scheduled:
  assumes "0 < Nk" "length key = 4 * Nk" "Nk \<le> 60" "length ks = 240"
  shows "scheduled Nk key Nk (memcpy_at ks 0 key (4 * Nk), 1)"
proof -
  have "slice (4 * j) 4 (memcpy_at ks 0 key (4 * Nk)) = key_word Nk key j" if "j < Nk" for j
    using that assms by (subst key_word.simps) (simp add: memcpy_at_def slice_def)
  then show ?thesis using assms rounds_up(1) [of Nk Nk] by (auto simp: scheduled_def len_simps)
qed

section \<open>The two ciphers\<close>

lemma slice_split: "slice off (a + b) xs = slice off a xs @ slice (off + a) b xs"
  by (simp add: slice_def take_add add.commute)

lemma RoundKey_slice:
  assumes "\<And>j. j < i \<Longrightarrow> slice (4 * j) 4 ks = key_word Nk key j" "4 * r + 3 < i"
  shows "slice (r * 16) 16 ks = RoundKey Nk key r"
proof -
  have "slice (r * 16) 16 ks = slice (4 * (4 * r)) 4 ks @ slice (4 * (4 * r + 1)) 4 ks @ slice (4 * (4 * r + 2)) 4 ks @ slice (4 * (4 * r + 3)) 4 ks"
    using slice_split [of "r * 16" 4 12 ks] slice_split [of "r * 16 + 4" 4 8 ks] slice_split [of "r * 16 + 8" 4 4 ks]
    by (simp add: ac_simps)
  also have "\<dots> = concat (map (\<lambda>c. slice (4 * (4 * r + c)) 4 ks) [0..<4])" by (simp add: upt_4 ac_simps)
  also have "\<dots> = RoundKey Nk key r"
    unfolding RoundKey_def using assms(2) by (intro arg_cong [of _ _ concat] map_cong refl assms(1)) simp
  finally show ?thesis .
qed

lemma set_key_rounds:
  assumes "keylen \<in> {16, 24, 32}" "length key = unat keylen" "length (ksch ctx) = 240"
  defines "c \<equiv> snd (aes_set_key key keylen ctx)" and "Nk \<equiv> length key div 4"
  shows "unat (rnd c) = Nk + 6" "r \<le> Nk + 6 \<Longrightarrow> round_key c r = RoundKey Nk key r"
proof -
  have k: "unat keylen \<in> {16, 24, 32}" using assms(1) by auto
  then have Nk: "unat keylen = 4 * Nk" "length key = 4 * Nk" "0 < Nk" "Nk \<le> 8"
    using assms(2) by (auto simp: Nk_def)
  have hi: "unat (push_bit 2 (keylen + 28)) = 16 * (Nk + 7)"
    "unat (drop_bit 4 (push_bit 2 (keylen + 28)) - 1) = Nk + 6"
    using assms(1,2) by (auto simp: Nk_def)
  show "unat (rnd c) = Nk + 6" using assms(1) hi(2) by (simp add: c_def aes_set_key_def Let_def)
  define m where "m = (16 * (Nk + 7) - 4 * Nk) div 4"
  have m: "m = 3 * Nk + 28" by (simp add: m_def)
  have ks: "ksch c = fst (fold (key_step (4 * Nk)) (map (\<lambda>k. 4 * Nk + 4 * k) [0..<m]) (memcpy_at (ksch ctx) 0 key (4 * Nk), 1))"
    using assms(1) hi(1) Nk(1) by (simp add: c_def aes_set_key_def Let_def m_def)
  have "scheduled Nk key (Nk + m) (fold (key_step (4 * Nk)) (map (\<lambda>k. 4 * Nk + 4 * k) [0..<m]) (memcpy_at (ksch ctx) 0 key (4 * Nk), 1))"
    using Nk assms(3) m by (intro key_steps_scheduled key_start_scheduled) auto
  then have words: "slice (4 * j) 4 (ksch c) = key_word Nk key j" if "j < Nk + m" for j
    using that by (simp add: scheduled_def ks)
  show "round_key c r = RoundKey Nk key r" if "r \<le> Nk + 6"
    unfolding round_key_def by (rule RoundKey_slice [of "Nk + m"]) (use words that m Nk in auto)
qed

lemma aes_is_Cipher:
  assumes "keylen \<in> {16, 24, 32}" "length key = unat keylen" "length (ksch ctx) = 240" "length inp = 16"
  shows "aes_encrypt inp out (snd (aes_set_key key keylen ctx)) = (0, Cipher key inp)"
proof -
  define c where "c = snd (aes_set_key key keylen ctx)"
  define Nk where "Nk = length key div 4"
  note R = set_key_rounds [OF assms(1-3), folded c_def Nk_def]
  have good: "good_ctx c" unfolding c_def by (rule aes_set_key_good(2) [OF assms(1-3)])
  have len: "length (round_key c 0) = 16" using length_round_key [OF good] by simp
  let ?code = "fold (\<lambda>r s. add_round_key (mix_sub_columns s) (round_key c r))"
  let ?spec = "fold (\<lambda>r s. AddRoundKey (MixColumns (ShiftRows (SubBytes s))) (RoundKey Nk key r))"
  have rounds: "?code rs s = ?spec rs s \<and> length (?code rs s) = 16" if "length s = 16" "set rs \<subseteq> {..Nk + 6}" for rs s
    using that
  proof (induction rs arbitrary: s)
    case (Cons r rs)
    then have "add_round_key (mix_sub_columns s) (round_key c r) = AddRoundKey (MixColumns (ShiftRows (SubBytes s))) (RoundKey Nk key r)"
      "length (add_round_key (mix_sub_columns s) (round_key c r)) = 16"
      using length_round_key [OF good] by (simp_all add: add_round_key_def AddRoundKey_def mix_sub_columns_eq R)
    then show ?case using Cons.IH [of "add_round_key (mix_sub_columns s) (round_key c r)"] Cons.prems by auto
  qed simp
  have s1: "copy_and_key inp (round_key c 0) = AddRoundKey inp (RoundKey Nk key 0)"
    "length (copy_and_key inp (round_key c 0)) = 16"
    using assms(4) len by (simp_all add: copy_and_key_def AddRoundKey_def R)
  have "set [1..<Nk + 6] \<subseteq> {..Nk + 6}" by auto
  note E = rounds [OF s1(2) this]
  have last_round: "shift_sub_rows (?code [1..<Nk + 6] (AddRoundKey inp (RoundKey Nk key 0))) =
      ShiftRows (SubBytes (?spec [1..<Nk + 6] (AddRoundKey inp (RoundKey Nk key 0))))"
    using E shift_sub_rows_eq unfolding s1(1) by metis
  have key: "round_key c (Nk + 6) = RoundKey Nk key (Nk + 6)" using R(2) by simp
  have "rnd c \<noteq> 0" using good by (simp add: good_ctx_def)
  then have "aes_encrypt inp out c = (0, copy_and_key
      (shift_sub_rows (?code [1..<Nk + 6] (copy_and_key inp (round_key c 0)))) (round_key c (Nk + 6)))"
    by (simp add: aes_encrypt_def Let_def R(1))
  also have "\<dots> = (0, AddRoundKey (ShiftRows (SubBytes (?spec [1..<Nk + 6] (AddRoundKey inp (RoundKey Nk key 0))))) (RoundKey Nk key (Nk + 6)))"
    unfolding s1(1) last_round key by (simp add: copy_and_key_def AddRoundKey_def)
  also have "\<dots> = (0, Cipher key inp)" by (simp add: Cipher_def Let_def Nk_def)
  finally show ?thesis by (simp add: c_def)
qed

end
