(* ===== verification/FurtherResults.thy ===== *)
theory FurtherResults
  imports UplinkFacts JoinDispatch JoinFacts RegionFacts AppFacts
begin

text \<open>
  Further results on the components: what the code promises in smaller parts,
  and where it differs from its intent.
\<close>

text \<open>A rejoin request of type 1 is never accepted: after its checks the code falls through to the branch for unknown types, so the answer is Other, or UnknownDevEUI.\<close>

lemma rejoin_type1_never_accepted:
  assumes "mtype_of (hd rx) = MTYPE_REJOIN_REQ" "rx ! 1 = 1" "js_request e rx len eui = Some r"
  shows "r = Inl Other \<or> r = Inl UnknownDevEUI"
proof -
  obtain m ms where rx: "rx = m # ms" using assms(3) by (auto simp: js_request_def split: list.splits)
  then have j: "js_rejoin e rx eui \<noteq> Some (Inr rq)" for rq
    using assms(2) by (cases ms) (auto simp: js_rejoin_def field_at_def slice_def split: option.splits if_splits)
  moreover have "q = Other \<or> q = UnknownDevEUI" if "js_rejoin e rx eui = Some (Inl q)" for q
    using assms(2) rx that by (cases ms) (auto simp: js_rejoin_def field_at_def slice_def split: option.splits if_splits)
  ultimately show ?thesis
    using assms(1,3) unfolding js_request_def rx by (auto split: option.splits sum.splits)
qed

text \<open>A network server of any of the eight NetID types derives at start-up an address block from which every address parses back to the server's own NetID, to its network number and to the number within the block, when the number fits the field its type leaves for it.\<close>

lemma address_block_is_the_networks_own:
  assumes "t < 8" "take_bit (id_bits t) ID = ID" "take_bit (addr_bits t) n = n"
  shows "\<exists>base. fNS_init True (net_id t ID) g = (0, base, addr_bits t) \<and> parseDevAddr (base OR n) = Some (net_id t ID, ID, n)"
  using fNS_init_block [OF assms(1,2)] parse_block_addr [OF assms] block_addr_or by metis

text \<open>A forced rejoin empties the command ring of the device and leaves the rejoin request as its only command; the second octet of its argument, which holds the retries and the period, is always zero.\<close>

lemma forced_rejoin_is_alone:
  assumes "queue_inv (macq st)" "sNS_force_rejoin db f e a (Some st) typ = (0, Some st')"
    and "\<not> queue_full (wipe_queued_mac_cmds (macq st))"
  shows "queue_inv (macq st') \<and> (\<exists>lo. queue_abs (macq st') = [(False, [srv_code SRV_MAC_FORCE_REJOIN_REQ, lo, 0])])"
  using force_rejoin_queue [OF assms] by blast

text \<open>A transaction number comes back in the answer as it was sent exactly when it is below 2^31. A larger one is sign-extended to 64 bits on the way and matches no transaction of any device, so that its answer is never dispatched.\<close>

lemma large_transaction_never_answered:
  assumes "json_laws a" "same_id myID dest = Some True" "length src < 64" "m \<noteq> OtherMessage"
    and "lib_parse_json a (lib_generate_json jobj dest src (ucast (tid :: u32)) (Some (message_text m)) res) myID = Some p"
  shows "(pj_tid p = Some (ucast tid) \<longleftrightarrow> tid < 0x80000000) \<and>
    (tid \<ge> 0x80000000 \<longrightarrow> (\<exists>t. pj_tid p = Some t \<and> take_answer motes t = None))"
proof -
  have c: "c_int (ucast tid :: u64) = c_int tid" by (simp add: c_int_def ucast_up_ucast_id is_up)
  have p: "pj_tid p = Some (word_of_int (c_int tid))"
    using header_roundtrip [OF assms(1-4), of jobj "ucast tid" res] assms(5) unfolding c by auto
  then show ?thesis using tid_comes_back large_tid_unmatched by auto
qed

text \<open>Two session keys derived from one root key with one join EUI are equal only when they are of the same kind and come from the same join nonce (24 bits) and device nonce: the four keys of a session differ, and so do the keys of two sessions.\<close>

lemma session_keys_differ:
  assumes "GenerateSessionKey optneg t rk jn eui dn netid = GenerateSessionKey optneg t' rk jn' eui dn' netid"
    and "length rk = 16" "length eui = 8"
  shows "t = t' \<and> jn AND 0xffffff = jn' AND 0xffffff \<and> dn = dn'"
  using session_key_inj [OF assms] .

text \<open>When the 16-bit counter has wrapped, a frame inside the window is accepted with a 32-bit counter below the stored one: the high half is never incremented, the counter 65536 higher is the one in the window, and the stored counter goes back.\<close>

lemma rollover_sends_counter_back:
  assumes "rx - ucast stored \<le> (0x4000 :: u16)" "rx < ucast stored"
  shows "\<not> replayed stored (fcnt32 stored rx) \<and> fcnt32 stored rx < stored \<and>
    fcnt32 stored rx + 0x10000 - stored = ucast (rx - ucast stored)"
  using assms replayed_window [of stored rx] fcnt32_wrap [of stored rx] fcnt32_next_period [of rx stored] by simp

text \<open>With a 1.1 session, get_queued_mac_cmds with any command to send accesses memory beyond its 16-octet buffer: the cipher, called with block counter 0, processes one block more than the data has (None in the model is such an access).\<close>

lemma fopts_encryption_overruns:
  assumes "queue_inv q" "length key = 16" "fit 15 (queue_abs q) > 0"
  shows "get_queued_mac_cmds q phy addr key cnt True = None"
  using assms by (rule get_OptNeg_overrun)

text \<open>A key length the cipher does not know is refused, and encryption and decryption then fail and leave the output as it was.\<close>

lemma aes_bad_key_length_refused:
  assumes "keylen \<notin> {16, 24, 32}"
  shows "fst (aes_set_key key keylen ctx) = - 1 \<and>
    aes_encrypt inp out (snd (aes_set_key key keylen ctx)) = (- 1, out) \<and>
    aes_decrypt inp out (snd (aes_set_key key keylen ctx)) = (- 1, out)"
  using aes_set_key_rejects [OF assms, of key ctx] by (simp add: aes_encrypt_def aes_decrypt_def)

text \<open>The ping offset of a device is computed for every period but zero and lies within the
  period.\<close>

lemma ping_offset_within_period:
  assumes "p \<noteq> 0"
  shows "\<exists>ofs. LoRaMacBeaconComputePingOffset t a p = Some ofs \<and> ofs < p"
  using ping_offset_runs [OF assms] ping_offset_bound by blast

text \<open>The statements that add a session and that update a device's roaming state fit the 768 and
  512 octets of the buffers they are printed into, for every session with 16-octet keys, every
  counter and every device.\<close>

lemma statements_fit_buffers:
  assumes "\<And>k. k \<in> {fnk, snk, nek} \<Longrightarrow> (case k of Some b \<Rightarrow> length b = 16 | None \<Rightarrow> True)"
  shows "length (session_insert_text moteID til a d u fnk snk nek) < 768 \<and>
    length (roam_update_text st til' netid mic (snd (getMotesWhere db e addr))) < 512"
  using session_insert_fits [of fnk snk nek moteID til a d u] assms roam_update_fits [of st til' netid mic "snd (getMotesWhere db e addr)"]
    getMotesWhere_fits [of db e addr] by simp

text \<open>Whatever command octets a device sends, parse_mac_command leaves the command ring in its
  invariant (as far as the regional callback does), and it always returns false.\<close>

lemma device_commands_keep_queue:
  assumes "queue_inv (macq s)" "callbacks_ok (e_regions e)"
    and "parse_mac_command e stack tok rx len s = Some (s', sent, r)"
  shows "queue_inv (macq s') \<and> r = False"
  using parse_mac_command_inv [OF assms] by blast

text \<open>Starting from an empty ring, any sequence of puts of commands, clears and wipes keeps the
  invariant and never has two waiting commands with the same code.\<close>

lemma queue_history_no_duplicates:
  assumes "\<forall>e \<in> set ops. proper_op e"
  shows "queue_inv (fold queue_op ops empty_queue) \<and>
    distinct (map (hd \<circ> snd) (queue_abs (fold queue_op ops empty_queue)))"
  using queue_history [OF assms empty_queue_inv] by (simp add: no_repeats_def empty_queue_abs)

end
