(* ===== verification/Spec2Isabelle.thy ===== *)
theory Spec2Isabelle
  imports AppSamples RegionSamples ServerSamples FormSamples ResolveSamples UplinkFacts JoinDispatch AesSpec FurtherResults
begin

text \<open>
  A verification development for LoRaWAN-Backend, the servers of a LoRaWAN
  network in C: a join server (src/join_server), a network server with its
  forwarding (fNS), serving (sNS) and home (hNS) roles (src/network_server), an
  application server (src/app_server), and what they share (src/libbackend).
  Devices send frames to gateways; the forwarding server passes them, with
  metadata, as JSON messages to the serving server, which checks counter and
  integrity code, runs the MAC commands and prepares the answer; the join
  server checks join requests, derives the session keys and answers with an
  enciphered join-accept. Persistent state is in MySQL; statements that change
  it go through a message queue to a child process.

  The theories and what they model, in the order of their imports:

  \<^item> Prelude: octets, slices and memcpy, the collections of rewrite rules.
  \<^item> AES (libbackend/aes.c, aes.h): tables, rounds, key schedule, block and
    CBC modes; decryption undoes encryption for each key length. The locale
    keyed_cipher is what the other cryptography relies on.
  \<^item> AesSpec: the cipher of FIPS 197 as the standard states it, with the
    substitution as inverse and affine map in GF(2^8), which the table-driven
    cipher of the code, with its table of 256 entries, equals for each key length.
  \<^item> CMAC (libbackend/cmac.c): the incremental AES-CMAC with its partial block.
    The locale incremental states that an update is a step of the one-shot
    definition cmac_ref.
  \<^item> CText: sprintf and sscanf on integers, the database client as a function
    from query texts to rows. Codec: little-endian and hexadecimal codecs of
    libbackend/libserver.c.
  \<^item> LoRaCrypto: payload cipher and integrity codes (LoRa_Encrypt and the two
    generators of codes in libbackend/libserver.c, the block of ns.h).
  \<^item> Addressing: parseDevAddr, fNS_init, getDevAddr, isNetID. Base64:
    app_server/base64.c.
  \<^item> NsTypes: headers, command codes, results, roaming states, metadata and the
    state of a device (lorawan.h, libserver.h, ns.h, sNS.h).
  \<^item> MacQueue (network_server/sNS.c): the ring of MAC commands of a device,
    refined to a list of waiting commands by queue_abs under queue_inv; the
    locale cmd_queue is the contract the handlers use.
  \<^item> Adr (network_server/adr.c), Bands (band_*.c), MacCommands (parse_mac_command,
    init_session, sNS_force_rejoin of sNS.c).
  \<^item> Database (network_server/common.c): query texts, rows read and statements of
    the motes, sessions and profile tables.
  \<^item> Motes (common.c, web.c): the list of devices, transactions, the ring of
    answers sent. Uplink and UplinkFacts (sNS.c): sNS_uplink and
    sNS_schedule_downlink, every branch.
  \<^item> Envelope (key envelopes of libserver.c), JoinServer and JoinFacts
    (join_server/main.c: parse_rf_join_req with every branch), Backend (messages
    of libserver.c), JoinDispatch (ParseJson and getHomeNS of join_server/web.c),
    Metadata (uplink and downlink metadata of common.c and libserver.c).
  \<^item> GwTypes and Gateway (network_server/gateway.c, gw_server.h, loragw_hal.h,
    fNS.h and the gateway functions of fNS.c): the list of gateways, every
    message a gateway sends, beacons, time on air, and the best copy of an
    uplink. Forwarding (fNS.c): fNS_downlink for the three classes, the downlink
    that waits for the next beacon, the periodic service of the gateways.
  \<^item> World: the global variables of the network server as a record ns_world, a
    handler as a computation of type ns over it, and the calls that only pass
    through the record. Profiles (common.c, web.c): device and service profiles
    between JSON and the database.
  \<^item> Roaming (common.c): requests with a payload, answers to requests that wait,
    keys of a partner, RStop and xRStartAnsCallback. HomeServer (hNS.c).
    Serving, ServingDown and ServingUp (sNS.c): session keys from a join answer,
    the start of handover, the answers to partners, sNS_finish_phy_downlink and
    the downlinks of the classes, hNs_to_sNS_JoinAns, sNS_uplink_finish and
    sNS_service. ForwardUp (fNS.c): fNS_uplink_finish and the handlers of the
    answers. Collect (common.c): finish and common_service. NsDispatch (web.c,
    common.c): uplinkJson, downlinkJson and ParseJson. Where a C function and
    the value of type AnsCallback_t that stands for it have one name, the
    function is called on_ and the message it takes (on_PRStartAns).
  \<^item> NsForms and NsRequests (network_server/web.c): the fields of the operator's
    forms, and what a submitted form does, with its statements and the reasons
    of its failures. NsFormFacts: the statements of a form, by the relation runs
    between a computation and what it runs; a COMMIT only ends statements that
    all succeeded. JoinForms and JoinFormFacts (join_server/web.c): the same for
    the join server, and the keys of a device that is entered.
  \<^item> Server: everything that reaches the network server as an event, the state
    it reaches (gateway.c, and the forms of web.c).
    The program runs its HTTP handlers in a second thread without a lock; an
    event stands for a handler that runs to its end before the next begins.
  \<^item> Regions (band_arib8ch.c, and parse_region_config and ns_conf_json of gateway.c):
    the channel plan of AS923 and the region tables of a configuration.
    RegionFacts: the frequencies it sends are the exact ones, its callbacks keep
    the state of a device (the locale start_up, for two invariants), and so do
    the regions of every configuration.
  \<^item> StateFacts and WorldFacts: the invariant of a device and of the server's
    state; SafeGateway, SafeServer and ServerFacts: every handler and every
    event keeps it, by the locale event_system. CopyFacts: the copies of one
    frame. DownlinkFacts: the windows of a downlink. CounterFacts: the downlink
    counter.
  \<^item> AppServer and AppRequests (app_server/main.c and web.c): the messages of the
    application server, frames stored and passed on, downlinks and the list of
    requests that wait; the fields of the operator's form and what is done when
    it is submitted. AppFacts: it reads what devices encipher, devices read what
    it sends, and no request that waits has a freed payload.
  \<^item> Resolve (libbackend/resolve.c): the answers of the name service, the choice
    of a record, the search for the address of a server. ResolveFacts: an answer
    is read within its buffer, the best record is chosen, the search ends.
  \<^item> FurtherResults: smaller promises of the components, and places where the
    code differs from its intent.
  \<^item> Samples, ServerSamples, RegionSamples, FormSamples, AppSamples and
    ResolveSamples: concrete devices, servers, forms, frames and answers for the
    witnesses.

  Conventions. A C structure is a record with the field names of the source
  (prefixed where C records share a name), a buffer a list of octets, a list of
  nodes a list whose empty nodes are None; integers keep their width as words,
  floats and doubles are rationals, rounded by
  to_float and to_double where the network server computes with them. A handler is a function from the state to
  the new state, its result, and the statements and posts it sends, in order.
  In the network server the state is one record and a handler changes it step
  by step (bnd, andthen); a device is known by its position in the list, a
  gateway and a requester likewise, so that a pointer that dangles is a position
  whose node is empty. None in a result type is undefined behaviour of the C code: an access outside
  a buffer or through a null pointer, or the use of a variable that was never
  written; a theorem that a result is Some therefore excludes it. Where the
  code reads an uninitialised variable that does have a value (a buffer on the
  stack), this value is an argument.

  What is not under src/ is an argument: the MySQL server (type mysql, query
  text to rows), the message queue's return code, the key wrap of libgcrypt,
  the conversions of json-c (json_api, with its documented behaviour on values
  the servers write as json_laws), the HTTP client, the clock, random numbers.

  Loops are recursive functions with a measure: the search for an address by
  the addresses left, the cipher loops by the data left, the data rate and power loops by the distance to the limit.
  Digits are printed with fuel one above the number, enough because a division
  by the base makes a positive number smaller (scan_digits_digits_of shows that
  the digits printed are the number).

  The properties below are grouped by importance: uplinks and join requests are
  accepted only when authentic and fresh; the frames sent back are complete and
  readable; the command ring refines a list; cryptography, codecs and messages
  round-trip; loops end and values stay in bounds; and several state what the
  code does where it differs from its intent (nonce gaps, addresses entered by
  hand, the server that is used).

  Loops that may not end (the search for the session that fits a rejoin or a
  forwarded frame, the next free ping slot, the search from name to name, and
  the two loops over MAC commands, whose index of 8 bits wraps at 256) are
  partial_function (option): no result is a loop that runs forever. The loops
  over MAC commands are shown to end for up to 253 octets. A key that libgcrypt cannot wrap makes
  json-c add a null value; nothing is said of that case.

  Not modelled: the command line, start-up and select loop of the servers (main
  of gateway.c, join_server/main.c and app_server/main.c), HTML pages (web.c of
  the three servers), sockets, threads and child processes. They are listed
  with their reason in the manifest.
\<close>

section \<open>Properties\<close>

text \<open>
  C1. An uplink is answered with Success only when the device has a session, its 16-bit counter is
  at most 0x4000 ahead of the stored one, and the frame ends in the AES-CMAC of block and frame
  under the session's key: all four octets on a 1.0 session; on a 1.1 session the first two, with
  the confirmed-downlink counter of the device state, the one before it, or 0.
\<close>

theorem accepted_uplink_is_authentic:
  assumes "sNS_uplink n m optneg ul d = Some r" "uo_result r = Success" "length (SNwkSIntKeyBin (session m)) = 16"
  defines "phy \<equiv> ULPayloadBin m" and "key \<equiv> SNwkSIntKeyBin (session m)" and "k \<equiv> ULPHYPayloadLen m - 4"
  defines "cnt \<equiv> fcnt32 (FCntUp (session m)) (fh_FCnt (parse_fhdr phy))" and "addr \<equiv> fh_DevAddr (parse_fhdr phy)"
  shows "until (session m) \<noteq> 0 \<and> fh_FCnt (parse_fhdr phy) - ucast (FCntUp (session m)) \<le> (0x4000 :: u16) \<and>
    (if optneg
     then \<exists>s eff. session_gate n m optneg (state_for n m (ul_RFRegion ul)) = Some (s, eff, None) \<and>
       (\<exists>conf \<in> {ConfFCntDown s, ConfFCntDown s - 1, 0}. \<exists>chan.
         take 2 (mic_octets key (uplink_block conf (ul_DataRate ul) chan addr cnt k) (take (unat k) phy)) = slice (unat k) 2 phy)
     else take 4 (mic_octets key (uplink_block 0 0 0 addr cnt k) (take (unat (ULPHYPayloadLen m) - 4) phy))
         = slice (unat (ULPHYPayloadLen m) - 4) 4 phy)"
  using assms(1)
proof (cases rule: sNS_uplink_cases)
  case (mic s eff ul1 res)
  let ?s = "s\<lparr>flags := (flags s)\<lparr>newFCntUp := True\<rparr>\<rparr>"
  have cnt: "ul_FCntUp ul1 = cnt" "ul_DataRate ul1 = ul_DataRate ul" using mic(2) by (simp_all add: cnt_def phy_def)
  have window: "fh_FCnt (parse_fhdr phy) - ucast (FCntUp (session m)) \<le> (0x4000 :: u16)"
    using mic(3) unfolding cnt(1) cnt_def replayed_window .
  obtain s2 where s2: "res = MicOk s2" using mic(5) assms(2) by (cases res) auto
  show ?thesis
  proof (cases optneg)
    case True
    then have "mic_check11 n m ?s ul1 = Some (MicOk s2)" using mic(4) s2 by simp
    from mic_check11_ok [OF this assms(3)] show ?thesis
      using gate_live [OF mic(1)] window True mic(1) by (auto simp: phy_def key_def k_def addr_def cnt)
  next
    case False
    then have "mic_check10 m ?s ul1 = Some (MicOk s2)" using mic(4) s2 by simp
    from mic_check10_ok [OF this assms(3)] show ?thesis
      using gate_live [OF mic(1)] window False by (auto simp: phy_def key_def k_def addr_def cnt split: if_splits)
  qed
qed (use assms(2) in simp_all)

theorem accepted_uplink_is_authentic_witness:
  "slice 8 4 phy0 = take 4 (mic_octets (replicate 16 0) (uplink_block 0 0 0 0x01020304 1 8) frame0) \<and>
    fh_FCnt (parse_fhdr phy0) - 0 \<le> (0x4000 :: u16)"
proof -
  have f: "fcnt32 0 1 = 1" by code_simp
  obtain r where "sNS_uplink ns0 mote0 False zero_ulmd False = Some r" "uo_result r = Success"
    using mote0_accepted by blast
  from accepted_uplink_is_authentic [OF this] show ?thesis
    by (simp add: zero_session_def phy0_fhdr phy0_front f)
qed

text \<open>
  C2. The join server answers Success only to a request it has checked: the join EUI is its own; a
  join request carries the device's DevEUI and ends in the AES-CMAC of the frame under the
  device's network key, anything else is a rejoin request of type 0 or 2; and the nonce is fresh:
  above the last one of a 1.1 device, unused by a 1.0 device, for which it is then recorded.
\<close>

theorem join_success_means_checked:
  assumes "parse_rf_join_req e inp netid = Some out" "jo_result out = Success"
  shows "\<exists>rx len eui rq k app. js_frame e inp = Some (Inr (rx, len, eui)) \<and> js_request e rx len eui = Some (Inr rq) \<and>
    eui_buf_to_uint64 (rq_JoinEUI rq) = myJoinEui64 e \<and>
    (if mtype_of (hd rx) = MTYPE_JOIN_REQ
     then eui = eui_buf_to_uint64 (slice 9 8 rx) \<and> rq_JoinEUI rq = slice 1 8 rx \<and> rq_nonce rq = le_word (slice 17 2 rx) \<and>
       (\<exists>key. has_key e eui ''NwkKey'' key \<and> join_mic key (take (unat len - 4) rx) = slice (unat len - 4) 4 rx)
     else mtype_of (hd rx) = MTYPE_REJOIN_REQ \<and> rx ! 1 \<in> {0, 2} \<and> rq_nonce rq = le_word (slice 13 2 rx)) \<and>
    get_sql_joinmote_key (js_db e) ''AppKey'' eui = Some (k, app) \<and>
    (if k = 1 then \<exists>l. last_nonce e eui rq = Some l \<and> l < ucast (rq_nonce rq)
     else check_nonce (js_db e) eui (rq_nonce rq) = 0 \<and>
       jo_statements out = [''INSERT INTO nonces (mote, nonce) VALUE ('' @ print_unsigned eui @ '', '' @ print_unsigned (rq_nonce rq) @ '')''])"
  using assms
proof (cases rule: parse_join_Success)
  case (1 rx len eui rq k app jn)
  have fresh: "if k = 1 then \<exists>l. last_nonce e eui rq = Some l \<and> l < ucast (rq_nonce rq)
     else check_nonce (js_db e) eui (rq_nonce rq) = 0 \<and>
       jo_statements out = [''INSERT INTO nonces (mote, nonce) VALUE ('' @ print_unsigned eui @ '', '' @ print_unsigned (rq_nonce rq) @ '')'']"
    using 1(5) js_nonce11_fresh(1) [of e eui rq jn] js_nonce10_fresh [of e eui rq jn] by (auto split: if_splits)
  from 1(2) show ?thesis
  proof (cases rule: js_request_cases)
    case (join key)
    have "length key = 16" using get_key_length join(3) by blast
    then show ?thesis
      using 1(1-3) fresh join js_check_ok(1) [OF join(8)] js_check_ok(2) [OF join(8) join(4)]
      by (intro exI [of _ rx] exI [of _ len] exI [of _ eui] exI [of _ rq] exI [of _ k] exI [of _ app]) (auto simp: has_key_def)
  next
    case rejoin
    then show ?thesis
      using 1(1-3) fresh js_check_ok(1) [OF rejoin(7)]
      by (intro exI [of _ rx] exI [of _ len] exI [of _ eui] exI [of _ rq] exI [of _ k] exI [of _ app]) auto
  qed
qed

theorem join_success_means_checked_witness:
  "check_nonce js_db0 5 7 = 0 \<and> join_mic key0 join_frame0 = slice 19 4 join_rx0"
proof -
  have n: "(le_word [7, 0] :: u16) = 7" "mtype_of 0 = MTYPE_JOIN_REQ" by code_simp+
  obtain out where "parse_rf_join_req js0 join_fields0 1 = Some out" "jo_result out = Success" using js0_accepts by blast
  from join_success_means_checked [OF this] show ?thesis
    by (auto simp: js0_frame js0_keys has_key_def join_rx0_parts n simp del: le_word.simps)
qed

text \<open>
  C3. On a 1.0 session that passes the session check with a counter in the window, the outcome is
  decided by the four octets at the end of the frame: equal to the AES-CMAC of block and frame,
  the result is Success; otherwise it is MICFailed, the recorded frame length is zeroed, and
  nothing is sent beyond what the session check sent.
\<close>

theorem uplink_mic_decides:
  assumes "sNS_uplink n m False ul d = Some r" "length (SNwkSIntKeyBin (session m)) = 16"
    and "session_gate n m False (state_for n m (ul_RFRegion ul)) = Some (s, eff, None)"
    and "fh_FCnt (parse_fhdr (ULPayloadBin m)) - ucast (FCntUp (session m)) \<le> (0x4000 :: u16)"
  defines "phy \<equiv> ULPayloadBin m" and "len \<equiv> ULPHYPayloadLen m"
  defines "good \<equiv> take 4 (mic_octets (SNwkSIntKeyBin (session m)) (uplink_block 0 0 0 (fh_DevAddr (parse_fhdr phy))
      (fcnt32 (FCntUp (session m)) (fh_FCnt (parse_fhdr phy))) (len - 4)) (take (unat len - 4) phy)) = slice (unat len - 4) 4 phy"
  shows "if good then uo_result r = Success
    else uo_result r = MICFailed \<and> uo_effects r = eff \<and> ULPHYPayloadLen (uo_mote r) = 0 \<and> session (uo_mote r) = session m"
  using assms(1)
proof (cases rule: sNS_uplink_cases)
  case (replay s eff)
  then show ?thesis using assms(4) replayed_window [of "FCntUp (session m)"] by auto
next
  case (mic s' eff' ul1 res)
  let ?s = "s'\<lparr>flags := (flags s')\<lparr>newFCntUp := True\<rparr>\<rparr>"
  have e: "eff' = eff" using mic(1) assms(3) by simp
  have "mic_check10 m ?s ul1 = Some res" using mic(4) by simp
  from mic_check10_ok [OF this assms(2)] mic(2)
  have res: "res = (if good then MicOk ?s else MicBad ?s)" by (simp add: good_def phy_def len_def)
  show ?thesis
    using mic(5) accept_uplink_Success unfolding res by (auto simp: e with_s_def)
qed (use assms(3) in simp)

theorem uplink_mic_decides_witness:
  "\<exists>r. sNS_uplink ns0 mote0 False zero_ulmd False = Some r \<and> uo_result r = Success"
proof -
  have g: "session_gate ns0 mote0 False (state_for ns0 mote0 (ul_RFRegion zero_ulmd)) = Some (s0, [], None)"
    by (simp add: session_gate_def state_for_def)
  have f: "fcnt32 0 1 = 1" by code_simp
  obtain r where r: "sNS_uplink ns0 mote0 False zero_ulmd False = Some r" using mote0_accepted by blast
  have "uo_result r = Success"
    using uplink_mic_decides [OF r _ g] by (simp add: phy0_fhdr phy0_front f zero_session_def frame_mic0_def)
  then show ?thesis using r by blast
qed

text \<open>
  C4. Whatever gateways, partners, the join server, the application server and the operator send,
  in any order and over any number of events, the network server's state stays well-formed: every
  buffer keeps its size, every command ring and signal history its bounds, every best requester is
  in its list, no two gateways share an EUI; and no device position, gateway or effect is lost on
  the way.
\<close>

theorem server_state_stays_well_formed:
  assumes "reaches (server_step a rl) w0 w" "world_wf w0" "regions_wf rl"
  shows "world_wf w \<and> grows w0 w"
  using server.reached [OF assms(1)] assms(2,3) by simp

theorem server_state_stays_well_formed_witness:
  "\<exists>w1 w. server_step json0 [] (ns0, FromGateway 4 (Some gw_hello)) start_world = Some w1 \<and>
     server_step json0 [] (ns0, FromGateway 5 (Some gw_hello)) w1 = Some w \<and>
     world_wf w \<and> grows start_world w \<and> map g_eui (w_gws w) = [7] \<and> map g_fd (w_gws w) = [5] \<and> w_eff w = [Close 4]"
proof -
  obtain w1 where 1: "server_step json0 [] (ns0, FromGateway 4 (Some gw_hello)) start_world = Some w1" "map g_eui (w_gws w1) = [7]" "map g_fd (w_gws w1) = [4]" "w_eff w1 = []"
    using hello_steps(1) [of start_world 4] by (auto simp: start_world_def)
  obtain w where 2: "server_step json0 [] (ns0, FromGateway 5 (Some gw_hello)) w1 = Some w" "map g_eui (w_gws w) = [7]" "map g_fd (w_gws w) = [5]" "w_eff w = [Close 4]"
    using hello_steps(2) [of w1 4 5] 1 by auto
  have "reaches (server_step json0 []) start_world w1" by (rule reaches.onward, rule reaches.here, rule 1(1))
  note to_w1 = this
  have "reaches (server_step json0 []) start_world w" by (rule reaches.onward, rule to_w1, rule 2(1))
  from server_state_stays_well_formed [OF this start_world_wf] 1 2 show ?thesis by (auto simp: regions_wf_def)
qed

text \<open>
  C5. Whatever configuration the network server reads at start-up, also one it refuses, its
  regions have callbacks that keep the state of a device: with them the server's state stays
  well-formed over any events, and so does the command ring of every device.
\<close>

theorem configured_server_stays_well_formed:
  assumes "ns_conf_json e j c = Some (k, c')" "nc_regions c = []"
    and "reaches (server_step a (nc_regions c')) w0 w" "world_wf w0"
  shows "world_wf w \<and> grows w0 w \<and> regions_ok (nc_regions c')"
proof -
  note plain = configured_regions [OF assms(1,2)]
  have "regions_wf (nc_regions c') \<and> world_wf w0" using plain_regions_wf [OF plain] assms(4) by simp
  from server.reached [OF assms(3) this] plain_regions_ok [OF plain] show ?thesis by simp
qed

theorem configured_server_stays_well_formed_witness:
  "\<exists>c'. ns_conf_json conf_env0 conf_json0 conf_start = Some (0, c') \<and> map rg_RFRegion (nc_regions c') = [Some ''AS923''] \<and>
     regions_ok (nc_regions c')"
proof -
  obtain c' where c': "ns_conf_json conf_env0 conf_json0 conf_start = Some (0, c')" "map rg_RFRegion (nc_regions c') = [Some ''AS923'']"
    using conf0_read by (elim exE conjE)
  have "nc_regions conf_start = []" by (simp add: conf_start_def)
  note r = configured_server_stays_well_formed [where a = json0, OF c'(1) this reaches.here start_world_wf]
  from c' r [THEN conjunct2, THEN conjunct2] show ?thesis by (intro exI [of _ c'] conjI)
qed

text \<open>
  C6. Whatever form is submitted to the network server, and whatever statements the database
  refuses, a COMMIT is run at most once, as the last statement, behind a BEGIN of the same form,
  and only when every statement between the two succeeded.
\<close>

theorem forms_commit_complete_changes:
  assumes "post_form n url ks f w = Some (x, w')"
  shows "\<exists>es. w_eff w' = w_eff w @ es \<and>
    (''COMMIT'' \<in> set (queries es) \<longrightarrow>
      (\<exists>a b. queries es = a @ [''BEGIN''] @ b @ [''COMMIT''] \<and> ''COMMIT'' \<notin> set (a @ b) \<and>
        (\<forall>q \<in> set b. n_db n q \<noteq> SqlError)))"
  using runsD [OF committed_form assms] unfolding committed_def .

theorem forms_commit_complete_changes_witness:
  "\<exists>x w' a b. post_form ns0 ''/updateProfilesURL'' [(''moteID'', ''7'')] (form0\<lparr>fm_moteID := 0\<rparr>) start_world = Some (x, w') \<and>
     queries (w_eff w') = a @ [''BEGIN''] @ b @ [''COMMIT'']"
proof -
  let ?w = "start_world\<lparr>w_eff := w_eff start_world @ map Query (update_script ns0 form0)\<rparr>"
  from forms_commit_complete_changes [OF form0_posted [of start_world]]
  obtain es where es: "w_eff ?w = w_eff start_world @ es"
    and c: "''COMMIT'' \<in> set (queries es) \<Longrightarrow> \<exists>a b. queries es = a @ [''BEGIN''] @ b @ [''COMMIT'']" by blast
  have "es = map Query (update_script ns0 form0)" using es by (simp add: start_world_def)
  then have q: "queries es = update_script ns0 form0" "queries (w_eff ?w) = update_script ns0 form0"
    by (simp_all add: start_world_def queries_Query)
  then have "''COMMIT'' \<in> set (queries es)" by (simp add: update_script_def)
  from c [OF this] q form0_posted [of start_world] show ?thesis by metis
qed

text \<open>
  C7. A downlink of class A or C is written to the gateway its token names and to no other, at
  most twice, with the whole frame each time, and only in the windows the device opens: at the
  delay or a second later, counted from its uplink, or at once for class C; a class A frame that
  is too late for its window is not written at all.
\<close>

theorem downlink_only_in_windows:
  assumes "fNS_downlink n md tid client (Some b) len w = Some (r, w')" "ClassMode md \<noteq> CHR ''B''"
    "dl_FNSULToken md = Some t" "token_octets (stack_octet n) t = Some os" "world_wf w"
  shows "\<exists>ps. wrote (tok_fd (parse_ULToken os)) ps w w' \<and> length ps \<le> 2 \<and>
    (\<forall>p \<in> set ps. in_window md (parse_ULToken os) (take (unat len) b) p) \<and>
    (ps \<noteq> [] \<longrightarrow> (\<exists>gw \<in> set (w_gws w). g_fd gw = tok_fd (parse_ULToken os) \<and> \<not> too_late n md gw))"
  by (rule downlink_in_windows [OF assms])

theorem downlink_only_in_windows_witness:
  "\<exists>r w' ps. fNS_downlink (ns0\<lparr>n_regions := [region0]\<rparr>) md_C 1 None (Some phy0) 12 world_gw = Some (Some r, w') \<and>
     ps \<noteq> [] \<and> wrote 0 ps world_gw w' \<and> (\<forall>p \<in> set ps. in_window md_C (parse_ULToken (replicate 21 0)) (take 12 phy0) p)"
proof -
  obtain r w' where run: "fNS_downlink (ns0\<lparr>n_regions := [region0]\<rparr>) md_C 1 None (Some phy0) 12 world_gw = Some (Some r, w')" "w_eff w' \<noteq> []"
    using downlink0_runs by blast
  have "world_wf world_gw" "w_eff world_gw = []" by (simp_all add: world_gw_def world_wf_def start_world_def)
  moreover have "token_octets (stack_octet (ns0\<lparr>n_regions := [region0]\<rparr>)) token0 = Some (replicate 21 0)"
    using token0_octets by (simp add: ns0_def)
  moreover have "dl_FNSULToken md_C = Some token0" "ClassMode md_C \<noteq> CHR ''B''" by (simp_all add: md_C_def)
  ultimately show ?thesis
    using downlink_only_in_windows [OF run(1), of token0 "replicate 21 0"] run token0_socket by (fastforce simp: wrote_def)
qed

text \<open>
  C8. put_queue_mac_cmds keeps the ring's invariant and acts on the list of waiting commands as an
  append: the command goes to the end unless it is too long, the ring would become full, or a
  command of the same code is waiting; then the list is unchanged.
\<close>

theorem put_appends_once:
  assumes "queue_inv q" "0 < length cmd" "cmd ! 0 \<noteq> 0"
  shows "queue_inv (put_queue_mac_cmds q cmd needs) \<and>
    queue_abs (put_queue_mac_cmds q cmd needs) =
      (if length cmd < 8 \<and> \<not> queue_full q \<and> \<not> cmd_waiting (queue_abs q) (cmd ! 0)
       then queue_abs q @ [(needs, cmd)] else queue_abs q)"
  using mq.put_law [OF assms] .

theorem put_appends_once_witness:
  "queue_abs (put_queue_mac_cmds empty_queue [3, 0x51, 7, 0, 0] True) = [(True, [3, 0x51, 7, 0, 0])]"
  using put_appends_once [of empty_queue "[3, 0x51, 7, 0, 0]" True] empty_queue_inv
  by (simp add: empty_queue_abs empty_not_full cmd_waiting_def)

text \<open>
  C9. The frame in a successful answer is one the device can read: enciphering its one or two
  blocks with the device's key gives the join nonce, network, address, settings, delay and channel
  list of the request, followed by the AES-CMAC of exactly these octets (behind the join type,
  join EUI and nonce on a 1.1 device), when the channel list is absent or has its 16 octets.
\<close>

theorem device_reads_join_accept:
  assumes "parse_rf_join_req e inp netid = Some out" "jo_result out = Success"
    and "length (js_uncyphered e) = 222" "length (js_txBuf e) = 256"
    and "\<forall>c. map_of inp ''CFList'' = Some c \<longrightarrow> length (js_text e c) \<in> {0, 32}"
  shows "\<exists>rx len eui rq optneg jn addr dls delay cfl ik ek tx clear.
    js_frame e inp = Some (Inr (rx, len, eui)) \<and> js_request e rx len eui = Some (Inr rq) \<and>
    js_fields e inp optneg = Some (Inr (addr, dls, delay, cfl)) \<and> accept_keys e eui rq optneg ik ek \<and>
    clear = joinAccept_octets jn netid addr dls delay @ cfl \<and>
    map_of (jo_answer out) ''PHYPayload'' = Some (JStr (hex_of_buf tx)) \<and>
    device_reads ek tx = clear @ join_mic ik (if optneg then js_mic_front rq @ clear else clear)"
  using assms(1,2)
proof (cases rule: parse_join_Success)
  case (1 rx len eui rq k app jn)
  from 1(6) assms(3-5) show ?thesis
    by (rule join_accept_read) (use 1(1,2) in blast)
qed

theorem device_reads_join_accept_witness:
  "\<exists>out tx clear. parse_rf_join_req js0 join_fields0 1 = Some out \<and> map_of (jo_answer out) ''PHYPayload'' = Some (JStr (hex_of_buf tx)) \<and>
     device_reads key0 tx = clear @ join_mic key0 clear"
proof -
  obtain out where out: "parse_rf_join_req js0 join_fields0 1 = Some out" "jo_result out = Success" using js0_accepts by blast
  have cfl: "\<forall>c. map_of join_fields0 ''CFList'' = Some c \<longrightarrow> length (js_text js0 c) \<in> {0, 32}"
    by (simp add: join_fields0_get)
  have "length (js_uncyphered js0) = 222" "length (js_txBuf js0) = 256" by (simp_all add: js0_def)
  from device_reads_join_accept [OF out this cfl] obtain rx len eui rq optneg ik ek tx clear
    where "js_frame js0 join_fields0 = Some (Inr (rx, len, eui))" and keys: "accept_keys js0 eui rq optneg ik ek"
      and tx: "map_of (jo_answer out) ''PHYPayload'' = Some (JStr (hex_of_buf tx))"
      "device_reads ek tx = clear @ join_mic ik (if optneg then js_mic_front rq @ clear else clear)"
    by blast
  moreover from this have "eui = 5" by (simp add: js0_frame)
  ultimately have keys: "accept_keys js0 5 rq optneg ik ek" by simp
  have "\<not> optneg" using keys js0_no_JSIntKey by (auto simp: accept_keys_def has_key_def)
  then have "ik = key0" "ek = key0" using keys js0_keys(1) by (auto simp: accept_keys_def has_key_def)
  then show ?thesis using out(1) tx \<open>\<not> optneg\<close> by auto
qed

text \<open>
  C10. The two signed 32-bit comparisons of the replay check accept a received 16-bit counter
  exactly when it is at most 0x4000 ahead of the low half of the stored counter, counted modulo
  2^16; a repeat of the last counter is accepted.
\<close>

theorem replay_check_is_a_window:
  "replayed stored (fcnt32 stored rx) \<longleftrightarrow> rx - ucast stored > (0x4000 :: u16)"
  using replayed_window [of stored rx] by (metis not_le)

text \<open>
  C11. Of the copies of one frame that arrive in any order from own gateways and partners, the
  frame that is kept is the one of the best signal quality, and of several equally good ones the
  first: its octets and length, with the token of its gateway for an own copy and the requester
  for a partner's. The two records of the sender are kept apart: the requester is that of the last
  partner whose copy led at its arrival, also when a better own copy came after it, and the token
  is the last one a leading copy brought.
\<close>

theorem best_copy_is_kept:
  assumes "receive_copies cs m = Some m'" "\<forall>c \<in> set cs. length (copy_frame c) \<le> 256" "length (ULPayloadBin m) = 256"
    "\<exists>c \<in> set cs. best_sq m < copy_quality c"
  shows "(\<exists>c. is_best (best_sq m) cs c \<and> kept c m') \<and>
    bestR m' = fold requester_after (leaders (best_sq m) cs) (bestR m) \<and>
    bestULTokenStr m' = fold token_after (leaders (best_sq m) cs) (bestULTokenStr m)"
  using receive_copies_choice [OF assms(1-3)] receive_copies_senders [OF assms(1)] assms(4) by simp

theorem best_copy_is_kept_witness:
  "\<exists>m' c. receive_copies [PartnerCopy 0 [1] (3, 0, None), PartnerCopy 1 [2] (9, 0, None), PartnerCopy 2 [3] (9, 0, None)] mote0 = Some m' \<and>
     is_best (best_sq mote0) [PartnerCopy 0 [1] (3, 0, None), PartnerCopy 1 [2] (9, 0, None), PartnerCopy 2 [3] (9, 0, None)] c \<and>
     kept c m' \<and> bestR m' = Some 1"
proof -
  let ?cs = "[PartnerCopy 0 [1] (3, 0, None), PartnerCopy 1 [2] (9, 0, None), PartnerCopy 2 [3] (9, 0, None)]"
  have b: "best_sq mote0 < 3" "length (ULPayloadBin mote0) = 256" by (simp_all add: mote0_def zero_mote_def)
  then obtain m' where m': "receive_copies ?cs mote0 = Some m'" "bestR m' = Some 1" by (simp add: take_copy_def)
  from best_copy_is_kept [OF m'(1)] b m' show ?thesis by auto
qed

text \<open>
  C12. The table-driven cipher with its octet-wise key schedule computes the cipher of FIPS 197 as
  the standard states it, for each of the three key lengths: the substitution is the inverse in
  GF(2^8) followed by the standard's affine map, with field multiplication, columns and rows, and
  the recursive key expansion. All 256 entries of the table in the source are so compared with the
  definition.
\<close>

theorem table_cipher_is_the_standard:
  assumes "keylen \<in> {16, 24, 32}" "length key = unat keylen" "length (ksch ctx) = 240" "length inp = 16"
  shows "aes_encrypt inp out (snd (aes_set_key key keylen ctx)) = (0, Cipher key inp)"
  by (rule aes_is_Cipher [OF assms])

theorem table_cipher_is_the_standard_witness:
  "aes_encrypt (replicate 16 0x42) [] (snd (aes_set_key key0 16 \<lparr>ksch = replicate 240 0, rnd = 0\<rparr>)) = (0, Cipher key0 (replicate 16 0x42))"
  by (rule table_cipher_is_the_standard) (simp_all add: key0_def bytes_of_def)

text \<open>
  C13. The incremental AES-CMAC over any split of a message into chunks, empty ones included, is
  the one-shot definition applied to the whole message, whatever the context memory held before
  Init.
\<close>

theorem cmac_chunks_irrelevant:
  assumes "length key = 16" "length (M_last mem) = 16"
  shows "cmac_of mem key chunks = cmac_ref (aes_block (aes_key128 key)) (concat chunks)"
  using assms by (rule cmac_of_ref)

theorem cmac_chunks_irrelevant_witness:
  "cmac_of cmac_mem (replicate 16 1) [[1, 2], [], [3]] = cmac_ref (aes_block (aes_key128 (replicate 16 1))) [1, 2, 3]"
  using cmac_chunks_irrelevant [of "replicate 16 1" cmac_mem "[[1, 2], [], [3]]"] by simp

text \<open>
  C14. The session keys a network or application server opens from a successful answer, with the
  key encryption key of its envelope, are the keys the join server derived, when the key wrap of
  the library yields 24 octets and its unwrap undoes it.
\<close>

theorem session_keys_reach_servers:
  assumes "parse_rf_join_req e inp netid = Some out" "jo_result out = Success"
    and "\<And>s. jt (JStr s) = s"
    and "\<And>kek key enc. js_wrap e kek key = Some enc \<Longrightarrow> length enc = 24 \<and> unwr kek enc = Some key"
  shows "\<exists>rx len eui rq nk ak jn optneg. js_frame e inp = Some (Inr (rx, len, eui)) \<and> js_request e rx len eui = Some (Inr rq) \<and>
    has_key e eui ''NwkKey'' nk \<and> (optneg \<longrightarrow> has_key e eui ''AppKey'' ak) \<and>
    (\<forall>(n, key, ke) \<in> set (session_keys e optneg nk ak jn rq netid).
       \<exists>env. map_of (jo_answer out) n = Some (JObj env) \<and> parse_key_envelope jt unwr env ke = Some (Inr key))"
  using assms(1,2)
proof (cases rule: parse_join_Success)
  case (1 rx len eui rq k app jn)
  obtain ak where ak: "(case app of Some a \<Rightarrow> a | None \<Rightarrow> []) = ak" "k = 1 \<longrightarrow> has_key e eui ''AppKey'' ak"
    using 1(3) get_key_one [of "js_db e" "''AppKey''" eui app] by (cases "k = 1") (auto simp: has_key_def)
  have len: "length ak = 16 \<or> \<not> k = 1" using ak(2) has_key_length by blast
  obtain nk where "has_key e eui ''NwkKey'' nk" "\<forall>(n, key, ke) \<in> set (session_keys e (k = 1) nk ak jn rq netid).
       \<exists>env. map_of (jo_answer out) n = Some (JObj env) \<and> parse_key_envelope jt unwr env ke = Some (Inr key)"
    by (rule answer_keys_unwrapped [OF 1(6) [unfolded ak(1)] assms(3,4) len])
  then show ?thesis using 1(1,2) ak(2) by blast
qed

theorem session_keys_reach_servers_witness:
  "\<exists>out env key. parse_rf_join_req js0 join_fields0 1 = Some out \<and> map_of (jo_answer out) ''AppSKey'' = Some (JObj env) \<and>
     parse_key_envelope text0 unwrap0 env (envelope_app js0) = Some (Inr key)"
proof -
  obtain out where out: "parse_rf_join_req js0 join_fields0 1 = Some out" "jo_result out = Success" using js0_accepts by blast
  have w: "js_wrap js0 kek key = Some enc \<Longrightarrow> length enc = 24 \<and> unwrap0 kek enc = Some key" for kek key enc
    by (auto simp: wrap0_def unwrap0_def split: if_splits)
  from session_keys_reach_servers [where jt = text0 and unwr = unwrap0, OF out text0_JStr w] obtain nk ak jn optneg rq where
    all: "\<forall>(n, key, ke) \<in> set (session_keys js0 optneg nk ak jn rq 1).
       \<exists>env. map_of (jo_answer out) n = Some (JObj env) \<and> parse_key_envelope text0 unwrap0 env ke = Some (Inr key)" by blast
  moreover have "\<exists>key. (''AppSKey'', key, envelope_app js0) \<in> set (session_keys js0 optneg nk ak jn rq 1)"
    by (simp add: session_keys_def Let_def)
  ultimately show ?thesis using out(1) by blast
qed

text \<open>
  C15. For each of the three key lengths aes_set_key accepts and every block, aes_decrypt undoes
  aes_encrypt and aes_encrypt undoes aes_decrypt under the schedule it computes, and both return
  0.
\<close>

theorem aes_block_cipher_inverts:
  assumes "keylen \<in> {16, 24, 32}" "length key = unat keylen" "length block = 16"
  defines "ctx \<equiv> snd (aes_set_key key keylen aes_ctx0)"
  shows "aes_decrypt (snd (aes_encrypt block o1 ctx)) o2 ctx = (0, block) \<and>
    aes_encrypt (snd (aes_decrypt block o3 ctx)) o4 ctx = (0, block)"
proof -
  have good: "good_ctx ctx" using aes_set_key_good(2) [OF assms(1,2)] by (simp add: ctx_def aes_ctx0_def)
  show ?thesis
    using aes_decrypt_encrypt [OF good assms(3)] aes_encrypt_decrypt [OF good assms(3)]
      aes_encrypt_ok [OF good] aes_decrypt_ok [OF good] by (metis prod.collapse)
qed

theorem aes_block_cipher_inverts_witness:
  "aes_decrypt (snd (aes_encrypt (replicate 16 3) [] (snd (aes_set_key (replicate 24 9) 24 aes_ctx0)))) []
     (snd (aes_set_key (replicate 24 9) 24 aes_ctx0)) = (0, replicate 16 3)"
  using aes_block_cipher_inverts [of 24 "replicate 24 9" "replicate 16 3"] by simp

text \<open>
  C16. LoRa_Encrypt on a payload of fewer than 4065 octets succeeds and keeps the length, and
  encrypting the result again with the same key, address, direction and counter returns the
  payload: the routine the server deciphers uplinks with is the one it enciphers downlinks with.
\<close>

theorem data_encryption_is_its_own_inverse:
  assumes "length key = 16" "length payload < 4065"
  shows "\<exists>c. LoRa_Encrypt 1 key payload (word_of_nat (length payload)) addr up cnt (replicate (length payload) 0) = Some c \<and>
    length c = length payload \<and>
    LoRa_Encrypt 1 key c (word_of_nat (length c)) addr up cnt (replicate (length c) 0) = Some payload"
proof -
  obtain c where c: "LoRa_Encrypt 1 key payload (word_of_nat (length payload)) addr up cnt (replicate (length payload) 0) = Some c"
    using LoRa_Encrypt_keystream [OF assms(1), of "replicate (length payload) 0" payload] assms(2) by simp
  moreover have "length c = length payload"
    using LoRa_Encrypt_length [OF assms c] .
  ultimately show ?thesis using LoRa_Encrypt_involution [OF assms c] by blast
qed

theorem data_encryption_is_its_own_inverse_witness:
  "\<exists>c. LoRa_Encrypt 1 (replicate 16 7) [1, 2, 3] (word_of_nat 3) 5 True 9 (replicate 3 0) = Some c \<and> length c = 3 \<and>
    LoRa_Encrypt 1 (replicate 16 7) c (word_of_nat (length c)) 5 True 9 (replicate (length c) 0) = Some [1, 2, 3]"
  using data_encryption_is_its_own_inverse [of "replicate 16 7" "[1, 2, 3]" 5 True 9]
  by (simp add: numeral_3_eq_3)

text \<open>
  C17. The application server stores what the device sent: a payload of at most 255 octets that
  the device enciphered with its session key, address and counter reaches save_frame in clear, and
  when that reports Success the first statement it has sent is an INSERT into frames whose column
  FRMPayload holds exactly the hexadecimal digits of these octets (no such column when there are
  none), with the port, the counter and the confirmation of the uplink, under the ID the database
  gave for the device of the uplink, each value under its column.
\<close>

theorem application_stores_what_device_sent:
  assumes "LoRa_Encrypt 1 key data (word_of_nat (length data)) (ul_DevAddr ul) True (ul_FCntUp ul) (replicate (length data) 0) = Some c"
    and "length key = 16" "length data < 256" "length (left_octets n) = 256"
  shows "app_uplink n (hex_of_buf c) ul key w = save_frame n ul data w \<and>
    (\<forall>w'. save_frame n ul data w = Some (Success, w') \<longrightarrow>
      (\<exists>ident row rows fs es. as_db n (''SELECT ID FROM activemotes WHERE '' @ where_device (ul_DevEUI ul) (ul_DevAddr ul)) = SqlRows (row # rows) \<and>
        Option.bind (cell row 0) sscanf_dec = Some ident \<and>
        as_eff w' = as_eff w @
          Statement (''INSERT INTO frames ('' @ sep_by '', '' (map fst fs) @ '') VALUES ('' @ sep_by '', '' (map snd fs) @ '')'') # es \<and>
        distinct (map fst fs) \<and> map_of fs ''ID'' = Some (print_unsigned (ident :: u64)) \<and>
        map_of fs ''FRMPayload'' = (if data = [] then None else Some (''0x'' @ hex_of_buf data)) \<and>
        map_of fs ''FPort'' = Some (print_unsigned (word_of_int (ul_FPort ul) :: u32)) \<and>
        map_of fs ''FCntUp'' = Some (print_unsigned (ul_FCntUp ul)) \<and>
        map_of fs ''Confirmed'' = Some (if ul_Confirmed ul then ''1'' else ''0'')))"
proof -
  have "c = enciphered key (ul_DevAddr ul) True (ul_FCntUp ul) data"
    using enciphered_by_code [of key data] assms(1-3) by simp
  then have "app_uplink n (hex_of_buf c) ul key w = save_frame n ul data w" using app_uplink_reads [OF assms(2-4)] by simp
  moreover note save_frame_stores [of n ul data w, unfolded insert_into_def holds_frame_def append.append_Cons append.append_Nil append.assoc]
  ultimately show ?thesis unfolding append.append_Cons append.append_Nil append.assoc by blast
qed

theorem application_stores_what_device_sent_witness:
  "\<exists>c w' fs es. app_uplink app0 (hex_of_buf c) app_ul key0 app_start = Some (Success, w') \<and>
     as_eff w' = Statement (''INSERT INTO frames ('' @ sep_by '', '' (map fst fs) @ '') VALUES ('' @ sep_by '', '' (map snd fs) @ '')'') # es \<and>
     map_of fs ''FRMPayload'' = Some ''0x010203''"
proof -
  obtain c where c: "LoRa_Encrypt 1 key0 [1, 2, 3] (word_of_nat (length [1, 2, 3 :: u8])) (ul_DevAddr app_ul) True (ul_FCntUp app_ul)
      (replicate (length [1, 2, 3 :: u8]) 0) = Some c"
    using enciphered_by_code [of key0 "[1, 2, 3]"] by (simp add: key0_def bytes_of_def)
  obtain w' where w': "save_frame app0 app_ul [1, 2, 3] app_start = Some (Success, w')" using app0_saves by blast
  have "length key0 = 16" "length [1, 2, 3 :: u8] < 256" "length (left_octets app0) = 256" by (simp_all add: key0_def bytes_of_def)
  note stored = application_stores_what_device_sent [OF c this, of app_start]
  have "hex_of_buf [1, 2, 3] = ''010203''" by code_simp
  moreover have "as_eff app_start = []" by (simp add: app_start_def)
  ultimately show ?thesis using stored w' by force
qed

text \<open>
  C18. The octets an operator types as hex digits reach the device of the form: when the form is
  sent with result 0, the first effect is one request, to the network of the device's address. The
  device is the one whose EUI the form gives, with the address of its row, or the one whose
  address it gives. The metadata name this device, the port of the form and the counter of its
  row, and the payload deciphers, with the key and the counter of this row and this address, for
  the direction down, to exactly these octets.
\<close>

theorem operator_downlink_reaches_device:
  assumes "post_iterator ''payHex'' (hex_of_buf b) ai = Some ai'" "form_wf ai" "ai_payloadLen ai = 0" "b \<noteq> []"
    and "length (left_octets n) = 256" "sendDownlink n ai' w = Some (0, t, w')"
  shows "\<exists>eui addr fport key cnt c net i a j md es.
    form_names n ai' eui addr \<and> sscanf_dec (ai_fport ai') = Some (fport :: u32) \<and>
    downlink_key n (''SELECT AppSKey, AFCntDown FROM activemotes WHERE '' @ row_of eui addr) = Some (Inr (key, cnt)) \<and>
    parseDevAddr addr = Some (net, i, a) \<and>
    as_eff w' = as_eff w @ Post (zero_pad 6 (print_hex net) @ ''.'' @ as_netIdDomain n) (JObj j) # es \<and>
    map_of j ''FRMPayload'' = Some (JStr (hex_of_buf c)) \<and> map_of j ''DLMetaData'' = Some (JObj md) \<and>
    names_downlink eui addr (ucast fport) cnt (ai_conf ai') md \<and>
    LoRa_Encrypt 1 key c (word_of_nat (length c)) addr False cnt (replicate (length c) 0) = Some b"
proof -
  obtain rest where "ai_payload ai' = b @ rest" using form_payload(1) [OF assms(1-4)] by blast
  from sendDownlink_posts [OF assms(6) this form_payload(2) [OF assms(1-4)] assms(4,5)] show ?thesis
    unfolding carries_downlink_def by blast
qed

theorem operator_downlink_reaches_device_witness:
  "\<exists>eui addr cnt md key c. form_names app0 app_form eui addr \<and> names_downlink eui addr 2 cnt False md \<and>
     LoRa_Encrypt 1 key c (word_of_nat (length c)) addr False cnt (replicate (length c) 0) = Some [1, 2, 3]"
proof -
  let ?form = "app_form\<lparr>ai_payload := [1, 2, 3] @ replicate 241 0, ai_payloadLen := 3\<rparr>"
  obtain t w' where w': "sendDownlink app0 ?form app_start = Some (0, t, w')" using app0_form_sent by blast
  have "form_wf app_form" "ai_payloadLen app_form = 0" "[1, 2, 3 :: u8] \<noteq> []" "length (left_octets app0) = 256"
    by (simp_all add: form_wf_def app_form_def)
  from operator_downlink_reaches_device [OF app_form_filled this w'] obtain eui addr fport key cnt c md where
    sent: "form_names app0 ?form eui addr" "sscanf_dec (ai_fport ?form) = Some (fport :: u32)"
      "names_downlink eui addr (ucast fport) cnt (ai_conf ?form) md"
      "LoRa_Encrypt 1 key c (word_of_nat (length c)) addr False cnt (replicate (length c) 0) = Some [1, 2, 3]"
    by (elim exE conjE)
  have "fport = 2" "ai_conf ?form = False" using sent(2) scan_form(2) by (simp_all add: app_form_def)
  moreover have d: "DevEUIstr ?form = DevEUIstr app_form" "DevAddrStr ?form = DevAddrStr app_form" by simp_all
  have "form_names app0 app_form eui addr" using sent(1) unfolding form_names_def d .
  with calculation have "form_names app0 app_form eui addr \<and> names_downlink eui addr 2 cnt False md \<and>
     LoRa_Encrypt 1 key c (word_of_nat (length c)) addr False cnt (replicate (length c) 0) = Some [1, 2, 3]"
    using sent(3,4) by simp
  then show ?thesis by (intro exI)
qed

text \<open>
  C19. An unconfirmed frame that went out uses up the downlink counter of its session exactly
  once: in memory, and by one statement, which adds 1 to the counter of the newest session of the
  address and is the only statement of the whole handler; it is not counted again. A frame that
  was not sent, one that waits for its acknowledgement, and one with the application's counter
  leave the session as it was and send no statement at all. What the application is answered does
  not matter.
\<close>

theorem sent_frame_uses_counter_once:
  assumes "sNSDownlinkSent n i res httpd w = Some (j, w')" "mote_at w i m s"
  shows "\<exists>m' s'. mote_at w' i m' s' \<and> m_devAddr m' = m_devAddr m \<and>
    (if uses_counter res s
     then session m' = (session m)\<lparr>NFCntDown := NFCntDown (session m) + 1\<rparr> \<and> \<not> incrNFCntDown (flags s') \<and>
       (\<exists>es. w_eff w' = w_eff w @ Statement (''UPDATE sessions SET NFCntDown = NFCntDown + 1 WHERE DevAddr = '' @ print_unsigned (m_devAddr m) @
          '' ORDER BY createdAt DESC LIMIT 1'') # es \<and> statements es = [])
     else session m' = session m \<and> incrNFCntDown (flags s') = incrNFCntDown (flags s) \<and>
       (\<exists>es. w_eff w' = w_eff w @ es \<and> statements es = []))"
  using sent_frame_counts [OF assms] unfolding incr_sql_NFCntDown_def snd_conv .

theorem sent_frame_uses_counter_once_witness:
  "\<exists>j w' m'. sNSDownlinkSent ns0 0 Success False world_sent = Some (j, w') \<and> w_motes w' = [Some m'] \<and> NFCntDown (session m') = 1"
proof -
  obtain j w' where run: "sNSDownlinkSent ns0 0 Success False world_sent = Some (j, w')" "length (w_motes w') = 1"
    using sent0_runs by blast
  from sent_frame_uses_counter_once [OF run(1) sent0_at]
  obtain m' s' where "mote_at w' 0 m' s'" "NFCntDown (session m') = 1" using sent0_uses by auto
  then show ?thesis using run by (cases "w_motes w'") (auto simp: mote_at_def)
qed



text \<open>
  C21. On a 1.0 session get_queued_mac_cmds sends the longest prefix of the waiting commands that
  fits the 15 octets of the frame options: its bytes follow the frame header, their count is the
  FCtrl octet, the commands without an answer leave the queue and the others stay for a retry.
\<close>

theorem get_sends_prefix:
  assumes "queue_inv q" "get_queued_mac_cmds q phy addr key cnt False = Some (q', phy', ret)"
  defines "k \<equiv> fit 15 (queue_abs q)"
  defines "fopts \<equiv> concat (map snd (take k (queue_abs q)))"
  shows "queue_inv q' \<and> queue_abs q' = filter fst (take k (queue_abs q)) @ drop k (queue_abs q) \<and>
    length fopts \<le> 15 \<and>
    phy' = (if fopts = [] then phy[5 := 0] else memcpy_at (phy[5 := word_of_nat (length fopts)]) 8 fopts (length fopts))"
  unfolding fopts_def k_def using get_refines [OF assms(1,2)] by blast

theorem get_sends_prefix_witness:
  "\<exists>q' phy' ret. get_queued_mac_cmds link_adr_queue (replicate 256 0) 1 [] 4 False = Some (q', phy', ret) \<and>
     queue_abs q' = [(True, [3, 0x51, 7, 0, 0])]"
proof -
  obtain q' phy' ret where g: "get_queued_mac_cmds link_adr_queue (replicate 256 0) 1 [] 4 False = Some (q', phy', ret)"
    using get_none_without_OptNeg by (metis not_None_eq prod_cases3)
  then show ?thesis using get_sends_prefix [OF link_adr_queue(1) g] link_adr_queue by simp
qed

text \<open>
  C22. The metadata of an uplink reaches the next server: what is parsed from the generated object
  is the record itself, less what only the forwarding server tells (region, tokens) or only the
  serving server tells (port, counters); with the gateways when they are sent, and without them
  otherwise.
\<close>

theorem uplink_metadata_comes_back:
  assumes "json_laws a" "ul_ok md" "generateULMetaData md from_role gws = Some (Some j)"
  shows "ParseULMetaData a j old = Some (0, ul_seen from_role gws old md)"
  by (rule ul_roundtrip [OF assms])

theorem uplink_metadata_comes_back_witness:
  "\<exists>j. generateULMetaData ul0 fNS True = Some (Some j) \<and> ParseULMetaData json0 j zero_ulmd = Some (0, ul0)"
proof -
  obtain j where j: "generateULMetaData ul0 fNS True = Some (Some j)" using ul0_generates by blast
  have "ul_seen fNS True zero_ulmd ul0 = ul0" by (simp add: ul_seen_def gw_seen_def ul0_def gw0_def zero_ulmd_def)
  then show ?thesis using j uplink_metadata_comes_back [OF json0_laws ul0_ok j, of zero_ulmd] by simp
qed

text \<open>
  C23. A message one server writes is read by the server it is addressed to with its type, its
  sender and its transaction number, and without complaint, whatever else the message holds, when
  the sender's name fits its 64-octet buffer and json-c returns the values that were put in. Of
  the transaction number the low 32 bits are written, and they come back when they are below 2^31;
  from a larger one 2^32 is subtracted, since the parser reads a signed int. The result comes back
  too, except InvalidProtocolVersion and UnknownReceiverID, which the parser does not know and
  reads as none.
\<close>

theorem message_header_comes_back:
  assumes "json_laws a" "same_id myID dest = Some True" "length src < 64" "m \<noteq> OtherMessage"
  shows "lib_parse_json a (lib_generate_json jobj dest src tid (Some (message_text m)) (map_option result_text res)) myID =
    Some \<lparr>pj_result = Success, pj_ans = answer_of m, pj_pmt = Some m, pj_sender = Some src,
      pj_tid = Some (if take_bit 32 tid < 0x80000000 then take_bit 32 tid else take_bit 32 tid - 0x100000000),
      pj_received = (case res of Some r \<Rightarrow> if r = InvalidProtocolVersion \<or> r = UnknownReceiverID then None else Some r
        | None \<Rightarrow> (case map_of jobj ''Result'' of None \<Rightarrow> None | Some j \<Rightarrow> received_result (ja_text a j)))\<rparr>"
  using header_roundtrip [OF assms] received_result_text by (simp add: parsed_tid split: option.split)

theorem message_header_comes_back_witness:
  "map_option pj_received (lib_parse_json json0 (lib_generate_json [] ''1'' ''000002'' 7 (Some ''HRStartAns'') (Some ''Success'')) ''1'') = Some (Some Success)"
  using message_header_comes_back [OF json0_laws same_id_one, of "''000002''" HRStartAns "[]" 7 "Some Success"] by simp

text \<open>
  C24. Every message keeps the list of requests in order: a request that still waits holds a
  payload of the length it names, and a payload that was freed belongs to a node that is free to
  be used again. So tlistAdd never copies, and send_downlink never enciphers, freed octets of a
  request that waits.
\<close>

theorem requests_keep_their_payload:
  assumes "as_ParseJson a n j w = Some (ans, w')" "as_wf w"
  shows "as_wf w'"
  by (rule as_ParseJson_wf [OF assms])

theorem requests_keep_their_payload_witness:
  "\<exists>ans w'. as_ParseJson json0 app0 app_answer app_waiting = Some (ans, w') \<and> msg_payload (sent_msg (tlist w' ! 0)) = Freed \<and> as_wf w'"
proof -
  obtain ans w' where r: "as_ParseJson json0 app0 app_answer app_waiting = Some (ans, w')" "msg_payload (sent_msg (tlist w' ! 0)) = Freed"
    using app_answered by blast
  have "as_wf app_waiting" by (simp add: as_wf_def app_waiting_def msg_ok_def app_msg_def)
  with r requests_keep_their_payload [OF r(1)] show ?thesis by blast
qed

text \<open>
  C25. When the form that changes the profiles of a device is accepted, every field the operator
  has to fill in was filled in or given its default, and the statements run are, in this order and
  each with success: BEGIN; an UPDATE of the device profile of this device with every value of the
  form in its column; only if that changed no row, an UPDATE of the timestamp that has no WHERE
  and so touches the device profiles of all devices; an UPDATE of the service profile of this
  device with every value of the form, one of the AS-ID in its routing profile, and COMMIT. The
  page of the devices is shown next.
\<close>

theorem accepted_profiles_are_stored:
  assumes "post_submitted n ''/updateProfilesURL'' f w = Some ((f', []), w')"
  shows "\<exists>dp dcols scols q es. checkProfiles (fm_device f) = (dp, []) \<and> filled dp \<and> device_values dp dcols \<and> service_values (fm_service f) scols \<and>
    w_eff w' = w_eff w @ es \<and>
    q = ''UPDATE DeviceProfiles SET '' @ sep_by '', '' (map (\<lambda>(c, v). c @ '' = '' @ v) dcols) @ '' WHERE DeviceProfileID = '' @ print_unsigned (fm_moteID f) \<and>
    queries es = [''BEGIN'', q] @ (if n_affected n q = 0 then [''UPDATE DeviceProfiles SET timestamp = CURRENT_TIMESTAMP()''] else []) @
      [''UPDATE ServiceProfiles SET '' @ sep_by '', '' (map (\<lambda>(c, v). c @ '' = '' @ v) scols) @ '' WHERE ServiceProfileID = '' @ print_unsigned (fm_moteID f),
       ''UPDATE RoutingProfiles SET AS_ID = '' @ quote (fm_AS_ID f) @ '' WHERE RoutingProfileID = '' @ print_unsigned (fm_moteID f), ''COMMIT''] \<and>
    (\<forall>q \<in> set (queries es). n_db n q \<noteq> SqlError) \<and> fm_redir_url f' = ''/motes''"
proof -
  obtain dp es where s: "checkProfiles (fm_device f) = (dp, [])" "w_eff w' = w_eff w @ es" "queries es = update_script n (f\<lparr>fm_device := dp\<rparr>)"
    "\<forall>q \<in> set (queries es). n_db n q \<noteq> SqlError" "fm_redir_url f' = ''/motes''"
    by (rule profiles_stored [OF assms])
  let ?q = "set_where ''DeviceProfiles'' (device_columns dp) ''DeviceProfileID'' (fm_moteID f)"
  have q: "?q = ''UPDATE DeviceProfiles SET '' @ sep_by '', '' (map (\<lambda>(c, v). c @ '' = '' @ v) (device_columns dp)) @ '' WHERE DeviceProfileID = '' @ print_unsigned (fm_moteID f)"
    by (simp add: set_where_def)
  have qs: "queries es = [''BEGIN'', ?q] @ (if n_affected n ?q = 0 then [''UPDATE DeviceProfiles SET timestamp = CURRENT_TIMESTAMP()''] else []) @
      [''UPDATE ServiceProfiles SET '' @ sep_by '', '' (map (\<lambda>(c, v). c @ '' = '' @ v) (service_columns (fm_service f))) @ '' WHERE ServiceProfileID = '' @ print_unsigned (fm_moteID f),
       ''UPDATE RoutingProfiles SET AS_ID = '' @ quote (fm_AS_ID f) @ '' WHERE RoutingProfileID = '' @ print_unsigned (fm_moteID f), ''COMMIT'']"
    unfolding s(3) update_script_where by (simp add: set_where_def)
  show ?thesis
    by (intro exI [of _ dp] exI [of _ "device_columns dp"] exI [of _ "service_columns (fm_service f)"] exI [of _ ?q] exI [of _ es] conjI)
      (rule s(1) checked_filled [OF s(1)] columns_hold_values s(2) q qs s(4) s(5))+
qed

theorem accepted_profiles_are_stored_witness:
  "\<exists>dp dcols. checkProfiles (fm_device form0) = (dp, []) \<and> filled dp \<and> device_values dp dcols"
  using accepted_profiles_are_stored [OF form0_submitted [of start_world]] by blast

text \<open>
  C26. The address of a device the operator adds by hand: with the block of any of the eight NetID
  types, a number that fits the block gives an address of this network with that number. The form
  also accepts the two numbers behind the last one: in a network with an even number they give
  addresses 0 and 1 of the next network, which is another one; in a network with an odd number the
  carry is lost and they give addresses 0 and 1 of this network itself.
\<close>

theorem typed_address_joins_the_block:
  assumes "t < 8" "take_bit (id_bits t) ID = ID" "fNS_init True (net_id t ID) g = (0, devAddrBase n, nwkAddrBits n)"
    and "NwkAddrStr_to_devAddrStr n f = (f', 0, msg)"
  shows "\<exists>a addr. sscanf_hex (fm_NwkAddr f) = Some a \<and> sscanf_dec (fm_devAddr f') = Some (addr :: u32) \<and>
    a \<le> 2 ^ addr_bits t + 1 \<and>
    parseDevAddr addr =
      (if a < 2 ^ addr_bits t then Some (net_id t ID, ID, a)
       else if bit ID 0 then Some (net_id t ID, ID, a - 2 ^ addr_bits t)
       else Some (net_id t (ID + 1), ID + 1, a - 2 ^ addr_bits t))"
proof -
  obtain a where a: "sscanf_hex (fm_NwkAddr f) = Some a" "a \<le> push_bit (nwkAddrBits n) 1 + 1" "fm_devAddr f' = print_unsigned (devAddrBase n OR a)"
    by (rule accepted_address [OF assms(4)])
  have b: "devAddrBase n = block_addr t ID 0" "nwkAddrBits n = addr_bits t"
    using fNS_init_block [OF assms(1,2), of g] assms(3) by simp_all
  have le: "a \<le> 2 ^ addr_bits t + 1" using a(2) by (simp add: b push_bit_eq_mult)
  have "sscanf_dec (fm_devAddr f') = Some (devAddrBase n OR a)" using a(3) by (simp add: sscanf_print_unsigned)
  moreover have "parseDevAddr (devAddrBase n OR a) =
      (if a < 2 ^ addr_bits t then Some (net_id t ID, ID, a)
       else if bit ID 0 then Some (net_id t ID, ID, a - 2 ^ addr_bits t)
       else Some (net_id t (ID + 1), ID + 1, a - 2 ^ addr_bits t))"
    using typed_address [OF assms(1,2), of a] a(2) unfolding b odd_network by (simp split: if_split)
  ultimately show ?thesis using a(1) le by blast
qed

theorem typed_address_joins_the_block_witness:
  "\<exists>f' a addr. NwkAddrStr_to_devAddrStr ns0 form_abp = (f', 0, []) \<and> sscanf_dec (fm_devAddr f') = Some (addr :: u32) \<and>
     parseDevAddr addr = (if a < 2 ^ addr_bits 1 then Some (net_id 1 0, 0, a) else Some (net_id 1 1, 1, a - 2 ^ addr_bits 1))"
proof -
  obtain f' where f': "NwkAddrStr_to_devAddrStr ns0 form_abp = (f', 0, [])" using form_abp_address by blast
  have "fNS_init True (net_id 1 0) (0, 0) = (0, devAddrBase ns0, nwkAddrBits ns0)"
    using fNS_init_block [of 1 0 "(0, 0)"] by (simp add: block_addr_def addr_bits_def ns0_def)
  from typed_address_joins_the_block [OF _ _ this f'] f' show ?thesis by fastforce
qed

text \<open>
  C27. A device the operator enters at the join server is stored with the keys that were typed: a
  form whose keys fit their arrays and pass the check, with an application key of hexadecimal
  digits or none, runs one statement, a REPLACE into joinmotes under the EUI of the form, whose
  column NwkKey has octets with exactly the digits of the network key and, when an application key
  was typed, whose column AppKey has octets with exactly its digits, followed by the two join keys
  derived from the network key (JSIntKey with code 6, JSEncKey with code 5).
\<close>

theorem entered_device_is_stored_as_typed:
  assumes "jf_op f = OP_ADD" "check_keys f = []" "length (jf_NwkKey f) < 33"
    and "jf_AppKey f = [] \<or> length (jf_AppKey f) < 33 \<and> (\<forall>c \<in> set (jf_AppKey f). is_hex c)"
  shows "\<exists>t q nwk app. otaMotesSubmitted e f = Some (t, [q]) \<and> same_digits (jf_NwkKey f) nwk \<and>
    (if jf_AppKey f = []
     then q = ''REPLACE INTO joinmotes (Lifetime, eui, NwkKey) VALUES (3600, '' @ print_unsigned (jf_DevEUI f) @ '', 0x'' @ hex_of_buf nwk @ '')''
     else same_digits (jf_AppKey f) app \<and>
       q = ''REPLACE INTO joinmotes (Lifetime, eui, NwkKey, AppKey, JSIntKey, JSEncKey) VALUES (3600, '' @ print_unsigned (jf_DevEUI f) @
         '', 0x'' @ hex_of_buf nwk @ '', 0x'' @ hex_of_buf app @ '', 0x'' @ hex_of_buf (GenerateJoinKey 6 nwk (le_bytes 8 (jf_DevEUI f))) @
         '', 0x'' @ hex_of_buf (GenerateJoinKey 5 nwk (le_bytes 8 (jf_DevEUI f))) @ '')'')"
proof -
  note c = checked_NwkKey [OF assms(2)]
  obtain nwk where nwk: "hex_pairs 16 (jf_NwkKey f) = Some nwk" "same_digits (jf_NwkKey f) nwk"
    by (rule entered_key [OF c(1) assms(3) c(2)])
  show ?thesis
  proof (cases "jf_AppKey f = []")
    case True
    with nwk assms(1,2) show ?thesis
      by (intro exI [where x = nwk] exI conjI)
        (simp_all add: otaMotesSubmitted_add mote_ota_add_def js_statement_def row_texts)
  next
    case False
    have l: "32 \<le> length (jf_AppKey f)" "length (jf_AppKey f) < 33" "\<forall>i < 32. is_hex (jf_AppKey f ! i)"
      using False c(3) assms(4) by (auto simp: all_set_conv_all_nth)
    obtain k where k: "hex_pairs 16 (jf_AppKey f) = Some k" "same_digits (jf_AppKey f) k" by (rule entered_key [OF l])
    show ?thesis
      by (intro exI [where x = k] exI [where x = nwk] exI conjI)
        (use False nwk k assms(1,2) in \<open>simp_all add: otaMotesSubmitted_add mote_ota_add_def js_statement_def row_texts\<close>)
  qed
qed

theorem entered_device_is_stored_as_typed_witness:
  "\<exists>t nwk. otaMotesSubmitted js0 js_form0 =
     Some (t, [''REPLACE INTO joinmotes (Lifetime, eui, NwkKey) VALUES (3600, '' @ print_unsigned (1 :: u64) @ '', 0x'' @ hex_of_buf nwk @ '')'']) \<and>
     same_digits ''2b7e151628AED2A6abf7158809cf4f3c'' nwk"
proof -
  have f: "jf_op js_form0 = OP_ADD" "jf_AppKey js_form0 = []" "jf_DevEUI js_form0 = 1" "jf_NwkKey js_form0 = ''2b7e151628AED2A6abf7158809cf4f3c''"
    by (simp_all add: js_form0_def)
  have "length (jf_NwkKey js_form0) < 33" using js_form0_passes(2) by simp
  from entered_device_is_stored_as_typed [OF f(1) js_form0_passes(1) this disjI1 [OF f(2)], of js0] f(2-4) show ?thesis by metis
qed

text \<open>
  C28. Whatever frame arrives, sNS_uplink leaves the device with a command ring in its invariant,
  when it found it so and the regional callbacks keep it.
\<close>

theorem uplink_keeps_command_ring:
  assumes "queue_inv (macq (state_for n m (ul_RFRegion ul)))" "regions_ok (n_regions n)"
    and "sNS_uplink n m optneg ul d = Some r"
  shows "\<exists>s'. m_s (uo_mote r) = Some s' \<and> queue_inv (macq s')"
  using sNS_uplink_inv [OF assms] .

theorem uplink_keeps_command_ring_witness:
  "\<exists>r s'. sNS_uplink ns0 mote0 False zero_ulmd False = Some r \<and> m_s (uo_mote r) = Some s' \<and> queue_inv (macq s')"
proof -
  obtain r where r: "sNS_uplink ns0 mote0 False zero_ulmd False = Some r" using mote0_accepted by blast
  have "\<exists>s'. m_s (uo_mote r) = Some s' \<and> queue_inv (macq s')"
    by (rule uplink_keeps_command_ring [OF _ _ r])
      (simp_all add: state_for_def empty_queue_inv regions_ok_def callbacks_ok_def ns0_def)
  then show ?thesis using r by blast
qed

text \<open>
  C29. getMote keeps the list of devices free of two nodes with the same DevEUI, returns a node
  with the DevEUI and address asked for, and leaves the other nodes alone, when the database has
  no device with identifier 0.
\<close>

theorem device_lookup_keeps_list:
  assumes "getMote db motes e a = (motes', i)" "euis_distinct motes" "no_mote_zero db"
  shows "euis_distinct motes' \<and> (\<forall>j < length motes. j \<noteq> i \<longrightarrow> motes' ! j = motes ! j) \<and>
    (\<exists>m. known motes' i m \<and> (resolve_eui db e a \<noteq> NONE_DEVEUI \<longrightarrow> m_devEui m = resolve_eui db e a) \<and>
      (a \<noteq> NONE_DEVADDR \<longrightarrow> m_devAddr m = a))"
  using getMote_distinct [OF assms] getMote_others [OF assms(1)] getMote_result [OF assms(1,3)] by blast

theorem device_lookup_keeps_list_witness:
  "\<exists>motes' i. getMote (\<lambda>_. SqlRows []) [] 7 NONE_DEVADDR = (motes', i) \<and> euis_distinct motes'"
proof -
  obtain motes' i where g: "getMote (\<lambda>_. SqlRows []) [] 7 NONE_DEVADDR = (motes', i)" by fastforce
  have "euis_distinct motes'"
    using device_lookup_keeps_list [OF g] by (simp add: euis_distinct_def known_def no_mote_zero_def db_DevEUI_def)
  then show ?thesis using g by blast
qed

text \<open>
  C30. A transaction number below 2^31 brings the answer back: the request that carries the number
  next_tid has just given to a device is read by the other server with this number, its answer
  with the number it read is read by this server with it, and is dispatched to that device and to
  the callback registered with it, when no device earlier in the list and no slot of this one
  holds the number. A number from 2^31 on is read as a negative int and finds no device.
\<close>

theorem answer_finds_its_request:
  assumes "next_tid rand c m cb = (c', m', tid)" "tid < 0x80000000" "length (t_slots m) = NT" "\<forall>t \<in> set (t_slots m). sentTID t \<noteq> tid"
    and "\<forall>j < i. \<forall>b. motes ! j = Some b \<longrightarrow> (\<forall>t \<in> set (t_slots b). sentTID t \<noteq> tid)" "i < length motes" "motes ! i = Some m'"
    and "json_laws a" "json_laws b" "same_id theirID them = Some True" "same_id ourID us = Some True" "length us < 64" "length them < 64"
    and "req \<noteq> OtherMessage" "ans \<noteq> OtherMessage"
    and "lib_parse_json b (lib_generate_json jreq them us (ucast tid) (Some (message_text req)) None) theirID = Some q"
    and "lib_parse_json a (lib_generate_json jans us them (store (pj_tid q) 0) (Some (message_text ans)) (Some (result_text res))) ourID = Some p"
  shows "\<exists>n motes'. pj_tid p = Some n \<and> take_answer motes n = Some (i, Some cb, motes')"
proof -
  have c: "(word_of_int (c_int (ucast tid :: u64)) :: u64) = ucast tid"
    using tid_comes_back [of tid] assms(2) by (simp add: c_int_def ucast_up_ucast_id is_up)
  have q: "pj_tid q = Some (ucast tid)"
    using header_roundtrip [OF assms(9,10,12,14), of jreq "ucast tid" None] assms(16) c by auto
  have "pj_tid p = Some (ucast tid)"
    using header_roundtrip [OF assms(8,11,13,15), of jans "ucast tid" "Some (result_text res)"] assms(17) c by (auto simp: q)
  then show ?thesis using answer_reaches_request [OF assms(1,3-7)] by blast
qed

theorem answer_finds_its_request_witness:
  "\<exists>m' p n motes'. next_tid 0 (Some 41) zero_mote ProfileAnsCallback = (Some 42, m', 42) \<and>
     lib_parse_json json0 (lib_generate_json [] ''1'' ''1'' 42 (Some (message_text ProfileAns)) (Some (result_text Success))) ''1'' = Some p \<and>
     pj_tid p = Some n \<and> take_answer [Some zero_mote, Some m'] n = Some (1, Some ProfileAnsCallback, motes')"
proof -
  obtain m' where m': "next_tid 0 (Some 41) zero_mote ProfileAnsCallback = (Some 42, m', 42)"
    by (simp add: next_tid_def Let_def)
  obtain q where q: "lib_parse_json json0 (lib_generate_json [] ''1'' ''1'' (ucast (42 :: u32)) (Some (message_text ProfileReq)) None) ''1'' = Some q" "pj_tid q = Some 42"
    using header_roundtrip [OF json0_laws same_id_one, of "''1''" ProfileReq "[]" "42" None] by (simp add: c_int_def)
  obtain p where p: "lib_parse_json json0 (lib_generate_json [] ''1'' ''1'' (store (pj_tid q) 0) (Some (message_text ProfileAns)) (Some (result_text Success))) ''1'' = Some p"
    using header_roundtrip [OF json0_laws same_id_one, of "''1''" ProfileAns "[]" "store (pj_tid q) 0" "Some (result_text Success)"] by simp
  have "\<exists>n motes'. pj_tid p = Some n \<and> take_answer [Some zero_mote, Some m'] n = Some (1, Some ProfileAnsCallback, motes')"
    by (rule answer_finds_its_request [OF m' _ _ _ _ _ _ json0_laws json0_laws same_id_one same_id_one _ _ _ _ q(1) p])
      (auto simp: zero_mote_def NT_def less_Suc_eq)
  then show ?thesis using m' p q(2) by auto
qed

text \<open>
  C31. The join server names a home network only to a network that is listed for the device that
  is asked for: the network it names and the identifier whose roaming table it looks in are those
  of the row of the DevEUI in the request. To any other asking network the answer has no such
  member.
\<close>

theorem home_network_only_for_partners:
  assumes "getHomeNS e inp sender = Some (r, ans)" "ans \<noteq> []"
  shows "r = Success \<and> (\<exists>j eui home rest h i netid mid asking rows row t.
    map_of inp ''DevEUI'' = Some j \<and> sscanf_hex (js_text e j) = Some (eui :: u64) \<and>
    js_db e (''SELECT homeNetID, ID FROM joinmotes WHERE eui = '' @ print_unsigned eui) = SqlRows (home # rest) \<and>
    cell home 0 = Some h \<and> sscanf_dec h = Some (netid :: u32) \<and> cell home 1 = Some i \<and> mid = store (sscanf_dec i) (- 1) \<and>
    sscanf_hex sender = Some (asking :: u32) \<and>
    js_db e (''SELECT NetID FROM roamingNetIDs WHERE moteID = '' @ print_unsigned (mid :: u64)) = SqlRows rows \<and>
    row \<in> set rows \<and> cell row 0 = Some t \<and> sscanf_dec t = Some asking \<and>
    ans = [(''HNetID'', JStr (zero_pad 6 (print_hex netid)))])"
proof -
  have r: "r = Success" using assms
    unfolding getHomeNS_def by (fastforce split: option.splits sqlres.splits list.splits sum.splits if_splits)
  obtain asking rows netid mid row t where "home_of e inp netid mid" "sscanf_hex sender = Some (asking :: u32)"
    "js_db e (''SELECT NetID FROM roamingNetIDs WHERE moteID = '' @ print_unsigned (mid :: u64)) = SqlRows rows"
    "row \<in> set rows" "cell row 0 = Some t" "sscanf_dec t = Some asking" "ans = [(''HNetID'', JStr (zero_pad 6 (print_hex (netid :: u32))))]"
    by (rule getHomeNS_Success [OF assms(1) [unfolded r]])
  then show ?thesis using r unfolding home_of_def by blast
qed

theorem home_network_only_for_partners_witness:
  "\<exists>e. getHomeNS e [(''DevEUI'', JStr ''5'')] ''9'' = Some (Success, [(''HNetID'', JStr ''000003'')]) \<and> (sscanf_hex ''9'' :: u32 option) = Some 9"
proof -
  let ?e = "js0\<lparr>js_db := home_db0\<rparr>"
  have h: "getHomeNS ?e [(''DevEUI'', JStr ''5'')] ''9'' = Some (Success, [(''HNetID'', JStr ''000003'')])" by (rule home0)
  from home_network_only_for_partners [OF h] have "\<exists>a. (sscanf_hex ''9'' :: u32 option) = Some a" by blast
  then show ?thesis using h scan9 by blast
qed

text \<open>
  C32. An answer of the name service is read within its buffer: whatever an answer that fits the
  buffer holds, cut off or with lengths that run over its end, getRecord is defined, unless the
  answer contains an octet 255, which as the length of a text makes the parser of NAPTR records
  write behind its arrays.
\<close>

theorem answer_is_read_within_buffer:
  assumes "d_search d name typ = Some (len, m)" "len \<le> length m" "\<And>q. q < len \<Longrightarrow> m ! q \<noteq> 255"
  shows "\<exists>rl. getRecord d name typ = Some rl"
  using getRecord_in [OF assms] by blast

theorem answer_is_read_within_buffer_witness:
  "\<exists>rl. getRecord (dns0\<lparr>d_search := \<lambda>name t. Some (20, replicate 20 1)\<rparr>) ''js'' T_NAPTR = Some rl"
  by (rule answer_is_read_within_buffer [where len = 20 and m = "replicate 20 1"]) simp_all

text \<open>
  C33. Every sequence of MAC commands of at most 253 octets, known or unknown, complete or cut
  off, is parsed to its end, also by the region's own parser of start-up answers, when the region
  of the uplink is known, the regions are those of a configuration, a token has its 42 digits, and
  the buffer holds two octets behind the sequence, which the frame's integrity code guarantees.
  The index of the parser has 8 bits and wraps at 256, so that longer sequences may not end; a
  frame carries at most 242 octets of commands.
\<close>

theorem mac_commands_always_end:
  assumes "unat len \<le> 253" "unat len + 1 < length rx" "e_RFRegion e \<noteq> None" "\<And>t. token = Some t \<Longrightarrow> 40 \<le> length t"
    and "ns_conf_json ce j c = Some (k, c')" "nc_regions c = []" "e_regions e = nc_regions c'"
  shows "\<exists>s' sent discard. parse_mac_command e stack token rx len s = Some (s', sent, discard)"
proof -
  have "f b z \<noteq> None" if "start_callback (e_regions e) (e_RFRegion e) = Some f" "length b \<le> 253" for f b z
    using plain_callbacks_end [OF configured_regions [OF assms(5,6)] that(1) [unfolded assms(7)] that(2)] .
  with parse_mac_command_runs [of len rx e token stack s] assms(1-4) show ?thesis by fastforce
qed

theorem mac_commands_always_end_witness:
  "\<exists>rl s' sent discard. map rg_RFRegion rl = [Some ''AS923''] \<and>
     parse_mac_command (env0\<lparr>e_regions := rl\<rparr>) 0 None [6, 1, 0x55, 3, 0, 0] 4 s0 = Some (s', sent, discard)"
proof -
  obtain c' where c': "ns_conf_json conf_env0 conf_json0 conf_start = Some (0, c')" "map rg_RFRegion (nc_regions c') = [Some ''AS923'']"
    using conf0_read by (elim exE conjE)
  have n: "nc_regions conf_start = []" by (simp add: conf_start_def)
  have "\<exists>s' sent discard. parse_mac_command (env0\<lparr>e_regions := nc_regions c'\<rparr>) 0 None [6, 1, 0x55, 3, 0, 0] 4 s0 = Some (s', sent, discard)"
    by (rule mac_commands_always_end [OF _ _ _ _ c'(1) n]) (simp_all add: env0_def)
  with c'(2) show ?thesis by (intro exI [of _ "nc_regions c'"]) simp
qed

text \<open>
  C34. Adaptive data rate only raises the rate and cuts the power, never past the region's limits
  (a rate or power step at or beyond its limit stays as it is), and only when the last three
  signal readings are steady; the margin it spends, 2.5 dB a rate and 3 dB a power step, stays
  within 2.5 dB of their mean, and power is cut only at the region's top rate.
\<close>

theorem adr_spends_measured_margin:
  assumes "adr_choice rp s d = (d', i')"
  shows "d \<le> d' \<and> txpwr_idx s \<le> i' \<and> d' \<le> max d (uplink_dr_max rp) \<and>
    i' \<le> max (txpwr_idx s) (max_txpwr_idx rp) \<and>
    ((d', i') \<noteq> (d, txpwr_idx s) \<longrightarrow> snr_stable s \<and> d \<noteq> MAX_DATARATES \<and>
      5 / 2 * (of_nat (unat d') - of_nat (unat d)) + 3 * (of_nat (unat i') - of_nat (unat (txpwr_idx s))) < snr_mean s + 5 / 2) \<and>
    (i' \<noteq> txpwr_idx s \<longrightarrow> uplink_dr_max rp \<le> d')"
  using adr_choice_safe [OF assms] by blast

theorem adr_spends_measured_margin_witness:
  "\<exists>d' i'. adr_choice (rp0\<lparr>uplink_dr_max := 5, max_txpwr_idx := 7\<rparr>) (s0\<lparr>snr_history := [4, 4, 4]\<rparr>) 0 = (d', i') \<and> d' \<le> 5 \<and> d' \<noteq> 0"
proof -
  obtain d' i' where c: "adr_choice (rp0\<lparr>uplink_dr_max := 5, max_txpwr_idx := 7\<rparr>) (s0\<lparr>snr_history := [4, 4, 4]\<rparr>) 0 = (d', i')" by fastforce
  have "d' \<noteq> 0" using c adr0_raises by auto
  then show ?thesis using c adr_spends_measured_margin [OF c] by auto
qed



text \<open>
  C36. The search for a server comes to an end, whatever random numbers are drawn, when the
  answers hold records of the kind that was asked for, no address is longer than its buffer and no
  record sends the search on to another name: either with 0 and an address to send to, or with -
  1. Not every server is tried: a number drawn from a larger range than the records that are left
  ends the search early.
\<close>

theorem server_search_ends:
  assumes "\<And>t. \<exists>sl. getRecord d t T_SRV = Some sl \<and> (\<forall>v \<in> set sl. srv_fits (rl_vp v))"
    and "getRecord d name T_NAPTR = Some nl" "\<forall>v \<in> set nl. naptr_ends (rl_vp v)"
    and "local_lookup_post (d_hosts d) name \<noteq> None"
  shows "\<exists>r st'. resolve_post d name st = Some (r, st') \<and> (r = 0 \<and> rs_url st' \<noteq> None \<or> r = - 1)"
  using resolve_ends [OF assms] by (auto simp: settled_def)

theorem server_search_ends_witness:
  "\<exists>r st'. resolve_post dns0 ''js'' rs0 = Some (r, st') \<and> (r = 0 \<and> rs_url st' \<noteq> None \<or> r = - 1)"
  by (rule server_search_ends [OF dns0_servers_fit naptr_read]) (simp_all add: node_def naptr_ends_def naptr0_def dns0_def)

text \<open>
  C37. The servers of a name are tried from the most to the least preferred one, and none ends the
  search: when the priorities rise in the order of the answer, the address the message is sent to
  is that of the last server.
\<close>

theorem last_server_is_used:
  assumes "getRecord d name T_SRV = Some sl" "map rl_vp sl = map (\<lambda>s. Some (SRV s)) ss" "ss \<noteq> []"
    and "sorted_wrt (\<lambda>s t. srv_priority s < srv_priority t) ss" "d_curl d" "\<forall>s \<in> set ss. length (url_of s) < 296"
  shows "map_option (\<lambda>(found, r, st1). (found, r, rs_url st1)) (follow_srv d name ret st) = Some (True, 0, Some (url_of (last ss)))"
proof -
  have "sl \<noteq> []" using assms(2,3) by auto
  with srv_loop_last [OF assms(5,6,4,3), of 0 ret st] assms(1,2) show ?thesis by (auto simp: follow_srv_def)
qed

theorem last_server_is_used_witness:
  "map_option (\<lambda>(found, r, st1). (found, r, rs_url st1)) (follow_srv dns0 ''js'' (- 1) rs0) = Some (True, 0, Some (url_of (server_of 2 8081)))"
  using last_server_is_used [OF srv_read, where ss = "[server_of 1 8080, server_of 2 8081]" and ret = "- 1" and st = rs0]
  by (simp add: node_def server_of_def dns0_def short_name_fits)



text \<open>
  C39. Application payloads survive base64: decoding the encoding of a non-empty payload returns
  it, and characters outside the alphabet in between, such as line breaks, change nothing.
\<close>

theorem base64_comes_back:
  assumes "b \<noteq> []" "length b < 2 ^ 60" "base64_encode b = Some text"
    and "filter (\<lambda>c. dtable c \<noteq> 0x80) broken = text"
  shows "base64_decode broken = Some b"
  using decode_skips [of broken] base64_decode_groups [OF assms(1)] base64_encode_ok [OF assms(2)] assms(3,4) by simp

theorem base64_comes_back_witness: "base64_decode (''A'' @ [CHR 0x0a] @ ''AEC'') = Some [0, 1, 2]"
proof -
  have "base64_encode [0, 1, 2] = Some ''AAEC''" "filter (\<lambda>c. dtable c \<noteq> 0x80) (''A'' @ [CHR 0x0a] @ ''AEC'') = ''AAEC''"
    by code_simp+
  then show ?thesis by (rule base64_comes_back [rotated 2]) simp_all
qed

text \<open>
  C40. The nonce of an accepted request on a 1.1 device is not recorded: the statement sent
  increments the column by one, so that as long as the nonce is more than one above the last one,
  the same request passes the nonce check again.
\<close>

theorem join_nonce_gap_allows_replay:
  assumes "js_nonce11 e eui rq = Some (Inr jn, qs)" "last_nonce e eui rq = Some l"
    and "last_nonce e' eui rq = Some (l + 1)" "l + 1 < ucast (rq_nonce rq)" "js_nonce11 e' eui rq = Some (r, qs')"
  shows "qs = [''UPDATE joinmotes SET '' @ nonce_column (rq_type rq) @ '' = '' @ nonce_column (rq_type rq) @
      '' + 1, joinNonce = joinNonce + 1 WHERE eui = '' @ print_unsigned eui] \<and>
    (r = Inl JoinReqFailed \<or> (\<exists>jn'. r = Inr jn'))"
  using js_nonce11_fresh(2) [OF assms(1)] js_nonce11_accepts [OF assms(5,3,4)] by (simp add: nonce_update_def Let_def)

theorem join_nonce_gap_allows_replay_witness:
  "\<exists>jn'. js_nonce11 (js0\<lparr>js_db := \<lambda>_. SqlRows [[Some ''4'', Some ''9'']]\<rparr>) 5 rq0 = Some (Inr jn', [''UPDATE joinmotes SET DevNonce_last = DevNonce_last + 1, joinNonce = joinNonce + 1 WHERE eui = 5''])"
proof -
  let ?e = "\<lambda>a b. js0\<lparr>js_db := \<lambda>_. SqlRows [[Some a, Some b]]\<rparr>"
  have five: "print_unsigned (5 :: u64) = ''5''" by code_simp
  have run: "js_nonce11 (?e ''3'' ''8'') 5 rq0 = Some (Inr 8, [''UPDATE joinmotes SET DevNonce_last = DevNonce_last + 1, joinNonce = joinNonce + 1 WHERE eui = 5''])"
    "js_nonce11 (?e ''4'' ''9'') 5 rq0 = Some (Inr 9, [''UPDATE joinmotes SET DevNonce_last = DevNonce_last + 1, joinNonce = joinNonce + 1 WHERE eui = 5''])"
    by (simp_all add: js_nonce11_def nonce_row_def nonce_update_def Let_def cell_def rq0_def nonce_column_def five scans1)
  have l: "last_nonce (?e ''3'' ''8'') 5 rq0 = Some 3" "last_nonce (?e ''4'' ''9'') 5 rq0 = Some (3 + 1)"
    by (simp_all add: last_nonce_def nonce_row_def cell_def scans1)
  from join_nonce_gap_allows_replay [OF run(1) l _ run(2)] show ?thesis using run(2) by (simp add: rq0_def)
qed

end
